(* ===== verification/Prelude.thy ===== *)
theory Prelude
  imports Complex_Main
begin

text \<open>
  Shared vocabulary of the development: the exceptions a Python function of the
  program may raise, the result type of a fallible function, sequencing of fallible
  calls, the printing of integers and the joining of strings, and the generic
  lemmas the component theories use through the collections declared here.
\<close>

named_theorems res_simps \<open>equations of the error monad\<close>
named_theorems text_simps \<open>facts on printed numbers and joined strings\<close>

subsection \<open>Exceptions and results\<close>

text \<open>
  One constructor per exception class the modelled code raises or catches, with the
  message where the code reads it back (\<open>str(exc)\<close>) or tests it.
\<close>

datatype exn =
    KeyError string
  | ValueError string
  | TypeError string
  | AttributeError string
  | IndexError
  | ValidationError string
  | LookupError string
  | RuntimeError string
  | FileNotFoundError string
  | FileExistsError string
  | CsvError string
  | OSError string
  | IntegrityError string
  | ToolRejection string string
  | MCPClientError string "string option" "int option"
  | WorkflowError string
  | IncidentNotFound string
  | ApprovalNotFound string
  | ApprovalConflict string
  | AuthorizationError string
  | ApprovalTokenError string
  | ApprovalMismatch string
  | AgentError string
  | ProviderError string
  | ZeroDivisionError string
  | HTTPException nat string
  | StopIteration

type_synonym 'a res = "exn + 'a"

text \<open>The text of an exception, as \<open>str(exc)\<close> gives it.\<close>

fun exn_text :: "exn \<Rightarrow> string" where
  "exn_text (KeyError k) = CHR 0x27 # k @ [CHR 0x27]"
| "exn_text (ValueError m) = m"
| "exn_text (TypeError m) = m"
| "exn_text (AttributeError m) = m"
| "exn_text IndexError = ''list index out of range''"
| "exn_text (ValidationError m) = m"
| "exn_text (LookupError m) = m"
| "exn_text (RuntimeError m) = m"
| "exn_text (FileNotFoundError m) = m"
| "exn_text (FileExistsError m) = m"
| "exn_text (CsvError m) = m"
| "exn_text (OSError m) = m"
| "exn_text (IntegrityError m) = m"
| "exn_text (ToolRejection c d) = d"
| "exn_text (MCPClientError m c s) = m"
| "exn_text (WorkflowError m) = m"
| "exn_text (IncidentNotFound m) = CHR 0x27 # m @ [CHR 0x27]"
| "exn_text (ApprovalNotFound m) = CHR 0x27 # m @ [CHR 0x27]"
| "exn_text (ApprovalConflict m) = m"
| "exn_text (AuthorizationError m) = m"
| "exn_text (ApprovalTokenError m) = m"
| "exn_text (ApprovalMismatch m) = m"
| "exn_text (AgentError m) = m"
| "exn_text (ProviderError m) = m"
| "exn_text (ZeroDivisionError m) = m"
| "exn_text (HTTPException n m) = m"
| "exn_text StopIteration = []"

text \<open>Sequencing: the second call runs on the first one's value, an exception ends both.\<close>

definition bindR :: "'e + 'a \<Rightarrow> ('a \<Rightarrow> 'e + 'b) \<Rightarrow> 'e + 'b" where
  "bindR r f = (case r of Inl e \<Rightarrow> Inl e | Inr x \<Rightarrow> f x)"

lemma bindR_Inl [simp, res_simps]: "bindR (Inl e) f = Inl e"
  by (simp add: bindR_def)

lemma bindR_Inr [simp, res_simps]: "bindR (Inr x) f = f x"
  by (simp add: bindR_def)

lemma bindR_eq_Inr [res_simps]: "bindR r f = Inr y \<longleftrightarrow> (\<exists>x. r = Inr x \<and> f x = Inr y)"
  by (cases r) auto

lemma bindR_eq_Inl [res_simps]:
  "bindR r f = Inl e \<longleftrightarrow> r = Inl e \<or> (\<exists>x. r = Inr x \<and> f x = Inl e)"
  by (cases r) auto

lemma bindR_assoc: "bindR (bindR r f) g = bindR r (\<lambda>x. bindR (f x) g)"
  by (cases r) auto

lemma bindR_cong [fundef_cong]:
  "r = r' \<Longrightarrow> (\<And>x. r' = Inr x \<Longrightarrow> f x = g x) \<Longrightarrow> bindR r f = bindR r' g"
  by (cases r') auto

text \<open>A fallible function applied to every element in order, stopping at the first exception.\<close>

fun mapR :: "('a \<Rightarrow> 'e + 'b) \<Rightarrow> 'a list \<Rightarrow> 'e + 'b list" where
  "mapR f [] = Inr []"
| "mapR f (x # xs) = bindR (f x) (\<lambda>y. bindR (mapR f xs) (\<lambda>ys. Inr (y # ys)))"

lemma mapR_length: "mapR f xs = Inr ys \<Longrightarrow> length ys = length xs"
  by (induction xs arbitrary: ys) (auto simp: res_simps)

lemma mapR_Inr_map: "(\<And>x. x \<in> set xs \<Longrightarrow> f x = Inr (g x)) \<Longrightarrow> mapR f xs = Inr (map g xs)"
  by (induction xs) auto

definition is_ok :: "'e + 'a \<Rightarrow> bool" where
  "is_ok r = (case r of Inl _ \<Rightarrow> False | Inr _ \<Rightarrow> True)"

lemma is_ok_simps [simp]: "is_ok (Inr x)" "\<not> is_ok (Inl e)"
  by (simp_all add: is_ok_def)

text \<open>
  Calls that also change a store: the store after the call is there whether the call
  returned or raised, as with the program's databases.
\<close>

type_synonym ('w, 'a) eff = "'w \<Rightarrow> 'a res \<times> 'w"

definition retE :: "'a \<Rightarrow> ('w, 'a) eff" where
  "retE x = (\<lambda>w. (Inr x, w))"

definition liftE :: "'a res \<Rightarrow> ('w, 'a) eff" where
  "liftE r = (\<lambda>w. (r, w))"

definition bindE :: "('w, 'a) eff \<Rightarrow> ('a \<Rightarrow> ('w, 'b) eff) \<Rightarrow> ('w, 'b) eff" where
  "bindE m f = (\<lambda>w. case m w of (Inl e, w') \<Rightarrow> (Inl e, w') | (Inr x, w') \<Rightarrow> f x w')"

definition updE :: "('w \<Rightarrow> 'w) \<Rightarrow> ('w, unit) eff" where
  "updE f = (\<lambda>w. (Inr (), f w))"

definition getE :: "('w \<Rightarrow> 'a) \<Rightarrow> ('w, 'a) eff" where
  "getE f = (\<lambda>w. (Inr (f w), w))"

named_theorems eff_simps \<open>equations of the store monad\<close>

lemma retE_eq [simp, eff_simps]: "retE x w = (Inr x, w)"
  by (simp add: retE_def)

lemma liftE_eq [simp, eff_simps]: "liftE r w = (r, w)"
  by (simp add: liftE_def)

lemma updE_eq [simp, eff_simps]: "updE f w = (Inr (), f w)"
  by (simp add: updE_def)

lemma getE_eq [simp, eff_simps]: "getE f w = (Inr (f w), w)"
  by (simp add: getE_def)

lemma bindE_eq_Inr [eff_simps]:
  "bindE m f w = (Inr y, w') \<longleftrightarrow> (\<exists>x w1. m w = (Inr x, w1) \<and> f x w1 = (Inr y, w'))"
  by (auto simp: bindE_def split: prod.splits sum.splits)

lemma bindE_eq_Inl [eff_simps]:
  "bindE m f w = (Inl e, w') \<longleftrightarrow>
   m w = (Inl e, w') \<or> (\<exists>x w1. m w = (Inr x, w1) \<and> f x w1 = (Inl e, w'))"
  by (auto simp: bindE_def split: prod.splits sum.splits)

lemma bindE_Inr [simp]: "m w = (Inr x, w1) \<Longrightarrow> bindE m f w = f x w1"
  by (simp add: bindE_def)

lemma bindE_Inl [simp]: "m w = (Inl e, w1) \<Longrightarrow> bindE m f w = (Inl e, w1)"
  by (simp add: bindE_def)

lemma snd_bindE:
  "snd (bindE m f w) = (case fst (m w) of Inl _ \<Rightarrow> snd (m w) | Inr x \<Rightarrow> snd (f x (snd (m w))))"
  by (simp add: bindE_def split: prod.splits sum.splits)

lemma fst_bindE:
  "fst (bindE m f w) = (case fst (m w) of Inl e \<Rightarrow> Inl e | Inr x \<Rightarrow> fst (f x (snd (m w))))"
  by (simp add: bindE_def split: prod.splits sum.splits)

lemma bindE_cong [fundef_cong]:
  "m = m' \<Longrightarrow> w = w' \<Longrightarrow> (\<And>x w1. m' w' = (Inr x, w1) \<Longrightarrow> f x w1 = g x w1) \<Longrightarrow>
   bindE m f w = bindE m' g w'"
  by (auto simp: bindE_def split: prod.splits sum.splits)

subsection \<open>Printed numbers\<close>

definition digit_char :: "nat \<Rightarrow> char" where
  "digit_char d = char_of (48 + d)"

fun nat_str :: "nat \<Rightarrow> string" where
  "nat_str n = (if n < 10 then [digit_char n] else nat_str (n div 10) @ [digit_char (n mod 10)])"

declare nat_str.simps [simp del]

definition int_str :: "int \<Rightarrow> string" where
  "int_str i = (if i < 0 then CHR ''-'' # nat_str (nat (- i)) else nat_str (nat i))"

text \<open>Zero-padded to a width, as \<open>f"{n:05d}"\<close> prints a natural number.\<close>

definition nat_str_pad :: "nat \<Rightarrow> nat \<Rightarrow> string" where
  "nat_str_pad w n = (let s = nat_str n in replicate (w - length s) (CHR ''0'') @ s)"

definition is_digit_char :: "char \<Rightarrow> bool" where
  "is_digit_char c \<longleftrightarrow> 48 \<le> (of_char c :: nat) \<and> (of_char c :: nat) \<le> 57"

definition digit_val :: "char \<Rightarrow> nat" where
  "digit_val c = of_char c - 48"

definition digits_val :: "string \<Rightarrow> nat" where
  "digits_val s = foldl (\<lambda>a c. 10 * a + digit_val c) 0 s"

lemma of_char_digit_char: "d < 10 \<Longrightarrow> (of_char (digit_char d) :: nat) = 48 + d"
  by (simp add: digit_char_def)

lemma digit_val_digit_char [simp, text_simps]: "d < 10 \<Longrightarrow> digit_val (digit_char d) = d"
  by (simp add: digit_val_def of_char_digit_char)

lemma is_digit_digit_char [simp, text_simps]: "d < 10 \<Longrightarrow> is_digit_char (digit_char d)"
  by (simp add: is_digit_char_def of_char_digit_char)

lemma nat_str_digits: "c \<in> set (nat_str n) \<Longrightarrow> is_digit_char c"
proof (induction n rule: nat_str.induct)
  case (1 n)
  then show ?case
    by (subst (asm) (2) nat_str.simps) (auto split: if_splits)
qed

lemma digits_val_snoc [text_simps]: "digits_val (s @ [c]) = 10 * digits_val s + digit_val c"
  by (simp add: digits_val_def)

lemma digits_val_nat_str [simp, text_simps]: "digits_val (nat_str n) = n"
proof (induction n rule: nat_str.induct)
  case (1 n)
  show ?case
  proof (cases "n < 10")
    case True
    then show ?thesis
      by (subst nat_str.simps) (simp add: digits_val_def)
  next
    case False
    then have "digits_val (nat_str (n div 10)) = n div 10"
      by (rule "1.IH")
    with False show ?thesis
      by (subst nat_str.simps) (simp add: digits_val_snoc)
  qed
qed

lemma nat_str_inj [simp, text_simps]: "nat_str m = nat_str n \<longleftrightarrow> m = n"
  by (metis digits_val_nat_str)

lemma nat_str_nonempty [simp, text_simps]: "nat_str n \<noteq> []"
  by (subst nat_str.simps) simp

lemma length_nat_str_pos: "0 < length (nat_str n)"
  by simp

lemma digits_val_replicate_zero: "digits_val (replicate k (CHR ''0'') @ s) = digits_val s"
  by (induction k) (simp_all add: digits_val_def digit_val_def)

lemma nat_str_pad_inj [simp, text_simps]: "nat_str_pad w m = nat_str_pad w n \<longleftrightarrow> m = n"
  by (metis digits_val_nat_str digits_val_replicate_zero nat_str_pad_def)

lemma int_str_inj [simp, text_simps]: "int_str i = int_str j \<longleftrightarrow> i = j"
proof -
  have minus: "CHR ''-'' # s \<noteq> nat_str n" for s n
  proof
    assume eq: "CHR ''-'' # s = nat_str n"
    have "is_digit_char (CHR ''-'')"
      by (rule nat_str_digits [of _ n]) (simp add: eq [symmetric])
    then show False by (simp add: is_digit_char_def)
  qed
  show ?thesis
    using minus minus [symmetric] by (auto simp: int_str_def)
qed

subsection \<open>Joining and splitting strings\<close>

fun join :: "string \<Rightarrow> string list \<Rightarrow> string" where
  "join sep [] = []"
| "join sep [x] = x"
| "join sep (x # y # ys) = x @ sep @ join sep (y # ys)"

text \<open>\<open>split_at c s\<close>: the text before the first \<open>c\<close> and, when there is one, the text after it.\<close>

fun split_at :: "char \<Rightarrow> string \<Rightarrow> string \<times> string option" where
  "split_at c [] = ([], None)"
| "split_at c (x # xs) =
     (if x = c then ([], Some xs) else (let (a, b) = split_at c xs in (x # a, b)))"

lemma split_at_append [simp, text_simps]: "c \<notin> set a \<Longrightarrow> split_at c (a @ c # b) = (a, Some b)"
  by (induction a) auto

lemma split_at_none [simp]: "c \<notin> set a \<Longrightarrow> split_at c a = (a, None)"
  by (induction a) auto

text \<open>
  A join with a one-character separator is injective on lists of the same length whose
  parts do not hold the separator: the parts can be read back.
\<close>

lemma append_sep_eq:
  fixes c :: char
  assumes "c \<notin> set a" "c \<notin> set b"
  shows "a @ c # x = b @ c # y \<longleftrightarrow> a = b \<and> x = y"
proof
  assume "a @ c # x = b @ c # y"
  then have "split_at c (a @ c # x) = split_at c (b @ c # y)" by simp
  then show "a = b \<and> x = y" using assms by simp
qed simp

lemma join_inj:
  assumes "length xs = length ys"
    and "\<And>x. x \<in> set xs \<Longrightarrow> c \<notin> set x" and "\<And>y. y \<in> set ys \<Longrightarrow> c \<notin> set y"
  shows "join [c] xs = join [c] ys \<longleftrightarrow> xs = ys"
  using assms
proof (induction xs ys rule: list_induct2)
  case Nil
  then show ?case by simp
next
  case (Cons x xs y ys)
  show ?case
  proof (cases xs)
    case Nil
    with Cons.hyps show ?thesis by simp
  next
    case (Cons x' xs')
    then obtain y' ys' where ys: "ys = y' # ys'"
      using Cons.hyps by (cases ys) auto
    have "join [c] (x # xs) = join [c] (y # ys) \<longleftrightarrow> x = y \<and> join [c] xs = join [c] ys"
      using Cons.prems by (simp add: Cons ys append_sep_eq)
    then show ?thesis
      using Cons.IH Cons.prems by auto
  qed
qed

text \<open>Python's \<open>str.strip()\<close> on ASCII white space.\<close>

definition is_space :: "char \<Rightarrow> bool" where
  "is_space c \<longleftrightarrow> (of_char c :: nat) \<in> {9, 10, 11, 12, 13, 28, 29, 30, 31, 32, 133, 160}"

definition strip :: "string \<Rightarrow> string" where
  "strip s = rev (dropWhile is_space (rev (dropWhile is_space s)))"

definition starts_with :: "string \<Rightarrow> string \<Rightarrow> bool" where
  "starts_with p s \<longleftrightarrow> take (length p) s = p"

definition lower_char :: "char \<Rightarrow> char" where
  "lower_char c = (let n = (of_char c :: nat) in if 65 \<le> n \<and> n \<le> 90 then char_of (n + 32) else c)"

definition upper_char :: "char \<Rightarrow> char" where
  "upper_char c = (let n = (of_char c :: nat) in if 97 \<le> n \<and> n \<le> 122 then char_of (n - 32) else c)"

definition lower :: "string \<Rightarrow> string" where
  "lower s = map lower_char s"

text \<open>\<open>sub in s\<close> for strings.\<close>

fun contains :: "string \<Rightarrow> string \<Rightarrow> bool" where
  "contains p [] \<longleftrightarrow> p = []"
| "contains p (c # s) \<longleftrightarrow> starts_with p (c # s) \<or> contains p s"

lemma set_strip: "set (strip s) \<subseteq> set s"
proof -
  have "set (strip s) \<subseteq> set (dropWhile is_space s)"
    unfolding strip_def by (metis set_dropWhileD set_rev subsetI)
  then show ?thesis by (meson set_dropWhileD subset_iff)
qed

text \<open>\<open>s.split(c)\<close>: all the parts between the separators.\<close>

fun split_on :: "char \<Rightarrow> string \<Rightarrow> string list" where
  "split_on c [] = [[]]"
| "split_on c (x # xs) =
     (if x = c then [] # split_on c xs
      else case split_on c xs of [] \<Rightarrow> [[x]] | w # ws \<Rightarrow> (x # w) # ws)"

lemma split_on_plain: "c \<notin> set s \<Longrightarrow> split_on c s = [s]"
  by (induction s) auto

lemma split_on_append: "c \<notin> set a \<Longrightarrow> split_on c (a @ c # b) = a # split_on c b"
  by (induction a) auto

lemma split_on_join:
  assumes "xs \<noteq> []" and "\<And>x. x \<in> set xs \<Longrightarrow> c \<notin> set x"
  shows "split_on c (join [c] xs) = xs"
  using assms
proof (induction xs)
  case (Cons x xs)
  then show ?case
    by (cases xs) (simp_all add: split_on_plain split_on_append)
qed simp

subsection \<open>Lists\<close>

text \<open>Python's clamped index \<open>xs[min(max(i, 0), len(xs) - 1)]\<close> on a non-empty list.\<close>

definition clamp_index :: "int \<Rightarrow> nat \<Rightarrow> nat" where
  "clamp_index i n = nat (min (max i 0) (int n - 1))"

lemma clamp_index_less: "0 < n \<Longrightarrow> clamp_index i n < n"
  by (auto simp: clamp_index_def)

lemma nth_clamp_in_set: "xs \<noteq> [] \<Longrightarrow> xs ! clamp_index i (length xs) \<in> set xs"
  by (simp add: clamp_index_less)

text \<open>Appending an element unless one with the same key is there (replay-safe append).\<close>

definition append_once :: "('a \<Rightarrow> 'k) \<Rightarrow> 'a \<Rightarrow> 'a list \<Rightarrow> 'a list" where
  "append_once key x xs = (if key x \<in> key ` set xs then xs else xs @ [x])"

lemma append_once_distinct: "distinct (map key xs) \<Longrightarrow> distinct (map key (append_once key x xs))"
  by (auto simp: append_once_def)

lemma append_once_idem [simp]: "append_once key x (append_once key x xs) = append_once key x xs"
  by (auto simp: append_once_def)

lemma append_once_keys: "key ` set (append_once key x xs) = insert (key x) (key ` set xs)"
  by (auto simp: append_once_def)

lemma append_once_length: "length (append_once key x xs) \<le> Suc (length xs)"
  by (simp add: append_once_def)

lemma append_once_prefix: "\<exists>ys. append_once key x xs = xs @ ys"
  by (simp add: append_once_def)

lemma append_once_mono: "set xs \<subseteq> set (append_once key x xs)"
  by (auto simp: append_once_def)

text \<open>First occurrences in order, as \<open>dict.fromkeys\<close> keeps them.\<close>

fun dedup :: "'a list \<Rightarrow> 'a list" where
  "dedup [] = []"
| "dedup (x # xs) = x # filter (\<lambda>y. y \<noteq> x) (dedup xs)"

lemma set_dedup [simp]: "set (dedup xs) = set xs"
  by (induction xs) auto

lemma distinct_dedup [simp]: "distinct (dedup xs)"
  by (induction xs) auto

end
