(* ===== verification/PyJson.thy ===== *)
theory PyJson
  imports Prelude "HOL-Library.Char_ord" "HOL-Library.List_Lexorder"
begin

text \<open>
  Python's dynamically typed values, as the program reads them from JSON fixtures and
  passes them between its parts: the value type, dictionaries in insertion order, the
  built-in conversions (\<open>bool\<close>, \<open>str\<close>, \<open>float\<close>, \<open>int\<close>, \<open>list\<close>, \<open>dict\<close>) with
  the exceptions they raise, and the compact key-sorted JSON printer and the parser the
  code calls through \<open>json.dumps\<close> and \<open>json.loads\<close>. A float is the rational its
  decimal literal denotes; characters are code points below 256.
\<close>

datatype json =
    JNull
  | JBool bool
  | JInt int
  | JFloat rat
  | JStr string
  | JArr "json list"
  | JObj "(string \<times> json) list"

type_synonym dict = "(string \<times> json) list"

subsection \<open>Dictionaries\<close>

text \<open>\<open>d.get(k)\<close> and \<open>d.get(k, v)\<close>, \<open>d[k]\<close>, \<open>d[k] = v\<close> and \<open>d.update(e)\<close>.\<close>

definition dget :: "string \<Rightarrow> dict \<Rightarrow> json" where
  "dget k d = (case map_of d k of None \<Rightarrow> JNull | Some v \<Rightarrow> v)"

definition dget_or :: "string \<Rightarrow> json \<Rightarrow> dict \<Rightarrow> json" where
  "dget_or k v d = (case map_of d k of None \<Rightarrow> v | Some w \<Rightarrow> w)"

definition dindex :: "string \<Rightarrow> dict \<Rightarrow> json res" where
  "dindex k d = (case map_of d k of None \<Rightarrow> Inl (KeyError k) | Some v \<Rightarrow> Inr v)"

fun dset :: "string \<Rightarrow> 'v \<Rightarrow> (string \<times> 'v) list \<Rightarrow> (string \<times> 'v) list" where
  "dset k v [] = [(k, v)]"
| "dset k v ((k', w) # d) = (if k = k' then (k, v) # d else (k', w) # dset k v d)"

definition dupdate :: "dict \<Rightarrow> dict \<Rightarrow> dict" where
  "dupdate d e = foldl (\<lambda>a (k, v). dset k v a) d e"

lemma map_of_dset [simp]: "map_of (dset k v d) = (map_of d)(k \<mapsto> v)"
  by (induction k v d rule: dset.induct) auto

lemma keys_dset: "map fst (dset k v d) = (if k \<in> fst ` set d then map fst d else map fst d @ [k])"
  by (induction k v d rule: dset.induct) auto

lemma distinct_dset: "distinct (map fst d) \<Longrightarrow> distinct (map fst (dset k v d))"
  by (auto simp: keys_dset)

lemma set_keys_dset [simp]: "fst ` set (dset k v d) = insert k (fst ` set d)"
proof -
  have "set (map fst (dset k v d)) = insert k (set (map fst d))"
    by (auto simp: keys_dset)
  then show ?thesis by simp
qed

lemma set_dset_subset: "set (dset k v d) \<subseteq> insert (k, v) (set d)"
  by (induction k v d rule: dset.induct) auto

lemma length_dset: "length (dset k v d) = (if k \<in> fst ` set d then length d else Suc (length d))"
  by (metis keys_dset length_append_singleton length_map)

lemma dget_dset [simp]: "dget k' (dset k v d) = (if k' = k then v else dget k' d)"
  by (simp add: dget_def)

lemma dupdate_Nil [simp]: "dupdate d [] = d"
  by (simp add: dupdate_def)

lemma dupdate_Cons [simp]: "dupdate d ((k, v) # e) = dupdate (dset k v d) e"
  by (simp add: dupdate_def)

lemma map_of_dupdate: "map_of (dupdate d e) = map_of d ++ map_of (rev e)"
  by (induction e arbitrary: d) (simp_all add: dupdate_def split_def del: fun_upd_apply)

lemma dset_fresh: "k \<notin> fst ` set d \<Longrightarrow> dset k v d = d @ [(k, v)]"
  by (induction k v d rule: dset.induct) auto

lemma dupdate_fresh:
  "distinct (map fst e) \<Longrightarrow> fst ` set d \<inter> fst ` set e = {} \<Longrightarrow> dupdate d e = d @ e"
proof (induction e arbitrary: d)
  case Nil
  then show ?case by simp
next
  case (Cons p e)
  obtain k v where p: "p = (k, v)" by fastforce
  show ?case
    using Cons.prems Cons.IH [of "dset k v d"] by (auto simp: p dset_fresh)
qed

subsection \<open>Truth, printing and conversion\<close>

fun truthy :: "json \<Rightarrow> bool" where
  "truthy JNull = False"
| "truthy (JBool b) = b"
| "truthy (JInt i) = (i \<noteq> 0)"
| "truthy (JFloat r) = (r \<noteq> 0)"
| "truthy (JStr s) = (s \<noteq> [])"
| "truthy (JArr xs) = (xs \<noteq> [])"
| "truthy (JObj d) = (d \<noteq> [])"

text \<open>\<open>x or y\<close> on values.\<close>

definition py_or :: "json \<Rightarrow> json \<Rightarrow> json" where
  "py_or x y = (if truthy x then x else y)"

text \<open>Digits after the point, at most \<open>k\<close> of them, without trailing zeros.\<close>

fun frac_str :: "nat \<Rightarrow> rat \<Rightarrow> string" where
  "frac_str 0 r = []"
| "frac_str (Suc k) r =
     (if r = 0 then [] else digit_char (nat \<lfloor>10 * r\<rfloor>) # frac_str k (10 * r - of_int \<lfloor>10 * r\<rfloor>))"

text \<open>The printed form of a float whose shortest form is fixed-point (up to 17 decimals).\<close>

definition float_repr :: "rat \<Rightarrow> string" where
  "float_repr r =
     (if r < 0 then ''-'' else '''') @ nat_str (nat \<lfloor>\<bar>r\<bar>\<rfloor>) @ ''.'' @
     (case frac_str 17 (\<bar>r\<bar> - of_int \<lfloor>\<bar>r\<bar>\<rfloor>) of [] \<Rightarrow> ''0'' | s \<Rightarrow> s)"

definition hex_digit :: "nat \<Rightarrow> char" where
  "hex_digit d = (if d < 10 then char_of (48 + d) else char_of (87 + d))"

definition hex2 :: "nat \<Rightarrow> string" where
  "hex2 n = [hex_digit (n div 16 mod 16), hex_digit (n mod 16)]"

text \<open>\<open>repr\<close> of a string: quoted, with the escapes Python uses.\<close>

definition repr_char :: "char \<Rightarrow> char \<Rightarrow> string" where
  "repr_char q c = (let n = (of_char c :: nat) in
     if c = q \<or> n = 92 then [CHR 0x5C, c]
     else if n = 10 then [CHR 0x5C, CHR ''n'']
     else if n = 13 then [CHR 0x5C, CHR ''r'']
     else if n = 9 then [CHR 0x5C, CHR ''t'']
     else if n < 32 \<or> (127 \<le> n \<and> n \<le> 160) \<or> n = 173 then [CHR 0x5C, CHR ''x''] @ hex2 n
     else [c])"

definition str_repr :: "string \<Rightarrow> string" where
  "str_repr s =
     (let q = (if CHR 0x27 \<in> set s \<and> CHR 0x22 \<notin> set s then CHR 0x22 else CHR 0x27)
      in [q] @ concat (map (repr_char q) s) @ [q])"

lemma size_snd_in_dict [termination_simp]:
  "p \<in> set d \<Longrightarrow> size (snd p) < Suc (size_list (size_prod (\<lambda>_. 0) size) d)"
proof -
  assume "p \<in> set d"
  then have "size_prod (\<lambda>_. 0) size p \<le> size_list (size_prod (\<lambda>_. 0) size) d"
    by (intro size_list_estimation' [OF _ order_refl])
  moreover have "size (snd p) \<le> size_prod (\<lambda>_. 0) size p"
    by (cases p) simp
  ultimately show ?thesis by simp
qed

fun py_repr :: "json \<Rightarrow> string" where
  "py_repr JNull = ''None''"
| "py_repr (JBool b) = (if b then ''True'' else ''False'')"
| "py_repr (JInt i) = int_str i"
| "py_repr (JFloat r) = float_repr r"
| "py_repr (JStr s) = str_repr s"
| "py_repr (JArr xs) = ''['' @ join '', '' (map py_repr xs) @ '']''"
| "py_repr (JObj d) =
     ''{'' @ join '', '' (map (\<lambda>p. str_repr (fst p) @ '': '' @ py_repr (snd p)) d) @ ''}''"

fun py_str :: "json \<Rightarrow> string" where
  "py_str (JStr s) = s"
| "py_str v = py_repr v"

lemma py_str_JStr_only [simp]: "py_str (JStr s) = s"
  by simp

text \<open>The decimal literal \<open>[-]digits[.digits]\<close> as a rational, as \<open>float\<close> and \<open>json\<close> read it.\<close>

definition all_digits :: "string \<Rightarrow> bool" where
  "all_digits s \<longleftrightarrow> s \<noteq> [] \<and> (\<forall>c \<in> set s. is_digit_char c)"

definition parse_udec :: "string \<Rightarrow> rat option" where
  "parse_udec s = (case split_at (CHR ''.'') s of
       (a, None) \<Rightarrow> (if all_digits a then Some (of_nat (digits_val a)) else None)
     | (a, Some b) \<Rightarrow>
         (if all_digits a \<and> all_digits b
          then Some (of_nat (digits_val a) + of_nat (digits_val b) / 10 ^ length b) else None))"

definition parse_dec :: "string \<Rightarrow> rat option" where
  "parse_dec s = (case s of [] \<Rightarrow> None
     | c # cs \<Rightarrow> if c = CHR ''-'' then map_option uminus (parse_udec cs)
       else if c = CHR ''+'' then parse_udec cs else parse_udec s)"

fun py_float :: "json \<Rightarrow> rat res" where
  "py_float (JBool b) = Inr (if b then 1 else 0)"
| "py_float (JInt i) = Inr (of_int i)"
| "py_float (JFloat r) = Inr r"
| "py_float (JStr s) = (case parse_dec (strip s) of
     None \<Rightarrow> Inl (ValueError ''could not convert string to float'') | Some r \<Rightarrow> Inr r)"
| "py_float _ = Inl (TypeError ''float() argument must be a string or a real number'')"

definition trunc_rat :: "rat \<Rightarrow> int" where
  "trunc_rat r = (if r < 0 then \<lceil>r\<rceil> else \<lfloor>r\<rfloor>)"

definition parse_int :: "string \<Rightarrow> int option" where
  "parse_int s = (case s of [] \<Rightarrow> None
     | c # cs \<Rightarrow> if c = CHR ''-'' then (if all_digits cs then Some (- int (digits_val cs)) else None)
       else if c = CHR ''+'' then (if all_digits cs then Some (int (digits_val cs)) else None)
       else if all_digits s then Some (int (digits_val s)) else None)"

fun py_int :: "json \<Rightarrow> int res" where
  "py_int (JBool b) = Inr (if b then 1 else 0)"
| "py_int (JInt i) = Inr i"
| "py_int (JFloat r) = Inr (trunc_rat r)"
| "py_int (JStr s) = (case parse_int (strip s) of
     None \<Rightarrow> Inl (ValueError ''invalid literal for int()'') | Some i \<Rightarrow> Inr i)"
| "py_int _ = Inl (TypeError ''int() argument must be a string or a real number'')"

text \<open>\<open>list(x)\<close>: the elements of a list, the keys of a dictionary, the characters of a string.\<close>

fun py_list :: "json \<Rightarrow> json list res" where
  "py_list (JArr xs) = Inr xs"
| "py_list (JObj d) = Inr (map (\<lambda>p. JStr (fst p)) d)"
| "py_list (JStr s) = Inr (map (\<lambda>c. JStr [c]) s)"
| "py_list _ = Inl (TypeError ''object is not iterable'')"

text \<open>\<open>dict(x)\<close>: a copy of a dictionary, or one built from a list of key-value pairs.\<close>

fun pair_of :: "json \<Rightarrow> (string \<times> json) res" where
  "pair_of (JArr [JStr k, v]) = Inr (k, v)"
| "pair_of (JArr _) = Inl (ValueError ''dictionary update sequence element has wrong length'')"
| "pair_of _ = Inl (TypeError ''cannot convert dictionary update sequence element'')"

fun py_dict :: "json \<Rightarrow> dict res" where
  "py_dict (JObj d) = Inr d"
| "py_dict (JArr xs) = bindR (mapR pair_of xs) (\<lambda>ps. Inr (dupdate [] ps))"
| "py_dict (JStr []) = Inr []"
| "py_dict (JStr _) = Inl (ValueError ''dictionary update sequence element has wrong length'')"
| "py_dict _ = Inl (TypeError ''object is not iterable'')"

text \<open>A method call \<open>x.get(...)\<close>: only a dictionary has it.\<close>

fun as_dict :: "json \<Rightarrow> dict res" where
  "as_dict (JObj d) = Inr d"
| "as_dict _ = Inl (AttributeError ''object has no attribute 'get' '')"

text \<open>\<open>x[i]\<close> with a clamped index: the elements of a list, the characters of a string.\<close>

definition clamped :: "json list \<Rightarrow> int \<Rightarrow> json" where
  "clamped xs i = xs ! clamp_index i (length xs)"

definition jarr :: "string list \<Rightarrow> json" where
  "jarr xs = JArr (map JStr xs)"

subsection \<open>Rounding and fixed-point printing\<close>

text \<open>Half-even rounding, as \<open>round\<close> and \<open>timedelta\<close> do.\<close>

definition round_he :: "rat \<Rightarrow> int" where
  "round_he r = (let f = \<lfloor>r\<rfloor>; d = r - of_int f in
     if d < 1/2 then f else if d > 1/2 then f + 1 else if even f then f else f + 1)"

lemma round_he_of_int [simp]: "round_he (of_int i) = i"
  by (simp add: round_he_def)

lemma round_he_bounds: "of_int (round_he r) - r \<le> 1/2" "r - of_int (round_he r) \<le> 1/2"
  by (auto simp: round_he_def Let_def split: if_splits; linarith)+

lemma round_he_mono: "r \<le> s \<Longrightarrow> round_he r \<le> round_he s"
proof -
  assume le: "r \<le> s"
  show ?thesis
  proof (cases "\<lfloor>r\<rfloor> = \<lfloor>s\<rfloor>")
    case True
    with le show ?thesis by (auto simp: round_he_def Let_def)
  next
    case False
    with le have "\<lfloor>r\<rfloor> + 1 \<le> \<lfloor>s\<rfloor>"
      by (metis floor_mono order_le_imp_less_or_eq zless_imp_add1_zle)
    moreover have "round_he r \<le> \<lfloor>r\<rfloor> + 1" "\<lfloor>s\<rfloor> \<le> round_he s"
      by (auto simp: round_he_def Let_def)
    ultimately show ?thesis by linarith
  qed
qed

definition round_dec :: "nat \<Rightarrow> rat \<Rightarrow> rat" where
  "round_dec k r = of_int (round_he (r * 10 ^ k)) / 10 ^ k"

lemma round_dec_mono: "r \<le> s \<Longrightarrow> round_dec k r \<le> round_dec k s"
  by (simp add: round_dec_def divide_right_mono round_he_mono mult_right_mono)

text \<open>\<open>f"{x:.0%}"\<close> and \<open>f"{x:.2f}"\<close>.\<close>

definition percent0 :: "rat \<Rightarrow> string" where
  "percent0 r = int_str (round_he (r * 100)) @ ''%''"

definition fixed :: "nat \<Rightarrow> rat \<Rightarrow> string" where
  "fixed k r = (let n = nat \<bar>round_he (r * 10 ^ k)\<bar> in
     (if round_he (r * 10 ^ k) < 0 then ''-'' else '''') @ nat_str (n div 10 ^ k) @
     (if k = 0 then '''' else ''.'' @ nat_str_pad k (n mod 10 ^ k)))"

subsection \<open>\<open>json.dumps\<close> with sorted keys and compact separators\<close>

definition json_char :: "char \<Rightarrow> string" where
  "json_char c = (let n = (of_char c :: nat) in
     if n = 34 then [CHR 0x5C, CHR 0x22]
     else if n = 92 then [CHR 0x5C, CHR 0x5C]
     else if n = 10 then [CHR 0x5C, CHR ''n'']
     else if n = 13 then [CHR 0x5C, CHR ''r'']
     else if n = 9 then [CHR 0x5C, CHR ''t'']
     else if n = 12 then [CHR 0x5C, CHR ''f'']
     else if n = 8 then [CHR 0x5C, CHR ''b'']
     else if n < 32 \<or> 126 < n then [CHR 0x5C, CHR ''u'', CHR ''0'', CHR ''0''] @ hex2 n
     else [c])"

definition json_string :: "string \<Rightarrow> string" where
  "json_string s = [CHR 0x22] @ concat (map json_char s) @ [CHR 0x22]"

fun json_dumps :: "json \<Rightarrow> string" where
  "json_dumps JNull = ''null''"
| "json_dumps (JBool b) = (if b then ''true'' else ''false'')"
| "json_dumps (JInt i) = int_str i"
| "json_dumps (JFloat r) = float_repr r"
| "json_dumps (JStr s) = json_string s"
| "json_dumps (JArr xs) = ''['' @ join '','' (map json_dumps xs) @ '']''"
| "json_dumps (JObj d) =
     ''{'' @ join '','' (map (\<lambda>(k, t). json_string k @ '':'' @ t)
        (sort_key fst (map (\<lambda>p. (fst p, json_dumps (snd p))) d))) @ ''}''"

end
