(* ===== verification/Digest.thy ===== *)
theory Digest
  imports PyJson
begin

unbundle bit_operations_syntax

text \<open>
  Text and bytes below the program's identifiers: UTF-8, hexadecimal, the identifiers
  of \<open>domain.stable_id\<close> and the keyed digest of \<open>hmac\<close>. A digest function is an
  argument of these definitions, from bytes to bytes; \<open>Sha256\<close> gives the one the
  program calls. The interface \<open>digest_fun\<close> says what the program relies on.
\<close>

subsection \<open>UTF-8 and hexadecimal\<close>

definition utf8_char :: "char \<Rightarrow> string" where
  "utf8_char c = (let n = (of_char c :: nat) in
     if n < 128 then [c] else [char_of (192 + n div 64), char_of (128 + n mod 64)])"

definition utf8 :: "string \<Rightarrow> string" where
  "utf8 s = concat (map utf8_char s)"

fun utf8_decode :: "string \<Rightarrow> string option" where
  "utf8_decode [] = Some []"
| "utf8_decode (c # s) =
     (let n = (of_char c :: nat) in
      if n < 128 then map_option (Cons c) (utf8_decode s)
      else (case s of
          [] \<Rightarrow> None
        | d # s' \<Rightarrow>
            let m = (of_char d :: nat) in
            if (n = 194 \<or> n = 195) \<and> 128 \<le> m \<and> m < 192
            then map_option (Cons (char_of (64 * (n - 192) + (m - 128)))) (utf8_decode s')
            else None))"

definition hexlify :: "string \<Rightarrow> string" where
  "hexlify s = concat (map (\<lambda>c. hex2 (of_char c)) s)"

lemma utf8_decode_char: "utf8_decode (utf8_char c @ s) = map_option (Cons c) (utf8_decode s)"
proof -
  define n where "n = (of_char c :: nat)"
  have n: "n < 256" by (simp add: n_def)
  have c: "c = char_of n" by (simp add: n_def)
  show ?thesis
  proof (cases "n < 128")
    case True
    then show ?thesis by (simp add: utf8_char_def n_def)
  next
    case False
    have lead: "n div 64 = 2 \<or> n div 64 = 3" "n div 64 < 4" using n False by linarith+
    have "64 * (n div 64) + n mod 64 = n" by simp
    moreover have "192 + n div 64 < 256" "128 + n mod 64 < 256"
      using lead by (linarith, simp)
    ultimately show ?thesis
      using False lead n by (simp add: utf8_char_def n_def [symmetric] c)
  qed
qed

lemma utf8_decode_utf8 [simp]: "utf8_decode (utf8 s) = Some s"
proof (induction s)
  case Nil
  then show ?case by (simp add: utf8_def)
next
  case (Cons c s)
  then show ?case using utf8_decode_char [of c "utf8 s"] by (simp add: utf8_def)
qed

lemma utf8_inj [simp]: "utf8 s = utf8 t \<longleftrightarrow> s = t"
  by (metis option.inject utf8_decode_utf8)

lemma length_hexlify [simp]: "length (hexlify s) = 2 * length s"
  by (induction s) (simp_all add: hexlify_def hex2_def)

definition is_hex_char :: "char \<Rightarrow> bool" where
  "is_hex_char c \<longleftrightarrow> is_digit_char c \<or> (97 \<le> (of_char c :: nat) \<and> (of_char c :: nat) \<le> 102)"

lemma is_hex_hex_digit: "d < 16 \<Longrightarrow> is_hex_char (hex_digit d)"
  by (auto simp: is_hex_char_def is_digit_char_def hex_digit_def)

lemma hexlify_chars: "c \<in> set (hexlify s) \<Longrightarrow> is_hex_char c"
  by (induction s) (auto simp: hexlify_def hex2_def is_hex_hex_digit)

lemma hex_digit_inj: "d < 16 \<Longrightarrow> e < 16 \<Longrightarrow> hex_digit d = hex_digit e \<longleftrightarrow> d = e"
  by (auto simp: hex_digit_def split: if_splits)

lemma hexlify_inj [simp]: "hexlify s = hexlify t \<longleftrightarrow> s = t"
proof (induction s arbitrary: t)
  case Nil
  then show ?case by (cases t) (simp_all add: hexlify_def hex2_def)
next
  case (Cons c s)
  have two: "(of_char c :: nat) = of_char d"
    if "(of_char c :: nat) div 16 mod 16 = of_char d div 16 mod 16"
      "(of_char c :: nat) mod 16 = of_char d mod 16" for d
  proof -
    have "n div 16 mod 16 = n div 16" if "n < 256" for n :: nat
      using that by (simp add: less_mult_imp_div_less)
    with that have "(of_char c :: nat) div 16 = of_char d div 16" by simp
    with that(2) show ?thesis by (metis div_mult_mod_eq)
  qed
  show ?case
    using Cons two by (cases t) (auto simp: hexlify_def hex2_def hex_digit_inj)
qed

subsection \<open>Digests as text\<close>

definition sha_hex :: "(string \<Rightarrow> string) \<Rightarrow> string \<Rightarrow> string" where
  "sha_hex D s = hexlify (D (utf8 s))"

definition stable_id :: "(string \<Rightarrow> string) \<Rightarrow> string list \<Rightarrow> string \<Rightarrow> string" where
  "stable_id D parts prefix = prefix @ ''-'' @ take 16 (sha_hex D (join ''|'' parts))"

text \<open>\<open>hmac.new(key, msg, sha256).digest()\<close>, with the block size of 64 bytes.\<close>

definition xor_bytes :: "nat \<Rightarrow> string \<Rightarrow> string" where
  "xor_bytes b s = map (\<lambda>c. char_of (of_char c XOR b :: nat)) s"

definition hmac :: "(string \<Rightarrow> string) \<Rightarrow> string \<Rightarrow> string \<Rightarrow> string" where
  "hmac D key msg =
     (let k0 = (if 64 < length key then D key else key);
          k = k0 @ replicate (64 - length k0) (char_of (0 :: nat))
      in D (xor_bytes 92 k @ D (xor_bytes 54 k @ msg)))"

text \<open>What the program relies on: a digest has 32 bytes.\<close>

locale digest_fun =
  fixes D :: "string \<Rightarrow> string"
  assumes length_D: "length (D s) = 32"
begin

lemma length_sha_hex: "length (sha_hex D s) = 64"
  by (simp add: sha_hex_def length_D)

lemma length_take_sha_hex: "k \<le> 64 \<Longrightarrow> length (take k (sha_hex D s)) = k"
  by (simp add: length_sha_hex)

lemma length_stable_id: "length (stable_id D parts prefix) = length prefix + 17"
  by (simp add: stable_id_def length_sha_hex)

lemma length_hmac: "length (hmac D key msg) = 32"
  by (simp add: hmac_def Let_def length_D)

end

lemma sha_hex_chars: "c \<in> set (sha_hex D s) \<Longrightarrow> is_hex_char c"
  by (auto simp: sha_hex_def dest: hexlify_chars)

text \<open>
  Two texts whose truncated digests agree: either they are the same text or they are a
  collision of the digest on the kept part. Identifiers are compared through this.
\<close>

definition sha_collision :: "(string \<Rightarrow> string) \<Rightarrow> nat \<Rightarrow> string \<Rightarrow> string \<Rightarrow> bool" where
  "sha_collision D k s t \<longleftrightarrow> s \<noteq> t \<and> take k (sha_hex D s) = take k (sha_hex D t)"

lemma take_sha_hex_eqD:
  "take k (sha_hex D s) = take k (sha_hex D t) \<Longrightarrow> s = t \<or> sha_collision D k s t"
  by (auto simp: sha_collision_def)

end
