(* ===== verification/Sha256.thy ===== *)
theory Sha256
  imports Digest "HOL-Library.Word"
begin

unbundle bit_operations_syntax

text \<open>
  SHA-256 as \<open>hashlib\<close> provides it, on 32-bit words, so that the identifiers and
  signatures of the model can be instantiated with the digest the program computes.
\<close>

definition rotr :: "nat \<Rightarrow> 32 word \<Rightarrow> 32 word" where
  "rotr n x = drop_bit n x OR push_bit (32 - n) x"

definition ssig0 :: "32 word \<Rightarrow> 32 word" where
  "ssig0 x = rotr 7 x XOR rotr 18 x XOR drop_bit 3 x"

definition ssig1 :: "32 word \<Rightarrow> 32 word" where
  "ssig1 x = rotr 17 x XOR rotr 19 x XOR drop_bit 10 x"

definition bsig0 :: "32 word \<Rightarrow> 32 word" where
  "bsig0 x = rotr 2 x XOR rotr 13 x XOR rotr 22 x"

definition bsig1 :: "32 word \<Rightarrow> 32 word" where
  "bsig1 x = rotr 6 x XOR rotr 11 x XOR rotr 25 x"

text \<open>The round constants and the initial state of FIPS 180-4, in decimal.\<close>

definition sha_k :: "32 word list" where
  "sha_k = [
    1116352408, 1899447441, 3049323471, 3921009573, 961987163, 1508970993, 2453635748, 2870763221,
    3624381080, 310598401, 607225278, 1426881987, 1925078388, 2162078206, 2614888103, 3248222580,
    3835390401, 4022224774, 264347078, 604807628, 770255983, 1249150122, 1555081692, 1996064986,
    2554220882, 2821834349, 2952996808, 3210313671, 3336571891, 3584528711, 113926993, 338241895,
    666307205, 773529912, 1294757372, 1396182291, 1695183700, 1986661051, 2177026350, 2456956037,
    2730485921, 2820302411, 3259730800, 3345764771, 3516065817, 3600352804, 4094571909, 275423344,
    430227734, 506948616, 659060556, 883997877, 958139571, 1322822218, 1537002063, 1747873779,
    1955562222, 2024104815, 2227730452, 2361852424, 2428436474, 2756734187, 3204031479, 3329325298]"

definition sha_init :: "32 word list" where
  "sha_init = [1779033703, 3144134277, 1013904242, 2773480762, 1359893119, 2600822924, 528734635, 1541459225]"

text \<open>The message schedule, newest word first.\<close>

fun schedule :: "nat \<Rightarrow> 32 word list \<Rightarrow> 32 word list" where
  "schedule 0 ws = ws"
| "schedule (Suc n) ws =
     schedule n ((ssig1 (ws ! 1) + ws ! 6 + ssig0 (ws ! 14) + ws ! 15) # ws)"

fun sha_round :: "32 word list \<Rightarrow> 32 word \<times> 32 word \<Rightarrow> 32 word list" where
  "sha_round [a, b, c, d, e, f, g, h] (k, w) =
     (let t1 = h + bsig1 e + ((e AND f) XOR (NOT e AND g)) + k + w;
          t2 = bsig0 a + ((a AND b) XOR (a AND c) XOR (b AND c))
      in [t1 + t2, a, b, c, d + t1, e, f, g])"
| "sha_round st _ = st"

definition be_word :: "string \<Rightarrow> 32 word" where
  "be_word bs = foldl (\<lambda>a c. push_bit 8 a OR of_char c) 0 bs"

fun chunks :: "nat \<Rightarrow> nat \<Rightarrow> 'a list \<Rightarrow> 'a list list" where
  "chunks 0 n xs = []"
| "chunks (Suc k) n xs = take n xs # chunks k n (drop n xs)"

definition sha_block :: "32 word list \<Rightarrow> string \<Rightarrow> 32 word list" where
  "sha_block st b =
     (let ws = rev (schedule 48 (rev (map be_word (chunks 16 4 b))))
      in map2 (+) st (foldl sha_round st (zip sha_k ws)))"

definition word_bytes :: "32 word \<Rightarrow> string" where
  "word_bytes w = map (\<lambda>k. char_of (unat (drop_bit k w AND 255))) [24, 16, 8, 0]"

definition sha_pad :: "string \<Rightarrow> string" where
  "sha_pad m =
     (let l = length m; z = (119 - l mod 64) mod 64
      in m @ char_of (128 :: nat) # replicate z (char_of (0 :: nat)) @
         map (\<lambda>k. char_of (nat (8 * int l div 256 ^ k mod 256))) [7, 6, 5, 4, 3, 2, 1, 0])"

definition sha256 :: "string \<Rightarrow> string" where
  "sha256 m =
     (let p = sha_pad m
      in concat (map word_bytes (foldl sha_block sha_init (chunks (length p div 64) 64 p))))"

lemma length_sha_round [simp]: "length (sha_round st kw) = length st"
  by (cases "(st, kw)" rule: sha_round.cases) (simp_all add: Let_def)

lemma length_foldl_sha_round [simp]: "length (foldl sha_round st kws) = length st"
  by (induction kws arbitrary: st) simp_all

lemma length_foldl_sha_block: "length (foldl sha_block st bs) = length st"
  by (induction bs arbitrary: st) (simp_all add: sha_block_def Let_def)

lemma length_concat_word_bytes: "length (concat (map word_bytes ws)) = 4 * length ws"
  by (induction ws) (simp_all add: word_bytes_def)

lemma length_sha256: "length (sha256 m) = 32"
proof -
  have "length sha_init = 8" by (simp add: sha_init_def)
  then show ?thesis
    by (simp only: sha256_def Let_def length_concat_word_bytes length_foldl_sha_block)
qed

interpretation sha: digest_fun sha256
  by unfold_locales (rule length_sha256)

text \<open>The padded message is a whole number of blocks.\<close>

lemma sha_pad_blocks: "length (sha_pad m) mod 64 = 0"
proof -
  have pad: "(119 - r) mod 64 = (if r \<le> 55 then 55 - r else 119 - r)" if "r < 64" for r :: nat
  proof (cases "r \<le> 55")
    case True
    then have "119 - r = (55 - r) + 64" by simp
    then show ?thesis using True by (simp only: mod_add_self2) simp
  qed (use that in simp)
  define r where "r = length m mod 64"
  have r: "r < 64" "length m = 64 * (length m div 64) + r" by (simp_all add: r_def)
  have "length (sha_pad m) = length m + Suc ((119 - r) mod 64 + 8)"
    by (simp add: sha_pad_def Let_def r_def)
  also have "\<dots> = 64 * (length m div 64) + (r + Suc ((119 - r) mod 64 + 8))"
    using r(2) by linarith
  also have "r + Suc ((119 - r) mod 64 + 8) = (if r \<le> 55 then 64 else 128)"
    unfolding pad [OF r(1)] using r(1) by simp
  finally show ?thesis by (simp split: if_splits)
qed

end
