(* ===== verification/Datetime.thy ===== *)
theory Datetime
  imports PyJson
begin

text \<open>
  Python's \<open>datetime\<close> as the program uses it. A value is its wall-clock time in
  microseconds since 1970-01-01 and its UTC offset in minutes, absent for a naive value.
  The calendar is the proleptic Gregorian one; \<open>isoformat\<close> and \<open>fromisoformat\<close> are
  written out for the formats the program prints and reads. The bounds of the years
  (1 to 9999) are checked where a text is read; arithmetic here is unbounded.
\<close>

datatype datetime = DT (dt_us: int) (dt_off: "int option")

definition utc :: "int \<Rightarrow> datetime" where
  "utc us = DT us (Some 0)"

text \<open>The instant of an aware value; a naive one is read as UTC where the code compares it.\<close>

definition instant :: "datetime \<Rightarrow> int" where
  "instant d = dt_us d - (case dt_off d of None \<Rightarrow> 0 | Some m \<Rightarrow> m * 60000000)"

definition dt_add :: "datetime \<Rightarrow> int \<Rightarrow> datetime" where
  "dt_add d us = DT (dt_us d + us) (dt_off d)"

text \<open>\<open>timedelta(hours=h)\<close> in microseconds.\<close>

definition hours :: "rat \<Rightarrow> int" where
  "hours h = round_he (h * 3600000000)"

lemma instant_utc [simp]: "instant (utc t) = t"
  by (simp add: instant_def utc_def)

lemma instant_add [simp]: "instant (dt_add d us) = instant d + us"
  by (simp add: instant_def dt_add_def)

lemma hours_mono: "h \<le> k \<Longrightarrow> hours h \<le> hours k"
  by (simp add: hours_def round_he_mono)

subsection \<open>The calendar\<close>

definition leap :: "int \<Rightarrow> bool" where
  "leap y \<longleftrightarrow> y mod 4 = 0 \<and> (y mod 100 \<noteq> 0 \<or> y mod 400 = 0)"

definition month_days :: "int \<Rightarrow> int list" where
  "month_days y = [31, if leap y then 29 else 28, 31, 30, 31, 30, 31, 31, 30, 31, 30, 31]"

text \<open>Days from 0001-01-01 to the first of January of year \<open>y\<close>.\<close>

definition year_start :: "int \<Rightarrow> int" where
  "year_start y = 365 * (y - 1) + (y - 1) div 4 - (y - 1) div 100 + (y - 1) div 400"

definition ymd_days :: "int \<Rightarrow> int \<Rightarrow> int \<Rightarrow> int" where
  "ymd_days y m d = year_start y + sum_list (take (nat (m - 1)) (month_days y)) + (d - 1) - 719162"

fun month_of :: "int \<Rightarrow> int list \<Rightarrow> int \<Rightarrow> int \<times> int" where
  "month_of m [] d = (m, d + 1)"
| "month_of m (l # ls) d = (if d < l then (m, d + 1) else month_of (m + 1) ls (d - l))"

text \<open>Year, month and day of a day number, by an estimate of the year that is at most one off.\<close>

definition year_of :: "int \<Rightarrow> int" where
  "year_of n =
     (let y = (n * 400) div 146097 + 1 in
      if n < year_start y then y - 1 else if year_start (y + 1) \<le> n then y + 1 else y)"

definition days_ymd :: "int \<Rightarrow> int \<times> int \<times> int" where
  "days_ymd days =
     (let n = days + 719162; y = year_of n; (m, d) = month_of 1 (month_days y) (n - year_start y)
      in (y, m, d))"

subsection \<open>Text form\<close>

definition two :: "int \<Rightarrow> string" where
  "two n = nat_str_pad 2 (nat n)"

definition offset_str :: "int option \<Rightarrow> string" where
  "offset_str off = (case off of None \<Rightarrow> []
     | Some m \<Rightarrow> (if m < 0 then ''-'' else ''+'') @ two (\<bar>m\<bar> div 60) @ '':'' @ two (\<bar>m\<bar> mod 60))"

definition isoformat :: "datetime \<Rightarrow> string" where
  "isoformat d =
     (let days = dt_us d div 86400000000; us = dt_us d mod 86400000000;
          (y, m, dd) = days_ymd days; s = us div 1000000; f = us mod 1000000
      in nat_str_pad 4 (nat y) @ ''-'' @ two m @ ''-'' @ two dd @ ''T'' @
         two (s div 3600) @ '':'' @ two (s div 60 mod 60) @ '':'' @ two (s mod 60) @
         (if f = 0 then '''' else ''.'' @ nat_str_pad 6 (nat f)) @ offset_str (dt_off d))"

definition num_at :: "nat \<Rightarrow> nat \<Rightarrow> string \<Rightarrow> int option" where
  "num_at i k s =
     (let t = take k (drop i s) in if length t = k \<and> all_digits t then Some (int (digits_val t)) else None)"

definition char_at :: "nat \<Rightarrow> string \<Rightarrow> char option" where
  "char_at i s = (if i < length s then Some (s ! i) else None)"

text \<open>The part after the seconds: an optional fraction of three or six digits, an optional offset.\<close>

definition parse_frac :: "string \<Rightarrow> (int \<times> string) option" where
  "parse_frac s =
     (if char_at 0 s = Some (CHR ''.'') then
        (case num_at 1 6 s of
           Some f \<Rightarrow> Some (f, drop 7 s)
         | None \<Rightarrow> (case num_at 1 3 s of Some f \<Rightarrow> Some (f * 1000, drop 4 s) | None \<Rightarrow> None))
      else Some (0, s))"

definition parse_offset :: "string \<Rightarrow> int option option" where
  "parse_offset s =
     (if s = [] then Some None
      else if s = ''Z'' then Some (Some 0)
      else if length s = 6 \<and> char_at 3 s = Some (CHR '':'') \<and> (hd s = CHR ''+'' \<or> hd s = CHR ''-'') then
        (case (num_at 1 2 s, num_at 4 2 s) of
           (Some h, Some m) \<Rightarrow>
             if h < 24 \<and> m < 60
             then Some (Some (if hd s = CHR ''-'' then - (h * 60 + m) else h * 60 + m)) else None
         | _ \<Rightarrow> None)
      else None)"

definition parse_date :: "string \<Rightarrow> int option" where
  "parse_date s =
     (case (num_at 0 4 s, num_at 5 2 s, num_at 8 2 s) of
        (Some y, Some m, Some d) \<Rightarrow>
          if char_at 4 s = Some (CHR ''-'') \<and> char_at 7 s = Some (CHR ''-'') \<and> 1 \<le> y \<and> 1 \<le> m \<and> m \<le> 12
             \<and> 1 \<le> d \<and> d \<le> month_days y ! nat (m - 1)
          then Some (ymd_days y m d) else None
      | _ \<Rightarrow> None)"

definition bad_iso :: "'a res" where
  "bad_iso = Inl (ValueError ''Invalid isoformat string'')"

definition fromisoformat :: "string \<Rightarrow> datetime res" where
  "fromisoformat s =
     (case parse_date s of
        None \<Rightarrow> bad_iso
      | Some days \<Rightarrow>
          if length s = 10 then Inr (DT (days * 86400000000) None)
          else if char_at 10 s \<noteq> Some (CHR ''T'') \<and> char_at 10 s \<noteq> Some (CHR '' '') then bad_iso
          else (case (num_at 11 2 s, num_at 14 2 s, num_at 17 2 s, parse_frac (drop 19 s)) of
              (Some h, Some mi, Some sec, Some (f, rest)) \<Rightarrow>
                if char_at 13 s = Some (CHR '':'') \<and> char_at 16 s = Some (CHR '':'')
                   \<and> h < 24 \<and> mi < 60 \<and> sec < 60
                then (case parse_offset rest of
                        None \<Rightarrow> bad_iso
                      | Some off \<Rightarrow>
                          Inr (DT (days * 86400000000 + ((h * 60 + mi) * 60 + sec) * 1000000 + f) off))
                else bad_iso
            | _ \<Rightarrow> bad_iso))"

text \<open>\<open>value.replace("Z", "+00:00")\<close>, applied before reading.\<close>

definition replace_z :: "string \<Rightarrow> string" where
  "replace_z s = concat (map (\<lambda>c. if c = CHR ''Z'' then ''+00:00'' else [c]) s)"

text \<open>\<open>astimezone(UTC)\<close> on an aware value; a naive one is taken as UTC (the host's zone in the demo).\<close>

definition astimezone_utc :: "datetime \<Rightarrow> datetime" where
  "astimezone_utc d = utc (instant d)"

end
