(* ===== verification/Controls.thy ===== *)
theory Controls
  imports Datetime Digest
begin

text \<open>
  Replay-stable keys, SLA authority and the RCA gate (\<open>controls.py\<close>). A key is a
  digest of the durable state that intends an effect; the gate compares a deterministic
  result with an optional model proposal.
\<close>

subsection \<open>Keys\<close>

definition allowed_key_char :: "char \<Rightarrow> bool" where
  "allowed_key_char c \<longleftrightarrow> (let n = (of_char c :: nat) in
     (65 \<le> n \<and> n \<le> 90) \<or> (97 \<le> n \<and> n \<le> 122) \<or> is_digit_char c \<or> c \<in> set ''._:@/+-'')"

definition normalize_key_part :: "(string \<Rightarrow> string) \<Rightarrow> string option \<Rightarrow> string" where
  "normalize_key_part D value =
     (case value of
        None \<Rightarrow> ''<none>''
      | Some v \<Rightarrow>
          (let txt = strip v in
           if txt = '''' then ''<empty>''
           else if \<forall>c \<in> set txt. allowed_key_char c then txt
           else ''sha256:'' @ take 20 (sha_hex D txt)))"

definition action_material :: "(string \<Rightarrow> string) \<Rightarrow> string \<Rightarrow> string \<Rightarrow> int \<Rightarrow> string option \<Rightarrow> string" where
  "action_material D incident_id action_type attempt_index delimiter_id =
     join ''|'' [''lpr-cpe-action-v2'', normalize_key_part D (Some incident_id),
       normalize_key_part D (Some action_type), int_str attempt_index, normalize_key_part D delimiter_id]"

definition derive_action_key ::
  "(string \<Rightarrow> string) \<Rightarrow> string \<Rightarrow> string \<Rightarrow> int \<Rightarrow> string option \<Rightarrow> string res" where
  "derive_action_key D incident_id action_type attempt_index delimiter_id =
     (if attempt_index < 0 then Inl (ValueError ''attempt_index must be non-negative'')
      else Inr (''idem-'' @ take 40 (sha_hex D
             (action_material D incident_id action_type attempt_index delimiter_id))))"

definition derive_approval_id ::
  "(string \<Rightarrow> string) \<Rightarrow> string \<Rightarrow> string \<Rightarrow> string \<Rightarrow> int \<Rightarrow> string option \<Rightarrow> string res" where
  "derive_approval_id D incident_id approval_kind action_type attempt_index delimiter_id =
     bindR (derive_action_key D incident_id action_type attempt_index delimiter_id) (\<lambda>action_key.
       let material = join ''|'' [''lpr-cpe-approval-v2'', approval_kind, action_key]
       in Inr (''apr-'' @ take 32 (sha_hex D material)))"

lemma bar_not_allowed: "allowed_key_char c \<Longrightarrow> c \<noteq> CHR ''|''"
  by (auto simp: allowed_key_char_def is_digit_char_def)

lemma hex_char_not_bar: "is_hex_char c \<Longrightarrow> c \<noteq> CHR ''|''"
  by (auto simp: is_hex_char_def is_digit_char_def)

lemma normalize_no_bar: "CHR ''|'' \<notin> set (normalize_key_part D v)"
proof -
  have "CHR ''|'' \<notin> set (take 20 (sha_hex D t))" for t
    using sha_hex_chars [of "CHR ''|''" D t] by (auto dest: in_set_takeD hex_char_not_bar)
  then show ?thesis
    using bar_not_allowed by (auto simp: normalize_key_part_def Let_def split: option.splits)
qed

lemma int_str_no_bar: "CHR ''|'' \<notin> set (int_str i)"
  using nat_str_digits [of "CHR ''|''"] by (auto simp: int_str_def is_digit_char_def)

text \<open>The material of a key is injective in the normalised parts and in the attempt.\<close>

lemma action_material_inj:
  "action_material D i a n d = action_material D' i' a' n' d' \<longleftrightarrow>
   normalize_key_part D (Some i) = normalize_key_part D' (Some i') \<and>
   normalize_key_part D (Some a) = normalize_key_part D' (Some a') \<and> n = n' \<and>
   normalize_key_part D d = normalize_key_part D' d'"
proof -
  have "action_material D i a n d = action_material D' i' a' n' d' \<longleftrightarrow>
    [''lpr-cpe-action-v2'', normalize_key_part D (Some i), normalize_key_part D (Some a), int_str n, normalize_key_part D d] =
    [''lpr-cpe-action-v2'', normalize_key_part D' (Some i'), normalize_key_part D' (Some a'), int_str n', normalize_key_part D' d']"
    unfolding action_material_def
    by (rule join_inj) (auto simp: normalize_no_bar int_str_no_bar)
  then show ?thesis by auto
qed

text \<open>A part made of allowed characters without surrounding space stands for itself.\<close>

definition plain_key_part :: "string \<Rightarrow> bool" where
  "plain_key_part s \<longleftrightarrow> s \<noteq> [] \<and> (\<forall>c \<in> set s. allowed_key_char c)"

lemma allowed_not_space: "allowed_key_char c \<Longrightarrow> \<not> is_space c"
  by (auto simp: allowed_key_char_def is_space_def is_digit_char_def Let_def)

lemma strip_no_space: "\<forall>c \<in> set s. \<not> is_space c \<Longrightarrow> strip s = s"
proof -
  have id: "\<forall>c \<in> set t. \<not> is_space c \<Longrightarrow> dropWhile is_space t = t" for t
    by (cases t) auto
  show "\<forall>c \<in> set s. \<not> is_space c \<Longrightarrow> strip s = s"
    by (simp add: strip_def id)
qed

lemma normalize_plain: "plain_key_part s \<Longrightarrow> normalize_key_part D (Some s) = s"
  using allowed_not_space by (auto simp: plain_key_part_def normalize_key_part_def Let_def strip_no_space)

lemma normalize_none_empty:
  "normalize_key_part D (Some s) \<noteq> normalize_key_part D None"
proof
  assume eq: "normalize_key_part D (Some s) = normalize_key_part D None"
  have lt: "CHR ''<'' \<in> set (normalize_key_part D None)" by (simp add: normalize_key_part_def)
  have na: "\<not> allowed_key_char (CHR ''<'')"
    by (simp add: allowed_key_char_def is_digit_char_def)
  have "CHR ''<'' \<notin> set (take 20 (sha_hex D t))" for t
    using sha_hex_chars [of "CHR ''<''" D t] by (auto simp: is_hex_char_def is_digit_char_def dest: in_set_takeD)
  then show False
    using eq lt na by (auto simp: normalize_key_part_def Let_def split: if_splits)
qed

lemma derive_action_key_Inr:
  "derive_action_key D i a n d = Inr k \<longleftrightarrow>
   0 \<le> n \<and> k = ''idem-'' @ take 40 (sha_hex D (action_material D i a n d))"
  by (auto simp: derive_action_key_def)

lemma derive_action_key_eqD:
  assumes "derive_action_key D i a n d = Inr k" "derive_action_key D i' a' n' d' = Inr k"
  shows "action_material D i a n d = action_material D i' a' n' d' \<or>
    sha_collision D 40 (action_material D i a n d) (action_material D i' a' n' d')"
  using assms take_sha_hex_eqD [of 40 D] by (auto simp: derive_action_key_Inr)

subsection \<open>SLA authority\<close>

text \<open>The mode is given by its text; the models of the callers pass \<open>sla_mode_value\<close>.\<close>

definition authoritative_sla_deadline :: "datetime \<Rightarrow> string \<Rightarrow> datetime option \<Rightarrow> datetime res" where
  "authoritative_sla_deadline own_deadline sla_mode parent_deadline =
     (if sla_mode = ''inherits_parent''
      then (case parent_deadline of
              None \<Rightarrow> Inl (ValueError ''inherits_parent requires parent_sla_deadline'')
            | Some p \<Rightarrow> Inr p)
      else Inr own_deadline)"

definition sla_authority_label :: "string \<Rightarrow> string option \<Rightarrow> string" where
  "sla_authority_label sla_mode parent_incident_id =
     (if sla_mode = ''inherits_parent''
      then ''parent '' @ (case parent_incident_id of None \<Rightarrow> ''unknown'' | Some p \<Rightarrow> if p = '''' then ''unknown'' else p)
      else if sla_mode = ''paused'' then ''paused''
      else ''own clock'')"

subsection \<open>RCA fusion and gating\<close>

record gate_outcome =
  go_route :: string
  go_reason :: string
  go_domain :: string
  go_confidence :: rat
  go_agreement :: "string option"

definition fuse_and_gate ::
  "string \<Rightarrow> rat \<Rightarrow> string option \<Rightarrow> rat option \<Rightarrow> rat \<Rightarrow> gate_outcome res" where
  "fuse_and_gate det_domain det_confidence model_domain model_confidence threshold =
     bindR (case model_domain of
              None \<Rightarrow> Inr (det_confidence, None)
            | Some m \<Rightarrow>
                (case model_confidence of
                   None \<Rightarrow> Inl (ValueError ''model_confidence is required when model_domain is given'')
                 | Some mc \<Rightarrow> Inr (min det_confidence mc,
                     Some (if det_domain = m then ''agree'' else ''disagree''))))
       (\<lambda>(confidence, agreement).
          if confidence < threshold
          then Inr \<lparr>go_route = ''human_review'', go_reason = ''low_confidence'', go_domain = det_domain,
                    go_confidence = confidence, go_agreement = agreement\<rparr>
          else if agreement = Some ''disagree''
          then Inr \<lparr>go_route = ''human_review'', go_reason = ''domain_disagreement'', go_domain = det_domain,
                    go_confidence = confidence, go_agreement = agreement\<rparr>
          else Inr \<lparr>go_route = ''proceed'', go_reason = ''none'', go_domain = det_domain,
                    go_confidence = confidence, go_agreement = agreement\<rparr>)"

lemma fuse_and_gate_model:
  "fuse_and_gate dd dc (Some m) (Some mc) th = Inr g \<Longrightarrow>
   go_domain g = dd \<and> go_confidence g = min dc mc \<and>
   (go_route g = ''proceed'' \<longleftrightarrow> th \<le> min dc mc \<and> dd = m) \<and>
   (go_reason g = ''none'' \<longleftrightarrow> th \<le> min dc mc \<and> dd = m) \<and>
   (go_reason g = ''low_confidence'' \<longleftrightarrow> min dc mc < th) \<and>
   go_agreement g = Some (if dd = m then ''agree'' else ''disagree'')"
  by (auto simp: fuse_and_gate_def not_less split: if_splits)

lemma fuse_and_gate_total: "\<exists>g. fuse_and_gate dd dc (Some m) (Some mc) th = Inr g"
  by (simp add: fuse_and_gate_def)

end
