(* ===== verification/Domain.thy ===== *)
theory Domain
  imports Controls
begin

text \<open>
  The data of the service-assurance case (\<open>domain.py\<close>): enumerations with their text
  values, the validated records, and the replay-safe appends of \<open>IncidentState\<close>.
  A record that validates its fields (\<open>pydantic\<close>) has a constructor that returns an
  error where the code's class raises one; the text of a validation report is fixed.
\<close>

subsection \<open>Enumerations\<close>

datatype technology = HFC | PON

datatype stage =
    NEW | VALIDATE | CORRELATE | EVIDENCE | DETERMINISTIC_RCA | LLM_RCA | FUSION
  | ACTION_RANKING | POLICY | WAITING_APPROVAL | EXECUTE | VERIFY | FAILURE_REVIEW | RECONCILE
  | CLOSED | ESCALATED | QUARANTINED

datatype case_status = CS_OPEN | CS_WAITING | CS_CLOSED | CS_ESCALATED | CS_QUARANTINED

datatype fault_domain =
    FD_CPE | FD_WIFI_HOME | FD_PREMISE_WIRING | FD_DROP | FD_HFC_TAP | FD_PON_ODP | FD_SHARED_NETWORK
  | FD_PLANT | FD_PROVISIONING | FD_SERVICE_PLATFORM | FD_POWER | FD_UNKNOWN

datatype action_type =
    REMOTE_REPROVISION | REMOTE_REBOOT | SELF_HELP | CLEAN_BOOTS | DIRTY_BOOTS_MR | JOINT_DISPATCH
  | PLANT_ACTION | MANUAL_REVIEW | MONITOR

datatype approval_kind =
    RCA_REVIEW | REMOTE_ACTION | DISPATCH | HANDOVER | HIGH_BLAST_RADIUS | EXCEPTIONAL_CLOSURE

datatype approval_status = AP_PENDING | AP_APPROVED | AP_REJECTED | AP_REQUEST_MORE | AP_CONSUMED | AP_EXPIRED

datatype policy_verdict = PV_ALLOWED | PV_REQUIRES_APPROVAL | PV_BLOCKED

datatype severity = INFO | WARNING | CRITICAL

fun technology_value :: "technology \<Rightarrow> string" where
  "technology_value HFC = ''HFC''"
| "technology_value PON = ''PON''"

fun stage_value :: "stage \<Rightarrow> string" where
  "stage_value NEW = ''new''"
| "stage_value VALIDATE = ''validate''"
| "stage_value CORRELATE = ''correlate''"
| "stage_value EVIDENCE = ''evidence''"
| "stage_value DETERMINISTIC_RCA = ''deterministic_rca''"
| "stage_value LLM_RCA = ''llm_rca''"
| "stage_value FUSION = ''fusion''"
| "stage_value ACTION_RANKING = ''action_ranking''"
| "stage_value POLICY = ''policy''"
| "stage_value WAITING_APPROVAL = ''waiting_approval''"
| "stage_value EXECUTE = ''execute''"
| "stage_value VERIFY = ''verify''"
| "stage_value FAILURE_REVIEW = ''failure_review''"
| "stage_value RECONCILE = ''reconcile''"
| "stage_value CLOSED = ''closed''"
| "stage_value ESCALATED = ''escalated''"
| "stage_value QUARANTINED = ''quarantined''"

fun case_status_value :: "case_status \<Rightarrow> string" where
  "case_status_value CS_OPEN = ''open''"
| "case_status_value CS_WAITING = ''waiting''"
| "case_status_value CS_CLOSED = ''closed''"
| "case_status_value CS_ESCALATED = ''escalated''"
| "case_status_value CS_QUARANTINED = ''quarantined''"

fun domain_value :: "fault_domain \<Rightarrow> string" where
  "domain_value FD_CPE = ''cpe''"
| "domain_value FD_WIFI_HOME = ''wifi_or_home''"
| "domain_value FD_PREMISE_WIRING = ''premise_wiring''"
| "domain_value FD_DROP = ''drop''"
| "domain_value FD_HFC_TAP = ''hfc_tap''"
| "domain_value FD_PON_ODP = ''pon_odp''"
| "domain_value FD_SHARED_NETWORK = ''shared_network''"
| "domain_value FD_PLANT = ''plant''"
| "domain_value FD_PROVISIONING = ''provisioning''"
| "domain_value FD_SERVICE_PLATFORM = ''service_platform''"
| "domain_value FD_POWER = ''commercial_power''"
| "domain_value FD_UNKNOWN = ''unknown''"

fun action_value :: "action_type \<Rightarrow> string" where
  "action_value REMOTE_REPROVISION = ''remote_reprovision''"
| "action_value REMOTE_REBOOT = ''remote_reboot''"
| "action_value SELF_HELP = ''self_help''"
| "action_value CLEAN_BOOTS = ''clean_boots''"
| "action_value DIRTY_BOOTS_MR = ''dirty_boots_mr''"
| "action_value JOINT_DISPATCH = ''joint_dispatch''"
| "action_value PLANT_ACTION = ''plant_action''"
| "action_value MANUAL_REVIEW = ''manual_review''"
| "action_value MONITOR = ''monitor''"

fun kind_value :: "approval_kind \<Rightarrow> string" where
  "kind_value RCA_REVIEW = ''rca_review''"
| "kind_value REMOTE_ACTION = ''remote_action''"
| "kind_value DISPATCH = ''dispatch''"
| "kind_value HANDOVER = ''handover''"
| "kind_value HIGH_BLAST_RADIUS = ''high_blast_radius''"
| "kind_value EXCEPTIONAL_CLOSURE = ''exceptional_closure''"

fun approval_status_value :: "approval_status \<Rightarrow> string" where
  "approval_status_value AP_PENDING = ''pending''"
| "approval_status_value AP_APPROVED = ''approved''"
| "approval_status_value AP_REJECTED = ''rejected''"
| "approval_status_value AP_REQUEST_MORE = ''request_more''"
| "approval_status_value AP_CONSUMED = ''consumed''"
| "approval_status_value AP_EXPIRED = ''expired''"

fun verdict_value :: "policy_verdict \<Rightarrow> string" where
  "verdict_value PV_ALLOWED = ''allowed''"
| "verdict_value PV_REQUIRES_APPROVAL = ''requires_approval''"
| "verdict_value PV_BLOCKED = ''blocked''"

fun severity_value :: "severity \<Rightarrow> string" where
  "severity_value INFO = ''info''"
| "severity_value WARNING = ''warning''"
| "severity_value CRITICAL = ''critical''"

text \<open>\<open>Enum(value)\<close>: the member with that value, or \<open>ValueError\<close>.\<close>

definition enum_of :: "('a \<Rightarrow> string) \<Rightarrow> 'a list \<Rightarrow> json \<Rightarrow> 'a res" where
  "enum_of val members v =
     (case find (\<lambda>m. v = JStr (val m)) members of
        Some m \<Rightarrow> Inr m
      | None \<Rightarrow> Inl (ValueError (py_repr v @ '' is not a valid member'')))"

definition stages :: "stage list" where
  "stages = [NEW, VALIDATE, CORRELATE, EVIDENCE, DETERMINISTIC_RCA, LLM_RCA, FUSION, ACTION_RANKING,
     POLICY, WAITING_APPROVAL, EXECUTE, VERIFY, FAILURE_REVIEW, RECONCILE, CLOSED, ESCALATED, QUARANTINED]"

definition fault_domains :: "fault_domain list" where
  "fault_domains = [FD_CPE, FD_WIFI_HOME, FD_PREMISE_WIRING, FD_DROP, FD_HFC_TAP, FD_PON_ODP,
     FD_SHARED_NETWORK, FD_PLANT, FD_PROVISIONING, FD_SERVICE_PLATFORM, FD_POWER, FD_UNKNOWN]"

definition action_types :: "action_type list" where
  "action_types = [REMOTE_REPROVISION, REMOTE_REBOOT, SELF_HELP, CLEAN_BOOTS, DIRTY_BOOTS_MR,
     JOINT_DISPATCH, PLANT_ACTION, MANUAL_REVIEW, MONITOR]"

definition FaultDomain :: "json \<Rightarrow> fault_domain res" where
  "FaultDomain = enum_of domain_value fault_domains"

definition ActionType :: "json \<Rightarrow> action_type res" where
  "ActionType = enum_of action_value action_types"

definition Technology :: "json \<Rightarrow> technology res" where
  "Technology = enum_of technology_value [HFC, PON]"

lemma domain_value_inj [simp]: "domain_value a = domain_value b \<longleftrightarrow> a = b"
  by (cases a; cases b) simp_all

lemma action_value_inj [simp]: "action_value a = action_value b \<longleftrightarrow> a = b"
  by (cases a; cases b) simp_all

lemma stage_value_inj [simp]: "stage_value a = stage_value b \<longleftrightarrow> a = b"
  by (cases a; cases b) simp_all

lemma kind_value_inj [simp]: "kind_value a = kind_value b \<longleftrightarrow> a = b"
  by (cases a; cases b) simp_all

lemma FaultDomain_value [simp]: "FaultDomain (JStr (domain_value d)) = Inr d"
  by (cases d) (simp_all add: FaultDomain_def enum_of_def fault_domains_def)

lemma ActionType_value [simp]: "ActionType (JStr (action_value a)) = Inr a"
  by (cases a) (simp_all add: ActionType_def enum_of_def action_types_def)

lemma enum_of_Inr: "enum_of val ms v = Inr m \<Longrightarrow> m \<in> set ms \<and> v = JStr (val m)"
  by (auto simp: enum_of_def find_Some_iff split: option.splits)

lemma FaultDomain_Inr: "FaultDomain v = Inr d \<longleftrightarrow> v = JStr (domain_value d)"
  by (auto simp: FaultDomain_def dest: enum_of_Inr) (metis FaultDomain_def FaultDomain_value)

lemma ActionType_Inr: "ActionType v = Inr a \<longleftrightarrow> v = JStr (action_value a)"
  by (auto simp: ActionType_def dest: enum_of_Inr) (metis ActionType_def ActionType_value)

subsection \<open>Field validation\<close>

definition invalid :: "string \<Rightarrow> 'a res" where
  "invalid f = Inl (ValidationError f)"

fun vstr :: "json \<Rightarrow> string res" where
  "vstr (JStr s) = Inr s"
| "vstr _ = invalid ''Input should be a valid string''"

fun vopt_str :: "json \<Rightarrow> string option res" where
  "vopt_str JNull = Inr None"
| "vopt_str (JStr s) = Inr (Some s)"
| "vopt_str _ = invalid ''Input should be a valid string''"

fun vstrs :: "json \<Rightarrow> string list res" where
  "vstrs (JArr xs) = mapR vstr xs"
| "vstrs _ = invalid ''Input should be a valid list''"

definition vunit :: "rat \<Rightarrow> rat res" where
  "vunit r = (if 0 \<le> r \<and> r \<le> 1 then Inr r else invalid ''Input should be between 0 and 1'')"

definition vfloat01 :: "json \<Rightarrow> rat res" where
  "vfloat01 v = (case py_float v of Inl _ \<Rightarrow> invalid ''Input should be a valid number'' | Inr r \<Rightarrow> vunit r)"

definition vdomain :: "json \<Rightarrow> fault_domain res" where
  "vdomain v = (case FaultDomain v of Inl _ \<Rightarrow> invalid ''Input should be a fault domain'' | Inr d \<Rightarrow> Inr d)"

definition vreq :: "string \<Rightarrow> (json \<Rightarrow> 'a res) \<Rightarrow> dict \<Rightarrow> 'a res" where
  "vreq k f d = (case map_of d k of None \<Rightarrow> invalid ''Field required'' | Some v \<Rightarrow> f v)"

definition vdef :: "string \<Rightarrow> 'a \<Rightarrow> (json \<Rightarrow> 'a res) \<Rightarrow> dict \<Rightarrow> 'a res" where
  "vdef k x f d = (case map_of d k of None \<Rightarrow> Inr x | Some v \<Rightarrow> f v)"

definition vextra :: "string list \<Rightarrow> dict \<Rightarrow> unit res" where
  "vextra allowed d = (if \<forall>p \<in> set d. fst p \<in> set allowed then Inr () else invalid ''Extra inputs are not permitted'')"

lemma vunit_Inr [simp]: "vunit r = Inr q \<longleftrightarrow> q = r \<and> 0 \<le> r \<and> r \<le> 1"
  by (auto simp: vunit_def invalid_def)

subsection \<open>Records\<close>

record evidence_item =
  e_id :: string
  e_kind :: string
  e_source :: string
  e_subject :: string
  e_observed_at :: datetime
  e_value :: json
  e_quality :: rat
  e_summary :: string

record hypothesis =
  h_cause :: string
  h_domain :: fault_domain
  h_probability :: rat
  h_supporting :: "string list"
  h_contradicting :: "string list"

record rca =
  r_source :: string
  r_domain :: fault_domain
  r_confidence :: rat
  r_hypotheses :: "hypothesis list"
  r_evidence_refs :: "string list"
  r_ruled_out :: "string list"
  r_missing :: "string list"
  r_tests :: "string list"
  r_rationale :: string
  r_model_name :: "string option"
  r_prompt_version :: "string option"

record candidate =
  c_rank :: int
  c_action :: action_type
  c_label :: string
  c_success :: rat
  c_minutes :: int
  c_cost :: string
  c_risk :: string
  c_required :: "string list"
  c_success_test :: "string list"
  c_failure_trigger :: string
  c_rationale :: string

record policy_decision =
  p_verdict :: policy_verdict
  p_reasons :: "string list"
  p_version :: string
  p_kind :: "approval_kind option"
  p_role :: "string option"

record approval =
  a_id :: string
  a_incident :: string
  a_action :: string
  a_kind :: approval_kind
  a_status :: approval_status
  a_role :: string
  a_proposal :: dict
  a_key :: string
  a_created :: datetime
  a_expires :: datetime
  a_decided_by :: "string option"
  a_reason :: "string option"
  a_option :: "string option"
  a_decided_at :: "datetime option"
  a_consumed_at :: "datetime option"

record action_result =
  x_action :: action_type
  x_id :: string
  x_outcome :: string
  x_summary :: string
  x_key :: string
  x_replayed :: bool
  x_evidence :: "evidence_item list"
  x_work_order :: "string option"
  x_mr :: "string option"

record timeline_event =
  t_id :: string
  t_incident :: string
  t_timestamp :: datetime
  t_stage :: stage
  t_type :: string
  t_title :: string
  t_detail :: string
  t_actor :: string
  t_severity :: severity
  t_metadata :: dict

datatype sla_mode = OWN | INHERITS_PARENT | PAUSED
datatype agreement = AGREE | DISAGREE | AGREEMENT_UNKNOWN
datatype gate_reason = G_LOW_CONFIDENCE | G_DOMAIN_DISAGREEMENT | G_POLICY | G_NONE | G_BUDGET

fun sla_mode_value :: "sla_mode \<Rightarrow> string" where
  "sla_mode_value OWN = ''own''"
| "sla_mode_value INHERITS_PARENT = ''inherits_parent''"
| "sla_mode_value PAUSED = ''paused''"

fun agreement_value :: "agreement \<Rightarrow> string" where
  "agreement_value AGREE = ''agree''"
| "agreement_value DISAGREE = ''disagree''"
| "agreement_value AGREEMENT_UNKNOWN = ''unknown''"

fun gate_value :: "gate_reason \<Rightarrow> string" where
  "gate_value G_LOW_CONFIDENCE = ''low_confidence''"
| "gate_value G_DOMAIN_DISAGREEMENT = ''domain_disagreement''"
| "gate_value G_POLICY = ''policy''"
| "gate_value G_NONE = ''none''"
| "gate_value G_BUDGET = ''budget''"

record incident =
  i_id :: string
  i_scenario :: string
  i_title :: string
  i_technology :: technology
  i_priority :: string
  i_source :: string
  i_status :: case_status
  i_stage :: stage
  i_created :: datetime
  i_updated :: datetime
  i_sla_deadline :: datetime
  i_parent :: "string option"
  i_parent_deadline :: "datetime option"
  i_sla_mode :: sla_mode
  i_topology :: dict
  i_evidence :: "evidence_item list"
  i_det_rca :: "rca option"
  i_llm_rca :: "rca option"
  i_approved_rca :: "rca option"
  i_domain_det :: "fault_domain option"
  i_domain_llm :: "fault_domain option"
  i_agreement :: agreement
  i_gate :: gate_reason
  i_candidates :: "candidate list"
  i_selected :: "candidate option"
  i_next :: "candidate option"
  i_policy :: "policy_decision option"
  i_pending :: "string option"
  i_result :: "dict option"
  i_history :: "action_result list"
  i_remote :: nat
  i_self_help :: nat
  i_field :: nat
  i_mr :: nat
  i_cycles :: nat
  i_steps :: nat
  i_new_evidence :: bool
  i_verified :: "bool option"
  i_verify_summary :: "string option"
  i_owner :: string
  i_delimiter :: "string option"
  i_work_orders :: "dict list"
  i_mr_records :: "dict list"
  i_timeline :: "timeline_event list"
  i_audit :: "dict list"
  i_context :: dict
  i_error :: "string option"

text \<open>A new incident with the class's defaults; the arguments are the fields without one.\<close>

definition new_incident ::
  "string \<Rightarrow> string \<Rightarrow> string \<Rightarrow> technology \<Rightarrow> string \<Rightarrow> string \<Rightarrow> datetime \<Rightarrow> datetime \<Rightarrow> dict \<Rightarrow> incident" where
  "new_incident iid scen title tech prio src now deadline ctx =
     \<lparr>i_id = iid, i_scenario = scen, i_title = title, i_technology = tech, i_priority = prio,
      i_source = src, i_status = CS_OPEN, i_stage = NEW, i_created = now, i_updated = now,
      i_sla_deadline = deadline, i_parent = None, i_parent_deadline = None, i_sla_mode = OWN,
      i_topology = [], i_evidence = [], i_det_rca = None, i_llm_rca = None, i_approved_rca = None,
      i_domain_det = None, i_domain_llm = None, i_agreement = AGREEMENT_UNKNOWN, i_gate = G_NONE,
      i_candidates = [], i_selected = None, i_next = None, i_policy = None, i_pending = None,
      i_result = None, i_history = [], i_remote = 0, i_self_help = 0, i_field = 0, i_mr = 0,
      i_cycles = 0, i_steps = 0, i_new_evidence = True, i_verified = None, i_verify_summary = None,
      i_owner = ''NOC'', i_delimiter = None, i_work_orders = [], i_mr_records = [], i_timeline = [],
      i_audit = [], i_context = ctx, i_error = None\<rparr>"

subsection \<open>Validated construction\<close>

definition mk_evidence ::
  "string \<Rightarrow> string \<Rightarrow> string \<Rightarrow> string \<Rightarrow> datetime \<Rightarrow> json \<Rightarrow> rat \<Rightarrow> string \<Rightarrow> evidence_item res" where
  "mk_evidence eid kind src subj obs v q summ =
     bindR (vunit q) (\<lambda>q. Inr \<lparr>e_id = eid, e_kind = kind, e_source = src, e_subject = subj,
       e_observed_at = obs, e_value = v, e_quality = q, e_summary = summ\<rparr>)"

definition mk_hypothesis ::
  "string \<Rightarrow> fault_domain \<Rightarrow> rat \<Rightarrow> string list \<Rightarrow> string list \<Rightarrow> hypothesis res" where
  "mk_hypothesis cause fd p sups cons =
     bindR (vunit p) (\<lambda>p. Inr \<lparr>h_cause = cause, h_domain = fd, h_probability = p,
       h_supporting = sups, h_contradicting = cons\<rparr>)"

text \<open>The checks of \<open>RCAProposal\<close>: the source, the confidence and the sum of probabilities.\<close>

definition check_rca :: "rca \<Rightarrow> rca res" where
  "check_rca r =
     (if r_source r \<notin> {''deterministic'', ''llm'', ''human'', ''fallback''} then invalid ''source''
      else bindR (vunit (r_confidence r)) (\<lambda>_.
        if r_hypotheses r \<noteq> [] \<and> 101/100 < sum_list (map h_probability (r_hypotheses r))
        then invalid ''RCA hypothesis probabilities must sum to no more than 1.01''
        else Inr r))"

fun hypothesis_of :: "json \<Rightarrow> hypothesis res" where
  "hypothesis_of (JObj d) =
     bindR (vextra [''cause'', ''domain'', ''probability'', ''supporting_evidence'', ''contradicting_evidence''] d) (\<lambda>_.
     bindR (vreq ''cause'' vstr d) (\<lambda>cause.
     bindR (vreq ''domain'' vdomain d) (\<lambda>fd.
     bindR (vreq ''probability'' vfloat01 d) (\<lambda>p.
     bindR (vdef ''supporting_evidence'' [] vstrs d) (\<lambda>sups.
     bindR (vdef ''contradicting_evidence'' [] vstrs d) (\<lambda>cons.
       mk_hypothesis cause fd p sups cons))))))"
| "hypothesis_of _ = invalid ''Input should be a valid dictionary''"

fun hypotheses_of :: "json \<Rightarrow> hypothesis list res" where
  "hypotheses_of (JArr xs) = mapR hypothesis_of xs"
| "hypotheses_of _ = invalid ''Input should be a valid list''"

definition rca_fields :: "string list" where
  "rca_fields = [''source'', ''recommended_domain'', ''confidence'', ''hypotheses'', ''evidence_refs'',
     ''ruled_out'', ''missing_evidence'', ''recommended_tests'', ''concise_rationale'', ''model_name'',
     ''prompt_version'']"

text \<open>\<open>RCAProposal.model_validate(raw)\<close>.\<close>

definition rca_of_dict :: "dict \<Rightarrow> rca res" where
  "rca_of_dict d =
     bindR (vextra rca_fields d) (\<lambda>_.
     bindR (vreq ''source'' vstr d) (\<lambda>src.
     bindR (vreq ''recommended_domain'' vdomain d) (\<lambda>fd.
     bindR (vreq ''confidence'' vfloat01 d) (\<lambda>conf.
     bindR (vreq ''hypotheses'' hypotheses_of d) (\<lambda>hyps.
     bindR (vdef ''evidence_refs'' [] vstrs d) (\<lambda>refs.
     bindR (vdef ''ruled_out'' [] vstrs d) (\<lambda>ruled.
     bindR (vdef ''missing_evidence'' [] vstrs d) (\<lambda>missing.
     bindR (vdef ''recommended_tests'' [] vstrs d) (\<lambda>tests.
     bindR (vreq ''concise_rationale'' vstr d) (\<lambda>rat.
     bindR (vdef ''model_name'' None vopt_str d) (\<lambda>mn.
     bindR (vdef ''prompt_version'' None vopt_str d) (\<lambda>pv.
       check_rca \<lparr>r_source = src, r_domain = fd, r_confidence = conf, r_hypotheses = hyps,
         r_evidence_refs = refs, r_ruled_out = ruled, r_missing = missing, r_tests = tests,
         r_rationale = rat, r_model_name = mn, r_prompt_version = pv\<rparr>))))))))))))"

definition check_candidate :: "candidate \<Rightarrow> candidate res" where
  "check_candidate c =
     (if c_rank c < 1 then invalid ''rank''
      else bindR (vunit (c_success c)) (\<lambda>_.
        if c_minutes c < 0 then invalid ''estimated_minutes''
        else if c_cost c \<notin> {''low'', ''medium'', ''high''} then invalid ''cost_class''
        else if c_risk c \<notin> {''low'', ''medium'', ''high''} then invalid ''risk_class''
        else Inr c))"

definition check_action_result :: "action_result \<Rightarrow> action_result res" where
  "check_action_result r =
     (if x_outcome r \<in> {''succeeded'', ''failed'', ''simulated'', ''blocked''} then Inr r
      else invalid ''outcome'')"

lemma check_rca_Inr: "check_rca r = Inr q \<Longrightarrow> q = r \<and> 0 \<le> r_confidence r \<and> r_confidence r \<le> 1"
  by (auto simp: check_rca_def res_simps invalid_def split: if_splits)

lemma check_candidate_Inr: "check_candidate c = Inr q \<Longrightarrow> q = c"
  by (auto simp: check_candidate_def res_simps invalid_def split: if_splits)

lemma check_action_result_Inr: "check_action_result c = Inr q \<Longrightarrow> q = c"
  by (auto simp: check_action_result_def invalid_def split: if_splits)

subsection \<open>Dumping to JSON values\<close>

definition jopt :: "string option \<Rightarrow> json" where
  "jopt v = (case v of None \<Rightarrow> JNull | Some s \<Rightarrow> JStr s)"

definition jstrs :: "string list \<Rightarrow> json" where
  "jstrs xs = JArr (map JStr xs)"

definition hypothesis_dump :: "hypothesis \<Rightarrow> json" where
  "hypothesis_dump h = JObj [(''cause'', JStr (h_cause h)), (''domain'', JStr (domain_value (h_domain h))),
     (''probability'', JFloat (h_probability h)), (''supporting_evidence'', jstrs (h_supporting h)),
     (''contradicting_evidence'', jstrs (h_contradicting h))]"

definition rca_dump :: "rca \<Rightarrow> json" where
  "rca_dump r = JObj [(''source'', JStr (r_source r)), (''recommended_domain'', JStr (domain_value (r_domain r))),
     (''confidence'', JFloat (r_confidence r)), (''hypotheses'', JArr (map hypothesis_dump (r_hypotheses r))),
     (''evidence_refs'', jstrs (r_evidence_refs r)), (''ruled_out'', jstrs (r_ruled_out r)),
     (''missing_evidence'', jstrs (r_missing r)), (''recommended_tests'', jstrs (r_tests r)),
     (''concise_rationale'', JStr (r_rationale r)), (''model_name'', jopt (r_model_name r)),
     (''prompt_version'', jopt (r_prompt_version r))]"

definition candidate_dict :: "candidate \<Rightarrow> dict" where
  "candidate_dict c = [(''rank'', JInt (c_rank c)), (''action_type'', JStr (action_value (c_action c))),
     (''label'', JStr (c_label c)), (''expected_success'', JFloat (c_success c)),
     (''estimated_minutes'', JInt (c_minutes c)), (''cost_class'', JStr (c_cost c)),
     (''risk_class'', JStr (c_risk c)), (''required_evidence'', jstrs (c_required c)),
     (''success_test'', jstrs (c_success_test c)), (''failure_trigger'', JStr (c_failure_trigger c)),
     (''rationale'', JStr (c_rationale c))]"

definition policy_dump :: "policy_decision \<Rightarrow> json" where
  "policy_dump p = JObj [(''verdict'', JStr (verdict_value (p_verdict p))), (''reasons'', jstrs (p_reasons p)),
     (''policy_version'', JStr (p_version p)), (''approval_kind'', jopt (map_option kind_value (p_kind p))),
     (''required_role'', jopt (p_role p))]"

subsection \<open>Operations of the incident\<close>

definition effective_sla_deadline :: "incident \<Rightarrow> datetime res" where
  "effective_sla_deadline s =
     authoritative_sla_deadline (i_sla_deadline s) (sla_mode_value (i_sla_mode s)) (i_parent_deadline s)"

definition sla_authority :: "incident \<Rightarrow> string" where
  "sla_authority s = sla_authority_label (sla_mode_value (i_sla_mode s)) (i_parent s)"

definition add_evidence :: "evidence_item \<Rightarrow> incident \<Rightarrow> incident" where
  "add_evidence item s = s\<lparr>i_evidence := append_once e_id item (i_evidence s)\<rparr>"

definition add_action_result :: "action_result \<Rightarrow> incident \<Rightarrow> incident" where
  "add_action_result item s = s\<lparr>i_history := append_once x_key item (i_history s)\<rparr>"

definition revision_fingerprint :: "(string \<Rightarrow> string) \<Rightarrow> dict \<Rightarrow> string" where
  "revision_fingerprint D rec = sha_hex D (json_dumps (JObj rec))"

definition add_work_order :: "(string \<Rightarrow> string) \<Rightarrow> dict \<Rightarrow> incident \<Rightarrow> incident" where
  "add_work_order D rec s = s\<lparr>i_work_orders := append_once (revision_fingerprint D) rec (i_work_orders s)\<rparr>"

definition add_mr_record :: "(string \<Rightarrow> string) \<Rightarrow> dict \<Rightarrow> incident \<Rightarrow> incident" where
  "add_mr_record D rec s = s\<lparr>i_mr_records := append_once (revision_fingerprint D) rec (i_mr_records s)\<rparr>"

definition event_key :: "(string \<Rightarrow> string) \<Rightarrow> string \<Rightarrow> string \<Rightarrow> string \<Rightarrow> incident \<Rightarrow> string" where
  "event_key D etype title detail s =
     stable_id D [i_id s, stage_value (i_stage s), etype, nat_str (i_steps s), title, detail] ''evt''"

definition append_event ::
  "(string \<Rightarrow> string) \<Rightarrow> datetime \<Rightarrow> string \<Rightarrow> string \<Rightarrow> string \<Rightarrow> string \<Rightarrow> severity \<Rightarrow> dict \<Rightarrow> incident \<Rightarrow> incident" where
  "append_event D now etype title detail actor sev meta s =
     s\<lparr>i_timeline := append_once t_id
        \<lparr>t_id = event_key D etype title detail s, t_incident = i_id s, t_timestamp = now,
         t_stage = i_stage s, t_type = etype, t_title = title, t_detail = detail, t_actor = actor,
         t_severity = sev, t_metadata = meta\<rparr> (i_timeline s)\<rparr>"

text \<open>What an append leaves alone; the engine's lemmas simplify with these.\<close>

named_theorems event_simps \<open>fields an appended event leaves unchanged\<close>

lemma append_event_fields [simp, event_simps]:
  "i_id (append_event D now a b c d e f s) = i_id s"
  "i_stage (append_event D now a b c d e f s) = i_stage s"
  "i_status (append_event D now a b c d e f s) = i_status s"
  "i_evidence (append_event D now a b c d e f s) = i_evidence s"
  "i_history (append_event D now a b c d e f s) = i_history s"
  "i_steps (append_event D now a b c d e f s) = i_steps s"
  "i_cycles (append_event D now a b c d e f s) = i_cycles s"
  "i_remote (append_event D now a b c d e f s) = i_remote s"
  "i_self_help (append_event D now a b c d e f s) = i_self_help s"
  "i_field (append_event D now a b c d e f s) = i_field s"
  "i_mr (append_event D now a b c d e f s) = i_mr s"
  "i_result (append_event D now a b c d e f s) = i_result s"
  "i_pending (append_event D now a b c d e f s) = i_pending s"
  "i_selected (append_event D now a b c d e f s) = i_selected s"
  "i_candidates (append_event D now a b c d e f s) = i_candidates s"
  "i_verified (append_event D now a b c d e f s) = i_verified s"
  "i_context (append_event D now a b c d e f s) = i_context s"
  "i_owner (append_event D now a b c d e f s) = i_owner s"
  "i_error (append_event D now a b c d e f s) = i_error s"
  "i_gate (append_event D now a b c d e f s) = i_gate s"
  "i_det_rca (append_event D now a b c d e f s) = i_det_rca s"
  "i_llm_rca (append_event D now a b c d e f s) = i_llm_rca s"
  "i_approved_rca (append_event D now a b c d e f s) = i_approved_rca s"
  "i_created (append_event D now a b c d e f s) = i_created s"
  "i_sla_deadline (append_event D now a b c d e f s) = i_sla_deadline s"
  "i_sla_mode (append_event D now a b c d e f s) = i_sla_mode s"
  "i_parent_deadline (append_event D now a b c d e f s) = i_parent_deadline s"
  "i_parent (append_event D now a b c d e f s) = i_parent s"
  "i_scenario (append_event D now a b c d e f s) = i_scenario s"
  "i_technology (append_event D now a b c d e f s) = i_technology s"
  "i_work_orders (append_event D now a b c d e f s) = i_work_orders s"
  "i_mr_records (append_event D now a b c d e f s) = i_mr_records s"
  by (simp_all add: append_event_def)

text \<open>The invariant of the append-only collections: no two members with one identity.\<close>

definition unique_logs :: "(string \<Rightarrow> string) \<Rightarrow> incident \<Rightarrow> bool" where
  "unique_logs D s \<longleftrightarrow> distinct (map e_id (i_evidence s)) \<and> distinct (map x_key (i_history s)) \<and>
     distinct (map t_id (i_timeline s)) \<and> distinct (map (revision_fingerprint D) (i_work_orders s)) \<and>
     distinct (map (revision_fingerprint D) (i_mr_records s))"

lemma unique_logs_ops [simp, intro]:
  "unique_logs D s \<Longrightarrow> unique_logs D (add_evidence e s)"
  "unique_logs D s \<Longrightarrow> unique_logs D (add_action_result x s)"
  "unique_logs D s \<Longrightarrow> unique_logs D (add_work_order D r s)"
  "unique_logs D s \<Longrightarrow> unique_logs D (add_mr_record D r s)"
  "unique_logs D s \<Longrightarrow> unique_logs D (append_event D now a b c d e' f s)"
  by (simp_all add: unique_logs_def add_evidence_def add_action_result_def add_work_order_def
      add_mr_record_def append_event_def append_once_distinct)

lemma append_event_replay:
  "append_event D now' a b c d' e' f' (append_event D now a b c d e f s) = append_event D now a b c d e f s"
  by (auto simp: append_event_def append_once_def event_key_def)


end
