(* ===== verification/JsonParse.thy ===== *)
theory JsonParse
  imports PyJson "HOL-Library.Multiset"
begin

text \<open>
  \<open>json.loads\<close>: a recursive-descent parser over the text, with the text's length as
  fuel, and the round trip with the printer \<open>json_dumps\<close>.
\<close>

subsection \<open>The parser\<close>

definition ws_char :: "char \<Rightarrow> bool" where
  "ws_char c \<longleftrightarrow> (of_char c :: nat) \<in> {32, 9, 10, 13}"

definition skip_ws :: "string \<Rightarrow> string" where
  "skip_ws s = dropWhile ws_char s"

definition hex_val :: "char \<Rightarrow> nat option" where
  "hex_val c = (let n = (of_char c :: nat) in
     if 48 \<le> n \<and> n \<le> 57 then Some (n - 48)
     else if 97 \<le> n \<and> n \<le> 102 then Some (n - 87)
     else if 65 \<le> n \<and> n \<le> 70 then Some (n - 55) else None)"

definition unescape :: "char \<Rightarrow> char option" where
  "unescape c = (let n = (of_char c :: nat) in
     if n = 34 \<or> n = 92 \<or> n = 47 then Some c
     else if n = 110 then Some (char_of (10 :: nat)) else if n = 114 then Some (char_of (13 :: nat))
     else if n = 116 then Some (char_of (9 :: nat)) else if n = 102 then Some (char_of (12 :: nat))
     else if n = 98 then Some (char_of (8 :: nat)) else None)"

text \<open>
  The characters of a string literal after its opening quote. A control character is
  rejected, as is an escape \<open>\u\<close> beyond the modelled code points.
\<close>

fun parse_chars :: "string \<Rightarrow> (string \<times> string) option" where
  "parse_chars [] = None"
| "parse_chars (c # s) =
     (if c = CHR 0x22 then Some ([], s)
      else if c = CHR 0x5C then
        (case s of
           [] \<Rightarrow> None
         | e # s1 \<Rightarrow>
             if e = CHR ''u'' then
               (case s1 of
                  h1 # h2 # h3 # h4 # s2 \<Rightarrow>
                    (case (hex_val h1, hex_val h2, hex_val h3, hex_val h4) of
                       (Some a, Some b, Some x, Some y) \<Rightarrow>
                         if a = 0 \<and> b = 0
                         then map_option (\<lambda>(t, r). (char_of (16 * x + y) # t, r)) (parse_chars s2)
                         else None
                     | _ \<Rightarrow> None)
                | _ \<Rightarrow> None)
             else (case unescape e of
                     None \<Rightarrow> None
                   | Some d \<Rightarrow> map_option (\<lambda>(t, r). (d # t, r)) (parse_chars s1)))
      else if (of_char c :: nat) < 32 then None
      else map_option (\<lambda>(t, r). (c # t, r)) (parse_chars s))"

text \<open>A number: \<open>-?(0|[1-9]digits)(.digits)?\<close>; an exponent is left to the caller, which rejects it.\<close>

definition int_ok :: "string \<Rightarrow> bool" where
  "int_ok ds \<longleftrightarrow> ds \<noteq> [] \<and> (length ds = 1 \<or> hd ds \<noteq> CHR ''0'')"

definition parse_number :: "string \<Rightarrow> (json \<times> string) option" where
  "parse_number s =
     (let neg = (s \<noteq> [] \<and> hd s = CHR ''-'');
          s1 = (if neg then tl s else s);
          ds = takeWhile is_digit_char s1;
          r1 = dropWhile is_digit_char s1
      in if \<not> int_ok ds then None
         else case r1 of
           [] \<Rightarrow> Some (JInt (if neg then - int (digits_val ds) else int (digits_val ds)), r1)
         | c # r2 \<Rightarrow>
             let fs = takeWhile is_digit_char r2 in
             if c = CHR ''.'' \<and> fs \<noteq> []
             then let q = of_nat (digits_val ds) + of_nat (digits_val fs) / 10 ^ length fs
                  in Some (JFloat (if neg then - q else q), dropWhile is_digit_char r2)
             else Some (JInt (if neg then - int (digits_val ds) else int (digits_val ds)), r1))"

definition strip_prefix :: "string \<Rightarrow> string \<Rightarrow> string option" where
  "strip_prefix p s = (if take (length p) s = p then Some (drop (length p) s) else None)"

text \<open>
  One value, and the rest of the text. The fuel bounds the nesting and the number of
  elements; the length of the text is enough, since every call consumes a character.
  A repeated key keeps its first place and its last value, as a Python dictionary does.
\<close>

fun parse_value :: "nat \<Rightarrow> string \<Rightarrow> (json \<times> string) option"
  and parse_items :: "nat \<Rightarrow> string \<Rightarrow> (json list \<times> string) option"
  and parse_members :: "nat \<Rightarrow> string \<Rightarrow> (dict \<times> string) option"
where
  "parse_value 0 s = None"
| "parse_value (Suc n) s =
     (case s of
        [] \<Rightarrow> None
      | c # r \<Rightarrow>
          if c = CHR 0x22 then map_option (\<lambda>(t, r'). (JStr t, r')) (parse_chars r)
          else if c = CHR ''['' then
            (case skip_ws r of
               [] \<Rightarrow> None
             | d # r1 \<Rightarrow> if d = CHR '']'' then Some (JArr [], r1)
                 else map_option (\<lambda>(xs, r'). (JArr xs, r')) (parse_items n (d # r1)))
          else if c = CHR ''{'' then
            (case skip_ws r of
               [] \<Rightarrow> None
             | d # r1 \<Rightarrow> if d = CHR ''}'' then Some (JObj [], r1)
                 else map_option (\<lambda>(ps, r'). (JObj (dupdate [] ps), r')) (parse_members n (d # r1)))
          else if c = CHR ''n'' then map_option (\<lambda>r'. (JNull, r')) (strip_prefix ''null'' s)
          else if c = CHR ''t'' then map_option (\<lambda>r'. (JBool True, r')) (strip_prefix ''true'' s)
          else if c = CHR ''f'' then map_option (\<lambda>r'. (JBool False, r')) (strip_prefix ''false'' s)
          else parse_number s)"
| "parse_items 0 s = None"
| "parse_items (Suc n) s =
     (case parse_value n s of
        None \<Rightarrow> None
      | Some (v, r) \<Rightarrow>
          (case skip_ws r of
             [] \<Rightarrow> None
           | c # r1 \<Rightarrow>
               if c = CHR '']'' then Some ([v], r1)
               else if c = CHR '','' then
                 map_option (\<lambda>(vs, r'). (v # vs, r')) (parse_items n (skip_ws r1))
               else None))"
| "parse_members 0 s = None"
| "parse_members (Suc n) s =
     (case s of
        [] \<Rightarrow> None
      | q # s1 \<Rightarrow>
          if q \<noteq> CHR 0x22 then None
          else (case parse_chars s1 of
                  None \<Rightarrow> None
                | Some (k, r) \<Rightarrow>
                    (case skip_ws r of
                       [] \<Rightarrow> None
                     | c # r1 \<Rightarrow>
                         if c \<noteq> CHR '':'' then None
                         else (case parse_value n (skip_ws r1) of
                                 None \<Rightarrow> None
                               | Some (v, r2) \<Rightarrow>
                                   (case skip_ws r2 of
                                      [] \<Rightarrow> None
                                    | d # r3 \<Rightarrow>
                                        if d = CHR ''}'' then Some ([(k, v)], r3)
                                        else if d = CHR '','' then
                                          map_option (\<lambda>(ps, r'). ((k, v) # ps, r'))
                                            (parse_members n (skip_ws r3))
                                        else None)))))"

definition json_loads :: "string \<Rightarrow> json option" where
  "json_loads s =
     (case parse_value (Suc (2 * length s)) (skip_ws s) of
        None \<Rightarrow> None
      | Some (v, r) \<Rightarrow> if skip_ws r = [] then Some v else None)"

subsection \<open>Round trip of strings\<close>

lemma hex_val_hex_digit [simp]: "d < 16 \<Longrightarrow> hex_val (hex_digit d) = Some d"
  by (auto simp: hex_val_def hex_digit_def Let_def)

lemma of_char_less: "(of_char c :: nat) < 256"
  using range_nat_of_char by (metis atLeastLessThan_iff rangeI)

lemma hex2_value: "n < 256 \<Longrightarrow> 16 * (n div 16 mod 16) + n mod 16 = (n :: nat)"
proof -
  assume "n < 256"
  then have "n div 16 < 16" by (simp add: less_mult_imp_div_less)
  then have "n div 16 mod 16 = n div 16" by simp
  then show ?thesis by simp
qed

lemma char_of_nat_eq: "(of_char c :: nat) = n \<Longrightarrow> c = char_of n"
  by (metis char_of_char)

lemma parse_chars_json_char:
  "parse_chars (json_char c @ s) = map_option (\<lambda>(t, r). (c # t, r)) (parse_chars s)"
proof -
  let ?n = "of_char c :: nat"
  have lt: "?n < 256" by (rule of_char_less)
  consider (named) "?n \<in> {34, 92, 10, 13, 9, 12, 8}"
    | (coded) "?n \<notin> {34, 92, 10, 13, 9, 12, 8}" "?n < 32 \<or> 126 < ?n"
    | (plain) "?n \<notin> {34, 92, 10, 13, 9, 12, 8}" "\<not> (?n < 32 \<or> 126 < ?n)"
    by blast
  then show ?thesis
  proof cases
    case named
    then have "c = char_of (34::nat) \<or> c = char_of (92::nat) \<or> c = char_of (10::nat) \<or> c = char_of (13::nat)
        \<or> c = char_of (9::nat) \<or> c = char_of (12::nat) \<or> c = char_of (8::nat)"
      using char_of_nat_eq by blast
    moreover have "char_of (34::nat) = CHR 0x22" "char_of (92::nat) = CHR 0x5C"
      by (simp_all add: char_of_eq_iff)
    ultimately show ?thesis
      by (elim disjE) (simp_all add: json_char_def unescape_def)
  next
    case coded
    have "16 * (?n div 16 mod 16) + ?n mod 16 = ?n"
      using lt by (rule hex2_value)
    moreover have "json_char c = [CHR 0x5C, CHR ''u'', CHR ''0'', CHR ''0''] @ hex2 ?n"
      using coded by (simp add: json_char_def)
    moreover have "hex_val (CHR ''0'') = Some 0" by (simp add: hex_val_def)
    ultimately show ?thesis by (simp add: hex2_def)
  next
    case plain
    then have "json_char c = [c]" by (simp add: json_char_def)
    moreover have "c \<noteq> CHR 0x22" "c \<noteq> CHR 0x5C" using plain by auto
    ultimately show ?thesis using plain by simp
  qed
qed

lemma parse_chars_concat:
  "parse_chars (concat (map json_char s) @ CHR 0x22 # r) = Some (s, r)"
proof (induction s)
  case Nil
  then show ?case by simp
next
  case (Cons c s)
  then show ?case by (simp add: parse_chars_json_char del: parse_chars.simps(2))
qed

subsection \<open>Round trip of numbers\<close>

definition number_end :: "string \<Rightarrow> bool" where
  "number_end r \<longleftrightarrow> (case r of [] \<Rightarrow> True | c # _ \<Rightarrow> \<not> is_digit_char c \<and> c \<noteq> CHR ''.'')"

lemma takeWhile_digits:
  assumes "\<forall>c \<in> set ds. is_digit_char c" "case r of [] \<Rightarrow> True | c # _ \<Rightarrow> \<not> is_digit_char c"
  shows "takeWhile is_digit_char (ds @ r) = ds" "dropWhile is_digit_char (ds @ r) = r"
  using assms by (induction ds) (auto split: list.splits)

lemma hd_nat_str_zero: "hd (nat_str n) = CHR ''0'' \<longleftrightarrow> n = 0"
proof (induction n rule: nat_str.induct)
  case (1 n)
  have small: "digit_char d = CHR ''0'' \<longleftrightarrow> d = 0" if "d < 10" for d
  proof
    assume "digit_char d = CHR ''0''"
    then have "digit_val (digit_char d) = digit_val (CHR ''0'')" by simp
    with that show "d = 0" by (simp add: digit_val_def of_char_digit_char)
  qed (simp add: digit_char_def char_of_eq_iff)
  show ?case
  proof (cases "n < 10")
    case True
    then show ?thesis by (subst nat_str.simps) (simp add: small)
  next
    case False
    then show ?thesis using 1 by (subst nat_str.simps) simp
  qed
qed

lemma int_ok_nat_str: "int_ok (nat_str n)"
proof (cases "n = 0")
  case True
  then show ?thesis by (simp add: int_ok_def nat_str.simps)
next
  case False
  then show ?thesis by (simp add: int_ok_def hd_nat_str_zero)
qed

lemma hd_nat_str_digit: "is_digit_char (hd (nat_str n))"
  by (rule nat_str_digits [of _ n]) simp

lemma nat_str_not_minus [simp]: "nat_str n \<noteq> CHR ''-'' # s"
  using hd_nat_str_digit [of n] by (auto simp: is_digit_char_def)

lemma hd_nat_str_not_minus [simp]: "hd (nat_str n) \<noteq> CHR ''-''"
  using hd_nat_str_digit [of n] by (auto simp: is_digit_char_def)

lemma digits_nat_str: "\<forall>c \<in> set (nat_str n). is_digit_char c"
  using nat_str_digits by blast

lemma takeWhile_nat_str [simp]: "takeWhile is_digit_char (nat_str n) = nat_str n"
  using takeWhile_digits [OF digits_nat_str, of "[]" n] by (simp del: takeWhile_eq_all_conv)

lemma parse_number_nat:
  assumes "number_end r"
  shows "parse_number (nat_str n @ r) = Some (JInt (int n), r)"
    "parse_number (CHR ''-'' # nat_str n @ r) = Some (JInt (- int n), r)"
proof -
  have "case r of [] \<Rightarrow> True | c # _ \<Rightarrow> \<not> is_digit_char c"
    using assms by (auto simp: number_end_def split: list.splits)
  note tw = takeWhile_digits [OF digits_nat_str this, of n]
  have dot: "c \<noteq> CHR ''.''" if "r = c # r'" for c r'
    using assms that by (simp add: number_end_def)
  have hd: "hd (nat_str n @ r) \<noteq> CHR ''-''" by simp
  show "parse_number (nat_str n @ r) = Some (JInt (int n), r)"
    unfolding parse_number_def Let_def tw using hd dot
    by (simp add: tw int_ok_nat_str del: hd_append2; cases r; insert tw digits_nat_str [of n]; simp)
  show "parse_number (CHR ''-'' # nat_str n @ r) = Some (JInt (- int n), r)"
    unfolding parse_number_def Let_def using dot
    by (simp add: tw int_ok_nat_str; cases r; insert tw digits_nat_str [of n]; simp)
qed

lemma parse_number_int:
  "number_end r \<Longrightarrow> parse_number (int_str i @ r) = Some (JInt i, r)"
  by (simp add: int_str_def parse_number_nat)

text \<open>A float whose shortest form has at most 17 decimals, which the printer shows in full.\<close>

definition plain_float :: "rat \<Rightarrow> bool" where
  "plain_float q \<longleftrightarrow> q * 10 ^ 17 \<in> \<int>"

lemma digits_val_Cons: "digits_val (c # s) = digit_val c * 10 ^ length s + digits_val s"
proof (induction s rule: rev_induct)
  case Nil
  then show ?case by (simp add: digits_val_def)
next
  case (snoc x s)
  have "digits_val (c # s @ [x]) = 10 * digits_val (c # s) + digit_val x"
    using digits_val_snoc [of "c # s" x] by simp
  then show ?case by (simp add: snoc digits_val_snoc)
qed

lemma frac_digit:
  fixes f :: rat
  assumes "0 \<le> f" "f < 1"
  shows "nat \<lfloor>10 * f\<rfloor> < 10" "of_nat (nat \<lfloor>10 * f\<rfloor>) = (of_int \<lfloor>10 * f\<rfloor> :: rat)"
    "0 \<le> 10 * f - of_int \<lfloor>10 * f\<rfloor>" "10 * f - of_int \<lfloor>10 * f\<rfloor> < 1"
proof -
  have "10 * f < 10" "0 \<le> 10 * f" using assms by simp_all
  then have "\<lfloor>10 * f\<rfloor> < 10" "0 \<le> \<lfloor>10 * f\<rfloor>" by (simp_all add: floor_less_iff)
  then show "nat \<lfloor>10 * f\<rfloor> < 10" "of_nat (nat \<lfloor>10 * f\<rfloor>) = (of_int \<lfloor>10 * f\<rfloor> :: rat)"
    by linarith+
  show "0 \<le> 10 * f - of_int \<lfloor>10 * f\<rfloor>" "10 * f - of_int \<lfloor>10 * f\<rfloor> < 1" by linarith+
qed

lemma frac_str_digits: "0 \<le> f \<Longrightarrow> f < 1 \<Longrightarrow> c \<in> set (frac_str k f) \<Longrightarrow> is_digit_char c"
proof (induction k f rule: frac_str.induct)
  case (1 r)
  then show ?case by simp
next
  case (2 k r)
  then show ?case using frac_digit [of r] by (auto split: if_splits)
qed

lemma frac_str_value:
  "0 \<le> f \<Longrightarrow> f < 1 \<Longrightarrow> f * 10 ^ k \<in> \<int> \<Longrightarrow>
   of_nat (digits_val (frac_str k f)) = f * 10 ^ length (frac_str k f)"
proof (induction k f rule: frac_str.induct)
  case (1 r)
  then obtain i where "r = of_int i" by (auto elim: Ints_cases)
  with 1 have "r = 0" by simp
  then show ?case by (simp add: digits_val_def)
next
  case (2 k r)
  show ?case
  proof (cases "r = 0")
    case True
    then show ?thesis by (simp add: digits_val_def)
  next
    case False
    let ?f = "10 * r - of_int \<lfloor>10 * r\<rfloor>"
    have "?f * 10 ^ k = r * 10 ^ Suc k - of_int (\<lfloor>10 * r\<rfloor> * 10 ^ k)" by (simp add: algebra_simps)
    also have "\<dots> \<in> \<int>" using "2.prems" by (intro Ints_diff) auto
    finally have "of_nat (digits_val (frac_str k ?f)) = ?f * 10 ^ length (frac_str k ?f)"
      using False frac_digit [of r] "2.prems" by (intro "2.IH") auto
    then show ?thesis
      using False frac_digit [of r] "2.prems" by (simp add: digits_val_Cons algebra_simps)
  qed
qed

lemma float_repr_parts:
  assumes "plain_float q"
  obtains n fs where "float_repr q = (if q < 0 then ''-'' else '''') @ nat_str n @ ''.'' @ fs"
    "\<forall>c \<in> set fs. is_digit_char c" "fs \<noteq> []"
    "of_nat n + of_nat (digits_val fs) / 10 ^ length fs = \<bar>q\<bar>"
proof -
  define f where "f = \<bar>q\<bar> - of_int \<lfloor>\<bar>q\<bar>\<rfloor>"
  define ds where "ds = frac_str 17 f"
  have f: "0 \<le> f" "f < 1" unfolding f_def by linarith+
  have "\<bar>q\<bar> * 10 ^ 17 \<in> \<int>"
    using assms by (cases "0 \<le> q") (auto simp: plain_float_def abs_if)
  moreover have "f * 10 ^ 17 = \<bar>q\<bar> * 10 ^ 17 - of_int (\<lfloor>\<bar>q\<bar>\<rfloor> * 10 ^ 17)"
    by (simp add: f_def algebra_simps)
  ultimately have "f * 10 ^ 17 \<in> \<int>" by (metis Ints_diff Ints_of_int)
  then have val: "of_nat (digits_val ds) = f * 10 ^ length ds"
    unfolding ds_def using f by (intro frac_str_value)
  have nn: "(of_nat (nat \<lfloor>\<bar>q\<bar>\<rfloor>) :: rat) = of_int \<lfloor>\<bar>q\<bar>\<rfloor>" by simp
  show thesis
  proof (cases ds)
    case Nil
    then have "f = 0" using val by (simp add: digits_val_def)
    then show thesis
      using Nil nn by (intro that [of "nat \<lfloor>\<bar>q\<bar>\<rfloor>" "''0''"])
        (auto simp: float_repr_def ds_def f_def is_digit_char_def digits_val_def digit_val_def)
  next
    case (Cons d ds')
    show thesis
    proof (rule that [of "nat \<lfloor>\<bar>q\<bar>\<rfloor>" ds])
      show "float_repr q = (if q < 0 then ''-'' else '''') @ nat_str (nat \<lfloor>\<bar>q\<bar>\<rfloor>) @ ''.'' @ ds"
        using Cons by (simp add: float_repr_def ds_def f_def)
      show "\<forall>c \<in> set ds. is_digit_char c"
        unfolding ds_def using frac_str_digits f by blast
      show "ds \<noteq> []" using Cons by simp
      show "of_nat (nat \<lfloor>\<bar>q\<bar>\<rfloor>) + of_nat (digits_val ds) / 10 ^ length ds = \<bar>q\<bar>"
        using nn val by (simp add: f_def)
    qed
  qed
qed

lemma parse_number_float:
  assumes "plain_float q" "number_end r"
  shows "parse_number (float_repr q @ r) = Some (JFloat q, r)"
proof -
  obtain n fs where rep: "float_repr q = (if q < 0 then ''-'' else '''') @ nat_str n @ ''.'' @ fs"
    and fs: "\<forall>c \<in> set fs. is_digit_char c" "fs \<noteq> []"
    and val: "of_nat n + of_nat (digits_val fs) / 10 ^ length fs = \<bar>q\<bar>"
    by (rule float_repr_parts [OF assms(1)])
  have "case r of [] \<Rightarrow> True | c # _ \<Rightarrow> \<not> is_digit_char c"
    using assms(2) by (auto simp: number_end_def split: list.splits)
  note tf = takeWhile_digits [OF fs(1) this]
  have tn: "takeWhile is_digit_char (nat_str n @ CHR ''.'' # x) = nat_str n"
    "dropWhile is_digit_char (nat_str n @ CHR ''.'' # x) = CHR ''.'' # x" for x
    using takeWhile_digits [OF digits_nat_str, of "CHR ''.'' # x" n] by (simp_all add: is_digit_char_def)
  show ?thesis
  proof (cases "q < 0")
    case True
    then show ?thesis using val fs
      by (simp add: rep parse_number_def Let_def tn tf int_ok_nat_str)
  next
    case False
    then show ?thesis using val fs
      by (simp add: rep parse_number_def Let_def tn tf int_ok_nat_str)
  qed
qed

subsection \<open>Round trip of values\<close>

text \<open>A value as Python holds it: distinct keys, floats the printer shows in full.\<close>

fun wf_json :: "json \<Rightarrow> bool" where
  "wf_json (JFloat q) \<longleftrightarrow> plain_float q"
| "wf_json (JArr xs) \<longleftrightarrow> (\<forall>x \<in> set xs. wf_json x)"
| "wf_json (JObj d) \<longleftrightarrow> distinct (map fst d) \<and> (\<forall>p \<in> set d. wf_json (snd p))"
| "wf_json _ \<longleftrightarrow> True"

text \<open>The value with every dictionary in key order, which is what \<open>sort_keys\<close> writes.\<close>

fun canon :: "json \<Rightarrow> json" where
  "canon (JArr xs) = JArr (map canon xs)"
| "canon (JObj d) = JObj (sort_key fst (map (\<lambda>p. (fst p, canon (snd p))) d))"
| "canon v = v"

lemma insort_key_map_snd:
  "insort_key fst (fst p, f (snd p)) (map (\<lambda>p. (fst p, f (snd p))) d) =
   map (\<lambda>p. (fst p, f (snd p))) (insort_key fst p d)"
  by (induction d) auto

lemma sort_key_map_snd:
  "sort_key fst (map (\<lambda>p. (fst p, f (snd p))) d) = map (\<lambda>p. (fst p, f (snd p))) (sort_key fst d)"
  by (induction d) (simp_all add: insort_key_map_snd)

lemma map_fst_map_snd: "map fst (map (\<lambda>p. (fst p, f (snd p))) d) = map fst d"
  by simp

lemma distinct_sort_keys: "distinct (map fst d) \<Longrightarrow> distinct (map fst (sort_key fst d))"
  by (metis distinct_map mset_eq_imp_distinct_iff mset_map mset_sort)

text \<open>What the parser must do on the text of one value, whatever follows it.\<close>

definition reads :: "string \<Rightarrow> json \<Rightarrow> bool" where
  "reads t v \<longleftrightarrow> (\<forall>n r. length t \<le> n \<longrightarrow> number_end r \<longrightarrow> parse_value n (t @ r) = Some (v, r))
     \<and> t \<noteq> [] \<and> \<not> ws_char (hd t) \<and> hd t \<noteq> CHR '']''"

lemma readsD: "reads t v \<Longrightarrow> length t \<le> n \<Longrightarrow> number_end r \<Longrightarrow> parse_value n (t @ r) = Some (v, r)"
  by (simp add: reads_def)

lemma skip_ws_id: "s \<noteq> [] \<Longrightarrow> \<not> ws_char (hd s) \<Longrightarrow> skip_ws s = s"
  by (cases s) (simp_all add: skip_ws_def)

lemma number_end_sep [simp]: "number_end (CHR '','' # r)" "number_end (CHR '']'' # r)"
    "number_end (CHR ''}'' # r)" "number_end []"
  by (simp_all add: number_end_def is_digit_char_def)

lemma join_head: "t \<noteq> [] \<Longrightarrow> join sep (t # ts) \<noteq> [] \<and> hd (join sep (t # ts)) = hd t"
  by (cases ts) simp_all

lemma parse_items_join:
  assumes "list_all2 reads ts vs" "ts \<noteq> []" "Suc (length (join '','' ts)) \<le> n"
  shows "parse_items n (join '','' ts @ CHR '']'' # r) = Some (vs, r)"
  using assms
proof (induction ts vs arbitrary: n rule: list_all2_induct)
  case Nil
  then show ?case by simp
next
  case (Cons t ts v vs)
  obtain m where n: "n = Suc m" using Cons.prems by (cases n) auto
  show ?case
  proof (cases ts)
    case Nil
    then have "vs = []" using Cons.hyps by simp
    moreover have "parse_value m (t @ CHR '']'' # r) = Some (v, CHR '']'' # r)"
      using Cons Nil n by (intro readsD) auto
    ultimately show ?thesis
      using Nil by (simp add: n skip_ws_def ws_char_def)
  next
    case (Cons t' ts')
    let ?rest = "join '','' ts @ CHR '']'' # r"
    have len: "length t + Suc (length (join '','' ts)) \<le> m"
      using Cons.prems n Cons by simp
    have "parse_value m (t @ CHR '','' # ?rest) = Some (v, CHR '','' # ?rest)"
      using Cons.hyps len by (intro readsD) auto
    moreover have "parse_items m ?rest = Some (vs, r)"
      using len Cons by (intro Cons.IH) auto
    moreover have "skip_ws ?rest = ?rest"
    proof (rule skip_ws_id)
      have "reads t' (hd vs)" using Cons.hyps Cons by (cases vs) auto
      then have "t' \<noteq> []" "\<not> ws_char (hd t')" by (auto simp: reads_def)
      then show "?rest \<noteq> []" "\<not> ws_char (hd ?rest)"
        using join_head [of t' "'',''" ts'] Cons by auto
    qed
    ultimately show ?thesis
      using Cons by (simp add: n skip_ws_def ws_char_def)
  qed
qed

definition member_text :: "string \<times> string \<Rightarrow> string" where
  "member_text p = json_string (fst p) @ CHR '':'' # snd p"

lemma member_text_Pair: "member_text (k, t) = json_string k @ CHR '':'' # t"
  by (simp add: member_text_def)

lemma parse_members_join:
  assumes "list_all2 (\<lambda>p q. fst p = fst q \<and> reads (snd p) (snd q)) ts vs" "ts \<noteq> []"
    and "Suc (length (join '','' (map member_text ts))) \<le> n"
  shows "parse_members n (join '','' (map member_text ts) @ CHR ''}'' # r) = Some (vs, r)"
  using assms
proof (induction ts vs arbitrary: n rule: list_all2_induct)
  case Nil
  then show ?case by simp
next
  case (Cons p ts q vs)
  obtain k t v where p: "p = (k, t)" and q: "q = (k, v)" and rd: "reads t v"
    using Cons.hyps by (cases p; cases q) auto
  obtain m where n: "n = Suc m" using Cons.prems by (cases n) auto
  have sk: "skip_ws (t @ x) = t @ x" for x
    using rd by (intro skip_ws_id) (auto simp: reads_def)
  have ck: "skip_ws (CHR '':'' # x) = CHR '':'' # x" "skip_ws (CHR '','' # x) = CHR '','' # x"
    "skip_ws (CHR ''}'' # x) = CHR ''}'' # x" for x
    by (simp_all add: skip_ws_def ws_char_def)
  have key: "json_string k @ CHR '':'' # x =
      CHR 0x22 # concat (map json_char k) @ CHR 0x22 # CHR '':'' # x" for x
    by (simp add: json_string_def)
  show ?case
  proof (cases ts)
    case Nil
    then have "vs = []" using Cons.hyps by simp
    moreover have "parse_value m (t @ CHR ''}'' # r) = Some (v, CHR ''}'' # r)"
      using Cons.prems Nil n rd by (intro readsD) (auto simp: p member_text_def)
    ultimately show ?thesis
      using Nil by (simp add: n p q member_text_def key parse_chars_concat sk ck)
  next
    case (Cons p' ts')
    let ?rest = "join '','' (map member_text ts) @ CHR ''}'' # r"
    have len: "length t + Suc (length (join '','' (map member_text ts))) \<le> m"
      using Cons.prems n Cons by (simp add: p member_text_Pair)
    have "parse_value m (t @ CHR '','' # ?rest) = Some (v, CHR '','' # ?rest)"
      using rd len by (intro readsD) auto
    moreover have "parse_members m ?rest = Some (vs, r)"
      using len Cons by (intro Cons.IH) auto
    moreover have "skip_ws ?rest = ?rest"
      using Cons by (cases ts'; intro skip_ws_id)
        (auto simp: member_text_def json_string_def ws_char_def)
    ultimately show ?thesis
      using Cons by (simp add: n p q member_text_Pair key parse_chars_concat sk ck)
  qed
qed

lemma reads_number:
  assumes "\<And>r. number_end r \<Longrightarrow> parse_number (t @ r) = Some (v, r)"
    and "t \<noteq> []" "is_digit_char (hd t) \<or> hd t = CHR ''-''"
  shows "reads t v"
proof -
  obtain c s where t: "t = c # s" using assms(2) by (cases t) auto
  have c: "is_digit_char c \<or> c = CHR ''-''" using assms(3) t by simp
  have ne: "c \<noteq> CHR 0x22" "c \<noteq> CHR ''[''" "c \<noteq> CHR ''{''" "c \<noteq> CHR ''n''" "c \<noteq> CHR ''t''"
    "c \<noteq> CHR ''f''" "c \<noteq> CHR '']''" "\<not> ws_char c"
    using c by (auto simp: is_digit_char_def ws_char_def)
  have "parse_value n (t @ r) = Some (v, r)" if "length t \<le> n" "number_end r" for n r
    using assms(1) [OF that(2)] that(1) ne t by (cases n) simp_all
  then show ?thesis using ne t by (simp add: reads_def)
qed

lemma float_repr_head:
  "float_repr q \<noteq> []" "is_digit_char (hd (float_repr q)) \<or> hd (float_repr q) = CHR ''-''"
  using hd_nat_str_digit by (simp_all add: float_repr_def)

lemma reads_words:
  "reads ''null'' JNull" "reads ''true'' (JBool True)" "reads ''false'' (JBool False)"
  by (auto simp: reads_def ws_char_def strip_prefix_def not_less_eq_eq
      dest!: Suc_le_D split: option.splits)

lemma reads_json_string: "reads (json_string s) (JStr s)"
proof -
  have "parse_value n (json_string s @ r) = Some (JStr s, r)" if "length (json_string s) \<le> n" for n r
    using that by (cases n) (simp_all add: json_string_def parse_chars_concat)
  then show ?thesis by (simp add: reads_def json_string_def ws_char_def)
qed

lemma reads_array:
  assumes "list_all2 reads ts vs"
  shows "reads (''['' @ join '','' ts @ '']'') (JArr vs)"
proof -
  have "parse_value n ((''['' @ join '','' ts @ '']'') @ r) = Some (JArr vs, r)"
    if n: "length (''['' @ join '','' ts @ '']'') \<le> n" for n r
  proof -
    obtain m where m: "n = Suc m" using n by (cases n) auto
    show ?thesis
    proof (cases ts)
      case Nil
      then show ?thesis using assms by (simp add: m skip_ws_def ws_char_def)
    next
      case (Cons t ts')
      let ?r = "join '','' ts @ CHR '']'' # r"
      have t: "t \<noteq> []" "\<not> ws_char (hd t)" "hd t \<noteq> CHR '']''"
        using assms Cons by (auto simp: list_all2_Cons1 reads_def)
      then have hd: "?r \<noteq> []" "hd ?r = hd t"
        using join_head [of t "'',''" ts'] Cons by auto
      have "skip_ws ?r = ?r" using hd t by (intro skip_ws_id) auto
      moreover have "parse_items m ?r = Some (vs, r)"
        using n Cons by (intro parse_items_join [OF assms]) (auto simp: m)
      moreover obtain d r1 where "?r = d # r1" "d \<noteq> CHR '']''"
        using hd t by (cases ?r) auto
      ultimately show ?thesis by (simp add: m)
    qed
  qed
  then show ?thesis by (simp add: reads_def ws_char_def)
qed

lemma reads_object:
  assumes "list_all2 (\<lambda>p q. fst p = fst q \<and> reads (snd p) (snd q)) ts vs" "distinct (map fst vs)"
  shows "reads (''{'' @ join '','' (map member_text ts) @ ''}'') (JObj vs)"
proof -
  have "parse_value n ((''{'' @ join '','' (map member_text ts) @ ''}'') @ r) = Some (JObj vs, r)"
    if n: "length (''{'' @ join '','' (map member_text ts) @ ''}'') \<le> n" for n r
  proof -
    obtain m where m: "n = Suc m" using n by (cases n) auto
    show ?thesis
    proof (cases ts)
      case Nil
      then show ?thesis using assms by (simp add: m skip_ws_def ws_char_def)
    next
      case (Cons t ts')
      let ?r = "join '','' (map member_text ts) @ CHR ''}'' # r"
      have hd: "?r \<noteq> []" "hd ?r = CHR 0x22"
        using Cons join_head [of "member_text t" "'',''" "map member_text ts'"]
        by (auto simp: member_text_def json_string_def)
      then have "skip_ws ?r = ?r" by (intro skip_ws_id) (auto simp: ws_char_def)
      moreover have "parse_members m ?r = Some (vs, r)"
        using n Cons by (intro parse_members_join [OF assms(1)]) (auto simp: m)
      moreover obtain r1 where "?r = CHR 0x22 # r1"
        using hd by (cases ?r) auto
      ultimately show ?thesis using assms(2) by (simp add: m dupdate_fresh)
    qed
  qed
  then show ?thesis by (simp add: reads_def ws_char_def)
qed

lemma reads_json_dumps: "wf_json j \<Longrightarrow> reads (json_dumps j) (canon j)"
proof (induction j rule: json_dumps.induct)
  case (3 i)
  have "is_digit_char (hd (int_str i)) \<or> hd (int_str i) = CHR ''-''" "int_str i \<noteq> []"
    using hd_nat_str_digit by (simp_all add: int_str_def)
  then show ?case
    using parse_number_int by (auto intro!: reads_number)
next
  case (4 q)
  then show ?case
    using parse_number_float float_repr_head by (auto intro!: reads_number)
next
  case (6 xs)
  then have "list_all2 reads (map json_dumps xs) (map canon xs)"
    by (auto simp: list_all2_conv_all_nth)
  then show ?case by (simp only: json_dumps.simps canon.simps) (rule reads_array)
next
  case (7 d)
  let ?d = "sort_key fst d"
  have "list_all2 (\<lambda>p q. fst p = fst q \<and> reads (snd p) (snd q))
      (map (\<lambda>p. (fst p, json_dumps (snd p))) ?d) (map (\<lambda>p. (fst p, canon (snd p))) ?d)"
    using 7 nth_mem [of _ ?d] by (auto simp: list_all2_conv_all_nth)
  moreover have "distinct (map fst (map (\<lambda>p. (fst p, canon (snd p))) ?d))"
    using 7(2) distinct_sort_keys [of d] by (simp add: comp_def)
  ultimately have "reads (''{'' @ join '','' (map member_text (map (\<lambda>p. (fst p, json_dumps (snd p))) ?d)) @ ''}'')
      (JObj (map (\<lambda>p. (fst p, canon (snd p))) ?d))"
    by (rule reads_object)
  moreover have "map (\<lambda>(k, t). json_string k @ '':'' @ t) x = map member_text x" for x
    by (simp add: member_text_def split_def)
  ultimately show ?case
    by (simp only: json_dumps.simps canon.simps sort_key_map_snd)
qed (simp_all add: reads_words reads_json_string)

text \<open>
  What \<open>json.dumps(sort_keys=True)\<close> writes, \<open>json.loads\<close> reads back as the same value
  with its dictionaries in key order.
\<close>

lemma json_loads_dumps: "wf_json j \<Longrightarrow> json_loads (json_dumps j) = Some (canon j)"
proof -
  assume "wf_json j"
  then have rd: "reads (json_dumps j) (canon j)" by (rule reads_json_dumps)
  then have "skip_ws (json_dumps j) = json_dumps j"
    by (intro skip_ws_id) (auto simp: reads_def)
  moreover have "parse_value (Suc (2 * length (json_dumps j))) (json_dumps j @ []) = Some (canon j, [])"
    using rd by (intro readsD) auto
  ultimately show ?thesis by (simp add: json_loads_def skip_ws_def)
qed

lemma map_of_map_snd: "map_of (map (\<lambda>p. (fst p, f (snd p))) d) k = map_option f (map_of d k)"
  by (induction d) auto

lemma dget_canon_obj:
  assumes "wf_json (JObj d)"
  shows "map_of (sort_key fst (map (\<lambda>p. (fst p, canon (snd p))) d)) k = map_option canon (map_of d k)"
proof -
  have "map_of (sort_key fst d) = map_of d"
    using assms by (intro map_of_eqI) (auto simp: map_of_eq_Some_iff distinct_sort_keys)
  then show ?thesis
    by (simp only: sort_key_map_snd map_of_map_snd)
qed

end
