(* ===== verification/EffectStore.thy ===== *)
theory EffectStore
  imports JsonParse
begin

text \<open>
  The store of executed effects and consumed approvals (\<open>mcp_server/store.py\<close>). Both
  tables have a primary key, so each is an association list with distinct keys, rows in
  insertion order. A result is kept as its JSON text; the spaces the code's printer puts
  after separators are left out, since the reader skips them.
\<close>

record effect_row =
  f_incident :: string
  f_tool :: string
  f_approval :: string
  f_result_json :: string

record effect_store =
  es_effects :: "(string \<times> effect_row) list"
  es_consumed :: "(string \<times> string) list"

definition es_empty :: effect_store where
  "es_empty = \<lparr>es_effects = [], es_consumed = []\<rparr>"

definition es_get :: "effect_store \<Rightarrow> string \<Rightarrow> dict option res" where
  "es_get st idempotency_key =
     (case map_of (es_effects st) idempotency_key of
        None \<Rightarrow> Inr None
      | Some row \<Rightarrow>
          (case json_loads (f_result_json row) of
             Some (JObj d) \<Rightarrow> Inr (Some d)
           | _ \<Rightarrow> Inl (ValueError ''Expecting value'')))"

definition es_get_consumed_approval :: "effect_store \<Rightarrow> string \<Rightarrow> string option" where
  "es_get_consumed_approval st approval_id = map_of (es_consumed st) approval_id"

text \<open>\<open>INSERT OR IGNORE\<close>: a row with the same primary key stays as it is.\<close>

definition insert_or_ignore :: "string \<Rightarrow> 'v \<Rightarrow> (string \<times> 'v) list \<Rightarrow> (string \<times> 'v) list" where
  "insert_or_ignore k v t = (if k \<in> fst ` set t then t else t @ [(k, v)])"

definition es_commit_effect ::
  "effect_store \<Rightarrow> string \<Rightarrow> string \<Rightarrow> string \<Rightarrow> string \<Rightarrow> dict \<Rightarrow> unit res \<times> effect_store" where
  "es_commit_effect st idempotency_key incident_id tool_name approval_id result =
     (let prior = map_of (es_consumed st) approval_id in
      if prior \<noteq> None \<and> prior \<noteq> Some idempotency_key
      then (Inl (ValueError ''APPROVAL_ALREADY_CONSUMED''), st)
      else (Inr (), st
        \<lparr>es_effects := insert_or_ignore idempotency_key
           \<lparr>f_incident = incident_id, f_tool = tool_name, f_approval = approval_id,
            f_result_json = json_dumps (JObj result)\<rparr> (es_effects st),
         es_consumed := insert_or_ignore approval_id idempotency_key (es_consumed st)\<rparr>))"

definition es_clear :: "effect_store \<Rightarrow> effect_store" where
  "es_clear st = es_empty"

lemma map_of_insert_or_ignore [simp]:
  "map_of (insert_or_ignore k v t) k' = (if k' = k \<and> map_of t k = None then Some v else map_of t k')"
proof (cases "k \<in> fst ` set t")
  case True
  then have "map_of t k \<noteq> None" by (simp add: map_of_eq_None_iff)
  then show ?thesis using True by (auto simp: insert_or_ignore_def)
next
  case False
  then have "map_of t k = None" by (simp add: map_of_eq_None_iff)
  then show ?thesis using False by (auto simp: insert_or_ignore_def map_add_def split: option.split)
qed

lemma set_insert_or_ignore: "set (insert_or_ignore k v t) \<subseteq> insert (k, v) (set t)"
  by (auto simp: insert_or_ignore_def)

lemma distinct_insert_or_ignore:
  "distinct (map fst t) \<Longrightarrow> distinct (map fst (insert_or_ignore k v t))"
  by (auto simp: insert_or_ignore_def)

subsection \<open>The invariant\<close>

text \<open>Keys are unique, every result reads back, and every effect's approval is consumed by its key.\<close>

definition es_inv :: "effect_store \<Rightarrow> bool" where
  "es_inv st \<longleftrightarrow> distinct (map fst (es_effects st)) \<and> distinct (map fst (es_consumed st)) \<and>
     (\<forall>p \<in> set (es_effects st). \<exists>d. json_loads (f_result_json (snd p)) = Some (JObj d))"

definition es_linked :: "effect_store \<Rightarrow> bool" where
  "es_linked st \<longleftrightarrow> (\<forall>k row. map_of (es_effects st) k = Some row \<longrightarrow>
     map_of (es_consumed st) (f_approval row) = Some k)"

lemma es_inv_empty [simp]: "es_inv es_empty" "es_linked es_empty"
  by (simp_all add: es_inv_def es_linked_def es_empty_def)

definition canon_dict :: "dict \<Rightarrow> dict" where
  "canon_dict d = sort_key fst (map (\<lambda>p. (fst p, canon (snd p))) d)"

lemma canon_JObj: "canon (JObj d) = JObj (canon_dict d)"
  by (simp add: canon_dict_def)

lemma es_commit_Inr:
  "es_commit_effect st k i t a r = (Inr u, st') \<longleftrightarrow>
   map_of (es_consumed st) a \<in> {None, Some k} \<and>
   st' = st\<lparr>es_effects := insert_or_ignore k \<lparr>f_incident = i, f_tool = t, f_approval = a,
              f_result_json = json_dumps (JObj r)\<rparr> (es_effects st),
            es_consumed := insert_or_ignore a k (es_consumed st)\<rparr>"
  by (auto simp: es_commit_effect_def Let_def)

lemma es_commit_inv:
  assumes "es_inv st" "wf_json (JObj r)"
  shows "es_inv (snd (es_commit_effect st k i t a r))"
  using assms json_loads_dumps [OF assms(2)]
  by (auto simp: es_inv_def es_commit_effect_def Let_def distinct_insert_or_ignore canon_JObj
      simp del: json_dumps.simps canon.simps dest!: subsetD [OF set_insert_or_ignore])

lemma es_get_None_iff:
  assumes "es_inv st"
  shows "es_get st k = Inr None \<longleftrightarrow> map_of (es_effects st) k = None" "\<exists>r. es_get st k = Inr r"
proof -
  have "\<exists>d. json_loads (f_result_json row) = Some (JObj d)" if "map_of (es_effects st) k = Some row" for row
    using assms map_of_SomeD [OF that] by (auto simp: es_inv_def)
  then show "es_get st k = Inr None \<longleftrightarrow> map_of (es_effects st) k = None" "\<exists>r. es_get st k = Inr r"
    by (cases "map_of (es_effects st) k"; fastforce simp: es_get_def)+
qed

text \<open>
  An approval stands for one key: committing an effect under a fresh key needs an
  approval no other key has used, so no two effects share one.
\<close>

lemma es_commit_linked:
  assumes "es_linked st" "map_of (es_effects st) k = None"
  shows "es_linked (snd (es_commit_effect st k i t a r))"
  using assms by (auto simp: es_linked_def es_commit_effect_def Let_def)

lemma es_linked_single_use:
  assumes "es_linked st" "map_of (es_effects st) k = Some row" "map_of (es_effects st) k' = Some row'"
    and "f_approval row = f_approval row'"
  shows "k = k'"
  using assms by (metis es_linked_def option.inject)

lemma es_get_commit:
  assumes "es_inv st" "wf_json (JObj r)" "es_commit_effect st k i t a r = (Inr u, st')"
  shows "es_get st' k' =
    (if k' = k \<and> es_get st k = Inr None then Inr (Some (canon_dict r)) else es_get st k')"
proof -
  have st': "map_of (es_effects st') k' =
      (if k' = k \<and> map_of (es_effects st) k = None
       then Some \<lparr>f_incident = i, f_tool = t, f_approval = a, f_result_json = json_dumps (JObj r)\<rparr>
       else map_of (es_effects st) k')"
    using assms(3) by (auto simp: es_commit_Inr)
  show ?thesis
    using json_loads_dumps [OF assms(2)]
    unfolding es_get_None_iff(1) [OF assms(1)] unfolding es_get_def [of st'] st'
    by (auto simp: es_get_def canon_JObj simp del: json_dumps.simps canon.simps)
qed

subsection \<open>The interface the tool registry relies on\<close>

text \<open>
  \<open>ToolRegistry\<close> receives its store as an argument and calls three operations of it.
  The laws: an effect once recorded is returned for its key for ever and is not
  overwritten; an approval consumed by one key is refused to every other; a refused
  commit changes nothing.
\<close>

locale effect_provider =
  fixes get :: "'st \<Rightarrow> string \<Rightarrow> dict option res"
    and consumed :: "'st \<Rightarrow> string \<Rightarrow> string option"
    and commit :: "'st \<Rightarrow> string \<Rightarrow> string \<Rightarrow> string \<Rightarrow> string \<Rightarrow> dict \<Rightarrow> unit res \<times> 'st"
    and inv :: "'st \<Rightarrow> bool"
  assumes get_ok: "inv st \<Longrightarrow> \<exists>r. get st k = Inr r"
    and commit_inv: "inv st \<Longrightarrow> wf_json (JObj r) \<Longrightarrow> inv (snd (commit st k i t a r))"
    and commit_ok: "fst (commit st k i t a r) = Inr () \<longleftrightarrow> consumed st a \<in> {None, Some k}"
    and commit_refused: "fst (commit st k i t a r) = Inl e \<Longrightarrow> snd (commit st k i t a r) = st"
    and get_commit: "inv st \<Longrightarrow> wf_json (JObj r) \<Longrightarrow> commit st k i t a r = (Inr u, st') \<Longrightarrow>
      get st' k' = (if k' = k \<and> get st k = Inr None then Inr (Some (canon_dict r)) else get st k')"
    and consumed_commit: "commit st k i t a r = (Inr u, st') \<Longrightarrow>
      consumed st' a' = (if a' = a then Some k else consumed st a')"
begin

lemma consumed_stable:
  "consumed st a = Some k \<Longrightarrow> consumed (snd (commit st k' i t a' r)) a = Some k"
proof -
  assume c: "consumed st a = Some k"
  show ?thesis
  proof (cases "fst (commit st k' i t a' r)")
    case (Inl e)
    then show ?thesis using c commit_refused by metis
  next
    case (Inr u)
    then have "consumed st a' \<in> {None, Some k'}" using commit_ok by simp
    moreover have "consumed (snd (commit st k' i t a' r)) a = (if a = a' then Some k' else consumed st a)"
      using Inr by (intro consumed_commit [of st k' i t a' r u]) (metis prod.collapse)
    ultimately show ?thesis using c by auto
  qed
qed

lemma get_stable:
  assumes "inv st" "wf_json (JObj r)" "get st k = Inr (Some d)"
  shows "get (snd (commit st k' i t a r)) k = Inr (Some d)"
proof (cases "fst (commit st k' i t a r)")
  case (Inl e)
  then show ?thesis using assms commit_refused by metis
next
  case (Inr u)
  then have "commit st k' i t a r = (Inr u, snd (commit st k' i t a r))"
    by (metis prod.collapse)
  from get_commit [OF assms(1,2) this] show ?thesis using assms(3) by auto
qed

end

interpretation es: effect_provider es_get es_get_consumed_approval es_commit_effect es_inv
proof
  fix st k assume "es_inv st"
  then show "\<exists>r. es_get st k = Inr r" by (rule es_get_None_iff(2))
next
  fix st k i t a r
  show "fst (es_commit_effect st k i t a r) = Inr () \<longleftrightarrow> es_get_consumed_approval st a \<in> {None, Some k}"
    by (auto simp: es_commit_effect_def es_get_consumed_approval_def Let_def)
next
  fix st r k i t a assume "es_inv st" "wf_json (JObj r)"
  then show "es_inv (snd (es_commit_effect st k i t a r))" by (rule es_commit_inv)
next
  fix st r k i t a u st' k'
  assume "es_inv st" "wf_json (JObj r)" "es_commit_effect st k i t a r = (Inr u, st')"
  then show "es_get st' k' =
    (if k' = k \<and> es_get st k = Inr None then Inr (Some (canon_dict r)) else es_get st k')"
    by (rule es_get_commit)
qed (auto simp: es_get_consumed_approval_def es_commit_Inr es_commit_effect_def Let_def split: if_splits)

end
