(* ===== verification/Repository.thy ===== *)
theory Repository
  imports Domain EffectStore
begin

text \<open>
  The workflow's database (\<open>persistence/repository.py\<close>): three tables, each an
  association list by primary key. A row of the incident table holds the reporting
  columns and the whole case; dumping and re-validating a case is taken as the identity
  (\<open>model_dump\<close> and \<open>model_validate\<close>). A session that raises rolls back.
\<close>

record incident_row =
  n_scenario :: string
  n_title :: string
  n_technology :: string
  n_priority :: string
  n_status :: string
  n_stage :: string
  n_owner :: string
  n_parent :: "string option"
  n_sla_mode :: string
  n_parent_deadline :: "datetime option"
  n_sla_deadline :: datetime
  n_pending :: "string option"
  n_domain_det :: "string option"
  n_domain_llm :: "string option"
  n_agreement :: string
  n_selected :: "string option"
  n_state :: incident
  n_created :: datetime
  n_updated :: datetime

record idem_row =
  d_incident :: string
  d_action :: string
  d_approval :: "string option"
  d_result :: dict
  d_created :: datetime

record repo =
  rp_incidents :: "(string \<times> incident_row) list"
  rp_approvals :: "(string \<times> approval) list"
  rp_idem :: "(string \<times> idem_row) list"

definition repo_empty :: repo where
  "repo_empty = \<lparr>rp_incidents = [], rp_approvals = [], rp_idem = []\<rparr>"

definition row_of :: "incident \<Rightarrow> incident_row" where
  "row_of s =
     \<lparr>n_scenario = i_scenario s, n_title = i_title s, n_technology = technology_value (i_technology s),
      n_priority = i_priority s, n_status = case_status_value (i_status s), n_stage = stage_value (i_stage s),
      n_owner = i_owner s, n_parent = i_parent s, n_sla_mode = sla_mode_value (i_sla_mode s),
      n_parent_deadline = i_parent_deadline s, n_sla_deadline = i_sla_deadline s, n_pending = i_pending s,
      n_domain_det = map_option domain_value (i_domain_det s),
      n_domain_llm = map_option domain_value (i_domain_llm s), n_agreement = agreement_value (i_agreement s),
      n_selected = map_option (\<lambda>c. action_value (c_action c)) (i_selected s), n_state = s,
      n_created = i_created s, n_updated = i_updated s\<rparr>"

definition save_incident :: "int \<Rightarrow> incident \<Rightarrow> repo \<Rightarrow> incident \<times> repo" where
  "save_incident now s rp =
     (let s' = s\<lparr>i_updated := utc now\<rparr>
      in (s', rp\<lparr>rp_incidents := dset (i_id s) (row_of s') (rp_incidents rp)\<rparr>))"

definition get_incident :: "repo \<Rightarrow> string \<Rightarrow> incident option" where
  "get_incident rp incident_id = map_option n_state (map_of (rp_incidents rp) incident_id)"

text \<open>Newest first; rows with the same time keep the table's order, which the query leaves open.\<close>

definition newest_first :: "('a \<Rightarrow> datetime) \<Rightarrow> 'a list \<Rightarrow> 'a list" where
  "newest_first f xs = sort_key (\<lambda>x. - instant (f x)) xs"

definition list_incidents :: "repo \<Rightarrow> nat \<Rightarrow> incident list" where
  "list_incidents rp limit = map n_state (take limit (newest_first n_updated (map snd (rp_incidents rp))))"

definition save_approval :: "approval \<Rightarrow> repo \<Rightarrow> unit res \<times> repo" where
  "save_approval a rp =
     (if \<exists>p \<in> set (rp_approvals rp). fst p \<noteq> a_id a \<and> a_key (snd p) = a_key a
      then (Inl (IntegrityError ''UNIQUE constraint failed: approval.idempotency_key''), rp)
      else (Inr (), rp\<lparr>rp_approvals := dset (a_id a) a (rp_approvals rp)\<rparr>))"

definition get_approval :: "repo \<Rightarrow> string \<Rightarrow> approval option" where
  "get_approval rp approval_id = map_of (rp_approvals rp) approval_id"

definition list_approvals :: "repo \<Rightarrow> approval_status option \<Rightarrow> string option \<Rightarrow> approval list" where
  "list_approvals rp status incident_id =
     newest_first a_created
       (filter (\<lambda>a. (case status of None \<Rightarrow> True | Some st \<Rightarrow> a_status a = st) \<and>
          (case incident_id of None \<Rightarrow> True | Some i \<Rightarrow> a_incident a = i)) (map snd (rp_approvals rp)))"

definition save_idempotent_result ::
  "int \<Rightarrow> string \<Rightarrow> string \<Rightarrow> string \<Rightarrow> string option \<Rightarrow> dict \<Rightarrow> repo \<Rightarrow> repo" where
  "save_idempotent_result now key incident_id action approval_id result rp =
     rp\<lparr>rp_idem := insert_or_ignore key
          \<lparr>d_incident = incident_id, d_action = action, d_approval = approval_id, d_result = result,
           d_created = utc now\<rparr> (rp_idem rp)\<rparr>"

definition get_idempotent_result :: "repo \<Rightarrow> string \<Rightarrow> dict option" where
  "get_idempotent_result rp key = map_option d_result (map_of (rp_idem rp) key)"

definition repo_reset :: "repo \<Rightarrow> repo" where
  "repo_reset rp = repo_empty"

record repo_summary =
  sm_open :: nat
  sm_waiting :: nat
  sm_closed :: nat
  sm_escalated :: nat
  sm_pending :: nat
  sm_by_stage :: "(string \<times> nat) list"
  sm_hfc :: nat
  sm_pon :: nat

definition count_if :: "('a \<Rightarrow> bool) \<Rightarrow> 'a list \<Rightarrow> nat" where
  "count_if P xs = length (filter P xs)"

definition summary :: "repo \<Rightarrow> repo_summary" where
  "summary rp =
     (let xs = list_incidents rp 200 in
      \<lparr>sm_open = count_if (\<lambda>s. i_status s = CS_OPEN) xs,
       sm_waiting = count_if (\<lambda>s. i_status s = CS_WAITING) xs,
       sm_closed = count_if (\<lambda>s. i_status s = CS_CLOSED) xs,
       sm_escalated = count_if (\<lambda>s. i_status s = CS_ESCALATED) xs,
       sm_pending = length (list_approvals rp (Some AP_PENDING) None),
       sm_by_stage = map (\<lambda>st. (stage_value st, count_if (\<lambda>s. i_stage s = st) xs)) stages,
       sm_hfc = count_if (\<lambda>s. i_technology s = HFC) xs,
       sm_pon = count_if (\<lambda>s. i_technology s = PON) xs\<rparr>)"

subsection \<open>The invariant of the tables\<close>

text \<open>
  Primary keys are unique, a row is filed under its own identity, the reporting columns
  are those of the stored case, and no two approvals share an idempotency key.
\<close>

definition repo_inv :: "repo \<Rightarrow> bool" where
  "repo_inv rp \<longleftrightarrow>
     distinct (map fst (rp_incidents rp)) \<and> distinct (map fst (rp_approvals rp)) \<and> distinct (map fst (rp_idem rp)) \<and>
     (\<forall>p \<in> set (rp_incidents rp). fst p = i_id (n_state (snd p)) \<and> snd p = row_of (n_state (snd p))) \<and>
     (\<forall>p \<in> set (rp_approvals rp). fst p = a_id (snd p)) \<and>
     distinct (map (\<lambda>p. a_key (snd p)) (rp_approvals rp))"

lemma repo_inv_empty [simp]: "repo_inv repo_empty"
  by (simp add: repo_inv_def repo_empty_def)

lemma n_state_row_of [simp]: "n_state (row_of s) = s"
  by (simp add: row_of_def)

lemma save_incident_fst [simp]: "fst (save_incident now s rp) = s\<lparr>i_updated := utc now\<rparr>"
  by (simp add: save_incident_def Let_def)

lemma save_incident_tables [simp]:
  "rp_approvals (snd (save_incident now s rp)) = rp_approvals rp"
  "rp_idem (snd (save_incident now s rp)) = rp_idem rp"
  by (simp_all add: save_incident_def Let_def)

lemma get_save_incident [simp]:
  "get_incident (snd (save_incident now s rp)) k =
    (if k = i_id s then Some (s\<lparr>i_updated := utc now\<rparr>) else get_incident rp k)"
  by (simp add: get_incident_def save_incident_def Let_def)

lemma save_incident_inv: "repo_inv rp \<Longrightarrow> repo_inv (snd (save_incident now s rp))"
  using set_dset_subset [of "i_id s" "row_of (s\<lparr>i_updated := utc now\<rparr>)" "rp_incidents rp"]
  by (auto simp: repo_inv_def save_incident_def Let_def distinct_dset)

text \<open>Replacing a row by one whose second key no other row has keeps that key unique.\<close>

lemma distinct_keys_dset:
  assumes "distinct (map fst d)" "distinct (map (\<lambda>p. f (snd p)) d)"
    and "\<And>p. p \<in> set d \<Longrightarrow> fst p \<noteq> k \<Longrightarrow> f (snd p) \<noteq> f v"
  shows "distinct (map (\<lambda>p. f (snd p)) (dset k v d))"
  using assms
proof (induction k v d rule: dset.induct)
  case (1 k v)
  then show ?case by simp
next
  case (2 k v k' w d)
  show ?case
  proof (cases "k = k'")
    case True
    then show ?thesis using 2 by force
  next
    case False
    have "f w \<notin> (\<lambda>p. f (snd p)) ` set (dset k v d)"
      using 2(3,4) 2(4) [of "(k', w)"] False set_dset_subset [of k v d] by force
    then show ?thesis using False 2 by auto
  qed
qed

lemma save_approval_inv:
  assumes "repo_inv rp"
  shows "repo_inv (snd (save_approval a rp))"
proof (cases "\<exists>p \<in> set (rp_approvals rp). fst p \<noteq> a_id a \<and> a_key (snd p) = a_key a")
  case True
  then show ?thesis using assms by (simp add: save_approval_def)
next
  case False
  then have "distinct (map (\<lambda>p. a_key (snd p)) (dset (a_id a) a (rp_approvals rp)))"
    using assms by (intro distinct_keys_dset) (auto simp: repo_inv_def)
  then show ?thesis
    using assms False set_dset_subset [of "a_id a" a "rp_approvals rp"]
    by (auto simp: repo_inv_def save_approval_def distinct_dset)
qed

lemma get_save_approval:
  "save_approval a rp = (Inr u, rp') \<Longrightarrow>
   get_approval rp' k = (if k = a_id a then Some a else get_approval rp k)"
  by (auto simp: save_approval_def get_approval_def split: if_splits)

lemma save_approval_tables:
  "rp_incidents (snd (save_approval a rp)) = rp_incidents rp" "rp_idem (snd (save_approval a rp)) = rp_idem rp"
  by (simp_all add: save_approval_def)

lemma save_idempotent_inv: "repo_inv rp \<Longrightarrow> repo_inv (save_idempotent_result now k i a p r rp)"
  by (simp add: repo_inv_def save_idempotent_result_def distinct_insert_or_ignore)

lemma get_save_idempotent [simp]:
  "get_idempotent_result (save_idempotent_result now k i a p r rp) k' =
    (if k' = k \<and> get_idempotent_result rp k = None then Some r else get_idempotent_result rp k')"
  by (simp add: get_idempotent_result_def save_idempotent_result_def)

lemma save_idempotent_tables [simp]:
  "rp_incidents (save_idempotent_result now k i a p r rp) = rp_incidents rp"
  "rp_approvals (save_idempotent_result now k i a p r rp) = rp_approvals rp"
  by (simp_all add: save_idempotent_result_def)

text \<open>Every listed case is one of the table, and the listing is newest first.\<close>

lemma list_incidents_newest:
  assumes "repo_inv rp"
  shows "sorted (map (\<lambda>s. - instant (i_updated s)) (list_incidents rp n))"
proof -
  have eq: "n_updated r = i_updated (n_state r)" if "r \<in> set (map snd (rp_incidents rp))" for r
    using assms that by (auto simp: repo_inv_def) (metis incident_row.select_convs(19) row_of_def snd_conv)
  let ?rs = "newest_first n_updated (map snd (rp_incidents rp))"
  have "sorted (map (\<lambda>r. - instant (n_updated r)) (take n ?rs))"
    by (simp add: newest_first_def sorted_wrt_take flip: take_map)
  moreover have "map (\<lambda>r. - instant (n_updated r)) (take n ?rs) =
      map (\<lambda>s. - instant (i_updated s)) (list_incidents rp n)"
    using eq by (auto simp: list_incidents_def newest_first_def dest!: in_set_takeD)
  ultimately show ?thesis by simp
qed

end
