(* ===== verification/Base64.thy ===== *)
theory Base64
  imports Digest
begin

text \<open>
  URL-safe Base64 as the token code uses it: the encoder of \<open>base64.urlsafe_b64encode\<close>
  with its padding stripped, and the lenient decoder of \<open>base64.urlsafe_b64decode\<close>,
  which skips characters outside the alphabet and stops at a complete padding.
\<close>

definition b64_char :: "nat \<Rightarrow> char" where
  "b64_char n =
     (if n < 26 then char_of (65 + n) else if n < 52 then char_of (71 + n)
      else if n < 62 then char_of (n - 4) else if n = 62 then CHR ''-'' else CHR ''_'')"

text \<open>The decoding table, after \<open>-\<close> and \<open>_\<close> were translated to \<open>+\<close> and \<open>/\<close>.\<close>

definition b64_val :: "char \<Rightarrow> nat option" where
  "b64_val c = (let n = (of_char c :: nat) in
     if 65 \<le> n \<and> n \<le> 90 then Some (n - 65) else if 97 \<le> n \<and> n \<le> 122 then Some (n - 71)
     else if 48 \<le> n \<and> n \<le> 57 then Some (n + 4) else if n = 45 \<or> n = 43 then Some 62
     else if n = 95 \<or> n = 47 then Some 63 else None)"

fun b64_groups :: "nat list \<Rightarrow> string" where
  "b64_groups [] = []"
| "b64_groups [a] = [b64_char (a div 4), b64_char (a mod 4 * 16)]"
| "b64_groups [a, b] =
     [b64_char (a div 4), b64_char (a mod 4 * 16 + b div 16), b64_char (b mod 16 * 4)]"
| "b64_groups (a # b # c # r) =
     b64_char (a div 4) # b64_char (a mod 4 * 16 + b div 16) #
     b64_char (b mod 16 * 4 + c div 64) # b64_char (c mod 64) # b64_groups r"

definition b64encode :: "string \<Rightarrow> string" where
  "b64encode s = b64_groups (map of_char s)"

text \<open>
  The decoder's loop: the position in the group of four, the bits left over and the
  number of padding characters in a row.
\<close>

fun b64_scan :: "nat \<Rightarrow> nat \<Rightarrow> nat \<Rightarrow> string \<Rightarrow> nat list option" where
  "b64_scan q l p [] = (if q = 0 then Some [] else None)"
| "b64_scan q l p (c # s) =
     (if c = CHR ''='' then
        (if 2 \<le> q then (if 4 \<le> q + Suc p then Some [] else b64_scan q l (Suc p) s)
         else b64_scan q l p s)
      else (case b64_val c of
          None \<Rightarrow> b64_scan q l p s
        | Some v \<Rightarrow>
            if q = 0 then b64_scan 1 v 0 s
            else if q = 1 then map_option (Cons (l * 4 + v div 16)) (b64_scan 2 (v mod 16) 0 s)
            else if q = 2 then map_option (Cons (l * 16 + v div 4)) (b64_scan 3 (v mod 4) 0 s)
            else map_option (Cons (l * 64 + v)) (b64_scan 0 0 0 s)))"

definition b64_padding :: "string \<Rightarrow> string" where
  "b64_padding s = replicate ((4 - length s mod 4) mod 4) (CHR ''='')"

definition is_ascii :: "string \<Rightarrow> bool" where
  "is_ascii s \<longleftrightarrow> (\<forall>c \<in> set s. (of_char c :: nat) < 128)"

definition b64decode :: "string \<Rightarrow> string res" where
  "b64decode s =
     (if is_ascii s
      then (case b64_scan 0 0 0 (s @ b64_padding s) of
              None \<Rightarrow> Inl (ApprovalTokenError ''APPROVAL_TOKEN_MALFORMED'')
            | Some bs \<Rightarrow> Inr (map char_of bs))
      else Inl (ApprovalTokenError ''APPROVAL_TOKEN_MALFORMED''))"

lemma b64_val_char [simp]: "n < 64 \<Longrightarrow> b64_val (b64_char n) = Some n"
  by (auto simp: b64_val_def b64_char_def Let_def)

definition b64_safe :: "char \<Rightarrow> bool" where
  "b64_safe c \<longleftrightarrow> (of_char c :: nat) < 128 \<and> c \<noteq> CHR ''='' \<and> c \<noteq> CHR ''.''"

lemma b64_char_safe [simp]: "n < 64 \<Longrightarrow> b64_safe (b64_char n)"
proof -
  assume n: "n < 64"
  have "c \<noteq> d" if "(of_char c :: nat) \<noteq> of_char d" for c d using that by auto
  then show ?thesis
    using n by (auto simp: b64_safe_def b64_char_def dest!: arg_cong [where f = "of_char :: char \<Rightarrow> nat"])
qed

lemma b64_char_not_pad [simp]: "n < 64 \<Longrightarrow> b64_char n \<noteq> CHR ''=''"
  using b64_char_safe by (auto simp: b64_safe_def simp del: b64_char_safe)

lemma b64_groups_safe: "\<forall>n \<in> set ns. n < 256 \<Longrightarrow> c \<in> set (b64_groups ns) \<Longrightarrow> b64_safe c"
proof (induction ns rule: b64_groups.induct)
  case 1
  then show ?case by simp
next
  case (2 a)
  then have "a div 4 < 64" "a mod 4 * 16 < 64" by auto
  with 2 show ?case by auto
next
  case (3 a b)
  then have "a div 4 < 64" "a mod 4 * 16 + b div 16 < 64" "b mod 16 * 4 < 64" by auto
  with 3 show ?case by auto
next
  case (4 a b c' r)
  then have "a div 4 < 64" "a mod 4 * 16 + b div 16 < 64" "b mod 16 * 4 + c' div 64 < 64" "c' mod 64 < 64"
    by auto
  with 4 show ?case by auto
qed

lemma b64encode_safe: "c \<in> set (b64encode s) \<Longrightarrow> b64_safe c"
  unfolding b64encode_def by (erule b64_groups_safe [rotated]) auto

lemma b64encode_ascii [simp]: "is_ascii (b64encode s)"
  using b64encode_safe by (auto simp: is_ascii_def b64_safe_def)

lemma b64encode_no_dot [simp]: "CHR ''.'' \<notin> set (b64encode s)"
  using b64encode_safe by (auto simp: b64_safe_def)

lemma b64_padding_Cons4 [simp]: "b64_padding (a # b # c # d # s) = b64_padding s"
  by (simp add: b64_padding_def)

lemma b64_scan_groups:
  "\<forall>n \<in> set ns. n < 256 \<Longrightarrow> b64_scan 0 0 0 (b64_groups ns @ b64_padding (b64_groups ns)) = Some ns"
proof (induction ns rule: b64_groups.induct)
  case 1
  then show ?case by (simp add: b64_padding_def)
next
  case (2 a)
  then have "a div 4 < 64" "a mod 4 * 16 < 64" by auto
  then show ?case by (simp add: b64_padding_def numeral_2_eq_2)
next
  case (3 a b)
  have lt: "a div 4 < 64" "a mod 4 * 16 + b div 16 < 64" "b mod 16 * 4 < 64" using 3 by auto
  have dm: "(a mod 4 * 16 + b div 16) div 16 = a mod 4" "b div 16 mod 16 = b div 16"
    using 3 by (simp_all add: less_mult_imp_div_less)
  show ?case using lt by (simp add: b64_padding_def dm)
next
  case (4 a b c r)
  have lt: "a div 4 < 64" "a mod 4 * 16 + b div 16 < 64" "b mod 16 * 4 + c div 64 < 64" "c mod 64 < 64"
    using 4 by auto
  have dm: "(a mod 4 * 16 + b div 16) div 16 = a mod 4" "b div 16 mod 16 = b div 16"
    "(b mod 16 * 4 + c div 64) div 4 = b mod 16" "c div 64 mod 4 = c div 64"
    using 4 by (simp_all add: less_mult_imp_div_less)
  have "a div 4 * 4 + a mod 4 = a" "b div 16 * 16 + b mod 16 = b" "c div 64 * 64 + c mod 64 = c" by simp_all
  then show ?case using lt 4 by (simp add: dm)
qed

lemma b64decode_encode [simp]: "b64decode (b64encode s) = Inr s"
proof -
  have "b64_scan 0 0 0 (b64encode s @ b64_padding (b64encode s)) = Some (map of_char s)"
    unfolding b64encode_def by (rule b64_scan_groups) auto
  then show ?thesis by (simp add: b64decode_def comp_def)
qed

end
