(* ===== verification/Security.thy ===== *)
theory Security
  imports JsonParse Base64
begin

text \<open>
  Approval tokens (\<open>mcp_server/security.py\<close>): a signed, expiring record of one decided
  approval. Claims are a JSON object; the token is its Base64 text, a dot and the
  Base64 of the keyed digest. Times are microseconds since the epoch.
\<close>

definition create_approval_token :: "(string \<Rightarrow> string) \<Rightarrow> dict \<Rightarrow> string \<Rightarrow> string" where
  "create_approval_token D claims secret =
     (let encoded = b64encode (utf8 (json_dumps (JObj claims)));
          signature = hmac D (utf8 secret) encoded
      in encoded @ ''.'' @ b64encode signature)"

text \<open>\<open>datetime.fromtimestamp(seconds, UTC)\<close> in microseconds; years outside 1 to 9999 are refused.\<close>

definition fromtimestamp :: "rat \<Rightarrow> int res" where
  "fromtimestamp t =
     (let us = round_he (t * 1000000) in
      if us < -62135596800000000 \<or> 253402300800000000 \<le> us
      then Inl (ValueError ''year is out of range'') else Inr us)"

definition malformed :: exn where
  "malformed = ApprovalTokenError ''APPROVAL_TOKEN_MALFORMED''"

text \<open>The last checks of the code: the claims must carry an expiry in the future.\<close>

definition check_expiry :: "int \<Rightarrow> dict \<Rightarrow> dict res" where
  "check_expiry now claims =
     (let expires_at = dget ''exp'' claims in
      if expires_at = JNull then Inl (ApprovalTokenError ''APPROVAL_TOKEN_NO_EXPIRY'')
      else bindR (py_float expires_at) (\<lambda>t. bindR (fromtimestamp t) (\<lambda>us.
        if us \<le> now then Inl (ApprovalTokenError ''APPROVAL_TOKEN_EXPIRED'') else Inr claims)))"

definition token_claims :: "string \<Rightarrow> dict res" where
  "token_claims payload =
     (case utf8_decode payload of
        None \<Rightarrow> Inl malformed
      | Some txt \<Rightarrow> (case json_loads txt of Some (JObj claims) \<Rightarrow> Inr claims | _ \<Rightarrow> Inl malformed))"

definition verify_approval_token :: "(string \<Rightarrow> string) \<Rightarrow> int \<Rightarrow> string \<Rightarrow> string \<Rightarrow> dict res" where
  "verify_approval_token D now token secret =
     (case split_at (CHR ''.'') token of
        (_, None) \<Rightarrow> Inl malformed
      | (encoded, Some signature_text) \<Rightarrow>
          if \<not> is_ascii encoded then Inl (ValueError ''ordinal not in range(128)'')
          else bindR (b64decode signature_text) (\<lambda>supplied.
            if hmac D (utf8 secret) encoded \<noteq> supplied
            then Inl (ApprovalTokenError ''APPROVAL_TOKEN_INVALID'')
            else bindR (b64decode encoded) (\<lambda>payload.
              bindR (token_claims payload) (check_expiry now))))"

text \<open>The loop over the expected fields, in the order the code lists them.\<close>

fun check_scope :: "dict \<Rightarrow> (string \<times> string) list \<Rightarrow> dict res" where
  "check_scope claims [] = Inr claims"
| "check_scope claims ((field, wanted) # rest) =
     (let actual = dget field claims in
      if actual \<noteq> JStr wanted
      then Inl (ApprovalMismatch (''APPROVAL_SCOPE_MISMATCH: token authorises '' @ field @ ''='' @
              py_repr actual @ '' but the action is '' @ field @ ''='' @ str_repr wanted))
      else check_scope claims rest)"

definition verify_approval_for ::
  "(string \<Rightarrow> string) \<Rightarrow> int \<Rightarrow> string \<Rightarrow> string \<Rightarrow> string \<Rightarrow> string \<Rightarrow> string \<Rightarrow> dict res" where
  "verify_approval_for D now token secret incident_id action_type idempotency_key =
     bindR (verify_approval_token D now token secret) (\<lambda>claims.
       if dget ''status'' claims \<noteq> JStr ''approved''
       then Inl (ApprovalMismatch ''APPROVAL_NOT_GRANTED: the token does not record an approval'')
       else check_scope claims
         [(''incident_id'', incident_id), (''action_type'', action_type),
          (''idempotency_key'', idempotency_key)])"

fun is_token_error :: "exn \<Rightarrow> bool" where
  "is_token_error (ApprovalTokenError _) = True"
| "is_token_error (ApprovalMismatch _) = True"
| "is_token_error _ = False"

lemma check_scope_eq_Inr [simp]:
  "check_scope claims fs = Inr c \<longleftrightarrow> c = claims \<and> (\<forall>(f, w) \<in> set fs. dget f claims = JStr w)"
  by (induction claims fs rule: check_scope.induct) (auto simp: Let_def)

lemma split_at_Some: "split_at c s = (a, Some b) \<Longrightarrow> s = a @ c # b \<and> c \<notin> set a"
  by (induction s arbitrary: a) (auto split: if_splits prod.splits)

text \<open>What an accepted token is: both parts, the signature, the payload and its expiry.\<close>

lemma check_expiry_Inr:
  "check_expiry now claims = Inr c \<longleftrightarrow>
   c = claims \<and> dget ''exp'' claims \<noteq> JNull \<and>
   (\<exists>t us. py_float (dget ''exp'' claims) = Inr t \<and> fromtimestamp t = Inr us \<and> now < us)"
  by (cases "py_float (dget ''exp'' claims)"; cases "fromtimestamp (projr (py_float (dget ''exp'' claims)))")
    (auto simp: check_expiry_def Let_def)

lemma verify_approval_token_Inr:
  assumes "verify_approval_token D now token secret = Inr claims"
  obtains encoded sig payload where
    "token = encoded @ CHR ''.'' # sig" "b64decode sig = Inr (hmac D (utf8 secret) encoded)"
    "b64decode encoded = Inr payload" "token_claims payload = Inr claims"
    "check_expiry now claims = Inr claims"
proof -
  obtain encoded so where sp: "split_at (CHR ''.'') token = (encoded, so)" by fastforce
  show thesis
  proof (cases so)
    case None
    then show thesis using assms sp by (simp add: verify_approval_token_def)
  next
    case (Some sig)
    obtain payload where "is_ascii encoded" "b64decode sig = Inr (hmac D (utf8 secret) encoded)"
      "b64decode encoded = Inr payload" "bindR (token_claims payload) (check_expiry now) = Inr claims"
      using assms sp Some by (auto simp: verify_approval_token_def bindR_eq_Inr split: if_splits)
    moreover from this(4) have "token_claims payload = Inr claims" "check_expiry now claims = Inr claims"
      by (auto simp: bindR_eq_Inr check_expiry_Inr)
    ultimately show thesis using that sp Some by (blast dest: split_at_Some)
  qed
qed

lemma verify_approval_for_Inr:
  "verify_approval_for D now token secret inc act key = Inr claims \<longleftrightarrow>
   verify_approval_token D now token secret = Inr claims \<and> dget ''status'' claims = JStr ''approved'' \<and>
   dget ''incident_id'' claims = JStr inc \<and> dget ''action_type'' claims = JStr act \<and>
   dget ''idempotency_key'' claims = JStr key"
  by (auto simp: verify_approval_for_def bindR_eq_Inr simp del: check_scope.simps)

lemma dget_canon:
  "wf_json (JObj d) \<Longrightarrow>
   dget k (sort_key fst (map (\<lambda>p. (fst p, canon (snd p))) d)) = canon (dget k d)"
  by (simp add: dget_def dget_canon_obj split: option.split)

lemma canon_scalar [simp]: "canon v = JStr s \<longleftrightarrow> v = JStr s" "canon v = JInt i \<longleftrightarrow> v = JInt i"
    "canon v = JNull \<longleftrightarrow> v = JNull"
  by (cases v; simp)+

text \<open>
  A token made by the program comes down to the expiry check on the claims it was made
  of; it is accepted until it expires.
\<close>

lemma verify_create_eq:
  assumes "wf_json (JObj claims)"
  shows "verify_approval_token D now (create_approval_token D claims secret) secret =
     check_expiry now (sort_key fst (map (\<lambda>p. (fst p, canon (snd p))) claims))"
proof -
  let ?enc = "b64encode (utf8 (json_dumps (JObj claims)))"
  have tok: "create_approval_token D claims secret = ?enc @ CHR ''.'' # b64encode (hmac D (utf8 secret) ?enc)"
    by (simp add: create_approval_token_def Let_def)
  show ?thesis
    using json_loads_dumps [OF assms]
    by (simp add: tok verify_approval_token_def token_claims_def Let_def del: json_dumps.simps canon.simps(1))
qed

lemma check_expiry_time:
  assumes "dget ''exp'' claims = JFloat (of_int us / 1000000)" "us < 253402300800000000" "-62135596800000000 \<le> us"
  shows "check_expiry now claims =
    (if us \<le> now then Inl (ApprovalTokenError ''APPROVAL_TOKEN_EXPIRED'') else Inr claims)"
  using assms by (simp add: check_expiry_def fromtimestamp_def)

lemma verify_create_token:
  assumes "wf_json (JObj claims)" "dget ''exp'' claims = JFloat (of_int us / 1000000)"
    and "us < 253402300800000000" "-62135596800000000 \<le> us"
  shows "verify_approval_token D now (create_approval_token D claims secret) secret =
     (if us \<le> now then Inl (ApprovalTokenError ''APPROVAL_TOKEN_EXPIRED'')
      else Inr (sort_key fst (map (\<lambda>p. (fst p, canon (snd p))) claims)))"
proof -
  have "dget ''exp'' (sort_key fst (map (\<lambda>p. (fst p, canon (snd p))) claims)) = JFloat (of_int us / 1000000)"
    using assms by (simp add: dget_canon)
  then show ?thesis
    unfolding verify_create_eq [OF assms(1)] by (rule check_expiry_time) (fact assms)+
qed

end
