(* ===== verification/Tools.thy ===== *)
theory Tools
  imports EffectStore Security Datetime
begin

text \<open>
  The simulated operations tools (\<open>mcp_server/tools.py\<close>) and the in-process client
  (\<open>mcp_client/client.py\<close>). The registry's dependencies are arguments: the digest, the
  signing secret, the scenario fixtures (the JSON files, by name) and the operations of
  the effect store. One call reads the clock once.
\<close>

subsection \<open>Scenario fixtures\<close>

type_synonym fixtures = "(string \<times> dict) list"

definition catalog_get :: "fixtures \<Rightarrow> string \<Rightarrow> dict res" where
  "catalog_get fx name =
     (case map_of fx name of
        None \<Rightarrow> Inl (KeyError (''Unknown scenario: '' @ name))
      | Some d \<Rightarrow> Inr d)"

text \<open>\<open>xs[min(max(i, 0), len(xs) - 1)]\<close> on any value: an empty list has no last element.\<close>

fun clamped_index :: "json \<Rightarrow> int \<Rightarrow> json res" where
  "clamped_index (JArr xs) i = (if xs = [] then Inl IndexError else Inr (clamped xs i))"
| "clamped_index (JStr s) i =
     (if s = [] then Inl IndexError else Inr (JStr [s ! clamp_index i (length s)]))"
| "clamped_index (JObj d) i = Inl (KeyError (int_str (min (max i 0) (int (length d) - 1))))"
| "clamped_index _ i = Inl (TypeError ''object has no len()'')"

subsection \<open>Read-only tools\<close>

definition arg :: "string \<Rightarrow> dict \<Rightarrow> string res" where
  "arg k arguments = bindR (dindex k arguments) (\<lambda>v. Inr (py_str v))"

definition get_nxt_snapshot :: "fixtures \<Rightarrow> int \<Rightarrow> dict \<Rightarrow> dict res" where
  "get_nxt_snapshot fx now arguments =
     bindR (arg ''scenario_name'' arguments) (\<lambda>name.
     bindR (catalog_get fx name) (\<lambda>scenario.
     bindR (py_list (py_or (dget ''evidence_by_cycle'' scenario)
              (JArr [dget_or ''evidence'' (JArr []) scenario]))) (\<lambda>cycles.
     bindR (py_int (dget_or ''cycle'' (JInt 0) arguments)) (\<lambda>cycle.
     bindR (dindex ''name'' scenario) (\<lambda>nm.
     bindR (dindex ''technology'' scenario) (\<lambda>tech.
       Inr [(''scenario'', nm), (''technology'', tech),
            (''evidence'', if cycles = [] then JArr [] else clamped cycles cycle),
            (''alarm_state'', JStr ''active''), (''observed_at'', JStr (isoformat (utc now))),
            (''source'', JStr ''CommScope ServAssure NXT (simulated)'')]))))))"

definition get_topology :: "fixtures \<Rightarrow> dict \<Rightarrow> dict res" where
  "get_topology fx arguments =
     bindR (arg ''scenario_name'' arguments) (\<lambda>name.
     bindR (catalog_get fx name) (\<lambda>scenario.
       Inr [(''topology'', dget_or ''topology'' (JObj []) scenario), (''source'', JStr ''LPR topology fixture'')]))"

definition get_prior_incidents :: "fixtures \<Rightarrow> dict \<Rightarrow> dict res" where
  "get_prior_incidents fx arguments =
     bindR (arg ''scenario_name'' arguments) (\<lambda>name.
     bindR (catalog_get fx name) (\<lambda>scenario.
       Inr [(''related_incidents'', JArr []), (''existing_mr'', JNull),
            (''common_cause'', JBool (truthy (dget ''common_cause'' scenario))),
            (''parent_incident_id'', dget ''parent_incident_id'' scenario)]))"

definition run_read_only_test :: "(string \<Rightarrow> string) \<Rightarrow> fixtures \<Rightarrow> int \<Rightarrow> dict \<Rightarrow> dict res" where
  "run_read_only_test D fx now arguments =
     bindR (arg ''scenario_name'' arguments) (\<lambda>name.
     bindR (catalog_get fx name) (\<lambda>scenario.
     let test_type = py_str (dget_or ''test_type'' (JStr ''service_path'') arguments) in
     bindR (dindex ''name'' scenario) (\<lambda>nm.
       Inr [(''test_id'', JStr (stable_id D [py_str nm, test_type] ''test'')),
            (''test_type'', JStr test_type),
            (''outcome'', JStr (if nm \<noteq> JStr ''hfc_remote_success'' then ''abnormal'' else ''profile_mismatch'')),
            (''observed_at'', JStr (isoformat (utc now))), (''read_only'', JBool True)])))"

subsection \<open>Approved effects\<close>

text \<open>\<open>_scenario_outcome\<close>: the recorded outcome of this attempt of the action.\<close>

definition scenario_outcome :: "fixtures \<Rightarrow> dict \<Rightarrow> string res" where
  "scenario_outcome fx arguments =
     bindR (arg ''scenario_name'' arguments) (\<lambda>name.
     bindR (catalog_get fx name) (\<lambda>scenario.
     bindR (arg ''action_type'' arguments) (\<lambda>action_type.
     bindR (py_int (dget_or ''attempt'' (JInt 1) arguments)) (\<lambda>attempt.
     bindR (as_dict (dget_or ''execution_outcomes'' (JObj []) scenario)) (\<lambda>by_action.
     bindR (clamped_index (dget_or action_type (JArr [JStr ''succeeded'']) by_action) (attempt - 1)) (\<lambda>v.
       Inr (py_str v)))))))"

fun token_to_rejection :: "exn \<Rightarrow> exn" where
  "token_to_rejection e = (if is_token_error e then ToolRejection (exn_text e) (exn_text e) else e)"

definition map_exn :: "(exn \<Rightarrow> exn) \<Rightarrow> 'a res \<Rightarrow> 'a res" where
  "map_exn f r = (case r of Inl e \<Rightarrow> Inl (f e) | Inr x \<Rightarrow> Inr x)"

definition reject :: "string \<Rightarrow> exn" where
  "reject code = ToolRejection code code"

definition approved_effect ::
  "(string \<Rightarrow> string) \<Rightarrow> string \<Rightarrow> int \<Rightarrow> ('st \<Rightarrow> string \<Rightarrow> dict option res) \<Rightarrow> ('st \<Rightarrow> string \<Rightarrow> string option) \<Rightarrow>
   ('st \<Rightarrow> string \<Rightarrow> string \<Rightarrow> string \<Rightarrow> string \<Rightarrow> dict \<Rightarrow> unit res \<times> 'st) \<Rightarrow>
   string \<Rightarrow> dict \<Rightarrow> (dict \<Rightarrow> dict res) \<Rightarrow> string list \<Rightarrow> ('st, dict) eff" where
  "approved_effect D secret now get consumed commit tool_name arguments effect expected_action_types st =
     (let incident_id = py_str (dget_or ''incident_id'' (JStr []) arguments);
          action_type = py_str (dget_or ''action_type'' (JStr []) arguments);
          approval_token = py_str (dget_or ''approval_token'' (JStr []) arguments);
          idempotency_key = py_str (dget_or ''idempotency_key'' (JStr []) arguments)
      in if incident_id = [] \<or> action_type = [] \<or> approval_token = [] \<or> idempotency_key = []
         then (Inl (reject ''MISSING_EXECUTION_CONTROL''), st)
         else if action_type \<notin> set expected_action_types then (Inl (reject ''TOOL_ACTION_MISMATCH''), st)
         else case get st idempotency_key of
           Inl e \<Rightarrow> (Inl e, st)
         | Inr (Some prior) \<Rightarrow> (Inr (dset ''replayed'' (JBool True) prior), st)
         | Inr None \<Rightarrow>
             (case map_exn token_to_rejection
                 (verify_approval_for D now approval_token secret incident_id action_type idempotency_key) of
                Inl e \<Rightarrow> (Inl e, st)
              | Inr claims \<Rightarrow>
                  (let approval_id = py_str (dget ''approval_id'' claims);
                       used = consumed st approval_id
                   in if used \<noteq> None \<and> used \<noteq> Some idempotency_key
                      then (Inl (reject ''APPROVAL_ALREADY_CONSUMED''), st)
                      else case effect arguments of
                        Inl e \<Rightarrow> (Inl e, st)
                      | Inr r \<Rightarrow>
                          (let result = dupdate r
                              [(''incident_id'', JStr incident_id), (''action_type'', JStr action_type),
                               (''approval_id'', JStr approval_id), (''idempotency_key'', JStr idempotency_key),
                               (''replayed'', JBool False), (''simulated'', JBool True),
                               (''executed_at'', JStr (isoformat (utc now)))]
                           in case commit st idempotency_key incident_id tool_name approval_id result of
                                (Inl e, st') \<Rightarrow> (Inl e, st')
                              | (Inr _, st') \<Rightarrow> (Inr result, st')))))"

text \<open>The identifier parts of an effect: three arguments, the last with a default.\<close>

definition effect_id :: "(string \<Rightarrow> string) \<Rightarrow> dict \<Rightarrow> string \<Rightarrow> string \<Rightarrow> string res" where
  "effect_id D args middle prefix =
     bindR (arg ''incident_id'' args) (\<lambda>iid.
       Inr (stable_id D [iid, middle, py_str (dget_or ''attempt'' (JInt 1) args)] prefix))"

definition remote_effect :: "(string \<Rightarrow> string) \<Rightarrow> fixtures \<Rightarrow> dict \<Rightarrow> dict res" where
  "remote_effect D fx args =
     bindR (scenario_outcome fx args) (\<lambda>outcome.
     bindR (arg ''action_type'' args) (\<lambda>act.
     bindR (effect_id D args act ''act'') (\<lambda>aid.
       Inr [(''action_id'', JStr aid), (''outcome'', JStr outcome),
            (''summary'', JStr (''Simulated remote action '' @ act @ '' '' @ outcome @ ''.'')),
            (''evidence'', JArr [JObj [(''kind'', JStr ''remote_action_result''),
               (''source'', JStr ''CPE management simulator''),
               (''summary'', JStr (''Remote action outcome: '' @ outcome))]])])))"

definition self_help_effect :: "(string \<Rightarrow> string) \<Rightarrow> fixtures \<Rightarrow> dict \<Rightarrow> dict res" where
  "self_help_effect D fx args =
     bindR (scenario_outcome fx args) (\<lambda>outcome.
     bindR (effect_id D args ''self_help'' ''act'') (\<lambda>aid.
       Inr [(''action_id'', JStr aid), (''outcome'', JStr outcome),
            (''summary'', JStr (''Simulated bilingual self-help session '' @ outcome @ ''.''))]))"

definition clean_boots_effect :: "(string \<Rightarrow> string) \<Rightarrow> fixtures \<Rightarrow> dict \<Rightarrow> dict res" where
  "clean_boots_effect D fx args =
     bindR (scenario_outcome fx args) (\<lambda>outcome.
     bindR (arg ''scenario_name'' args) (\<lambda>name.
     bindR (catalog_get fx name) (\<lambda>scenario.
     bindR (effect_id D args ''clean'' ''wo'') (\<lambda>wo.
     let findings = [(''tests_completed'', jarr [''CPE'', ''power'', ''premise_wiring'', ''drop'', ''delimiter'']),
            (''parts_used'', jarr (if outcome = ''succeeded'' then [''drop connector''] else [])),
            (''photos'', jarr [''simulated://photo/1'', ''simulated://photo/2''])];
         handover = dget ''handover'' scenario
     in bindR (if truthy handover then bindR (py_dict handover) (\<lambda>h. Inr (dupdate findings h))
               else Inr findings) (\<lambda>ff.
       Inr [(''action_id'', JStr wo), (''work_order_id'', JStr wo), (''crew_type'', JStr ''clean''),
            (''outcome'', JStr outcome), (''summary'', JStr (''Clean Boots work order '' @ outcome @ ''.'')),
            (''field_findings'', JObj ff)])))))"

definition mr_effect :: "(string \<Rightarrow> string) \<Rightarrow> fixtures \<Rightarrow> dict \<Rightarrow> dict res" where
  "mr_effect D fx args =
     bindR (scenario_outcome fx args) (\<lambda>outcome.
     bindR (arg ''incident_id'' args) (\<lambda>iid.
     let mr_id = stable_id D [iid, ''mr'', py_str (dget_or ''delimiter'' (JStr ''unknown'') args)] ''mr'' in
       Inr [(''action_id'', JStr mr_id), (''mr_id'', JStr mr_id), (''outcome'', JStr outcome),
            (''owner'', dget_or ''owner'' (JStr ''Plant/OSP'') args), (''delimiter'', dget ''delimiter'' args),
            (''summary'', JStr (''jTrack MR '' @ mr_id @ '' created/updated; plant action '' @ outcome @ ''.''))]))"

definition plant_effect :: "(string \<Rightarrow> string) \<Rightarrow> fixtures \<Rightarrow> dict \<Rightarrow> dict res" where
  "plant_effect D fx args =
     bindR (scenario_outcome fx args) (\<lambda>outcome.
     bindR (effect_id D args ''plant'' ''act'') (\<lambda>aid.
       Inr [(''action_id'', JStr aid), (''outcome'', JStr outcome),
            (''summary'', JStr (''Simulated network/plant action '' @ outcome @ ''.''))]))"

definition joint_effect :: "(string \<Rightarrow> string) \<Rightarrow> fixtures \<Rightarrow> dict \<Rightarrow> dict res" where
  "joint_effect D fx args =
     bindR (scenario_outcome fx args) (\<lambda>outcome.
     bindR (effect_id D args ''joint'' ''wo'') (\<lambda>wo.
       Inr [(''action_id'', JStr wo), (''work_order_id'', JStr wo), (''crew_type'', JStr ''joint''),
            (''outcome'', JStr outcome),
            (''summary'', JStr (''Joint Clean/Dirty Boots dispatch '' @ outcome @ ''.''))]))"

text \<open>The side-effecting tools: name, effect and the action types each accepts.\<close>

definition effect_tools :: "(string \<Rightarrow> string) \<Rightarrow> fixtures \<Rightarrow> (string \<times> (dict \<Rightarrow> dict res) \<times> string list) list" where
  "effect_tools D fx =
     [(''simulate_remote_action'', remote_effect D fx, [''remote_reboot'', ''remote_reprovision'']),
      (''simulate_self_help'', self_help_effect D fx, [''self_help'']),
      (''create_clean_boots_work_order'', clean_boots_effect D fx, [''clean_boots'']),
      (''create_or_update_mr'', mr_effect D fx, [''dirty_boots_mr'']),
      (''simulate_plant_action'', plant_effect D fx, [''plant_action'']),
      (''simulate_joint_dispatch'', joint_effect D fx, [''joint_dispatch''])]"

definition read_tools :: "(string \<Rightarrow> string) \<Rightarrow> fixtures \<Rightarrow> int \<Rightarrow> (string \<times> (dict \<Rightarrow> dict res)) list" where
  "read_tools D fx now =
     [(''get_nxt_snapshot'', get_nxt_snapshot fx now), (''get_topology'', get_topology fx),
      (''get_prior_incidents'', get_prior_incidents fx), (''run_read_only_test'', run_read_only_test D fx now)]"

definition registry_call ::
  "(string \<Rightarrow> string) \<Rightarrow> string \<Rightarrow> fixtures \<Rightarrow> int \<Rightarrow> string \<Rightarrow> dict \<Rightarrow> (effect_store, dict) eff" where
  "registry_call D secret fx now name arguments st =
     (case map_of (read_tools D fx now) name of
        Some tool \<Rightarrow> (tool arguments, st)
      | None \<Rightarrow>
          (case map_of (effect_tools D fx) name of
             None \<Rightarrow> (Inl (ToolRejection ''TOOL_NOT_FOUND'' (''Unknown tool: '' @ name)), st)
           | Some (effect, acts) \<Rightarrow>
               approved_effect D secret now es_get es_get_consumed_approval es_commit_effect
                 name arguments effect acts st))"

definition tool_descriptions :: "(string \<times> string) list" where
  "tool_descriptions =
     [(''get_nxt_snapshot'', ''Return the simulated CommScope NXT snapshot and evidence for a demo scenario.''),
      (''get_topology'', ''Return customer-service-CPE-delimiter-plant topology for a demo scenario.''),
      (''get_prior_incidents'', ''Return simulated related incident and repair history.''),
      (''run_read_only_test'', ''Run a simulated read-only CPE or service diagnostic.''),
      (''simulate_remote_action'', ''Execute an approved simulated remote CPE action.''),
      (''simulate_self_help'', ''Record an approved simulated customer self-help session.''),
      (''create_clean_boots_work_order'', ''Create one approved and idempotent Clean Boots work order.''),
      (''create_or_update_mr'', ''Create or update one approved jTrack MR at the HFC tap or PON ODP.''),
      (''simulate_plant_action'', ''Execute an approved simulated Dirty Boots or plant repair.''),
      (''simulate_joint_dispatch'', ''Create one coordinated Clean/Dirty Boots dispatch.'')]"

definition tool_entry :: "string \<Rightarrow> dict res" where
  "tool_entry name = (case map_of tool_descriptions name of
       None \<Rightarrow> Inl (KeyError name)
     | Some description \<Rightarrow> Inr
         [(''name'', JStr name), (''description'', JStr description),
          (''inputSchema'', JObj [(''type'', JStr ''object''), (''additionalProperties'', JBool True)]),
          (''annotations'', JObj
            [(''readOnlyHint'', JBool (List.member
                [''get_nxt_snapshot'', ''get_topology'', ''get_prior_incidents'', ''run_read_only_test''] name)),
             (''destructiveHint'', JBool False), (''idempotentHint'', JBool True)])])"

definition list_tools :: "dict list res" where
  "list_tools = mapR tool_entry (sort (map fst (read_tools id [] 0) @ map fst (effect_tools id [])))"

text \<open>Every tool is listed, and the ones announced as read-only are those that have no effect.\<close>

lemma list_tools_complete:
  "bindR list_tools (\<lambda>ts. Inr (length ts, map (\<lambda>t. dget ''name'' t) (filter (\<lambda>t. case dget ''annotations'' t of
       JObj a \<Rightarrow> dget ''readOnlyHint'' a = JBool True | _ \<Rightarrow> False) ts))) =
   Inr (10, map JStr (sort (map fst (read_tools id [] 0))))"
  by code_simp

subsection \<open>The in-process client\<close>

fun rejection_to_client_error :: "exn \<Rightarrow> exn" where
  "rejection_to_client_error (ToolRejection c d) = MCPClientError d (Some c) (Some 409)"
| "rejection_to_client_error e = e"

definition in_process_call ::
  "(string \<Rightarrow> string) \<Rightarrow> string \<Rightarrow> fixtures \<Rightarrow> int \<Rightarrow> string \<Rightarrow> dict \<Rightarrow> (effect_store, dict) eff" where
  "in_process_call D secret fx now name arguments st =
     (let (r, st') = registry_call D secret fx now name arguments st
      in (map_exn rejection_to_client_error r, st'))"

subsection \<open>What an approved effect guarantees\<close>

text \<open>The four control arguments of a call, as the registry reads them.\<close>

definition ctl :: "string \<Rightarrow> dict \<Rightarrow> string" where
  "ctl k arguments = py_str (dget_or k (JStr []) arguments)"

definition controls_ok :: "dict \<Rightarrow> string list \<Rightarrow> bool" where
  "controls_ok arguments acts \<longleftrightarrow> ctl ''incident_id'' arguments \<noteq> [] \<and> ctl ''action_type'' arguments \<in> set acts \<and>
     ctl ''action_type'' arguments \<noteq> [] \<and> ctl ''approval_token'' arguments \<noteq> [] \<and> ctl ''idempotency_key'' arguments \<noteq> []"

context effect_provider
begin

text \<open>A call that records an effect: every guard it has passed.\<close>

definition records :: "(string \<Rightarrow> string) \<Rightarrow> string \<Rightarrow> int \<Rightarrow> 'st \<Rightarrow> dict \<Rightarrow> string list \<Rightarrow> dict \<Rightarrow> 'st \<Rightarrow> bool" where
  "records D secret now st arguments acts result st' \<longleftrightarrow>
     (\<exists>claims. verify_approval_for D now (ctl ''approval_token'' arguments) secret (ctl ''incident_id'' arguments)
         (ctl ''action_type'' arguments) (ctl ''idempotency_key'' arguments) = Inr claims \<and>
       get st (ctl ''idempotency_key'' arguments) = Inr None \<and>
       consumed st (py_str (dget ''approval_id'' claims)) \<in> {None, Some (ctl ''idempotency_key'' arguments)} \<and>
       dget ''replayed'' result = JBool False \<and>
       (\<exists>tool. commit st (ctl ''idempotency_key'' arguments) (ctl ''incident_id'' arguments) tool
          (py_str (dget ''approval_id'' claims)) result = (Inr (), st')))"

lemma approved_effect_Inr:
  assumes "approved_effect D secret now get consumed commit tool arguments effect acts st = (Inr result, st')"
  shows "controls_ok arguments acts \<and>
    ((\<exists>prior. get st (ctl ''idempotency_key'' arguments) = Inr (Some prior) \<and> st' = st \<and>
        result = dset ''replayed'' (JBool True) prior)
     \<or> records D secret now st arguments acts result st')"
proof -
  have ok: "controls_ok arguments acts"
    using assms by (auto simp: approved_effect_def controls_ok_def ctl_def Let_def split: if_splits)
  show ?thesis
  proof (cases "get st (ctl ''idempotency_key'' arguments)")
    case (Inl e)
    then show ?thesis
      using assms ok by (simp add: approved_effect_def controls_ok_def ctl_def Let_def)
  next
    case (Inr prior)
    show ?thesis
    proof (cases prior)
      case None
      obtain claims where v: "verify_approval_for D now (ctl ''approval_token'' arguments) secret
          (ctl ''incident_id'' arguments) (ctl ''action_type'' arguments) (ctl ''idempotency_key'' arguments) = Inr claims"
        and rest: "consumed st (py_str (dget ''approval_id'' claims)) \<in> {None, Some (ctl ''idempotency_key'' arguments)}"
        "dget ''replayed'' result = JBool False"
        "commit st (ctl ''idempotency_key'' arguments) (ctl ''incident_id'' arguments) tool
          (py_str (dget ''approval_id'' claims)) result = (Inr (), st')"
        using assms ok Inr None
        by (auto simp: approved_effect_def controls_ok_def ctl_def Let_def map_exn_def
            split: sum.splits prod.splits if_splits)
      with Inr None ok show ?thesis by (auto simp: records_def)
    next
      case (Some d)
      then show ?thesis
        using assms ok Inr by (auto simp: approved_effect_def controls_ok_def ctl_def Let_def)
    qed
  qed
qed

lemma approved_effect_Inl:
  assumes "approved_effect D secret now get consumed commit tool arguments effect acts st = (Inl e, st')"
  shows "st' = st"
proof -
  have refused: "commit st k i t a r = (Inl e, st') \<Longrightarrow> st' = st" for k i t a r
    by (metis commit_refused fst_conv snd_conv)
  show ?thesis
    using assms
    by (auto simp: approved_effect_def Let_def dest: refused
        split: if_splits sum.splits option.splits prod.splits)
qed

lemma approved_effect_replay:
  assumes "controls_ok arguments acts" "get st (ctl ''idempotency_key'' arguments) = Inr (Some prior)"
  shows "approved_effect D secret now get consumed commit tool arguments effect acts st =
    (Inr (dset ''replayed'' (JBool True) prior), st)"
  using assms by (simp add: approved_effect_def controls_ok_def ctl_def Let_def)

text \<open>Exactly once: whatever the clock and the token of the second call, it replays the first.\<close>

lemma approved_effect_once:
  assumes "inv st" "wf_json (JObj result)"
    and "approved_effect D secret now get consumed commit tool arguments effect acts st = (Inr result, st')"
    and "records D secret now st arguments acts result st'"
  shows "approved_effect D secret now' get consumed commit tool arguments effect' acts st' =
    (Inr (dset ''replayed'' (JBool True) (canon_dict result)), st')"
proof (rule approved_effect_replay)
  show "controls_ok arguments acts" using approved_effect_Inr [OF assms(3)] by blast
  obtain t a where none: "get st (ctl ''idempotency_key'' arguments) = Inr None"
    and c: "commit st (ctl ''idempotency_key'' arguments) (ctl ''incident_id'' arguments) t a result = (Inr (), st')"
    using assms(4) by (auto simp: records_def)
  then show "get st' (ctl ''idempotency_key'' arguments) = Inr (Some (canon_dict result))"
    using get_commit [OF assms(1,2) c] by simp
qed

lemma records_consumes:
  "records D secret now st arguments acts result st' \<Longrightarrow>
   \<exists>claims. verify_approval_for D now (ctl ''approval_token'' arguments) secret (ctl ''incident_id'' arguments)
         (ctl ''action_type'' arguments) (ctl ''idempotency_key'' arguments) = Inr claims \<and>
     consumed st' (py_str (dget ''approval_id'' claims)) = Some (ctl ''idempotency_key'' arguments)"
  using consumed_commit by (fastforce simp: records_def)

end

subsection \<open>The interface the workflow relies on\<close>

text \<open>
  The engine calls its tools through a client. What it relies on: an executed key stays
  executed, and a call newly executes at most the key it names, only when it succeeds and
  only with a token that is valid for that incident, action and key at that time.
\<close>

locale action_server =
  fixes D :: "string \<Rightarrow> string" and secret :: string
    and call :: "int \<Rightarrow> string \<Rightarrow> dict \<Rightarrow> ('s, dict) eff"
    and executed :: "'s \<Rightarrow> string \<Rightarrow> bool"
  assumes executed_mono: "executed s k \<Longrightarrow> executed (snd (call now n args s)) k"
    and executed_new: "executed (snd (call now n args s)) k \<Longrightarrow> \<not> executed s k \<Longrightarrow>
      is_ok (fst (call now n args s)) \<and> k = ctl ''idempotency_key'' args \<and> k \<noteq> [] \<and>
      is_ok (verify_approval_for D now (ctl ''approval_token'' args) secret (ctl ''incident_id'' args)
        (ctl ''action_type'' args) k)"
begin

lemma executed_call_eq:
  "\<not> is_ok (fst (call now n args s)) \<Longrightarrow> executed (snd (call now n args s)) k = executed s k"
  using executed_mono executed_new by blast

lemma executed_only_named:
  "k \<noteq> ctl ''idempotency_key'' args \<Longrightarrow> executed (snd (call now n args s)) k = executed s k"
  using executed_mono executed_new by blast

end

definition es_executed :: "effect_store \<Rightarrow> string \<Rightarrow> bool" where
  "es_executed st k \<longleftrightarrow> k \<in> fst ` set (es_effects st)"

lemma es_executed_commit:
  "es_commit_effect st k i t a r = (Inr u, st') \<Longrightarrow> es_executed st' k' \<longleftrightarrow> k' = k \<or> es_executed st k'"
  by (auto simp: es_commit_Inr es_executed_def insert_or_ignore_def)

lemma registry_call_effect:
  assumes "registry_call D secret fx now n args st = (r, st')" "st' \<noteq> st"
  obtains result acts where "r = Inr result" "es.records D secret now st args acts result st'"
    "controls_ok args acts" "\<exists>effect. (n, effect, acts) \<in> set (effect_tools D fx)"
proof -
  obtain effect acts where tool: "map_of (effect_tools D fx) n = Some (effect, acts)"
    and call: "approved_effect D secret now es_get es_get_consumed_approval es_commit_effect n args effect acts st = (r, st')"
    using assms by (auto simp: registry_call_def split: option.splits)
  show thesis
  proof (cases r)
    case (Inl e)
    then show thesis using es.approved_effect_Inl call assms(2) by blast
  next
    case (Inr result)
    have "\<exists>effect. (n, effect, acts) \<in> set (effect_tools D fx)"
      using map_of_SomeD [OF tool] by blast
    moreover have "controls_ok args acts \<and> es.records D secret now st args acts result st'"
      using es.approved_effect_Inr call assms(2) Inr by blast
    ultimately show thesis by (intro that [OF Inr]) auto
  qed
qed

lemma in_process_call_state:
  "snd (in_process_call D secret fx now n args st) = snd (registry_call D secret fx now n args st)"
  "is_ok (fst (in_process_call D secret fx now n args st)) = is_ok (fst (registry_call D secret fx now n args st))"
  by (auto simp: in_process_call_def map_exn_def Let_def split_def is_ok_def split: sum.splits)

lemma in_process_executed:
  assumes "es_executed (snd (in_process_call D secret fx now n args st)) k" "\<not> es_executed st k"
  shows "is_ok (fst (in_process_call D secret fx now n args st)) \<and> k = ctl ''idempotency_key'' args \<and> k \<noteq> [] \<and>
    is_ok (verify_approval_for D now (ctl ''approval_token'' args) secret (ctl ''incident_id'' args)
      (ctl ''action_type'' args) k)"
proof -
  obtain r st' where c: "registry_call D secret fx now n args st = (r, st')" by fastforce
  have "st' \<noteq> st" using assms c by (auto simp: in_process_call_state)
  then obtain result acts where r: "r = Inr result" and rec: "es.records D secret now st args acts result st'"
    and ctl: "controls_ok args acts"
    by (rule registry_call_effect [OF c])
  obtain claims t a where v: "verify_approval_for D now (ctl ''approval_token'' args) secret (ctl ''incident_id'' args)
      (ctl ''action_type'' args) (ctl ''idempotency_key'' args) = Inr claims"
    and cm: "es_commit_effect st (ctl ''idempotency_key'' args) (ctl ''incident_id'' args) t a result = (Inr (), st')"
    using rec by (auto simp: es.records_def)
  have "k = ctl ''idempotency_key'' args"
    using assms c es_executed_commit [OF cm, of k] by (simp add: in_process_call_state)
  then show ?thesis using v r c ctl by (simp add: in_process_call_state controls_ok_def)
qed

lemma in_process_mono:
  assumes "es_executed st k"
  shows "es_executed (snd (in_process_call D secret fx now n args st)) k"
proof -
  obtain r st' where c: "registry_call D secret fx now n args st = (r, st')" by fastforce
  show ?thesis
  proof (cases "st' = st")
    case True
    then show ?thesis using assms c by (simp add: in_process_call_state)
  next
    case False
    obtain result acts where "es.records D secret now st args acts result st'"
      by (rule registry_call_effect [OF c False])
    then obtain t a where "es_commit_effect st (ctl ''idempotency_key'' args) (ctl ''incident_id'' args) t a result = (Inr (), st')"
      by (auto simp: es.records_def)
    from es_executed_commit [OF this] show ?thesis using assms c by (simp add: in_process_call_state)
  qed
qed

interpretation ip: action_server D secret "in_process_call D secret fx" es_executed for D secret fx
  by unfold_locales (use in_process_mono in_process_executed in blast)+

end
