(* ===== verification/Engine.thy ===== *)
theory Engine
  imports Repository Tools
begin

text \<open>
  The workflow engine (\<open>workflow/engine.py\<close>): one handler per stage, the step that
  counts, dispatches and saves, and the loop that runs until a case is finished or
  waits for a person. A handler maps the case and the world (the database, the tool
  server and the sink counter) to a result and the world after it; a step reads the
  clock once. The assistant, the tool client and the telemetry sink are arguments.
\<close>

subsection \<open>Settings, environment and world\<close>

record settings =
  st_threshold :: rat
  st_max_remote :: nat
  st_max_field :: nat
  st_max_mr :: nat
  st_max_cycles :: nat
  st_max_steps :: nat
  st_stability_minutes :: nat
  st_secret :: string
  st_model_name :: string

record 's env =
  en_settings :: settings
  en_D :: "string \<Rightarrow> string"
  en_call :: "int \<Rightarrow> string \<Rightarrow> dict \<Rightarrow> ('s, dict) eff"
  en_propose :: "incident \<Rightarrow> rca res"
  en_explain :: "incident \<Rightarrow> dict list \<Rightarrow> string res"
  en_sink :: "(incident \<Rightarrow> unit res) option"

record 's world =
  w_repo :: repo
  w_server :: 's
  w_sink_failures :: nat

type_synonym 's handler = "incident \<Rightarrow> ('s world, incident) eff"

definition call_tool :: "'s env \<Rightarrow> int \<Rightarrow> string \<Rightarrow> dict \<Rightarrow> ('s world, dict) eff" where
  "call_tool E now name args w =
     (let (r, sv) = en_call E now name args (w_server w) in (r, w\<lparr>w_server := sv\<rparr>))"

definition ev :: "'s env \<Rightarrow> int \<Rightarrow> string \<Rightarrow> string \<Rightarrow> string \<Rightarrow> string \<Rightarrow> severity \<Rightarrow> dict \<Rightarrow> incident \<Rightarrow> incident" where
  "ev E now etype title detail actor sev meta = append_event (en_D E) (utc now) etype title detail actor sev meta"

subsection \<open>Helpers of the engine\<close>

definition escalate :: "'s env \<Rightarrow> int \<Rightarrow> string \<Rightarrow> incident \<Rightarrow> incident" where
  "escalate E now reason s =
     ev E now ''escalated'' ''Case escalated'' reason ''workflow'' CRITICAL []
       (s\<lparr>i_stage := ESCALATED, i_status := CS_ESCALATED, i_owner := ''L2/SME'',
          i_gate := (if contains ''budget'' (lower reason) then G_BUDGET else i_gate s),
          i_error := Some reason\<rparr>)"

definition approval_for_action :: "action_type \<Rightarrow> approval_kind \<times> string" where
  "approval_for_action a =
     (if a \<in> {REMOTE_REBOOT, REMOTE_REPROVISION, SELF_HELP} then (REMOTE_ACTION, ''noc_analyst'')
      else if a \<in> {CLEAN_BOOTS, JOINT_DISPATCH} then (DISPATCH, ''dispatcher'')
      else if a = DIRTY_BOOTS_MR then (HANDOVER, ''plant_supervisor'')
      else if a = PLANT_ACTION then (HIGH_BLAST_RADIUS, ''operations_supervisor'')
      else (RCA_REVIEW, ''l2_sme''))"

definition tool_for_action :: "action_type \<Rightarrow> string res" where
  "tool_for_action a =
     (if a \<in> {REMOTE_REBOOT, REMOTE_REPROVISION} then Inr ''simulate_remote_action''
      else if a = SELF_HELP then Inr ''simulate_self_help''
      else if a = CLEAN_BOOTS then Inr ''create_clean_boots_work_order''
      else if a = DIRTY_BOOTS_MR then Inr ''create_or_update_mr''
      else if a = JOINT_DISPATCH then Inr ''simulate_joint_dispatch''
      else if a = PLANT_ACTION then Inr ''simulate_plant_action''
      else Inl (WorkflowError (''No MCP tool for action '' @ action_value a)))"

definition attempt_for :: "incident \<Rightarrow> action_type \<Rightarrow> int" where
  "attempt_for s a =
     (if a \<in> {REMOTE_REBOOT, REMOTE_REPROVISION} then int (i_remote s) + 1
      else if a = SELF_HELP then int (i_self_help s) + 1
      else if a \<in> {CLEAN_BOOTS, JOINT_DISPATCH} then int (i_field s) + 1
      else if a = DIRTY_BOOTS_MR then int (i_mr s) + 1
      else int (length (i_history s)) + 1)"

definition increment_attempt :: "action_type \<Rightarrow> incident \<Rightarrow> incident" where
  "increment_attempt a s =
     (if a \<in> {REMOTE_REBOOT, REMOTE_REPROVISION} then s\<lparr>i_remote := i_remote s + 1\<rparr>
      else if a = SELF_HELP then s\<lparr>i_self_help := i_self_help s + 1\<rparr>
      else if a \<in> {CLEAN_BOOTS, JOINT_DISPATCH} then s\<lparr>i_field := i_field s + 1\<rparr>
      else if a = DIRTY_BOOTS_MR then s\<lparr>i_mr := i_mr s + 1\<rparr>
      else s)"

definition default_delimiter :: "incident \<Rightarrow> string" where
  "default_delimiter s =
     (if i_technology s = HFC then py_str (dget_or ''tap'' (JStr ''unknown-tap'') (i_topology s))
      else py_str (dget_or ''odp'' (JStr ''unknown-odp'') (i_topology s)))"

text \<open>\<open>state.delimiter or self._default_delimiter(state)\<close>\<close>

definition delimiter_or_default :: "incident \<Rightarrow> string" where
  "delimiter_or_default s =
     (case i_delimiter s of Some d \<Rightarrow> if d = [] then default_delimiter s else d | None \<Rightarrow> default_delimiter s)"

fun title_words :: "bool \<Rightarrow> string \<Rightarrow> string" where
  "title_words start [] = []"
| "title_words start (c # cs) =
     (let n = (of_char (lower_char c) :: nat) in
      if 97 \<le> n \<and> n \<le> 122
      then (if start then char_of (n - 32) else lower_char c) # title_words False cs
      else c # title_words True cs)"

text \<open>\<open>kind.value.replace('_', ' ').title()\<close>\<close>

definition kind_title :: "approval_kind \<Rightarrow> string" where
  "kind_title k = title_words True (map (\<lambda>c. if c = CHR ''_'' then CHR '' '' else c) (kind_value k))"

definition approval_slot :: "incident \<Rightarrow> string \<Rightarrow> int \<times> string option" where
  "approval_slot s action =
     (if action = ''rca_review'' then (max (int (i_cycles s) - 1) 0, None)
      else ((case ActionType (JStr action) of
               Inl _ \<Rightarrow> int (length (i_history s))
             | Inr a \<Rightarrow> attempt_for s a),
            (if action \<in> {''clean_boots'', ''dirty_boots_mr'', ''joint_dispatch'', ''plant_action''}
             then Some (delimiter_or_default s) else None)))"

definition store_approval :: "approval \<Rightarrow> ('s world, unit) eff" where
  "store_approval a w = (let (r, rp) = save_approval a (w_repo w) in (r, w\<lparr>w_repo := rp\<rparr>))"

text \<open>The approval already stored under this identity, or a new pending one for four hours.\<close>

definition approval_or_new ::
  "int \<Rightarrow> approval option \<Rightarrow> string \<Rightarrow> incident \<Rightarrow> approval_kind \<Rightarrow> string \<Rightarrow> string \<Rightarrow> dict \<Rightarrow> string \<Rightarrow> approval" where
  "approval_or_new now existing approval_id s kind action role proposal key =
     (case existing of
        Some a \<Rightarrow> a
      | None \<Rightarrow> \<lparr>a_id = approval_id, a_incident = i_id s, a_action = action, a_kind = kind,
          a_status = AP_PENDING, a_role = role, a_proposal = proposal, a_key = key,
          a_created = utc now, a_expires = dt_add (utc now) (hours 4), a_decided_by = None,
          a_reason = None, a_option = None, a_decided_at = None, a_consumed_at = None\<rparr>)"

definition await_approval :: "'s env \<Rightarrow> int \<Rightarrow> approval_kind \<Rightarrow> string \<Rightarrow> string \<Rightarrow> incident \<Rightarrow> incident" where
  "await_approval E now kind role approval_id s =
     ev E now ''approval_requested'' (kind_title kind @ '' approval required'')
       (''Waiting for role '' @ role @ ''; approval '' @ approval_id @ ''.'') ''workflow'' WARNING
       [(''approval_id'', JStr approval_id), (''kind'', JStr (kind_value kind))]
       (s\<lparr>i_pending := Some approval_id, i_result := None, i_stage := WAITING_APPROVAL,
          i_status := CS_WAITING\<rparr>)"

definition prepare_approval ::
  "'s env \<Rightarrow> int \<Rightarrow> approval_kind \<Rightarrow> string \<Rightarrow> string \<Rightarrow> dict \<Rightarrow> 's handler" where
  "prepare_approval E now kind action role proposal s =
     (let (attempt, delimiter_id) = approval_slot s action in
      bindE (liftE (derive_approval_id (en_D E) (i_id s) (kind_value kind) action attempt delimiter_id)) (\<lambda>approval_id.
      bindE (liftE (derive_action_key (en_D E) (i_id s) action attempt delimiter_id)) (\<lambda>key.
      bindE (getE (\<lambda>w. get_approval (w_repo w) approval_id)) (\<lambda>existing.
      let a = approval_or_new now existing approval_id s kind action role proposal key in
      bindE (store_approval a) (\<lambda>_. retE (await_approval E now kind role (a_id a) s))))))"

subsection \<open>Intake: receive, validate, correlate, evidence\<close>

definition receive :: "'s env \<Rightarrow> int \<Rightarrow> incident \<Rightarrow> incident" where
  "receive E now s =
     ev E now ''signal_received'' ''Signal received''
       (''Received '' @ i_source s @ '' signal for '' @ technology_value (i_technology s) @ '' service.'')
       ''workflow'' INFO [] (s\<lparr>i_stage := VALIDATE\<rparr>)"

definition validate :: "'s env \<Rightarrow> int \<Rightarrow> incident \<Rightarrow> incident" where
  "validate E now s =
     (if \<not> truthy (dget_or ''valid'' (JBool True) (i_context s))
      then ev E now ''signal_quarantined'' ''Signal quarantined''
             ''The signal did not meet minimum quality or identity requirements.'' ''workflow'' WARNING []
             (s\<lparr>i_status := CS_QUARANTINED, i_stage := QUARANTINED\<rparr>)
      else ev E now ''signal_validated'' ''Signal validated''
             ''Signal quality and minimum identifiers passed deterministic checks.'' ''workflow'' INFO []
             (s\<lparr>i_stage := CORRELATE\<rparr>))"

text \<open>The parent's deadline: the context's timestamp, or hours after the case was created.\<close>

definition parent_deadline :: "incident \<Rightarrow> datetime res" where
  "parent_deadline s =
     (let raw = dget ''parent_sla_deadline'' (i_context s) in
      if truthy raw then fromisoformat (py_str raw)
      else bindR (py_float (dget_or ''parent_sla_hours'' (JInt 6) (i_context s))) (\<lambda>h.
        Inr (dt_add (i_created s) (hours h))))"

text \<open>The case joined to its parent when the history shows a common cause, and the event's detail.\<close>

definition associate :: "dict \<Rightarrow> incident \<Rightarrow> (incident \<times> string) res" where
  "associate history s =
     (if truthy (dget ''common_cause'' history)
      then (let s = s\<lparr>i_parent := Some (py_str (dget ''parent_incident_id'' history)),
                      i_sla_mode := INHERITS_PARENT\<rparr> in
        bindR (parent_deadline s) (\<lambda>deadline.
          Inr (s\<lparr>i_parent_deadline := Some deadline, i_owner := ''Plant/NOC''\<rparr>,
            ''Associated with parent incident '' @ py_str (dget ''parent_incident_id'' history) @
            ''; the parent deadline '' @ isoformat deadline @ '' is authoritative '' @
            ''while the child remains attached. The child's original clock is preserved.'')))
      else Inr (s, ''No planned work, duplicate MR, or common-cause parent was found.''))"

definition correlate :: "'s env \<Rightarrow> int \<Rightarrow> 's handler" where
  "correlate E now s =
     bindE (call_tool E now ''get_topology'' [(''scenario_name'', JStr (i_scenario s))]) (\<lambda>topology.
     bindE (call_tool E now ''get_prior_incidents'' [(''scenario_name'', JStr (i_scenario s))]) (\<lambda>history.
     bindE (liftE (py_dict (py_or (dget ''topology'' topology) (dget_or ''topology'' (JObj []) (i_context s))))) (\<lambda>top.
     bindE (liftE (associate history (s\<lparr>i_topology := top\<rparr>))) (\<lambda>(s, detail).
       retE (ev E now ''correlation_complete'' ''Correlation complete'' detail ''workflow'' INFO
         [(''parent_incident_id'', jopt (i_parent s))] (s\<lparr>i_stage := EVIDENCE\<rparr>))))))"

text \<open>One raw evidence item of the snapshot, by its position, unless its identity was there before.\<close>

definition evidence_of :: "'s env \<Rightarrow> int \<Rightarrow> nat \<Rightarrow> string list \<Rightarrow> nat \<Rightarrow> json \<Rightarrow> incident \<Rightarrow> incident res" where
  "evidence_of E now cycle existing index raw s =
     bindR (as_dict raw) (\<lambda>raw.
     let eid = stable_id (en_D E) [i_id s, py_str (dget ''kind'' raw), nat_str cycle, nat_str index] ''evi'' in
     if eid \<in> set existing then Inr s
     else bindR (py_float (dget_or ''quality'' (JInt 1) raw)) (\<lambda>q.
          bindR (mk_evidence eid (py_str (dget_or ''kind'' (JStr ''unknown'') raw))
              (py_str (dget_or ''source'' (JStr ''simulator'') raw))
              (py_str (dget_or ''subject'' (JStr (i_id s)) raw)) (utc now)
              (dget_or ''value'' (dget ''summary'' raw) raw) q
              (py_str (dget_or ''summary'' (JStr ''Evidence item'') raw))) (\<lambda>item.
            Inr (add_evidence item s))))"

fun evidence_loop :: "'s env \<Rightarrow> int \<Rightarrow> nat \<Rightarrow> string list \<Rightarrow> nat \<Rightarrow> json list \<Rightarrow> incident \<Rightarrow> incident res" where
  "evidence_loop E now cycle existing index [] s = Inr s"
| "evidence_loop E now cycle existing index (raw # raws) s =
     bindR (evidence_of E now cycle existing index raw s) (\<lambda>s'.
       evidence_loop E now cycle existing (index + 1) raws s')"

definition assemble_evidence :: "'s env \<Rightarrow> int \<Rightarrow> 's handler" where
  "assemble_evidence E now s =
     bindE (call_tool E now ''get_nxt_snapshot''
              [(''scenario_name'', JStr (i_scenario s)), (''cycle'', JInt (int (i_cycles s)))]) (\<lambda>snapshot.
     bindE (liftE (py_list (dget_or ''evidence'' (JArr []) snapshot))) (\<lambda>raws.
     bindE (liftE (evidence_loop E now (i_cycles s) (map e_id (i_evidence s)) 1 raws s)) (\<lambda>s.
     let s = s\<lparr>i_cycles := i_cycles s + 1, i_new_evidence := True\<rparr> in
     retE (if st_max_cycles (en_settings E) < i_cycles s
           then escalate E now ''Diagnostic cycle budget exhausted'' s
           else ev E now ''evidence_assembled'' ''Evidence assembled''
             (''Assembled '' @ nat_str (length (i_evidence s)) @ '' evidence items for diagnostic cycle '' @
              nat_str (i_cycles s) @ ''.'') ''workflow'' INFO [] (s\<lparr>i_stage := DETERMINISTIC_RCA\<rparr>)))))"

subsection \<open>Diagnosis: deterministic RCA, assistant, fusion\<close>

definition evidence_refs :: "incident \<Rightarrow> string list" where
  "evidence_refs s = map e_id (i_evidence s)"

definition last_cycle :: "incident \<Rightarrow> int" where
  "last_cycle s = int (i_cycles s) - 1"

definition deterministic_proposal :: "incident \<Rightarrow> rca res" where
  "deterministic_proposal s =
     (let fixture = i_context s; refs = evidence_refs s in
      bindR (py_list (py_or (dget ''deterministic_rca_by_cycle'' fixture) (JArr []))) (\<lambda>cycles.
      if cycles \<noteq> [] then
        bindR (py_dict (clamped cycles (last_cycle s))) (\<lambda>raw.
          rca_of_dict (dupdate raw [(''source'', JStr ''deterministic''), (''evidence_refs'', jstrs refs)]))
      else
        bindR (py_dict (py_or (dget ''deterministic_rca'' fixture) (JObj []))) (\<lambda>raw0.
        bindR (if 1 < i_cycles s \<and> truthy (dget ''post_failure_rca'' fixture)
               then py_dict (dget ''post_failure_rca'' fixture) else Inr raw0) (\<lambda>raw.
        bindR (FaultDomain (dget_or ''domain'' (JStr ''unknown'') raw)) (\<lambda>fd.
        bindR (py_float (dget_or ''confidence'' (JFloat (1/2)) raw)) (\<lambda>confidence.
        let cause = py_str (dget_or ''cause'' (JStr ''Unclassified fault'') raw) in
        bindR (mk_hypothesis cause fd (min confidence 1) (take 3 refs) []) (\<lambda>h.
          check_rca \<lparr>r_source = ''deterministic'', r_domain = fd, r_confidence = confidence,
            r_hypotheses = [h], r_evidence_refs = refs,
            r_ruled_out = [''duplicate incident'', ''planned maintenance''], r_missing = [],
            r_tests = [''read-only service path validation''], r_rationale = cause,
            r_model_name = None, r_prompt_version = None\<rparr>)))))))"

definition deterministic_rca :: "'s env \<Rightarrow> int \<Rightarrow> incident \<Rightarrow> incident res" where
  "deterministic_rca E now s =
     bindR (deterministic_proposal s) (\<lambda>p.
       Inr (ev E now ''deterministic_rca'' ''Deterministic RCA completed''
         (''Domain '' @ domain_value (r_domain p) @ ''; confidence '' @ percent0 (r_confidence p) @ ''.'')
         ''workflow'' INFO []
         (s\<lparr>i_det_rca := Some p, i_domain_det := Some (r_domain p), i_stage := LLM_RCA\<rparr>)))"

definition llm_rca :: "'s env \<Rightarrow> int \<Rightarrow> incident \<Rightarrow> incident" where
  "llm_rca E now s =
     (let s = (case en_propose E s of
                 Inr p \<Rightarrow> s\<lparr>i_llm_rca := Some p\<rparr>
               | Inl exc \<Rightarrow> s\<lparr>i_error := Some (''LLM assistant degraded: '' @ exn_text exc),
                   i_llm_rca := map_option (\<lambda>d. d\<lparr>r_source := ''fallback'',
                     r_rationale := ''Model unavailable; deterministic RCA copied.''\<rparr>) (i_det_rca s)\<rparr>);
          fd = (case i_llm_rca s of Some p \<Rightarrow> r_domain p | None \<Rightarrow> FD_UNKNOWN)
      in ev E now ''llm_rca'' ''RCA assistant proposal completed''
           (case i_llm_rca s of
              Some p \<Rightarrow> ''Domain '' @ domain_value fd @ ''; confidence '' @ percent0 (r_confidence p) @ ''.''
            | None \<Rightarrow> ''No model proposal was available.'')
           ''RCA assistant'' INFO [] (s\<lparr>i_domain_llm := Some fd, i_stage := FUSION\<rparr>))"

definition agreement_of :: "string option \<Rightarrow> agreement" where
  "agreement_of a = (if a = Some ''agree'' then AGREE else if a = Some ''disagree'' then DISAGREE
     else AGREEMENT_UNKNOWN)"

definition rca_review_proposal :: "rca \<Rightarrow> rca \<Rightarrow> gate_reason \<Rightarrow> dict" where
  "rca_review_proposal d m g =
     [(''deterministic'', rca_dump d), (''llm'', rca_dump m), (''gate_reason'', JStr (gate_value g))]"

definition fusion :: "'s env \<Rightarrow> int \<Rightarrow> 's handler" where
  "fusion E now s =
     (case (i_det_rca s, i_llm_rca s) of
        (Some d, Some m) \<Rightarrow>
          bindE (liftE (fuse_and_gate (domain_value (r_domain d)) (r_confidence d)
              (Some (domain_value (r_domain m))) (Some (r_confidence m)) (st_threshold (en_settings E)))) (\<lambda>gate.
          let s = s\<lparr>i_agreement := agreement_of (go_agreement gate)\<rparr> in
          if go_reason gate = ''low_confidence'' then
            prepare_approval E now RCA_REVIEW ''rca_review'' ''l2_sme'' (rca_review_proposal d m G_LOW_CONFIDENCE)
              (s\<lparr>i_gate := G_LOW_CONFIDENCE\<rparr>)
          else if go_reason gate = ''domain_disagreement'' then
            prepare_approval E now RCA_REVIEW ''rca_review'' ''l2_sme'' (rca_review_proposal d m G_DOMAIN_DISAGREEMENT)
              (s\<lparr>i_gate := G_DOMAIN_DISAGREEMENT\<rparr>)
          else retE (ev E now ''rca_fused'' ''RCA accepted''
            (''Deterministic and model-assisted domains agree on '' @ domain_value (r_domain d) @ ''.'')
            ''workflow'' INFO []
            (s\<lparr>i_gate := G_NONE, i_approved_rca := Some d, i_new_evidence := False, i_stage := ACTION_RANKING\<rparr>)))
      | _ \<Rightarrow> retE (escalate E now ''RCA fusion inputs are incomplete'' s))"

subsection \<open>Action ranking and policy\<close>

definition default_required :: "incident \<Rightarrow> string list" where
  "default_required s = take 3 (evidence_refs s)"

definition action_alias :: "string \<Rightarrow> string" where
  "action_alias a =
     (if a = ''clean_boots_dispatch'' then ''clean_boots''
      else if a = ''create_mr'' then ''dirty_boots_mr''
      else if a = ''plant_remediation'' then ''plant_action'' else a)"

fun label_map :: "action_type \<Rightarrow> string" where
  "label_map REMOTE_REPROVISION = ''Remote reprovision''"
| "label_map REMOTE_REBOOT = ''Remote reboot''"
| "label_map SELF_HELP = ''Guided self-help''"
| "label_map CLEAN_BOOTS = ''Clean Boots dispatch''"
| "label_map DIRTY_BOOTS_MR = ''Dirty Boots / jTrack MR''"
| "label_map JOINT_DISPATCH = ''Joint Clean/Dirty dispatch''"
| "label_map PLANT_ACTION = ''Network / plant action''"
| "label_map MANUAL_REVIEW = ''L2 / SME review''"
| "label_map MONITOR = ''Monitor''"

definition list_or :: "json \<Rightarrow> string list \<Rightarrow> string list res" where
  "list_or v dflt = bindR (py_list (py_or v (jstrs dflt))) (\<lambda>xs. vstrs (JArr xs))"

definition candidate_from_fixture :: "dict \<Rightarrow> int \<Rightarrow> incident \<Rightarrow> candidate res" where
  "candidate_from_fixture raw rank s =
     bindR (dindex ''action_type'' raw) (\<lambda>raw_action.
     bindR (ActionType (JStr (action_alias (py_str raw_action)))) (\<lambda>act.
     bindR (py_float (dget_or ''expected_success'' (JFloat (1/2)) raw)) (\<lambda>succ.
     bindR (py_int (dget_or ''estimated_minutes'' (JInt 60) raw)) (\<lambda>minutes.
     bindR (list_or (dget ''required_evidence'' raw) (default_required s)) (\<lambda>required.
     bindR (list_or (dget ''success_test'' raw) [''NXT stability'', ''service test'']) (\<lambda>tests.
       check_candidate \<lparr>c_rank = rank, c_action = act,
         c_label = py_str (py_or (dget ''label'' raw) (JStr (label_map act))), c_success = succ,
         c_minutes = minutes, c_cost = py_str (dget_or ''cost_class'' (JStr ''medium'') raw),
         c_risk = py_str (dget_or ''risk_class'' (JStr ''medium'') raw), c_required = required,
         c_success_test = tests,
         c_failure_trigger = py_str (py_or (dget ''failure_trigger'' raw) (JStr ''Return to RCA with new evidence.'')),
         c_rationale = py_str (py_or (dget ''rationale'' raw)
            (JStr ''Fixture-backed deterministic action recommendation.''))\<rparr>))))))"

fun candidate_catalog :: "action_type \<Rightarrow> rat \<times> int \<times> string \<times> string" where
  "candidate_catalog REMOTE_REPROVISION = (82/100, 10, ''low'', ''low'')"
| "candidate_catalog REMOTE_REBOOT = (70/100, 8, ''low'', ''low'')"
| "candidate_catalog SELF_HELP = (65/100, 20, ''low'', ''low'')"
| "candidate_catalog CLEAN_BOOTS = (86/100, 360, ''medium'', ''medium'')"
| "candidate_catalog DIRTY_BOOTS_MR = (88/100, 720, ''high'', ''medium'')"
| "candidate_catalog JOINT_DISPATCH = (91/100, 480, ''high'', ''medium'')"
| "candidate_catalog PLANT_ACTION = (92/100, 240, ''high'', ''high'')"
| "candidate_catalog MANUAL_REVIEW = (50/100, 60, ''medium'', ''low'')"
| "candidate_catalog MONITOR = (40/100, 60, ''low'', ''low'')"

definition ranking_domain :: "incident \<Rightarrow> string" where
  "ranking_domain s =
     (case i_approved_rca s of
        Some r \<Rightarrow> domain_value (r_domain r)
      | None \<Rightarrow> (case i_det_rca s of Some r \<Rightarrow> domain_value (r_domain r) | None \<Rightarrow> ''unknown''))"

definition catalog_candidate :: "action_type \<Rightarrow> int \<Rightarrow> incident \<Rightarrow> candidate" where
  "catalog_candidate a rank s =
     (let (success, minutes, cost, risk) = candidate_catalog a in
      \<lparr>c_rank = rank, c_action = a, c_label = label_map a, c_success = success, c_minutes = minutes,
       c_cost = cost, c_risk = risk, c_required = default_required s,
       c_success_test = [''NXT stability'', ''service test'', ''customer confirmation if needed''],
       c_failure_trigger = ''Return to RCA with new evidence; do not repeat blindly.'',
       c_rationale = ''Recommended for approved domain '' @ ranking_domain s @ ''.''\<rparr>)"

text \<open>
  The ranked pair: \<open>Inl\<close> a reason to escalate, \<open>Inr\<close> the selected action, the next one
  and the note on repetition.
\<close>

definition ranked_by_cycle :: "json list \<Rightarrow> incident \<Rightarrow> (string + candidate \<times> candidate option \<times> json) res" where
  "ranked_by_cycle cycles s =
     bindR (as_dict (clamped cycles (last_cycle s))) (\<lambda>raw_plan.
     bindR (py_dict (py_or (dget ''best'' raw_plan) (JObj []))) (\<lambda>raw_best.
     if dget ''action_type'' raw_best = JStr ''escalate''
     then Inr (Inl ''Deterministic retry ceiling reached; human escalation required'')
     else bindR (candidate_from_fixture raw_best 1 s) (\<lambda>selected.
       bindR (case dget ''next_best'' raw_plan of
                JObj d \<Rightarrow> bindR (candidate_from_fixture d 2 s) (\<lambda>c. Inr (Some c))
              | _ \<Rightarrow> Inr None) (\<lambda>next_best.
         Inr (Inr (selected, next_best, dget ''do_not_repeat'' raw_plan))))))"

definition ranked_by_sequence :: "incident \<Rightarrow> (string + candidate \<times> candidate option \<times> json) res" where
  "ranked_by_sequence s =
     bindR (py_list (dget_or ''action_sequence'' (JArr []) (i_context s))) (\<lambda>items.
     bindR (mapR ActionType items) (\<lambda>sequence.
     let index = length (i_history s) in
     if length sequence \<le> index
     then Inr (Inl ''No unused action remains after the latest failed attempt'')
     else Inr (Inr (catalog_candidate (sequence ! index) 1 s,
            (if index + 1 < length sequence then Some (catalog_candidate (sequence ! (index + 1)) 2 s) else None),
            JStr ''Return to RCA with new evidence; do not repeat the same action blindly.''))))"

definition ranked_actions :: "incident \<Rightarrow> (string + candidate \<times> candidate option \<times> json) res" where
  "ranked_actions s =
     bindR (py_list (py_or (dget ''action_by_cycle'' (i_context s)) (JArr []))) (\<lambda>cycles.
       if cycles \<noteq> [] then ranked_by_cycle cycles s else ranked_by_sequence s)"

definition degraded_explanation :: "candidate \<Rightarrow> candidate option \<Rightarrow> string" where
  "degraded_explanation selected next_best =
     ''Use '' @ c_label selected @ '' first under the deterministic policy and scoring result.'' @
     (case next_best of
        None \<Rightarrow> []
      | Some c \<Rightarrow> '' If it fails or becomes ineligible, return to RCA before using '' @ c_label c @ ''.'')"

definition rank_selected ::
  "'s env \<Rightarrow> int \<Rightarrow> candidate \<Rightarrow> candidate option \<Rightarrow> json \<Rightarrow> incident \<Rightarrow> incident" where
  "rank_selected E now selected next_best do_not_repeat s =
     (let s = s\<lparr>i_candidates := selected # (case next_best of None \<Rightarrow> [] | Some c \<Rightarrow> [c]),
                i_selected := Some selected, i_next := next_best, i_stage := POLICY\<rparr>;
          explained = en_explain E s (map candidate_dict (i_candidates s));
          explanation = (case explained of Inr txt \<Rightarrow> txt | Inl _ \<Rightarrow> degraded_explanation selected next_best)
      in ev E now ''actions_ranked'' ''Best and next-best action ranked'' explanation
           ''Resolution selector'' INFO [(''do_not_repeat'', do_not_repeat)]
           (s\<lparr>i_error := (case explained of
              Inr _ \<Rightarrow> i_error s | Inl exc \<Rightarrow> Some (''Action explanation degraded: '' @ exn_text exc))\<rparr>))"

definition rank_actions :: "'s env \<Rightarrow> int \<Rightarrow> incident \<Rightarrow> incident res" where
  "rank_actions E now s =
     bindR (ranked_actions s) (\<lambda>ranked.
       case ranked of
         Inl reason \<Rightarrow> Inr (escalate E now reason s)
       | Inr (selected, next_best, do_not_repeat) \<Rightarrow> Inr (rank_selected E now selected next_best do_not_repeat s))"

definition policy :: "'s env \<Rightarrow> int \<Rightarrow> 's handler" where
  "policy E now s =
     (case i_selected s of
        None \<Rightarrow> retE (escalate E now ''No selected action exists'' s)
      | Some c \<Rightarrow>
          if i_evidence s = []
          then retE (escalate E now ''Policy blocked action because evidence is absent''
                 (s\<lparr>i_policy := Some \<lparr>p_verdict = PV_BLOCKED, p_reasons = [''No evidence available''],
                     p_version = ''demo-1.2'', p_kind = None, p_role = None\<rparr>\<rparr>))
          else
            (let (kind, role) = approval_for_action (c_action c);
                 p = \<lparr>p_verdict = PV_REQUIRES_APPROVAL,
                      p_reasons = [''Demo policy requires a named human for every side-effecting action''],
                      p_version = ''demo-1.2'', p_kind = Some kind, p_role = Some role\<rparr>
             in prepare_approval E now kind (action_value (c_action c)) role
                  [(''best'', JObj (candidate_dict c)),
                   (''next_best'', case i_next s of None \<Rightarrow> JNull | Some n \<Rightarrow> JObj (candidate_dict n)),
                   (''policy'', policy_dump p)]
                  (s\<lparr>i_policy := Some p\<rparr>)))"

subsection \<open>Resuming after a decision\<close>

definition result_of :: "incident \<Rightarrow> dict" where
  "result_of s = (case i_result s of None \<Rightarrow> [] | Some d \<Rightarrow> d)"

definition decided :: "json \<Rightarrow> bool" where
  "decided d \<longleftrightarrow> d = JStr ''approve'' \<or> d = JStr ''override''"

text \<open>A list or a dictionary cannot be looked up in a set.\<close>

fun hashable :: "json \<Rightarrow> bool" where
  "hashable (JArr _) = False"
| "hashable (JObj _) = False"
| "hashable _ = True"

definition unhashable :: exn where
  "unhashable = TypeError ''unhashable type''"

definition resume_rca :: "'s env \<Rightarrow> int \<Rightarrow> dict \<Rightarrow> incident \<Rightarrow> incident res" where
  "resume_rca E now result s =
     (let selected_domain = dget ''selected_domain'' result in
      bindR (case i_det_rca s of
               Some base \<Rightarrow>
                 if truthy selected_domain
                 then bindR (FaultDomain selected_domain) (\<lambda>chosen.
                   Inr (Some (base\<lparr>r_source := ''human'', r_domain := chosen,
                     r_rationale := py_str (py_or (dget ''reason'' result) (JStr ''Human RCA decision''))\<rparr>)))
                 else Inr (Some base)
             | None \<Rightarrow> Inr None) (\<lambda>approved.
        Inr (ev E now ''rca_human_decision'' ''Human RCA decision recorded''
          (''Reviewer selected '' @ (case approved of Some r \<Rightarrow> domain_value (r_domain r) | None \<Rightarrow> ''unknown'') @ ''.'')
          (py_str (py_or (dget ''actor'' result) (JStr ''reviewer''))) INFO []
          (s\<lparr>i_approved_rca := approved, i_pending := None, i_result := None, i_new_evidence := False,
             i_status := CS_OPEN, i_stage := ACTION_RANKING\<rparr>))))"

definition take_override :: "'s env \<Rightarrow> int \<Rightarrow> dict \<Rightarrow> action_type \<Rightarrow> candidate \<Rightarrow> incident \<Rightarrow> incident" where
  "take_override E now result override_type matching s =
     (let s = s\<lparr>i_selected := Some matching\<rparr>;
          original = py_str (py_or (dget ''original_action_type'' result) (JStr []))
      in if original \<noteq> [] \<and> original \<noteq> action_value override_type
         then ev E now ''action_override_recheck'' ''Alternative action selected''
           (''Reviewer selected '' @ action_value override_type @ ''; policy and approval '' @
            ''are being re-evaluated for the alternative action.'')
           (py_str (py_or (dget ''actor'' result) (JStr ''reviewer''))) INFO []
           (s\<lparr>i_pending := None, i_result := None, i_status := CS_OPEN, i_stage := POLICY\<rparr>)
         else s\<lparr>i_status := CS_OPEN, i_stage := EXECUTE\<rparr>)"

definition resume_override :: "'s env \<Rightarrow> int \<Rightarrow> dict \<Rightarrow> json \<Rightarrow> incident \<Rightarrow> incident" where
  "resume_override E now result option s =
     (case ActionType (JStr (py_str option)) of
        Inl _ \<Rightarrow> escalate E now (''Unknown override action: '' @ py_str option) s
      | Inr override_type \<Rightarrow>
          (case find (\<lambda>c. c_action c = override_type) (i_candidates s) of
             None \<Rightarrow> escalate E now (''Override action '' @ action_value override_type @
                  '' was not one of the reviewed candidates'') s
           | Some matching \<Rightarrow> take_override E now result override_type matching s))"

definition resume_approval :: "'s env \<Rightarrow> int \<Rightarrow> incident \<Rightarrow> incident res" where
  "resume_approval E now s =
     (let result = result_of s; decision = dget ''decision'' result in
      if decision = JStr ''request_more''
      then Inr (ev E now ''approval_more_evidence'' ''More evidence requested''
             (py_str (py_or (dget ''reason'' result) (JStr ''Reviewer requested more evidence.'')))
             (py_str (py_or (dget ''actor'' result) (JStr ''reviewer''))) INFO []
             (s\<lparr>i_pending := None, i_result := None, i_new_evidence := True, i_stage := EVIDENCE,
                i_status := CS_OPEN\<rparr>))
      else if decision = JStr ''reject''
      then Inr (escalate E now
             (py_str (py_or (dget ''reason'' result) (JStr ''Human reviewer rejected the proposal''))) s)
      else if \<not> hashable decision then Inl unhashable
      else if \<not> decided decision then Inr s
      else if dget ''kind'' result = JStr (kind_value RCA_REVIEW) then resume_rca E now result s
      else if decision = JStr ''override'' \<and> truthy (dget ''selected_option'' result)
      then Inr (resume_override E now result (dget ''selected_option'' result) s)
      else Inr (s\<lparr>i_status := CS_OPEN, i_stage := EXECUTE\<rparr>))"

subsection \<open>Execution, verification, review, closure\<close>

definition execute_arguments :: "incident \<Rightarrow> candidate \<Rightarrow> string \<Rightarrow> json \<Rightarrow> dict" where
  "execute_arguments s c key token =
     [(''incident_id'', JStr (i_id s)), (''scenario_name'', JStr (i_scenario s)),
      (''action_type'', JStr (action_value (c_action c))), (''attempt'', JInt (attempt_for s (c_action c))),
      (''idempotency_key'', JStr key), (''approval_token'', token),
      (''delimiter'', JStr (delimiter_or_default s)), (''owner'', JStr ''Plant/OSP'')]"

text \<open>\<open>f"{exc.code or 'MCP_ERROR'}: {exc}"\<close>\<close>

definition mcp_error_text :: "string \<Rightarrow> string option \<Rightarrow> string" where
  "mcp_error_text msg code =
     (case code of None \<Rightarrow> ''MCP_ERROR'' | Some c \<Rightarrow> if c = [] then ''MCP_ERROR'' else c) @ '': '' @ msg"

text \<open>The part after the tool's answer: count the attempt, log the result, move to verification.\<close>

definition action_result_of :: "'s env \<Rightarrow> candidate \<Rightarrow> string \<Rightarrow> dict \<Rightarrow> action_result res" where
  "action_result_of E c key result =
     bindR (vopt_str (dget ''work_order_id'' result)) (\<lambda>wo.
     bindR (vopt_str (dget ''mr_id'' result)) (\<lambda>mr.
       check_action_result
        \<lparr>x_action = c_action c,
         x_id = py_str (py_or (dget ''action_id'' result) (JStr (stable_id (en_D E) [key] ''act''))),
         x_outcome = py_str (dget_or ''outcome'' (JStr ''simulated'') result),
         x_summary = py_str (dget_or ''summary'' (JStr ''Simulated action completed'') result),
         x_key = key, x_replayed = truthy (dget_or ''replayed'' (JBool False) result),
         x_evidence = [], x_work_order = wo, x_mr = mr\<rparr>))"

definition log_result :: "'s env \<Rightarrow> action_result \<Rightarrow> dict \<Rightarrow> incident \<Rightarrow> incident" where
  "log_result E ar result s =
     (let s = add_action_result ar s;
          s = (if truthy (dget ''work_order_id'' result) then add_work_order (en_D E) result s else s)
      in if truthy (dget ''mr_id'' result) then add_mr_record (en_D E) result s else s)"

definition record_execution :: "'s env \<Rightarrow> int \<Rightarrow> candidate \<Rightarrow> string \<Rightarrow> dict \<Rightarrow> incident \<Rightarrow> incident res" where
  "record_execution E now c key result s =
     bindR (action_result_of E c key result) (\<lambda>ar.
     let s = log_result E ar result (increment_attempt (c_action c) s) in
     bindR (as_dict (dget_or ''field_findings'' (JObj []) result)) (\<lambda>findings.
     let s = s\<lparr>i_delimiter := (if truthy (dget ''delimiter'' findings)
           then Some (py_str (dget ''delimiter'' findings)) else i_delimiter s)\<rparr>
     in Inr (ev E now ''action_executed'' (c_label c @ '' executed'') (x_summary ar) ''MCP action tool'' INFO
          [(''idempotency_key'', JStr key), (''replayed'', JBool (x_replayed ar))]
          (s\<lparr>i_pending := None, i_result := None, i_stage := VERIFY\<rparr>))))"

text \<open>Only the client's own error is caught.\<close>

fun client_error :: "exn \<Rightarrow> string option" where
  "client_error (MCPClientError msg code st) = Some (mcp_error_text msg code)"
| "client_error e = None"

text \<open>The external call, its record in the idempotency table, and the record in the case.\<close>

definition perform :: "'s env \<Rightarrow> int \<Rightarrow> candidate \<Rightarrow> string \<Rightarrow> string \<Rightarrow> string \<Rightarrow> json \<Rightarrow> 's handler" where
  "perform E now c approval_id key tool token s w =
     (case call_tool E now tool (execute_arguments s c key token) w of
        (Inl e, w') \<Rightarrow>
          (case client_error e of
             Some msg \<Rightarrow> (Inr (escalate E now msg (s\<lparr>i_error := Some msg\<rparr>)), w')
           | None \<Rightarrow> (Inl e, w'))
      | (Inr result, w') \<Rightarrow>
          (record_execution E now c key result s,
           w'\<lparr>w_repo := save_idempotent_result now key (i_id s) (action_value (c_action c)) (Some approval_id)
             result (w_repo w')\<rparr>))"

definition execute :: "'s env \<Rightarrow> int \<Rightarrow> 's handler" where
  "execute E now s =
     (let approval = result_of s; decision = dget ''decision'' approval in
      case i_selected s of
        None \<Rightarrow> retE (escalate E now ''Execution reached without an action'' s)
      | Some c \<Rightarrow>
          if \<not> hashable decision then liftE (Inl unhashable)
          else if \<not> decided decision
          then retE (escalate E now ''Execution reached without an approved decision'' s)
          else
            (let approval_id = py_str (dget ''approval_id'' approval);
                 key = py_str (dget ''idempotency_key'' approval)
             in bindE (getE (\<lambda>w. get_idempotent_result (w_repo w) key)) (\<lambda>existing.
                case existing of
                  Some r \<Rightarrow> liftE (record_execution E now c key (dset ''replayed'' (JBool True) r) s)
                | None \<Rightarrow>
                    bindE (liftE (tool_for_action (c_action c))) (\<lambda>tool.
                    bindE (liftE (dindex ''approval_token'' approval)) (\<lambda>token.
                      perform E now c approval_id key tool token s)))))"

definition occurrences :: "incident \<Rightarrow> action_type \<Rightarrow> int" where
  "occurrences s a = int (length (filter (\<lambda>x. x_action x = a) (i_history s)))"

definition last_action :: "incident \<Rightarrow> action_result option" where
  "last_action s = (if i_history s = [] then None else Some (last (i_history s)))"

text \<open>The verdict of the verification: passed, the summary and the event's metadata.\<close>

definition verification_of :: "'s env \<Rightarrow> action_result \<Rightarrow> incident \<Rightarrow> (bool \<times> string \<times> dict) res" where
  "verification_of E lst s =
     (let verification_map = dget ''verification_by_action'' (i_context s) in
      if truthy verification_map then
        bindR (as_dict verification_map) (\<lambda>m.
        bindR (py_list (dget_or (action_value (x_action lst)) (JArr []) m)) (\<lambda>outcomes.
        bindR (as_dict (if outcomes \<noteq> [] then clamped outcomes (occurrences s (x_action lst) - 1)
               else JObj [(''passed'', JBool True), (''summary'', JStr ''Simulated post-action validation passed.'')])) (\<lambda>raw.
          Inr (truthy (dget_or ''passed'' (JBool False) raw),
               py_str (py_or (dget ''summary'' raw) (JStr ''Post-action validation completed.'')), raw))))
      else
        bindR (py_list (dget_or ''verification_outcomes'' (JArr []) (i_context s))) (\<lambda>outcomes.
        let passed = (if outcomes \<noteq> [] then truthy (clamped outcomes (int (length (i_history s)) - 1)) else True) in
          Inr (passed,
               (if passed then ''Post-fix NXT and service tests remained stable for '' @
                   nat_str (st_stability_minutes (en_settings E)) @ '' minutes.''
                else ''The original anomaly or customer impact remains after the action.''),
               [(''passed'', JBool passed)])))"

definition settle :: "'s env \<Rightarrow> int \<Rightarrow> bool \<times> string \<times> dict \<Rightarrow> incident \<Rightarrow> incident" where
  "settle E now v s =
     (let (passed, summ, meta) = v;
          s = s\<lparr>i_verified := Some passed, i_verify_summary := Some summ\<rparr> in
      if passed
      then ev E now ''verification_passed'' ''Restoration verified'' summ ''workflow'' INFO meta
             (s\<lparr>i_stage := RECONCILE\<rparr>)
      else ev E now ''verification_failed'' ''Restoration not verified'' summ ''workflow'' WARNING meta
             (s\<lparr>i_stage := FAILURE_REVIEW\<rparr>))"

definition verify :: "'s env \<Rightarrow> int \<Rightarrow> incident \<Rightarrow> incident res" where
  "verify E now s =
     (case last_action s of
        None \<Rightarrow> Inr (escalate E now ''Verification reached without an action result'' s)
      | Some lst \<Rightarrow> bindR (verification_of E lst s) (\<lambda>v. Inr (settle E now v s)))"

text \<open>The plant crew's case goes back to the premise crew when the fixture, or its old form, says so.\<close>

definition handed_back :: "incident \<Rightarrow> bool res" where
  "handed_back s =
     (case last_action s of
        None \<Rightarrow> Inr False
      | Some lst \<Rightarrow>
          if x_action lst \<noteq> DIRTY_BOOTS_MR then Inr False
          else
            (let verification_map = dget_or ''verification_by_action'' (JObj []) (i_context s) in
             bindR (if truthy verification_map
                    then bindR (as_dict verification_map) (\<lambda>m. py_list (dget_or ''dirty_boots_mr'' (JArr []) m))
                    else Inr []) (\<lambda>outcomes.
             bindR (as_dict (if outcomes \<noteq> [] then clamped outcomes (occurrences s DIRTY_BOOTS_MR - 1)
                    else JObj [])) (\<lambda>raw.
               Inr (truthy (dget ''reverse_handover'' raw) \<or>
                 (i_scenario s = ''pon_reverse_handover'' \<and> length (i_history s) = 1))))))"

definition reverse_handover :: "'s env \<Rightarrow> int \<Rightarrow> incident \<Rightarrow> incident res" where
  "reverse_handover E now s =
     bindR (handed_back s) (\<lambda>back.
       Inr (if back
            then ev E now ''reverse_handover'' ''Dirty Boots returned the case to Clean Boots''
              (''The plant domain is restored, but customer service remains degraded. '' @
               ''The same incident and SLA clock continue into a Clean Boots reassessment.'')
              ''workflow'' WARNING [] (s\<lparr>i_owner := ''Clean Boots''\<rparr>)
            else s))"

definition return_to_rca :: "'s env \<Rightarrow> int \<Rightarrow> incident \<Rightarrow> incident" where
  "return_to_rca E now s =
     (let item =
        \<lparr>e_id = stable_id (en_D E) [i_id s, ''failed_action'', nat_str (length (i_history s))] ''evi'',
         e_kind = ''failed_action'', e_source = ''post-action verification'', e_subject = i_id s,
         e_observed_at = utc now,
         e_value = JObj [(''action'', JStr (case last_action s of
            Some x \<Rightarrow> action_value (x_action x) | None \<Rightarrow> ''unknown''))],
         e_quality = 1,
         e_summary = ''The previous action did not produce stable restoration; RCA must be repeated.''\<rparr>
      in ev E now ''return_to_rca'' ''Returned to RCA''
           ''The failed attempt was recorded and new evidence was added before selecting another action.''
           ''workflow'' INFO [] ((add_evidence item s)\<lparr>i_new_evidence := True, i_stage := EVIDENCE\<rparr>))"

definition failure_review :: "'s env \<Rightarrow> int \<Rightarrow> incident \<Rightarrow> incident res" where
  "failure_review E now s =
     bindR (reverse_handover E now s) (\<lambda>s.
     bindR (py_list (py_or (dget ''action_by_cycle'' (i_context s))
              (py_or (dget ''action_sequence'' (i_context s)) (JArr [])))) (\<lambda>action_plans.
     if st_max_remote (en_settings E) \<le> i_remote s
     then Inr (escalate E now ''Remote attempt budget exhausted'' s)
     else if st_max_field (en_settings E) \<le> i_field s
     then Inr (escalate E now ''Field visit budget exhausted'' s)
     else if st_max_mr (en_settings E) \<le> i_mr s
     then Inr (escalate E now ''MR attempt budget exhausted'' s)
     else if length action_plans \<le> length (i_history s)
     then Inr (escalate E now ''All configured scenario actions failed'' s)
     else Inr (return_to_rca E now s)))"

definition reconcile :: "'s env \<Rightarrow> int \<Rightarrow> incident \<Rightarrow> incident" where
  "reconcile E now s =
     ev E now ''linked_records_closed'' ''Incident closed''
       ''NXT alarm, incident, work orders and jTrack MR were reconciled after stable validation.''
       ''workflow'' INFO [] (s\<lparr>i_stage := CLOSED, i_status := CS_CLOSED, i_owner := ''Closed''\<rparr>)"

subsection \<open>The step and the loop\<close>

fun handler_for :: "'s env \<Rightarrow> int \<Rightarrow> stage \<Rightarrow> 's handler option" where
  "handler_for E now NEW = Some (\<lambda>s. retE (receive E now s))"
| "handler_for E now VALIDATE = Some (\<lambda>s. retE (validate E now s))"
| "handler_for E now CORRELATE = Some (correlate E now)"
| "handler_for E now EVIDENCE = Some (assemble_evidence E now)"
| "handler_for E now DETERMINISTIC_RCA = Some (\<lambda>s. liftE (deterministic_rca E now s))"
| "handler_for E now LLM_RCA = Some (\<lambda>s. retE (llm_rca E now s))"
| "handler_for E now FUSION = Some (fusion E now)"
| "handler_for E now ACTION_RANKING = Some (\<lambda>s. liftE (rank_actions E now s))"
| "handler_for E now POLICY = Some (policy E now)"
| "handler_for E now WAITING_APPROVAL = Some (\<lambda>s. liftE (resume_approval E now s))"
| "handler_for E now EXECUTE = Some (execute E now)"
| "handler_for E now VERIFY = Some (\<lambda>s. liftE (verify E now s))"
| "handler_for E now FAILURE_REVIEW = Some (\<lambda>s. liftE (failure_review E now s))"
| "handler_for E now RECONCILE = Some (\<lambda>s. retE (reconcile E now s))"
| "handler_for E now _ = None"

definition terminal :: "stage \<Rightarrow> bool" where
  "terminal st \<longleftrightarrow> st \<in> {CLOSED, ESCALATED, QUARANTINED}"

definition paused :: "incident \<Rightarrow> bool" where
  "paused s \<longleftrightarrow> i_stage s = WAITING_APPROVAL \<and> result_of s = []"

definition emit_telemetry :: "'s env \<Rightarrow> incident \<Rightarrow> ('s world, unit) eff" where
  "emit_telemetry E s =
     (case en_sink E of
        None \<Rightarrow> retE ()
      | Some sink \<Rightarrow>
          (case sink s of Inr _ \<Rightarrow> retE () | Inl _ \<Rightarrow> updE (\<lambda>w. w\<lparr>w_sink_failures := w_sink_failures w + 1\<rparr>)))"

definition store_incident :: "int \<Rightarrow> incident \<Rightarrow> ('s world, incident) eff" where
  "store_incident now s w =
     (let (s', rp) = save_incident now s (w_repo w) in (Inr s', w\<lparr>w_repo := rp\<rparr>))"

definition run_one :: "'s env \<Rightarrow> int \<Rightarrow> 's handler" where
  "run_one E now s =
     (if terminal (i_stage s) then retE s
      else if paused s then retE s
      else if st_max_steps (en_settings E) \<le> i_steps s
      then retE (escalate E now ''Total workflow step budget exhausted'' s)
      else case handler_for E now (i_stage s) of
        None \<Rightarrow> retE (escalate E now (''No handler for stage '' @ stage_value (i_stage s)) s)
      | Some h \<Rightarrow>
          bindE (h (s\<lparr>i_steps := i_steps s + 1, i_updated := utc now\<rparr>)) (\<lambda>s'.
          bindE (store_incident now s') (\<lambda>s''.
          bindE (emit_telemetry E s'') (\<lambda>_. retE s''))))"

definition stops :: "incident \<Rightarrow> incident \<Rightarrow> bool" where
  "stops s0 s \<longleftrightarrow> terminal (i_stage s) \<or> paused s \<or>
     (i_stage s = i_stage s0 \<and> i_stage s = WAITING_APPROVAL)"

text \<open>
  The loop, with a bound on its rounds: \<open>None\<close> is a loop that has not ended within it.
  Round \<open>k\<close> reads the clock \<open>clk k\<close>.
\<close>

fun run_loop :: "nat \<Rightarrow> 's env \<Rightarrow> (nat \<Rightarrow> int) \<Rightarrow> incident \<Rightarrow> 's world \<Rightarrow> (incident res \<times> 's world) option" where
  "run_loop 0 E clk s w = None"
| "run_loop (Suc n) E clk s w =
     (case run_one E (clk 0) s w of
        (Inl e, w') \<Rightarrow> Some (Inl e, w')
      | (Inr s', w') \<Rightarrow> if stops s s' then Some (Inr s', w') else run_loop n E (\<lambda>k. clk (Suc k)) s' w')"

definition run_until_pause :: "'s env \<Rightarrow> (nat \<Rightarrow> int) \<Rightarrow> 's handler" where
  "run_until_pause E clk s w =
     (case run_loop (st_max_steps (en_settings E) + 2) E clk s w of
        Some r \<Rightarrow> r
      | None \<Rightarrow> (Inl (RuntimeError ''loop bound''), w))"

text \<open>The token of a decided approval, good for thirty minutes.\<close>

definition build_approval_token :: "(string \<Rightarrow> string) \<Rightarrow> string \<Rightarrow> int \<Rightarrow> approval \<Rightarrow> string" where
  "build_approval_token D secret now a =
     create_approval_token D
       [(''approval_id'', JStr (a_id a)), (''incident_id'', JStr (a_incident a)),
        (''action_type'', JStr (a_action a)), (''idempotency_key'', JStr (a_key a)),
        (''status'', JStr ''approved''),
        (''exp'', JFloat (of_int (now + 1800000000) / 1000000))] secret"

end
