(* ===== verification/EngineFacts.thy ===== *)
theory EngineFacts
  imports Engine
begin

text \<open>
  Facts of the engine's handlers: what each leaves alone, the stage it moves to, and the
  invariant every handler keeps. The per-handler lemmas are collected in \<open>handler_facts\<close>
  and combined over the dispatch.
\<close>

named_theorems handler_facts \<open>the effect of one handler\<close>

subsection \<open>Events and escalation\<close>

lemma ev_fields [simp]:
  "i_id (ev E now a b c d e f s) = i_id s"
  "i_stage (ev E now a b c d e f s) = i_stage s"
  "i_status (ev E now a b c d e f s) = i_status s"
  "i_evidence (ev E now a b c d e f s) = i_evidence s"
  "i_history (ev E now a b c d e f s) = i_history s"
  "i_steps (ev E now a b c d e f s) = i_steps s"
  "i_cycles (ev E now a b c d e f s) = i_cycles s"
  "i_remote (ev E now a b c d e f s) = i_remote s"
  "i_self_help (ev E now a b c d e f s) = i_self_help s"
  "i_field (ev E now a b c d e f s) = i_field s"
  "i_mr (ev E now a b c d e f s) = i_mr s"
  "i_result (ev E now a b c d e f s) = i_result s"
  "i_pending (ev E now a b c d e f s) = i_pending s"
  "i_selected (ev E now a b c d e f s) = i_selected s"
  "i_candidates (ev E now a b c d e f s) = i_candidates s"
  "i_verified (ev E now a b c d e f s) = i_verified s"
  "i_context (ev E now a b c d e f s) = i_context s"
  "i_owner (ev E now a b c d e f s) = i_owner s"
  "i_error (ev E now a b c d e f s) = i_error s"
  "i_gate (ev E now a b c d e f s) = i_gate s"
  "i_det_rca (ev E now a b c d e f s) = i_det_rca s"
  "i_llm_rca (ev E now a b c d e f s) = i_llm_rca s"
  "i_approved_rca (ev E now a b c d e f s) = i_approved_rca s"
  "i_created (ev E now a b c d e f s) = i_created s"
  "i_sla_deadline (ev E now a b c d e f s) = i_sla_deadline s"
  "i_sla_mode (ev E now a b c d e f s) = i_sla_mode s"
  "i_parent_deadline (ev E now a b c d e f s) = i_parent_deadline s"
  "i_parent (ev E now a b c d e f s) = i_parent s"
  "i_scenario (ev E now a b c d e f s) = i_scenario s"
  "i_technology (ev E now a b c d e f s) = i_technology s"
  "i_work_orders (ev E now a b c d e f s) = i_work_orders s"
  "i_mr_records (ev E now a b c d e f s) = i_mr_records s"
  by (simp_all add: ev_def)

lemma unique_logs_ev [simp, intro]: "unique_logs (en_D E) s \<Longrightarrow> unique_logs (en_D E) (ev E now a b c d e f s)"
  by (simp add: ev_def unique_logs_ops)

text \<open>Field updates outside the logs keep the logs unique.\<close>

lemma unique_logs_cong:
  "i_evidence s' = i_evidence s \<Longrightarrow> i_history s' = i_history s \<Longrightarrow> i_timeline s' = i_timeline s \<Longrightarrow>
   i_work_orders s' = i_work_orders s \<Longrightarrow> i_mr_records s' = i_mr_records s \<Longrightarrow>
   unique_logs D s' = unique_logs D s"
  by (simp add: unique_logs_def)

subsection \<open>The invariant of a case\<close>

text \<open>The identity of a case: what no step may change.\<close>

definition same_case :: "incident \<Rightarrow> incident \<Rightarrow> bool" where
  "same_case s s' \<longleftrightarrow> i_id s' = i_id s \<and> i_scenario s' = i_scenario s \<and> i_technology s' = i_technology s \<and>
     i_created s' = i_created s \<and> i_sla_deadline s' = i_sla_deadline s \<and> i_context s' = i_context s \<and>
     i_steps s' = i_steps s"

definition status_of_stage :: "incident \<Rightarrow> bool" where
  "status_of_stage s \<longleftrightarrow> i_status s =
     (case i_stage s of
        CLOSED \<Rightarrow> CS_CLOSED | ESCALATED \<Rightarrow> CS_ESCALATED | QUARANTINED \<Rightarrow> CS_QUARANTINED
      | WAITING_APPROVAL \<Rightarrow> (if result_of s = [] then CS_WAITING else CS_OPEN)
      | _ \<Rightarrow> CS_OPEN)"

definition attempts_below :: "settings \<Rightarrow> incident \<Rightarrow> bool" where
  "attempts_below S s \<longleftrightarrow> i_remote s < st_max_remote S \<and> i_field s < st_max_field S \<and> i_mr s < st_max_mr S"

definition attempts_within :: "settings \<Rightarrow> incident \<Rightarrow> bool" where
  "attempts_within S s \<longleftrightarrow> i_remote s \<le> st_max_remote S \<and> i_field s \<le> st_max_field S \<and> i_mr s \<le> st_max_mr S"

definition after_action :: "stage \<Rightarrow> bool" where
  "after_action st \<longleftrightarrow> st \<in> {VERIFY, FAILURE_REVIEW, RECONCILE, CLOSED, ESCALATED}"

definition budget_ok :: "settings \<Rightarrow> incident \<Rightarrow> bool" where
  "budget_ok S s \<longleftrightarrow> attempts_within S s \<and> (\<not> after_action (i_stage s) \<longrightarrow> attempts_below S s) \<and>
     i_cycles s \<le> st_max_cycles S + (if i_stage s = ESCALATED then 1 else 0)"

definition stage_ok :: "incident \<Rightarrow> bool" where
  "stage_ok s \<longleftrightarrow>
     (i_stage s \<in> {RECONCILE, CLOSED} \<longrightarrow> i_verified s = Some True) \<and>
     (i_stage s = EXECUTE \<longrightarrow> decided (dget ''decision'' (result_of s))) \<and>
     (i_stage s \<in> {LLM_RCA, FUSION} \<longrightarrow> i_det_rca s \<noteq> None) \<and>
     (result_of s \<noteq> [] \<longrightarrow> i_stage s \<in> {WAITING_APPROVAL, EXECUTE, ESCALATED})"

definition case_ok :: "settings \<Rightarrow> (string \<Rightarrow> string) \<Rightarrow> incident \<Rightarrow> bool" where
  "case_ok S D s \<longleftrightarrow> unique_logs D s \<and> status_of_stage s \<and> budget_ok S s \<and> stage_ok s"

lemmas case_defs = case_ok_def status_of_stage_def budget_ok_def stage_ok_def attempts_below_def
  attempts_within_def after_action_def result_of_def

lemma attempts_below_within: "attempts_below S s \<Longrightarrow> attempts_within S s"
  by (simp add: attempts_below_def attempts_within_def)

lemma same_case_refl [simp]: "same_case s s"
  by (simp add: same_case_def)

lemma same_case_trans: "same_case s t \<Longrightarrow> same_case t u \<Longrightarrow> same_case s u"
  by (simp add: same_case_def)

lemma escalate_facts [simp]:
  "same_case s (escalate E now r s)" "i_stage (escalate E now r s) = ESCALATED"
  "i_status (escalate E now r s) = CS_ESCALATED" "i_error (escalate E now r s) = Some r"
  "i_history (escalate E now r s) = i_history s" "i_result (escalate E now r s) = i_result s"
  "i_cycles (escalate E now r s) = i_cycles s" "i_remote (escalate E now r s) = i_remote s"
  "i_field (escalate E now r s) = i_field s" "i_mr (escalate E now r s) = i_mr s"
  "i_steps (escalate E now r s) = i_steps s" "i_id (escalate E now r s) = i_id s"
  "i_scenario (escalate E now r s) = i_scenario s" "i_technology (escalate E now r s) = i_technology s"
  "i_created (escalate E now r s) = i_created s" "i_sla_deadline (escalate E now r s) = i_sla_deadline s"
  "i_context (escalate E now r s) = i_context s" "i_selected (escalate E now r s) = i_selected s"
  "i_verified (escalate E now r s) = i_verified s"
  by (simp_all add: escalate_def same_case_def)

lemma unique_logs_update [simp]:
  "unique_logs D (s\<lparr>i_stage := x\<rparr>) = unique_logs D s"
  "unique_logs D (s\<lparr>i_status := x1\<rparr>) = unique_logs D s"
  "unique_logs D (s\<lparr>i_owner := x2\<rparr>) = unique_logs D s"
  "unique_logs D (s\<lparr>i_gate := x3\<rparr>) = unique_logs D s"
  "unique_logs D (s\<lparr>i_error := x4\<rparr>) = unique_logs D s"
  "unique_logs D (s\<lparr>i_topology := x5\<rparr>) = unique_logs D s"
  "unique_logs D (s\<lparr>i_parent := x6\<rparr>) = unique_logs D s"
  "unique_logs D (s\<lparr>i_parent_deadline := x7\<rparr>) = unique_logs D s"
  "unique_logs D (s\<lparr>i_sla_mode := x8\<rparr>) = unique_logs D s"
  "unique_logs D (s\<lparr>i_det_rca := x9\<rparr>) = unique_logs D s"
  "unique_logs D (s\<lparr>i_llm_rca := x9\<rparr>) = unique_logs D s"
  "unique_logs D (s\<lparr>i_approved_rca := x9\<rparr>) = unique_logs D s"
  "unique_logs D (s\<lparr>i_domain_det := x10\<rparr>) = unique_logs D s"
  "unique_logs D (s\<lparr>i_domain_llm := x10\<rparr>) = unique_logs D s"
  "unique_logs D (s\<lparr>i_agreement := x11\<rparr>) = unique_logs D s"
  "unique_logs D (s\<lparr>i_candidates := x12\<rparr>) = unique_logs D s"
  "unique_logs D (s\<lparr>i_selected := x13\<rparr>) = unique_logs D s"
  "unique_logs D (s\<lparr>i_next := x13\<rparr>) = unique_logs D s"
  "unique_logs D (s\<lparr>i_policy := x14\<rparr>) = unique_logs D s"
  "unique_logs D (s\<lparr>i_pending := x15\<rparr>) = unique_logs D s"
  "unique_logs D (s\<lparr>i_result := x16\<rparr>) = unique_logs D s"
  "unique_logs D (s\<lparr>i_remote := n\<rparr>) = unique_logs D s"
  "unique_logs D (s\<lparr>i_self_help := n\<rparr>) = unique_logs D s"
  "unique_logs D (s\<lparr>i_field := n\<rparr>) = unique_logs D s"
  "unique_logs D (s\<lparr>i_mr := n\<rparr>) = unique_logs D s"
  "unique_logs D (s\<lparr>i_cycles := n\<rparr>) = unique_logs D s"
  "unique_logs D (s\<lparr>i_steps := n\<rparr>) = unique_logs D s"
  "unique_logs D (s\<lparr>i_updated := t\<rparr>) = unique_logs D s"
  "unique_logs D (s\<lparr>i_new_evidence := b\<rparr>) = unique_logs D s"
  "unique_logs D (s\<lparr>i_verified := v\<rparr>) = unique_logs D s"
  "unique_logs D (s\<lparr>i_verify_summary := u\<rparr>) = unique_logs D s"
  "unique_logs D (s\<lparr>i_delimiter := u\<rparr>) = unique_logs D s"
  by (rule unique_logs_cong; simp)+

lemma unique_logs_escalate [simp, intro]: "unique_logs (en_D E) s \<Longrightarrow> unique_logs (en_D E) (escalate E now r s)"
  by (simp add: escalate_def)

text \<open>Escalating keeps the invariant, from any stage that has not executed past its budget.\<close>

lemma case_ok_escalate:
  assumes "unique_logs (en_D E) s" "attempts_within S s" "i_cycles s \<le> st_max_cycles S + 1"
  shows "case_ok S (en_D E) (escalate E now r s)"
  using assms by (simp add: case_defs)

subsection \<open>Approval requests\<close>

lemma store_approval_eq:
  "store_approval a w = (fst (save_approval a (w_repo w)), w\<lparr>w_repo := snd (save_approval a (w_repo w))\<rparr>)"
  by (simp add: store_approval_def split: prod.split)

lemma await_approval_fields [simp]:
  "same_case s (await_approval E now kind role aid s)"
  "i_stage (await_approval E now kind role aid s) = WAITING_APPROVAL"
  "i_status (await_approval E now kind role aid s) = CS_WAITING"
  "i_result (await_approval E now kind role aid s) = None"
  "i_pending (await_approval E now kind role aid s) = Some aid"
  "i_history (await_approval E now kind role aid s) = i_history s"
  "i_cycles (await_approval E now kind role aid s) = i_cycles s"
  "i_remote (await_approval E now kind role aid s) = i_remote s"
  "i_field (await_approval E now kind role aid s) = i_field s"
  "i_mr (await_approval E now kind role aid s) = i_mr s"
  "i_verified (await_approval E now kind role aid s) = i_verified s"
  by (simp_all add: await_approval_def same_case_def)

lemma unique_logs_await [simp, intro]:
  "unique_logs (en_D E) s \<Longrightarrow> unique_logs (en_D E) (await_approval E now kind role aid s)"
  by (simp add: await_approval_def)

lemma prepare_approval_Inr:
  assumes "prepare_approval E now kind action role proposal s w = (Inr s', w')"
  obtains a where "s' = await_approval E now kind role (a_id a) s"
    "save_approval a (w_repo w) = (Inr (), w_repo w')" "w_server w' = w_server w"
proof -
  obtain attempt del where sl: "approval_slot s action = (attempt, del)" by fastforce
  obtain a where "bindE (store_approval a) (\<lambda>_. retE (await_approval E now kind role (a_id a) s)) w = (Inr s', w')"
    using assms by (auto simp: prepare_approval_def sl Let_def eff_simps)
  then have "fst (save_approval a (w_repo w)) = Inr ()" "w' = w\<lparr>w_repo := snd (save_approval a (w_repo w))\<rparr>"
    "s' = await_approval E now kind role (a_id a) s"
    by (auto simp: bindE_eq_Inr store_approval_eq)
  then show thesis by (intro that [of a]) (auto intro: prod_eqI)
qed

lemma prepare_approval_server:
  "w_server (snd (prepare_approval E now kind action role proposal s w)) = w_server w"
  by (simp add: prepare_approval_def snd_bindE store_approval_eq Let_def split: prod.split sum.split)

lemma case_ok_await:
  assumes "unique_logs (en_D E) s" "attempts_below S s" "i_cycles s \<le> st_max_cycles S"
  shows "case_ok S (en_D E) (await_approval E now kind role aid s)"
  using assms by (simp add: case_defs)

subsection \<open>The stage machine\<close>

text \<open>The stages each handler may move to: the process the engine implements.\<close>

fun next_stages :: "stage \<Rightarrow> stage list" where
  "next_stages NEW = [VALIDATE]"
| "next_stages VALIDATE = [CORRELATE, QUARANTINED]"
| "next_stages CORRELATE = [EVIDENCE]"
| "next_stages EVIDENCE = [DETERMINISTIC_RCA, ESCALATED]"
| "next_stages DETERMINISTIC_RCA = [LLM_RCA]"
| "next_stages LLM_RCA = [FUSION]"
| "next_stages FUSION = [WAITING_APPROVAL, ACTION_RANKING, ESCALATED]"
| "next_stages ACTION_RANKING = [POLICY, ESCALATED]"
| "next_stages POLICY = [WAITING_APPROVAL, ESCALATED]"
| "next_stages WAITING_APPROVAL = [EVIDENCE, ACTION_RANKING, POLICY, EXECUTE, ESCALATED, WAITING_APPROVAL]"
| "next_stages EXECUTE = [VERIFY, ESCALATED]"
| "next_stages VERIFY = [RECONCILE, FAILURE_REVIEW, ESCALATED]"
| "next_stages FAILURE_REVIEW = [EVIDENCE, ESCALATED]"
| "next_stages RECONCILE = [CLOSED]"
| "next_stages _ = []"

definition step_ok :: "'s env \<Rightarrow> incident \<Rightarrow> incident \<Rightarrow> bool" where
  "step_ok E s s' \<longleftrightarrow> same_case s s' \<and> i_stage s' \<in> set (next_stages (i_stage s)) \<and>
     (case_ok (en_settings E) (en_D E) s \<longrightarrow> case_ok (en_settings E) (en_D E) s')"

lemma step_ok_escalate_of:
  assumes "ESCALATED \<in> set (next_stages (i_stage s))" "same_case s t"
    and "unique_logs (en_D E) s \<Longrightarrow> unique_logs (en_D E) t"
    and "i_remote t = i_remote s" "i_field t = i_field s" "i_mr t = i_mr s" "i_cycles t = i_cycles s"
  shows "step_ok E s (escalate E now r t)"
proof -
  have "same_case s (escalate E now r t)" using assms(2) by (rule same_case_trans) simp
  moreover have "case_ok (en_settings E) (en_D E) (escalate E now r t)" if "case_ok (en_settings E) (en_D E) s"
    using that assms(3) unfolding case_ok_def budget_ok_def
    by (intro case_ok_escalate [unfolded case_ok_def budget_ok_def])
      (auto simp: attempts_within_def assms(4-7) split: if_splits)
  ultimately show ?thesis using assms(1) by (simp add: step_ok_def)
qed

lemma step_ok_escalate:
  assumes "ESCALATED \<in> set (next_stages (i_stage s))"
  shows "step_ok E s (escalate E now r s)"
  using assms by (intro step_ok_escalate_of) simp_all

text \<open>A decision taken back into the process, its result used up.\<close>

lemma step_ok_resume:
  assumes "i_stage s = WAITING_APPROVAL" "same_case s s'" "i_stage s' \<in> {EVIDENCE, ACTION_RANKING, POLICY}"
    and "unique_logs (en_D E) s \<Longrightarrow> unique_logs (en_D E) s'"
    and "i_remote s' = i_remote s" "i_field s' = i_field s" "i_mr s' = i_mr s" "i_cycles s' = i_cycles s"
    and "i_result s' = None" "i_status s' = CS_OPEN"
  shows "step_ok E s s'"
  using assms(1-4) unfolding step_ok_def case_defs assms(5-10)
  by (elim insertE emptyE; simp)

text \<open>A handler that only moves on, within the diagnosis and planning stages.\<close>

lemma step_ok_move:
  assumes "same_case s s'" "i_stage s' \<in> set (next_stages (i_stage s))"
    and "unique_logs (en_D E) s \<Longrightarrow> unique_logs (en_D E) s'"
    and "i_remote s' = i_remote s" "i_field s' = i_field s" "i_mr s' = i_mr s" "i_cycles s' = i_cycles s"
    and "i_result s' = i_result s" "i_status s' = i_status s"
    and "i_stage s' \<in> {VALIDATE, CORRELATE, EVIDENCE, DETERMINISTIC_RCA, LLM_RCA, FUSION, ACTION_RANKING, POLICY}"
    and "i_stage s' \<in> {LLM_RCA, FUSION} \<Longrightarrow> i_det_rca s' \<noteq> None"
    and "i_stage s \<in> {NEW, VALIDATE, CORRELATE, DETERMINISTIC_RCA, LLM_RCA, FUSION, ACTION_RANKING}"
  shows "step_ok E s s'"
  using assms(1-3,10-12) unfolding step_ok_def case_defs assms(4-9)
  by (elim insertE emptyE; simp)

lemma receive_ok [handler_facts]: "i_stage s = NEW \<Longrightarrow> step_ok E s (receive E now s)"
  by (auto simp: step_ok_def receive_def same_case_def case_defs)

lemma validate_ok [handler_facts]: "i_stage s = VALIDATE \<Longrightarrow> step_ok E s (validate E now s)"
  by (auto simp: step_ok_def validate_def same_case_def case_defs)

lemma correlate_ok [handler_facts]:
  assumes "i_stage s = CORRELATE" "correlate E now s w = (Inr s', w')"
  shows "step_ok E s s'"
proof -
  obtain history top t detail where t: "associate history (s\<lparr>i_topology := top\<rparr>) = Inr (t, detail)"
    and s': "s' = ev E now ''correlation_complete'' ''Correlation complete'' detail ''workflow'' INFO
         [(''parent_incident_id'', jopt (i_parent t))] (t\<lparr>i_stage := EVIDENCE\<rparr>)"
    using assms(2) by (auto simp: correlate_def eff_simps)
  obtain par mode dl owner where
    "t = s\<lparr>i_topology := top, i_parent := par, i_sla_mode := mode, i_parent_deadline := dl, i_owner := owner\<rparr>"
  proof (cases "truthy (dget ''common_cause'' history)")
    case True
    then show thesis using t that by (auto simp: associate_def Let_def bindR_eq_Inr)
  next
    case False
    then have "t = s\<lparr>i_topology := top, i_parent := i_parent s, i_sla_mode := i_sla_mode s,
      i_parent_deadline := i_parent_deadline s, i_owner := i_owner s\<rparr>" using t by (auto simp: associate_def)
    then show thesis by (rule that)
  qed
  then show ?thesis
    unfolding s' by (intro step_ok_move) (simp_all add: assms(1) same_case_def)
qed

lemma evidence_of_frame:
  "evidence_of E now c ex i raw s = Inr s' \<Longrightarrow> s' = s \<or> (\<exists>item. s' = add_evidence item s)"
  by (auto simp: evidence_of_def Let_def res_simps split: if_splits)

definition evidence_only :: "(string \<Rightarrow> string) \<Rightarrow> incident \<Rightarrow> incident \<Rightarrow> bool" where
  "evidence_only D s s' \<longleftrightarrow> (\<exists>es. s' = s\<lparr>i_evidence := i_evidence s @ es\<rparr>) \<and>
     (unique_logs D s \<longrightarrow> unique_logs D s')"

lemma evidence_loop_frame:
  "evidence_loop E now c ex i raws s = Inr s' \<Longrightarrow> evidence_only D s s'"
proof (induction raws arbitrary: i s)
  case Nil
  then show ?case by (auto simp: evidence_only_def intro!: exI [of _ "[]"])
next
  case (Cons raw raws)
  obtain t where t: "evidence_of E now c ex i raw s = Inr t" "evidence_loop E now c ex (i + 1) raws t = Inr s'"
    using Cons.prems by (auto simp: res_simps)
  have "evidence_only D s t"
    using evidence_of_frame [OF t(1)]
  proof
    assume "t = s"
    then show ?thesis by (auto simp: evidence_only_def intro!: exI [of _ "[]"])
  next
    assume "\<exists>item. t = add_evidence item s"
    then obtain item where "t = add_evidence item s" ..
    then show ?thesis
      using append_once_prefix [of e_id item "i_evidence s"]
      by (auto simp: evidence_only_def add_evidence_def intro: unique_logs_ops(1) [unfolded add_evidence_def])
  qed
  moreover have "evidence_only D t s'" using Cons.IH t(2) .
  ultimately show ?case by (auto simp: evidence_only_def) 
qed

lemma assemble_evidence_ok [handler_facts]:
  assumes "i_stage s = EVIDENCE" "assemble_evidence E now s w = (Inr s', w')"
  shows "step_ok E s s'"
proof -
  obtain t c ex raws where t: "evidence_loop E now c ex 1 raws s = Inr t"
    and s': "s' = (let u = t\<lparr>i_cycles := i_cycles t + 1, i_new_evidence := True\<rparr> in
           if st_max_cycles (en_settings E) < i_cycles u
           then escalate E now ''Diagnostic cycle budget exhausted'' u
           else ev E now ''evidence_assembled'' ''Evidence assembled''
             (''Assembled '' @ nat_str (length (i_evidence u)) @ '' evidence items for diagnostic cycle '' @
              nat_str (i_cycles u) @ ''.'') ''workflow'' INFO [] (u\<lparr>i_stage := DETERMINISTIC_RCA\<rparr>))"
    using assms(2) by (auto simp: assemble_evidence_def Let_def eff_simps)
  obtain es where es: "t = s\<lparr>i_evidence := i_evidence s @ es\<rparr>"
    and ul: "unique_logs (en_D E) s \<longrightarrow> unique_logs (en_D E) t"
    using evidence_loop_frame [OF t, of "en_D E"] by (auto simp: evidence_only_def)
  show ?thesis
    using assms(1) ul unfolding s'
    by (auto simp: es step_ok_def same_case_def case_defs Let_def split: if_splits)
qed

lemma deterministic_rca_ok [handler_facts]:
  "i_stage s = DETERMINISTIC_RCA \<Longrightarrow> deterministic_rca E now s = Inr s' \<Longrightarrow> step_ok E s s'"
  by (auto simp: deterministic_rca_def bindR_eq_Inr same_case_def intro!: step_ok_move)

lemma llm_rca_ok [handler_facts]: "i_stage s = LLM_RCA \<Longrightarrow> step_ok E s (llm_rca E now s)"
  by (auto simp: llm_rca_def Let_def step_ok_def same_case_def case_defs split: sum.splits option.splits)

lemma step_ok_prepare:
  assumes "prepare_approval E now kind action role proposal t w = (Inr s', w')"
    and "same_case s t" "WAITING_APPROVAL \<in> set (next_stages (i_stage s))"
    and "unique_logs (en_D E) s \<Longrightarrow> unique_logs (en_D E) t"
    and "i_remote t = i_remote s" "i_field t = i_field s" "i_mr t = i_mr s" "i_cycles t = i_cycles s"
    and "\<not> after_action (i_stage s)" "i_stage s \<noteq> ESCALATED"
  shows "step_ok E s s'"
proof -
  obtain a where s': "s' = await_approval E now kind role (a_id a) t"
    and "save_approval a (w_repo w) = (Inr (), w_repo w')" "w_server w' = w_server w"
    by (rule prepare_approval_Inr [OF assms(1)])
  have "same_case s s'"
    unfolding s' using assms(2) by (rule same_case_trans) simp
  moreover have "case_ok (en_settings E) (en_D E) s'" if "case_ok (en_settings E) (en_D E) s"
  proof -
    from that have "unique_logs (en_D E) s" and b: "budget_ok (en_settings E) s" by (simp_all add: case_ok_def)
    then have "unique_logs (en_D E) t" by (intro assms(4))
    moreover have "attempts_below (en_settings E) t" "i_cycles t \<le> st_max_cycles (en_settings E)"
      using b assms(9,10) unfolding budget_ok_def attempts_below_def assms(5-8) by simp_all
    ultimately show ?thesis unfolding s' by (rule case_ok_await)
  qed
  ultimately show ?thesis using assms(3) by (simp add: step_ok_def s')
qed

lemma fusion_ok [handler_facts]:
  assumes "i_stage s = FUSION" "fusion E now s w = (Inr s', w')"
  shows "step_ok E s s'"
proof (cases "i_det_rca s")
  case None
  then show ?thesis using assms by (auto simp: fusion_def intro: step_ok_escalate)
next
  case d: (Some d)
  show ?thesis
  proof (cases "i_llm_rca s")
    case None
    then show ?thesis using assms d by (auto simp: fusion_def intro: step_ok_escalate)
  next
    case (Some m)
    obtain gate where gate: "fuse_and_gate (domain_value (r_domain d)) (r_confidence d)
        (Some (domain_value (r_domain m))) (Some (r_confidence m)) (st_threshold (en_settings E)) = Inr gate"
      using fuse_and_gate_total by blast
    show ?thesis
      using assms d Some gate
      by (auto simp: fusion_def Let_def split: if_splits elim!: step_ok_prepare)
        (auto simp: same_case_def step_ok_def case_defs)
  qed
qed

lemma rank_actions_ok [handler_facts]:
  assumes "i_stage s = ACTION_RANKING" "rank_actions E now s = Inr s'"
  shows "step_ok E s s'"
proof -
  obtain ranked where r: "ranked_actions s = Inr ranked"
    using assms(2) by (auto simp: rank_actions_def bindR_eq_Inr)
  have sel: "step_ok E s (rank_selected E now c n x s)" for c n x
    unfolding rank_selected_def Let_def by (rule step_ok_move) (simp_all add: assms(1) same_case_def)
  show ?thesis
  proof (cases ranked)
    case (Inl reason)
    then show ?thesis using assms r by (auto simp: rank_actions_def intro: step_ok_escalate)
  next
    case (Inr p)
    then show ?thesis using assms r sel by (cases p) (auto simp: rank_actions_def)
  qed
qed

lemma policy_ok [handler_facts]:
  assumes "i_stage s = POLICY" "policy E now s w = (Inr s', w')"
  shows "step_ok E s s'"
proof (cases "i_selected s")
  case None
  then show ?thesis using assms by (auto simp: policy_def intro: step_ok_escalate)
next
  case (Some c)
  show ?thesis
  proof (cases "i_evidence s = []")
    case True
    then show ?thesis using assms Some
      by (auto simp: policy_def same_case_def intro!: step_ok_escalate_of)
  next
    case False
    obtain kind role where "approval_for_action (c_action c) = (kind, role)" by fastforce
    then obtain p x where "prepare_approval E now kind (action_value (c_action c)) role x (s\<lparr>i_policy := p\<rparr>) w = (Inr s', w')"
      using assms Some False by (auto simp: policy_def Let_def)
    then show ?thesis
      by (rule step_ok_prepare) (simp_all add: assms(1) same_case_def after_action_def)
  qed
qed

lemma resume_rca_ok:
  assumes "i_stage s = WAITING_APPROVAL" "resume_rca E now result s = Inr s'"
  shows "step_ok E s s'"
  using assms(2) unfolding resume_rca_def Let_def bindR_eq_Inr
  by (elim exE conjE) (auto simp: same_case_def assms(1) intro!: step_ok_resume)

lemma take_override_ok:
  assumes "i_stage s = WAITING_APPROVAL" "decided (dget ''decision'' (result_of s))"
  shows "step_ok E s (take_override E now r a m s)"
proof (cases "py_str (py_or (dget ''original_action_type'' r) (JStr [])) \<in> {[], action_value a}")
  case True
  then have "take_override E now r a m s = s\<lparr>i_selected := Some m, i_status := CS_OPEN, i_stage := EXECUTE\<rparr>"
    by (auto simp: take_override_def Let_def)
  then show ?thesis using assms by (auto simp: step_ok_def same_case_def case_defs)
next
  case False
  then show ?thesis
    using assms(1) by (auto simp: take_override_def Let_def same_case_def intro!: step_ok_resume)
qed

lemma resume_override_ok:
  assumes "i_stage s = WAITING_APPROVAL" "decided (dget ''decision'' (result_of s))"
  shows "step_ok E s (resume_override E now (result_of s) opt s)"
  using assms take_override_ok [OF assms]
  by (auto simp: resume_override_def step_ok_escalate split: sum.split option.split)

text \<open>A decided approval that runs the action, and the three ways out of a decision.\<close>

lemma execute_next_ok:
  assumes "i_stage s = WAITING_APPROVAL" "decided (dget ''decision'' (result_of s))"
  shows "step_ok E s (s\<lparr>i_status := CS_OPEN, i_stage := EXECUTE\<rparr>)"
  using assms by (auto simp: step_ok_def same_case_def case_defs)

lemma resume_approval_ok [handler_facts]:
  assumes "i_stage s = WAITING_APPROVAL" "resume_approval E now s = Inr s'"
  shows "step_ok E s s'"
proof -
  let ?d = "dget ''decision'' (result_of s)"
  consider "?d = JStr ''request_more''" | "?d = JStr ''reject''"
    | "\<not> decided ?d" "?d \<noteq> JStr ''request_more''" "?d \<noteq> JStr ''reject''" | "decided ?d"
    by blast
  then show ?thesis
  proof cases
    case 1
    then show ?thesis using assms
      by (auto simp: resume_approval_def Let_def same_case_def intro!: step_ok_resume)
  next
    case 2
    then show ?thesis using assms
      by (auto simp: resume_approval_def Let_def intro: step_ok_escalate)
  next
    case 3
    then have "s' = s" using assms(2) by (simp add: resume_approval_def Let_def split: if_splits)
    then show ?thesis using assms(1) by (simp add: step_ok_def)
  next
    case 4
    then have no: "?d \<noteq> JStr ''request_more''" "?d \<noteq> JStr ''reject''" "hashable ?d"
      by (auto simp: decided_def)
    have eq: "resume_approval E now s =
      (if dget ''kind'' (result_of s) = JStr (kind_value RCA_REVIEW) then resume_rca E now (result_of s) s
       else if ?d = JStr ''override'' \<and> truthy (dget ''selected_option'' (result_of s))
       then Inr (resume_override E now (result_of s) (dget ''selected_option'' (result_of s)) s)
       else Inr (s\<lparr>i_status := CS_OPEN, i_stage := EXECUTE\<rparr>))"
      using 4 no by (simp add: resume_approval_def Let_def)
    show ?thesis
      using assms(2) resume_rca_ok [OF assms(1)] resume_override_ok [OF assms(1) 4] execute_next_ok [OF assms(1) 4]
      unfolding eq by (auto split: if_splits)
  qed
qed

lemma increment_attempt_facts:
  "same_case s (increment_attempt a s)" "i_cycles (increment_attempt a s) = i_cycles s"
  "i_status (increment_attempt a s) = i_status s" "i_history (increment_attempt a s) = i_history s"
  "unique_logs D (increment_attempt a s) = unique_logs D s"
  "attempts_below S s \<Longrightarrow> attempts_within S (increment_attempt a s)"
  by (auto simp: increment_attempt_def same_case_def attempts_below_def attempts_within_def)

lemma log_result_facts:
  "same_case s (log_result E ar r s)" "i_cycles (log_result E ar r s) = i_cycles s"
  "i_status (log_result E ar r s) = i_status s" "attempts_within S (log_result E ar r s) = attempts_within S s"
  "i_history (log_result E ar r s) = append_once x_key ar (i_history s)"
  "unique_logs (en_D E) s \<Longrightarrow> unique_logs (en_D E) (log_result E ar r s)"
  by (auto simp: log_result_def Let_def same_case_def attempts_within_def unique_logs_def add_action_result_def
      add_work_order_def add_mr_record_def append_once_distinct)

lemma record_execution_ok:
  assumes "i_stage s = EXECUTE" "record_execution E now c key r s = Inr s'"
  shows "step_ok E s s'"
proof -
  obtain ar d where ar: "action_result_of E c key r = Inr ar"
    and s': "s' = ev E now ''action_executed'' (c_label c @ '' executed'') (x_summary ar) ''MCP action tool'' INFO
              [(''idempotency_key'', JStr key), (''replayed'', JBool (x_replayed ar))]
              ((log_result E ar r (increment_attempt (c_action c) s))\<lparr>i_delimiter := d, i_pending := None,
                 i_result := None, i_stage := VERIFY\<rparr>)"
    using assms(2) unfolding record_execution_def Let_def bindR_eq_Inr by blast
  let ?t = "log_result E ar r (increment_attempt (c_action c) s)"
  have "same_case s ?t"
    by (rule same_case_trans [OF increment_attempt_facts(1) log_result_facts(1)])
  then have "same_case s s'" by (simp add: s' same_case_def)
  moreover have "case_ok (en_settings E) (en_D E) s'" if ok: "case_ok (en_settings E) (en_D E) s"
  proof -
    have "unique_logs (en_D E) s'" unfolding s' using ok
      by (simp add: case_ok_def log_result_facts increment_attempt_facts)
    moreover have "attempts_below (en_settings E) s" "i_status s = CS_OPEN"
      "i_cycles s \<le> st_max_cycles (en_settings E)"
      using ok assms(1) by (simp_all add: case_ok_def budget_ok_def after_action_def status_of_stage_def)
    then have "attempts_within (en_settings E) ?t" "i_status ?t = CS_OPEN"
      "i_cycles ?t \<le> st_max_cycles (en_settings E)"
      by (simp_all add: log_result_facts increment_attempt_facts)
    ultimately show ?thesis unfolding s' by (simp add: case_defs)
  qed
  ultimately show ?thesis using assms(1) by (simp add: step_ok_def s')
qed

lemma perform_cases:
  assumes "perform E now c aid key tool token s w = (Inr s', w')"
  obtains msg where "s' = escalate E now msg (s\<lparr>i_error := Some msg\<rparr>)"
  | r where "record_execution E now c key r s = Inr s'"
  using assms by (auto simp: perform_def split: prod.splits sum.splits option.splits)

lemma execute_cases:
  assumes "execute E now s w = (Inr s', w')"
  obtains r e where "s' = escalate E now r (s\<lparr>i_error := e\<rparr>)"
  | c key r where "i_selected s = Some c" "record_execution E now c key r s = Inr s'"
proof -
  have same: "s = s\<lparr>i_error := i_error s\<rparr>" by (cases s) simp
  show thesis
  proof (cases "i_selected s")
    case None
    then have "s' = escalate E now ''Execution reached without an action'' s"
      using assms by (simp add: execute_def Let_def)
    then show thesis using that(1) same by metis
  next
    case (Some c)
    let ?key = "py_str (dget ''idempotency_key'' (result_of s))"
    consider "s' = escalate E now ''Execution reached without an approved decision'' s"
      | r where "record_execution E now c ?key r s = Inr s'"
      | tool token where "perform E now c (py_str (dget ''approval_id'' (result_of s))) ?key tool token s w = (Inr s', w')"
      using assms Some
      by (auto simp: execute_def Let_def eff_simps split: if_splits option.splits)
    then show thesis
    proof cases
      case 1
      then show thesis using that(1) same by metis
    next
      case 2
      then show thesis using that(2) Some by blast
    next
      case 3
      then show thesis using that Some by (elim perform_cases) auto
    qed
  qed
qed

lemma execute_ok [handler_facts]:
  assumes "i_stage s = EXECUTE" "execute E now s w = (Inr s', w')"
  shows "step_ok E s s'"
  using assms(2)
proof (cases rule: execute_cases)
  case (1 r e)
  then show ?thesis using assms(1)
    by (auto simp: step_ok_def case_defs same_case_def split: if_splits)
next
  case (2 c key r)
  show ?thesis by (rule record_execution_ok [OF assms(1) 2(2)])
qed

end
