(* ===== verification/Service.thy ===== *)
theory Service
  imports Engine
begin

text \<open>
  The workflow service (\<open>workflow/service.py\<close>) over the portable engine: starting a
  scenario, running a case, and deciding an approval with its role, state and reason
  checks. The random part of an incident identifier is an argument.
\<close>

datatype decision = APPROVE | REJECT | REQUEST_MORE | OVERRIDE

fun decision_value :: "decision \<Rightarrow> string" where
  "decision_value APPROVE = ''approve''"
| "decision_value REJECT = ''reject''"
| "decision_value REQUEST_MORE = ''request_more''"
| "decision_value OVERRIDE = ''override''"

record decision_input =
  q_decision :: decision
  q_actor :: string
  q_role :: string
  q_reason :: string
  q_option :: "string option"
  q_domain :: "fault_domain option"

fun role_permissions :: "approval_kind \<Rightarrow> string list" where
  "role_permissions RCA_REVIEW = [''l2_sme'', ''operations_supervisor'']"
| "role_permissions REMOTE_ACTION = [''noc_analyst'', ''l2_sme'', ''operations_supervisor'']"
| "role_permissions DISPATCH = [''dispatcher'', ''operations_supervisor'']"
| "role_permissions HANDOVER = [''plant_supervisor'', ''operations_supervisor'']"
| "role_permissions HIGH_BLAST_RADIUS = [''operations_supervisor'']"
| "role_permissions EXCEPTIONAL_CLOSURE = [''operations_supervisor'']"

definition start_scenario ::
  "'s env \<Rightarrow> fixtures \<Rightarrow> string \<Rightarrow> int \<Rightarrow> (nat \<Rightarrow> int) \<Rightarrow> string \<Rightarrow> bool \<Rightarrow> ('s world, incident) eff" where
  "start_scenario E fx uuid_hex now clk name run =
     bindE (liftE (catalog_get fx name)) (\<lambda>fixture.
     bindE (liftE (dindex ''label'' fixture)) (\<lambda>label.
     bindE (liftE (bindR (dindex ''technology'' fixture) Technology)) (\<lambda>tech.
     let s = new_incident (''INC-'' @ uuid_hex) name (py_str label) tech
           (py_str (dget_or ''priority'' (JStr ''P2'') fixture))
           (py_str (dget_or ''source'' (JStr ''auto_detect'') fixture)) (utc now)
           (dt_add (utc now) (hours (if dget ''priority'' fixture = JStr ''P1'' then 4 else 8))) fixture
     in bindE (store_incident now s) (\<lambda>s.
        if run then run_until_pause E clk s else retE s))))"

definition service_get :: "string \<Rightarrow> ('s world, incident) eff" where
  "service_get incident_id w =
     (case get_incident (w_repo w) incident_id of
        None \<Rightarrow> (Inl (IncidentNotFound incident_id), w)
      | Some s \<Rightarrow> (Inr s, w))"

definition run_incident :: "'s env \<Rightarrow> (nat \<Rightarrow> int) \<Rightarrow> string \<Rightarrow> bool \<Rightarrow> ('s world, incident) eff" where
  "run_incident E clk incident_id one_step =
     bindE (service_get incident_id) (\<lambda>s.
       if one_step then run_one E (clk 0) s else run_until_pause E clk s)"

fun decided_status :: "decision \<Rightarrow> approval_status" where
  "decided_status APPROVE = AP_APPROVED"
| "decided_status OVERRIDE = AP_APPROVED"
| "decided_status REJECT = AP_REJECTED"
| "decided_status REQUEST_MORE = AP_REQUEST_MORE"

text \<open>The checks before anything is stored, in the code's order.\<close>

definition check_decision :: "approval \<Rightarrow> decision_input \<Rightarrow> unit res" where
  "check_decision a q =
     (if a_status a = AP_CONSUMED then Inl (ApprovalConflict ''APPROVAL_ALREADY_CONSUMED'')
      else if a_status a \<noteq> AP_PENDING
      then Inl (ApprovalConflict (''APPROVAL_NOT_PENDING:'' @ approval_status_value (a_status a)))
      else if q_role q \<notin> set (role_permissions (a_kind a))
      then Inl (AuthorizationError (''Role '' @ q_role q @ '' cannot decide '' @ kind_value (a_kind a) @
             ''; allowed roles: '' @ py_repr (jarr (sort (role_permissions (a_kind a))))))
      else if q_decision q \<in> {REJECT, OVERRIDE, REQUEST_MORE} \<and> strip (q_reason q) = []
      then Inl (ApprovalConflict ''DECISION_REASON_REQUIRED'')
      else Inr ())"

definition decided_approval :: "int \<Rightarrow> decision_input \<Rightarrow> approval \<Rightarrow> approval" where
  "decided_approval now q a =
     a\<lparr>a_status := decided_status (q_decision q), a_decided_by := Some (q_actor q),
       a_reason := Some (q_reason q), a_option := q_option q, a_decided_at := Some (utc now)\<rparr>"

definition decision_result :: "'s env \<Rightarrow> int \<Rightarrow> decision_input \<Rightarrow> approval \<Rightarrow> dict" where
  "decision_result E now q a =
     [(''approval_id'', JStr (a_id a)), (''idempotency_key'', JStr (a_key a)),
      (''kind'', JStr (kind_value (a_kind a))), (''decision'', JStr (decision_value (q_decision q))),
      (''actor'', JStr (q_actor q)), (''role'', JStr (q_role q)), (''reason'', JStr (q_reason q)),
      (''selected_option'', jopt (q_option q)),
      (''selected_domain'', jopt (map_option domain_value (q_domain q))),
      (''original_action_type'', JStr (a_action a))] @
     (if q_decision q \<in> {APPROVE, OVERRIDE} \<and> a_kind a \<noteq> RCA_REVIEW
      then [(''approval_token'', JStr (build_approval_token (en_D E) (st_secret (en_settings E)) now a))]
      else [])"

definition alternative_selected :: "decision_input \<Rightarrow> approval \<Rightarrow> bool" where
  "alternative_selected q a \<longleftrightarrow> q_decision q = OVERRIDE \<and>
     (case q_option q of None \<Rightarrow> False | Some opt \<Rightarrow> opt \<noteq> [] \<and> opt \<noteq> a_action a)"

text \<open>Whether the decided approval is used up once the case has been resumed.\<close>

definition consumes :: "decision_input \<Rightarrow> approval \<Rightarrow> nat \<Rightarrow> incident \<Rightarrow> bool" where
  "consumes q a actions_before s \<longleftrightarrow>
     (if a_kind a \<noteq> RCA_REVIEW
      then actions_before < length (i_history s) \<or> alternative_selected q a
      else q_decision q \<in> {APPROVE, OVERRIDE})"

definition decide_approval ::
  "'s env \<Rightarrow> int \<Rightarrow> (nat \<Rightarrow> int) \<Rightarrow> string \<Rightarrow> decision_input \<Rightarrow> ('s world, incident) eff" where
  "decide_approval E now clk approval_id q =
     bindE (getE (\<lambda>w. get_approval (w_repo w) approval_id)) (\<lambda>found.
     case found of
       None \<Rightarrow> liftE (Inl (ApprovalNotFound approval_id))
     | Some a \<Rightarrow>
         bindE (liftE (check_decision a q)) (\<lambda>_.
         let a = decided_approval now q a in
         bindE (store_approval a) (\<lambda>_.
         bindE (service_get (a_incident a)) (\<lambda>s.
         if i_pending s \<noteq> Some approval_id
         then liftE (Inl (ApprovalConflict ''APPROVAL_INCIDENT_STATE_MISMATCH''))
         else
           bindE (store_incident now (s\<lparr>i_result := Some (decision_result E now q a), i_status := CS_OPEN\<rparr>)) (\<lambda>s'.
           bindE (run_until_pause E clk s') (\<lambda>s''.
           if consumes q a (length (i_history s)) s''
           then bindE (store_approval (a\<lparr>a_status := AP_CONSUMED, a_consumed_at := Some (utc now)\<rparr>)) (\<lambda>_. retE s'')
           else retE s''))))))"

record dashboard =
  db_summary :: repo_summary
  db_total :: nat
  db_remote :: nat
  db_field :: nat
  db_mr :: nat
  db_returned :: nat
  db_disagreements :: nat

definition service_dashboard :: "repo \<Rightarrow> dashboard" where
  "service_dashboard rp =
     (let xs = list_incidents rp 200 in
      \<lparr>db_summary = summary rp, db_total = length xs, db_remote = sum_list (map i_remote xs),
       db_field = sum_list (map i_field xs), db_mr = sum_list (map i_mr xs),
       db_returned = count_if (\<lambda>s. 1 < i_cycles s) xs,
       db_disagreements = count_if (\<lambda>s. i_agreement s = DISAGREE) xs\<rparr>)"

end
