(* ===== verification/EngineProps.thy ===== *)
theory EngineProps
  imports EngineFacts Service
begin

text \<open>
  The properties of the engine: the step refines the stage machine and keeps the
  invariant, the loop ends, the reachable cases keep their budgets, and no effect is
  executed at the tool server without a decided approval and a valid token.
\<close>

subsection \<open>The remaining handlers\<close>

lemma verify_ok [handler_facts]:
  assumes "i_stage s = VERIFY" "verify E now s = Inr s'"
  shows "step_ok E s s'"
proof (cases "last_action s")
  case None
  then show ?thesis using assms by (auto simp: verify_def intro: step_ok_escalate)
next
  case (Some lst)
  then obtain v where s': "s' = settle E now v s" using assms(2) by (auto simp: verify_def bindR_eq_Inr)
  then show ?thesis using assms(1)
    by (cases v) (auto simp: settle_def Let_def step_ok_def same_case_def case_defs)
qed

lemma reverse_handover_same:
  assumes "reverse_handover E now s = Inr t"
  shows "same_case s t" "i_stage t = i_stage s" "i_status t = i_status s" "i_remote t = i_remote s"
    "i_field t = i_field s" "i_mr t = i_mr s" "i_cycles t = i_cycles s" "i_result t = i_result s"
    "i_history t = i_history s" "unique_logs (en_D E) s \<Longrightarrow> unique_logs (en_D E) t"
  using assms unfolding reverse_handover_def bindR_eq_Inr by (auto simp: same_case_def)

lemma return_to_rca_facts:
  "same_case s (return_to_rca E now s)" "i_stage (return_to_rca E now s) = EVIDENCE"
  "i_status (return_to_rca E now s) = i_status s" "i_result (return_to_rca E now s) = i_result s"
  "i_remote (return_to_rca E now s) = i_remote s" "i_field (return_to_rca E now s) = i_field s"
  "i_mr (return_to_rca E now s) = i_mr s" "i_cycles (return_to_rca E now s) = i_cycles s"
  "unique_logs (en_D E) s \<Longrightarrow> unique_logs (en_D E) (return_to_rca E now s)"
  by (simp_all add: return_to_rca_def Let_def same_case_def add_evidence_def
      unique_logs_ops(1) [unfolded add_evidence_def])

lemma failure_review_cases:
  assumes "failure_review E now s = Inr s'"
  obtains t r where "reverse_handover E now s = Inr t" "s' = escalate E now r t"
  | t where "reverse_handover E now s = Inr t" "s' = return_to_rca E now t" "attempts_below (en_settings E) t"
  using assms
  by (auto simp: failure_review_def bindR_eq_Inr attempts_below_def not_le split: if_splits)

lemma failure_review_ok [handler_facts]:
  assumes "i_stage s = FAILURE_REVIEW" "failure_review E now s = Inr s'"
  shows "step_ok E s s'"
  using assms(2)
proof (cases rule: failure_review_cases)
  case (1 t r)
  note rh = reverse_handover_same [OF 1(1)]
  have "same_case s s'" unfolding 1(2) using rh(1) by (rule same_case_trans) simp
  then show ?thesis using rh assms(1) 1(2)
    by (auto simp: step_ok_def case_defs)
next
  case (2 t)
  note rh = reverse_handover_same [OF 2(1)]
  have "same_case s s'" unfolding 2(2) using rh(1) return_to_rca_facts(1) by (rule same_case_trans)
  then show ?thesis using rh assms(1) 2(3)
    by (auto simp: step_ok_def case_defs return_to_rca_facts 2(2))
qed

lemma reconcile_ok [handler_facts]: "i_stage s = RECONCILE \<Longrightarrow> step_ok E s (reconcile E now s)"
  by (auto simp: step_ok_def reconcile_def same_case_def case_defs)

subsection \<open>The step\<close>

lemma handler_ok:
  assumes "handler_for E now (i_stage s) = Some h" "h s w = (Inr s', w')"
  shows "step_ok E s s'"
  using assms by (cases "i_stage s") (auto intro: handler_facts)

lemma handler_total: "\<not> terminal st \<Longrightarrow> \<exists>h. handler_for E now st = Some h"
  by (cases st) (simp_all add: terminal_def)

lemma handler_for_cong:
  "i_stage s' = i_stage s \<Longrightarrow> handler_for E now (i_stage s') = handler_for E now (i_stage s)"
  by simp

text \<open>The step as its caller sees it: the case stays, escalates on its bound, or a handler ran.\<close>

definition begun :: "int \<Rightarrow> incident \<Rightarrow> incident" where
  "begun now s = s\<lparr>i_steps := i_steps s + 1, i_updated := utc now\<rparr>"

lemma begun_fields [simp]:
  "i_stage (begun now s) = i_stage s" "i_steps (begun now s) = i_steps s + 1" "i_result (begun now s) = i_result s"
  "result_of (begun now s) = result_of s" "i_id (begun now s) = i_id s" "i_selected (begun now s) = i_selected s"
  "i_history (begun now s) = i_history s" "case_ok S D (begun now s) = case_ok S D s"
  by (simp_all add: begun_def case_defs)

lemma case_ok_updated [simp]: "case_ok S D (s\<lparr>i_updated := t\<rparr>) = case_ok S D s"
  by (simp add: case_defs)

lemma run_one_cases:
  assumes "run_one E now s w = (Inr s', w')"
  obtains "terminal (i_stage s) \<or> paused s" "s' = s" "w' = w"
  | "st_max_steps (en_settings E) \<le> i_steps s" "s' = escalate E now ''Total workflow step budget exhausted'' s"
    "w' = w" "\<not> terminal (i_stage s)" "\<not> paused s"
  | t h w1 where "i_steps s < st_max_steps (en_settings E)" "\<not> terminal (i_stage s)" "\<not> paused s"
    "handler_for E now (i_stage s) = Some h" "h (begun now s) w = (Inr t, w1)"
    "step_ok E (begun now s) t" "s' = t\<lparr>i_updated := utc now\<rparr>"
    "get_incident (w_repo w') (i_id s) = Some s'" "w_server w' = w_server w1"
proof -
  consider "terminal (i_stage s) \<or> paused s"
    | "\<not> terminal (i_stage s)" "\<not> paused s" "st_max_steps (en_settings E) \<le> i_steps s"
    | "\<not> terminal (i_stage s)" "\<not> paused s" "i_steps s < st_max_steps (en_settings E)"
    by linarith
  then show thesis
  proof cases
    case 1
    then have "run_one E now s w = (Inr s, w)" by (auto simp: run_one_def)
    then show thesis using assms 1 by (intro that(1)) auto
  next
    case 2
    then show thesis using assms by (intro that(2)) (auto simp: run_one_def)
  next
    case 3
    obtain h where h: "handler_for E now (i_stage s) = Some h"
      using handler_total [OF 3(1)] by blast
    obtain t w1 w2 where t: "h (begun now s) w = (Inr t, w1)"
      and rest: "s' = t\<lparr>i_updated := utc now\<rparr>"
        "w2 = w1\<lparr>w_repo := snd (save_incident now t (w_repo w1))\<rparr>" "emit_telemetry E s' w2 = (Inr (), w')"
      using assms 3 h
      by (auto simp: run_one_def begun_def bindE_eq_Inr store_incident_def save_incident_def Let_def)
    have ok: "step_ok E (begun now s) t"
    proof (rule handler_ok)
      show "handler_for E now (i_stage (begun now s)) = Some h" using h by simp
      show "h (begun now s) w = (Inr t, w1)" by (rule t)
    qed
    have repo: "w_repo w' = w_repo w2" "w_server w' = w_server w2"
      using rest(3) by (auto simp: emit_telemetry_def split: option.splits sum.splits)
    have "i_id t = i_id s" using ok by (simp add: step_ok_def same_case_def)
    then have "get_incident (w_repo w') (i_id s) = Some s'" by (simp add: repo rest)
    then show thesis using that(3) [OF 3(3,1,2) h t ok rest(1)] repo rest(2) by simp
  qed
qed

lemma run_one_keeps:
  assumes "run_one E now s w = (Inr s', w')" "case_ok (en_settings E) (en_D E) s"
  shows "case_ok (en_settings E) (en_D E) s'"
  using assms(1)
proof (cases rule: run_one_cases)
  case 1
  then show ?thesis using assms(2) by simp
next
  case 2
  then show ?thesis
    unfolding 2(2) using assms(2)
    by (intro case_ok_escalate) (auto simp: case_ok_def budget_ok_def split: if_splits)
next
  case 3
  then show ?thesis using assms(2) by (simp add: step_ok_def)
qed

lemma run_one_same:
  assumes "run_one E now s w = (Inr s', w')"
  shows "i_id s' = i_id s" "i_steps s' \<le> max (i_steps s) (st_max_steps (en_settings E))"
    "i_steps s \<le> i_steps s'"
  using assms by (cases rule: run_one_cases; auto simp: step_ok_def same_case_def)+

lemma run_one_progress:
  assumes "run_one E now s w = (Inr s', w')" "\<not> stops s s'"
  shows "i_steps s' = Suc (i_steps s)" "i_steps s < st_max_steps (en_settings E)"
  using assms by (cases rule: run_one_cases; auto simp: step_ok_def same_case_def stops_def terminal_def)+

subsection \<open>The pending result\<close>

text \<open>A handler keeps the result of a decision or uses it up; it never makes one.\<close>

lemma evidence_loop_result: "evidence_loop E now c ex i raws s = Inr s' \<Longrightarrow> i_result s' = i_result s"
  using evidence_loop_frame [of E now c ex i raws s s' "en_D E"] by (auto simp: evidence_only_def)

lemma prepare_result:
  "prepare_approval E now kind act role p s w = (Inr s', w') \<Longrightarrow> i_result s' = None"
  by (erule prepare_approval_Inr) simp

lemma resume_result:
  assumes "resume_approval E now s = Inr s'"
  shows "i_result s' \<in> {i_result s, None}"
  using assms
  by (auto simp: resume_approval_def Let_def resume_rca_def bindR_eq_Inr resume_override_def take_override_def
      split: if_splits sum.splits option.splits)

lemma record_execution_result: "record_execution E now c key r s = Inr s' \<Longrightarrow> i_result s' = None"
  by (auto simp: record_execution_def Let_def bindR_eq_Inr)

lemma rank_actions_result:
  assumes "rank_actions E now s = Inr s'"
  shows "i_result s' = i_result s"
proof -
  obtain ranked where r: "ranked_actions s = Inr ranked"
    using assms by (auto simp: rank_actions_def bindR_eq_Inr)
  have "i_result (rank_selected E now c n x s) = i_result s" for c n x
    by (simp add: rank_selected_def Let_def)
  then show ?thesis
    using assms r by (cases ranked) (auto simp: rank_actions_def)
qed

lemma handler_result:
  assumes h: "handler_for E now (i_stage s) = Some h" "h s w = (Inr s', w')"
  shows "i_result s' \<in> {i_result s, None}"
proof (cases "i_stage s")
  case CORRELATE
  then show ?thesis using h by (auto simp: correlate_def associate_def bindR_eq_Inr eff_simps Let_def split: if_splits)
next
  case EVIDENCE
  then show ?thesis using h
    by (auto simp: assemble_evidence_def eff_simps Let_def split: if_splits) (metis evidence_loop_result option.distinct(1))+
next
  case FUSION
  then show ?thesis using h
    by (auto simp: fusion_def eff_simps Let_def dest!: prepare_result split: if_splits option.splits)
next
  case POLICY
  then show ?thesis using h
    by (auto simp: policy_def Let_def dest!: prepare_result split: if_splits option.splits prod.splits)
next
  case EXECUTE
  then show ?thesis using h by (auto elim!: execute_cases dest: record_execution_result)
next
  case WAITING_APPROVAL
  then show ?thesis using h resume_result [of E now s s'] by auto
next
  case FAILURE_REVIEW
  then show ?thesis using h
    by (auto elim!: failure_review_cases simp: return_to_rca_facts dest!: reverse_handover_same(8))
qed (use h in \<open>auto simp: receive_def validate_def deterministic_rca_def llm_rca_def
    verify_def settle_def reconcile_def bindR_eq_Inr Let_def split: if_splits sum.splits option.splits prod.splits
    dest!: rank_actions_result\<close>)

lemma run_one_quiet:
  assumes "run_one E now s w = (Inr s', w')" "result_of s = []" "i_stage s \<noteq> EXECUTE"
  shows "result_of s' = []" "i_stage s' \<noteq> EXECUTE"
proof -
  have "result_of s' = [] \<and> i_stage s' \<noteq> EXECUTE"
    using assms(1)
  proof (cases rule: run_one_cases)
    case 1
    then show ?thesis using assms by simp
  next
    case 2
    then show ?thesis using assms by (simp add: result_of_def)
  next
    case (3 t h w1)
    have "i_stage s \<noteq> WAITING_APPROVAL" using 3(3) assms(2) by (simp add: paused_def)
    then have "i_stage t \<noteq> EXECUTE"
      using 3(6) by (cases "i_stage s") (auto simp: step_ok_def)
    moreover have "i_result t \<in> {i_result s, None}"
      using handler_result [of E now "begun now s" h w t w1] 3(4,5) by simp
    ultimately show ?thesis using assms(2) 3(7) by (auto simp: result_of_def)
  qed
  then show "result_of s' = []" "i_stage s' \<noteq> EXECUTE" by simp_all
qed

subsection \<open>The loop ends\<close>

lemma run_loop_enough:
  "st_max_steps (en_settings E) - i_steps s < n \<Longrightarrow> \<exists>r. run_loop n E clk s w = Some r"
proof (induction n arbitrary: clk s w)
  case 0
  then show ?case by simp
next
  case (Suc n)
  obtain r w' where r: "run_one E (clk 0) s w = (r, w')" by fastforce
  show ?case
  proof (cases r)
    case (Inl e)
    then show ?thesis using r by simp
  next
    case (Inr s')
    show ?thesis
    proof (cases "stops s s'")
      case True
      then show ?thesis using r Inr by simp
    next
      case False
      note pr = run_one_progress [OF r [unfolded Inr] False]
      then have "st_max_steps (en_settings E) - i_steps s' < n" using Suc.prems by linarith
      from Suc.IH [OF this] show ?thesis using r Inr False by simp
    qed
  qed
qed

text \<open>More rounds do not change a finished loop.\<close>

lemma run_loop_more: "run_loop n E clk s w = Some r \<Longrightarrow> n \<le> m \<Longrightarrow> run_loop m E clk s w = Some r"
proof (induction n arbitrary: m clk s w)
  case 0
  then show ?case by simp
next
  case (Suc n)
  obtain m' where m: "m = Suc m'" using Suc.prems(2) by (cases m) auto
  then show ?case
    using Suc.prems Suc.IH by (auto split: prod.splits sum.splits if_splits)
qed

lemma run_until_pause_eq:
  "\<exists>n. run_loop n E clk s w = Some (run_until_pause E clk s w)"
proof -
  let ?n = "st_max_steps (en_settings E) + 2"
  obtain r where "run_loop ?n E clk s w = Some r"
  proof -
    have "st_max_steps (en_settings E) - i_steps s < ?n" by simp
    then show ?thesis using that run_loop_enough by blast
  qed
  then have "run_loop ?n E clk s w = Some (run_until_pause E clk s w)"
    unfolding run_until_pause_def by simp
  then show ?thesis by blast
qed

text \<open>Induction over the rounds of the loop: what every step keeps holds of the result.\<close>

lemma run_loop_invariant:
  assumes "run_loop n E clk s w = Some (Inr s', w')" "P s w"
    and "\<And>now s w s' w'. P s w \<Longrightarrow> run_one E now s w = (Inr s', w') \<Longrightarrow> P s' w'"
  shows "P s' w'"
  using assms(1,2)
proof (induction n arbitrary: clk s w)
  case 0
  then show ?case by simp
next
  case (Suc n)
  then show ?case using assms(3) by (auto split: prod.splits sum.splits if_splits)
qed

lemma run_until_pause_invariant:
  assumes "run_until_pause E clk s w = (Inr s', w')" "P s w"
    and "\<And>now s w s' w'. P s w \<Longrightarrow> run_one E now s w = (Inr s', w') \<Longrightarrow> P s' w'"
  shows "P s' w'"
  using run_until_pause_eq [of E clk s w] assms run_loop_invariant [of _ E clk s w s' w' P] by metis

lemma run_loop_stops:
  "run_loop n E clk s w = Some (Inr s', w') \<Longrightarrow> terminal (i_stage s') \<or> i_stage s' = WAITING_APPROVAL"
proof (induction n arbitrary: clk s w)
  case 0
  then show ?case by simp
next
  case (Suc n)
  then show ?case by (auto simp: stops_def paused_def split: prod.splits sum.splits if_splits)
qed

subsection \<open>What reaches the tool server\<close>

text \<open>A handler other than the execution handler names no key in its calls.\<close>

lemma ctl_no_key: "map_of args ''idempotency_key'' = None \<Longrightarrow> ctl ''idempotency_key'' args = []"
  by (simp add: ctl_def dget_or_def)

lemma call_tool_eq:
  "call_tool E now name args w =
    (fst (en_call E now name args (w_server w)), w\<lparr>w_server := snd (en_call E now name args (w_server w))\<rparr>)"
  by (simp add: call_tool_def split: prod.split)

context action_server
begin

definition ran :: "'s world \<Rightarrow> string \<Rightarrow> bool" where
  "ran w k \<longleftrightarrow> executed (w_server w) k"

lemma ran_call_keyless:
  assumes "en_call E = call" "map_of args ''idempotency_key'' = None"
  shows "ran (snd (call_tool E now name args w)) k = ran w k"
  using assms executed_mono executed_new ctl_no_key by (fastforce simp: ran_def call_tool_eq)

lemma ran_repo [simp]: "ran (w\<lparr>w_repo := r\<rparr>) k = ran w k" "ran (w\<lparr>w_sink_failures := n\<rparr>) k = ran w k"
  by (simp_all add: ran_def)

lemma correlate_ran: "en_call E = call \<Longrightarrow> ran (snd (correlate E now s w)) k = ran w k"
  by (auto simp: correlate_def snd_bindE ran_call_keyless split: sum.split prod.split)

lemma assemble_evidence_ran: "en_call E = call \<Longrightarrow> ran (snd (assemble_evidence E now s w)) k = ran w k"
  by (auto simp: assemble_evidence_def Let_def snd_bindE ran_call_keyless split: sum.split)

lemma prepare_ran: "ran (snd (prepare_approval E now kind act role p s w)) k = ran w k"
  by (simp add: ran_def prepare_approval_server)

lemma fusion_ran: "ran (snd (fusion E now s w)) k = ran w k"
  by (auto simp: fusion_def Let_def snd_bindE prepare_ran split: option.split sum.split)

lemma policy_ran: "ran (snd (policy E now s w)) k = ran w k"
  by (auto simp: policy_def Let_def prepare_ran split: option.split prod.split)

lemma ctl_execute_arguments:
  "ctl ''idempotency_key'' (execute_arguments s c key token) = key"
  "ctl ''incident_id'' (execute_arguments s c key token) = i_id s"
  "ctl ''action_type'' (execute_arguments s c key token) = action_value (c_action c)"
  "ctl ''approval_token'' (execute_arguments s c key token) = py_str token"
  by (simp_all add: ctl_def dget_or_def execute_arguments_def)

lemma perform_ran:
  assumes "en_call E = call" "ran (snd (perform E now c aid key tool token s w)) k" "\<not> ran w k"
  shows "k = key \<and> k \<noteq> [] \<and>
    is_ok (verify_approval_for D now (py_str token) secret (i_id s) (action_value (c_action c)) k)"
proof -
  have "ran (snd (call_tool E now tool (execute_arguments s c key token) w)) k"
    using assms(2) by (auto simp: perform_def split: prod.splits sum.splits option.splits)
  then show ?thesis
    using assms(1,3) executed_new [of now tool "execute_arguments s c key token" "w_server w" k]
    by (auto simp: ran_def call_tool_eq ctl_execute_arguments)
qed

lemma perform_mono:
  assumes "en_call E = call" "ran w k"
  shows "ran (snd (perform E now c aid key tool token s w)) k"
proof -
  have "ran (snd (call_tool E now tool args w)) k" for args
    using assms executed_mono by (simp add: ran_def call_tool_eq)
  then show ?thesis
    by (auto simp: perform_def split: prod.split sum.split option.split dest: arg_cong [where f = snd])
      (metis snd_conv)+
qed

text \<open>What the execution handler needed before it executed a key at the server.\<close>

definition authorised :: "int \<Rightarrow> incident \<Rightarrow> string \<Rightarrow> bool" where
  "authorised now s k \<longleftrightarrow> decided (dget ''decision'' (result_of s)) \<and>
     k = py_str (dget ''idempotency_key'' (result_of s)) \<and>
     (\<exists>c token. i_selected s = Some c \<and> dindex ''approval_token'' (result_of s) = Inr token \<and>
        is_ok (verify_approval_for D now (py_str token) secret (i_id s) (action_value (c_action c)) k))"

lemma execute_ran:
  assumes "en_call E = call" "ran (snd (execute E now s w)) k" "\<not> ran w k"
  shows "authorised now s k \<and> get_idempotent_result (w_repo w) k = None"
proof -
  obtain c where c: "i_selected s = Some c"
    using assms(2,3) by (cases "i_selected s") (simp_all add: execute_def Let_def)
  have d: "decided (dget ''decision'' (result_of s))" "hashable (dget ''decision'' (result_of s))"
    using assms(2,3) c by (auto simp: execute_def Let_def split: if_splits)
  let ?key = "py_str (dget ''idempotency_key'' (result_of s))"
  have none: "get_idempotent_result (w_repo w) ?key = None"
    using assms(2,3) c d by (auto simp: execute_def Let_def snd_bindE split: option.splits)
  obtain tool token where "tool_for_action (c_action c) = Inr tool"
    "dindex ''approval_token'' (result_of s) = Inr token"
    "ran (snd (perform E now c (py_str (dget ''approval_id'' (result_of s))) ?key tool token s w)) k"
    using assms(2,3) c d none
    by (auto simp: execute_def Let_def snd_bindE split: sum.splits)
  then show ?thesis
    using perform_ran [OF assms(1) _ assms(3)] c d none by (fastforce simp: authorised_def)
qed

lemma execute_mono:
  assumes "en_call E = call" "ran w k"
  shows "ran (snd (execute E now s w)) k"
  using assms perform_mono
  by (auto simp: execute_def Let_def snd_bindE split: option.split sum.split)

lemma handler_ran:
  assumes "en_call E = call" "handler_for E now (i_stage s) = Some h" "ran (snd (h s w)) k" "\<not> ran w k"
  shows "i_stage s = EXECUTE \<and> authorised now s k \<and> get_idempotent_result (w_repo w) k = None"
  using assms
  by (cases "i_stage s")
    (auto simp: correlate_ran assemble_evidence_ran fusion_ran policy_ran
      dest: execute_ran [OF assms(1) _ assms(4)])

lemma handler_mono:
  assumes "en_call E = call" "handler_for E now (i_stage s) = Some h" "ran w k"
  shows "ran (snd (h s w)) k"
  using assms
  by (cases "i_stage s")
    (auto simp: correlate_ran assemble_evidence_ran fusion_ran policy_ran execute_mono)

lemma authorised_begun [simp]: "authorised now (begun now' s) k = authorised now s k"
  by (simp add: authorised_def)

lemma store_emit_ran:
  "ran (snd (bindE (store_incident now t) (\<lambda>u. bindE (emit_telemetry E u) (\<lambda>_. retE u)) w)) k = ran w k"
  by (auto simp: snd_bindE store_incident_def emit_telemetry_def ran_def Let_def
      split: prod.split option.split sum.split)

lemma run_one_ran:
  assumes "en_call E = call" "ran (snd (run_one E now s w)) k" "\<not> ran w k"
  shows "i_stage s = EXECUTE \<and> authorised now s k \<and> get_idempotent_result (w_repo w) k = None"
proof -
  obtain h where h: "handler_for E now (i_stage s) = Some h"
    and r: "run_one E now s w = bindE (h (begun now s)) (\<lambda>s'. bindE (store_incident now s') (\<lambda>s''.
      bindE (emit_telemetry E s'') (\<lambda>_. retE s''))) w"
    using assms(2,3) by (auto simp: run_one_def begun_def split: if_splits option.splits)
  have "ran (snd (h (begun now s) w)) k"
    using assms(2) unfolding r by (auto simp: bindE_def [of "h _"] store_emit_ran split: prod.splits sum.splits)
  then show ?thesis
    using handler_ran [OF assms(1), of now "begun now s" h w k] h assms(3) by simp
qed

lemma run_one_mono:
  assumes "en_call E = call" "ran w k"
  shows "ran (snd (run_one E now s w)) k"
proof (cases "terminal (i_stage s) \<or> paused s \<or> st_max_steps (en_settings E) \<le> i_steps s")
  case True
  then show ?thesis using assms by (auto simp: run_one_def)
next
  case False
  then obtain h where h: "handler_for E now (i_stage s) = Some h"
    using handler_total [of "i_stage s"] by blast
  have "ran (snd (h (begun now s) w)) k"
    using handler_mono [OF assms(1), of now "begun now s" h w k] h assms(2) by simp
  moreover have "run_one E now s w = bindE (h (begun now s)) (\<lambda>s'. bindE (store_incident now s') (\<lambda>s''.
      bindE (emit_telemetry E s'') (\<lambda>_. retE s''))) w"
    using False h by (simp add: run_one_def begun_def)
  ultimately show ?thesis
    by (auto simp: bindE_def [of "h _"] store_emit_ran split: prod.split sum.split)
qed

end

subsection \<open>Reachable cases\<close>

text \<open>
  The histories of one case: it starts new, takes steps, and while it waits receives the
  result of a decision. Results are arbitrary here; the service only gives decided ones.
\<close>

inductive reach :: "'s env \<Rightarrow> incident \<Rightarrow> bool" for E :: "'s env" where
  start: "reach E (new_incident iid scen title tech prio src now deadline ctx)"
| step: "reach E s \<Longrightarrow> run_one E now s w = (Inr s', w') \<Longrightarrow> reach E s'"
| decision: "reach E s \<Longrightarrow> i_stage s = WAITING_APPROVAL \<Longrightarrow> d \<noteq> [] \<Longrightarrow>
    reach E (s\<lparr>i_result := Some d, i_status := CS_OPEN, i_updated := t\<rparr>)"

inductive_cases reachE: "reach E s"

text \<open>The bounds \<open>Settings\<close> puts on its budgets.\<close>

definition settings_ok :: "settings \<Rightarrow> bool" where
  "settings_ok S \<longleftrightarrow> 1 \<le> st_max_remote S \<and> 1 \<le> st_max_field S \<and> 1 \<le> st_max_mr S \<and> 1 \<le> st_max_cycles S \<and>
     10 \<le> st_max_steps S \<and> 0 \<le> st_threshold S \<and> st_threshold S \<le> 1"

lemma case_ok_new: "settings_ok S \<Longrightarrow> case_ok S D (new_incident iid scen title tech prio src now deadline ctx)"
  by (simp add: case_defs new_incident_def unique_logs_def settings_ok_def)

lemma case_ok_decision:
  assumes "case_ok S D s" "i_stage s = WAITING_APPROVAL" "d \<noteq> []"
  shows "case_ok S D (s\<lparr>i_result := Some d, i_status := CS_OPEN, i_updated := t\<rparr>)"
  using assms by (simp add: case_defs)

lemma reach_case_ok: "reach E s \<Longrightarrow> settings_ok (en_settings E) \<Longrightarrow> case_ok (en_settings E) (en_D E) s"
proof (induction rule: reach.induct)
  case (start iid scen title tech prio src now deadline ctx)
  then show ?case by (rule case_ok_new)
next
  case (step s now w s' w')
  then show ?case using run_one_keeps by blast
next
  case (decision s d t)
  then show ?case by (intro case_ok_decision) auto
qed

lemma reach_steps: "reach E s \<Longrightarrow> i_steps s \<le> st_max_steps (en_settings E)"
proof (induction rule: reach.induct)
  case (step s now w s' w')
  then show ?case using run_one_same(2) [OF step.hyps(2)] by simp
qed (simp_all add: new_incident_def)

end
