(* ===== verification/Assistant.thy ===== *)
theory Assistant
  imports Domain
begin

text \<open>
  The deterministic assistant used by default (\<open>FakeRCAAssistant\<close> in
  \<open>llm/service.py\<close>): a proposal read from the scenario, with an alternative domain for
  the remaining probability, and the one-sentence explanation of a ranking.
\<close>

definition prompt_version :: string where
  "prompt_version = ''lpr-rca-v1.1''"

definition alternative_domain :: "fault_domain \<Rightarrow> string \<Rightarrow> fault_domain" where
  "alternative_domain d tech =
     (if d = FD_DROP then (if tech = ''HFC'' then FD_HFC_TAP else FD_PON_ODP)
      else if d \<in> {FD_HFC_TAP, FD_PON_ODP} then FD_DROP
      else if d = FD_PROVISIONING then FD_CPE
      else if d = FD_SHARED_NETWORK then FD_PLANT
      else FD_UNKNOWN)"

definition last_n :: "nat \<Rightarrow> 'a list \<Rightarrow> 'a list" where
  "last_n n xs = drop (length xs - n) xs"

definition fake_by_cycle :: "string \<Rightarrow> json list \<Rightarrow> incident \<Rightarrow> rca res" where
  "fake_by_cycle model_name cycles s =
     bindR (py_dict (clamped cycles (int (i_cycles s) - 1))) (\<lambda>raw.
       rca_of_dict (dupdate raw
         [(''source'', JStr ''llm''), (''evidence_refs'', jstrs (map e_id (i_evidence s))),
          (''model_name'', JStr model_name), (''prompt_version'', JStr prompt_version)]))"

definition fake_source :: "dict \<Rightarrow> json" where
  "fake_source fixture =
     py_or (dget ''llm_rca'' fixture)
       (py_or (dget ''deterministic_rca'' fixture)
         (JObj [(''domain'', JStr ''unknown''), (''confidence'', JFloat (1/2)),
                (''cause'', JStr ''No model fixture was supplied.'')]))"

definition fake_propose_rca :: "string \<Rightarrow> incident \<Rightarrow> rca res" where
  "fake_propose_rca model_name s =
     (let fixture = i_context s in
      bindR (py_list (py_or (dget ''llm_rca_by_cycle'' fixture) (JArr []))) (\<lambda>cycles.
      if cycles \<noteq> [] then fake_by_cycle model_name cycles s
      else
        bindR (as_dict (fake_source fixture)) (\<lambda>source.
        bindR (bindR (dindex ''domain'' source) FaultDomain) (\<lambda>fd.
        bindR (bindR (dindex ''confidence'' source) py_float) (\<lambda>confidence.
        let top = min confidence (9/10);
            alt = max 0 (round_dec 3 (1 - top));
            alternative = alternative_domain fd (technology_value (i_technology s));
            refs = map e_id (i_evidence s) in
        bindR (dindex ''cause'' source) (\<lambda>cause.
        bindR (mk_hypothesis (py_str cause) fd top (take 3 refs) []) (\<lambda>h1.
        bindR (if 1/100 < alt
               then bindR (mk_hypothesis (''Alternative responsibility domain: '' @ domain_value alternative)
                      alternative alt [] (last_n 1 refs)) (\<lambda>h2. Inr [h1, h2])
               else Inr [h1]) (\<lambda>hs.
        bindR (bindR (py_list (dget_or ''missing_evidence'' (JArr []) fixture)) (\<lambda>xs. vstrs (JArr xs))) (\<lambda>missing.
          check_rca \<lparr>r_source = ''llm'', r_domain = fd, r_confidence = confidence, r_hypotheses = hs,
            r_evidence_refs = refs, r_ruled_out = [''planned maintenance'', ''duplicate incident''],
            r_missing = missing, r_tests = [''minimum discriminating service test''],
            r_rationale = py_str cause, r_model_name = Some model_name,
            r_prompt_version = Some prompt_version\<rparr>)))))))))"

text \<open>The candidates arrive as dictionaries; a label is read from each with \<open>[]\<close>.\<close>

definition fake_explain_actions :: "incident \<Rightarrow> dict list \<Rightarrow> string res" where
  "fake_explain_actions s candidates =
     (case candidates of
        [] \<Rightarrow> Inr ''No action candidates were generated.''
      | best # rest \<Rightarrow>
          bindR (dindex ''label'' best) (\<lambda>label.
          let txt = ''Use '' @ py_str label @
                '' first because it has the best safe outcome-to-cost balance for the approved fault domain.'' in
          case rest of
            [] \<Rightarrow> Inr txt
          | nxt # _ \<Rightarrow> bindR (dindex ''label'' nxt) (\<lambda>l2.
              Inr (txt @ '' If it fails or is blocked, use '' @ py_str l2 @ '' after re-diagnosis.''))))"

text \<open>The alternative never repeats the proposed domain, except for an unknown one.\<close>

lemma alternative_differs: "d \<noteq> FD_UNKNOWN \<Longrightarrow> alternative_domain d tech \<noteq> d"
  by (auto simp: alternative_domain_def)

end
