(* ===== verification/Demo.thy ===== *)
theory Demo
  imports EngineProps Assistant "HOL-Library.Code_Target_Nat"
begin

text \<open>
  A concrete deployment for the witnesses: settings with the program's defaults, the
  deterministic assistant and the in-process tool client over one small scenario. The
  digest is constant, which keeps evaluation in the kernel fast; no witness rests on it.
\<close>

definition demo_settings :: settings where
  "demo_settings = \<lparr>st_threshold = 7/10, st_max_remote = 2, st_max_field = 3, st_max_mr = 2,
     st_max_cycles = 4, st_max_steps = 40, st_stability_minutes = 15, st_secret = ''s'',
     st_model_name = ''fake''\<rparr>"

definition demo_D :: "string \<Rightarrow> string" where
  "demo_D s = []"

definition demo_fixture :: dict where
  "demo_fixture =
     [(''name'', JStr ''demo''), (''label'', JStr ''Demo''), (''technology'', JStr ''HFC''),
      (''topology'', JObj [(''tap'', JStr ''TAP-1'')]),
      (''evidence'', JArr [JObj [(''kind'', JStr ''cpe_health''), (''summary'', JStr ''CPE reachable.'')]]),
      (''deterministic_rca'', JObj [(''domain'', JStr ''provisioning''), (''confidence'', JFloat (9/10)),
         (''cause'', JStr ''profile'')]),
      (''action_sequence'', JArr [JStr ''remote_reprovision'', JStr ''clean_boots'']),
      (''verification_outcomes'', JArr [JBool True])]"

definition demo_fixtures :: fixtures where
  "demo_fixtures = [(''demo'', demo_fixture)]"

definition demo_env :: "effect_store env" where
  "demo_env = \<lparr>en_settings = demo_settings, en_D = demo_D,
     en_call = in_process_call demo_D ''s'' demo_fixtures, en_propose = fake_propose_rca ''fake'',
     en_explain = fake_explain_actions, en_sink = None\<rparr>"

definition demo_world :: "effect_store world" where
  "demo_world = \<lparr>w_repo = repo_empty, w_server = es_empty, w_sink_failures = 0\<rparr>"

text \<open>A new case, and the same case as it stands after its approval was granted.\<close>

definition demo_case :: incident where
  "demo_case = new_incident ''I'' ''demo'' ''t'' HFC ''P2'' ''src'' (utc 0) (utc 1) demo_fixture"

definition demo_approval :: approval where
  "demo_approval =
     \<lparr>a_id = ''A'', a_incident = ''I'', a_action = ''remote_reprovision'', a_kind = REMOTE_ACTION,
      a_status = AP_PENDING, a_role = ''noc_analyst'', a_proposal = [], a_key = ''K'',
      a_created = utc 0, a_expires = utc 0, a_decided_by = None, a_reason = None, a_option = None,
      a_decided_at = None, a_consumed_at = None\<rparr>"

definition demo_token :: string where
  "demo_token = build_approval_token demo_D ''s'' 0 demo_approval"

definition demo_granted :: incident where
  "demo_granted = demo_case\<lparr>i_stage := EXECUTE,
     i_result := Some [(''approval_id'', JStr ''A''), (''idempotency_key'', JStr ''K''),
       (''decision'', JStr ''approve''), (''approval_token'', JStr demo_token)],
     i_selected := Some (catalog_candidate REMOTE_REPROVISION 1 demo_case)\<rparr>"

definition demo_waiting :: incident where
  "demo_waiting = demo_case\<lparr>i_stage := WAITING_APPROVAL, i_status := CS_WAITING, i_pending := Some ''A''\<rparr>"

definition demo_store :: "effect_store world" where
  "demo_store = demo_world\<lparr>w_repo := repo_empty\<lparr>rp_approvals := [(''A'', demo_approval)],
     rp_incidents := [(''I'', row_of demo_waiting)]\<rparr>\<rparr>"

end
