(* ===== verification/DemoRun.thy ===== *)
theory DemoRun
  imports Demo
begin

text \<open>
  A history of the demo case from its start to its closure, followed field by field: what
  each handler needs of the case is carried along, the rest is left open.
\<close>

definition at_stage :: "stage \<Rightarrow> nat \<Rightarrow> nat \<Rightarrow> incident \<Rightarrow> bool" where
  "at_stage st n c s \<longleftrightarrow> reach demo_env s \<and> i_stage s = st \<and> i_steps s = n \<and>
     i_context s = demo_fixture \<and> i_scenario s = ''demo'' \<and> i_technology s = HFC \<and>
     i_cycles s = c \<and> i_history s = [] \<and> (c = 1 \<longrightarrow> i_evidence s \<noteq> [])"

lemma reach_handler:
  assumes "reach demo_env s" "handler_for demo_env 0 (i_stage s) = Some h" "\<not> paused s" "i_steps s < 40"
    "h (begun 0 s) w = (Inr t, w')"
  shows "reach demo_env (t\<lparr>i_updated := utc 0\<rparr>)"
proof (rule reach.step [OF assms(1)])
  have "\<not> terminal (i_stage s)" using assms(2) by (cases "i_stage s") (auto simp: terminal_def)
  then show "run_one demo_env 0 s w = (Inr (t\<lparr>i_updated := utc 0\<rparr>),
      w'\<lparr>w_repo := snd (save_incident 0 t (w_repo w'))\<rparr>)"
    using assms by (auto simp: run_one_def begun_def bindE_def store_incident_def emit_telemetry_def
        save_incident_def Let_def retE_def demo_env_def demo_settings_def)
qed

lemma at_stage_step:
  assumes "at_stage st n c s" "handler_for demo_env 0 st = Some h" "st = WAITING_APPROVAL \<longrightarrow> result_of s \<noteq> []"
    "n < 40" "h (begun 0 s) w = (Inr t, w')" "i_stage t = st'" "same_case (begun 0 s) t"
    "i_history t = []" "i_cycles t = 1 \<longrightarrow> i_evidence t \<noteq> []"
  shows "at_stage st' (Suc n) (i_cycles t) (t\<lparr>i_updated := utc 0\<rparr>)"
proof -
  have "reach demo_env (t\<lparr>i_updated := utc 0\<rparr>)"
    using assms(1-5) by (intro reach_handler [of s h w]) (auto simp: at_stage_def paused_def)
  then show ?thesis using assms by (simp add: at_stage_def same_case_def begun_def)
qed

lemma demo_fixture_reads:
  "truthy (dget_or ''valid'' (JBool True) demo_fixture)"
  "\<not> truthy (dget ''post_failure_rca'' demo_fixture)"
  "py_list (py_or (dget ''deterministic_rca_by_cycle'' demo_fixture) (JArr [])) = Inr []"
  "py_dict (py_or (dget ''deterministic_rca'' demo_fixture) (JObj [])) =
     Inr [(''domain'', JStr ''provisioning''), (''confidence'', JFloat (9/10)), (''cause'', JStr ''profile'')]"
  "py_list (py_or (dget ''llm_rca_by_cycle'' demo_fixture) (JArr [])) = Inr []"
  "py_list (py_or (dget ''action_by_cycle'' demo_fixture) (JArr [])) = Inr []"
  "py_list (dget_or ''action_sequence'' (JArr []) demo_fixture) = Inr [JStr ''remote_reprovision'', JStr ''clean_boots'']"
  "\<not> truthy (dget ''verification_by_action'' demo_fixture)"
  "py_list (dget_or ''verification_outcomes'' (JArr []) demo_fixture) = Inr [JBool True]"
  "as_dict (fake_source demo_fixture) =
     Inr [(''domain'', JStr ''provisioning''), (''confidence'', JFloat (9/10)), (''cause'', JStr ''profile'')]"
  "py_list (dget_or ''missing_evidence'' (JArr []) demo_fixture) = Inr []"
  by (simp_all add: demo_fixture_def dget_def dget_or_def py_or_def fake_source_def)

lemma at_start: "at_stage NEW 0 0 demo_case"
  using reach.start [of demo_env "''I''" "''demo''" "''t''" HFC "''P2''" "''src''" "utc 0" "utc 1" demo_fixture]
  by (simp add: at_stage_def demo_case_def new_incident_def)

lemma at_fields:
  assumes "at_stage st n c s"
  shows "i_context (begun 0 s) = demo_fixture" "i_scenario (begun 0 s) = ''demo''" "i_cycles (begun 0 s) = c"
    "i_history (begun 0 s) = []" "i_stage s = st" "i_context s = demo_fixture" "i_history s = []" "i_cycles s = c"
    "i_technology (begun 0 s) = HFC"
    "c = 1 \<Longrightarrow> i_evidence (begun 0 s) \<noteq> []"
  using assms by (simp_all add: at_stage_def begun_def)

lemma at_receive: "at_stage NEW 0 c s \<Longrightarrow> \<exists>s'. at_stage VALIDATE 1 c s'"
  using at_stage_step [of NEW 0 c s "\<lambda>s. retE (receive demo_env 0 s)" demo_world "receive demo_env 0 (begun 0 s)" demo_world VALIDATE]
  by (auto simp: receive_def same_case_def retE_def at_fields)

lemma at_validate: "at_stage VALIDATE 1 c s \<Longrightarrow> \<exists>s'. at_stage CORRELATE 2 c s'"
  using at_stage_step [of VALIDATE 1 c s "\<lambda>s. retE (validate demo_env 0 s)" demo_world "validate demo_env 0 (begun 0 s)" demo_world CORRELATE]
  by (auto simp: validate_def same_case_def retE_def demo_fixture_reads at_fields numeral_2_eq_2)

text \<open>What the demo tools answer, and so what the intake and the diagnosis compute.\<close>

lemma demo_tool_calls:
  "in_process_call demo_D ''s'' demo_fixtures 0 ''get_topology'' [(''scenario_name'', JStr ''demo'')] st =
     (Inr [(''topology'', JObj [(''tap'', JStr ''TAP-1'')]), (''source'', JStr ''LPR topology fixture'')], st)"
  "in_process_call demo_D ''s'' demo_fixtures 0 ''get_prior_incidents'' [(''scenario_name'', JStr ''demo'')] st =
     (Inr [(''related_incidents'', JArr []), (''existing_mr'', JNull), (''common_cause'', JBool False),
           (''parent_incident_id'', JNull)], st)"
  by (simp_all add: in_process_call_def registry_call_def read_tools_def get_topology_def get_prior_incidents_def
      arg_def catalog_get_def demo_fixtures_def demo_fixture_def map_exn_def dindex_def dget_def dget_or_def)

lemma at_correlate:
  assumes "at_stage CORRELATE 2 0 s"
  shows "\<exists>s'. at_stage EVIDENCE 3 0 s'"
proof -
  obtain t w where "correlate demo_env 0 (begun 0 s) demo_world = (Inr t, w)" "i_stage t = EVIDENCE"
    "same_case (begun 0 s) t" "i_history t = []" "i_cycles t = 0"
    unfolding correlate_def at_fields(2) [OF assms]
    by (auto simp: bindE_def call_tool_eq demo_env_def demo_tool_calls liftE_def retE_def dget_def
        dget_or_def py_or_def associate_def same_case_def at_fields [OF assms])
  then show ?thesis using at_stage_step [OF assms] by (fastforce simp: numeral_3_eq_3)
qed

lemma demo_snapshot:
  "\<exists>r. in_process_call demo_D ''s'' demo_fixtures 0 ''get_nxt_snapshot''
     [(''scenario_name'', JStr ''demo''), (''cycle'', JInt 0)] st = (Inr r, st) \<and>
     dget_or ''evidence'' (JArr []) r =
       JArr [JObj [(''kind'', JStr ''cpe_health''), (''summary'', JStr ''CPE reachable.'')]]"
  by (simp add: in_process_call_def registry_call_def read_tools_def get_nxt_snapshot_def
      arg_def catalog_get_def demo_fixtures_def demo_fixture_def map_exn_def dindex_def dget_def dget_or_def py_or_def
      clamped_def clamp_index_def)

lemma demo_item_ok:
  "\<exists>u. evidence_of E 0 c (map e_id (i_evidence s)) i
      (JObj [(''kind'', JStr ''cpe_health''), (''summary'', JStr ''CPE reachable.'')]) s = Inr u \<and> i_evidence u \<noteq> []"
  by (auto simp: evidence_of_def Let_def mk_evidence_def dget_or_def vunit_def bindR_def add_evidence_def append_once_def)

lemma at_evidence:
  assumes "at_stage EVIDENCE 3 0 s"
  shows "\<exists>s'. at_stage DETERMINISTIC_RCA 4 1 s'"
proof -
  obtain r where r: "in_process_call demo_D ''s'' demo_fixtures 0 ''get_nxt_snapshot''
      [(''scenario_name'', JStr ''demo''), (''cycle'', JInt 0)] es_empty = (Inr r, es_empty)"
    "dget_or ''evidence'' (JArr []) r =
       JArr [JObj [(''kind'', JStr ''cpe_health''), (''summary'', JStr ''CPE reachable.'')]]"
    using demo_snapshot by blast
  obtain u where u: "evidence_loop demo_env 0 0 (map e_id (i_evidence (begun 0 s))) 1
      [JObj [(''kind'', JStr ''cpe_health''), (''summary'', JStr ''CPE reachable.'')]] (begun 0 s) = Inr u" "i_evidence u \<noteq> []"
  proof -
    obtain v where "evidence_of demo_env 0 0 (map e_id (i_evidence (begun 0 s))) 1
      (JObj [(''kind'', JStr ''cpe_health''), (''summary'', JStr ''CPE reachable.'')]) (begun 0 s) = Inr v" "i_evidence v \<noteq> []"
      using demo_item_ok by blast
    then show thesis by (intro that) (simp add: bindR_def)
  qed
  have ev: "evidence_only demo_D (begun 0 s) u" using u(1) by (rule evidence_loop_frame)
  obtain t w where "assemble_evidence demo_env 0 (begun 0 s) demo_world = (Inr t, w)" "i_stage t = DETERMINISTIC_RCA"
    "same_case (begun 0 s) t" "i_history t = []" "i_cycles t = 1" "i_evidence t \<noteq> []"
    using r u ev at_fields [OF assms]
    by (auto simp: assemble_evidence_def bindE_def call_tool_eq demo_env_def liftE_def retE_def evidence_only_def same_case_def demo_world_def demo_settings_def Let_def)
  then show ?thesis using at_stage_step [OF assms] by fastforce
qed

text \<open>From here on the case carries evidence and the two proposals, which agree.\<close>

lemma at_deterministic:
  assumes "at_stage DETERMINISTIC_RCA 4 1 s"
  shows "\<exists>s' d. at_stage LLM_RCA 5 1 s' \<and> i_det_rca s' = Some d \<and> r_domain d = FD_PROVISIONING \<and> r_confidence d = 9/10"
proof -
  obtain d where d: "deterministic_proposal (begun 0 s) = Inr d" "r_domain d = FD_PROVISIONING" "r_confidence d = 9/10"
    by (auto simp: deterministic_proposal_def at_fields [OF assms] demo_fixture_reads Let_def bindR_def dget_or_def
        mk_hypothesis_def vunit_def check_rca_def FaultDomain_def enum_of_def fault_domains_def)
  then obtain t where t: "deterministic_rca demo_env 0 (begun 0 s) = Inr t" "i_stage t = LLM_RCA" "same_case (begun 0 s) t"
    "i_history t = []" "i_cycles t = 1" "i_evidence t \<noteq> []" "i_det_rca t = Some d"
    using at_fields [OF assms] by (simp add: deterministic_rca_def bindR_def same_case_def)
  then have "at_stage LLM_RCA 5 1 (t\<lparr>i_updated := utc 0\<rparr>)"
    using at_stage_step [OF assms, of "\<lambda>s. liftE (deterministic_rca demo_env 0 s)" demo_world t demo_world LLM_RCA]
    by (simp add: liftE_def)
  moreover have "i_det_rca (t\<lparr>i_updated := utc 0\<rparr>) = Some d" using t by simp
  ultimately show ?thesis using d by blast
qed

lemma at_assistant:
  assumes "at_stage LLM_RCA 5 1 s" "i_det_rca s = Some d"
  shows "\<exists>s' m. at_stage FUSION 6 1 s' \<and> i_det_rca s' = Some d \<and> i_llm_rca s' = Some m \<and>
    r_domain m = FD_PROVISIONING \<and> r_confidence m = 9/10"
proof -
  obtain m where m: "fake_propose_rca ''fake'' (begun 0 s) = Inr m" "r_domain m = FD_PROVISIONING" "r_confidence m = 9/10"
    by (auto simp: fake_propose_rca_def at_fields [OF assms(1)] demo_fixture_reads Let_def bindR_def dindex_def
        mk_hypothesis_def vunit_def check_rca_def FaultDomain_def enum_of_def fault_domains_def round_dec_def
        round_he_def alternative_domain_def)
  define t where "t = llm_rca demo_env 0 (begun 0 s)"
  have t: "i_stage t = FUSION" "same_case (begun 0 s) t" "i_history t = []" "i_cycles t = 1" "i_evidence t \<noteq> []" "i_det_rca t = Some d"
    "i_llm_rca t = Some m"
    using m assms(2) at_fields [OF assms(1)]
    by (simp_all add: t_def llm_rca_def demo_env_def Let_def same_case_def) (simp_all add: begun_def)
  then have "at_stage FUSION 6 1 (t\<lparr>i_updated := utc 0\<rparr>)"
    using at_stage_step [OF assms(1), of "\<lambda>s. retE (llm_rca demo_env 0 s)" demo_world t demo_world FUSION]
    by (simp add: retE_def t_def)
  moreover have "i_det_rca (t\<lparr>i_updated := utc 0\<rparr>) = Some d" "i_llm_rca (t\<lparr>i_updated := utc 0\<rparr>) = Some m"
    using t by simp_all
  ultimately show ?thesis using m by blast
qed

lemma at_fusion:
  assumes "at_stage FUSION 6 1 s" "i_det_rca s = Some d" "i_llm_rca s = Some m"
    and "r_domain m = r_domain d" "r_confidence d = 9/10" "r_confidence m = 9/10"
  shows "\<exists>s'. at_stage ACTION_RANKING 7 1 s'"
proof -
  obtain t where "fusion demo_env 0 (begun 0 s) demo_world = (Inr t, demo_world)" "i_stage t = ACTION_RANKING"
    "same_case (begun 0 s) t" "i_history t = []" "i_cycles t = 1" "i_evidence t \<noteq> []"
  proof -
    have "i_det_rca (begun 0 s) = Some d" "i_llm_rca (begun 0 s) = Some m"
      using assms(2,3) by (simp_all add: begun_def)
    then show thesis
      using assms(4-6) at_fields [OF assms(1)] that
      by (simp add: fusion_def fuse_and_gate_def bindR_def bindE_def liftE_def retE_def demo_env_def
          demo_settings_def Let_def same_case_def)
  qed
  then show ?thesis using at_stage_step [OF assms(1)] by fastforce
qed

lemma at_ranking:
  assumes "at_stage ACTION_RANKING 7 1 s"
  shows "\<exists>s' c. at_stage POLICY 8 1 s' \<and> i_selected s' = Some c \<and> c_action c = REMOTE_REPROVISION"
proof -
  obtain a b r where "ranked_actions (begun 0 s) = Inr (Inr (a, b, r))" "c_action a = REMOTE_REPROVISION"
    by (auto simp: ranked_actions_def ranked_by_sequence_def at_fields [OF assms] demo_fixture_reads bindR_def
        Let_def ActionType_def enum_of_def action_types_def catalog_candidate_def)
  then obtain t where t: "rank_actions demo_env 0 (begun 0 s) = Inr t" "i_stage t = POLICY" "same_case (begun 0 s) t"
    "i_history t = []" "i_cycles t = 1" "i_evidence t \<noteq> []" "i_selected t = Some a"
    using at_fields [OF assms] by (simp add: rank_actions_def rank_selected_def bindR_def Let_def same_case_def)
  then have "at_stage POLICY 8 1 (t\<lparr>i_updated := utc 0\<rparr>)"
    using at_stage_step [OF assms, of "\<lambda>s. liftE (rank_actions demo_env 0 s)" demo_world t demo_world POLICY]
    by (simp add: liftE_def)
  moreover have "i_selected (t\<lparr>i_updated := utc 0\<rparr>) = Some a" using t by simp
  ultimately show ?thesis using \<open>c_action a = _\<close> by blast
qed

lemma prepare_reprovision:
  "\<exists>aid w'. prepare_approval E now kind ''remote_reprovision'' role p s demo_world =
     (Inr (await_approval E now kind role aid s), w')"
proof -
  have sl: "approval_slot s ''remote_reprovision'' = (int (i_remote s) + 1, None)"
    by (simp add: approval_slot_def attempt_for_def ActionType_def enum_of_def action_types_def)
  show ?thesis
    by (simp add: prepare_approval_def sl Let_def derive_approval_id_def derive_action_key_def bindR_def
        bindE_def liftE_def retE_def getE_def store_approval_def save_approval_def demo_world_def repo_empty_def
        get_approval_def) blast
qed

lemma at_policy:
  assumes "at_stage POLICY 8 1 s" "i_selected s = Some c" "c_action c = REMOTE_REPROVISION"
  shows "\<exists>s'. at_stage WAITING_APPROVAL 9 1 s' \<and> i_selected s' = Some c"
proof -
  have sel: "i_selected (begun 0 s) = Some c" using assms(2) by (simp add: begun_def)
  obtain t w where t: "policy demo_env 0 (begun 0 s) demo_world = (Inr t, w)" "i_stage t = WAITING_APPROVAL"
    "same_case (begun 0 s) t" "i_history t = []" "i_cycles t = 1" "i_evidence t \<noteq> []" "i_selected t = Some c"
  proof -
    obtain kind role p u aid w where "policy demo_env 0 (begun 0 s) demo_world = (Inr (await_approval demo_env 0 kind role aid u), w)"
      "u = (begun 0 s)\<lparr>i_policy := p\<rparr>"
      using at_fields [OF assms(1)] sel assms(3) prepare_reprovision
      by (simp add: policy_def Let_def approval_for_action_def) blast
    then show thesis
      using that at_fields [OF assms(1)] sel by (fastforce simp: same_case_def await_approval_def)
  qed
  then have "at_stage WAITING_APPROVAL 9 1 (t\<lparr>i_updated := utc 0\<rparr>)"
    using at_stage_step [OF assms(1), of "policy demo_env 0" demo_world t w WAITING_APPROVAL] by simp
  moreover have "i_selected (t\<lparr>i_updated := utc 0\<rparr>) = Some c" using t by simp
  ultimately show ?thesis by blast
qed

text \<open>The approval is granted, and the effect is found in the idempotency table.\<close>

definition demo_grant :: dict where
  "demo_grant = [(''approval_id'', JStr ''A''), (''idempotency_key'', JStr ''K''), (''decision'', JStr ''approve'')]"

lemma at_decision:
  assumes "at_stage WAITING_APPROVAL 9 1 s" "i_selected s = Some c"
  shows "\<exists>s'. at_stage EXECUTE 10 1 s' \<and> i_selected s' = Some c \<and> i_result s' = Some demo_grant"
proof -
  define u where "u = s\<lparr>i_result := Some demo_grant, i_status := CS_OPEN, i_updated := utc 0\<rparr>"
  have "reach demo_env u"
    using reach.decision [of demo_env s demo_grant "utc 0"] assms(1) by (simp add: at_stage_def u_def demo_grant_def)
  then have u: "at_stage WAITING_APPROVAL 9 1 u" using assms(1) by (simp add: at_stage_def u_def)
  define t where "t = (begun 0 u)\<lparr>i_status := CS_OPEN, i_stage := EXECUTE\<rparr>"
  have r: "result_of (begun 0 u) = demo_grant" by (simp add: u_def result_of_def begun_def)
  have "resume_approval demo_env 0 (begun 0 u) = Inr t"
    unfolding resume_approval_def r t_def by (simp add: demo_grant_def dget_def decided_def)
  then have "at_stage EXECUTE 10 1 (t\<lparr>i_updated := utc 0\<rparr>)"
    using at_stage_step [OF u, of "\<lambda>s. liftE (resume_approval demo_env 0 s)" demo_world t demo_world EXECUTE]
      at_fields [OF u] r
    by (simp add: liftE_def same_case_def t_def demo_grant_def)
  moreover have "i_selected (t\<lparr>i_updated := utc 0\<rparr>) = Some c" "i_result (t\<lparr>i_updated := utc 0\<rparr>) = Some demo_grant"
    using assms(2) by (simp_all add: t_def u_def begun_def)
  ultimately show ?thesis by blast
qed

lemma at_execute:
  assumes "at_stage EXECUTE 10 1 s" "i_selected s = Some c" "i_result s = Some demo_grant"
  shows "\<exists>s'. reach demo_env s' \<and> i_stage s' = VERIFY \<and> i_steps s' = 11 \<and> i_context s' = demo_fixture \<and>
    length (i_history s') = 1"
proof -
  let ?w = "demo_world\<lparr>w_repo := save_idempotent_result 0 ''K'' ''I'' ''remote_reprovision'' None [] repo_empty\<rparr>"
  have r: "result_of (begun 0 s) = demo_grant" "i_selected (begun 0 s) = Some c"
    using assms by (simp_all add: result_of_def begun_def)
  have ex: "get_idempotent_result (w_repo ?w) (py_str (dget ''idempotency_key'' demo_grant)) = Some []"
    by (simp add: save_idempotent_result_def get_idempotent_result_def repo_empty_def demo_grant_def dget_def)
  obtain t where t: "record_execution demo_env 0 c ''K'' (dset ''replayed'' (JBool True) []) (begun 0 s) = Inr t"
    by (auto simp: record_execution_def action_result_of_def bindR_def dget_def dget_or_def check_action_result_def Let_def)
  then have "execute demo_env 0 (begun 0 s) ?w = (Inr t, ?w)"
    using ex unfolding execute_def r
    by (simp add: Let_def bindE_def getE_def liftE_def demo_grant_def dget_def decided_def)
  then have "reach demo_env (t\<lparr>i_updated := utc 0\<rparr>)"
    using assms(1) by (intro reach_handler [of s "execute demo_env 0" ?w]) (auto simp: at_stage_def paused_def)
  moreover have "i_stage t = VERIFY" "same_case (begun 0 s) t" "length (i_history t) = 1"
    using t at_fields [OF assms(1)] by (auto simp: record_execution_def bindR_eq_Inr Let_def log_result_def dget_def
      increment_attempt_def same_case_def add_action_result_def append_once_def)
  ultimately show ?thesis
    using at_fields [OF assms(1)] assms(1)
    by (intro exI [of _ "t\<lparr>i_updated := utc 0\<rparr>"]) (simp add: same_case_def at_stage_def)
qed

lemma at_verify:
  assumes "reach demo_env s" "i_stage s = VERIFY" "i_steps s = 11" "i_context s = demo_fixture" "length (i_history s) = 1"
  shows "\<exists>s'. reach demo_env s' \<and> i_stage s' = RECONCILE \<and> i_steps s' = 12"
proof -
  have c: "i_context (begun 0 s) = demo_fixture" "length (i_history (begun 0 s)) = 1"
    using assms by (simp_all add: begun_def)
  then have "i_history (begun 0 s) \<noteq> []" by (metis One_nat_def length_0_conv n_not_Suc_n)
  then obtain lst where l: "last_action (begun 0 s) = Some lst" unfolding last_action_def by simp
  obtain summ meta where "verification_of demo_env lst (begun 0 s) = Inr (True, summ, meta)"
    using c by (simp add: verification_of_def demo_fixture_reads bindR_def Let_def clamped_def clamp_index_def)
  then obtain t where t: "verify demo_env 0 (begun 0 s) = Inr t" "i_stage t = RECONCILE" "i_steps t = 12"
    using l assms(3) by (simp add: verify_def bindR_def settle_def Let_def)
  then have "reach demo_env (t\<lparr>i_updated := utc 0\<rparr>)"
    using assms by (intro reach_handler [of s "\<lambda>s. liftE (verify demo_env 0 s)" demo_world t demo_world])
      (auto simp: paused_def liftE_def)
  then show ?thesis using t by (intro exI [of _ "t\<lparr>i_updated := utc 0\<rparr>"]) simp
qed

text \<open>The demo case can be closed.\<close>

lemma demo_closed: "\<exists>s. reach demo_env s \<and> i_stage s = CLOSED"
proof -
  obtain s where s: "reach demo_env s" "i_stage s = RECONCILE" "i_steps s = 12"
    using at_verify at_execute at_decision at_policy at_ranking at_fusion at_assistant at_deterministic
      at_evidence at_correlate at_validate at_receive at_start by metis
  have "reach demo_env (reconcile demo_env 0 (begun 0 s)\<lparr>i_updated := utc 0\<rparr>)"
    using s by (intro reach_handler [of s "\<lambda>s. retE (reconcile demo_env 0 s)" demo_world _ demo_world])
      (auto simp: paused_def retE_def)
  then show ?thesis by (intro exI) (auto simp: reconcile_def)
qed

end
