(* ===== verification/WorkflowLaws.thy ===== *)
theory WorkflowLaws
  imports DemoRun
begin

text \<open>
  The properties of the workflow: the engine over the in-process tool client, the
  service's decisions, and the histories of a case, each with a concrete witness.
\<close>

subsection \<open>Effects need an approval\<close>

text \<open>
  C1. With the in-process tool client, a step of the engine newly executes an effect
  key at the tool server only in the execution stage, with an approve or override
  decision on record, for the key that decision names, which the idempotency table does
  not hold yet, and with an approval token that verifies at that time for this incident,
  the selected action and this key.
\<close>

theorem no_effect_without_approval:
  assumes "en_call E = in_process_call D secret fx"
    and "es_executed (w_server (snd (run_one E now s w))) k" "\<not> es_executed (w_server w) k"
  shows "i_stage s = EXECUTE \<and> decided (dget ''decision'' (result_of s)) \<and>
    k = py_str (dget ''idempotency_key'' (result_of s)) \<and> get_idempotent_result (w_repo w) k = None \<and>
    (\<exists>c token. i_selected s = Some c \<and> dindex ''approval_token'' (result_of s) = Inr token \<and>
       is_ok (verify_approval_for D now (py_str token) secret (i_id s) (action_value (c_action c)) k))"
  using ip.run_one_ran [OF assms(1), unfolded ip.ran_def, OF assms(2,3)]
  unfolding ip.authorised_def by blast

theorem no_effect_without_approval_witness:
  "es_executed (w_server (snd (run_one demo_env 0 demo_granted demo_world))) ''K'' \<and>
   get_idempotent_result (w_repo demo_world) ''K'' = None"
proof -
  have "es_executed (w_server (snd (run_one demo_env 0 demo_granted demo_world))) ''K''" by code_simp
  moreover have "\<not> es_executed (w_server demo_world) ''K''"
    by (simp add: demo_world_def es_empty_def es_executed_def)
  moreover have "en_call demo_env = in_process_call demo_D ''s'' demo_fixtures" by (simp add: demo_env_def)
  ultimately show ?thesis
    using no_effect_without_approval [of demo_env demo_D "''s''" demo_fixtures 0 demo_granted demo_world "''K''"]
    by blast
qed

text \<open>Without a decision on record the loop never reaches the execution stage.\<close>

lemma run_loop_undecided:
  assumes call: "en_call E = in_process_call D secret fx"
  shows "\<not> decided (dget ''decision'' (result_of s)) \<Longrightarrow> i_stage s \<noteq> EXECUTE \<Longrightarrow> result_of s = [] \<Longrightarrow>
    run_loop n E clk s w = Some (r, w') \<Longrightarrow> es_executed (w_server w') k = es_executed (w_server w) k"
proof (induction n arbitrary: clk s w)
  case 0
  then show ?case by simp
next
  case (Suc n)
  obtain r1 w1 where r1: "run_one E (clk 0) s w = (r1, w1)" by fastforce
  have same: "es_executed (w_server w1) k = es_executed (w_server w) k"
    using ip.run_one_ran [OF call, of "clk 0" s w k] ip.run_one_mono [OF call, of w k "clk 0" s] r1 Suc.prems(2)
    by (auto simp: ip.ran_def)
  show ?case
  proof (cases r1)
    case (Inl e)
    then show ?thesis using r1 Suc.prems same by simp
  next
    case (Inr s')
    show ?thesis
    proof (cases "stops s s'")
      case True
      then show ?thesis using r1 Inr Suc.prems same by simp
    next
      case False
      have rs: "result_of s' = []" "i_stage s' \<noteq> EXECUTE"
        using run_one_quiet [OF r1 [unfolded Inr] Suc.prems(3)] False Suc.prems(2) by auto
      then have "\<not> decided (dget ''decision'' (result_of s'))" by (simp add: decided_def dget_def)
      from Suc.IH [OF this rs(2,1)] show ?thesis
        using r1 Inr False Suc.prems(4) same by simp
    qed
  qed
qed

text \<open>
  Starting a scenario and running it until it pauses executes nothing at the tool
  server: whatever the scenario, the clock and the assistant, and also when the start
  ends with an error, the executed keys are those from before.
\<close>

theorem start_executes_nothing:
  assumes "en_call E = in_process_call D secret fx"
  shows "es_executed (w_server (snd (start_scenario E fixs hexid now clk name run w))) k = es_executed (w_server w) k"
proof -
  have loop: "es_executed (w_server (snd (run_until_pause E clk s w'))) k = es_executed (w_server w') k"
    if "s = (new_incident i n t te p sr cr sl cx)\<lparr>i_updated := u\<rparr>" for s i n t te p sr cr sl cx u w'
  proof -
    obtain r w'' where "run_until_pause E clk s w' = (r, w'')" by fastforce
    moreover obtain m where "run_loop m E clk s w' = Some (run_until_pause E clk s w')"
      using run_until_pause_eq by blast
    ultimately have "run_loop m E clk s w' = Some (r, w'')" by simp
    moreover have "result_of s = []" "i_stage s \<noteq> EXECUTE"
      using that by (simp_all add: new_incident_def result_of_def)
    moreover from this have "\<not> decided (dget ''decision'' (result_of s))" by (simp add: decided_def dget_def)
    ultimately show ?thesis
      using run_loop_undecided [OF assms] \<open>run_until_pause E clk s w' = (r, w'')\<close> by fastforce
  qed
  show ?thesis
    by (auto simp: start_scenario_def snd_bindE Let_def store_incident_def save_incident_def loop
        split: sum.split prod.split)
qed

theorem start_executes_nothing_witness:
  "es_executed (w_server (snd (start_scenario demo_env demo_fixtures ''1'' 0 (\<lambda>_. 0) ''demo'' True demo_world))) ''K'' =
   es_executed (w_server demo_world) ''K''"
  by (rule start_executes_nothing [of demo_env demo_D "''s''" demo_fixtures]) (simp add: demo_env_def)

subsection \<open>Reachable cases\<close>

text \<open>
  C2. A case is closed only after a verification that passed: every reachable case in the
  closed stage carries a positive verification and the closed status.
\<close>

theorem closed_is_verified:
  assumes "reach E s" "settings_ok (en_settings E)" "i_stage s = CLOSED"
  shows "i_verified s = Some True \<and> i_status s = CS_CLOSED"
  using reach_case_ok [OF assms(1,2)] assms(3) by (simp add: case_defs)

theorem closed_is_verified_witness:
  "\<exists>s :: incident. i_stage s = CLOSED \<and> i_verified s = Some True \<and> i_status s = CS_CLOSED"
proof -
  obtain s where "reach demo_env s" "i_stage s = CLOSED" using demo_closed by blast
  moreover have "settings_ok (en_settings demo_env)"
    by (simp add: settings_ok_def demo_env_def demo_settings_def)
  ultimately show ?thesis using closed_is_verified [of demo_env s] by blast
qed

text \<open>
  C3. The budgets bound every reachable case: remote attempts, field visits and MR
  attempts never exceed their maximum, the diagnostic cycles exceed theirs by at most
  one, and only in an escalated case, and the steps never exceed the step budget.
\<close>

theorem reachable_budgets:
  assumes "reach E s" "settings_ok (en_settings E)"
  shows "i_remote s \<le> st_max_remote (en_settings E) \<and> i_field s \<le> st_max_field (en_settings E) \<and>
    i_mr s \<le> st_max_mr (en_settings E) \<and> i_steps s \<le> st_max_steps (en_settings E) \<and>
    i_cycles s \<le> st_max_cycles (en_settings E) + (if i_stage s = ESCALATED then 1 else 0)"
  using reach_case_ok [OF assms] reach_steps [OF assms(1)] by (simp add: case_ok_def budget_ok_def attempts_within_def)

theorem reachable_budgets_witness:
  "i_remote demo_case \<le> 2 \<and> i_steps demo_case \<le> 40"
  using reachable_budgets [of demo_env demo_case] at_start
  by (simp add: at_stage_def settings_ok_def demo_env_def demo_settings_def)

subsection \<open>The loop and the step\<close>

text \<open>
  C4. The engine's loop always ends: within two more rounds than the step budget it
  returns, with an error of a handler or with a case that is finished or waits for a
  decision.
\<close>

theorem run_until_pause_ends:
  "\<exists>r w'. run_loop (st_max_steps (en_settings E) + 2) E clk s w = Some (r, w') \<and>
     run_until_pause E clk s w = (r, w') \<and>
     (case r of Inl e \<Rightarrow> True | Inr s' \<Rightarrow> terminal (i_stage s') \<or> i_stage s' = WAITING_APPROVAL)"
proof -
  have "st_max_steps (en_settings E) - i_steps s < st_max_steps (en_settings E) + 2" by simp
  from run_loop_enough [OF this] obtain r w' where
    l: "run_loop (st_max_steps (en_settings E) + 2) E clk s w = Some (r, w')" by fastforce
  then have "run_until_pause E clk s w = (r, w')" by (simp add: run_until_pause_def)
  moreover have "case r of Inl e \<Rightarrow> True | Inr s' \<Rightarrow> terminal (i_stage s') \<or> i_stage s' = WAITING_APPROVAL"
    using run_loop_stops [of _ E clk s w _ w'] l by (cases r) (simp_all del: run_loop.simps)
  ultimately show ?thesis using l by blast
qed

text \<open>
  C5. A step refines the stage machine and keeps the case's identity: it leaves a
  finished or waiting case alone, escalates a case whose step budget is used up, and
  otherwise moves along an edge of the machine, counting one step.
\<close>

theorem step_refines_stage_machine:
  assumes "run_one E now s w = (Inr s', w')"
  shows "(if terminal (i_stage s) \<or> paused s then s' = s \<and> w' = w
     else if st_max_steps (en_settings E) \<le> i_steps s then i_stage s' = ESCALATED \<and> i_steps s' = i_steps s
     else i_stage s' \<in> set (next_stages (i_stage s)) \<and> i_steps s' = i_steps s + 1) \<and>
    i_id s' = i_id s \<and> i_created s' = i_created s \<and> i_sla_deadline s' = i_sla_deadline s \<and>
    i_technology s' = i_technology s \<and> i_scenario s' = i_scenario s"
  using assms
proof (cases rule: run_one_cases)
  case 2
  then show ?thesis using escalate_facts(1) [of s E now] by (auto simp: same_case_def)
next
  case 3
  then show ?thesis by (auto simp: step_ok_def same_case_def begun_def)
qed auto

theorem step_refines_stage_machine_witness:
  "\<exists>s'. fst (run_one demo_env 0 demo_case demo_world) = Inr s' \<and> i_stage s' = VALIDATE \<and> i_steps s' = 1"
proof -
  have c: "\<not> terminal (i_stage demo_case)" "\<not> paused demo_case" "i_steps demo_case = 0" "i_stage demo_case = NEW"
    by (simp_all add: demo_case_def new_incident_def terminal_def paused_def)
  have "\<exists>s' w'. run_one demo_env 0 demo_case demo_world = (Inr s', w')"
    using c by (simp add: run_one_def demo_env_def demo_settings_def bindE_def retE_def store_incident_def
        save_incident_def Let_def emit_telemetry_def)
  then obtain s' w' where r: "run_one demo_env 0 demo_case demo_world = (Inr s', w')" by blast
  have "st_max_steps (en_settings demo_env) = 40" by (simp add: demo_env_def demo_settings_def)
  with step_refines_stage_machine [OF r] c have "i_stage s' = VALIDATE" "i_steps s' = 1" by simp_all
  then show ?thesis by (simp add: r)
qed
end
