(* ===== verification/DecisionLaws.thy ===== *)
theory DecisionLaws
  imports DemoRun
begin

text \<open>
  The properties of approval decisions: who may decide, that a decision is final, what
  the database keeps while a case runs, and what a granted approval authorises.
\<close>

subsection \<open>What a step does to the database\<close>

text \<open>The tables stay well-formed, and an approval that is not pending keeps its row.\<close>

definition settled :: "repo \<Rightarrow> repo \<Rightarrow> bool" where
  "settled rp rp' \<longleftrightarrow> (repo_inv rp \<longrightarrow> repo_inv rp' \<and>
     (\<forall>k a. get_approval rp k = Some a \<and> a_status a \<noteq> AP_PENDING \<longrightarrow> get_approval rp' k = Some a))"

lemma settled_refl [simp]: "settled rp rp"
  by (simp add: settled_def)

lemma settled_trans: "settled a b \<Longrightarrow> settled b c \<Longrightarrow> settled a c"
  by (simp add: settled_def)

lemma get_approval_id: "repo_inv rp \<Longrightarrow> get_approval rp k = Some a \<Longrightarrow> a_id a = k"
  by (auto simp: repo_inv_def get_approval_def dest!: map_of_SomeD)

lemma settled_save_incident [simp]: "settled rp (snd (save_incident now s rp))"
  by (simp add: settled_def save_incident_inv get_approval_def)

lemma settled_idempotent [simp]: "settled rp (save_idempotent_result now k i a p r rp)"
  by (simp add: settled_def save_idempotent_inv get_approval_def)

lemma store_incident_settled: "settled (w_repo w) (w_repo (snd (store_incident now s w)))"
  using settled_save_incident [of "w_repo w" now s] by (simp add: store_incident_def split_def)

text \<open>Saving what was read under an identity, or a new row there, settles nothing anew.\<close>

lemma settled_approval_or_new:
  "settled rp (snd (save_approval (approval_or_new now (get_approval rp k) k s kind act role p key) rp))"
proof -
  let ?a = "approval_or_new now (get_approval rp k) k s kind act role p key"
  have "get_approval (snd (save_approval ?a rp)) j = Some b"
    if "repo_inv rp" "get_approval rp j = Some b" for j b
  proof (cases "j = k")
    case True
    then show ?thesis
      using that get_approval_id [OF that(1)]
      by (simp add: approval_or_new_def save_approval_def get_approval_def)
  next
    case False
    have "a_id ?a = k"
      using that(1) get_approval_id by (auto simp: approval_or_new_def split: option.split)
    then show ?thesis using that(2) False by (simp add: save_approval_def get_approval_def)
  qed
  then show ?thesis by (simp add: settled_def save_approval_inv)
qed

lemma prepare_settled: "settled (w_repo w) (w_repo (snd (prepare_approval E now kind act role p s w)))"
  by (auto simp: prepare_approval_def snd_bindE Let_def store_approval_eq settled_approval_or_new
      split: prod.split sum.split)

lemma call_tool_repo [simp]: "w_repo (snd (call_tool E now name args w)) = w_repo w"
  by (simp add: call_tool_eq)

lemma perform_settled: "settled (w_repo w) (w_repo (snd (perform E now c aid key tool token s w)))"
  using call_tool_repo [of E now tool "execute_arguments s c key token" w]
  by (auto simp: perform_def call_tool_eq split: sum.split option.split)

lemma correlate_repo: "w_repo (snd (correlate E now s w)) = w_repo w"
  by (auto simp: correlate_def snd_bindE split: sum.split prod.split)

lemma assemble_evidence_repo: "w_repo (snd (assemble_evidence E now s w)) = w_repo w"
  by (auto simp: assemble_evidence_def Let_def snd_bindE split: sum.split)

lemma fusion_settled: "settled (w_repo w) (w_repo (snd (fusion E now s w)))"
  by (auto simp: fusion_def Let_def snd_bindE prepare_settled split: option.split sum.split)

lemma policy_settled: "settled (w_repo w) (w_repo (snd (policy E now s w)))"
  by (auto simp: policy_def Let_def prepare_settled split: option.split prod.split)

lemma execute_settled: "settled (w_repo w) (w_repo (snd (execute E now s w)))"
  by (auto simp: execute_def Let_def snd_bindE perform_settled split: option.split sum.split)

lemma handler_settled:
  assumes "handler_for E now st = Some h"
  shows "settled (w_repo w) (w_repo (snd (h s w)))"
  using assms
  by (cases st) (auto simp: correlate_repo assemble_evidence_repo fusion_settled policy_settled execute_settled)

lemma run_one_settled: "settled (w_repo w) (w_repo (snd (run_one E now s w)))"
proof -
  have rest: "settled (w_repo v) (w_repo (snd (bindE (store_incident now t) (\<lambda>u. bindE (emit_telemetry E u) (\<lambda>_. retE u)) v)))"
    for t v
    by (auto simp: snd_bindE store_incident_def emit_telemetry_def Let_def
        split: prod.split option.split sum.split) (metis settled_save_incident snd_conv)+
  have "settled (w_repo w) (w_repo (snd (bindE (h u) (\<lambda>t. bindE (store_incident now t) (\<lambda>u. bindE (emit_telemetry E u) (\<lambda>_. retE u))) w)))"
    if "handler_for E now st = Some h" for h st u
    using handler_settled [OF that, of w u] rest
    by (auto simp: bindE_def [of "h u"] split: prod.split sum.split intro: settled_trans)
  then show ?thesis by (auto simp: run_one_def split: option.split)
qed

lemma run_loop_settled: "run_loop n E clk s w = Some (r, w') \<Longrightarrow> settled (w_repo w) (w_repo w')"
proof (induction n arbitrary: clk s w)
  case 0
  then show ?case by simp
next
  case (Suc n)
  have "settled (w_repo w) (w_repo (snd (run_one E (clk 0) s w)))" by (rule run_one_settled)
  then show ?case
    using Suc by (auto split: prod.splits sum.splits if_splits intro: settled_trans)
qed

lemma run_until_pause_settled: "settled (w_repo w) (w_repo (snd (run_until_pause E clk s w)))"
proof -
  obtain r w' where "run_until_pause E clk s w = (r, w')" by fastforce
  then show ?thesis
    using run_until_pause_eq [of E clk s w] run_loop_settled [of _ E clk s w r w'] by auto
qed

subsection \<open>Deciding an approval\<close>

text \<open>A decision that changes anything has passed every check; afterwards it is on record.\<close>

lemma store_approval_snd: "w_repo (snd (store_approval a w)) = snd (save_approval a (w_repo w))"
  "fst (store_approval a w) = fst (save_approval a (w_repo w))"
  "w_server (snd (store_approval a w)) = w_server w"
  by (simp_all add: store_approval_eq)

lemma check_decision_Inr:
  "check_decision a q = Inr u \<longleftrightarrow> a_status a = AP_PENDING \<and> q_role q \<in> set (role_permissions (a_kind a)) \<and>
     (q_decision q \<in> {REJECT, OVERRIDE, REQUEST_MORE} \<longrightarrow> strip (q_reason q) \<noteq> [])"
  by (auto simp: check_decision_def)

lemma decide_refused:
  assumes "get_approval (w_repo w) k = Some a" "check_decision a q = Inl e"
  shows "decide_approval E now clk k q w = (Inl e, w)"
  using assms by (simp add: decide_approval_def bindE_def getE_def liftE_def)

text \<open>
  C6. Only a checked decision touches anything: if deciding an approval changes the
  world in any way, the approval existed and was pending, the deciding role is permitted
  for its kind, and a rejection, an override or a request for more evidence gave a
  reason that is not blank.
\<close>

theorem decide_guarded:
  assumes "snd (decide_approval E now clk approval_id q w) \<noteq> w"
  shows "\<exists>a. get_approval (w_repo w) approval_id = Some a \<and> a_status a = AP_PENDING \<and>
    q_role q \<in> set (role_permissions (a_kind a)) \<and>
    (q_decision q = APPROVE \<or> strip (q_reason q) \<noteq> [])"
proof -
  obtain a where a: "get_approval (w_repo w) approval_id = Some a"
    using assms by (cases "get_approval (w_repo w) approval_id")
      (simp_all add: decide_approval_def bindE_def getE_def liftE_def)
  then have "check_decision a q = Inr ()"
    using assms decide_refused [OF a] by (cases "check_decision a q") auto
  then show ?thesis using a by (cases "q_decision q") (auto simp: check_decision_Inr)
qed

definition demo_reject :: decision_input where
  "demo_reject = \<lparr>q_decision = REJECT, q_actor = ''ana'', q_role = ''noc_analyst'', q_reason = ''no'',
     q_option = None, q_domain = None\<rparr>"

lemma demo_reject_run:
  "case decide_approval demo_env 0 (\<lambda>_. 0) ''A'' demo_reject demo_store of
     (Inr s, w') \<Rightarrow> i_stage s = ESCALATED \<and> map (a_status \<circ> snd) (rp_approvals (w_repo w')) = [AP_REJECTED]
   | _ \<Rightarrow> False"
  by code_simp

lemma demo_reject_result:
  obtains s w' where "decide_approval demo_env 0 (\<lambda>_. 0) ''A'' demo_reject demo_store = (Inr s, w')"
    "i_stage s = ESCALATED" "map (a_status \<circ> snd) (rp_approvals (w_repo w')) = [AP_REJECTED]"
  using demo_reject_run by (auto split: prod.splits sum.splits)

theorem decide_guarded_witness:
  "\<exists>a. get_approval (w_repo demo_store) ''A'' = Some a \<and> a_status a = AP_PENDING \<and>
    q_role demo_reject \<in> set (role_permissions (a_kind a)) \<and> strip (q_reason demo_reject) \<noteq> []"
proof -
  obtain s w' where r: "decide_approval demo_env 0 (\<lambda>_. 0) ''A'' demo_reject demo_store = (Inr s, w')"
    "map (a_status \<circ> snd) (rp_approvals (w_repo w')) = [AP_REJECTED]"
    by (rule demo_reject_result)
  have "map (a_status \<circ> snd) (rp_approvals (w_repo demo_store)) = [AP_PENDING]"
    by (simp add: demo_store_def demo_approval_def)
  then have "w' \<noteq> demo_store" using r(2) by auto
  then show ?thesis
    using decide_guarded [of demo_env 0 "\<lambda>_. 0" "''A''" demo_reject demo_store] r(1)
    by (auto simp: demo_reject_def)
qed

text \<open>The decision as a sequence: the checks, the record, the resumed run, the consumption.\<close>

lemma decide_approval_Inr:
  assumes "decide_approval E now clk k q w = (Inr s'', w')"
  obtains a w1 s s' w2 w3 where "get_approval (w_repo w) k = Some a" "check_decision a q = Inr ()"
    "store_approval (decided_approval now q a) w = (Inr (), w1)" "get_incident (w_repo w1) (a_incident a) = Some s"
    "i_pending s = Some k"
    "store_incident now (s\<lparr>i_result := Some (decision_result E now q (decided_approval now q a)), i_status := CS_OPEN\<rparr>) w1 = (Inr s', w2)"
    "run_until_pause E clk s' w2 = (Inr s'', w3)"
    "w' = w3 \<or> (\<exists>b. a_id b = a_id a \<and> a_status b = AP_CONSUMED \<and> store_approval b w3 = (Inr (), w'))"
    "consumes q (decided_approval now q a) (length (i_history s)) s'' \<longrightarrow>
      (\<exists>b. a_id b = a_id a \<and> a_status b = AP_CONSUMED \<and> store_approval b w3 = (Inr (), w'))"
proof -
  obtain a where a: "get_approval (w_repo w) k = Some a"
    using assms by (cases "get_approval (w_repo w) k") (simp_all add: decide_approval_def bindE_def getE_def liftE_def)
  have c: "check_decision a q = Inr ()"
    using assms decide_refused [OF a, of q] by (cases "check_decision a q") auto
  let ?d = "decided_approval now q a"
  have inc: "a_incident ?d = a_incident a" "a_id ?d = a_id a" by (simp_all add: decided_approval_def)
  obtain w1 where st: "store_approval ?d w = (Inr (), w1)"
    using assms a c by (auto simp: decide_approval_def Let_def eff_simps)
  obtain s where s: "get_incident (w_repo w1) (a_incident a) = Some s"
    using assms a c st
    by (cases "get_incident (w_repo w1) (a_incident a)")
      (auto simp: decide_approval_def Let_def eff_simps service_get_def inc)
  let ?u = "s\<lparr>i_result := Some (decision_result E now q ?d), i_status := CS_OPEN\<rparr>"
  have pend: "i_pending s = Some k"
    using assms a c st s by (auto simp: decide_approval_def Let_def eff_simps service_get_def inc split: if_splits)
  obtain s' w2 w3 where run: "store_incident now ?u w1 = (Inr s', w2)" "run_until_pause E clk s' w2 = (Inr s'', w3)"
    and rest: "(if consumes q ?d (length (i_history s)) s''
      then bindE (store_approval (?d\<lparr>a_status := AP_CONSUMED, a_consumed_at := Some (utc now)\<rparr>)) (\<lambda>_. retE s'')
      else retE s'') w3 = (Inr s'', w')"
  proof -
    have "bindE (store_incident now ?u) (\<lambda>s'. bindE (run_until_pause E clk s') (\<lambda>s''.
        if consumes q ?d (length (i_history s)) s''
        then bindE (store_approval (?d\<lparr>a_status := AP_CONSUMED, a_consumed_at := Some (utc now)\<rparr>)) (\<lambda>_. retE s'')
        else retE s'')) w1 = (Inr s'', w')"
      using assms a c st s pend by (simp add: decide_approval_def Let_def bindE_def service_get_def inc)
    then obtain s' w2 t w3 where x: "store_incident now ?u w1 = (Inr s', w2)" "run_until_pause E clk s' w2 = (Inr t, w3)"
      "(if consumes q ?d (length (i_history s)) t
        then bindE (store_approval (?d\<lparr>a_status := AP_CONSUMED, a_consumed_at := Some (utc now)\<rparr>)) (\<lambda>_. retE t)
        else retE t) w3 = (Inr s'', w')"
      unfolding bindE_eq_Inr by blast
    then have "t = s''" by (auto simp: eff_simps split: if_splits)
    then show thesis using that x by blast
  qed
  show thesis
  proof (cases "consumes q ?d (length (i_history s)) s''")
    case True
    then have "store_approval (?d\<lparr>a_status := AP_CONSUMED, a_consumed_at := Some (utc now)\<rparr>) w3 = (Inr (), w')"
      using rest by (auto simp: eff_simps)
    moreover have "a_id (?d\<lparr>a_status := AP_CONSUMED, a_consumed_at := Some (utc now)\<rparr>) = a_id a"
      "a_status (?d\<lparr>a_status := AP_CONSUMED, a_consumed_at := Some (utc now)\<rparr>) = AP_CONSUMED"
      using inc by simp_all
    ultimately show thesis using that [OF a c st s pend run] by blast
  next
    case False
    then show thesis using that [OF a c st s pend run] rest by simp
  qed
qed

text \<open>
  C7. A decision is final: once deciding an approval has returned a case, the approval is
  on record as decided, and every further decision on it, by anyone and at any time, is
  refused as a conflict and changes nothing.
\<close>

theorem decision_final:
  assumes "repo_inv (w_repo w)" "decide_approval E now clk approval_id q w = (Inr s, w')"
  shows "\<exists>msg. decide_approval E now' clk' approval_id q' w' = (Inl (ApprovalConflict msg), w')"
  using assms(2)
proof (cases rule: decide_approval_Inr)
  case (1 a w1 t s' w2 w3)
  let ?d = "decided_approval now q a"
  have id: "a_id a = approval_id" using assms(1) 1(1) by (rule get_approval_id)
  have st: "a_id ?d = approval_id" "a_status ?d \<noteq> AP_PENDING"
    using id by (simp_all add: decided_approval_def) (cases "q_decision q"; simp)
  have w1: "repo_inv (w_repo w1)" "get_approval (w_repo w1) approval_id = Some ?d"
    using 1(3) assms(1) save_approval_inv get_save_approval [of ?d "w_repo w" "()" "w_repo w1" approval_id] st(1)
    by (auto simp: store_approval_eq prod_eq_iff)
  have "settled (w_repo w1) (w_repo w2)"
    using store_incident_settled 1(6) by (metis snd_conv)
  moreover have "settled (w_repo w2) (w_repo w3)"
    using run_until_pause_settled [of w2 E clk s'] 1(7) by simp
  ultimately have "get_approval (w_repo w3) approval_id = Some ?d"
    using w1 st(2) by (auto simp: settled_def)
  then have "\<exists>b. get_approval (w_repo w') approval_id = Some b \<and> a_status b \<noteq> AP_PENDING"
    using 1(8) st id get_save_approval [of _ "w_repo w3" "()" "w_repo w'" approval_id]
    by (force simp: store_approval_eq prod_eq_iff)
  then obtain b where b: "get_approval (w_repo w') approval_id = Some b" "a_status b \<noteq> AP_PENDING" by blast
  then obtain msg where "check_decision b q' = Inl (ApprovalConflict msg)"
    by (cases "a_status b = AP_CONSUMED") (simp_all add: check_decision_def)
  then show ?thesis using decide_refused [OF b(1)] by blast
qed

lemma demo_store_inv: "repo_inv (w_repo demo_store)"
  by (simp add: demo_store_def repo_inv_def demo_approval_def demo_waiting_def demo_case_def new_incident_def repo_empty_def
      row_of_def demo_world_def)

theorem decision_final_witness:
  "\<exists>msg w'. decide_approval demo_env 9 (\<lambda>_. 9) ''A'' (demo_reject\<lparr>q_decision := APPROVE\<rparr>) w' =
     (Inl (ApprovalConflict msg), w')"
proof -
  obtain s w' where "decide_approval demo_env 0 (\<lambda>_. 0) ''A'' demo_reject demo_store = (Inr s, w')"
    by (rule demo_reject_result)
  from decision_final [OF demo_store_inv this] show ?thesis by blast
qed

subsection \<open>The database while a case runs\<close>

text \<open>
  C16. Running a case never damages the database: the tables stay well-formed (unique
  keys, rows filed under their own identity, one approval per idempotency key), and an
  approval that has been decided keeps its row, whatever the handlers, the tools and the
  assistant answer and whether the run returns or raises.
\<close>

theorem run_keeps_database:
  assumes "repo_inv (w_repo w)" "run_until_pause E clk s w = (r, w')"
  shows "repo_inv (w_repo w') \<and>
    (\<forall>k a. get_approval (w_repo w) k = Some a \<and> a_status a \<noteq> AP_PENDING \<longrightarrow> get_approval (w_repo w') k = Some a)"
  using run_until_pause_settled [of w E clk s] assms by (simp add: settled_def)

theorem run_keeps_database_witness:
  "repo_inv (w_repo (snd (run_until_pause demo_env (\<lambda>_. 0) demo_case demo_store)))"
  using run_keeps_database [OF demo_store_inv, of demo_env "\<lambda>_. 0" demo_case] by (metis prod.collapse)

end
