(* ===== verification/ToolLaws.thy ===== *)
theory ToolLaws
  imports DemoRun
begin

text \<open>
  The properties of the controls around an effect: tokens, idempotency keys, the tool
  registry and its effect store.
\<close>

subsection \<open>Approval tokens\<close>

lemma approval_claims_wf:
  "wf_json (JObj [(''approval_id'', JStr a), (''incident_id'', JStr i), (''action_type'', JStr t),
     (''idempotency_key'', JStr k), (''status'', JStr s), (''exp'', JFloat (of_int us / 1000000))])"
proof -
  have "(of_int us / 1000000) * 10 ^ 17 = (of_int (us * 10 ^ 11) :: rat)" by simp
  then have "plain_float (of_int us / 1000000)" unfolding plain_float_def by (metis Ints_of_int)
  then show ?thesis by simp
qed

text \<open>
  C10. The token of a granted approval authorises exactly that approval: at any time it
  is accepted for an incident, an action and an idempotency key if and only if they are
  the approval's own and its thirty minutes are not over.
\<close>

theorem granted_token_scope:
  assumes "0 \<le> now" "now < 253402300800000000 - 1800000000"
  shows "is_ok (verify_approval_for D t (build_approval_token D secret now a) secret inc act key) \<longleftrightarrow>
    t < now + 1800000000 \<and> inc = a_incident a \<and> act = a_action a \<and> key = a_key a"
proof -
  let ?us = "now + 1800000000"
  let ?claims = "[(''approval_id'', JStr (a_id a)), (''incident_id'', JStr (a_incident a)),
     (''action_type'', JStr (a_action a)), (''idempotency_key'', JStr (a_key a)), (''status'', JStr ''approved''),
     (''exp'', JFloat (of_int ?us / 1000000))]"
  let ?canon = "sort_key fst (map (\<lambda>p. (fst p, canon (snd p))) ?claims)"
  have wf: "wf_json (JObj ?claims)" by (rule approval_claims_wf)
  have v: "verify_approval_token D t (build_approval_token D secret now a) secret =
      (if ?us \<le> t then Inl (ApprovalTokenError ''APPROVAL_TOKEN_EXPIRED'') else Inr ?canon)"
    unfolding build_approval_token_def
    by (rule verify_create_token [OF wf]) (use assms in \<open>simp_all add: dget_def\<close>)
  have get: "dget k ?canon = canon (dget k ?claims)" for k by (rule dget_canon [OF wf])
  have f: "dget ''status'' ?canon = JStr ''approved''" "dget ''incident_id'' ?canon = JStr (a_incident a)"
    "dget ''action_type'' ?canon = JStr (a_action a)" "dget ''idempotency_key'' ?canon = JStr (a_key a)"
    unfolding get by (simp_all add: dget_def)
  have ok: "is_ok r \<longleftrightarrow> (\<exists>c. r = Inr c)" for r :: "dict res" by (cases r) (auto simp: is_ok_def)
  show ?thesis
    unfolding ok verify_approval_for_Inr v using f by (auto simp: not_le)
qed

theorem granted_token_scope_witness:
  "is_ok (verify_approval_for demo_D 5 demo_token ''s'' ''I'' ''remote_reprovision'' ''K'') \<and>
   \<not> is_ok (verify_approval_for demo_D 5 demo_token ''s'' ''I'' ''plant_action'' ''K'')"
  unfolding demo_token_def
  using granted_token_scope [of 0 demo_D 5 "''s''" demo_approval "''I''" _ "''K''"]
  by (simp add: demo_approval_def)

text \<open>
  C11. What an accepted token is: it has a payload and a signature, the signature decodes
  to the keyed hash of the payload under the secret, the payload decodes to the claims
  returned, these grant this incident, action and key, and they expire later than now.
\<close>

theorem accepted_token_is_signed:
  assumes "verify_approval_for D now token secret inc act key = Inr claims"
  shows "\<exists>encoded sig payload t us. token = encoded @ CHR ''.'' # sig \<and>
    b64decode sig = Inr (hmac D (utf8 secret) encoded) \<and> b64decode encoded = Inr payload \<and>
    token_claims payload = Inr claims \<and> dget ''status'' claims = JStr ''approved'' \<and>
    dget ''incident_id'' claims = JStr inc \<and> dget ''action_type'' claims = JStr act \<and>
    dget ''idempotency_key'' claims = JStr key \<and>
    py_float (dget ''exp'' claims) = Inr t \<and> fromtimestamp t = Inr us \<and> now < us"
proof -
  have v: "verify_approval_token D now token secret = Inr claims"
    and scope: "dget ''status'' claims = JStr ''approved''" "dget ''incident_id'' claims = JStr inc"
      "dget ''action_type'' claims = JStr act" "dget ''idempotency_key'' claims = JStr key"
    using assms by (simp_all add: verify_approval_for_Inr)
  obtain encoded sig payload where tok: "token = encoded @ CHR ''.'' # sig"
      "b64decode sig = Inr (hmac D (utf8 secret) encoded)" "b64decode encoded = Inr payload"
      "token_claims payload = Inr claims" and ex: "check_expiry now claims = Inr claims"
    by (rule verify_approval_token_Inr [OF v])
  obtain t us where "py_float (dget ''exp'' claims) = Inr t" "fromtimestamp t = Inr us" "now < us"
    using ex by (auto simp: check_expiry_Inr)
  then show ?thesis using tok scope by blast
qed

theorem accepted_token_is_signed_witness:
  "\<exists>encoded sig. demo_token = encoded @ CHR ''.'' # sig \<and> b64decode sig = Inr (hmac demo_D (utf8 ''s'') encoded)"
proof -
  have "is_ok (verify_approval_for demo_D 0 demo_token ''s'' ''I'' ''remote_reprovision'' ''K'')"
    by code_simp
  then obtain claims where "verify_approval_for demo_D 0 demo_token ''s'' ''I'' ''remote_reprovision'' ''K'' = Inr claims"
    by (auto simp: is_ok_def split: sum.splits)
  from accepted_token_is_signed [OF this] show ?thesis by blast
qed

subsection \<open>The effect store\<close>

text \<open>A sequence of tool calls, each at its time, whatever they answer.\<close>

fun run_calls ::
  "(string \<Rightarrow> string) \<Rightarrow> string \<Rightarrow> fixtures \<Rightarrow> (int \<times> string \<times> dict) list \<Rightarrow> effect_store \<Rightarrow> effect_store" where
  "run_calls D secret fx [] st = st"
| "run_calls D secret fx ((now, name, args) # cs) st =
     run_calls D secret fx cs (snd (registry_call D secret fx now name args st))"

lemma registry_call_linked:
  assumes "es_linked st"
  shows "es_linked (snd (registry_call D secret fx now n args st))"
proof -
  obtain r st' where c: "registry_call D secret fx now n args st = (r, st')" by fastforce
  show ?thesis
  proof (cases "st' = st")
    case True
    then show ?thesis using assms c by simp
  next
    case False
    obtain result acts where "es.records D secret now st args acts result st'"
      by (rule registry_call_effect [OF c False])
    then obtain k i t a where g: "es_get st k = Inr None" and cm: "es_commit_effect st k i t a result = (Inr (), st')"
      by (auto simp: es.records_def)
    have "map_of (es_effects st) k = None"
      using g by (auto simp: es_get_def split: option.splits json.splits)
    from es_commit_linked [OF assms this, of i t a result] show ?thesis by (simp add: c cm)
  qed
qed

lemma run_calls_linked: "es_linked st \<Longrightarrow> es_linked (run_calls D secret fx cs st)"
  by (induction cs arbitrary: st) (auto simp: registry_call_linked)

text \<open>
  C9. An approval pays for one effect: after any sequence of tool calls, no two effect
  keys on record were executed under the same approval.
\<close>

theorem approval_single_use:
  assumes "map_of (es_effects (run_calls D secret fx cs es_empty)) k = Some row"
    and "map_of (es_effects (run_calls D secret fx cs es_empty)) k' = Some row'"
    and "f_approval row = f_approval row'"
  shows "k = k'"
  using es_linked_single_use [OF _ assms] run_calls_linked by simp

definition demo_args :: dict where
  "demo_args = [(''incident_id'', JStr ''I''), (''scenario_name'', JStr ''demo''),
     (''action_type'', JStr ''remote_reprovision''), (''attempt'', JInt 1), (''idempotency_key'', JStr ''K''),
     (''approval_token'', JStr demo_token)]"

definition demo_called :: "dict res \<times> effect_store" where
  "demo_called = registry_call demo_D ''s'' demo_fixtures 0 ''simulate_remote_action'' demo_args es_empty"

lemma demo_called_ok:
  "is_ok (fst demo_called) \<and> map (\<lambda>p. (fst p, f_approval (snd p))) (es_effects (snd demo_called)) = [(''K'', ''A'')]"
  by code_simp

theorem approval_single_use_witness:
  "\<exists>row. map_of (es_effects (run_calls demo_D ''s'' demo_fixtures [(0, ''simulate_remote_action'', demo_args)] es_empty)) ''K'' =
    Some row \<and> f_approval row = ''A''"
proof -
  let ?st = "run_calls demo_D ''s'' demo_fixtures [(0, ''simulate_remote_action'', demo_args)] es_empty"
  have "map (\<lambda>p. (fst p, f_approval (snd p))) (es_effects ?st) = [(''K'', ''A'')]"
    using demo_called_ok by (simp add: demo_called_def)
  then obtain row where row: "map_of (es_effects ?st) ''K'' = Some row" "f_approval row = ''A''" by auto
  have "''K'' = ''K''" using row by (intro approval_single_use [OF row(1) row(1)]) simp
  then show ?thesis using row by blast
qed

text \<open>What is recorded under a key is never overwritten, whatever is called later.\<close>

lemma registry_call_keeps:
  assumes "map_of (es_effects st) k = Some row"
  shows "map_of (es_effects (snd (registry_call D secret fx now n args st))) k = Some row"
proof -
  obtain r st' where c: "registry_call D secret fx now n args st = (r, st')" by fastforce
  show ?thesis
  proof (cases "st' = st")
    case True
    then show ?thesis using assms c by simp
  next
    case False
    obtain result acts where "es.records D secret now st args acts result st'"
      by (rule registry_call_effect [OF c False])
    then obtain k' i t a where "es_commit_effect st k' i t a result = (Inr (), st')"
      by (auto simp: es.records_def)
    then show ?thesis using assms by (auto simp: c es_commit_Inr)
  qed
qed

lemma run_calls_keeps:
  "map_of (es_effects st) k = Some row \<Longrightarrow> map_of (es_effects (run_calls D secret fx cs st)) k = Some row"
  by (induction cs arbitrary: st) (auto simp: registry_call_keeps)

lemma run_calls_replays:
  assumes "es_get st k = Inr (Some prior)"
  shows "es_get (run_calls D secret fx cs st) k = Inr (Some prior)"
proof -
  obtain row where row: "map_of (es_effects st) k = Some row"
    using assms by (auto simp: es_get_def split: option.splits)
  from run_calls_keeps [OF this] show ?thesis using assms row by (simp add: es_get_def)
qed

text \<open>
  C8. An effect happens exactly once: when a call has changed the effect store, then after any
  sequence of further calls of any tools at any times, the same call repeated at any time, its
  token expired or not, changes nothing and returns the result recorded first, marked as
  replayed, its dictionaries in key order.
\<close>

theorem effect_exactly_once:
  assumes "es_inv st" "registry_call D secret fx now name args st = (Inr result, st')" "st' \<noteq> st"
    and "wf_json (JObj result)"
  shows "es_inv st' \<and>
    (\<forall>cs now'. registry_call D secret fx now' name args (run_calls D secret fx cs st') =
       (Inr (dset ''replayed'' (JBool True) (canon_dict result)), run_calls D secret fx cs st'))"
proof (intro conjI allI)
  obtain effect acts where tool: "map_of (effect_tools D fx) name = Some (effect, acts)"
    and none: "map_of (read_tools D fx now) name = None"
    and call: "approved_effect D secret now es_get es_get_consumed_approval es_commit_effect name args effect acts st
      = (Inr result, st')"
    using assms(2,3) by (auto simp: registry_call_def split: option.splits)
  have rec: "es.records D secret now st args acts result st'" and ok: "controls_ok args acts"
    using es.approved_effect_Inr [OF call] assms(3) by blast+
  show "es_inv st'"
    using rec es.commit_inv [OF assms(1,4)] unfolding es.records_def by (metis snd_conv)
  obtain t a where "es_get st (ctl ''idempotency_key'' args) = Inr None"
    and c: "es_commit_effect st (ctl ''idempotency_key'' args) (ctl ''incident_id'' args) t a result = (Inr (), st')"
    using rec by (auto simp: es.records_def)
  then have first: "es_get st' (ctl ''idempotency_key'' args) = Inr (Some (canon_dict result))"
    using es.get_commit [OF assms(1,4) c] by simp
  fix cs and now' :: int
  from run_calls_replays [OF first]
  have "es_get (run_calls D secret fx cs st') (ctl ''idempotency_key'' args) = Inr (Some (canon_dict result))" .
  note replay = es.approved_effect_replay [OF ok this]
  have "map_of (read_tools D fx now') name = None"
    using none by (auto simp: read_tools_def split: if_splits)
  with replay tool show "registry_call D secret fx now' name args (run_calls D secret fx cs st') =
      (Inr (dset ''replayed'' (JBool True) (canon_dict result)), run_calls D secret fx cs st')"
    by (simp add: registry_call_def)
qed

text \<open>Values without a float are well-formed when their keys are distinct; the check computes.\<close>

fun floatless :: "json \<Rightarrow> bool" where
  "floatless (JFloat _) = False"
| "floatless (JArr xs) = list_all floatless xs"
| "floatless (JObj d) = (distinct (map fst d) \<and> list_all (\<lambda>p. floatless (snd p)) d)"
| "floatless _ = True"

lemma floatless_wf: "floatless v \<Longrightarrow> wf_json v"
  by (induction v rule: floatless.induct) (auto simp: list_all_iff)

lemma demo_called_result: "case fst demo_called of Inr r \<Rightarrow> floatless (JObj r) | Inl _ \<Rightarrow> False"
  by code_simp

text \<open>Another effect, under an approval of its own, between the call and its repetition.\<close>

definition demo_other_args :: dict where
  "demo_other_args = dset ''idempotency_key'' (JStr ''K2'') (dset ''approval_token''
     (JStr (build_approval_token demo_D ''s'' 0 (demo_approval\<lparr>a_id := ''B'', a_key := ''K2''\<rparr>))) demo_args)"

lemma demo_later:
  "length (es_effects (run_calls demo_D ''s'' demo_fixtures [(7, ''simulate_remote_action'', demo_other_args)]
     (snd demo_called))) = 2"
  by code_simp

theorem effect_exactly_once_witness:
  "\<exists>r. let later = run_calls demo_D ''s'' demo_fixtures [(7, ''simulate_remote_action'', demo_other_args)] (snd demo_called)
     in registry_call demo_D ''s'' demo_fixtures 9999999999999 ''simulate_remote_action'' demo_args later =
       (Inr (dset ''replayed'' (JBool True) r), later) \<and> length (es_effects later) = 2"
proof -
  obtain r where r: "fst demo_called = Inr r" "wf_json (JObj r)"
    using demo_called_result floatless_wf by (auto split: sum.splits simp del: floatless.simps wf_json.simps)
  then have c: "registry_call demo_D ''s'' demo_fixtures 0 ''simulate_remote_action'' demo_args es_empty = (Inr r, snd demo_called)"
    unfolding demo_called_def by (metis prod.collapse)
  have "es_effects (snd demo_called) \<noteq> []" using demo_called_ok by auto
  then have "snd demo_called \<noteq> es_empty" by (auto simp: es_empty_def)
  from effect_exactly_once [OF es_inv_empty(1) c this r(2)] have
    "registry_call demo_D ''s'' demo_fixtures 9999999999999 ''simulate_remote_action'' demo_args
       (run_calls demo_D ''s'' demo_fixtures cs (snd demo_called)) =
     (Inr (dset ''replayed'' (JBool True) (canon_dict r)), run_calls demo_D ''s'' demo_fixtures cs (snd demo_called))" for cs
    by blast
  then show ?thesis unfolding Let_def using demo_later by blast
qed

subsection \<open>Idempotency keys\<close>

text \<open>
  C12. Equal keys mean the same action: two action keys are equal only if their
  incidents, actions and delimiters agree after normalisation and the attempts are the
  same, or the two key materials are an explicit collision of the 160-bit digest prefix.
\<close>

theorem equal_keys_same_action:
  assumes "derive_action_key D i a n d = Inr k" "derive_action_key D i' a' n' d' = Inr k"
  shows "(normalize_key_part D (Some i) = normalize_key_part D (Some i') \<and>
      normalize_key_part D (Some a) = normalize_key_part D (Some a') \<and> n = n' \<and>
      normalize_key_part D d = normalize_key_part D d') \<or>
    sha_collision D 40 (action_material D i a n d) (action_material D i' a' n' d')"
  using derive_action_key_eqD [OF assms] unfolding action_material_inj .

theorem equal_keys_same_action_witness:
  "normalize_key_part id (Some '' I-1 '') = normalize_key_part id (Some ''I-1'')"
proof -
  have "derive_action_key id '' I-1 '' ''clean_boots'' 1 None = derive_action_key id ''I-1'' ''clean_boots'' 1 None"
    by code_simp
  then obtain k where "derive_action_key id '' I-1 '' ''clean_boots'' 1 None = Inr k"
    "derive_action_key id ''I-1'' ''clean_boots'' 1 None = Inr k"
    by (simp add: derive_action_key_def)
  moreover have "action_material id '' I-1 '' ''clean_boots'' 1 None = action_material id ''I-1'' ''clean_boots'' 1 None"
    by code_simp
  ultimately show ?thesis
    using equal_keys_same_action [of id "'' I-1 ''" "''clean_boots''" 1 None k "''I-1''" "''clean_boots''" 1 None]
    unfolding sha_collision_def by blast
qed

end
