(* ===== verification/AssistantChoice.thy ===== *)
theory AssistantChoice
  imports Assistant
begin

text \<open>
  Which assistant a deployment talks to (\<open>build_rca_assistant\<close> and \<open>ExternalRCAAssistant\<close> in
  \<open>llm/service.py\<close>): the fake one, an external model, or the fake one in place of an external
  model that could not be set up. The clients of the model providers are arguments: what their
  constructors do, and what a structured call answers.
\<close>

record model_settings =
  ms_provider :: string
  ms_model :: string
  ms_api_key :: string
  ms_openai_key :: string
  ms_anthropic_key :: string
  ms_fallback_allowed :: bool

definition effective_model_api_key :: "model_settings \<Rightarrow> string" where
  "effective_model_api_key ms =
     (if ms_api_key ms \<noteq> [] then ms_api_key ms
      else if ms_provider ms = ''openai'' then ms_openai_key ms
      else if ms_provider ms = ''anthropic'' then ms_anthropic_key ms
      else [])"

text \<open>An assistant, with the model name it reports.\<close>

datatype rca_assistant = FakeAssistant string | ExternalAssistant string

definition build_model :: "(string \<Rightarrow> unit res) \<Rightarrow> model_settings \<Rightarrow> unit res" where
  "build_model client ms =
     (if ms_provider ms = ''openai'' \<or> ms_provider ms = ''anthropic'' then client (ms_provider ms)
      else Inl (RuntimeError (''Unsupported external provider: '' @ ms_provider ms)))"

definition external_assistant :: "(string \<Rightarrow> unit res) \<Rightarrow> model_settings \<Rightarrow> rca_assistant res" where
  "external_assistant client ms =
     (if effective_model_api_key ms = [] then Inl (RuntimeError (''No API key configured for provider '' @ ms_provider ms))
      else bindR (build_model client ms) (\<lambda>_. Inr (ExternalAssistant (ms_model ms))))"

definition build_rca_assistant :: "(string \<Rightarrow> unit res) \<Rightarrow> model_settings \<Rightarrow> rca_assistant res" where
  "build_rca_assistant client ms =
     (if ms_provider ms = ''fake'' then Inr (FakeAssistant (ms_model ms))
      else case external_assistant client ms of
        Inr a \<Rightarrow> Inr a
      | Inl e \<Rightarrow>
          if \<not> ms_fallback_allowed ms then Inl e
          else Inr (FakeAssistant (''fake-fallback:'' @ ms_provider ms @ '':'' @ ms_model ms)))"

text \<open>A structured call answers with a proposal or with a dictionary that is validated into one.\<close>

definition external_propose_rca :: "(incident \<Rightarrow> (dict + rca) res) \<Rightarrow> string \<Rightarrow> incident \<Rightarrow> rca res" where
  "external_propose_rca invoke model_name s =
     bindR (invoke s) (\<lambda>raw.
     bindR (case raw of Inl d \<Rightarrow> rca_of_dict d | Inr p \<Rightarrow> Inr p) (\<lambda>p.
       Inr (p\<lparr>r_source := ''llm'', r_model_name := Some model_name, r_prompt_version := Some prompt_version,
              r_evidence_refs := map e_id (i_evidence s)\<rparr>)))"

definition propose_rca :: "(incident \<Rightarrow> (dict + rca) res) \<Rightarrow> rca_assistant \<Rightarrow> incident \<Rightarrow> rca res" where
  "propose_rca invoke a s =
     (case a of FakeAssistant n \<Rightarrow> fake_propose_rca n s | ExternalAssistant n \<Rightarrow> external_propose_rca invoke n s)"

end
