(* ===== verification/EngineLaws.thy ===== *)
theory EngineLaws
  imports DecisionLaws AssistantChoice
begin

text \<open>
  Further properties of the engine: the acceptance rule of the diagnosis, the degraded
  assistant, the replay of events, and two behaviours at the edges of the process: the
  step budget's escalation and approvals that are asked for again.
\<close>

subsection \<open>The acceptance rule\<close>

text \<open>
  C14. The engine accepts a diagnosis without a person only if both proposals name the
  same domain and both reach the threshold; what it accepts is the deterministic one.
\<close>

theorem automatic_acceptance:
  assumes "fusion E now s w = (Inr s', w')" "i_stage s' = ACTION_RANKING"
  shows "\<exists>d m. i_det_rca s = Some d \<and> i_llm_rca s = Some m \<and> r_domain d = r_domain m \<and>
    st_threshold (en_settings E) \<le> r_confidence d \<and> st_threshold (en_settings E) \<le> r_confidence m \<and>
    i_approved_rca s' = Some d \<and> w' = w"
proof -
  obtain d m where dm: "i_det_rca s = Some d" "i_llm_rca s = Some m"
    using assms by (auto simp: fusion_def split: option.splits)
  obtain g where g: "fuse_and_gate (domain_value (r_domain d)) (r_confidence d) (Some (domain_value (r_domain m)))
      (Some (r_confidence m)) (st_threshold (en_settings E)) = Inr g"
    using fuse_and_gate_total by blast
  have waits: "i_stage u = WAITING_APPROVAL" if "prepare_approval E now k a r p t w = (Inr u, v)" for k a r p t u v
    by (rule prepare_approval_Inr [OF that]) simp
  have none: "go_reason g \<noteq> ''low_confidence''" "go_reason g \<noteq> ''domain_disagreement''"
    using assms dm g waits by (auto simp: fusion_def Let_def split: if_splits)
  then have "st_threshold (en_settings E) \<le> min (r_confidence d) (r_confidence m)"
    "domain_value (r_domain d) = domain_value (r_domain m)"
    using g by (auto simp: fuse_and_gate_def split: if_splits)
  moreover from this(2) have "r_domain d = r_domain m"
    by (cases "r_domain d"; cases "r_domain m") simp_all
  ultimately show ?thesis
    using assms dm g none by (auto simp: fusion_def Let_def)
qed

definition demo_diagnosis :: rca where
  "demo_diagnosis = \<lparr>r_source = ''deterministic'', r_domain = FD_PROVISIONING, r_confidence = 9/10, r_hypotheses = [],
     r_evidence_refs = [], r_ruled_out = [], r_missing = [], r_tests = [], r_rationale = ''profile'',
     r_model_name = None, r_prompt_version = None\<rparr>"

lemma demo_fusion:
  "\<exists>s'. fusion demo_env 0 (demo_case\<lparr>i_det_rca := Some demo_diagnosis, i_llm_rca := Some demo_diagnosis\<rparr>) demo_world =
     (Inr s', demo_world) \<and> i_stage s' = ACTION_RANKING"
  by (simp add: fusion_def fuse_and_gate_def demo_diagnosis_def demo_env_def demo_settings_def Let_def bindE_def)

theorem automatic_acceptance_witness:
  "st_threshold (en_settings demo_env) \<le> r_confidence demo_diagnosis"
proof -
  obtain s' where "fusion demo_env 0 (demo_case\<lparr>i_det_rca := Some demo_diagnosis, i_llm_rca := Some demo_diagnosis\<rparr>)
      demo_world = (Inr s', demo_world)" "i_stage s' = ACTION_RANKING"
    using demo_fusion by blast
  from automatic_acceptance [OF this] show ?thesis by auto
qed

lemma fusion_of_copy:
  assumes "i_det_rca s = Some d" "i_llm_rca s = Some m" "r_domain m = r_domain d" "r_confidence m = r_confidence d"
    and "fusion E now s w = (Inr s', w')"
  shows "(i_stage s' = ACTION_RANKING \<longleftrightarrow> st_threshold (en_settings E) \<le> r_confidence d) \<and>
    (i_stage s' = ACTION_RANKING \<longrightarrow> w' = w \<and> i_approved_rca s' = Some d)"
proof -
  have waits: "i_stage u = WAITING_APPROVAL" if "prepare_approval E now k a r p t w = (Inr u, v)" for k a r p t u v
    by (rule prepare_approval_Inr [OF that]) simp
  show ?thesis
    using assms waits
    by (cases "st_threshold (en_settings E) \<le> r_confidence d")
      (auto simp: fusion_def fuse_and_gate_def Let_def bindE_def split: if_splits)
qed

text \<open>
  C15. A failing assistant does not stop a case: whichever assistant the settings chose, and
  whether or not they allow a fallback, its failure is recorded, and the proposal it did not
  give is the deterministic diagnosis itself, with only its source and its rationale changed.
  The fusion that follows therefore accepts that diagnosis without a person exactly when its
  own confidence reaches the threshold.
\<close>

theorem assistant_failure_degrades:
  assumes "build_rca_assistant client ms = Inr assistant" "en_propose E = propose_rca invoke assistant"
    and "propose_rca invoke assistant s = Inl e" "i_det_rca s = Some d"
  shows "i_stage (llm_rca E now s) = FUSION \<and> i_error (llm_rca E now s) = Some (''LLM assistant degraded: '' @ exn_text e) \<and>
    i_llm_rca (llm_rca E now s) =
      Some (d\<lparr>r_source := ''fallback'', r_rationale := ''Model unavailable; deterministic RCA copied.''\<rparr>) \<and>
    (\<forall>s' w'. fusion E now' (llm_rca E now s) w = (Inr s', w') \<longrightarrow>
       (i_stage s' = ACTION_RANKING \<longleftrightarrow> st_threshold (en_settings E) \<le> r_confidence d) \<and>
       (i_stage s' = ACTION_RANKING \<longrightarrow> w' = w \<and> i_approved_rca s' = Some d)) \<and>
    (st_threshold (en_settings E) \<le> r_confidence d \<longrightarrow>
       (\<exists>s'. fusion E now' (llm_rca E now s) w = (Inr s', w) \<and> i_stage s' = ACTION_RANKING))"
proof (intro conjI allI)
  let ?s = "llm_rca E now s"
  let ?m = "d\<lparr>r_source := ''fallback'', r_rationale := ''Model unavailable; deterministic RCA copied.''\<rparr>"
  show "i_stage ?s = FUSION" "i_error ?s = Some (''LLM assistant degraded: '' @ exn_text e)"
    and llm: "i_llm_rca ?s = Some ?m"
    using assms(2-4) by (simp_all add: llm_rca_def Let_def)
  have det: "i_det_rca ?s = Some d" using assms(2-4) by (simp add: llm_rca_def Let_def)
  show "fusion E now' ?s w = (Inr s', w') \<longrightarrow>
      (i_stage s' = ACTION_RANKING \<longleftrightarrow> st_threshold (en_settings E) \<le> r_confidence d) \<and>
      (i_stage s' = ACTION_RANKING \<longrightarrow> w' = w \<and> i_approved_rca s' = Some d)" for s' w'
    using fusion_of_copy [OF det llm, of E now' w] by simp
  show "st_threshold (en_settings E) \<le> r_confidence d \<longrightarrow>
      (\<exists>s'. fusion E now' ?s w = (Inr s', w) \<and> i_stage s' = ACTION_RANKING)"
    using det llm by (simp add: fusion_def fuse_and_gate_def Let_def bindE_def)
qed

text \<open>An external model that may not be replaced by the fake one, and that does not answer.\<close>

definition strict_settings :: model_settings where
  "strict_settings = \<lparr>ms_provider = ''openai'', ms_model = ''m'', ms_api_key = ''k'', ms_openai_key = [],
     ms_anthropic_key = [], ms_fallback_allowed = False\<rparr>"

definition offline :: "incident \<Rightarrow> (dict + rca) res" where
  "offline s = Inl (ProviderError ''timeout'')"

definition offline_env :: "effect_store env" where
  "offline_env = demo_env\<lparr>en_propose := propose_rca offline (ExternalAssistant ''m'')\<rparr>"

theorem assistant_failure_degrades_witness:
  "\<not> ms_fallback_allowed strict_settings \<and>
   (\<exists>s'. fusion offline_env 1 (llm_rca offline_env 0 (demo_case\<lparr>i_det_rca := Some demo_diagnosis\<rparr>)) demo_world =
      (Inr s', demo_world) \<and> i_stage s' = ACTION_RANKING)"
proof -
  have b: "build_rca_assistant (\<lambda>_. Inr ()) strict_settings = Inr (ExternalAssistant ''m'')"
    by (simp add: build_rca_assistant_def external_assistant_def build_model_def effective_model_api_key_def
        strict_settings_def)
  have th: "st_threshold (en_settings offline_env) \<le> r_confidence demo_diagnosis"
    by (simp add: offline_env_def demo_env_def demo_settings_def demo_diagnosis_def)
  have p: "en_propose offline_env = propose_rca offline (ExternalAssistant ''m'')"
    "propose_rca offline (ExternalAssistant ''m'') (demo_case\<lparr>i_det_rca := Some demo_diagnosis\<rparr>) = Inl (ProviderError ''timeout'')"
    "i_det_rca (demo_case\<lparr>i_det_rca := Some demo_diagnosis\<rparr>) = Some demo_diagnosis"
    by (simp_all add: offline_env_def propose_rca_def external_propose_rca_def offline_def)
  from assistant_failure_degrades [OF b p, of 0 1 demo_world] th show ?thesis
    by (simp add: strict_settings_def)
qed

subsection \<open>Edges of the process\<close>

text \<open>
  The escalation on the step budget is not saved: a step of an unfinished case whose
  budget is used up returns an escalated case, but the database is left as it was, so it
  still holds the case in its old stage.
\<close>

theorem step_budget_escalation_unsaved:
  assumes "\<not> terminal (i_stage s)" "\<not> paused s" "st_max_steps (en_settings E) \<le> i_steps s"
  shows "\<exists>s'. run_one E now s w = (Inr s', w) \<and> i_stage s' = ESCALATED \<and> i_gate s' = G_BUDGET"
proof -
  have "contains ''budget'' (lower ''Total workflow step budget exhausted'')" by code_simp
  then show ?thesis using assms by (simp add: run_one_def escalate_def ev_def append_event_def)
qed

theorem step_budget_escalation_unsaved_witness:
  "\<exists>s'. run_one demo_env 0 (demo_case\<lparr>i_steps := 40\<rparr>) demo_world = (Inr s', demo_world) \<and> i_stage s' = ESCALATED"
  using step_budget_escalation_unsaved [of "demo_case\<lparr>i_steps := 40\<rparr>" demo_env 0 demo_world]
  by (auto simp: demo_case_def new_incident_def terminal_def paused_def demo_env_def demo_settings_def)

lemma prepare_waits_on:
  assumes "prepare_approval E now kind act role p s w = (Inr s', w')" "approval_slot s act = (n, dl)"
    and "derive_approval_id (en_D E) (i_id s) (kind_value kind) act n dl = Inr k" "repo_inv (w_repo w)"
  shows "i_pending s' = Some k \<and>
    (\<forall>a. get_approval (w_repo w) k = Some a \<longrightarrow> get_approval (w_repo w') k = Some a)"
proof -
  obtain key where key: "bindE (store_approval (approval_or_new now (get_approval (w_repo w) k) k s kind act role p key))
      (\<lambda>_. retE (await_approval E now kind role (a_id (approval_or_new now (get_approval (w_repo w) k) k s kind act role p key)) s)) w
      = (Inr s', w')"
    using assms(1-3) by (auto simp: prepare_approval_def Let_def bindE_eq_Inr)
  let ?a = "approval_or_new now (get_approval (w_repo w) k) k s kind act role p key"
  have id: "a_id ?a = k"
    using get_approval_id [OF assms(4)] by (auto simp: approval_or_new_def split: option.split)
  have "s' = await_approval E now kind role k s" "save_approval ?a (w_repo w) = (Inr (), w_repo w')"
    using key id unfolding bindE_eq_Inr by (auto simp: store_approval_eq intro: prod_eqI)
  then show ?thesis
    using get_save_approval [of ?a "w_repo w" "()" "w_repo w'" k] id
    by (auto simp: approval_or_new_def)
qed

text \<open>
  C17. An approval that was already decided is asked for again: when the case needs an
  approval whose derived identity is on record as decided (as after a request for more
  evidence, which leaves the attempt count where it was), the case waits on that old
  approval, and every decision on it is refused, so the case cannot proceed.
\<close>

theorem decided_approval_blocks:
  assumes "repo_inv (w_repo w)" "approval_slot s act = (n, dl)"
    and "derive_approval_id (en_D E) (i_id s) (kind_value kind) act n dl = Inr k"
    and "get_approval (w_repo w) k = Some a" "a_status a \<noteq> AP_PENDING"
    and "prepare_approval E now kind act role p s w = (Inr s', w')"
  shows "i_stage s' = WAITING_APPROVAL \<and> i_pending s' = Some k \<and>
    (\<forall>now' clk q. \<exists>msg. decide_approval E now' clk k q w' = (Inl (ApprovalConflict msg), w'))"
proof -
  have p: "i_pending s' = Some k" "get_approval (w_repo w') k = Some a"
    using prepare_waits_on [OF assms(6,2,3,1)] assms(4) by simp_all
  moreover have "i_stage s' = WAITING_APPROVAL"
    by (rule prepare_approval_Inr [OF assms(6)]) simp
  moreover have "\<exists>msg. check_decision a q = Inl (ApprovalConflict msg)" for q
    using assms(5) by (cases "a_status a = AP_CONSUMED") (simp_all add: check_decision_def)
  ultimately show ?thesis using decide_refused [OF p(2)] by blast
qed

definition asked_again :: approval where
  "asked_again = demo_approval\<lparr>a_id := ''apr-'', a_status := AP_REQUEST_MORE\<rparr>"

theorem decided_approval_blocks_witness:
  "\<exists>s' w' msg. prepare_approval demo_env 0 REMOTE_ACTION ''remote_reprovision'' ''noc_analyst'' [] demo_case
      (demo_world\<lparr>w_repo := repo_empty\<lparr>rp_approvals := [(''apr-'', asked_again)]\<rparr>\<rparr>) = (Inr s', w') \<and>
    decide_approval demo_env 1 (\<lambda>_. 1) ''apr-'' (demo_reject\<lparr>q_decision := APPROVE\<rparr>) w' = (Inl (ApprovalConflict msg), w')"
proof -
  let ?w = "demo_world\<lparr>w_repo := repo_empty\<lparr>rp_approvals := [(''apr-'', asked_again)]\<rparr>\<rparr>"
  have sl: "approval_slot demo_case ''remote_reprovision'' = (1, None)" by code_simp
  have k: "derive_approval_id (en_D demo_env) (i_id demo_case) (kind_value REMOTE_ACTION) ''remote_reprovision'' 1 None =
      Inr ''apr-''"
    by code_simp
  have inv: "repo_inv (w_repo ?w)" by (simp add: repo_inv_def repo_empty_def asked_again_def)
  have a: "get_approval (w_repo ?w) ''apr-'' = Some asked_again" by (simp add: get_approval_def)
  have "\<exists>s' w'. prepare_approval demo_env 0 REMOTE_ACTION ''remote_reprovision'' ''noc_analyst'' [] demo_case ?w = (Inr s', w')"
    using k a by (simp add: prepare_approval_def sl Let_def bindE_def derive_action_key_def store_approval_eq
        approval_or_new_def save_approval_def asked_again_def repo_empty_def)
  then obtain s' w' where p: "prepare_approval demo_env 0 REMOTE_ACTION ''remote_reprovision'' ''noc_analyst'' [] demo_case ?w = (Inr s', w')"
    by blast
  have "a_status asked_again \<noteq> AP_PENDING" by (simp add: asked_again_def)
  from decided_approval_blocks [OF inv sl k a this p] p show ?thesis by blast
qed

end
