(* ===== verification/Geography.thy ===== *)
theory Geography
  imports PyJson "HOL-Library.Product_Lexorder"
begin

text \<open>
  The service geography (\<open>geography.py\<close>): sites and dispatch bases, the travel plan
  from a base to a site with its ferry leg, and the choice of a base for a job. The
  trigonometry of the great-circle distance comes from the platform's mathematics
  library and is an argument.
\<close>

datatype archetype = METRO | COASTAL | MOUNTAIN | REMOTE_ISLAND

fun archetype_value :: "archetype \<Rightarrow> string" where
  "archetype_value METRO = ''metro''"
| "archetype_value COASTAL = ''coastal''"
| "archetype_value MOUNTAIN = ''mountain''"
| "archetype_value REMOTE_ISLAND = ''remote_island''"

fun road_speed_kmh :: "archetype \<Rightarrow> rat" where
  "road_speed_kmh METRO = 28"
| "road_speed_kmh COASTAL = 45"
| "road_speed_kmh MOUNTAIN = 32"
| "road_speed_kmh REMOTE_ISLAND = 38"

definition detour_factor :: rat where
  "detour_factor = 135/100"

text \<open>\<open>FERRY_MINUTES.get(site.municipio.upper(), 120)\<close>\<close>

definition ferry_minutes :: "string \<Rightarrow> int" where
  "ferry_minutes upper_name =
     (if upper_name = ''VIEQUES'' then 65 + 90 else if upper_name = ''CULEBRA'' then 90 + 120 else 120)"

fun min_one_way_minutes :: "archetype \<Rightarrow> int" where
  "min_one_way_minutes METRO = 22"
| "min_one_way_minutes COASTAL = 16"
| "min_one_way_minutes MOUNTAIN = 20"
| "min_one_way_minutes REMOTE_ISLAND = 14"

record site =
  s_id :: string
  s_municipio :: string
  s_region :: string
  s_archetype :: archetype
  s_lat :: rat
  s_lon :: rat
  s_techs :: "string list"
  s_island :: bool
  s_ferry_from :: "string option"
  s_in_footprint :: bool
  s_ferry_terminal :: bool
  s_core :: bool

record dispatch_base =
  b_id :: string
  b_name :: string
  b_site :: string
  b_lat :: rat
  b_lon :: rat
  b_crews :: "string list"
  b_skills :: "string list"
  b_stock :: "string list"
  b_likelihood :: string
  b_rationale :: string
  b_assumed :: bool

text \<open>A site with the defaults of its optional fields.\<close>

definition mk_site :: "string \<Rightarrow> string \<Rightarrow> string \<Rightarrow> archetype \<Rightarrow> rat \<Rightarrow> rat \<Rightarrow> site" where
  "mk_site i m r a la lo = \<lparr>s_id = i, s_municipio = m, s_region = r, s_archetype = a, s_lat = la, s_lon = lo,
     s_techs = [''HFC'', ''PON''], s_island = False, s_ferry_from = None, s_in_footprint = True,
     s_ferry_terminal = False, s_core = False\<rparr>"

definition sites :: "site list" where
  "sites = [
     (mk_site ''PR-SJU'' ''San Juan'' ''San Juan metro'' METRO (184655 / 10000) (- 661057 / 10000))
       \<lparr>s_core := True\<rparr>,
     mk_site ''PR-BAY'' ''Bayamon'' ''San Juan metro'' METRO (183985 / 10000) (- 661614 / 10000),
     mk_site ''PR-CAR'' ''Carolina'' ''San Juan metro'' METRO (183808 / 10000) (- 659574 / 10000),
     mk_site ''PR-GUY'' ''Guaynabo'' ''San Juan metro'' METRO (183572 / 10000) (- 661110 / 10000),
     mk_site ''PR-CAG'' ''Caguas'' ''Caguas urban core'' METRO (182341 / 10000) (- 660362 / 10000),
     mk_site ''PR-PON'' ''Ponce'' ''South coast'' COASTAL (180111 / 10000) (- 666141 / 10000),
     mk_site ''PR-MAY'' ''Mayaguez'' ''West coast'' COASTAL (182013 / 10000) (- 671397 / 10000),
     mk_site ''PR-ARE'' ''Arecibo'' ''North coast'' COASTAL (184725 / 10000) (- 667156 / 10000),
     mk_site ''PR-AGU'' ''Aguadilla'' ''Northwest coast'' COASTAL (184274 / 10000) (- 671541 / 10000),
     mk_site ''PR-HUM'' ''Humacao'' ''East coast'' COASTAL (181494 / 10000) (- 658272 / 10000),
     (mk_site ''PR-FAJ'' ''Fajardo'' ''Northeast coast'' COASTAL (183258 / 10000) (- 656524 / 10000))
       \<lparr>s_ferry_terminal := True\<rparr>,
     mk_site ''PR-GUA'' ''Guayama'' ''South coast'' COASTAL (179841 / 10000) (- 661132 / 10000),
     mk_site ''PR-MAN'' ''Manati'' ''North coast'' COASTAL (184297 / 10000) (- 664822 / 10000),
     mk_site ''PR-CAB'' ''Cabo Rojo'' ''Southwest coast'' COASTAL (180866 / 10000) (- 671457 / 10000),
     mk_site ''PR-UTU'' ''Utuado'' ''Cordillera Central'' MOUNTAIN (182658 / 10000) (- 667005 / 10000),
     mk_site ''PR-ADJ'' ''Adjuntas'' ''Cordillera Central'' MOUNTAIN (181627 / 10000) (- 667224 / 10000),
     mk_site ''PR-JAY'' ''Jayuya'' ''Cordillera Central'' MOUNTAIN (182186 / 10000) (- 665916 / 10000),
     mk_site ''PR-CIA'' ''Ciales'' ''Cordillera Central'' MOUNTAIN (183364 / 10000) (- 664685 / 10000),
     mk_site ''PR-MAR'' ''Maricao'' ''Western highlands'' MOUNTAIN (181808 / 10000) (- 669799 / 10000),
     mk_site ''PR-LMA'' ''Las Marias'' ''Western highlands'' MOUNTAIN (182517 / 10000) (- 669930 / 10000),
     mk_site ''PR-YAU'' ''Yauco'' ''Southern highlands'' MOUNTAIN (180344 / 10000) (- 668499 / 10000),
     (mk_site ''PR-VQS'' ''Vieques'' ''Island municipio'' REMOTE_ISLAND (181494 / 10000) (- 654436 / 10000))
       \<lparr>s_island := True, s_ferry_from := Some ''PR-FAJ''\<rparr>,
     (mk_site ''PR-CUL'' ''Culebra'' ''Island municipio'' REMOTE_ISLAND (183033 / 10000) (- 653010 / 10000))
       \<lparr>s_island := True, s_ferry_from := Some ''PR-FAJ''\<rparr>,
     (mk_site ''VI-STT'' ''St Thomas'' ''U.S. Virgin Islands'' REMOTE_ISLAND (183381 / 10000) (- 648941 / 10000))
       \<lparr>s_techs := [''PON''], s_island := True, s_in_footprint := False\<rparr>,
     (mk_site ''VI-STX'' ''St Croix'' ''U.S. Virgin Islands'' REMOTE_ISLAND (177275 / 10000) (- 647799 / 10000))
       \<lparr>s_techs := [''PON''], s_island := True, s_in_footprint := False\<rparr>,
     (mk_site ''VI-STJ'' ''St John'' ''U.S. Virgin Islands'' REMOTE_ISLAND (183336 / 10000) (- 647314 / 10000))
       \<lparr>s_techs := [''PON''], s_island := True, s_in_footprint := False\<rparr>]"

definition site_by_id :: "string \<Rightarrow> site res" where
  "site_by_id i = (case find (\<lambda>s. s_id s = i) sites of None \<Rightarrow> Inl (KeyError i) | Some s \<Rightarrow> Inr s)"

definition plant_skills :: "string list" where
  "plant_skills = [''hfc_plant'', ''coax_splice'', ''fibre_splice'', ''aerial'', ''underground'']"

definition field_skills :: "string list" where
  "field_skills = [''cpe_swap'', ''in_home_wiring'', ''wifi_optimisation'', ''drop_replacement'']"

definition dispatch_bases :: "dispatch_base list" where
  "dispatch_bases = [
     \<lparr>b_id = ''BASE-BAY'', b_name = ''Bayamon dispatch hub'', b_site = ''PR-BAY'', b_lat = 183985/10000, b_lon = (-661614/10000),
       b_crews = [''clean'', ''dirty'', ''joint''], b_skills = field_skills @ plant_skills,
       b_stock = [''cpe'', ''ont'', ''psu'', ''drop'', ''connectors'', ''splice_kit''],
       b_likelihood = ''very_high'',
       b_rationale = ''Central access to the San Juan metro west with a dense HFC footprint; assessed as a major operations centre.'',
       b_assumed = True\<rparr>,
     \<lparr>b_id = ''BASE-CAG'', b_name = ''Caguas dispatch hub'', b_site = ''PR-CAG'', b_lat = 182341/10000, b_lon = (-660362/10000),
       b_crews = [''clean'', ''dirty'', ''joint''], b_skills = field_skills @ plant_skills,
       b_stock = [''cpe'', ''ont'', ''psu'', ''drop'', ''connectors'', ''splice_kit''],
       b_likelihood = ''very_high'',
       b_rationale = ''Covers central and eastern Puerto Rico; a common utility and telecom operations base.'',
       b_assumed = True\<rparr>,
     \<lparr>b_id = ''BASE-PON'', b_name = ''Ponce dispatch hub'', b_site = ''PR-PON'', b_lat = 180111/10000, b_lon = (-666141/10000),
       b_crews = [''clean'', ''dirty'', ''joint''], b_skills = field_skills @ plant_skills,
       b_stock = [''cpe'', ''ont'', ''psu'', ''drop'', ''connectors'', ''splice_kit''],
       b_likelihood = ''very_high'',
       b_rationale = ''South region hub.'',
       b_assumed = True\<rparr>,
     \<lparr>b_id = ''BASE-MAY'', b_name = ''Mayaguez dispatch hub'', b_site = ''PR-MAY'', b_lat = 182013/10000, b_lon = (-671397/10000),
       b_crews = [''clean'', ''dirty'', ''joint''], b_skills = field_skills @ plant_skills,
       b_stock = [''cpe'', ''ont'', ''psu'', ''drop'', ''connectors'', ''splice_kit''],
       b_likelihood = ''very_high'',
       b_rationale = ''Western Puerto Rico hub.'',
       b_assumed = True\<rparr>,
     \<lparr>b_id = ''BASE-AGU'', b_name = ''Aguadilla and Aguada corridor'', b_site = ''PR-AGU'', b_lat = 184274/10000, b_lon = (-671541/10000),
       b_crews = [''clean'', ''dirty''], b_skills = field_skills @ plant_skills,
       b_stock = [''cpe'', ''ont'', ''psu'', ''drop'', ''connectors''],
       b_likelihood = ''high'',
       b_rationale = ''West to north-west coverage with significant presence. No splice kit assumed at corridor level.'',
       b_assumed = True\<rparr>,
     \<lparr>b_id = ''BASE-CAR'', b_name = ''Carolina dispatch hub'', b_site = ''PR-CAR'', b_lat = 183808/10000, b_lon = (-659574/10000),
       b_crews = [''clean'', ''dirty''], b_skills = field_skills @ plant_skills,
       b_stock = [''cpe'', ''ont'', ''psu'', ''drop'', ''connectors''],
       b_likelihood = ''high'',
       b_rationale = ''East metro and airport corridor coverage; nearest hub to the Fajardo ferry terminal for island work.'',
       b_assumed = True\<rparr>]"

definition base_by_id :: "string \<Rightarrow> dispatch_base option" where
  "base_by_id i = find (\<lambda>b. b_id b = i) dispatch_bases"

definition assumed_bases :: "dispatch_base list" where
  "assumed_bases = filter b_assumed dispatch_bases"

definition bases_by_likelihood :: "string \<Rightarrow> dispatch_base list" where
  "bases_by_likelihood level = filter (\<lambda>b. b_likelihood b = level) dispatch_bases"

definition core_sites :: "site list res" where
  "core_sites = mapR site_by_id [''PR-SJU'']"

definition ferry_terminals :: "site list res" where
  "ferry_terminals = mapR site_by_id [''PR-FAJ'']"

definition sites_in_cpe_footprint :: "site list" where
  "sites_in_cpe_footprint = filter s_in_footprint sites"

definition sites_by_archetype :: "archetype \<Rightarrow> site list" where
  "sites_by_archetype a = filter (\<lambda>s. s_archetype s = a) sites_in_cpe_footprint"

subsection \<open>Travel\<close>

record mathlib =
  ml_radians :: "rat \<Rightarrow> rat"
  ml_sin :: "rat \<Rightarrow> rat"
  ml_cos :: "rat \<Rightarrow> rat"
  ml_asin :: "rat \<Rightarrow> rat"
  ml_sqrt :: "rat \<Rightarrow> rat"

text \<open>A library in which every distance is zero, for examples.\<close>

definition flat_mathlib :: mathlib where
  "flat_mathlib = \<lparr>ml_radians = (\<lambda>x. x), ml_sin = (\<lambda>x. 0), ml_cos = (\<lambda>x. 1), ml_asin = (\<lambda>x. 0), ml_sqrt = (\<lambda>x. 0)\<rparr>"

definition haversine_km :: "mathlib \<Rightarrow> rat \<Rightarrow> rat \<Rightarrow> rat \<Rightarrow> rat \<Rightarrow> rat" where
  "haversine_km M lat1 lon1 lat2 lon2 =
     (let r = 63710088/10000; p1 = ml_radians M lat1; p2 = ml_radians M lat2; dp = p2 - p1;
          dl = ml_radians M (lon2 - lon1);
          a = ml_sin M (dp / 2) ^ 2 + ml_cos M p1 * ml_cos M p2 * ml_sin M (dl / 2) ^ 2
      in 2 * r * ml_asin M (ml_sqrt M a))"

datatype leg_kind = Road | Ferry

record leg =
  l_kind :: leg_kind
  l_description :: string
  l_minutes :: int

record travel =
  tp_base :: string
  tp_site :: string
  tp_legs :: "leg list"
  tp_total :: int
  tp_ferry :: bool
  tp_same_day :: bool

definition road_minutes :: "mathlib \<Rightarrow> rat \<Rightarrow> rat \<Rightarrow> rat \<Rightarrow> rat \<Rightarrow> archetype \<Rightarrow> int" where
  "road_minutes M la lo la' lo' a = round_he (60 * (haversine_km M la lo la' lo' * detour_factor) / road_speed_kmh a)"

definition island_legs :: "mathlib \<Rightarrow> dispatch_base \<Rightarrow> site \<Rightarrow> string \<Rightarrow> leg list res" where
  "island_legs M base site embark_id =
     bindR (site_by_id embark_id) (\<lambda>embark. Inr
       [\<lparr>l_kind = Road, l_description = b_name base @ '' to the '' @ s_municipio embark @ '' ferry terminal'',
         l_minutes = max (road_minutes M (b_lat base) (b_lon base) (s_lat embark) (s_lon embark) (s_archetype embark))
           (min_one_way_minutes (s_archetype embark))\<rparr>,
        \<lparr>l_kind = Ferry, l_description = s_municipio embark @ '' to '' @ s_municipio site @
           '' including mean wait for the next sailing'',
         l_minutes = ferry_minutes (map upper_char (s_municipio site))\<rparr>])"

definition road_leg :: "mathlib \<Rightarrow> dispatch_base \<Rightarrow> site \<Rightarrow> rat \<times> rat \<Rightarrow> leg" where
  "road_leg M base site target =
     (let road_min = road_minutes M (b_lat base) (b_lon base) (fst target) (snd target) (s_archetype site);
          floor_min = min_one_way_minutes (s_archetype site)
      in if road_min < floor_min
         then \<lparr>l_kind = Road, l_description = b_name base @ '' within '' @ s_municipio site @ '', '' @
                 int_str floor_min @ '' min minimum applied'', l_minutes = floor_min\<rparr>
         else \<lparr>l_kind = Road, l_description = b_name base @ '' to '' @ s_municipio site, l_minutes = road_min\<rparr>)"

definition travel_plan ::
  "mathlib \<Rightarrow> dispatch_base \<Rightarrow> site \<Rightarrow> int \<Rightarrow> int \<Rightarrow> (rat \<times> rat) option \<Rightarrow> travel res" where
  "travel_plan M base site shift_minutes on_site_minutes destination =
     (let target = (case destination of Some d \<Rightarrow> d | None \<Rightarrow> (s_lat site, s_lon site)) in
      bindR (case s_ferry_from site of
               Some embark_id \<Rightarrow>
                 if s_island site \<and> embark_id \<noteq> [] then island_legs M base site embark_id
                 else Inr [road_leg M base site target]
             | None \<Rightarrow> Inr [road_leg M base site target]) (\<lambda>legs.
        let one_way = sum_list (map l_minutes legs) in
        Inr \<lparr>tp_base = b_id base, tp_site = s_id site, tp_legs = legs, tp_total = one_way,
             tp_ferry = (\<exists>l \<in> set legs. l_kind l = Ferry),
             tp_same_day = (2 * one_way + on_site_minutes \<le> shift_minutes)\<rparr>))"

subsection \<open>The choice of a base\<close>

record base_selection =
  bs_base :: dispatch_base
  bs_plan :: travel
  bs_considered :: nat
  bs_no_skills :: "string list"
  bs_no_parts :: "string list"

definition subset_of :: "string list \<Rightarrow> string list \<Rightarrow> bool" where
  "subset_of xs ys \<longleftrightarrow> list_all (\<lambda>x. List.member ys x) xs"

definition lacks_skills :: "string \<Rightarrow> string list \<Rightarrow> dispatch_base \<Rightarrow> bool" where
  "lacks_skills crew skills b \<longleftrightarrow> crew \<in> set (b_crews b) \<and> \<not> subset_of skills (b_skills b)"

definition lacks_parts :: "string \<Rightarrow> string list \<Rightarrow> string list \<Rightarrow> dispatch_base \<Rightarrow> bool" where
  "lacks_parts crew skills parts b \<longleftrightarrow>
     crew \<in> set (b_crews b) \<and> subset_of skills (b_skills b) \<and> \<not> subset_of parts (b_stock b)"

definition viable :: "string \<Rightarrow> string list \<Rightarrow> string list \<Rightarrow> dispatch_base \<Rightarrow> bool" where
  "viable crew skills parts b \<longleftrightarrow>
     crew \<in> set (b_crews b) \<and> subset_of skills (b_skills b) \<and> subset_of parts (b_stock b)"

text \<open>\<open>bases if bases is not None else DISPATCH_BASES\<close>\<close>

definition base_pool :: "dispatch_base list option \<Rightarrow> dispatch_base list" where
  "base_pool bases = (case bases of Some bs \<Rightarrow> bs | None \<Rightarrow> dispatch_bases)"

definition select_base ::
  "mathlib \<Rightarrow> site \<Rightarrow> string \<Rightarrow> string list \<Rightarrow> string list \<Rightarrow> dispatch_base list option \<Rightarrow>
   (rat \<times> rat) option \<Rightarrow> base_selection res" where
  "select_base M site crew skills parts bases destination =
     (let pool = base_pool bases;
          candidates = filter (viable crew skills parts) pool in
      if candidates = []
      then Inl (LookupError (''no '' @ crew @ '' base can serve '' @ s_id site @ '' with skills '' @
             py_repr (jarr (sort (remdups skills))) @ '' and parts '' @ py_repr (jarr (sort (remdups parts)))))
      else bindR (mapR (\<lambda>b. bindR (travel_plan M b site 480 90 destination) (\<lambda>p. Inr (p, b))) candidates) (\<lambda>pairs.
        let best = hd (sort_key (\<lambda>(p, b). (tp_total p, b_id b)) pairs) in
        Inr \<lparr>bs_base = snd best, bs_plan = fst best, bs_considered = length pool,
             bs_no_skills = map b_id (filter (lacks_skills crew skills) pool),
             bs_no_parts = map b_id (filter (lacks_parts crew skills parts) pool)\<rparr>))"

subsection \<open>Properties\<close>

lemma travel_plan_ids: "travel_plan M b s sh os d = Inr p \<Longrightarrow> tp_base p = b_id b \<and> tp_site p = s_id s"
  by (auto simp: travel_plan_def bindR_eq_Inr Let_def)

lemma min_one_way_positive: "14 \<le> min_one_way_minutes a"
  by (cases a) simp_all

lemma ferry_minutes_positive: "120 \<le> ferry_minutes n"
  by (simp add: ferry_minutes_def)

lemma road_leg_minutes: "l_minutes (road_leg M b s t) =
    max (road_minutes M (b_lat b) (b_lon b) (fst t) (snd t) (s_archetype s)) (min_one_way_minutes (s_archetype s))"
  "l_kind (road_leg M b s t) = Road"
  by (simp_all add: road_leg_def Let_def max_def)

lemma travel_plan_cases:
  assumes "travel_plan M b s sh os d = Inr p"
  obtains t where "tp_legs p = [road_leg M b s t]" "tp_total p = l_minutes (road_leg M b s t)" "\<not> tp_ferry p"
  | e f r where "s_island s" "tp_legs p = [r, f]" "l_kind f = Ferry" "tp_ferry p" "14 \<le> l_minutes r"
    "l_minutes f = ferry_minutes (map upper_char (s_municipio s))" "tp_total p = l_minutes r + l_minutes f"
  using assms
  by (auto simp: travel_plan_def island_legs_def bindR_eq_Inr Let_def road_leg_minutes le_max_iff_disj
      min_one_way_positive split: option.splits if_splits)

lemma travel_plan_floor: "travel_plan M b s sh os d = Inr p \<Longrightarrow> 14 \<le> tp_total p"
  using ferry_minutes_positive [of "map upper_char (s_municipio s)"] min_one_way_positive [of "s_archetype s"]
  by - (erule travel_plan_cases, auto simp: road_leg_minutes le_max_iff_disj)

lemma sort_key_hd_least: "x \<in> set xs \<Longrightarrow> f (hd (sort_key f xs)) \<le> f x"
proof -
  assume x: "x \<in> set xs"
  then obtain y ys where ys: "sort_key f xs = y # ys"
    by (metis list.exhaust length_sort length_0_conv length_greater_0_conv length_pos_if_in_set less_irrefl)
  have "sorted (map f (sort_key f xs))" by simp
  moreover have "x \<in> set (sort_key f xs)" using x by simp
  ultimately show ?thesis unfolding ys by auto
qed

lemma mapR_each: "mapR f xs = Inr ys \<Longrightarrow> x \<in> set xs \<Longrightarrow> \<exists>y \<in> set ys. f x = Inr y"
  by (induction xs arbitrary: ys) (fastforce simp: bindR_eq_Inr)+

lemma mapR_from: "mapR f xs = Inr ys \<Longrightarrow> y \<in> set ys \<Longrightarrow> \<exists>x \<in> set xs. f x = Inr y"
  by (induction xs arbitrary: ys) (fastforce simp: bindR_eq_Inr)+

lemma select_base_Inr:
  assumes "select_base M s crew skills parts bases d = Inr sel"
  shows "bs_base sel \<in> set (base_pool bases) \<and> viable crew skills parts (bs_base sel) \<and>
    travel_plan M (bs_base sel) s 480 90 d = Inr (bs_plan sel) \<and>
    (\<forall>b \<in> set (base_pool bases). viable crew skills parts b \<longrightarrow> (\<exists>p. travel_plan M b s 480 90 d = Inr p \<and>
       (tp_total (bs_plan sel), b_id (bs_base sel)) \<le> (tp_total p, b_id b)))"
proof -
  let ?c = "filter (viable crew skills parts) (base_pool bases)"
  let ?f = "\<lambda>b. bindR (travel_plan M b s 480 90 d) (\<lambda>p. Inr (p, b))"
  let ?k = "\<lambda>(p, b). (tp_total p, b_id b)"
  have ne: "?c \<noteq> []" using assms by (auto simp: select_base_def Let_def split: if_splits)
  then obtain pairs where pairs: "mapR ?f ?c = Inr pairs"
    and sel: "(bs_plan sel, bs_base sel) = hd (sort_key ?k pairs)"
    using assms by (auto simp: select_base_def Let_def bindR_eq_Inr split: if_splits)
  have "hd ?c \<in> set ?c" using ne by (rule hd_in_set)
  from mapR_each [OF pairs this] have "pairs \<noteq> []" by auto
  then have "hd (sort_key ?k pairs) \<in> set pairs"
    by (metis hd_in_set length_0_conv length_sort set_sort)
  then have "(bs_plan sel, bs_base sel) \<in> set pairs" unfolding sel .
  from mapR_from [OF pairs this] have "bs_base sel \<in> set ?c" "travel_plan M (bs_base sel) s 480 90 d = Inr (bs_plan sel)"
    by (auto simp: bindR_eq_Inr)
  moreover have "\<exists>p. travel_plan M b s 480 90 d = Inr p \<and> (tp_total (bs_plan sel), b_id (bs_base sel)) \<le> (tp_total p, b_id b)"
    if b: "b \<in> set ?c" for b
  proof -
    obtain p where p: "(p, b) \<in> set pairs" "travel_plan M b s 480 90 d = Inr p"
      using mapR_each [OF pairs b] by (auto simp: bindR_eq_Inr)
    from sort_key_hd_least [OF p(1), of ?k] p(2) show ?thesis by (simp flip: sel)
  qed
  ultimately show ?thesis by simp
qed

end
