(* ===== verification/Plant.thy ===== *)
theory Plant
  imports Geography Digest
begin

text \<open>
  The plant model (\<open>plant.py\<close>): household counts and element counts per site, the
  chain of elements from a household to the port that serves it, their identifiers, and
  the number of households behind each responsibility domain.
\<close>

definition population :: "(string \<times> int) list" where
  "population =
     [(''PR-SJU'', 342000), (''PR-BAY'', 185000), (''PR-CAR'', 154000), (''PR-GUY'', 89000), (''PR-CAG'', 127000),
      (''PR-PON'', 137000), (''PR-MAY'', 73000), (''PR-ARE'', 87000), (''PR-AGU'', 55000), (''PR-HUM'', 50000),
      (''PR-FAJ'', 32000), (''PR-GUA'', 36000), (''PR-MAN'', 39000), (''PR-CAB'', 47000), (''PR-UTU'', 28000),
      (''PR-ADJ'', 17000), (''PR-JAY'', 14000), (''PR-CIA'', 16000), (''PR-MAR'', 5000), (''PR-LMA'', 8000),
      (''PR-YAU'', 34000), (''PR-VQS'', 8000), (''PR-CUL'', 1800)]"

definition persons_per_household :: rat where
  "persons_per_household = 27/10"

fun homes_per_tap :: "archetype \<Rightarrow> int" where
  "homes_per_tap METRO = 8"
| "homes_per_tap COASTAL = 6"
| "homes_per_tap MOUNTAIN = 4"
| "homes_per_tap REMOTE_ISLAND = 4"

fun homes_per_odp :: "archetype \<Rightarrow> int" where
  "homes_per_odp METRO = 32"
| "homes_per_odp COASTAL = 16"
| "homes_per_odp MOUNTAIN = 8"
| "homes_per_odp REMOTE_ISLAND = 8"

definition homes_per_hfc_node :: int where
  "homes_per_hfc_node = 450"

definition homes_per_pon_port :: int where
  "homes_per_pon_port = 32"

fun pon_share :: "archetype \<Rightarrow> rat" where
  "pon_share METRO = 45/100"
| "pon_share COASTAL = 35/100"
| "pon_share MOUNTAIN = 20/100"
| "pon_share REMOTE_ISLAND = 25/100"

definition households :: "site \<Rightarrow> int" where
  "households s =
     (case map_of population (s_id s) of None \<Rightarrow> 0 | Some pop \<Rightarrow> round_he (of_int pop / persons_per_household))"

record plant_counts =
  pc_households :: int
  pc_hfc :: int
  pc_pon :: int
  pc_taps :: int
  pc_odps :: int
  pc_nodes :: int
  pc_ports :: int

text \<open>\<open>-(-a // b)\<close>: division rounding up.\<close>

definition ceil_div :: "int \<Rightarrow> int \<Rightarrow> int" where
  "ceil_div a b = - ((- a) div b)"

definition site_plant :: "site \<Rightarrow> plant_counts" where
  "site_plant s =
     (let homes = households s; pon_homes = round_he (of_int homes * pon_share (s_archetype s));
          hfc_homes = homes - pon_homes
      in \<lparr>pc_households = homes, pc_hfc = hfc_homes, pc_pon = pon_homes,
          pc_taps = max 1 (ceil_div hfc_homes (homes_per_tap (s_archetype s))),
          pc_odps = max 1 (ceil_div pon_homes (homes_per_odp (s_archetype s))),
          pc_nodes = max 1 (ceil_div hfc_homes homes_per_hfc_node),
          pc_ports = max 1 (ceil_div pon_homes homes_per_pon_port)\<rparr>)"

definition footprint_totals :: plant_counts where
  "footprint_totals =
     (let ps = map site_plant sites_in_cpe_footprint in
      \<lparr>pc_households = sum_list (map pc_households ps), pc_hfc = sum_list (map pc_hfc ps),
       pc_pon = sum_list (map pc_pon ps), pc_taps = sum_list (map pc_taps ps),
       pc_odps = sum_list (map pc_odps ps), pc_nodes = sum_list (map pc_nodes ps),
       pc_ports = sum_list (map pc_ports ps)\<rparr>)"

subsection \<open>Elements and their identifiers\<close>

text \<open>\<open>f"{salt}{index:05d}"\<close>\<close>

definition seq_id :: "(string \<Rightarrow> string) \<Rightarrow> string \<Rightarrow> string \<Rightarrow> int \<Rightarrow> string res" where
  "seq_id D site_id kind index =
     (if index < 0 then Inl (ValueError ''index must be >= 0'')
      else Inr (map upper_char (take 2 (sha_hex D (site_id @ ''|'' @ kind))) @ nat_str_pad 5 (nat index)))"

datatype element_kind = Household | Drop | Tap | Odp | HfcNode | PonPort

record plant_element =
  pe_id :: string
  pe_kind :: element_kind
  pe_technology :: string
  pe_site :: string
  pe_serves :: int
  pe_parent :: "string option"

definition is_delimiter :: "plant_element \<Rightarrow> bool" where
  "is_delimiter e \<longleftrightarrow> pe_kind e \<in> {Tap, Odp}"

definition crew_type :: "plant_element \<Rightarrow> string" where
  "crew_type e = (if pe_kind e \<in> {Household, Drop} then ''clean'' else ''dirty'')"

text \<open>\<open>site_id.split("-", 1)[1]\<close>\<close>

definition short_of :: "string \<Rightarrow> string res" where
  "short_of site_id = (case split_at (CHR ''-'') site_id of (_, None) \<Rightarrow> Inl IndexError | (_, Some r) \<Rightarrow> Inr r)"

definition delimiter_for :: "(string \<Rightarrow> string) \<Rightarrow> string \<Rightarrow> string \<Rightarrow> int \<Rightarrow> plant_element res" where
  "delimiter_for D site_id tech index =
     bindR (site_by_id site_id) (\<lambda>s.
     bindR (short_of site_id) (\<lambda>short.
     if tech = ''HFC'' then
       bindR (seq_id D site_id ''tap'' index) (\<lambda>q.
       bindR (seq_id D site_id ''node'' (index div 60)) (\<lambda>qp.
         Inr \<lparr>pe_id = ''TAP-'' @ short @ ''-'' @ q, pe_kind = Tap, pe_technology = ''HFC'', pe_site = site_id,
              pe_serves = homes_per_tap (s_archetype s), pe_parent = Some (''NODE-'' @ short @ ''-'' @ qp)\<rparr>))
     else
       bindR (seq_id D site_id ''odp'' index) (\<lambda>q.
       bindR (seq_id D site_id ''pon_port'' (index div 4)) (\<lambda>qp.
         Inr \<lparr>pe_id = ''ODP-'' @ short @ ''-'' @ q, pe_kind = Odp, pe_technology = ''PON'', pe_site = site_id,
              pe_serves = homes_per_odp (s_archetype s), pe_parent = Some (''OLTPORT-'' @ short @ ''-'' @ qp)\<rparr>))))"

definition str_or_empty :: "string option \<Rightarrow> string" where
  "str_or_empty x = (case x of None \<Rightarrow> [] | Some s \<Rightarrow> s)"

definition chain_for :: "(string \<Rightarrow> string) \<Rightarrow> string \<Rightarrow> string \<Rightarrow> int \<Rightarrow> plant_element list res" where
  "chain_for D site_id tech index =
     bindR (site_by_id site_id) (\<lambda>s.
     bindR (short_of site_id) (\<lambda>short.
     bindR (delimiter_for D site_id tech index) (\<lambda>delimiter.
     bindR (seq_id D site_id ''hh'' index) (\<lambda>qh.
     bindR (seq_id D site_id ''drop'' index) (\<lambda>qd.
       let parent = Some (''DROP-'' @ short @ ''-'' @ qd);
           household = \<lparr>pe_id = ''HH-'' @ short @ ''-'' @ qh, pe_kind = Household, pe_technology = tech,
             pe_site = site_id, pe_serves = 1, pe_parent = parent\<rparr>;
           drp = \<lparr>pe_id = str_or_empty parent, pe_kind = Drop, pe_technology = tech, pe_site = site_id,
             pe_serves = 1, pe_parent = Some (pe_id delimiter)\<rparr>;
           upstream = \<lparr>pe_id = str_or_empty (pe_parent delimiter),
             pe_kind = (if tech = ''HFC'' then HfcNode else PonPort), pe_technology = tech, pe_site = site_id,
             pe_serves = (if tech = ''HFC'' then homes_per_hfc_node else homes_per_pon_port), pe_parent = None\<rparr>
       in Inr [household, drp, delimiter, upstream])))))"

subsection \<open>Blast radius\<close>

definition domain_to_kind :: "(string \<times> element_kind) list" where
  "domain_to_kind =
     [(''cpe'', Household), (''wifi_or_home'', Household), (''premise_wiring'', Household), (''drop'', Drop),
      (''hfc_tap'', Tap), (''pon_odp'', Odp), (''plant'', HfcNode), (''shared_network'', HfcNode),
      (''provisioning'', Household), (''unknown'', Household)]"

definition kind_of_domain :: "string \<Rightarrow> element_kind" where
  "kind_of_domain d = (case map_of domain_to_kind d of None \<Rightarrow> Household | Some k \<Rightarrow> k)"

definition blast_radius :: "(string \<Rightarrow> string) \<Rightarrow> string \<Rightarrow> string \<Rightarrow> string \<Rightarrow> int res" where
  "blast_radius D dom_name site_id tech =
     (let kind = kind_of_domain dom_name in
      bindR (chain_for D site_id tech 0) (\<lambda>chain.
        case find (\<lambda>e. pe_kind e = kind) chain of
          Some e \<Rightarrow> Inr (pe_serves e)
        | None \<Rightarrow> Inr (if kind \<in> {HfcNode, PonPort}
                       then (if tech = ''HFC'' then homes_per_hfc_node else homes_per_pon_port) else 1)))"

subsection \<open>Properties\<close>

lemma site_by_id_Inr: "site_by_id i = Inr s \<Longrightarrow> s \<in> set sites \<and> s_id s = i"
  by (auto simp: site_by_id_def find_Some_iff split: option.splits dest: nth_mem)

lemma sites_short: "s \<in> set sites \<Longrightarrow> \<exists>r. short_of (s_id s) = Inr r"
proof -
  have "list_all (\<lambda>s. case short_of (s_id s) of Inl e \<Rightarrow> False | Inr r \<Rightarrow> True) sites" by code_simp
  then show "s \<in> set sites \<Longrightarrow> \<exists>r. short_of (s_id s) = Inr r"
    by (cases "short_of (s_id s)") (auto simp: list_all_iff)
qed

lemma seq_id_ok: "0 \<le> i \<Longrightarrow> \<exists>q. seq_id D s k i = Inr q"
  by (simp add: seq_id_def)

lemma seq_id_inj: "seq_id D s k i = Inr q \<Longrightarrow> seq_id D s k j = Inr q \<Longrightarrow> i = j"
  by (auto simp: seq_id_def split: if_splits)

text \<open>The chain: four elements, each naming the next as its parent, and whom each serves.\<close>

lemma chain_for_ok:
  assumes "site_by_id i = Inr s" "0 \<le> n"
  obtains h d l u where "chain_for D i t n = Inr [h, d, l, u]" "delimiter_for D i t n = Inr l"
    "pe_kind h = Household" "pe_kind d = Drop" "pe_kind l = (if t = ''HFC'' then Tap else Odp)"
    "pe_kind u = (if t = ''HFC'' then HfcNode else PonPort)"
    "pe_serves h = 1" "pe_serves d = 1"
    "pe_serves l = (if t = ''HFC'' then homes_per_tap (s_archetype s) else homes_per_odp (s_archetype s))"
    "pe_serves u = (if t = ''HFC'' then homes_per_hfc_node else homes_per_pon_port)"
    "pe_parent h = Some (pe_id d)" "pe_parent d = Some (pe_id l)" "pe_parent l = Some (pe_id u)"
    "pe_parent u = None"
proof -
  obtain r where r: "short_of i = Inr r" using sites_short site_by_id_Inr [OF assms(1)] by blast
  obtain q where q: "seq_id D i k n = Inr (q k)" for k using seq_id_ok [OF assms(2)] by metis
  have "0 \<le> n div 60" "0 \<le> n div 4" using assms(2) by simp_all
  then obtain q1 q2 where q12: "seq_id D i ''node'' (n div 60) = Inr q1" "seq_id D i ''pon_port'' (n div 4) = Inr q2"
    using seq_id_ok by metis
  show thesis
    by (cases "t = ''HFC''") (auto intro!: that simp: chain_for_def delimiter_for_def assms(1) r q q12 Let_def str_or_empty_def)
qed

lemma homes_per_bounds:
  "1 < homes_per_tap a" "homes_per_tap a < homes_per_hfc_node" "1 < homes_per_odp a" "homes_per_odp a \<le> homes_per_pon_port"
  by (cases a; simp add: homes_per_hfc_node_def homes_per_pon_port_def)+

lemma blast_radius_eq:
  assumes "site_by_id i = Inr s"
  shows "blast_radius D d i t = Inr
    (case kind_of_domain d of
       Tap \<Rightarrow> if t = ''HFC'' then homes_per_tap (s_archetype s) else 1
     | Odp \<Rightarrow> if t = ''HFC'' then 1 else homes_per_odp (s_archetype s)
     | HfcNode \<Rightarrow> if t = ''HFC'' then homes_per_hfc_node else homes_per_pon_port
     | PonPort \<Rightarrow> if t = ''HFC'' then homes_per_hfc_node else homes_per_pon_port
     | _ \<Rightarrow> 1)"
  by (rule chain_for_ok [OF assms, of 0 D t]) (auto simp: blast_radius_def split: element_kind.split)

lemma blast_radius_unknown_site: "site_by_id i = Inl e \<Longrightarrow> blast_radius D d i t = Inl e"
  by (simp add: blast_radius_def chain_for_def)

lemma delimiter_for_inj:
  assumes "delimiter_for D i t m = Inr e" "delimiter_for D i t n = Inr e'" "pe_id e = pe_id e'"
  shows "m = n"
  using assms seq_id_inj [of D i]
  by (auto simp: delimiter_for_def bindR_eq_Inr split: if_splits)

lemma site_plant_split: "pc_hfc (site_plant s) + pc_pon (site_plant s) = pc_households (site_plant s)"
  by (simp add: site_plant_def Let_def)

lemma ceil_div_covers: "0 < b \<Longrightarrow> a \<le> ceil_div a b * b \<and> (ceil_div a b - 1) * b < a"
proof -
  assume b: "0 < b"
  define q where "q = (- a) div b"
  have "- a = b * q + (- a) mod b" unfolding q_def by simp
  moreover have "0 \<le> (- a) mod b" "(- a) mod b < b" using b by simp_all
  ultimately show "a \<le> ceil_div a b * b \<and> (ceil_div a b - 1) * b < a"
    unfolding ceil_div_def q_def [symmetric] by (simp add: algebra_simps)
qed

end
