(* ===== verification/Guards.thy ===== *)
theory Guards
  imports Plant
begin

text \<open>
  The policy guard of the agent layer (\<open>agents/guards.py\<close>): the checks of an action
  request in their order, first the inputs, then the hard stops, then what needs a person.
\<close>

definition known_domains :: "string list" where
  "known_domains = [''cpe'', ''wifi_or_home'', ''premise_wiring'', ''provisioning'', ''drop'', ''hfc_tap'',
     ''pon_odp'', ''plant'', ''shared_network'', ''unknown'']"

definition known_actions :: "string list" where
  "known_actions = [''remote_reprovision'', ''remote_reboot'', ''self_help'', ''clean_boots'', ''dirty_boots_mr'',
     ''joint_dispatch'', ''plant_action'', ''manual_review'', ''monitor'']"

definition implied_skills :: "string \<Rightarrow> string list" where
  "implied_skills d =
     (if d = ''pon_odp'' then [''fibre_splice'']
      else if d \<in> {''hfc_tap'', ''plant'', ''shared_network''} then [''hfc_plant''] else [])"

definition implied_parts :: "string \<Rightarrow> string list" where
  "implied_parts d =
     (if d = ''pon_odp'' then [''splice_kit''] else if d = ''hfc_tap'' then [''connectors'']
      else if d = ''drop'' then [''drop''] else if d = ''cpe'' then [''cpe''] else [])"

definition hard_max_remote_attempts :: int where
  "hard_max_remote_attempts = 2"

definition hard_max_field_visits :: int where
  "hard_max_field_visits = 3"

definition remote_actions :: "string list" where
  "remote_actions = [''remote_reboot'', ''remote_reprovision'', ''self_help'']"

definition field_actions :: "string list" where
  "field_actions = [''clean_boots'', ''dirty_boots_mr'', ''joint_dispatch'', ''plant_action'']"

definition physical_domains :: "string list" where
  "physical_domains = [''drop'', ''hfc_tap'', ''pon_odp'', ''plant'', ''shared_network'']"

definition plant_domains :: "string list" where
  "plant_domains = [''hfc_tap'', ''pon_odp'', ''plant'', ''shared_network'']"

definition high_blast_radius :: int where
  "high_blast_radius = 24"

datatype guard_verdict = Allowed | RequiresApproval | Blocked

record policy_result =
  pr_verdict :: guard_verdict
  pr_reasons :: "string list"
  pr_kind :: "string option"

definition permitted :: "policy_result \<Rightarrow> bool" where
  "permitted r \<longleftrightarrow> pr_verdict r \<noteq> Blocked"

record action_request =
  ar_domain :: string
  ar_action :: string
  ar_technology :: string
  ar_site :: string
  ar_remote :: int
  ar_field :: int
  ar_max_remote :: int
  ar_max_field :: int
  ar_base :: "string option"
  ar_skills :: "string list"
  ar_parts :: "string list"
  ar_evidence :: int
  ar_agrees :: "bool option"
  ar_confidence :: rat
  ar_fallback :: bool
  ar_threshold :: rat

subsection \<open>The three groups of rules\<close>

definition input_blocks :: "action_request \<Rightarrow> string list" where
  "input_blocks r =
     (if List.member known_domains (ar_domain r) then []
      else [''domain '' @ str_repr (ar_domain r) @ '' is not a recognised responsibility domain; '' @
            ''no rule can reason about it, so nothing is permitted'']) @
     (if List.member known_actions (ar_action r) then []
      else [''action '' @ str_repr (ar_action r) @ '' is not a recognised action'']) @
     (if ar_remote r < 0 \<or> ar_field r < 0
      then [''negative attempt counts (remote='' @ int_str (ar_remote r) @ '', field='' @ int_str (ar_field r) @
            '') cannot be trusted''] else [])"

definition missing :: "string list \<Rightarrow> string list \<Rightarrow> string list" where
  "missing needed have_them = sort (remdups (filter (\<lambda>x. \<not> List.member have_them x) needed))"

definition base_blocks :: "action_request \<Rightarrow> string list" where
  "base_blocks r =
     (case ar_base r of
        None \<Rightarrow> []
      | Some b \<Rightarrow>
          if b = [] then []
          else case base_by_id b of
            None \<Rightarrow> [''unknown dispatch base '' @ b]
          | Some base \<Rightarrow>
              (let skills = missing (ar_skills r @ implied_skills (ar_domain r)) (b_skills base);
                   parts = missing (ar_parts r @ implied_parts (ar_domain r)) (b_stock base)
               in (if skills = [] then [] else [b @ '' lacks required skills '' @ py_repr (jarr skills)]) @
                  (if parts = [] then []
                   else [b @ '' lacks required parts '' @ py_repr (jarr parts) @
                         ''; the crew would arrive unable to work''])))"

definition hard_blocks :: "action_request \<Rightarrow> int \<Rightarrow> string list" where
  "hard_blocks r homes =
     (let max_remote = min (ar_max_remote r) hard_max_remote_attempts;
          max_field = min (ar_max_field r) hard_max_field_visits;
          remote = List.member remote_actions (ar_action r); field = List.member field_actions (ar_action r)
      in (if remote \<and> List.member physical_domains (ar_domain r)
          then [ar_action r @ '' cannot repair a '' @ ar_domain r @ '' fault; it would '' @
                ''interrupt service and change nothing''] else []) @
         (if ar_action r = ''clean_boots'' \<and> List.member plant_domains (ar_domain r)
          then [''a clean-boots technician cannot resolve a '' @ ar_domain r @ '' fault '' @
                ''affecting '' @ int_str homes @ '' households; it needs plant work''] else []) @
         (if remote \<and> max_remote \<le> ar_remote r
          then [''remote attempt budget exhausted at '' @ int_str (ar_remote r) @ '' against a ceiling of '' @
                int_str max_remote] else []) @
         (if field \<and> max_field \<le> ar_field r
          then [''field visit budget exhausted at '' @ int_str (ar_field r) @ '' against a ceiling of '' @
                int_str max_field] else []) @
         (if field then base_blocks r else []) @
         (if ar_evidence r = 0 then [''no evidence was gathered, so nothing supports any action''] else []))"

text \<open>The rules that ask for a person: each adds its reason and may settle the kind of approval.\<close>

definition first_kind :: "string \<Rightarrow> string option \<Rightarrow> string option" where
  "first_kind k old = (case old of None \<Rightarrow> Some k | Some s \<Rightarrow> if s = [] then Some k else Some s)"

definition approval_rules :: "action_request \<Rightarrow> int \<Rightarrow> (bool \<times> string \<times> (string option \<Rightarrow> string option)) list" where
  "approval_rules r homes =
     [(ar_agrees r = Some False, ''the agent and the deterministic classifier disagree'', \<lambda>_. Some ''rca_review''),
      (ar_confidence r < ar_threshold r,
       ''agent confidence '' @ fixed 2 (ar_confidence r) @ '' is below '' @ fixed 2 (ar_threshold r),
       first_kind ''rca_review''),
      (ar_fallback r, ''the agent was unavailable and the rules-based answer is standing in'', first_kind ''rca_review''),
      (high_blast_radius \<le> homes, int_str homes @ '' households sit behind this element'', \<lambda>_. Some ''high_blast_radius''),
      (List.member field_actions (ar_action r), ar_action r @ '' sends a crew and incurs cost'', first_kind ''dispatch'')]"

fun apply_rules ::
  "(bool \<times> string \<times> (string option \<Rightarrow> string option)) list \<Rightarrow> string list \<times> string option \<Rightarrow> string list \<times> string option" where
  "apply_rules [] acc = acc"
| "apply_rules ((b, reason, f) # rs) acc =
     apply_rules rs (if b then (fst acc @ [reason], f (snd acc)) else acc)"

definition blocked_result :: "string list \<Rightarrow> policy_result" where
  "blocked_result reasons = \<lparr>pr_verdict = Blocked, pr_reasons = reasons, pr_kind = None\<rparr>"

definition evaluate :: "(string \<Rightarrow> string) \<Rightarrow> action_request \<Rightarrow> policy_result res" where
  "evaluate D r =
     (if input_blocks r \<noteq> [] then Inr (blocked_result (input_blocks r))
      else bindR (blast_radius D (ar_domain r) (ar_site r) (ar_technology r)) (\<lambda>homes.
        if hard_blocks r homes \<noteq> [] then Inr (blocked_result (hard_blocks r homes))
        else (let (approvals, kind) = apply_rules (approval_rules r homes) ([], None) in
          Inr (if approvals \<noteq> [] then \<lparr>pr_verdict = RequiresApproval, pr_reasons = approvals, pr_kind = kind\<rparr>
               else \<lparr>pr_verdict = Allowed, pr_reasons = [''no policy rule was triggered''], pr_kind = None\<rparr>))))"

subsection \<open>Properties\<close>

lemma apply_rules_eq:
  "fst (apply_rules rs acc) = fst acc @ map (\<lambda>(b, m, f). m) (filter fst rs)"
  by (induction rs acc rule: apply_rules.induct) auto

lemma evaluate_site:
  "site_by_id (ar_site r) = Inr s \<Longrightarrow>
   \<exists>homes. blast_radius D (ar_domain r) (ar_site r) (ar_technology r) = Inr homes \<and>
     evaluate D r = Inr (if input_blocks r \<noteq> [] then blocked_result (input_blocks r)
       else if hard_blocks r homes \<noteq> [] then blocked_result (hard_blocks r homes)
       else if fst (apply_rules (approval_rules r homes) ([], None)) \<noteq> []
       then \<lparr>pr_verdict = RequiresApproval, pr_reasons = fst (apply_rules (approval_rules r homes) ([], None)),
             pr_kind = snd (apply_rules (approval_rules r homes) ([], None))\<rparr>
       else \<lparr>pr_verdict = Allowed, pr_reasons = [''no policy rule was triggered''], pr_kind = None\<rparr>)"
  by (simp add: blast_radius_eq evaluate_def split_def Let_def)

lemma evaluate_permitted:
  assumes "evaluate D r = Inr p" "permitted p"
  obtains homes where "input_blocks r = []" "blast_radius D (ar_domain r) (ar_site r) (ar_technology r) = Inr homes"
    "hard_blocks r homes = []"
  using assms
  by (auto simp: evaluate_def bindR_eq_Inr permitted_def blocked_result_def split: if_splits)

lemma evaluate_allowed:
  assumes "evaluate D r = Inr p" "pr_verdict p = Allowed"
  obtains homes where "input_blocks r = []" "blast_radius D (ar_domain r) (ar_site r) (ar_technology r) = Inr homes"
    "hard_blocks r homes = []" "\<forall>x \<in> set (approval_rules r homes). \<not> fst x"
  using assms
  by (auto simp: evaluate_def bindR_eq_Inr blocked_result_def split_def Let_def apply_rules_eq filter_empty_conv
      split: if_splits)

end
