(* ===== verification/Provider.thy ===== *)
theory Provider
  imports PyJson
begin

text \<open>
  The model provider of the agent layer (\<open>agents/provider.py\<close>) and the status record of
  what the agents did (\<open>agents/status.py\<close>). The network is an argument: what the opener
  answers to a request at an attempt, what \<open>json.loads\<close> makes of a text and how long the
  call took.
\<close>

subsection \<open>Providers\<close>

definition default_endpoint :: string where
  "default_endpoint = ''https://api.anthropic.com/v1/messages''"

definition default_model :: string where
  "default_model = ''claude-sonnet-4-6''"

definition default_version :: string where
  "default_version = ''2023-06-01''"

record completion =
  co_text :: string
  co_source :: string
  co_latency_ms :: int
  co_attempts :: int

record anthropic_provider =
  ap_key :: string
  ap_endpoint :: string
  ap_model :: string
  ap_version :: string
  ap_timeout :: rat
  ap_max_retries :: int
  ap_calls :: int

datatype provider =
    NullProvider string
  | ScriptedProvider "string \<Rightarrow> string"
  | AnthropicProvider anthropic_provider

text \<open>
  One request: the body of an answer, an HTTP error with its code, a transport failure
  (URL error, timeout, operating-system error), or any other exception.
\<close>

datatype reply =
    Body string
  | HttpError int string
  | Unreachable string
  | Crash exn

record transport =
  tr_send :: "anthropic_provider \<Rightarrow> json \<Rightarrow> int \<Rightarrow> reply"
  tr_loads :: "string \<Rightarrow> string + json"
  tr_latency :: int

definition is_text_block :: "json \<Rightarrow> bool" where
  "is_text_block b = (case b of JObj d \<Rightarrow> dget ''type'' d = JStr ''text'' | _ \<Rightarrow> False)"

fun text_of_block :: "json \<Rightarrow> string res" where
  "text_of_block (JObj d) =
     (case dget_or ''text'' (JStr []) d of JStr s \<Rightarrow> Inr s
      | _ \<Rightarrow> Inl (TypeError ''sequence item: expected str instance''))"
| "text_of_block _ = Inr []"

definition newline :: string where
  "newline = [char_of (10 :: nat)]"

definition extract_text :: "json \<Rightarrow> string res" where
  "extract_text data =
     bindR (as_dict data) (\<lambda>d.
     bindR (py_list (py_or (dget ''content'' d) (JArr []))) (\<lambda>blocks.
     bindR (mapR text_of_block (filter is_text_block blocks)) (\<lambda>texts.
       Inr (strip (join newline texts)))))"

definition request_payload :: "string \<Rightarrow> int \<Rightarrow> string \<Rightarrow> string \<Rightarrow> json" where
  "request_payload model max_tokens system user =
     JObj [(''model'', JStr model), (''max_tokens'', JInt max_tokens), (''system'', JStr system),
           (''messages'', JArr [JObj [(''role'', JStr ''user''), (''content'', JStr user)]])]"

text \<open>One attempt: a usable text, an exception that leaves the call, or a failure to try again.\<close>

datatype attempt_outcome = Usable string | Fatal exn | Again string

definition rejected_text :: "int \<Rightarrow> string" where
  "rejected_text code =
     ''provider rejected the request with '' @ int_str code @ ''; not retrying because it will fail identically''"

definition try_request :: "transport \<Rightarrow> reply \<Rightarrow> attempt_outcome" where
  "try_request T r =
     (case r of
        HttpError code msg \<Rightarrow>
          if 400 \<le> code \<and> code < 500 then Fatal (ProviderError (rejected_text code)) else Again msg
      | Unreachable msg \<Rightarrow> Again msg
      | Crash e \<Rightarrow> Fatal e
      | Body b \<Rightarrow>
          (case tr_loads T b of
             Inl msg \<Rightarrow> Again msg
           | Inr data \<Rightarrow>
               (case extract_text data of
                  Inl e \<Rightarrow> Fatal e
                | Inr text \<Rightarrow> if text = [] then Again ''provider returned no text block'' else Usable text)))"

text \<open>
  The loop over \<open>range(1, max_retries + 2)\<close>; the result carries the number of requests sent
  in all, which \<open>calls\<close> counts.
\<close>

fun attempt_loop ::
  "transport \<Rightarrow> anthropic_provider \<Rightarrow> json \<Rightarrow> int list \<Rightarrow> string \<Rightarrow> completion res \<times> anthropic_provider" where
  "attempt_loop T p payload [] err =
     (Inl (ProviderError (''provider failed after '' @ int_str (ap_max_retries p + 1) @ '' attempt(s): '' @ err)), p)"
| "attempt_loop T p payload (a # rest) err =
     (let p1 = p\<lparr>ap_calls := ap_calls p + 1\<rparr> in
      case try_request T (tr_send T p payload a) of
        Usable text \<Rightarrow> (Inr \<lparr>co_text = text, co_source = ''anthropic'', co_latency_ms = tr_latency T, co_attempts = a\<rparr>, p1)
      | Fatal e \<Rightarrow> (Inl e, p1)
      | Again msg \<Rightarrow> attempt_loop T p1 payload (if ap_max_retries p < a then [] else rest) msg)"

definition anthropic_complete ::
  "transport \<Rightarrow> anthropic_provider \<Rightarrow> string \<Rightarrow> string \<Rightarrow> int \<Rightarrow> completion res \<times> anthropic_provider" where
  "anthropic_complete T p system user max_tokens =
     attempt_loop T p (request_payload (ap_model p) max_tokens system user) [1..ap_max_retries p + 1] ''None''"

fun complete :: "transport \<Rightarrow> provider \<Rightarrow> string \<Rightarrow> string \<Rightarrow> int \<Rightarrow> completion res \<times> provider" where
  "complete T (NullProvider reason) system user max_tokens = (Inl (ProviderError reason), NullProvider reason)"
| "complete T (ScriptedProvider responder) system user max_tokens =
     (Inr \<lparr>co_text = responder user, co_source = ''scripted'', co_latency_ms = 0, co_attempts = 1\<rparr>,
      ScriptedProvider responder)"
| "complete T (AnthropicProvider p) system user max_tokens =
     (let (r, p') = anthropic_complete T p system user max_tokens in (r, AnthropicProvider p'))"

type_synonym environment = "(string \<times> string) list"

definition env_get :: "environment \<Rightarrow> string \<Rightarrow> string \<Rightarrow> string" where
  "env_get env k d = (case map_of env k of None \<Rightarrow> d | Some v \<Rightarrow> v)"

definition forced_fake :: "environment \<Rightarrow> bool" where
  "forced_fake env \<longleftrightarrow>
     ''fake'' \<in> {lower (strip (env_get env ''LLM_PROVIDER'' [])), lower (strip (env_get env ''MODEL_PROVIDER'' []))}"

definition provider_from_env :: "environment \<Rightarrow> provider option \<Rightarrow> provider res" where
  "provider_from_env env fallback =
     (let key = strip (env_get env ''ANTHROPIC_API_KEY'' []) in
      if key = [] then Inr (case fallback of Some p \<Rightarrow> p | None \<Rightarrow>
          NullProvider ''no ANTHROPIC_API_KEY is set, so no model is reachable'')
      else if forced_fake env then Inr (case fallback of Some p \<Rightarrow> p | None \<Rightarrow>
          NullProvider ''MODEL_PROVIDER or LLM_PROVIDER is set to fake, so the model is deliberately bypassed'')
      else
        bindR (case map_of env ''LLM_TIMEOUT'' of None \<Rightarrow> Inr 20 | Some s \<Rightarrow> py_float (JStr s)) (\<lambda>timeout.
        bindR (case map_of env ''LLM_MAX_RETRIES'' of None \<Rightarrow> Inr 2 | Some s \<Rightarrow> py_int (JStr s)) (\<lambda>retries.
          Inr (AnthropicProvider \<lparr>ap_key = key, ap_endpoint = env_get env ''ANTHROPIC_ENDPOINT'' default_endpoint,
            ap_model = env_get env ''ANTHROPIC_MODEL'' default_model, ap_version = default_version,
            ap_timeout = timeout, ap_max_retries = retries, ap_calls = 0\<rparr>))))"

subsection \<open>Status\<close>

record provider_description =
  pd_kind :: string
  pd_model :: "string option"
  pd_active :: bool
  pd_reason :: string
  pd_key_present :: bool

definition describe_provider :: "environment \<Rightarrow> provider_description" where
  "describe_provider env =
     (if strip (env_get env ''ANTHROPIC_API_KEY'' []) = []
      then \<lparr>pd_kind = ''null'', pd_model = None, pd_active = False,
             pd_reason = ''ANTHROPIC_API_KEY is not set, so no model is reachable and every '' @
               ''agent falls back to the deterministic rules'', pd_key_present = False\<rparr>
      else if forced_fake env
      then \<lparr>pd_kind = ''null'', pd_model = None, pd_active = False,
             pd_reason = ''a key is present but MODEL_PROVIDER or LLM_PROVIDER is set to fake, '' @
               ''so the model is deliberately bypassed'', pd_key_present = True\<rparr>
      else \<lparr>pd_kind = ''anthropic'', pd_model = Some (env_get env ''ANTHROPIC_MODEL'' default_model),
             pd_active = True, pd_reason = ''a key is present and no switch forces the fake'',
             pd_key_present = True\<rparr>)"

definition headline :: "provider_description \<Rightarrow> string" where
  "headline d =
     (if pd_active d then ''Live model: '' @ (case pd_model d of None \<Rightarrow> ''None'' | Some m \<Rightarrow> m)
      else ''No model active: every decision is the deterministic rules'')"

record agent_run =
  rn_agent :: string
  rn_source :: string
  rn_accepted :: bool
  rn_reason :: "string option"
  rn_agreed :: "bool option"

record recorder =
  rc_runs :: "agent_run list"
  rc_limit :: int

text \<open>\<open>del self.runs[:len(self.runs) - self.limit]\<close> past the limit.\<close>

definition record_run :: "agent_run \<Rightarrow> recorder \<Rightarrow> recorder" where
  "record_run run rc =
     (let runs = rc_runs rc @ [run]; n = int (length runs) in
      rc\<lparr>rc_runs := if rc_limit rc < n then drop (nat (n - rc_limit rc)) runs else runs\<rparr>)"

definition reset :: "recorder \<Rightarrow> recorder" where
  "reset rc = rc\<lparr>rc_runs := []\<rparr>"

definition attempted :: "recorder \<Rightarrow> nat" where
  "attempted rc = length (rc_runs rc)"

definition accepted_runs :: "recorder \<Rightarrow> nat" where
  "accepted_runs rc = length (filter rn_accepted (rc_runs rc))"

definition fell_back :: "recorder \<Rightarrow> nat" where
  "fell_back rc = length (filter (\<lambda>r. \<not> rn_accepted r) (rc_runs rc))"

definition fallback_rate :: "recorder \<Rightarrow> rat option" where
  "fallback_rate rc =
     (if rc_runs rc = [] then None else Some (round_dec 4 (of_nat (fell_back rc) / of_nat (length (rc_runs rc)))))"

record agent_row =
  rw_agent :: string
  rw_attempted :: nat
  rw_accepted :: nat
  rw_fell_back :: nat
  rw_disagreed :: nat

definition fresh_row :: "string \<Rightarrow> agent_row" where
  "fresh_row a = \<lparr>rw_agent = a, rw_attempted = 0, rw_accepted = 0, rw_fell_back = 0, rw_disagreed = 0\<rparr>"

definition count_run :: "agent_run \<Rightarrow> agent_row \<Rightarrow> agent_row" where
  "count_run run row =
     row\<lparr>rw_attempted := rw_attempted row + 1,
         rw_accepted := rw_accepted row + (if rn_accepted run then 1 else 0),
         rw_fell_back := rw_fell_back row + (if rn_accepted run then 0 else 1),
         rw_disagreed := rw_disagreed row + (if rn_agreed run = Some False then 1 else 0)\<rparr>"

definition tally :: "agent_run \<Rightarrow> (string \<times> agent_row) list \<Rightarrow> (string \<times> agent_row) list" where
  "tally run names =
     (let row = (case map_of names (rn_agent run) of None \<Rightarrow> fresh_row (rn_agent run) | Some r \<Rightarrow> r)
      in dset (rn_agent run) (count_run run row) names)"

definition by_agent :: "recorder \<Rightarrow> agent_row list" where
  "by_agent rc = sort_key (\<lambda>r. - int (rw_attempted r)) (map snd (fold tally (rc_runs rc) []))"

definition count_reason :: "agent_run \<Rightarrow> (string \<times> int) list \<Rightarrow> (string \<times> int) list" where
  "count_reason run counts =
     (case rn_reason run of
        None \<Rightarrow> counts
      | Some r \<Rightarrow> if r = [] then counts
                  else dset r ((case map_of counts r of None \<Rightarrow> 0 | Some n \<Rightarrow> n) + 1) counts)"

definition fallback_reasons :: "recorder \<Rightarrow> (string \<times> int) list" where
  "fallback_reasons rc = sort_key (\<lambda>(r, n). - n) (fold count_reason (rc_runs rc) [])"

definition status_verdict :: "recorder \<Rightarrow> provider_description \<Rightarrow> string" where
  "status_verdict rc d =
     (if \<not> pd_active d then ''INACTIVE: no agent decision can be produced. Every number downstream is '' @
        ''the deterministic rules, whatever the panels look like.''
      else if rc_runs rc = [] then ''CONFIGURED but nothing has run yet, so no decision has been attempted.''
      else if fell_back rc = length (rc_runs rc)
      then ''CONFIGURED but every attempt fell back. The key is set and no decision has survived '' @
        ''validation; check the reasons below.''
      else if fell_back rc \<noteq> 0
      then ''ACTIVE with '' @ int_str (int (fell_back rc)) @ '' of '' @ int_str (int (length (rc_runs rc))) @
        '' attempts falling back.''
      else ''ACTIVE, every attempt accepted.'')"

record status_snapshot =
  ss_provider :: provider_description
  ss_headline :: string
  ss_attempted :: nat
  ss_accepted :: nat
  ss_fell_back :: nat
  ss_rate :: "rat option"
  ss_by_agent :: "agent_row list"
  ss_reasons :: "(string \<times> int) list"
  ss_verdict :: string

definition snapshot :: "recorder \<Rightarrow> environment \<Rightarrow> status_snapshot" where
  "snapshot rc env =
     (let d = describe_provider env in
      \<lparr>ss_provider = d, ss_headline = headline d, ss_attempted = attempted rc, ss_accepted = accepted_runs rc,
       ss_fell_back = fell_back rc, ss_rate = fallback_rate rc, ss_by_agent = by_agent rc,
       ss_reasons = fallback_reasons rc, ss_verdict = status_verdict rc d\<rparr>)"

subsection \<open>Properties\<close>

text \<open>A call of the network sends at most one request per attempt number of its list.\<close>

lemma attempt_loop_calls:
  "attempt_loop T p payload as err = (r, p') \<Longrightarrow>
   ap_calls p \<le> ap_calls p' \<and> ap_calls p' \<le> ap_calls p + int (length as) \<and> p' = p\<lparr>ap_calls := ap_calls p'\<rparr>"
proof (induction as arbitrary: p err)
  case Nil
  then show ?case by (auto simp: Let_def)
next
  case (Cons a as)
  show ?case
  proof (cases "try_request T (tr_send T p payload a)")
    case (Again msg)
    then have "attempt_loop T (p\<lparr>ap_calls := ap_calls p + 1\<rparr>) payload (if ap_max_retries p < a then [] else as) msg = (r, p')"
      using Cons.prems by (simp add: Let_def)
    then show ?thesis
      using Cons.IH [of "p\<lparr>ap_calls := ap_calls p + 1\<rparr>" msg] by (auto split: if_splits)
  qed (use Cons.prems in \<open>auto simp: Let_def\<close>)
qed

lemma attempt_loop_usable:
  "attempt_loop T p payload as err = (Inr c, p') \<Longrightarrow>
   co_text c \<noteq> [] \<and> co_source c = ''anthropic'' \<and> co_attempts c \<in> set as"
proof (induction as arbitrary: p err)
  case Nil
  then show ?case by simp
next
  case (Cons a as)
  show ?case
  proof (cases "try_request T (tr_send T p payload a)")
    case (Again msg)
    then show ?thesis
      using Cons.prems Cons.IH by (auto simp: Let_def split: if_splits)
  next
    case (Usable s)
    then have "s \<noteq> []"
      by (auto simp: try_request_def split: reply.splits sum.splits if_splits)
    with Usable Cons.prems show ?thesis by (auto simp: Let_def)
  qed (use Cons.prems in \<open>auto simp: Let_def\<close>)
qed

text \<open>The recorder keeps the most recent runs.\<close>

lemma record_run_runs:
  assumes "0 \<le> rc_limit rc"
  shows "rc_runs (record_run run rc) = drop (Suc (length (rc_runs rc)) - nat (rc_limit rc)) (rc_runs rc @ [run])"
proof -
  have "nat (1 + int (length (rc_runs rc)) - rc_limit rc) = Suc (length (rc_runs rc)) - nat (rc_limit rc)"
    using assms by linarith
  then show ?thesis
    using assms by (simp add: record_run_def Let_def)
qed

lemma record_run_keeps_last:
  assumes "rc_runs rc = drop (length all - nat (rc_limit rc)) all" "0 \<le> rc_limit rc"
  shows "rc_runs (record_run run rc) = drop (length (all @ [run]) - nat (rc_limit rc)) (all @ [run])"
proof -
  obtain k where k: "k = length all - nat (rc_limit rc)" by simp
  have eq: "rc_runs rc @ [run] = drop k (all @ [run])" and len: "length (rc_runs rc) = length all - k"
    using assms(1) k by simp_all
  have "Suc (length all - k) - nat (rc_limit rc) + k = length (all @ [run]) - nat (rc_limit rc)"
    unfolding k by simp
  then show ?thesis by (simp only: record_run_runs [OF assms(2)] eq len drop_drop)
qed

lemma record_run_limit [simp]: "rc_limit (record_run run rc) = rc_limit rc"
  by (simp add: record_run_def Let_def)

lemma fold_record_limit [simp]: "rc_limit (fold record_run runs rc) = rc_limit rc"
  by (induction runs arbitrary: rc) simp_all

lemma fold_record_keeps_last:
  assumes "rc_runs rc = []" "0 \<le> rc_limit rc"
  shows "rc_runs (fold record_run runs rc) = drop (length runs - nat (rc_limit rc)) runs"
proof (induction runs rule: rev_induct)
  case Nil
  then show ?case using assms by simp
next
  case (snoc x xs)
  then show ?case
    using record_run_keeps_last [of "fold record_run xs rc" xs x] assms by simp
qed

lemma accepted_or_fell_back: "accepted_runs rc + fell_back rc = attempted rc"
  by (simp add: accepted_runs_def fell_back_def attempted_def sum_length_filter_compl)

text \<open>The rows by agent split the runs: each run is counted once, in its agent's row.\<close>

definition row_for :: "agent_run list \<Rightarrow> string \<Rightarrow> agent_row" where
  "row_for runs a =
     \<lparr>rw_agent = a, rw_attempted = length (filter (\<lambda>r. rn_agent r = a) runs),
      rw_accepted = length (filter (\<lambda>r. rn_agent r = a \<and> rn_accepted r) runs),
      rw_fell_back = length (filter (\<lambda>r. rn_agent r = a \<and> \<not> rn_accepted r) runs),
      rw_disagreed = length (filter (\<lambda>r. rn_agent r = a \<and> rn_agreed r = Some False) runs)\<rparr>"

lemma fold_tally_map:
  "map_of (fold tally runs []) =
     (\<lambda>a. if a \<in> rn_agent ` set runs then Some (row_for runs a) else None)"
proof (induction runs rule: rev_induct)
  case Nil
  then show ?case by simp
next
  case (snoc run runs)
  have "count_run run (row_for runs (rn_agent run)) = row_for (runs @ [run]) (rn_agent run)"
    by (simp add: count_run_def row_for_def)
  moreover have "count_run run (fresh_row (rn_agent run)) = row_for (runs @ [run]) (rn_agent run)"
    if "rn_agent run \<notin> rn_agent ` set runs"
  proof -
    have "filter (\<lambda>r. rn_agent r = rn_agent run \<and> P r) runs = []" for P
      using that by (auto simp: filter_empty_conv image_iff)
    from this [of "\<lambda>_. True"] this show ?thesis
      by (simp add: count_run_def row_for_def fresh_row_def)
  qed
  moreover have "row_for (runs @ [run]) a = row_for runs a" if "a \<noteq> rn_agent run" for a
    using that by (simp add: row_for_def)
  ultimately show ?case
    using snoc.IH by (auto simp: tally_def Let_def fun_eq_iff)
qed

lemma fold_tally_distinct: "distinct (map fst (fold tally runs names))" if "distinct (map fst names)"
  using that by (induction runs arbitrary: names) (simp_all add: tally_def Let_def distinct_dset)

lemma by_agent_rows:
  "set (by_agent rc) = row_for (rc_runs rc) ` rn_agent ` set (rc_runs rc)"
proof -
  have "set (map snd (fold tally (rc_runs rc) [])) = ran (map_of (fold tally (rc_runs rc) []))"
    by (simp add: ran_distinct fold_tally_distinct)
  also have "\<dots> = row_for (rc_runs rc) ` rn_agent ` set (rc_runs rc)"
    by (auto simp: fold_tally_map ran_def)
  finally show ?thesis by (simp add: by_agent_def)
qed

text \<open>What is configured and what is built agree.\<close>

lemma described_provider:
  assumes "provider_from_env env None = Inr p"
  shows "pd_active (describe_provider env) \<longleftrightarrow> (\<exists>a. p = AnthropicProvider a \<and> pd_model (describe_provider env) = Some (ap_model a))"
  using assms by (auto simp: provider_from_env_def describe_provider_def Let_def bindR_eq_Inr split: if_splits)

end
