(* ===== verification/AgentLaws.thy ===== *)
theory AgentLaws
  imports Guards Agents
begin

text \<open>
  Laws of the agent layer: what the policy guard permits, that a decision is always a
  checked answer or the deterministic one, how often the provider is called, what the
  status record counts, and the plant and travel facts the guard and the router use.
\<close>

subsection \<open>The guard\<close>

lemma missing_Nil [simp]: "missing needed have_them = [] \<longleftrightarrow> set needed \<subseteq> set have_them"
proof -
  have "set (missing needed have_them) = set needed - set have_them" by (auto simp: missing_def)
  then show ?thesis by (metis Diff_eq_empty_iff set_empty)
qed

lemma input_blocks_Nil:
  "input_blocks r = [] \<longleftrightarrow> ar_domain r \<in> set known_domains \<and> ar_action r \<in> set known_actions \<and>
     0 \<le> ar_remote r \<and> 0 \<le> ar_field r"
  by (auto simp: input_blocks_def)

lemma base_blocks_Nil:
  "base_blocks r = [] \<longleftrightarrow> (\<forall>i. ar_base r = Some i \<and> i \<noteq> [] \<longrightarrow> (\<exists>b. base_by_id i = Some b \<and>
     set (ar_skills r) \<union> set (implied_skills (ar_domain r)) \<subseteq> set (b_skills b) \<and>
     set (ar_parts r) \<union> set (implied_parts (ar_domain r)) \<subseteq> set (b_stock b)))"
  by (auto simp: base_blocks_def Let_def split: option.splits)

lemma hard_blocks_Nil:
  "hard_blocks r homes = [] \<longleftrightarrow>
     \<not> (ar_action r \<in> set remote_actions \<and> ar_domain r \<in> set physical_domains) \<and>
     \<not> (ar_action r = ''clean_boots'' \<and> ar_domain r \<in> set plant_domains) \<and>
     (ar_action r \<in> set remote_actions \<longrightarrow> ar_remote r < min (ar_max_remote r) hard_max_remote_attempts) \<and>
     (ar_action r \<in> set field_actions \<longrightarrow> ar_field r < min (ar_max_field r) hard_max_field_visits \<and> base_blocks r = []) \<and>
     ar_evidence r \<noteq> 0"
  unfolding hard_blocks_def Let_def append_is_Nil_conv not_le [symmetric] by simp

text \<open>
  C18. Whatever the guard permits (allowed or with an approval) is a known action on a known
  domain with evidence; a remote action is never applied to physical plant, a clean-boots
  technician never sent to plant work, no attempt goes past the guard's own ceilings of two
  remote attempts and three visits whatever the caller asked for, and a named dispatch base
  exists and carries every skill and part the request and its domain require.
\<close>
theorem guard_permits_safely:
  assumes "evaluate D r = Inr p" "permitted p"
  shows "ar_domain r \<in> set known_domains \<and> ar_action r \<in> set known_actions \<and> ar_evidence r \<noteq> 0 \<and>
    \<not> (ar_action r \<in> set remote_actions \<and> ar_domain r \<in> set physical_domains) \<and>
    \<not> (ar_action r = ''clean_boots'' \<and> ar_domain r \<in> set plant_domains) \<and>
    (ar_action r \<in> set remote_actions \<longrightarrow> 0 \<le> ar_remote r \<and> ar_remote r < 2 \<and> ar_remote r < ar_max_remote r) \<and>
    (ar_action r \<in> set field_actions \<longrightarrow> 0 \<le> ar_field r \<and> ar_field r < 3 \<and> ar_field r < ar_max_field r \<and>
      (\<forall>i. ar_base r = Some i \<and> i \<noteq> [] \<longrightarrow> (\<exists>b. base_by_id i = Some b \<and>
        set (ar_skills r) \<union> set (implied_skills (ar_domain r)) \<subseteq> set (b_skills b) \<and>
        set (ar_parts r) \<union> set (implied_parts (ar_domain r)) \<subseteq> set (b_stock b))))"
proof -
  obtain homes where "input_blocks r = []" "hard_blocks r homes = []"
    using assms by (rule evaluate_permitted)
  then show ?thesis
    unfolding input_blocks_Nil hard_blocks_Nil base_blocks_Nil
    by (simp add: hard_max_remote_attempts_def hard_max_field_visits_def)
qed

definition demo_request :: action_request where
  "demo_request = \<lparr>ar_domain = ''hfc_tap'', ar_action = ''dirty_boots_mr'', ar_technology = ''HFC'',
     ar_site = ''PR-CUL'', ar_remote = 0, ar_field = 1, ar_max_remote = 2, ar_max_field = 3, ar_base = None,
     ar_skills = [], ar_parts = [], ar_evidence = 3, ar_agrees = Some True, ar_confidence = 9/10,
     ar_fallback = False, ar_threshold = 7/10\<rparr>"

lemma demo_site: "site_by_id ''PR-CUL'' = Inr (hd (filter (\<lambda>s. s_id s = ''PR-CUL'') sites))"
  by code_simp

lemma demo_checks: "input_blocks demo_request = []" "\<forall>homes. hard_blocks demo_request homes = []"
  unfolding input_blocks_Nil hard_blocks_Nil
  by (simp_all add: demo_request_def known_domains_def known_actions_def remote_actions_def plant_domains_def
      field_actions_def base_blocks_def hard_max_remote_attempts_def hard_max_field_visits_def)

lemma demo_evaluate:
  "\<exists>p. evaluate (\<lambda>x. x) demo_request = Inr p \<and> pr_verdict p = RequiresApproval"
proof -
  from demo_site obtain homes where
    e: "evaluate (\<lambda>x. x) demo_request = Inr (if input_blocks demo_request \<noteq> [] then blocked_result (input_blocks demo_request)
       else if hard_blocks demo_request homes \<noteq> [] then blocked_result (hard_blocks demo_request homes)
       else if fst (apply_rules (approval_rules demo_request homes) ([], None)) \<noteq> []
       then \<lparr>pr_verdict = RequiresApproval, pr_reasons = fst (apply_rules (approval_rules demo_request homes) ([], None)),
             pr_kind = snd (apply_rules (approval_rules demo_request homes) ([], None))\<rparr>
       else \<lparr>pr_verdict = Allowed, pr_reasons = [''no policy rule was triggered''], pr_kind = None\<rparr>)"
    using evaluate_site [of demo_request _ "\<lambda>x. x"] by (auto simp: demo_request_def)
  have "fst (apply_rules (approval_rules demo_request homes) ([], None)) \<noteq> []"
    by (simp add: apply_rules_eq approval_rules_def demo_request_def field_actions_def)
  with e demo_checks show ?thesis by simp
qed

corollary guard_permits_safely_witness:
  "ar_field demo_request < 3 \<and> ar_domain demo_request \<in> set known_domains"
proof -
  obtain p where p: "evaluate (\<lambda>x. x) demo_request = Inr p" "pr_verdict p = RequiresApproval"
    using demo_evaluate by blast
  then have "permitted p" by (simp add: permitted_def)
  from guard_permits_safely [OF p(1) this] show ?thesis
    by (simp add: demo_request_def field_actions_def)
qed

text \<open>
  Among the permitted requests, exactly those go ahead without a person that send no crew,
  reach fewer than 24 households, and come from an agent that was available, reaches the
  confidence threshold and does not disagree with the deterministic classifier.
\<close>
theorem guard_allows_exactly:
  assumes "evaluate D r = Inr p" "permitted p"
  shows "\<exists>homes. blast_radius D (ar_domain r) (ar_site r) (ar_technology r) = Inr homes \<and>
    (pr_verdict p = Allowed \<longleftrightarrow> ar_action r \<notin> set field_actions \<and> homes < 24 \<and> \<not> ar_fallback r \<and>
       ar_threshold r \<le> ar_confidence r \<and> ar_agrees r \<noteq> Some False)"
proof -
  obtain homes where h: "input_blocks r = []" "hard_blocks r homes = []"
    "blast_radius D (ar_domain r) (ar_site r) (ar_technology r) = Inr homes"
    using assms by (rule evaluate_permitted)
  have "pr_verdict p = Allowed \<longleftrightarrow> fst (apply_rules (approval_rules r homes) ([], None)) = []"
    using assms(1) h by (auto simp: evaluate_def split_def Let_def split: if_splits)
  also have "\<dots> \<longleftrightarrow> (\<forall>x \<in> set (approval_rules r homes). \<not> fst x)"
    by (auto simp: apply_rules_eq filter_empty_conv)
  finally show ?thesis
    using h(3) by (auto simp: approval_rules_def high_blast_radius_def)
qed

corollary guard_allows_exactly_witness:
  "\<exists>p homes. evaluate (\<lambda>x. x) demo_request = Inr p \<and> pr_verdict p \<noteq> Allowed \<and>
     blast_radius (\<lambda>x. x) (ar_domain demo_request) (ar_site demo_request) (ar_technology demo_request) = Inr homes"
proof -
  obtain p where p: "evaluate (\<lambda>x. x) demo_request = Inr p" "pr_verdict p = RequiresApproval"
    using demo_evaluate by blast
  then have "permitted p" by (simp add: permitted_def)
  from guard_allows_exactly [OF p(1) this] p show ?thesis
    by (auto simp: demo_request_def field_actions_def)
qed

subsection \<open>Agents\<close>

definition standard_agents :: "string \<Rightarrow> string list \<Rightarrow> string \<Rightarrow> (agent \<times> string list) list" where
  "standard_agents system candidates baseline =
     [(rca_agent system baseline, decision_domains), (recommendation_agent system baseline, decision_actions),
      (route_agent system candidates baseline, candidates), (triage_agent system baseline, triage_choices)]"

text \<open>
  C19. Whatever the provider answers, each of the four agents returns a decision, records
  exactly one run and keeps to its choices: a decision without a fallback reason is one of the
  permitted choices with a confidence in 0..1, any other is the deterministic baseline at
  confidence one half, counted as a failure and marked as a fallback; at most three
  alternatives are offered, each a permitted choice.
\<close>
theorem agent_decision_is_checked:
  assumes "(a, choices) \<in> set (standard_agents system candidates baseline)"
    and "decide T a prompt p rc = (d, a', p', rc')"
  shows "0 \<le> ad_confidence d \<and> ad_confidence d \<le> 1 \<and> rc' = record_run (run_of d) rc \<and>
    length (ad_alternatives d) \<le> 3 \<and> alt_choice ` set (ad_alternatives d) \<subseteq> set choices \<and>
    (if ad_fallback d = None then ad_decision d \<in> set choices \<and> ad_source d \<in> {''anthropic'', ''scripted''} \<and> a' = a
     else is_fallback d \<and> ad_decision d = baseline \<and> ad_alternatives d = [] \<and> ag_failures a' = ag_failures a + 1)"
proof -
  have "ag_baseline a = baseline" using assms(1)
    by (auto simp: standard_agents_def rca_agent_def recommendation_agent_def route_agent_def triage_agent_def mk_agent_def)
  moreover have "\<exists>parse. ag_parse a = parse \<and> decision_parser parse choices" using assms(1)
    by (auto simp: standard_agents_def rca_agent_def recommendation_agent_def route_agent_def triage_agent_def
        mk_agent_def rca.decision_parser_axioms recommendation.decision_parser_axioms routing.decision_parser_axioms
        triage.decision_parser_axioms)
  then obtain parse where "ag_parse a = parse" "decision_parser parse choices" by blast
  ultimately show ?thesis
    using decision_parser.decide_cases [OF _ _ assms(2)] decide_source [OF assms(2)]
    by (auto split: if_splits)
qed

definition silent_transport :: transport where
  "silent_transport = \<lparr>tr_send = \<lambda>p payload a. HttpError 503 ''unavailable'',
     tr_loads = \<lambda>s. Inl ''Expecting value'', tr_latency = 0\<rparr>"

definition empty_recorder :: recorder where
  "empty_recorder = \<lparr>rc_runs = [], rc_limit = 2000\<rparr>"

corollary agent_decision_is_checked_witness:
  "\<exists>d a' p' rc'. decide silent_transport (rca_agent [] ''drop'') [] (NullProvider ''off'') empty_recorder = (d, a', p', rc') \<and>
     ad_decision d = ''drop'' \<and> length (rc_runs rc') = 1"
proof -
  obtain d a' p' rc' where
    eq: "decide silent_transport (rca_agent [] ''drop'') [] (NullProvider ''off'') empty_recorder = (d, a', p', rc')"
    using prod_cases4 by blast
  then have "ad_fallback d \<noteq> None"
    by (auto simp: decide_def fallback_decision_def rca_agent_def mk_agent_def Let_def)
  with agent_decision_is_checked [OF _ eq, of decision_domains "[]" "[]" "''drop''"] eq show ?thesis
    by (auto simp: standard_agents_def empty_recorder_def record_run_def Let_def)
qed

lemma attempt_loop_rejection_is_last:
  assumes "attempt_loop T p payload as err = (r, p')" "int i + 1 < ap_calls p' - ap_calls p" "i < length as"
    "tr_send T (p\<lparr>ap_calls := ap_calls p + int i\<rparr>) payload (as ! i) = HttpError code msg"
  shows "code < 400 \<or> 500 \<le> code"
  using assms
proof (induction i arbitrary: as p err)
  case 0
  then show ?case
    by (cases as) (auto simp: try_request_def Let_def split: if_splits)
next
  case (Suc i)
  then obtain a as' where as: "as = a # as'" by (cases as) auto
  let ?p = "p\<lparr>ap_calls := ap_calls p + 1\<rparr>"
  show ?case
  proof (cases "try_request T (tr_send T p payload a)")
    case (Again m)
    then have loop: "attempt_loop T ?p payload (if ap_max_retries p < a then [] else as') m = (r, p')"
      using Suc.prems(1) by (simp add: as Let_def)
    show ?thesis
    proof (cases "ap_max_retries p < a")
      case True
      with loop Suc.prems(2) show ?thesis by (auto simp: Let_def)
    next
      case False
      with loop Suc.prems show ?thesis
        by (intro Suc.IH [of ?p as' m]) (auto simp: as algebra_simps)
    qed
  qed (use Suc.prems in \<open>auto simp: as Let_def\<close>)
qed

text \<open>
  A call of the live provider sends at most one request more than the configured number of
  retries; a text it returns is never empty; and a request the provider rejected with a 4xx
  status is the last one it sends.
\<close>
theorem provider_requests_bounded:
  assumes "anthropic_complete T p system user max_tokens = (r, p')"
  shows "ap_calls p \<le> ap_calls p' \<and> ap_calls p' - ap_calls p \<le> max 0 (ap_max_retries p + 1) \<and>
    (\<forall>c. r = Inr c \<longrightarrow> co_text c \<noteq> [] \<and> 1 \<le> co_attempts c \<and> co_attempts c \<le> ap_max_retries p + 1) \<and>
    (\<forall>i code msg. int i + 1 < ap_calls p' - ap_calls p \<and>
       tr_send T (p\<lparr>ap_calls := ap_calls p + int i\<rparr>) (request_payload (ap_model p) max_tokens system user) (int i + 1) =
         HttpError code msg \<longrightarrow> code < 400 \<or> 500 \<le> code)"
proof -
  note loop = assms [unfolded anthropic_complete_def]
  have calls: "ap_calls p \<le> ap_calls p'" "ap_calls p' - ap_calls p \<le> max 0 (ap_max_retries p + 1)"
    using attempt_loop_calls [OF loop] by (auto simp: max_def)
  moreover have "co_text c \<noteq> [] \<and> 1 \<le> co_attempts c \<and> co_attempts c \<le> ap_max_retries p + 1" if "r = Inr c" for c
    using attempt_loop_usable [OF loop [unfolded that]] by auto
  moreover have "code < 400 \<or> 500 \<le> code"
    if "int i + 1 < ap_calls p' - ap_calls p"
      "tr_send T (p\<lparr>ap_calls := ap_calls p + int i\<rparr>) (request_payload (ap_model p) max_tokens system user) (int i + 1) =
         HttpError code msg" for i code msg
  proof (rule attempt_loop_rejection_is_last [OF loop that(1)])
    show "i < length [1..ap_max_retries p + 1]" using that(1) calls(2) by auto
    then show "tr_send T (p\<lparr>ap_calls := ap_calls p + int i\<rparr>) (request_payload (ap_model p) max_tokens system user)
        ([1..ap_max_retries p + 1] ! i) = HttpError code msg"
      using that(2) by (simp add: nth_upto add.commute)
  qed
  ultimately show ?thesis by blast
qed

definition demo_provider :: anthropic_provider where
  "demo_provider = \<lparr>ap_key = ''k'', ap_endpoint = default_endpoint, ap_model = default_model,
     ap_version = default_version, ap_timeout = 20, ap_max_retries = 2, ap_calls = 0\<rparr>"

corollary provider_requests_bounded_witness:
  "\<exists>r p'. anthropic_complete silent_transport demo_provider [] [] 10 = (r, p') \<and> ap_calls p' \<le> 3"
proof -
  obtain r p' where eq: "anthropic_complete silent_transport demo_provider [] [] 10 = (r, p')"
    by fastforce
  from provider_requests_bounded [OF eq] have "ap_calls p' \<le> 3"
    by (simp add: demo_provider_def)
  with eq show ?thesis by blast
qed

text \<open>
  The status record is exact: from an empty recorder any sequence of runs leaves the most
  recent ones up to the limit, the accepted and the fallen-back runs add up to the attempted
  ones, and the rows by agent are precisely the counts of each agent's runs.
\<close>
theorem recorder_counts:
  assumes "rc_runs rc = []" "0 \<le> rc_limit rc"
  shows "rc_runs (fold record_run runs rc) = drop (length runs - nat (rc_limit rc)) runs \<and>
    accepted_runs (fold record_run runs rc) + fell_back (fold record_run runs rc) = attempted (fold record_run runs rc) \<and>
    set (by_agent (fold record_run runs rc)) =
      row_for (rc_runs (fold record_run runs rc)) ` rn_agent ` set (rc_runs (fold record_run runs rc))"
  using fold_record_keeps_last [OF assms] accepted_or_fell_back by_agent_rows by blast

corollary recorder_counts_witness:
  "rc_runs (fold record_run [] empty_recorder) = []"
  using recorder_counts [of empty_recorder "[]"] by (simp add: empty_recorder_def)

text \<open>
  What the status panel says is configured is what is built: the description is active
  exactly when the environment gives a live provider, and it names that provider's model.
\<close>
theorem described_provider_is_built:
  assumes "provider_from_env env None = Inr p"
  shows "pd_active (describe_provider env) \<longleftrightarrow>
    (\<exists>a. p = AnthropicProvider a \<and> pd_model (describe_provider env) = Some (ap_model a) \<and> ap_calls a = 0 \<and> ap_key a \<noteq> [])"
  using assms
  by (auto simp: provider_from_env_def describe_provider_def Let_def bindR_eq_Inr split: if_splits)

corollary described_provider_is_built_witness:
  "\<not> pd_active (describe_provider [])"
  using described_provider_is_built [of "[]" "NullProvider ''no ANTHROPIC_API_KEY is set, so no model is reachable''"]
  by (simp add: provider_from_env_def env_get_def strip_def)

subsection \<open>Plant and travel\<close>

text \<open>
  The chain of a household at a known site is a path of four elements from the household
  over its drop and its tap or splitter to the node or port, each naming the next as its
  parent, serving ever more households; two delimiters of a site with the same identifier are
  the same one.
\<close>
theorem chain_is_a_path:
  assumes "site_by_id i = Inr s" "0 \<le> n"
  shows "\<exists>h d l u. chain_for D i t n = Inr [h, d, l, u] \<and>
    map pe_parent [h, d, l] = map (Some \<circ> pe_id) [d, l, u] \<and> pe_parent u = None \<and>
    pe_serves h = 1 \<and> pe_serves d = 1 \<and> 1 < pe_serves l \<and> pe_serves l \<le> pe_serves u \<and> is_delimiter l \<and>
    (\<forall>m e. delimiter_for D i t m = Inr e \<and> pe_id e = pe_id l \<longrightarrow> m = n)"
proof -
  obtain h d l u where c: "chain_for D i t n = Inr [h, d, l, u]" "delimiter_for D i t n = Inr l"
    "pe_parent h = Some (pe_id d)" "pe_parent d = Some (pe_id l)" "pe_parent l = Some (pe_id u)" "pe_parent u = None"
    "pe_serves h = 1" "pe_serves d = 1" "is_delimiter l"
    "pe_serves l = (if t = ''HFC'' then homes_per_tap (s_archetype s) else homes_per_odp (s_archetype s))"
    "pe_serves u = (if t = ''HFC'' then homes_per_hfc_node else homes_per_pon_port)"
    by (rule chain_for_ok [OF assms, of D t]) (auto simp: is_delimiter_def)
  have unique: "\<forall>m e. delimiter_for D i t m = Inr e \<and> pe_id e = pe_id l \<longrightarrow> m = n"
    using delimiter_for_inj [of D i t _ _ n l] c(2) by blast
  have "1 < pe_serves l \<and> pe_serves l \<le> pe_serves u"
    using c(10,11) homes_per_bounds [of "s_archetype s"] by (simp split: if_splits)
  with c show ?thesis
    by (intro exI [of _ h] exI [of _ d] exI [of _ l] exI [of _ u] conjI unique) simp_all
qed

corollary chain_is_a_path_witness:
  "\<exists>h d l u. chain_for (\<lambda>x. x) ''PR-CUL'' ''HFC'' 7 = Inr [h, d, l, u] \<and> is_delimiter l"
  using chain_is_a_path [OF demo_site, of 7 "\<lambda>x. x" "''HFC''"] by auto

text \<open>
  The base chosen for a job has the crew, every required skill and every required part, and
  no other such base of the pool is nearer (ties go to the smaller identifier); the trip takes
  at least fourteen minutes one way.
\<close>
theorem selected_base_is_best:
  assumes "select_base M s crew skills parts bases dest = Inr sel"
  shows "bs_base sel \<in> set (base_pool bases) \<and> crew \<in> set (b_crews (bs_base sel)) \<and>
    set skills \<subseteq> set (b_skills (bs_base sel)) \<and> set parts \<subseteq> set (b_stock (bs_base sel)) \<and>
    14 \<le> tp_total (bs_plan sel) \<and> travel_plan M (bs_base sel) s 480 90 dest = Inr (bs_plan sel) \<and>
    (\<forall>b \<in> set (base_pool bases). crew \<in> set (b_crews b) \<and> set skills \<subseteq> set (b_skills b) \<and> set parts \<subseteq> set (b_stock b) \<longrightarrow>
      (\<exists>p. travel_plan M b s 480 90 dest = Inr p \<and> (tp_total (bs_plan sel), b_id (bs_base sel)) \<le> (tp_total p, b_id b)))"
proof -
  have viable_iff: "viable crew skills parts b \<longleftrightarrow>
      crew \<in> set (b_crews b) \<and> set skills \<subseteq> set (b_skills b) \<and> set parts \<subseteq> set (b_stock b)" for b
    by (auto simp: viable_def subset_of_def list_all_iff)
  show ?thesis
    using select_base_Inr [OF assms] travel_plan_floor [of M "bs_base sel" s 480 90 dest "bs_plan sel"]
    unfolding viable_iff by blast
qed

definition demo_selection :: "base_selection res" where
  "demo_selection = select_base flat_mathlib (hd sites) ''dirty'' [''hfc_plant''] [] None None"

lemma demo_selection_ok: "is_ok demo_selection"
  by code_simp

corollary selected_base_is_best_witness:
  "\<exists>sel. demo_selection = Inr sel \<and> ''dirty'' \<in> set (b_crews (bs_base sel))"
proof -
  obtain sel where sel: "demo_selection = Inr sel"
    using demo_selection_ok by (metis is_ok_simps(2) old.sum.exhaust)
  from selected_base_is_best [OF sel [unfolded demo_selection_def]] sel show ?thesis by blast
qed

end
