(* ===== verification/Commercial.thy ===== *)
theory Commercial
  imports Plant "HOL-Library.Multiset"
begin

text \<open>
  Commercial prioritisation (\<open>commercial.py\<close>, \<open>benchmarks.py\<close>): what a fault puts at risk,
  what a truck roll costs, the ranking with its protections, the allocation of slots and the
  day schedule by value density. The power \<open>0.5 ** x\<close> of the urgency is an argument.
\<close>

subsection \<open>Benchmark costs\<close>

datatype band = LowBand | MidBand | HighBand

fun midpoint :: "band \<Rightarrow> rat" where
  "midpoint LowBand = 150"
| "midpoint MidBand = 425/2"
| "midpoint HighBand = 300"

definition rural_uplift :: rat where
  "rural_uplift = 1/5"

definition rural :: "archetype \<Rightarrow> bool" where
  "rural a \<longleftrightarrow> a \<in> {MOUNTAIN, REMOTE_ISLAND}"

definition island_adder_usd :: rat where
  "island_adder_usd = 400"

fun fvc_hfc :: "archetype \<Rightarrow> rat" where
  "fvc_hfc METRO = 84/100" | "fvc_hfc COASTAL = 80/100" | "fvc_hfc MOUNTAIN = 74/100" | "fvc_hfc REMOTE_ISLAND = 70/100"

fun fvc_pon :: "archetype \<Rightarrow> rat" where
  "fvc_pon METRO = 88/100" | "fvc_pon COASTAL = 85/100" | "fvc_pon MOUNTAIN = 80/100" | "fvc_pon REMOTE_ISLAND = 76/100"

definition first_visit_completion :: "string \<Rightarrow> archetype \<Rightarrow> rat res" where
  "first_visit_completion t a =
     (if t = ''HFC'' then Inr (fvc_hfc a) else if t = ''PON'' then Inr (fvc_pon a) else Inl (KeyError t))"

record roll_cost =
  rl_archetype :: archetype
  rl_technology :: string
  rl_band :: band
  rl_base :: rat
  rl_rural :: rat
  rl_island :: rat
  rl_per_dispatch :: rat
  rl_fvc :: rat
  rl_per_completed :: rat

definition roll_cost_of :: "archetype \<Rightarrow> string \<Rightarrow> band \<Rightarrow> bool \<Rightarrow> roll_cost res" where
  "roll_cost_of a t band island =
     (let base = midpoint band; uplift = (if rural a then base * rural_uplift else 0);
          adder = (if island then island_adder_usd else 0); per_dispatch = base + uplift + adder
      in bindR (first_visit_completion t a) (\<lambda>fvc.
        Inr \<lparr>rl_archetype = a, rl_technology = t, rl_band = band, rl_base = round_dec 2 base,
             rl_rural = round_dec 2 uplift, rl_island = round_dec 2 adder,
             rl_per_dispatch = round_dec 2 per_dispatch, rl_fvc = fvc,
             rl_per_completed = round_dec 2 (per_dispatch / fvc)\<rparr>))"

definition within_benchmark_scope :: "roll_cost \<Rightarrow> bool" where
  "within_benchmark_scope c \<longleftrightarrow> rl_island c = 0"

definition repeat_visit_premium :: "roll_cost \<Rightarrow> rat" where
  "repeat_visit_premium c = round_dec 2 (rl_per_completed c - rl_per_dispatch c)"

definition wasted_visit_cost :: "archetype \<Rightarrow> string \<Rightarrow> band \<Rightarrow> bool \<Rightarrow> rat res" where
  "wasted_visit_cost a t band island = bindR (roll_cost_of a t band island) (\<lambda>c. Inr (rl_per_dispatch c))"

definition band_for_profile :: "rat \<Rightarrow> band" where
  "band_for_profile f = (if 90/100 \<le> f then LowBand else if 75/100 \<le> f then MidBand else HighBand)"

subsection \<open>Customers\<close>

definition churn_base :: "(string \<times> rat) list" where
  "churn_base = [(''residential'', 55/1000), (''smb'', 38/1000), (''enterprise'', 21/1000), (''wholesale'', 12/1000)]"

definition contract_mobility :: "(string \<times> rat) list" where
  "contract_mobility = [(''in_term'', 25/100), (''expiring_soon'', 85/100), (''rolling'', 1), (''out_of_term'', 110/100),
     (''pending_disconnect'', 140/100)]"

definition payment_churn_factor :: "(string \<times> rat) list" where
  "payment_churn_factor = [(''current'', 1), (''late'', 115/100), (''arrears_30'', 135/100), (''arrears_60'', 155/100),
     (''arrears_90_plus'', 180/100), (''suspended'', 220/100)]"

definition payment_collectability :: "(string \<times> rat) list" where
  "payment_collectability = [(''current'', 1), (''late'', 97/100), (''arrears_30'', 88/100), (''arrears_60'', 74/100),
     (''arrears_90_plus'', 55/100), (''suspended'', 35/100)]"

definition fault_uplift :: "int \<Rightarrow> rat" where
  "fault_uplift n = (if 3 \<le> n then 52/10 else if n = 2 then 34/10 else 21/10)"

definition max_plausible_mrr :: rat where
  "max_plausible_mrr = 250000"

record customer =
  cu_account :: string
  cu_segment :: string
  cu_mrr :: rat
  cu_tenure :: int
  cu_contract :: string
  cu_remaining :: int
  cu_payment :: string
  cu_overdue :: rat
  cu_faults :: int
  cu_medical :: bool
  cu_vulnerable :: bool
  cu_lifeline :: bool

text \<open>\<open>d[k]\<close> on a table of figures.\<close>

definition figure :: "(string \<times> rat) list \<Rightarrow> string \<Rightarrow> rat res" where
  "figure d k = (case map_of d k of None \<Rightarrow> Inl (KeyError k) | Some r \<Rightarrow> Inr r)"

text \<open>\<open>f"{x:,.0f}"\<close>: no decimals, a comma between groups of three digits.\<close>

fun group_digits :: "nat \<Rightarrow> string \<Rightarrow> string" where
  "group_digits 0 s = rev s"
| "group_digits (Suc f) s = (if length s \<le> 3 then rev s else group_digits f (drop 3 s) @ '','' @ rev (take 3 s))"

definition thousands :: "rat \<Rightarrow> string" where
  "thousands r = (let n = round_he r; s = nat_str (nat \<bar>n\<bar>) in
     (if n < 0 then ''-'' else '''') @ group_digits (length s) (rev s))"

text \<open>The checks of \<open>__post_init__\<close>; \<open>CustomerDataError\<close> is a \<open>ValueError\<close>.\<close>

definition customer_error :: "customer \<Rightarrow> string option" where
  "customer_error c =
     (if map_of churn_base (cu_segment c) = None
      then Some (cu_account c @ '': segment '' @ str_repr (cu_segment c) @ '' is not one of '' @
             py_repr (jarr (sort (map fst churn_base))))
      else if map_of contract_mobility (cu_contract c) = None
      then Some (cu_account c @ '': contract_status '' @ str_repr (cu_contract c) @ '' is not recognised'')
      else if map_of payment_churn_factor (cu_payment c) = None
      then Some (cu_account c @ '': payment_status '' @ str_repr (cu_payment c) @ '' is not recognised'')
      else if cu_mrr c < 0
      then Some (cu_account c @ '': monthly_recurring_revenue is negative ('' @ float_repr (cu_mrr c) @
             ''); a negative value at risk sorts to the bottom of every queue and hides the account'')
      else if max_plausible_mrr < cu_mrr c
      then Some (cu_account c @ '': monthly_recurring_revenue '' @ thousands (cu_mrr c) @
             '' exceeds the plausible ceiling of '' @ thousands max_plausible_mrr @
             ''; one bad extract would dominate every queue'')
      else if cu_tenure c < 0 then Some (cu_account c @ '': tenure_months is negative'')
      else if cu_remaining c < 0 then Some (cu_account c @ '': contract_months_remaining is negative'')
      else if cu_overdue c < 0 then Some (cu_account c @ '': balance_overdue is negative'')
      else if cu_faults c < 0 then Some (cu_account c @ '': faults_in_last_90d is negative'')
      else None)"

definition new_customer :: "customer \<Rightarrow> customer res" where
  "new_customer c = (case customer_error c of Some m \<Rightarrow> Inl (ValueError m) | None \<Rightarrow> Inr c)"

definition expected_remaining_months :: "customer \<Rightarrow> int res" where
  "expected_remaining_months c =
     (if cu_contract c = ''in_term'' \<and> 0 < cu_remaining c then Inr (max (cu_remaining c) 6)
      else bindR (figure churn_base (cu_segment c)) (\<lambda>b. Inr (trunc_rat (min (1 / b) 60))))"

definition lifetime_value :: "customer \<Rightarrow> rat res" where
  "lifetime_value c = bindR (expected_remaining_months c) (\<lambda>m. Inr (round_dec 2 (cu_mrr c * of_int m)))"

definition collectable_value :: "customer \<Rightarrow> rat res" where
  "collectable_value c =
     bindR (lifetime_value c) (\<lambda>v. bindR (figure payment_collectability (cu_payment c)) (\<lambda>k. Inr (round_dec 2 (v * k))))"

definition churn_probability :: "customer \<Rightarrow> rat res" where
  "churn_probability c =
     bindR (figure churn_base (cu_segment c)) (\<lambda>base.
     bindR (figure contract_mobility (cu_contract c)) (\<lambda>mobility.
     bindR (figure payment_churn_factor (cu_payment c)) (\<lambda>payment.
       Inr (round_dec 5 (min (base * fault_uplift (cu_faults c) * mobility * payment) (95/100))))))"

record value_at_risk =
  va_account :: string
  va_lifetime :: rat
  va_collectable :: rat
  va_churn :: rat
  va_value :: rat
  va_components :: "(string \<times> rat) list"

definition value_at_risk_of :: "customer \<Rightarrow> value_at_risk res" where
  "value_at_risk_of c =
     bindR (churn_probability c) (\<lambda>p.
     bindR (collectable_value c) (\<lambda>collectable.
     bindR (lifetime_value c) (\<lambda>lifetime.
     bindR (expected_remaining_months c) (\<lambda>months.
     bindR (figure payment_collectability (cu_payment c)) (\<lambda>k.
     bindR (figure contract_mobility (cu_contract c)) (\<lambda>mobility.
     bindR (figure payment_churn_factor (cu_payment c)) (\<lambda>payment.
       Inr \<lparr>va_account = cu_account c, va_lifetime = lifetime, va_collectable = collectable, va_churn = p,
            va_value = round_dec 2 (collectable * p),
            va_components = [(''monthly_recurring_revenue'', cu_mrr c), (''horizon_months'', of_int months),
              (''collectability'', k), (''contract_mobility'', mobility), (''payment_churn_factor'', payment)]\<rparr>)))))))"

subsection \<open>Dispatches\<close>

definition truck_roll_cost :: "mathlib \<Rightarrow> string \<Rightarrow> string \<Rightarrow> (rat \<times> rat) option \<Rightarrow> rat res" where
  "truck_roll_cost M site_id crew destination =
     bindR (site_by_id site_id) (\<lambda>s.
     bindR (select_base M s crew [] [] None destination) (\<lambda>sel.
     bindR (roll_cost_of (s_archetype s) (if ''PON'' \<in> set (s_techs s) then ''PON'' else ''HFC'') MidBand False) (\<lambda>band.
       let c1 = rl_per_dispatch band; c2 = (if tp_ferry (bs_plan sel) then c1 * (19/10) else c1);
           c3 = (if tp_same_day (bs_plan sel) then c2 else c2 * (135/100))
       in Inr (round_dec 2 c3))))"

definition protections_for :: "bool \<Rightarrow> bool \<Rightarrow> customer option \<Rightarrow> string list" where
  "protections_for sla_breached service_down who =
     (if sla_breached then [''sla_breached''] else []) @ (if service_down then [''total_loss_of_service''] else []) @
     (case who of None \<Rightarrow> []
      | Some c \<Rightarrow> (if cu_medical c then [''medical_or_safety''] else []) @
          (if cu_lifeline c then [''regulatory_obligation''] else []) @
          (if cu_vulnerable c then [''vulnerable_customer''] else []) @
          (if 3 \<le> cu_faults c then [''repeat_unresolved''] else []))"

record ranked_dispatch =
  rd_ticket :: string
  rd_account :: string
  rd_site :: string
  rd_archetype :: archetype
  rd_value :: value_at_risk
  rd_cost :: rat
  rd_households :: int
  rd_protections :: "string list"
  rd_band :: string

definition net_benefit :: "ranked_dispatch \<Rightarrow> rat" where
  "net_benefit r = round_dec 2 (va_value (rd_value r) - rd_cost r)"

definition benefit_ratio :: "ranked_dispatch \<Rightarrow> rat option" where
  "benefit_ratio r = (if rd_cost r \<le> 0 then None else Some (round_dec 3 (va_value (rd_value r) / rd_cost r)))"

definition protection_reason :: "string \<Rightarrow> string res" where
  "protection_reason p =
     (case map_of [(''sla_breached'', ''the committed restoration time has passed''),
        (''total_loss_of_service'', ''the service is down, not degraded''),
        (''medical_or_safety'', ''a medical or safety dependency is recorded''),
        (''regulatory_obligation'', ''a regulatory or Lifeline obligation applies''),
        (''vulnerable_customer'', ''the account carries a vulnerability flag''),
        (''repeat_unresolved'', ''the same fault has recurred without resolution'')] p of
        None \<Rightarrow> Inl (KeyError p) | Some r \<Rightarrow> Inr r)"

definition dispatch_rationale :: "ranked_dispatch \<Rightarrow> string res" where
  "dispatch_rationale r =
     (if rd_protections r \<noteq> []
      then bindR (mapR protection_reason (rd_protections r)) (\<lambda>rs.
             Inr (''Protected ahead of commercial ranking: '' @ join ''; '' rs))
      else Inr (''Value at risk $'' @ thousands (va_value (rd_value r)) @ '' against a $'' @ thousands (rd_cost r) @
             '' dispatch, a gap of $'' @ thousands (net_benefit r)))"

definition band_of :: "rat \<Rightarrow> string list \<Rightarrow> string" where
  "band_of net protections =
     (if protections \<noteq> [] then ''protected'' else if 250 < net then ''positive''
      else if 0 \<le> net then ''marginal'' else ''negative'')"

record dispatch_context =
  cx_households :: int
  cx_sla_breached :: bool
  cx_service_down :: bool
  cx_crew :: string
  cx_destination :: "(rat \<times> rat) option"

definition scaled_risk :: "value_at_risk \<Rightarrow> int \<Rightarrow> value_at_risk" where
  "scaled_risk v homes =
     (if 1 < homes then v\<lparr>va_value := round_dec 2 (va_value v * of_int homes),
        va_components := dset ''households_multiplier'' (of_int homes) (va_components v)\<rparr> else v)"

definition rank_one :: "mathlib \<Rightarrow> string \<times> customer \<times> string \<times> dispatch_context \<Rightarrow> ranked_dispatch res" where
  "rank_one M cand =
     (case cand of (ticket_id, c, site_id, cx) \<Rightarrow>
        let protections = protections_for (cx_sla_breached cx) (cx_service_down cx) (Some c) in
        bindR (truck_roll_cost M site_id (cx_crew cx) (cx_destination cx)) (\<lambda>cost.
        bindR (value_at_risk_of c) (\<lambda>base.
        bindR (site_by_id site_id) (\<lambda>s.
          let risk = scaled_risk base (cx_households cx) in
          Inr \<lparr>rd_ticket = ticket_id, rd_account = cu_account c, rd_site = site_id, rd_archetype = s_archetype s,
               rd_value = risk, rd_cost = cost, rd_households = cx_households cx, rd_protections = protections,
               rd_band = band_of (va_value risk - cost) protections\<rparr>))))"

definition rank_key :: "ranked_dispatch \<Rightarrow> nat \<times> rat \<times> string" where
  "rank_key r = (if rd_protections r \<noteq> [] then 0 else 1, - net_benefit r, rd_ticket r)"

definition rank :: "mathlib \<Rightarrow> (string \<times> customer \<times> string \<times> dispatch_context) list \<Rightarrow> ranked_dispatch list res" where
  "rank M candidates = bindR (mapR (rank_one M) candidates) (\<lambda>rs. Inr (sort_key rank_key rs))"

end
