(* ===== verification/Schedule.thy ===== *)
theory Schedule
  imports Commercial
begin

text \<open>
  The rest of \<open>commercial.py\<close>: who the ranking pushes down the queue, the allocation of
  slots, and the day schedule by value density with its precedence tiers and remote batches.
\<close>

subsection \<open>Impact of the ranking\<close>

text \<open>Counts in the order of first occurrence, as a dictionary keeps them, and shares by name.\<close>

definition counts_of :: "string list \<Rightarrow> (string \<times> int) list" where
  "counts_of names = fold (\<lambda>n d. dset n ((case map_of d n of None \<Rightarrow> 0 | Some k \<Rightarrow> k) + 1) d) names []"

definition share_of :: "string list \<Rightarrow> (string \<times> rat) list" where
  "share_of names =
     map (\<lambda>(k, v). (k, round_dec 3 (of_int v / of_nat (length names)))) (sort_key fst (counts_of names))"

definition archetype_names :: "ranked_dispatch list \<Rightarrow> string list" where
  "archetype_names rs = map (\<lambda>r. archetype_value (rd_archetype r)) rs"

definition share_at :: "(string \<times> rat) list \<Rightarrow> string \<Rightarrow> rat" where
  "share_at d k = (case map_of d k of None \<Rightarrow> 0 | Some r \<Rightarrow> r)"

text \<open>\<open>max(items, key=...)\<close>: the first of the greatest.\<close>

fun first_max :: "('a \<Rightarrow> 'k::linorder) \<Rightarrow> 'a \<Rightarrow> 'a list \<Rightarrow> 'a" where
  "first_max f m [] = m"
| "first_max f m (x # xs) = first_max f (if f m < f x then x else m) xs"

record impact_report =
  im_ranked :: nat
  im_commercial :: nat
  im_protected :: nat
  im_quartile :: nat
  im_overall :: "(string \<times> rat) list"
  im_top :: "(string \<times> rat) list"
  im_bottom :: "(string \<times> rat) list"
  im_skew :: "(string \<times> rat) list"
  im_worst :: string
  im_worst_skew :: rat
  im_negative :: nat
  im_negative_by :: "(string \<times> int) list"

text \<open>None when every candidate was protected, where the code returns a note.\<close>

definition disparate_impact :: "ranked_dispatch list \<Rightarrow> impact_report option" where
  "disparate_impact ranked =
     (let commercial = filter (\<lambda>r. rd_protections r = []) ranked in
      if commercial = [] then None
      else
        (let total = length commercial; quartile = max (total div 4) 1;
             overall = share_of (archetype_names commercial);
             top = share_of (archetype_names (take quartile commercial));
             bottom = share_of (archetype_names (drop (total - quartile) commercial));
             skew = map (\<lambda>(a, _). (a, round_dec 3 (share_at bottom a - share_at top a))) overall;
             negative = filter (\<lambda>r. net_benefit r < 0) commercial;
             worst = (case skew of [] \<Rightarrow> (''n/a'', 0) | x # xs \<Rightarrow> first_max snd x xs)
         in Some \<lparr>im_ranked = length ranked, im_commercial = total, im_protected = length ranked - total,
              im_quartile = quartile, im_overall = overall, im_top = top, im_bottom = bottom, im_skew = skew,
              im_worst = fst worst, im_worst_skew = snd worst, im_negative = length negative,
              im_negative_by = counts_of (archetype_names negative)\<rparr>))"

subsection \<open>Slots\<close>

record capacity_plan =
  cp_slots :: int
  cp_scheduled :: "ranked_dispatch list"
  cp_deferred :: "ranked_dispatch list"
  cp_protected_scheduled :: nat
  cp_value :: rat
  cp_cost :: rat
  cp_protected_total :: nat

definition protected_count :: "ranked_dispatch list \<Rightarrow> nat" where
  "protected_count rs = length (filter (\<lambda>r. rd_protections r \<noteq> []) rs)"

definition allocate_capacity :: "ranked_dispatch list \<Rightarrow> int \<Rightarrow> capacity_plan res" where
  "allocate_capacity ranked slots =
     (if slots < 0 then Inl (ValueError ''slots must be >= 0'')
      else (let scheduled = take (nat slots) ranked; deferred = drop (nat slots) ranked
            in Inr \<lparr>cp_slots = slots, cp_scheduled = scheduled, cp_deferred = deferred,
                 cp_protected_scheduled = protected_count scheduled,
                 cp_value = round_dec 2 (sum_list (map (\<lambda>r. va_value (rd_value r)) scheduled)),
                 cp_cost = round_dec 2 (sum_list (map rd_cost scheduled)),
                 cp_protected_total = protected_count ranked\<rparr>))"

definition commercial_scheduled :: "capacity_plan \<Rightarrow> int" where
  "commercial_scheduled p = int (length (cp_scheduled p)) - int (cp_protected_scheduled p)"

definition commercial_ranking_active :: "capacity_plan \<Rightarrow> bool" where
  "commercial_ranking_active p \<longleftrightarrow> int (cp_protected_total p) < cp_slots p"

definition deferred_value_at_risk :: "capacity_plan \<Rightarrow> rat" where
  "deferred_value_at_risk p = round_dec 2 (sum_list (map (\<lambda>r. va_value (rd_value r)) (cp_deferred p)))"

record threshold_report =
  tr_candidates :: nat
  tr_declined :: nat
  tr_share :: "rat option"
  tr_by_archetype :: "(string \<times> int) list"
  tr_abandoned :: rat

definition threshold_would_decline :: "ranked_dispatch list \<Rightarrow> threshold_report" where
  "threshold_would_decline ranked =
     (let commercial = filter (\<lambda>r. rd_protections r = []) ranked;
          declined = filter (\<lambda>r. net_benefit r < 0) commercial
      in \<lparr>tr_candidates = length commercial, tr_declined = length declined,
          tr_share = (if commercial = [] then None
                      else Some (round_dec 3 (of_nat (length declined) / of_nat (length commercial)))),
          tr_by_archetype = counts_of (archetype_names declined),
          tr_abandoned = round_dec 2 (sum_list (map (\<lambda>r. va_value (rd_value r)) declined))\<rparr>)"

subsection \<open>Jobs\<close>

definition on_site_minutes :: "string \<Rightarrow> int" where
  "on_site_minutes d =
     (case map_of [(''cpe'', 45), (''wifi_or_home'', 60), (''premise_wiring'', 90), (''provisioning'', 30),
        (''drop'', 75), (''hfc_tap'', 120), (''pon_odp'', 135), (''plant'', 180), (''shared_network'', 180),
        (''unknown'', 90)] d of None \<Rightarrow> 90 | Some m \<Rightarrow> m)"

definition shift_hours :: rat where
  "shift_hours = 95/10"

definition default_deadline_hours :: rat where
  "default_deadline_hours = 72"

definition deadline_hours :: "string \<Rightarrow> rat" where
  "deadline_hours p =
     (case map_of [(''medical_or_safety'', 4), (''sla_breached'', 0), (''total_loss_of_service'', 12),
        (''regulatory_obligation'', 24), (''vulnerable_customer'', 24), (''repeat_unresolved'', 36)] p of
        None \<Rightarrow> default_deadline_hours | Some h \<Rightarrow> h)"

definition urgency_at_deadline :: rat where
  "urgency_at_deadline = 12"

definition urgency_half_life_hours :: rat where
  "urgency_half_life_hours = 18"

definition min_remote_batch :: nat where
  "min_remote_batch = 4"

definition force_run_hours :: rat where
  "force_run_hours = 18"

definition absolute_precedence :: "string list" where
  "absolute_precedence = [''medical_or_safety'', ''sla_breached'']"

definition crew_hours :: "mathlib \<Rightarrow> string \<Rightarrow> string \<Rightarrow> string \<Rightarrow> (rat \<times> rat) option \<Rightarrow> rat res" where
  "crew_hours M site_id dom_name crew destination =
     bindR (site_by_id site_id) (\<lambda>s.
     bindR (select_base M s crew [] [] None destination) (\<lambda>sel.
       let plan = bs_plan sel; hrs = of_int (tp_total plan * 2 + on_site_minutes dom_name) / 60
       in Inr (round_dec 2 (if tp_same_day plan then hrs else max hrs shift_hours))))"

definition deadline_hours_for :: "string list \<Rightarrow> rat" where
  "deadline_hours_for protections =
     (case map deadline_hours protections of [] \<Rightarrow> default_deadline_hours | h # hs \<Rightarrow> fold min hs h)"

definition urgency :: "(rat \<Rightarrow> rat) \<Rightarrow> rat \<Rightarrow> rat \<Rightarrow> rat" where
  "urgency half_pow age deadline =
     (let slack = deadline - age in
      if slack \<le> 0 then urgency_at_deadline
      else round_dec 4 (1 + (urgency_at_deadline - 1) * half_pow (slack / urgency_half_life_hours)))"

definition aged_value_at_risk :: "value_at_risk \<Rightarrow> rat \<Rightarrow> rat" where
  "aged_value_at_risk v age =
     (let days = max age 0 / 24; growth = min (1 + 18/100 * days) (25/10) in round_dec 2 (va_value v * growth))"

record job =
  jb_ticket :: string
  jb_dispatch :: ranked_dispatch
  jb_domain :: string
  jb_age :: rat
  jb_hours :: rat
  jb_deadline :: rat

definition job_urgency :: "(rat \<Rightarrow> rat) \<Rightarrow> job \<Rightarrow> rat" where
  "job_urgency half_pow j = urgency half_pow (jb_age j) (jb_deadline j)"

definition aged_value :: "job \<Rightarrow> rat" where
  "aged_value j = aged_value_at_risk (rd_value (jb_dispatch j)) (jb_age j)"

definition overdue :: "job \<Rightarrow> bool" where
  "overdue j \<longleftrightarrow> jb_deadline j \<le> jb_age j"

definition absolute :: "job \<Rightarrow> bool" where
  "absolute j \<longleftrightarrow> (\<exists>p \<in> set (rd_protections (jb_dispatch j)). List.member absolute_precedence p)"

definition score :: "(rat \<Rightarrow> rat) \<Rightarrow> job \<Rightarrow> rat" where
  "score half_pow j =
     (if jb_hours j \<le> 0 then 0 else round_dec 3 (aged_value j * job_urgency half_pow j / jb_hours j))"

definition remote :: "job \<Rightarrow> bool" where
  "remote j \<longleftrightarrow> (case site_by_id (rd_site (jb_dispatch j)) of Inl _ \<Rightarrow> False | Inr s \<Rightarrow> s_archetype s = REMOTE_ISLAND)"

definition dirty_domains :: "string list" where
  "dirty_domains = [''hfc_tap'', ''pon_odp'', ''plant'', ''shared_network'']"

definition build_job :: "mathlib \<Rightarrow> (string \<times> string) list \<Rightarrow> (string \<times> rat) list \<Rightarrow> ranked_dispatch \<Rightarrow> job res" where
  "build_job M domains ages r =
     (let d = (case map_of domains (rd_ticket r) of None \<Rightarrow> ''unknown'' | Some x \<Rightarrow> x);
          age = (case map_of ages (rd_ticket r) of None \<Rightarrow> 0 | Some x \<Rightarrow> x);
          deadline = deadline_hours_for (rd_protections r)
      in bindR (crew_hours M (rd_site r) d (if List.member dirty_domains d then ''dirty'' else ''clean'') None) (\<lambda>h.
        Inr \<lparr>jb_ticket = rd_ticket r, jb_dispatch = r, jb_domain = d, jb_age = age, jb_hours = h,
             jb_deadline = deadline\<rparr>))"

definition build_jobs ::
  "mathlib \<Rightarrow> (string \<times> string) list \<Rightarrow> (string \<times> rat) list \<Rightarrow> ranked_dispatch list \<Rightarrow> job list res" where
  "build_jobs M domains ages ranked = mapR (build_job M domains ages) ranked"

subsection \<open>The day\<close>

record day_schedule =
  ds_available :: rat
  ds_scheduled :: "job list"
  ds_deferred :: "job list"
  ds_held :: "job list"
  ds_used :: rat
  ds_value :: rat

definition job_key :: "(rat \<Rightarrow> rat) \<Rightarrow> job \<Rightarrow> nat \<times> rat \<times> string" where
  "job_key half_pow j = (if absolute j then 0 else if overdue j then 1 else 2, - score half_pow j, jb_ticket j)"

text \<open>
  The sites of all jobs are looked up first (an unknown one raises); then the pass over the
  candidates: what is scheduled, what is deferred, the hours that remain.
\<close>

fun fill_day :: "job list \<Rightarrow> rat \<Rightarrow> job list \<times> job list \<times> rat" where
  "fill_day [] remaining = ([], [], remaining)"
| "fill_day (j # js) remaining =
     (if jb_hours j \<le> remaining
      then (case fill_day js (remaining - jb_hours j) of (s, d, r) \<Rightarrow> (j # s, d, r))
      else (case fill_day js remaining of (s, d, r) \<Rightarrow> (s, j # d, r)))"

definition holds_remote :: "bool \<Rightarrow> job list \<Rightarrow> bool" where
  "holds_remote batch_remote remote_jobs \<longleftrightarrow>
     batch_remote \<and> remote_jobs \<noteq> [] \<and> length remote_jobs < min_remote_batch \<and>
     \<not> (\<exists>j \<in> set remote_jobs. jb_deadline j - jb_age j \<le> force_run_hours)"

definition schedule_day :: "(rat \<Rightarrow> rat) \<Rightarrow> job list \<Rightarrow> rat \<Rightarrow> bool \<Rightarrow> day_schedule res" where
  "schedule_day half_pow jobs available batch_remote =
     (if available < 0 then Inl (ValueError ''crew_hours_available must be >= 0'')
      else bindR (mapR (\<lambda>j. site_by_id (rd_site (jb_dispatch j))) jobs) (\<lambda>_.
         let remote_jobs = filter remote jobs; mainland = filter (\<lambda>j. \<not> remote j) jobs;
             hold = holds_remote batch_remote remote_jobs;
             candidates = sort_key (job_key half_pow) (mainland @ (if hold then [] else remote_jobs))
         in case fill_day candidates available of (scheduled, deferred, remaining) \<Rightarrow>
           Inr \<lparr>ds_available = available, ds_scheduled = scheduled, ds_deferred = deferred,
                ds_held = (if hold then remote_jobs else []), ds_used = round_dec 2 (available - remaining),
                ds_value = round_dec 2 (sum_list (map aged_value scheduled))\<rparr>))"

definition value_per_crew_hour :: "day_schedule \<Rightarrow> rat" where
  "value_per_crew_hour s = (if ds_used s = 0 then 0 else round_dec 2 (ds_value s / ds_used s))"

definition overdue_scheduled :: "day_schedule \<Rightarrow> nat" where
  "overdue_scheduled s = length (filter overdue (ds_scheduled s))"

definition overdue_deferred :: "day_schedule \<Rightarrow> nat" where
  "overdue_deferred s = length (filter overdue (ds_deferred s))"

end
