(* ===== verification/CommercialLaws.thy ===== *)
theory CommercialLaws
  imports Schedule
begin

text \<open>
  Laws of the commercial prioritisation: the bounds of the value at risk, the order of the
  ranking, and that the day schedule splits the jobs, keeps to the crew-hours and never holds
  back a commitment with absolute precedence.
\<close>

subsection \<open>Rounding\<close>

lemma round_he_0 [simp]: "round_he 0 = 0"
  using round_he_of_int [of 0] by simp

lemma round_dec_idem [simp]: "round_dec k (round_dec k r) = round_dec k r"
  using round_he_of_int [of "round_he (r * 10 ^ k)"] by (simp add: round_dec_def)

lemma round_dec_nonneg: "0 \<le> r \<Longrightarrow> 0 \<le> round_dec k r"
  using round_dec_mono [of 0 r k] by (simp add: round_dec_def)

lemma round_dec_le: "x \<le> round_dec k y \<Longrightarrow> round_dec k x \<le> round_dec k y"
  using round_dec_mono [of x "round_dec k y" k] by simp

subsection \<open>Value at risk\<close>

lemma figure_Inr: "figure d k = Inr r \<Longrightarrow> r \<in> snd ` set d"
  by (force simp: figure_def split: option.splits dest: map_of_SomeD)

lemma figure_some: "map_of d k \<noteq> None \<Longrightarrow> \<exists>r. figure d k = Inr r"
  by (auto simp: figure_def)

lemma collectability_bounds: "figure payment_collectability k = Inr r \<Longrightarrow> 0 \<le> r \<and> r \<le> 1"
  by (drule figure_Inr) (auto simp: payment_collectability_def)

lemma churn_base_bounds: "figure churn_base k = Inr r \<Longrightarrow> 0 < r"
  by (drule figure_Inr) (auto simp: churn_base_def)

lemma mobility_bounds: "figure contract_mobility k = Inr r \<Longrightarrow> 0 < r"
  by (drule figure_Inr) (auto simp: contract_mobility_def)

lemma payment_factor_bounds: "figure payment_churn_factor k = Inr r \<Longrightarrow> 0 < r"
  by (drule figure_Inr) (auto simp: payment_churn_factor_def)

lemma churn_probability_bounds:
  assumes "churn_probability c = Inr p"
  shows "0 \<le> p \<and> p \<le> 95/100"
proof -
  obtain b m f where "figure churn_base (cu_segment c) = Inr b" "figure contract_mobility (cu_contract c) = Inr m"
    "figure payment_churn_factor (cu_payment c) = Inr f" and
    p: "p = round_dec 5 (min (b * fault_uplift (cu_faults c) * m * f) (95/100))"
    using assms unfolding churn_probability_def bindR_eq_Inr by blast
  then have f: "0 < b" "0 < m" "0 < f"
    by (simp_all add: churn_base_bounds mobility_bounds payment_factor_bounds)
  define q where "q = min (b * fault_uplift (cu_faults c) * m * f) (95/100)"
  have "0 < b * fault_uplift (cu_faults c) * m * f"
    using f by (simp add: fault_uplift_def)
  then have "0 \<le> q" "q \<le> 95/100" unfolding q_def by simp_all
  moreover have "round_dec 5 (95/100) = 95/100"
    using round_he_of_int [of 95000] by (simp add: round_dec_def)
  ultimately show ?thesis
    unfolding p q_def [symmetric] by (metis round_dec_mono round_dec_nonneg)
qed

lemma customer_ok:
  assumes "new_customer c = Inr c'"
  shows "c' = c \<and> map_of churn_base (cu_segment c) \<noteq> None \<and> map_of contract_mobility (cu_contract c) \<noteq> None \<and>
    map_of payment_churn_factor (cu_payment c) \<noteq> None \<and> 0 \<le> cu_mrr c"
  using assms by (auto simp: new_customer_def customer_error_def split: option.splits if_splits)

lemma collectability_known:
  "map_of payment_churn_factor k \<noteq> None \<Longrightarrow> map_of payment_collectability k \<noteq> None"
  unfolding payment_churn_factor_def payment_collectability_def map_of_eq_None_iff by simp

lemma months_nonneg: "expected_remaining_months c = Inr m \<Longrightarrow> 0 \<le> m"
  by (auto simp: expected_remaining_months_def bindR_eq_Inr trunc_rat_def min_def split: if_splits dest!: churn_base_bounds)

text \<open>
  For every customer record the program accepts the value at risk exists and is a share of
  what can be collected, which is a share of the lifetime value: none of them is negative, and
  the probability of churn stays within 0 and 0.95.
\<close>
theorem value_at_risk_bounds:
  assumes "new_customer c = Inr c'"
  shows "\<exists>v. value_at_risk_of c' = Inr v \<and> 0 \<le> va_value v \<and> va_value v \<le> va_collectable v \<and>
    va_collectable v \<le> va_lifetime v \<and> 0 \<le> va_churn v \<and> va_churn v \<le> 95/100"
proof -
  have ok: "c' = c" "map_of churn_base (cu_segment c) \<noteq> None" "map_of contract_mobility (cu_contract c) \<noteq> None"
    "map_of payment_churn_factor (cu_payment c) \<noteq> None" "0 \<le> cu_mrr c"
    using customer_ok [OF assms] by auto
  obtain b m f k where figs: "figure churn_base (cu_segment c) = Inr b" "figure contract_mobility (cu_contract c) = Inr m"
    "figure payment_churn_factor (cu_payment c) = Inr f" "figure payment_collectability (cu_payment c) = Inr k"
    using figure_some [OF ok(2)] figure_some [OF ok(3)] figure_some [OF ok(4)]
      figure_some [OF collectability_known [OF ok(4)]] by blast
  obtain n where n: "expected_remaining_months c = Inr n"
    by (cases "cu_contract c = ''in_term'' \<and> 0 < cu_remaining c") (simp_all add: expected_remaining_months_def figs(1))
  define life where "life = round_dec 2 (cu_mrr c * of_int n)"
  define coll where "coll = round_dec 2 (life * k)"
  obtain p where p: "churn_probability c = Inr p"
    using figs by (auto simp: churn_probability_def)
  have life: "lifetime_value c = Inr life" and coll: "collectable_value c = Inr coll"
    by (simp_all add: lifetime_value_def n life_def collectable_value_def figs coll_def)
  have "0 \<le> life" unfolding life_def using ok(5) months_nonneg [OF n] by (intro round_dec_nonneg) simp
  then have "life * k \<le> life" "0 \<le> life * k"
    using collectability_bounds [OF figs(4)] by (simp_all add: mult_left_le)
  then have c1: "coll \<le> life" "0 \<le> coll"
    unfolding coll_def by (auto simp: round_dec_nonneg life_def intro: round_dec_le)
  with churn_probability_bounds [OF p] have "coll * p \<le> coll" "0 \<le> coll * p"
    by (simp_all add: mult_left_le)
  then have "round_dec 2 (coll * p) \<le> coll" "0 \<le> round_dec 2 (coll * p)"
    by (auto simp: round_dec_nonneg coll_def intro: round_dec_le)
  then show ?thesis
    using c1 churn_probability_bounds [OF p] by (simp add: value_at_risk_of_def ok(1) p life coll n figs)
qed

definition demo_customer :: customer where
  "demo_customer = \<lparr>cu_account = ''A1'', cu_segment = ''residential'', cu_mrr = 80, cu_tenure = 12,
     cu_contract = ''rolling'', cu_remaining = 0, cu_payment = ''late'', cu_overdue = 0, cu_faults = 1,
     cu_medical = True, cu_vulnerable = False, cu_lifeline = False\<rparr>"

lemma demo_customer_ok: "new_customer demo_customer = Inr demo_customer"
  by (simp add: new_customer_def customer_error_def demo_customer_def churn_base_def contract_mobility_def
      payment_churn_factor_def max_plausible_mrr_def)

corollary value_at_risk_bounds_witness:
  "\<exists>v. value_at_risk_of demo_customer = Inr v \<and> 0 \<le> va_value v"
  using value_at_risk_bounds [OF demo_customer_ok] by blast

subsection \<open>The ranking\<close>

text \<open>
  The ranking prices every candidate once, puts each protected one before each commercial
  one, and orders both groups by falling net benefit.
\<close>
theorem ranking_protects:
  assumes "rank M cands = Inr rs" "i < j" "j < length rs"
  shows "(\<exists>rows. mapR (rank_one M) cands = Inr rows \<and> mset rs = mset rows) \<and> length rs = length cands \<and>
    (rd_protections (rs ! j) \<noteq> [] \<longrightarrow> rd_protections (rs ! i) \<noteq> []) \<and>
    ((rd_protections (rs ! i) = []) = (rd_protections (rs ! j) = []) \<longrightarrow> net_benefit (rs ! j) \<le> net_benefit (rs ! i))"
proof -
  obtain rows where rows: "mapR (rank_one M) cands = Inr rows" and rs: "rs = sort_key rank_key rows"
    using assms(1) by (auto simp: rank_def bindR_eq_Inr)
  have "sorted (map rank_key rs)" by (simp add: rs)
  with assms(2,3) have "rank_key (rs ! i) \<le> rank_key (rs ! j)"
    by (auto simp: sorted_iff_nth_mono dest: spec [of _ i])
  then show ?thesis
    using rows mapR_length [OF rows] by (auto simp: rs rank_key_def less_eq_prod_def split: if_splits)
qed

definition demo_context :: dispatch_context where
  "demo_context = \<lparr>cx_households = 4, cx_sla_breached = False, cx_service_down = False, cx_crew = ''dirty'',
     cx_destination = None\<rparr>"

definition demo_candidates :: "(string \<times> customer \<times> string \<times> dispatch_context) list" where
  "demo_candidates = [(''T1'', demo_customer\<lparr>cu_medical := False\<rparr>, ''PR-CUL'', demo_context),
     (''T2'', demo_customer, ''PR-SJU'', demo_context)]"

lemma demo_rank_ok: "is_ok (rank flat_mathlib demo_candidates)"
  by code_simp

corollary ranking_protects_witness:
  "\<exists>rs. rank flat_mathlib demo_candidates = Inr rs \<and> length rs = 2"
proof -
  obtain rs where rs: "rank flat_mathlib demo_candidates = Inr rs"
    using demo_rank_ok by (metis is_ok_simps(2) old.sum.exhaust)
  then have "length rs = 2"
    by (auto simp: rank_def bindR_eq_Inr demo_candidates_def dest!: mapR_length)
  with ranking_protects [OF rs, of 0 1] rs show ?thesis by auto
qed

subsection \<open>The day\<close>

lemma fill_day_split: "fill_day js r = (s, d, r') \<Longrightarrow> mset js = mset s + mset d \<and> r' = r - sum_list (map jb_hours s)"
  by (induction js r arbitrary: s d r' rule: fill_day.induct) (auto split: if_splits prod.splits)

lemma fill_day_fits:
  "fill_day js r = (s, d, r') \<Longrightarrow> 0 \<le> r \<Longrightarrow> 0 \<le> r'"
  by (induction js r arbitrary: s d r' rule: fill_day.induct) (auto split: if_splits prod.splits)

lemma fill_day_remaining: "fill_day js r = (s, d, r') \<Longrightarrow> \<forall>j \<in> set js. 0 \<le> jb_hours j \<Longrightarrow> r' \<le> r"
  by (induction js r arbitrary: s d r' rule: fill_day.induct) (force split: if_splits prod.splits)+

lemma fill_day_greedy:
  "fill_day js r = (s, d, r') \<Longrightarrow> \<forall>j \<in> set js. 0 \<le> jb_hours j \<Longrightarrow> j \<in> set d \<Longrightarrow> r' < jb_hours j"
proof (induction js r arbitrary: s d r' rule: fill_day.induct)
  case (2 k js r)
  show ?case
  proof (cases "jb_hours k \<le> r")
    case True
    with 2 show ?thesis by (auto split: prod.splits)
  next
    case False
    obtain s1 d1 r1 where e: "fill_day js r = (s1, d1, r1)" by (metis prod_cases3)
    with fill_day_remaining [OF e] False 2 show ?thesis by (force split: prod.splits)
  qed
qed simp

text \<open>
  A day schedule splits the jobs into scheduled, deferred and held ones, without a job lost
  or repeated; the scheduled ones fit the crew-hours available; and when no job has negative
  hours, no deferred job would fit the hours that remain at the end.
\<close>
theorem schedule_splits_jobs:
  assumes "schedule_day hp jobs available batch = Inr s"
  shows "mset jobs = mset (ds_scheduled s) + mset (ds_deferred s) + mset (ds_held s) \<and>
    sum_list (map jb_hours (ds_scheduled s)) \<le> available \<and>
    ((\<forall>j \<in> set jobs. 0 \<le> jb_hours j) \<longrightarrow>
      (\<forall>j \<in> set (ds_deferred s). available - sum_list (map jb_hours (ds_scheduled s)) < jb_hours j))"
proof -
  let ?rem = "filter remote jobs" and ?main = "filter (\<lambda>j. \<not> remote j) jobs"
  define hold where "hold = holds_remote batch ?rem"
  define cands where "cands = sort_key (job_key hp) (?main @ (if hold then [] else ?rem))"
  obtain sch d r where fill: "fill_day cands available = (sch, d, r)" by (metis prod_cases3)
  have "\<not> available < 0" using assms by (auto simp: schedule_day_def split: if_splits)
  then have s: "ds_scheduled s = sch" "ds_deferred s = d" "ds_held s = (if hold then ?rem else [])"
    using assms fill by (auto simp: schedule_day_def Let_def bindR_eq_Inr hold_def cands_def)
  have "mset jobs = mset ?rem + mset ?main"
    by (metis mset_filter multiset_partition)
  then have parts: "mset jobs = mset cands + mset (ds_held s)"
    unfolding s(3) cands_def by (cases hold) simp_all
  then have "set cands \<subseteq> set jobs"
    by (metis mset_subset_eq_add_left set_mset_mono set_mset_mset)
  then have greedy: "\<forall>j \<in> set d. r < jb_hours j" if "\<forall>j \<in> set jobs. 0 \<le> jb_hours j"
    using fill_day_greedy [OF fill] that by blast
  show ?thesis
    using fill_day_split [OF fill] fill_day_fits [OF fill] \<open>\<not> available < 0\<close> greedy
    unfolding s(1,2) parts by simp
qed

definition demo_dispatch :: ranked_dispatch where
  "demo_dispatch = \<lparr>rd_ticket = ''T1'', rd_account = ''A1'', rd_site = ''PR-CUL'', rd_archetype = REMOTE_ISLAND,
     rd_value = \<lparr>va_account = ''A1'', va_lifetime = 900, va_collectable = 900, va_churn = 1/10, va_value = 90,
       va_components = []\<rparr>, rd_cost = 500, rd_households = 1, rd_protections = [], rd_band = ''negative''\<rparr>"

definition demo_jobs :: "job list res" where
  "demo_jobs = build_jobs flat_mathlib [] [(''T1'', 5)] [demo_dispatch]"

definition demo_day :: "day_schedule res" where
  "demo_day = bindR demo_jobs (\<lambda>js. schedule_day (\<lambda>x. 0) js 10 True)"

lemma demo_day_held: "(case demo_day of Inl _ \<Rightarrow> False | Inr s \<Rightarrow> length (ds_held s) = 1)"
  by code_simp

lemma demo_day_parts:
  obtains js s where "demo_jobs = Inr js" "schedule_day (\<lambda>x. 0) js 10 True = Inr s" "length (ds_held s) = 1"
  using demo_day_held by (auto simp: demo_day_def bindR_eq_Inr split: sum.splits)

corollary schedule_splits_jobs_witness:
  "\<exists>js s. schedule_day (\<lambda>x. 0) js 10 True = Inr s \<and> mset js = mset (ds_scheduled s) + mset (ds_deferred s) + mset (ds_held s)"
proof (rule demo_day_parts)
  fix js s
  assume s: "schedule_day (\<lambda>x. 0) js 10 True = Inr s"
  from schedule_splits_jobs [OF s] s show ?thesis by blast
qed

lemma fold_min_le: "fold min hs (h :: 'a :: linorder) \<le> h \<and> (\<forall>x \<in> set hs. fold min hs h \<le> x)"
proof (induction hs arbitrary: h)
  case (Cons a hs)
  from Cons.IH [of "min a h"] show ?case by auto
qed simp

lemma deadline_hours_for_le: "p \<in> set ps \<Longrightarrow> deadline_hours_for ps \<le> deadline_hours p"
  using fold_min_le by (cases ps) (auto simp: deadline_hours_for_def)

lemma build_jobs_deadline:
  "build_jobs M domains ages ranked = Inr jobs \<Longrightarrow> j \<in> set jobs \<Longrightarrow>
   jb_deadline j = deadline_hours_for (rd_protections (jb_dispatch j)) \<and>
   jb_age j = (case map_of ages (rd_ticket (jb_dispatch j)) of None \<Rightarrow> 0 | Some x \<Rightarrow> x)"
  unfolding build_jobs_def by (drule (1) mapR_from) (auto simp: build_job_def bindR_eq_Inr Let_def)

text \<open>
  C20. Batching never holds back a commitment: when no ticket has a negative age, the jobs held
  for a later island run are fewer than four, all remote, more than eighteen hours from their
  deadline, and none of them is a life-safety or already breached commitment.
\<close>
theorem held_jobs_can_wait:
  assumes "build_jobs M domains ages ranked = Inr jobs" "\<forall>(t, a) \<in> set ages. 0 \<le> a"
    and "schedule_day hp jobs available batch = Inr s" "j \<in> set (ds_held s)"
  shows "length (ds_held s) < 4 \<and> remote j \<and> \<not> absolute j \<and> \<not> overdue j \<and> 18 < jb_deadline j - jb_age j"
proof -
  have hold: "holds_remote batch (filter remote jobs)" and held: "ds_held s = filter remote jobs"
    using assms(3,4) by (auto simp: schedule_day_def Let_def bindR_eq_Inr split: if_splits prod.splits)
  then have slack: "18 < jb_deadline j - jb_age j" "length (ds_held s) < 4" "remote j" "j \<in> set jobs"
    using assms(4) by (auto simp: holds_remote_def force_run_hours_def min_remote_batch_def not_le)
  have "0 \<le> jb_age j"
    using build_jobs_deadline [OF assms(1) slack(4)] assms(2) by (auto split: option.splits dest: map_of_SomeD)
  moreover have "jb_deadline j \<le> 4" if abs: "absolute j"
  proof -
    obtain p where p: "p \<in> set (rd_protections (jb_dispatch j))" "p \<in> {''medical_or_safety'', ''sla_breached''}"
      using abs unfolding absolute_def absolute_precedence_def by auto
    from p(2) have "deadline_hours p \<le> 4" by (auto simp: deadline_hours_def)
    with deadline_hours_for_le [OF p(1)] build_jobs_deadline [OF assms(1) slack(4)] show ?thesis by simp
  qed
  ultimately show ?thesis using slack by (auto simp: overdue_def)
qed

corollary held_jobs_can_wait_witness:
  "\<exists>js s j. demo_jobs = Inr js \<and> schedule_day (\<lambda>x. 0) js 10 True = Inr s \<and> j \<in> set (ds_held s) \<and> \<not> absolute j"
proof (rule demo_day_parts)
  fix js s
  assume s: "demo_jobs = Inr js" "schedule_day (\<lambda>x. 0) js 10 True = Inr s" "length (ds_held s) = 1"
  then obtain j where j: "j \<in> set (ds_held s)" by (metis length_pos_if_in_set One_nat_def last_in_set list.size(3) zero_neq_one)
  from held_jobs_can_wait [OF s(1) [unfolded demo_jobs_def] _ s(2) j] s j show ?thesis by auto
qed

end
