(* ===== verification/Scanner.thy ===== *)
theory Scanner
  imports Geography Digest Datetime
begin

text \<open>
  The daily scan of the predictive branch (\<open>predictive/config.py\<close>, \<open>predictive/signals.py\<close>,
  \<open>predictive/scanner.py\<close>): thresholds, synthetic telemetry over an abstract random
  generator, least-squares trends, findings and tickets.
\<close>

subsection \<open>Configuration\<close>

type_synonym figures = "(string \<times> rat) list"

definition hfc_thresholds :: "(string \<times> figures) list" where
  "hfc_thresholds =
     [(''ds_rx_dbmv'', [(''target'', 0), (''warn_low'', -10), (''alarm_low'', -15), (''warn_high'', 10), (''alarm_high'', 15)]),
      (''us_tx_dbmv'', [(''target'', 45), (''warn_low'', 35), (''alarm_low'', 30), (''warn_high'', 51), (''alarm_high'', 55)]),
      (''ds_mer_db'', [(''target'', 38), (''warn_low'', 33), (''alarm_low'', 30)]),
      (''uncorrectable_ratio'', [(''target'', 0), (''warn_high'', 1/1000000), (''alarm_high'', 1/10000)]),
      (''t3_timeouts_per_day'', [(''target'', 0), (''warn_high'', 5), (''alarm_high'', 25)])]"

definition pon_thresholds :: "(string \<times> figures) list" where
  "pon_thresholds =
     [(''ont_rx_dbm'', [(''target'', -20), (''warn_low'', -25), (''alarm_low'', -27), (''warn_high'', -8), (''alarm_high'', -6)]),
      (''ont_tx_dbm'', [(''target'', 5/2), (''warn_low'', 1/2), (''alarm_low'', -1), (''warn_high'', 5), (''alarm_high'', 7)]),
      (''ber'', [(''target'', 0), (''warn_high'', 1/1000000000), (''alarm_high'', 1/1000000)]),
      (''dying_gasp_per_day'', [(''target'', 0), (''warn_high'', 1), (''alarm_high'', 4)])]"

record scan_config =
  sc_population :: int
  sc_window_days :: int
  sc_min_samples :: nat
  sc_horizon_days :: rat
  sc_min_r2 :: rat
  sc_repeat_days :: int
  sc_scan_hour :: int
  sc_start_hour :: int
  sc_end_hour :: int
  sc_sla_hours :: "(string \<times> int) list"
  sc_max_tickets :: nat

definition default_scan :: scan_config where
  "default_scan = \<lparr>sc_population = 20000, sc_window_days = 14, sc_min_samples = 7, sc_horizon_days = 14,
     sc_min_r2 = 55/100, sc_repeat_days = 30, sc_scan_hour = 4, sc_start_hour = 1, sc_end_hour = 5,
     sc_sla_hours = [(''proactive'', 24), (''forecast'', 120)], sc_max_tickets = 400\<rparr>"

definition in_maintenance_window :: "scan_config \<Rightarrow> int \<Rightarrow> bool" where
  "in_maintenance_window c hour =
     (if sc_start_hour c \<le> sc_end_hour c then sc_start_hour c \<le> hour \<and> hour < sc_end_hour c
      else sc_start_hour c \<le> hour \<or> hour < sc_end_hour c)"

record remediation_config =
  rm_max_attempts :: int
  rm_interruption :: int
  rm_success :: "(string \<times> figures) list"

definition default_remediation :: remediation_config where
  "default_remediation = \<lparr>rm_max_attempts = 2, rm_interruption = 2, rm_success =
     [(''cpe_state'', [(''remote_reboot'', 82/100), (''remote_reprovision'', 35/100)]),
      (''config_drift'', [(''remote_reboot'', 20/100), (''remote_reprovision'', 88/100)]),
      (''firmware'', [(''remote_reboot'', 45/100), (''remote_reprovision'', 25/100)]),
      (''wifi_env'', [(''remote_reboot'', 30/100), (''remote_reprovision'', 15/100)]),
      (''drop'', [(''remote_reboot'', 2/100), (''remote_reprovision'', 1/100)]),
      (''tap_or_odp'', [(''remote_reboot'', 1/100), (''remote_reprovision'', 1/100)]),
      (''plant'', [(''remote_reboot'', 1/100), (''remote_reprovision'', 1/100)])]\<rparr>"

definition hard_failure_kpis :: "string list" where
  "hard_failure_kpis = [''ds_rx_dbmv'', ''us_tx_dbmv'', ''ont_rx_dbm'']"

definition physical_causes :: "string list" where
  "physical_causes = [''drop'', ''tap_or_odp'', ''plant'']"

subsection \<open>Telemetry\<close>

text \<open>The random generator of the platform: a state and the draws the code uses.\<close>

record 'g rng =
  rg_seed :: "nat \<Rightarrow> 'g"
  rg_random :: "'g \<Rightarrow> rat \<times> 'g"
  rg_gauss :: "rat \<Rightarrow> rat \<Rightarrow> 'g \<Rightarrow> rat \<times> 'g"
  rg_uniform :: "rat \<Rightarrow> rat \<Rightarrow> 'g \<Rightarrow> rat \<times> 'g"
  rg_randrange :: "int \<Rightarrow> int \<Rightarrow> 'g \<Rightarrow> int \<times> 'g"

datatype signal_mode = Erratic | Step | Trend

definition cause_signature :: "(string \<times> (string \<times> signal_mode \<times> rat) list) list" where
  "cause_signature =
     [(''stable'', []),
      (''cpe_state'', [(''t3_timeouts_per_day'', Erratic, 6), (''dying_gasp_per_day'', Erratic, 12/10)]),
      (''config_drift'', [(''us_tx_dbmv'', Step, 6), (''ont_tx_dbm'', Step, 2)]),
      (''firmware'', [(''ds_mer_db'', Step, -4), (''ber'', Step, 4/1000000000)]),
      (''wifi_env'', [(''t3_timeouts_per_day'', Erratic, 3)]),
      (''drop'', [(''us_tx_dbmv'', Trend, 34/100), (''ds_mer_db'', Trend, -19/100), (''ont_rx_dbm'', Trend, -17/100)]),
      (''tap_or_odp'', [(''ds_rx_dbmv'', Trend, -24/100), (''ds_mer_db'', Trend, -16/100), (''ont_rx_dbm'', Trend, -21/100),
        (''uncorrectable_ratio'', Trend, 65/10000000)]),
      (''plant'', [(''ds_rx_dbmv'', Trend, -31/100), (''ds_mer_db'', Trend, -26/100), (''ont_rx_dbm'', Trend, -29/100)])]"

definition cause_mix :: figures where
  "cause_mix = [(''stable'', 9380/10000), (''cpe_state'', 180/10000), (''config_drift'', 130/10000),
     (''firmware'', 80/10000), (''wifi_env'', 90/10000), (''drop'', 75/10000), (''tap_or_odp'', 45/10000),
     (''plant'', 20/10000)]"

definition relapse_after_days :: "(string \<times> int option) list" where
  "relapse_after_days = [(''config_drift'', None), (''firmware'', Some 6), (''cpe_state'', Some 9), (''wifi_env'', Some 4),
     (''drop'', Some 2), (''tap_or_odp'', Some 2), (''plant'', Some 2), (''stable'', None)]"

definition hfc_kpis :: "string list" where
  "hfc_kpis = [''ds_rx_dbmv'', ''us_tx_dbmv'', ''ds_mer_db'', ''uncorrectable_ratio'', ''t3_timeouts_per_day'']"

definition pon_kpis :: "string list" where
  "pon_kpis = [''ont_rx_dbm'', ''ont_tx_dbm'', ''ber'', ''dying_gasp_per_day'']"

definition baseline :: "(string \<times> rat \<times> rat) list" where
  "baseline = [(''ds_rx_dbmv'', 1/2, 9/10), (''us_tx_dbmv'', 44, 11/10), (''ds_mer_db'', 385/10, 7/10),
     (''uncorrectable_ratio'', 2/100000000, 15/1000000000), (''t3_timeouts_per_day'', 3/10, 1/2),
     (''ont_rx_dbm'', -195/10, 7/10), (''ont_tx_dbm'', 26/10, 35/100), (''ber'', 1/100000000000, 8/1000000000000),
     (''dying_gasp_per_day'', 5/100, 2/10)]"

definition nonneg_kpis :: "string list" where
  "nonneg_kpis = [''uncorrectable_ratio'', ''ber'', ''t3_timeouts_per_day'', ''dying_gasp_per_day'']"

record modem_series =
  ms_modem :: string
  ms_site :: string
  ms_technology :: string
  ms_cause :: string
  ms_kpis :: "(string \<times> rat list) list"

definition series_days :: "modem_series \<Rightarrow> nat" where
  "series_days s = (case ms_kpis s of [] \<Rightarrow> 0 | (_, v) # _ \<Rightarrow> length v)"

text \<open>\<open>int.from_bytes(digest[:8], "big")\<close> as the seed.\<close>

definition stable_rng :: "(string \<Rightarrow> string) \<Rightarrow> 'g rng \<Rightarrow> string list \<Rightarrow> 'g" where
  "stable_rng D G parts =
     rg_seed G (foldl (\<lambda>a c. 256 * a + of_char c) 0 (take 8 (D (utf8 (join ''|'' parts)))))"

fun pick_from :: "rat \<Rightarrow> rat \<Rightarrow> figures \<Rightarrow> string" where
  "pick_from roll acc [] = ''stable''"
| "pick_from roll acc ((cause, p) # rest) = (if roll \<le> acc + p then cause else pick_from roll (acc + p) rest)"

definition pick_cause :: "'g rng \<Rightarrow> 'g \<Rightarrow> string \<times> 'g" where
  "pick_cause G g = (let (roll, g') = rg_random G g in (pick_from roll 0 cause_mix, g'))"

definition onset_day :: "(string \<Rightarrow> string) \<Rightarrow> 'g rng \<Rightarrow> string \<Rightarrow> int \<Rightarrow> int \<Rightarrow> int" where
  "onset_day D G modem_id sd horizon =
     fst (rg_randrange G 0 (max 1 horizon) (stable_rng D G [int_str sd, modem_id, ''onset'']))"

text \<open>One sample of a KPI on a day of the window.\<close>

definition sample ::
  "'g rng \<Rightarrow> string \<Rightarrow> rat \<times> rat \<Rightarrow> (signal_mode \<times> rat) option \<Rightarrow> rat \<Rightarrow> int \<Rightarrow> int \<Rightarrow> int \<Rightarrow> 'g \<Rightarrow> rat \<times> 'g" where
  "sample G kpi target sig progress days step_day day g =
     (let (v, g1) = rg_gauss G (fst target) (snd target) g;
          (v2, g2) = (case sig of
              Some (Trend, m) \<Rightarrow> (v + m * (progress * of_int days * (26/10) + of_int day), g1)
            | Some (Step, m) \<Rightarrow> (if step_day \<le> day then v + m else v, g1)
            | Some (Erratic, m) \<Rightarrow>
                (let (u, h) = rg_random G g1 in
                 if u < 35/100 then (let (e, h') = rg_gauss G 0 m h in (v + \<bar>e\<bar>, h')) else (v, h))
            | None \<Rightarrow> (v, g1));
          v3 = (if kpi \<in> set nonneg_kpis then max 0 v2 else v2)
      in (round_dec 10 v3, g2))"

fun samples_for ::
  "(int \<Rightarrow> 'g \<Rightarrow> rat \<times> 'g) \<Rightarrow> int list \<Rightarrow> 'g \<Rightarrow> rat list \<times> 'g" where
  "samples_for f [] g = ([], g)"
| "samples_for f (d # ds) g = (let (v, g1) = f d g; (vs, g2) = samples_for f ds g1 in (v # vs, g2))"

fun kpi_table ::
  "(string \<Rightarrow> int \<Rightarrow> 'g \<Rightarrow> rat \<times> 'g) \<Rightarrow> int list \<Rightarrow> string list \<Rightarrow> 'g \<Rightarrow> (string \<times> rat list) list" where
  "kpi_table f ds [] g = []"
| "kpi_table f ds (k # ks) g = (let (vs, g1) = samples_for (f k) ds g in (k, vs) # kpi_table f ds ks g1)"

definition series_for ::
  "(string \<Rightarrow> string) \<Rightarrow> 'g rng \<Rightarrow> string \<Rightarrow> string \<Rightarrow> string \<Rightarrow> int \<Rightarrow> int \<Rightarrow> string option \<Rightarrow> int \<Rightarrow> int \<Rightarrow> modem_series res" where
  "series_for D G modem_id site_id technology days sd cause day_index onset_horizon =
     (let g0 = stable_rng D G [int_str sd, modem_id];
          (chosen0, g1) = (case cause of Some c \<Rightarrow> if c = [] then pick_cause G g0 else (c, g0) | None \<Rightarrow> pick_cause G g0);
          begins = onset_day D G modem_id sd onset_horizon;
          degrading = (cause = None \<and> chosen0 \<noteq> ''stable'' \<and> begins \<le> day_index);
          chosen = (if cause = None \<and> chosen0 \<noteq> ''stable'' \<and> day_index < begins then ''stable'' else chosen0);
          g2 = (if degrading then stable_rng D G [int_str sd, modem_id, ''prog''] else g1)
      in case map_of cause_signature chosen of
           None \<Rightarrow> Inl (KeyError chosen)
         | Some signature \<Rightarrow>
             (let kpi_names = (if technology = ''HFC'' then hfc_kpis else pon_kpis);
                  (p0, g3) = rg_random G g2;
                  progress = (if degrading then min 1 (p0 * (35/100) + of_int (day_index - begins) / 26) else p0);
                  (u, g4) = rg_uniform G (25/100) (8/10) g3;
                  step_day = trunc_rat (of_int days * u)
              in Inr \<lparr>ms_modem = modem_id, ms_site = site_id, ms_technology = technology, ms_cause = chosen,
                   ms_kpis = kpi_table (\<lambda>k day. sample G k (the (map_of baseline k)) (map_of signature k) progress days step_day day)
                     [0..days - 1] kpi_names g4\<rparr>))"

subsection \<open>Trends\<close>

definition sum_sq :: "rat list \<Rightarrow> rat" where
  "sum_sq xs = sum_list (map (\<lambda>x. x ^ 2) xs)"

definition mean :: "rat list \<Rightarrow> rat" where
  "mean xs = sum_list xs / of_nat (length xs)"

definition day_axis :: "nat \<Rightarrow> rat list" where
  "day_axis n = map of_nat [0..<n]"

definition deviations :: "rat list \<Rightarrow> rat list" where
  "deviations xs = map (\<lambda>x. x - mean xs) xs"

definition residuals :: "rat \<Rightarrow> rat \<Rightarrow> rat list \<Rightarrow> rat list \<Rightarrow> rat list" where
  "residuals slope intercept xs ys = map2 (\<lambda>x y. y - (slope * x + intercept)) xs ys"

definition linear_trend :: "rat list \<Rightarrow> rat \<times> rat \<times> rat" where
  "linear_trend values =
     (let n = length values in
      if n < 2 then (0, case values of [] \<Rightarrow> 0 | v # _ \<Rightarrow> v, 0)
      else (let xs = day_axis n; sxx = sum_sq (deviations xs);
                sxy = sum_list (map2 (*) (deviations xs) (deviations values)) in
        if sxx = 0 then (0, mean values, 0)
        else (let slope = sxy / sxx; intercept = mean values - slope * mean xs; ss_tot = sum_sq (deviations values) in
          if ss_tot = 0 then (slope, intercept, 1)
          else (slope, intercept, max 0 (1 - sum_sq (residuals slope intercept xs values) / ss_tot)))))"

datatype direction = Falling | Rising

definition days_to_threshold :: "rat list \<Rightarrow> rat \<Rightarrow> direction \<Rightarrow> rat option" where
  "days_to_threshold values threshold dir =
     (if values = [] then None
      else (let (slope, intercept, _) = linear_trend values;
                current = slope * (of_nat (length values) - 1) + intercept;
                days = (threshold - current) / slope
        in if (case dir of Falling \<Rightarrow> current \<le> threshold \<or> - (1/1000000000000) \<le> slope
                 | Rising \<Rightarrow> threshold \<le> current \<or> slope \<le> 1/1000000000000) then None
           else if 0 < days then Some days else None))"

subsection \<open>Findings and tickets\<close>

definition alarm_bounds :: "(string \<times> string \<times> direction) list" where
  "alarm_bounds = [(''ds_rx_dbmv'', ''alarm_low'', Falling), (''us_tx_dbmv'', ''alarm_high'', Rising),
     (''ds_mer_db'', ''alarm_low'', Falling), (''uncorrectable_ratio'', ''alarm_high'', Rising),
     (''t3_timeouts_per_day'', ''alarm_high'', Rising), (''ont_rx_dbm'', ''alarm_low'', Falling),
     (''ont_tx_dbm'', ''alarm_low'', Falling), (''ber'', ''alarm_high'', Rising),
     (''dying_gasp_per_day'', ''alarm_high'', Rising)]"

definition severity_order :: "string \<Rightarrow> nat" where
  "severity_order s = (if s = ''critical'' then 0 else if s = ''high'' then 1 else if s = ''medium'' then 2 else 3)"

record finding =
  fi_kpi :: string
  fi_value :: rat
  fi_threshold :: rat
  fi_direction :: direction
  fi_breached :: bool
  fi_days :: "rat option"
  fi_slope :: rat
  fi_r2 :: rat

definition margin :: "finding \<Rightarrow> rat" where
  "margin f = (if fi_direction f = Falling then fi_threshold f - fi_value f else fi_value f - fi_threshold f)"

record ticket =
  tk_id :: string
  tk_modem :: string
  tk_site :: string
  tk_technology :: string
  tk_class :: string
  tk_severity :: string
  tk_opened :: datetime
  tk_due :: datetime
  tk_findings :: "finding list"
  tk_cause :: string
  tk_repeat :: bool
  tk_flags :: nat
  tk_run :: string

text \<open>\<open>max\<close> and \<open>min\<close> by a key keep the first of the best.\<close>

fun first_best :: "('a \<Rightarrow> 'k :: linorder) \<Rightarrow> 'a \<Rightarrow> 'a list \<Rightarrow> 'a" where
  "first_best f m [] = m"
| "first_best f m (x # xs) = first_best f (if f x < f m then x else m) xs"

definition eta :: "finding \<Rightarrow> rat" where
  "eta f = (case fi_days f of None \<Rightarrow> 0 | Some d \<Rightarrow> d)"

definition ticket_headline :: "ticket \<Rightarrow> finding res" where
  "ticket_headline t =
     (case filter fi_breached (tk_findings t) of
        f # fs \<Rightarrow> Inr (first_best (\<lambda>f. - margin f) f fs)
      | [] \<Rightarrow> (case filter (\<lambda>f. fi_days f \<noteq> None) (tk_findings t) of
            f # fs \<Rightarrow> Inr (first_best eta f fs)
          | [] \<Rightarrow> (case tk_findings t of [] \<Rightarrow> Inl IndexError | f # _ \<Rightarrow> Inr f)))"

definition dedup_key :: "ticket \<Rightarrow> string" where
  "dedup_key t = tk_modem t @ ''|'' @ tk_class t"

definition eta_within :: "scan_config \<Rightarrow> rat list \<Rightarrow> rat \<Rightarrow> direction \<Rightarrow> rat option" where
  "eta_within c values threshold dir =
     (case days_to_threshold values threshold dir of
        None \<Rightarrow> None | Some d \<Rightarrow> if sc_horizon_days c < d then None else Some d)"

text \<open>One KPI: nothing without its alarm bound, otherwise a finding when breached or trending into it.\<close>

definition evaluate_kpi :: "scan_config \<Rightarrow> modem_series \<Rightarrow> string \<Rightarrow> finding list res" where
  "evaluate_kpi c s kpi =
     (case map_of alarm_bounds kpi of
        None \<Rightarrow> Inl (KeyError kpi)
      | Some (bound_name, dir) \<Rightarrow>
          (case map_of (case map_of (if ms_technology s = ''HFC'' then hfc_thresholds else pon_thresholds) kpi of
                          None \<Rightarrow> [] | Some l \<Rightarrow> l) bound_name of
             None \<Rightarrow> Inr []
           | Some threshold \<Rightarrow>
               (case map_of (ms_kpis s) kpi of
                  None \<Rightarrow> Inl (KeyError kpi)
                | Some values \<Rightarrow>
                    if values = [] then Inl IndexError
                    else
                      (let current = last values;
                           breached = (case dir of Falling \<Rightarrow> current \<le> threshold | Rising \<Rightarrow> threshold \<le> current);
                           (slope, _, r2) = linear_trend values;
                           days = (if \<not> breached \<and> sc_min_samples c \<le> length values \<and> sc_min_r2 c \<le> r2
                                   then eta_within c values threshold dir else None)
                       in Inr (if breached \<or> days \<noteq> None
                            then [\<lparr>fi_kpi = kpi, fi_value = round_dec 10 current, fi_threshold = threshold,
                                   fi_direction = dir, fi_breached = breached, fi_days = map_option (round_dec 2) days,
                                   fi_slope = round_dec 6 slope, fi_r2 = round_dec 4 r2\<rparr>] else [])))))"

definition scan_findings :: "scan_config \<Rightarrow> modem_series \<Rightarrow> finding list res" where
  "scan_findings c s =
     bindR (mapR (evaluate_kpi c s) (if ms_technology s = ''HFC'' then hfc_kpis else pon_kpis)) (\<lambda>fs. Inr (concat fs))"

definition soonest :: "finding list \<Rightarrow> rat" where
  "soonest fs = (case filter (\<lambda>f. fi_days f \<noteq> None) fs of [] \<Rightarrow> 999 | g # gs \<Rightarrow> eta (first_best eta g gs))"

definition scan_severity :: "string \<Rightarrow> finding list \<Rightarrow> string" where
  "scan_severity cls fs =
     (if cls = ''proactive'' then (if 2 \<le> length fs then ''critical'' else ''high'')
      else if soonest fs \<le> 3 then ''high'' else if soonest fs \<le> 7 then ''medium'' else ''low'')"

record scan_result =
  sr_run :: string
  sr_ran_at :: datetime
  sr_scanned :: nat
  sr_tickets :: "ticket list"
  sr_capped :: nat
  sr_duplicates :: nat
  sr_healthy :: nat

definition by_class :: "scan_result \<Rightarrow> (string \<times> int) list" where
  "by_class r = fold (\<lambda>t d. dset (tk_class t) ((case map_of d (tk_class t) of None \<Rightarrow> 0 | Some k \<Rightarrow> k) + 1) d) (sr_tickets r) []"

definition flag_rate :: "scan_result \<Rightarrow> rat" where
  "flag_rate r = (if sr_scanned r = 0 then 0 else round_dec 5 (of_nat (length (sr_tickets r)) / of_nat (sr_scanned r)))"

text \<open>\<open>a >= b\<close> on datetimes: comparing an aware with a naive one raises.\<close>

definition dt_ge :: "datetime \<Rightarrow> datetime \<Rightarrow> bool res" where
  "dt_ge a b =
     (if (dt_off a = None) = (dt_off b = None) then Inr (instant b \<le> instant a)
      else Inl (TypeError ''can't compare offset-naive and offset-aware datetimes''))"

fun filterR :: "('a \<Rightarrow> bool res) \<Rightarrow> 'a list \<Rightarrow> 'a list res" where
  "filterR f [] = Inr []"
| "filterR f (x # xs) = bindR (f x) (\<lambda>b. bindR (filterR f xs) (\<lambda>ys. Inr (if b then x # ys else ys)))"

datatype scan_outcome = Healthy | Duplicate | Candidate ticket

definition ticket_class :: "finding list \<Rightarrow> string" where
  "ticket_class fs = (if filter fi_breached fs \<noteq> [] then ''proactive'' else ''forecast'')"

definition suppressed :: "string option \<Rightarrow> string \<Rightarrow> bool" where
  "suppressed opn cls \<longleftrightarrow> opn \<noteq> None \<and> \<not> (opn = Some ''forecast'' \<and> cls = ''proactive'')"

definition scan_one ::
  "scan_config \<Rightarrow> string \<Rightarrow> datetime \<Rightarrow> (string \<times> datetime list) list \<Rightarrow> (string \<times> string) list \<Rightarrow>
   nat \<times> modem_series \<Rightarrow> scan_outcome res" where
  "scan_one c run_id ran_at history already_open indexed =
     (let index = fst indexed; s = snd indexed in
      bindR (scan_findings c s) (\<lambda>fs.
      if fs = [] then Inr Healthy
      else
        let cls = ticket_class fs in
        if suppressed (map_of already_open (ms_modem s)) cls then Inr Duplicate
        else
          bindR (filterR (\<lambda>t. dt_ge t (dt_add ran_at (- (sc_repeat_days c * 86400000000))))
            (case map_of history (ms_modem s) of None \<Rightarrow> [] | Some ts \<Rightarrow> ts)) (\<lambda>prior.
          case map_of (sc_sla_hours c) cls of
            None \<Rightarrow> Inl (KeyError cls)
          | Some h \<Rightarrow> Inr (Candidate
              \<lparr>tk_id = ''PRD-'' @ run_id @ ''-'' @ nat_str_pad 5 (index + 1), tk_modem = ms_modem s, tk_site = ms_site s,
               tk_technology = ms_technology s, tk_class = cls, tk_severity = scan_severity cls fs,
               tk_opened = ran_at, tk_due = dt_add ran_at (h * 3600000000), tk_findings = fs, tk_cause = ms_cause s,
               tk_repeat = (prior \<noteq> []), tk_flags = length prior, tk_run = run_id\<rparr>))))"

fun candidates_of :: "scan_outcome list \<Rightarrow> ticket list" where
  "candidates_of [] = []"
| "candidates_of (Candidate t # os) = t # candidates_of os"
| "candidates_of (Healthy # os) = candidates_of os"
| "candidates_of (Duplicate # os) = candidates_of os"

definition ticket_key :: "ticket \<Rightarrow> nat \<times> nat \<times> string" where
  "ticket_key t = (severity_order (tk_severity t), if tk_class t = ''proactive'' then 0 else 1, tk_id t)"

definition scan ::
  "scan_config \<Rightarrow> modem_series list \<Rightarrow> string \<Rightarrow> datetime \<Rightarrow> (string \<times> datetime list) list \<Rightarrow> (string \<times> string) list \<Rightarrow>
   scan_result res" where
  "scan c population run_id ran_at history already_open =
     bindR (mapR (scan_one c run_id ran_at history already_open) (enumerate 0 population)) (\<lambda>outs.
       let cands = sort_key ticket_key (candidates_of outs)
       in Inr \<lparr>sr_run = run_id, sr_ran_at = ran_at, sr_scanned = length population,
            sr_tickets = take (sc_max_tickets c) cands, sr_capped = length cands - sc_max_tickets c,
            sr_duplicates = length (filter (\<lambda>x. x = Duplicate) outs),
            sr_healthy = length (filter (\<lambda>x. x = Healthy) outs)\<rparr>)"

end
