(* ===== verification/Pipeline.thy ===== *)
theory Pipeline
  imports Scanner Guards Agents Commercial
begin

text \<open>
  The predictive pipeline (\<open>predictive/pipeline.py\<close>): remote remediation of a ticket inside
  the maintenance window, the gate to a person, the policy check of a truck roll, and the
  agents that may triage it and choose the action and the base. The printer \<open>json.dumps\<close> and
  the agents' system texts are arguments.
\<close>

subsection \<open>Actions\<close>

definition service_affecting :: "string list" where
  "service_affecting = [''remote_reboot'']"

definition domain_for_cause :: "string \<Rightarrow> string" where
  "domain_for_cause c =
     (case map_of [(''cpe_state'', ''cpe''), (''config_drift'', ''provisioning''), (''firmware'', ''cpe''),
        (''wifi_env'', ''wifi_or_home''), (''drop'', ''drop''), (''tap_or_odp'', ''hfc_tap''), (''plant'', ''plant''),
        (''stable'', ''unknown'')] c of None \<Rightarrow> ''unknown'' | Some d \<Rightarrow> d)"

record attempt =
  at_action :: string
  at_index :: nat
  at_key :: string
  at_executed :: bool
  at_succeeded :: bool
  at_reason :: string

record outcome =
  oc_ticket :: string
  oc_modem :: string
  oc_attempts :: "attempt list"
  oc_resolved :: bool
  oc_verdict :: guard_verdict
  oc_gate :: "string list"
  oc_notify :: "string list"
  oc_truck :: bool
  oc_escalated :: bool
  oc_interruption :: int
  oc_triage :: "string option"
  oc_triage_source :: "string option"
  oc_triage_agrees :: "bool option"
  oc_blocked :: "string list"
  oc_priority :: "ranked_dispatch option"
  oc_base :: "string option"
  oc_base_alt :: "string option"
  oc_action :: "string option"
  oc_action_alt :: "string option"

definition notification_required :: "outcome \<Rightarrow> bool" where
  "notification_required o1 \<longleftrightarrow> oc_notify o1 \<noteq> []"

definition handed_to_human :: "outcome \<Rightarrow> bool" where
  "handed_to_human o1 \<longleftrightarrow> oc_verdict o1 = RequiresApproval"

definition action_key :: "(string \<Rightarrow> string) \<Rightarrow> ticket \<Rightarrow> string \<Rightarrow> nat \<Rightarrow> string" where
  "action_key D t action index =
     ''idem-'' @ take 40 (sha_hex D (join ''|'' [''prd_v1'', tk_id t, tk_modem t, action, int_str (int index)]))"

definition plan_actions :: "ticket \<Rightarrow> string list" where
  "plan_actions t =
     (if tk_cause t \<in> set physical_causes then []
      else if tk_cause t = ''config_drift'' then [''remote_reprovision'', ''remote_reboot'']
      else [''remote_reboot'', ''remote_reprovision''])"

definition execute_allowed :: "string \<Rightarrow> int \<Rightarrow> scan_config \<Rightarrow> bool \<times> string" where
  "execute_allowed action hour c =
     (if action \<notin> set service_affecting then (True, ''not service affecting'')
      else if in_maintenance_window c hour then (True, ''inside the maintenance window'')
      else (False, ''deferred: '' @ action @ '' interrupts service and the window is '' @ two (sc_start_hour c) @
              '':00 to '' @ two (sc_end_hour c) @ '':00''))"

definition success_rate :: "remediation_config \<Rightarrow> string \<Rightarrow> string \<Rightarrow> rat" where
  "success_rate rm cause action =
     (case map_of (case map_of (rm_success rm) cause of None \<Rightarrow> [] | Some d \<Rightarrow> d) action of None \<Rightarrow> 0 | Some r \<Rightarrow> r)"

definition succeeds :: "string \<Rightarrow> string \<Rightarrow> rat \<Rightarrow> remediation_config \<Rightarrow> bool" where
  "succeeds action cause roll rm \<longleftrightarrow> roll < success_rate rm cause action"

definition notification_reasons :: "ticket \<Rightarrow> bool \<Rightarrow> bool \<Rightarrow> scan_config \<Rightarrow> string list" where
  "notification_reasons t needs_truck_roll resolved c =
     (if needs_truck_roll then [''truck_roll_required''] else []) @
     (if \<not> resolved \<and> tk_class t = ''forecast'' \<and>
         (\<exists>f \<in> set (tk_findings t). fi_kpi f \<in> set hard_failure_kpis \<and>
            (case fi_days f of None \<Rightarrow> False | Some d \<Rightarrow> d \<le> sc_horizon_days c))
      then [''hard_failure_forecast''] else []) @
     (if tk_repeat t then [''repeat_offender''] else [])"

text \<open>\<open>xs[:m]\<close>, which counts from the end for a negative \<open>m\<close>.\<close>

definition py_take :: "int \<Rightarrow> 'a list \<Rightarrow> 'a list" where
  "py_take m xs = take (nat (if m < 0 then int (length xs) + m else m)) xs"

text \<open>The loop over the planned actions: attempts made, whether one resolved it, minutes of interruption.\<close>

fun run_attempts ::
  "(string \<Rightarrow> string) \<Rightarrow> scan_config \<Rightarrow> remediation_config \<Rightarrow> ticket \<Rightarrow> int \<Rightarrow> rat list \<Rightarrow> (nat \<times> string) list \<Rightarrow>
   attempt list \<times> bool \<times> int" where
  "run_attempts D c rm t hour rolls [] = ([], False, 0)"
| "run_attempts D c rm t hour rolls ((i, a) # rest) =
     (let key = action_key D t a i; (may_run, why) = execute_allowed a hour c in
      if \<not> may_run then
        (case run_attempts D c rm t hour rolls rest of (as, res, mins) \<Rightarrow>
           (\<lparr>at_action = a, at_index = i, at_key = key, at_executed = False, at_succeeded = False, at_reason = why\<rparr> # as,
            res, mins))
      else
        (let roll = (if i < length rolls then rolls ! i else 1); won = succeeds a (tk_cause t) roll rm;
             cost = (if a \<in> set service_affecting then rm_interruption rm else 0);
             att = \<lparr>at_action = a, at_index = i, at_key = key, at_executed = True, at_succeeded = won,
                    at_reason = (if won then ''resolved'' else ''did not clear the condition'')\<rparr>
         in if won then ([att], True, cost)
            else (case run_attempts D c rm t hour rolls rest of (as, res, mins) \<Rightarrow> (att # as, res, cost + mins))))"

definition attempts_for ::
  "(string \<Rightarrow> string) \<Rightarrow> scan_config \<Rightarrow> remediation_config \<Rightarrow> ticket \<Rightarrow> int \<Rightarrow> rat list \<Rightarrow> attempt list \<times> bool \<times> int" where
  "attempts_for D c rm t hour rolls =
     run_attempts D c rm t hour rolls (enumerate 0 (py_take (rm_max_attempts rm) (plan_actions t)))"

definition truck_roll_needed :: "ticket \<Rightarrow> bool \<Rightarrow> attempt list \<Rightarrow> bool" where
  "truck_roll_needed t resolved as =
     (if as \<noteq> [] \<and> \<not> (\<exists>a \<in> set as. at_executed a) then False
      else \<not> resolved \<and> (tk_cause t \<in> set physical_causes \<or> (\<forall>a \<in> set as. at_executed a)))"

definition gate_reasons :: "bool \<Rightarrow> string list \<Rightarrow> attempt list \<Rightarrow> string list" where
  "gate_reasons resolved notify as =
     (if \<not> resolved then [''auto_remediation_unsuccessful''] else []) @
     (if notify \<noteq> [] then [''customer_notification_required''] else []) @
     (if (\<exists>a \<in> set as. \<not> at_executed a) \<and> \<not> resolved then [''deferred_to_maintenance_window''] else [])"

subsection \<open>Triage, policy and choices\<close>

definition baseline_triage_for :: "ticket \<Rightarrow> string res" where
  "baseline_triage_for t =
     (if tk_class t = ''proactive'' then Inr ''act_now''
      else bindR (ticket_headline t) (\<lambda>h.
        Inr (if (case fi_days h of None \<Rightarrow> False | Some d \<Rightarrow> d \<le> 3) then ''act_now''
             else if tk_severity t \<in> {''high'', ''medium''} then ''schedule'' else ''monitor'')))"

fun jopt :: "rat option \<Rightarrow> json" where
  "jopt None = JNull"
| "jopt (Some r) = JFloat r"

definition triage_prompt :: "(json \<Rightarrow> string) \<Rightarrow> ticket \<Rightarrow> int \<Rightarrow> string" where
  "triage_prompt dumps t homes =
     dumps (JObj [(''ticket_class'', JStr (tk_class t)), (''severity'', JStr (tk_severity t)),
       (''technology'', JStr (tk_technology t)), (''repeat_offender'', JBool (tk_repeat t)),
       (''previous_flags'', JInt (int (tk_flags t))), (''households_behind_element'', JInt homes),
       (''findings'', JArr (map (\<lambda>f. JObj [(''kpi'', JStr (fi_kpi f)), (''value'', JFloat (fi_value f)),
          (''threshold'', JFloat (fi_threshold f)), (''breached_now'', JBool (fi_breached f)),
          (''days_to_breach'', jopt (fi_days f)), (''slope_per_day'', JFloat (fi_slope f)),
          (''r_squared'', JFloat (fi_r2 f))]) (tk_findings t)))])"

definition recommendation_prompt ::
  "(json \<Rightarrow> string) \<Rightarrow> string \<Rightarrow> string \<Rightarrow> int \<Rightarrow> int \<Rightarrow> int \<Rightarrow> string \<Rightarrow> dict \<Rightarrow> string" where
  "recommendation_prompt dumps dom_name technology homes remote_attempts field_visits baseline_action constraints =
     dumps (JObj [(''confirmed_domain'', JStr dom_name), (''technology'', JStr technology),
       (''households_affected'', JInt homes),
       (''attempts_so_far'', JObj [(''remote'', JInt remote_attempts), (''field'', JInt field_visits)]),
       (''deterministic_ranking_top'', JStr baseline_action), (''constraints'', JObj constraints)])"

definition option_json :: "route_option \<Rightarrow> json" where
  "option_json r =
     JObj [(''base_id'', JStr (ro_base r)), (''name'', JStr (ro_name r)), (''likelihood'', JStr (ro_likelihood r)),
       (''one_way_minutes'', JInt (ro_minutes r)), (''requires_ferry'', JBool (ro_ferry r)),
       (''fits_one_shift'', JBool (ro_fits_shift r)), (''has_required_skills'', JBool (ro_has_skills r)),
       (''has_required_parts'', JBool (ro_has_parts r)), (''missing_skills'', jarr (ro_missing_skills r)),
       (''missing_parts'', jarr (ro_missing_parts r))]"

definition route_prompt ::
  "(json \<Rightarrow> string) \<Rightarrow> string \<Rightarrow> string \<Rightarrow> string list \<Rightarrow> string list \<Rightarrow> route_option list \<Rightarrow> rat option \<Rightarrow> string res" where
  "route_prompt dumps site_id crew skills parts options sla_hours =
     bindR (site_by_id site_id) (\<lambda>s.
       Inr (dumps (JObj [(''site_id'', JStr site_id), (''municipio'', JStr (s_municipio s)),
         (''archetype'', JStr (archetype_value (s_archetype s))), (''crew_type'', JStr crew),
         (''required_skills'', jarr skills), (''required_parts'', jarr parts), (''sla_hours_remaining'', jopt sla_hours),
         (''candidate_bases'', JArr (map option_json options))])))"

definition policy_request :: "ticket \<Rightarrow> bool option \<Rightarrow> string option \<Rightarrow> action_request" where
  "policy_request t agrees source =
     \<lparr>ar_domain = domain_for_cause (tk_cause t),
      ar_action = (if tk_cause t \<in> set physical_causes then ''dirty_boots_mr'' else ''clean_boots''),
      ar_technology = tk_technology t, ar_site = tk_site t, ar_remote = 0, ar_field = 0, ar_max_remote = 2,
      ar_max_field = 3, ar_base = None, ar_skills = [], ar_parts = [], ar_evidence = int (length (tk_findings t)),
      ar_agrees = agrees, ar_confidence = 1, ar_fallback = (source = Some ''deterministic_fallback''),
      ar_threshold = 7/10\<rparr>"

definition policy_blocks :: "(string \<Rightarrow> string) \<Rightarrow> ticket \<Rightarrow> bool option \<Rightarrow> string option \<Rightarrow> string list res" where
  "policy_blocks D t agrees source =
     bindR (evaluate D (policy_request t agrees source)) (\<lambda>p.
       Inr (if pr_verdict p = Blocked then pr_reasons p else []))"

text \<open>What the pipeline is given beside the ticket, and the agents' state it threads.\<close>

record pipeline_env =
  pe_digest :: "string \<Rightarrow> string"
  pe_math :: mathlib
  pe_transport :: transport
  pe_dumps :: "json \<Rightarrow> string"
  pe_system :: "string \<Rightarrow> string"
  pe_scan :: scan_config
  pe_remediation :: remediation_config
  pe_hour :: int
  pe_rolls :: "rat list"
  pe_households :: int
  pe_customer :: "customer option"
  pe_sla_breached :: bool

type_synonym agent_state = "provider option \<times> recorder"

definition ask :: "transport \<Rightarrow> agent \<Rightarrow> string \<Rightarrow> provider \<Rightarrow> (agent_state, agent_decision) eff" where
  "ask T a prompt p = (\<lambda>w. case decide T a prompt p (snd w) of (d, a', p', rc') \<Rightarrow> (Inr d, (Some p', rc')))"

definition no_outcome :: "ticket \<Rightarrow> outcome" where
  "no_outcome t = \<lparr>oc_ticket = tk_id t, oc_modem = tk_modem t, oc_attempts = [], oc_resolved = False,
     oc_verdict = Blocked, oc_gate = [], oc_notify = [], oc_truck = False, oc_escalated = True, oc_interruption = 0,
     oc_triage = None, oc_triage_source = None, oc_triage_agrees = None, oc_blocked = [], oc_priority = None,
     oc_base = None, oc_base_alt = None, oc_action = None, oc_action_alt = None\<rparr>"

definition suppression_outcome :: "ticket \<Rightarrow> agent_decision \<Rightarrow> outcome" where
  "suppression_outcome t d =
     (let o1 = (no_outcome t)\<lparr>oc_triage := Some (ad_decision d), oc_triage_source := Some (ad_source d),
                 oc_triage_agrees := agrees_with_baseline d\<rparr>
      in case filter fi_breached (tk_findings t) of
           f # _ \<Rightarrow> o1\<lparr>oc_verdict := Blocked, oc_gate := [''agent_suppression_refused_breach_in_effect''],
             oc_truck := True, oc_blocked := [fi_kpi f @ '' has already crossed its alarm threshold, so the finding '' @
               ''cannot be dismissed as noise'']\<rparr>
         | [] \<Rightarrow> o1\<lparr>oc_verdict := RequiresApproval, oc_gate := [''agent_suppressed_as_noise'']\<rparr>)"

definition crew_for :: "ticket \<Rightarrow> string" where
  "crew_for t = (if tk_cause t \<in> set physical_causes then ''dirty'' else ''clean'')"

definition priority_of :: "pipeline_env \<Rightarrow> ticket \<Rightarrow> customer \<Rightarrow> ranked_dispatch option res" where
  "priority_of E t c =
     bindR (rank (pe_math E) [(tk_id t, c, tk_site t,
        \<lparr>cx_households = pe_households E, cx_sla_breached = pe_sla_breached E,
         cx_service_down = (\<exists>f \<in> set (tk_findings t). fi_breached f), cx_crew = crew_for t, cx_destination = None\<rparr>)])
       (\<lambda>rs. case rs of [] \<Rightarrow> Inl IndexError | r # _ \<Rightarrow> Inr (Some r))"

definition choose_action :: "pipeline_env \<Rightarrow> ticket \<Rightarrow> attempt list \<Rightarrow> provider \<Rightarrow> (agent_state, agent_decision) eff" where
  "choose_action E t as p =
     (let base_action = (if crew_for t = ''dirty'' then ''dirty_boots_mr'' else ''clean_boots'') in
      ask (pe_transport E) (recommendation_agent (pe_system E ''recommendation'') base_action)
        (recommendation_prompt (pe_dumps E) (domain_for_cause (tk_cause t)) (tk_technology t) (pe_households E)
           (int (length (filter at_executed as))) 0 base_action
           [(''suspected_cause'', JStr (tk_cause t)), (''ticket_class'', JStr (tk_class t))]) p)"

definition choose_base ::
  "pipeline_env \<Rightarrow> ticket \<Rightarrow> (agent_state, agent_decision option) eff" where
  "choose_base E t =
     bindE (liftE (route_options (pe_math E) (tk_site t) (crew_for t) [] [] None)) (\<lambda>opts.
     case opts of
       [] \<Rightarrow> retE None
     | first # _ \<Rightarrow>
         bindE (liftE (route_prompt (pe_dumps E) (tk_site t) (crew_for t) [] [] opts None)) (\<lambda>prompt.
         bindE (getE fst) (\<lambda>p. case p of
             None \<Rightarrow> retE None
           | Some q \<Rightarrow> bindE (ask (pe_transport E) (route_agent (pe_system E ''routing'') (map ro_base opts) (ro_base first))
                        prompt q) (\<lambda>d. retE (Some d)))))"

definition verdict_of :: "string list \<Rightarrow> string list \<Rightarrow> guard_verdict" where
  "verdict_of blocked gates = (if blocked \<noteq> [] then Blocked else if gates \<noteq> [] then RequiresApproval else Allowed)"

text \<open>From the attempts on: policy, ranking, the agents' choices and the verdict.\<close>

definition remediate ::
  "pipeline_env \<Rightarrow> ticket \<Rightarrow> agent_decision option \<Rightarrow> (agent_state, outcome) eff" where
  "remediate E t triage =
     (let (as, resolved, mins) = attempts_for (pe_digest E) (pe_scan E) (pe_remediation E) t (pe_hour E) (pe_rolls E);
          truck = truck_roll_needed t resolved as;
          notify = notification_reasons t truck resolved (pe_scan E);
          gates = gate_reasons resolved notify as;
          agrees = (case triage of None \<Rightarrow> None | Some d \<Rightarrow> agrees_with_baseline d);
          source = map_option ad_source triage
      in
      bindE (if truck then liftE (policy_blocks (pe_digest E) t agrees source) else retE []) (\<lambda>blocked.
      bindE (case pe_customer E of Some c \<Rightarrow> if truck then liftE (priority_of E t c) else retE None
             | None \<Rightarrow> retE None) (\<lambda>priority.
      bindE (getE fst) (\<lambda>p.
      bindE (case p of Some q \<Rightarrow> if truck then bindE (choose_action E t as q) (\<lambda>d. retE (Some d)) else retE None
             | None \<Rightarrow> retE None) (\<lambda>act.
      bindE (case p of Some q \<Rightarrow> if truck then choose_base E t else retE None | None \<Rightarrow> retE None) (\<lambda>rte.
      retE \<lparr>oc_ticket = tk_id t, oc_modem = tk_modem t, oc_attempts = as, oc_resolved = resolved,
        oc_verdict = verdict_of blocked gates, oc_gate = gates, oc_notify = notify, oc_truck = truck,
        oc_escalated = (gates \<noteq> [] \<or> blocked \<noteq> []), oc_interruption = mins,
        oc_triage = map_option ad_decision triage, oc_triage_source = source, oc_triage_agrees = agrees,
        oc_blocked = blocked, oc_priority = priority, oc_base = map_option ad_decision rte,
        oc_base_alt = (case rte of None \<Rightarrow> None | Some d \<Rightarrow> map_option alt_choice (second_best d)),
        oc_action = map_option ad_decision act,
        oc_action_alt = (case act of None \<Rightarrow> None | Some d \<Rightarrow> map_option alt_choice (second_best d))\<rparr>))))))"

definition process_ticket :: "pipeline_env \<Rightarrow> ticket \<Rightarrow> (agent_state, outcome) eff" where
  "process_ticket E t =
     bindE (getE fst) (\<lambda>p.
     case p of
       None \<Rightarrow> remediate E t None
     | Some q \<Rightarrow>
         bindE (liftE (baseline_triage_for t)) (\<lambda>base_triage.
         bindE (ask (pe_transport E) (triage_agent (pe_system E ''predictive_triage'') base_triage)
                  (triage_prompt (pe_dumps E) t (pe_households E)) q) (\<lambda>d.
         if ad_decision d = ''suppress'' then retE (suppression_outcome t d) else remediate E t (Some d))))"

end
