(* ===== verification/Handoff.thy ===== *)
theory Handoff
  imports Pipeline
begin

text \<open>
  From a gated ticket to an incident (\<open>predictive/handoff.py\<close>) and the daily cycle with its
  flag history (\<open>predictive/service.py\<close>). The clock and the random generator are arguments;
  reading and writing the history file is not modelled.
\<close>

subsection \<open>\<open>f"{x:g}"\<close>\<close>

fun small_exponent :: "nat \<Rightarrow> rat \<Rightarrow> int" where
  "small_exponent 0 r = 0"
| "small_exponent (Suc f) r = (if 1 \<le> r then 0 else small_exponent f (10 * r) - 1)"

definition exponent10 :: "rat \<Rightarrow> int" where
  "exponent10 r = (if 1 \<le> r then int (length (nat_str (nat \<lfloor>r\<rfloor>))) - 1 else small_exponent 400 r)"

definition scale10 :: "int \<Rightarrow> rat \<Rightarrow> rat" where
  "scale10 e r = (if 0 \<le> e then r * 10 ^ nat e else r / 10 ^ nat (- e))"

definition drop_zeros :: "string \<Rightarrow> string" where
  "drop_zeros s = rev (dropWhile (\<lambda>c. c = CHR ''0'') (rev s))"

definition dotted :: "string \<Rightarrow> string \<Rightarrow> string" where
  "dotted a b = (if drop_zeros b = [] then a else a @ ''.'' @ drop_zeros b)"

text \<open>Six significant digits, trailing zeros dropped, with an exponent outside 1e-4 .. 1e6.\<close>

definition fmt_g :: "rat \<Rightarrow> string" where
  "fmt_g r =
     (if r = 0 then ''0'' else
      (let e0 = exponent10 \<bar>r\<bar>; m0 = round_he (scale10 (5 - e0) \<bar>r\<bar>);
           e = (if m0 = 1000000 then e0 + 1 else e0); ds = nat_str (nat (if m0 = 1000000 then 100000 else m0))
       in (if r < 0 then ''-'' else []) @
          (if 0 \<le> e \<and> e < 6 then dotted (take (nat e + 1) ds) (drop (nat e + 1) ds)
           else if -4 \<le> e \<and> e < 0 then dotted ''0'' (replicate (nat (- e - 1)) (CHR ''0'') @ ds)
           else dotted (take 1 ds) (drop 1 ds) @ ''e'' @ (if e < 0 then ''-'' else ''+'') @ two \<bar>e\<bar>)))"

subsection \<open>Seeds\<close>

definition seed_domain :: "string \<Rightarrow> string \<Rightarrow> string" where
  "seed_domain cause technology =
     (let d = domain_for_cause cause in if d = ''hfc_tap'' \<and> technology = ''PON'' then ''pon_odp'' else d)"

datatype merge_role = Parent | Child

record evidence_row =
  er_ref :: string
  er_finding :: finding
  er_summary :: string

record incident_seed =
  is_incident :: string
  is_source :: string
  is_technology :: string
  is_site :: string
  is_modem :: string
  is_title :: string
  is_severity :: string
  is_opened :: datetime
  is_due :: datetime
  is_domain :: string
  is_ticket :: string
  is_class :: string
  is_gate :: "string list"
  is_notify :: "string list"
  is_truck :: bool
  is_attempts :: "attempt list"
  is_evidence :: "evidence_row list"
  is_parent :: "string option"
  is_role :: merge_role
  is_inherited :: "string option"
  is_breached_at_attach :: bool

definition direction_value :: "direction \<Rightarrow> string" where
  "direction_value d = (case d of Falling \<Rightarrow> ''falling'' | Rising \<Rightarrow> ''rising'')"

definition g_of :: "rat option \<Rightarrow> string res" where
  "g_of x = (case x of Some r \<Rightarrow> Inr (fmt_g r)
     | None \<Rightarrow> Inl (TypeError ''unsupported format string passed to NoneType.__format__''))"

definition evidence_row_of :: "finding \<Rightarrow> evidence_row res" where
  "evidence_row_of f =
     bindR (if fi_breached f then Inr '' , already breached''
            else bindR (g_of (fi_days f)) (\<lambda>d. Inr ('', reaching it in '' @ d @ '' days''))) (\<lambda>tail.
       Inr \<lparr>er_ref = ''pnm.'' @ fi_kpi f, er_finding = f,
            er_summary = fi_kpi f @ '' at '' @ fmt_g (fi_value f) @ '' against a '' @ direction_value (fi_direction f) @
              '' alarm bound of '' @ fmt_g (fi_threshold f) @ tail\<rparr>)"

definition seed_from :: "ticket \<Rightarrow> outcome \<Rightarrow> incident_seed res" where
  "seed_from t o1 =
     (if oc_verdict o1 \<noteq> RequiresApproval
      then Inl (ValueError (tk_id t @ '' was resolved without a gate; it must not be handed to the main flow''))
      else
        bindR (ticket_headline t) (\<lambda>h.
        bindR (mapR evidence_row_of (tk_findings t)) (\<lambda>evidence.
        bindR (if tk_class t = ''proactive'' then Inr ''has already breached''
               else bindR (g_of (fi_days h)) (\<lambda>d. Inr (''is forecast to breach in '' @ d @ '' days''))) (\<lambda>what.
          Inr \<lparr>is_incident = ''INC-'' @ tk_id t, is_source = ''predictive_scan'', is_technology = tk_technology t,
            is_site = tk_site t, is_modem = tk_modem t, is_title = tk_modem t @ '' '' @ fi_kpi h @ '' '' @ what,
            is_severity = tk_severity t, is_opened = tk_opened t, is_due = tk_due t,
            is_domain = seed_domain (tk_cause t) (tk_technology t), is_ticket = tk_id t, is_class = tk_class t,
            is_gate = oc_gate o1, is_notify = oc_notify o1, is_truck = oc_truck o1, is_attempts = oc_attempts o1,
            is_evidence = evidence, is_parent = None, is_role = Parent, is_inherited = None,
            is_breached_at_attach = False\<rparr>))))"

record merge_decision =
  md_reactive :: string
  md_parent :: string
  md_due :: datetime
  md_inherited :: string
  md_breached :: bool
  md_spent :: rat
  md_rationale :: string

text \<open>\<open>a - b\<close> and \<open>a > b\<close> on datetimes raise on a mix of aware and naive ones.\<close>

definition dt_diff :: "datetime \<Rightarrow> datetime \<Rightarrow> int res" where
  "dt_diff a b =
     (if (dt_off a = None) = (dt_off b = None) then Inr (instant a - instant b)
      else Inl (TypeError ''can't subtract offset-naive and offset-aware datetimes''))"

definition attach_customer_call :: "incident_seed \<Rightarrow> string \<Rightarrow> datetime \<Rightarrow> merge_decision res" where
  "attach_customer_call s reactive called_at =
     bindR (dt_diff called_at (is_opened s)) (\<lambda>us.
     bindR (dt_ge (is_due s) called_at) (\<lambda>in_time.
       let spent = max (of_int us / 3600000000) 0; breached = \<not> in_time in
       Inr \<lparr>md_reactive = reactive, md_parent = is_incident s, md_due = is_due s, md_inherited = is_incident s,
         md_breached = breached, md_spent = round_dec 2 spent,
         md_rationale = ''Predictive incident stays parent; the reactive ticket attaches. '' @
           ''The SLA runs from when the scan opened it, so '' @ fixed 1 spent @
           ''h were already spent before the customer called'' @
           (if breached then '' and the SLA was already breached.'' else ''.'')\<rparr>))"

definition apply_merge :: "incident_seed \<Rightarrow> merge_decision \<Rightarrow> incident_seed" where
  "apply_merge s m =
     s\<lparr>is_incident := md_reactive m, is_source := ''customer_call'', is_title := ''Customer call on '' @ is_modem s,
       is_due := md_due m, is_parent := Some (md_parent m), is_role := Child, is_inherited := Some (md_inherited m),
       is_breached_at_attach := md_breached m\<rparr>"

subsection \<open>The flag history\<close>

record flag_history =
  fh_flags :: "(string \<times> string list) list"
  fh_open :: "(string \<times> string) list"

definition no_history :: flag_history where
  "no_history = \<lparr>fh_flags = [], fh_open = []\<rparr>"

text \<open>Stamps that do not parse are skipped.\<close>

definition parse_times :: "string list \<Rightarrow> datetime list" where
  "parse_times stamps = concat (map (\<lambda>s. case fromisoformat s of Inl _ \<Rightarrow> [] | Inr d \<Rightarrow> [d]) stamps)"

definition as_datetimes :: "flag_history \<Rightarrow> (string \<times> datetime list) list" where
  "as_datetimes h = map (\<lambda>(m, stamps). (m, parse_times stamps)) (fh_flags h)"

definition ddelete :: "string \<Rightarrow> (string \<times> 'v) list \<Rightarrow> (string \<times> 'v) list" where
  "ddelete k d = filter (\<lambda>(k', v). k' \<noteq> k) d"

definition record_ticket :: "string list \<Rightarrow> ticket \<Rightarrow> flag_history \<Rightarrow> flag_history" where
  "record_ticket closed_ids t h =
     (if tk_id t \<in> set closed_ids
      then h\<lparr>fh_flags := dset (tk_modem t)
               ((case map_of (fh_flags h) (tk_modem t) of None \<Rightarrow> [] | Some ss \<Rightarrow> ss) @ [isoformat (tk_opened t)]) (fh_flags h),
             fh_open := ddelete (tk_modem t) (fh_open h)\<rparr>
      else h\<lparr>fh_open := dset (tk_modem t) (tk_class t) (fh_open h)\<rparr>)"

definition keep_stamp :: "datetime \<Rightarrow> string \<Rightarrow> bool res" where
  "keep_stamp cutoff s = (case fromisoformat s of Inl _ \<Rightarrow> Inr False | Inr d \<Rightarrow> dt_ge d cutoff)"

fun prune :: "datetime \<Rightarrow> (string \<times> string list) list \<Rightarrow> (string \<times> string list) list res" where
  "prune cutoff [] = Inr []"
| "prune cutoff ((m, stamps) # rest) =
     bindR (filterR (keep_stamp cutoff) stamps) (\<lambda>kept.
     bindR (prune cutoff rest) (\<lambda>d. Inr (if kept = [] then d else (m, kept) # d)))"

definition record_run_history :: "datetime \<Rightarrow> int \<Rightarrow> string list \<Rightarrow> ticket list \<Rightarrow> flag_history \<Rightarrow> flag_history res" where
  "record_run_history now keep_days closed_ids tickets h =
     (let h1 = fold (record_ticket closed_ids) tickets h in
      bindR (prune (dt_add now (- (keep_days * 86400000000))) (fh_flags h1)) (\<lambda>fs. Inr (h1\<lparr>fh_flags := fs\<rparr>)))"

subsection \<open>The daily cycle\<close>

record run_report =
  rp_run :: string
  rp_ran_at :: datetime
  rp_scan :: scan_result
  rp_outcomes :: "outcome list"
  rp_seeds :: "incident_seed list"

definition count_if :: "('a \<Rightarrow> bool) \<Rightarrow> 'a list \<Rightarrow> nat" where
  "count_if P xs = length (filter P xs)"

definition auto_closed :: "run_report \<Rightarrow> nat" where
  "auto_closed r = count_if (\<lambda>x. oc_verdict x = Allowed) (rp_outcomes r)"

definition gated :: "run_report \<Rightarrow> nat" where
  "gated r = count_if (\<lambda>x. oc_verdict x = RequiresApproval) (rp_outcomes r)"

definition truck_rolls :: "run_report \<Rightarrow> nat" where
  "truck_rolls r = count_if oc_truck (rp_outcomes r)"

definition notifications :: "run_report \<Rightarrow> nat" where
  "notifications r = count_if notification_required (rp_outcomes r)"

definition interruption_minutes :: "run_report \<Rightarrow> int" where
  "interruption_minutes r = sum_list (map oc_interruption (rp_outcomes r))"

definition auto_close_rate :: "run_report \<Rightarrow> rat" where
  "auto_close_rate r =
     (if rp_outcomes r = [] then 0 else round_dec 4 (of_nat (auto_closed r) / of_nat (length (rp_outcomes r))))"

fun synthetic_from ::
  "(string \<Rightarrow> string) \<Rightarrow> 'g rng \<Rightarrow> int \<Rightarrow> string list \<Rightarrow> int \<Rightarrow> int \<Rightarrow> nat list \<Rightarrow> 'g \<Rightarrow> modem_series list res" where
  "synthetic_from D G sd site_ids days day_index [] g = Inr []"
| "synthetic_from D G sd site_ids days day_index (i # is) g =
     (let (u, g1) = rg_random G g; tech = (if u < 35/100 then ''PON'' else ''HFC'') in
      bindR (series_for D G (''CM-'' @ nat_str_pad 7 i) (site_ids ! (i mod length site_ids)) tech days sd None day_index 60) (\<lambda>s.
      bindR (synthetic_from D G sd site_ids days day_index is g1) (\<lambda>ss. Inr (s # ss))))"

definition synthetic_population ::
  "(string \<Rightarrow> string) \<Rightarrow> 'g rng \<Rightarrow> nat \<Rightarrow> int \<Rightarrow> string list \<Rightarrow> int \<Rightarrow> int \<Rightarrow> modem_series list res" where
  "synthetic_population D G size_wanted sd site_ids days day_index =
     (if site_ids = [] \<and> 0 < size_wanted then Inl (ZeroDivisionError ''integer modulo by zero'')
      else synthetic_from D G sd site_ids days day_index [0..<size_wanted] (rg_seed G (nat \<bar>sd\<bar>)))"

fun latest :: "datetime \<Rightarrow> datetime list \<Rightarrow> datetime res" where
  "latest m [] = Inr m"
| "latest m (d # ds) = bindR (dt_ge m d) (\<lambda>b. latest (if b then m else d) ds)"

text \<open>When each modem last recovered: the greatest stamp of its closed flags that parses.\<close>

fun recovered_on :: "(string \<times> string list) list \<Rightarrow> (string \<times> datetime) list res" where
  "recovered_on [] = Inr []"
| "recovered_on ((m, stamps) # rest) =
     (case parse_times stamps of
        [] \<Rightarrow> recovered_on rest
      | d # ds \<Rightarrow> bindR (latest d ds) (\<lambda>x. bindR (recovered_on rest) (\<lambda>ys. Inr ((m, x) # ys))))"

definition heal ::
  "(string \<Rightarrow> string) \<Rightarrow> 'g rng \<Rightarrow> scan_config \<Rightarrow> int \<Rightarrow> datetime \<Rightarrow> (string \<times> datetime) list \<Rightarrow> modem_series \<Rightarrow> modem_series res" where
  "heal D G c sd moment recovered s =
     (case map_of recovered (ms_modem s) of
        None \<Rightarrow> Inr s
      | Some closed_at \<Rightarrow>
          bindR (dt_diff moment closed_at) (\<lambda>us.
            let days_since = (of_int us :: rat) / 86400000000;
                relapse = (case map_of relapse_after_days (ms_cause s) of None \<Rightarrow> None | Some x \<Rightarrow> x) in
            if (case relapse of None \<Rightarrow> False | Some n \<Rightarrow> of_int n \<le> days_since) then Inr s
            else series_for D G (ms_modem s) (ms_site s) (ms_technology s) (sc_window_days c) sd (Some ''stable'') 0 60))"

fun draws :: "'g rng \<Rightarrow> nat \<Rightarrow> 'g \<Rightarrow> rat list \<times> 'g" where
  "draws G 0 g = ([], g)"
| "draws G (Suc n) g = (let (x, g1) = rg_random G g; (xs, g2) = draws G n g1 in (x # xs, g2))"

text \<open>The tickets in order, each with fresh draws; a gated outcome leaves a seed.\<close>

fun process_all ::
  "'g rng \<Rightarrow> pipeline_env \<Rightarrow> ticket list \<Rightarrow> 'g \<Rightarrow> recorder \<Rightarrow> (outcome list \<times> incident_seed list) res" where
  "process_all G E [] g rc = Inr ([], [])"
| "process_all G E (t # ts) g rc =
     (let (rolls, g1) = draws G (nat (rm_max_attempts (pe_remediation E))) g in
      bindR (fst (process_ticket (E\<lparr>pe_rolls := rolls\<rparr>) t (None, rc))) (\<lambda>o1.
      bindR (if oc_verdict o1 = RequiresApproval then bindR (seed_from t o1) (\<lambda>s. Inr [s]) else Inr []) (\<lambda>ss.
      bindR (process_all G E ts g1 rc) (\<lambda>rest. Inr (o1 # fst rest, ss @ snd rest)))))"

definition hour_of :: "datetime \<Rightarrow> int" where
  "hour_of d = (dt_us d div 3600000000) mod 24"

text \<open>The environment of a run: no provider, no customer, the run's hour and configuration.\<close>

definition run_env :: "pipeline_env \<Rightarrow> scan_config \<Rightarrow> remediation_config \<Rightarrow> datetime \<Rightarrow> pipeline_env" where
  "run_env E c rm moment =
     E\<lparr>pe_scan := c, pe_remediation := rm, pe_hour := hour_of moment, pe_households := 1, pe_customer := None,
       pe_sla_breached := False\<rparr>"

definition run_once ::
  "'g rng \<Rightarrow> pipeline_env \<Rightarrow> recorder \<Rightarrow> string \<Rightarrow> datetime \<Rightarrow> datetime \<Rightarrow> modem_series list \<Rightarrow> flag_history \<Rightarrow>
   scan_config \<Rightarrow> remediation_config \<Rightarrow> int \<Rightarrow> (run_report \<times> flag_history) res" where
  "run_once G E rc run_id moment now modems h c rm sd =
     bindR (recovered_on (fh_flags h)) (\<lambda>recovered.
     bindR (mapR (heal (pe_digest E) G c sd moment recovered) modems) (\<lambda>pool.
     bindR (scan c pool run_id moment (as_datetimes h) (fh_open h)) (\<lambda>result.
     bindR (process_all G (run_env E c rm moment) (sr_tickets result) (rg_seed G (nat \<bar>sd\<bar>)) rc) (\<lambda>rs.
     bindR (record_run_history now 90
              (map oc_ticket (filter (\<lambda>x. oc_verdict x = Allowed) (fst rs))) (sr_tickets result) h) (\<lambda>h'.
       Inr (\<lparr>rp_run = run_id, rp_ran_at = moment, rp_scan = result, rp_outcomes = fst rs, rp_seeds = snd rs\<rparr>, h'))))))"

end
