(* ===== verification/PredictiveLaws.thy ===== *)
theory PredictiveLaws
  imports Handoff
begin

text \<open>
  Laws of the predictive branch: the trend fit and its forecast, the accounting of a scan and
  the soundness of its tickets, the maintenance window and the gate of the pipeline, and the
  clock and the tickets of the hand-over.
\<close>

subsection \<open>Trends\<close>

lemma sum_sq_nonneg: "0 \<le> sum_sq xs"
  by (induction xs) (simp_all add: sum_sq_def)

lemma sum_sq_0: "sum_sq xs = 0 \<longleftrightarrow> (\<forall>x \<in> set xs. x = 0)"
proof (induction xs)
  case (Cons a xs)
  have "sum_sq (a # xs) = a ^ 2 + sum_sq xs" by (simp add: sum_sq_def)
  with Cons.IH sum_sq_nonneg [of xs] show ?case
    by (simp add: add_nonneg_eq_0_iff)
qed (simp add: sum_sq_def)

lemma sum_sq_scale: "sum_sq (map (\<lambda>x. a * x) xs) = a ^ 2 * sum_sq xs"
  by (induction xs) (simp_all add: sum_sq_def power_mult_distrib algebra_simps)

lemma sum_scale2: "sum_list (map2 (*) xs (map (\<lambda>x. a * x) xs)) = (a :: rat) * sum_sq xs"
  by (induction xs) (simp_all add: sum_sq_def power2_eq_square algebra_simps)

lemma mean_line: "xs \<noteq> [] \<Longrightarrow> mean (map (\<lambda>x. a * x + b) xs) = a * mean xs + b"
proof -
  assume "xs \<noteq> []"
  have "sum_list (map (\<lambda>x. a * x + b) xs) = a * sum_list xs + of_nat (length xs) * b"
    by (induction xs) (simp_all add: algebra_simps)
  with \<open>xs \<noteq> []\<close> show ?thesis by (simp add: mean_def add_divide_distrib)
qed

lemma deviations_line:
  assumes "xs \<noteq> []"
  shows "deviations (map (\<lambda>x. a * x + b) xs) = map (\<lambda>x. a * x) (deviations xs)"
  unfolding deviations_def mean_line [OF assms] by (simp add: algebra_simps)

lemma day_axis_spread:
  assumes "2 \<le> n"
  shows "sum_sq (deviations (day_axis n)) \<noteq> 0"
proof
  assume "sum_sq (deviations (day_axis n)) = 0"
  then have "\<forall>x \<in> set (day_axis n). x = mean (day_axis n)"
    by (auto simp: sum_sq_0 deviations_def)
  moreover have "0 \<in> set (day_axis n)" "1 \<in> set (day_axis n)"
    using assms by (force simp: day_axis_def image_iff)+
  ultimately show False by (metis zero_neq_one)
qed

lemma residuals_line: "residuals a b xs (map (\<lambda>x. a * x + b) xs) = map (\<lambda>x. 0) xs"
  by (induction xs) (simp_all add: residuals_def)

text \<open>
  The trend fit is exact on a line: for two or more evenly spaced values \<open>a * i + b\<close> it
  returns the slope \<open>a\<close>, the intercept \<open>b\<close> and a perfect fit; and whatever the values, the
  fit quality lies between 0 and 1.
\<close>
theorem trend_is_exact:
  "(\<forall>n a b. 2 \<le> n \<longrightarrow> linear_trend (map (\<lambda>x. a * x + b) (day_axis n)) = (a, b, 1)) \<and>
   (\<forall>vs. 0 \<le> snd (snd (linear_trend vs)) \<and> snd (snd (linear_trend vs)) \<le> 1)"
proof (intro conjI allI impI)
  fix n :: nat and a b :: rat
  assume n: "2 \<le> n"
  let ?xs = "day_axis n" and ?vs = "map (\<lambda>x. a * x + b) (day_axis n)"
  have ne: "?xs \<noteq> []" and len: "length ?vs = n" using n by (simp_all add: day_axis_def)
  note dev = deviations_line [OF ne, of a b]
  have sxy: "sum_list (map2 (*) (deviations ?xs) (deviations ?vs)) = a * sum_sq (deviations ?xs)"
    unfolding dev by (rule sum_scale2)
  have tot: "sum_sq (deviations ?vs) = a ^ 2 * sum_sq (deviations ?xs)"
    unfolding dev by (rule sum_sq_scale)
  have res: "sum_sq (residuals a b ?xs ?vs) = 0"
    unfolding residuals_line by (simp add: sum_sq_0)
  show "linear_trend ?vs = (a, b, 1)"
    using n day_axis_spread [OF n] unfolding linear_trend_def len Let_def sxy tot mean_line [OF ne]
    by (simp add: res)
next
  fix vs :: "rat list"
  show "0 \<le> snd (snd (linear_trend vs))" by (simp add: linear_trend_def Let_def)
  have "0 \<le> sum_sq xs / sum_sq ys" for xs ys by (simp add: sum_sq_nonneg)
  then show "snd (snd (linear_trend vs)) \<le> 1" by (simp add: linear_trend_def Let_def)
qed

text \<open>
  A forecast is where the fitted line meets the threshold: the days are positive, the line
  reaches the threshold exactly that many days after the last sample, and it moves towards it.
\<close>
theorem forecast_meets_threshold:
  assumes "days_to_threshold vs threshold dir = Some d" "linear_trend vs = (slope, intercept, r2)"
  shows "0 < d \<and> slope * (of_nat (length vs) - 1 + d) + intercept = threshold \<and>
    (case dir of Falling \<Rightarrow> slope < 0 | Rising \<Rightarrow> 0 < slope)"
proof -
  let ?cur = "slope * (of_nat (length vs) - 1) + intercept"
  have d: "d = (threshold - ?cur) / slope" "0 < d" and
    dir: "case dir of Falling \<Rightarrow> slope < 0 | Rising \<Rightarrow> 0 < slope"
    using assms by (auto simp: days_to_threshold_def Let_def split: if_splits direction.splits)
  have "slope \<noteq> 0" using dir by (cases dir) auto
  then have "slope * d = threshold - ?cur" unfolding d(1) by simp
  then show ?thesis using d(2) dir by (simp add: algebra_simps)
qed

corollary forecast_meets_threshold_witness:
  "\<exists>d r2. days_to_threshold [4, 3, 2] 0 Falling = Some d \<and> linear_trend [4, 3, 2] = (-1, 4, r2) \<and> 0 < d"
proof -
  have lt: "linear_trend [4, 3, 2] = (-1, 4, 1)" by code_simp
  then have "days_to_threshold [4, 3, 2] 0 Falling = Some 2"
    by (simp add: days_to_threshold_def)
  from forecast_meets_threshold [OF this lt] this lt show ?thesis by blast
qed

subsection \<open>The scan\<close>

lemma outcomes_split:
  "length os = length (filter (\<lambda>x. x = Healthy) os) + length (filter (\<lambda>x. x = Duplicate) os) + length (candidates_of os)"
  by (induction os rule: candidates_of.induct) simp_all

lemma candidates_of_set: "t \<in> set (candidates_of os) \<longleftrightarrow> Candidate t \<in> set os"
  by (induction os rule: candidates_of.induct) auto

lemma scan_one_Candidate:
  assumes "scan_one c run moment hist opn p = Inr (Candidate t)"
  obtains fs h where "scan_findings c (snd p) = Inr fs" "fs \<noteq> []" "tk_findings t = fs" "tk_class t = ticket_class fs"
    "\<not> suppressed (map_of opn (ms_modem (snd p))) (ticket_class fs)" "tk_modem t = ms_modem (snd p)"
    "tk_id t = ''PRD-'' @ run @ ''-'' @ nat_str_pad 5 (fst p + 1)" "tk_opened t = moment"
    "map_of (sc_sla_hours c) (ticket_class fs) = Some h" "tk_due t = dt_add moment (h * 3600000000)"
    "tk_severity t = scan_severity (ticket_class fs) fs" "tk_cause t = ms_cause (snd p)"
  using assms by (auto simp: scan_one_def bindR_eq_Inr Let_def split: if_splits option.splits)

lemma ids_of_candidates:
  assumes "mapR (scan_one c run moment hist opn) (enumerate n pop) = Inr os"
  shows "distinct (map tk_id (candidates_of os)) \<and>
    (\<forall>t \<in> set (candidates_of os). \<exists>i \<ge> n. tk_id t = ''PRD-'' @ run @ ''-'' @ nat_str_pad 5 (i + 1))"
  using assms
proof (induction pop arbitrary: n os)
  case (Cons s pop)
  obtain x os' where os: "os = x # os'" and x: "scan_one c run moment hist opn (n, s) = Inr x"
    and rest: "mapR (scan_one c run moment hist opn) (enumerate (Suc n) pop) = Inr os'"
    using Cons.prems by (auto simp: bindR_eq_Inr)
  note IH = Cons.IH [OF rest]
  show ?case
  proof (cases x)
    case (Candidate t)
    with x have "tk_id t = ''PRD-'' @ run @ ''-'' @ nat_str_pad 5 (n + 1)"
      by (auto elim: scan_one_Candidate)
    with IH show ?thesis
      by (auto simp: os Candidate image_iff dest: Suc_leD)
  qed (use IH in \<open>auto simp: os dest: Suc_leD\<close>)
qed simp

text \<open>
  C23. A scan accounts for every modem: the outcomes of the modems, one for each, are its healthy
  modems, its duplicates of an open ticket, and candidate tickets; the candidates are exactly the
  tickets it returns together with the ones it caps away. It returns them in the order of their
  urgency (severity first, a breach before a forecast, then the identifier), no more than the cap
  and only then fewer than all, and every candidate capped away is strictly less urgent than
  every ticket returned. The identifiers are distinct.
\<close>
theorem scan_accounts_for_all:
  assumes "scan c modems run moment hist opn = Inr r"
  shows "sr_scanned r = length modems \<and>
    length modems = sr_healthy r + sr_duplicates r + sr_capped r + length (sr_tickets r) \<and>
    length (sr_tickets r) \<le> sc_max_tickets c \<and> distinct (map tk_id (sr_tickets r)) \<and>
    sorted (map ticket_key (sr_tickets r)) \<and>
    (\<exists>outs dropped. mapR (scan_one c run moment hist opn) (enumerate 0 modems) = Inr outs \<and>
       sr_healthy r = count_list outs Healthy \<and> sr_duplicates r = count_list outs Duplicate \<and>
       mset (candidates_of outs) = mset (sr_tickets r @ dropped) \<and> sr_capped r = length dropped \<and>
       (dropped \<noteq> [] \<longrightarrow> length (sr_tickets r) = sc_max_tickets c) \<and>
       (\<forall>t \<in> set (sr_tickets r). \<forall>u \<in> set dropped. ticket_key t < ticket_key u))"
proof -
  obtain os where os: "mapR (scan_one c run moment hist opn) (enumerate 0 modems) = Inr os"
    and r: "sr_scanned r = length modems" "sr_tickets r = take (sc_max_tickets c) (sort_key ticket_key (candidates_of os))"
      "sr_capped r = length (candidates_of os) - sc_max_tickets c" "sr_duplicates r = length (filter (\<lambda>x. x = Duplicate) os)"
      "sr_healthy r = length (filter (\<lambda>x. x = Healthy) os)"
    using assms by (auto simp: scan_def bindR_eq_Inr Let_def)
  define dropped where "dropped = drop (sc_max_tickets c) (sort_key ticket_key (candidates_of os))"
  have split: "sort_key ticket_key (candidates_of os) = sr_tickets r @ dropped" by (simp add: r(2) dropped_def)
  have "distinct (map tk_id (sort_key ticket_key (candidates_of os)))"
    using ids_of_candidates [OF os] by (simp add: distinct_map)
  then have ids: "distinct (map tk_id (sr_tickets r @ dropped))" by (simp only: split)
  have "sorted (map ticket_key (sort_key ticket_key (candidates_of os)))" by (rule sorted_sort_key)
  then have keys: "sorted (map ticket_key (sr_tickets r @ dropped))" by (simp only: split)
  have "ticket_key t < ticket_key u" if "t \<in> set (sr_tickets r)" "u \<in> set dropped" for t u
  proof -
    have "ticket_key t \<le> ticket_key u" using keys that by (simp add: sorted_append)
    moreover have "ticket_key t \<noteq> ticket_key u" using ids that by (auto simp: ticket_key_def)
    ultimately show ?thesis by (rule le_neq_trans)
  qed
  moreover have "mset (candidates_of os) = mset (sr_tickets r @ dropped)"
    using split by (metis mset_sort)
  moreover have "sr_capped r = length dropped" by (simp add: r(3) dropped_def)
  moreover have "length (sr_tickets r) = sc_max_tickets c" if "dropped \<noteq> []"
    using that by (simp add: r(2) dropped_def)
  moreover have "length (filter (\<lambda>x. x = a) xs) = count_list xs a" for a and xs :: "scan_outcome list"
    by (induction xs) auto
  then have "sr_healthy r = count_list os Healthy" "sr_duplicates r = count_list os Duplicate"
    by (simp_all only: r(4,5))
  moreover have "length modems = sr_healthy r + sr_duplicates r + sr_capped r + length (sr_tickets r)"
    using outcomes_split [of os] mapR_length [OF os] by (simp add: r min_def)
  ultimately show ?thesis
    using ids keys os r(1,2) by (auto simp: sorted_append)
qed

lemma tickets_of_modem:
  assumes "scan c modems run moment hist opn = Inr r" "t \<in> set (sr_tickets r)"
  shows "map_of opn (tk_modem t) = None \<or> map_of opn (tk_modem t) = Some ''forecast''"
proof -
  obtain os where os: "mapR (scan_one c run moment hist opn) (enumerate 0 modems) = Inr os"
    and "sr_tickets r = take (sc_max_tickets c) (sort_key ticket_key (candidates_of os))"
    using assms by (auto simp: scan_def bindR_eq_Inr Let_def)
  then have "Candidate t \<in> set os" using assms(2) by (auto simp: candidates_of_set dest: in_set_takeD)
  from mapR_from [OF os this] obtain p where "scan_one c run moment hist opn p = Inr (Candidate t)" by blast
  then show ?thesis by (rule scan_one_Candidate) (auto simp: suppressed_def)
qed

text \<open>
  Every ticket is founded: it comes from a scanned modem with a finding, is proactive
  exactly when a finding is already breached (otherwise every finding carries a forecast), its
  clock runs from the scan for the hours of its class, and no ticket repeats an open one unless
  a forecast has come true.
\<close>
theorem tickets_are_founded:
  assumes "scan c modems run moment hist opn = Inr r" "t \<in> set (sr_tickets r)"
  shows "\<exists>s \<in> set modems. tk_modem t = ms_modem s \<and> tk_cause t = ms_cause s \<and>
    scan_findings c s = Inr (tk_findings t) \<and> tk_findings t \<noteq> [] \<and>
    tk_class t = (if \<exists>f \<in> set (tk_findings t). fi_breached f then ''proactive'' else ''forecast'') \<and>
    (\<exists>h. map_of (sc_sla_hours c) (tk_class t) = Some h \<and> tk_opened t = moment \<and> tk_due t = dt_add moment (h * 3600000000)) \<and>
    (map_of opn (tk_modem t) = None \<or> map_of opn (tk_modem t) = Some ''forecast'' \<and> tk_class t = ''proactive'')"
proof -
  obtain os where os: "mapR (scan_one c run moment hist opn) (enumerate 0 modems) = Inr os"
    and "sr_tickets r = take (sc_max_tickets c) (sort_key ticket_key (candidates_of os))"
    using assms by (auto simp: scan_def bindR_eq_Inr Let_def)
  then have "t \<in> set (candidates_of os)" using assms(2) by (auto dest: in_set_takeD)
  then have "Candidate t \<in> set os" by (simp add: candidates_of_set)
  from mapR_from [OF os this] obtain p where
    p: "p \<in> set (enumerate 0 modems)" "scan_one c run moment hist opn p = Inr (Candidate t)" by blast
  then have s: "snd p \<in> set modems" by (metis enumerate_eq_zip in_set_zipE prod.collapse)
  from p(2) show ?thesis
    by (rule scan_one_Candidate) (use s in \<open>auto simp: ticket_class_def filter_empty_conv suppressed_def intro!: bexI [of _ "snd p"]\<close>)
qed

text \<open>A modem whose signal sits below the alarm, for the examples.\<close>

definition demo_series :: modem_series where
  "demo_series = \<lparr>ms_modem = ''CM-1'', ms_site = ''PR-SJU'', ms_technology = ''HFC'', ms_cause = ''tap_or_odp'',
     ms_kpis = [(''ds_rx_dbmv'', [-16, -17]), (''us_tx_dbmv'', [44, 44]), (''ds_mer_db'', [38, 38]),
       (''uncorrectable_ratio'', [0, 0]), (''t3_timeouts_per_day'', [0, 0])]\<rparr>"

definition demo_scan :: "scan_result res" where
  "demo_scan = scan default_scan [demo_series] ''r1'' (utc 0) [] []"

lemma demo_scan_one: "(case demo_scan of Inl _ \<Rightarrow> False | Inr r \<Rightarrow> length (sr_tickets r) = 1)"
  by code_simp

text \<open>Two modems below the alarm and a cap of one ticket: the one with two breaches is kept.\<close>

definition demo_capped :: "scan_result res" where
  "demo_capped = scan (default_scan\<lparr>sc_max_tickets := 1\<rparr>)
     [demo_series, demo_series\<lparr>ms_modem := ''CM-2'', ms_kpis := [(''ds_rx_dbmv'', [-16, -17]), (''us_tx_dbmv'', [44, 44]),
        (''ds_mer_db'', [20, 20]), (''uncorrectable_ratio'', [0, 0]), (''t3_timeouts_per_day'', [0, 0])]\<rparr>]
     ''r1'' (utc 0) [] []"

lemma demo_capped_kept:
  "bindR demo_capped (\<lambda>r. Inr (map tk_modem (sr_tickets r), sr_capped r)) = Inr ([''CM-2''], 1)"
  by code_simp

corollary scan_accounts_for_all_witness:
  "\<exists>r outs dropped. demo_capped = Inr r \<and> map tk_modem (sr_tickets r) = [''CM-2''] \<and> length dropped = 1 \<and>
     mset (candidates_of outs) = mset (sr_tickets r @ dropped) \<and>
     (\<forall>t \<in> set (sr_tickets r). \<forall>u \<in> set dropped. ticket_key t < ticket_key u)"
proof -
  obtain r where r: "demo_capped = Inr r" "map tk_modem (sr_tickets r) = [''CM-2'']" "sr_capped r = 1"
    using demo_capped_kept by (auto simp: bindR_eq_Inr)
  from scan_accounts_for_all [OF r(1) [unfolded demo_capped_def]] obtain outs dropped where
    "mset (candidates_of outs) = mset (sr_tickets r @ dropped)" "sr_capped r = length dropped"
    "\<forall>t \<in> set (sr_tickets r). \<forall>u \<in> set dropped. ticket_key t < ticket_key u" by blast
  with r show ?thesis by metis
qed

corollary tickets_are_founded_witness:
  "\<exists>r t. demo_scan = Inr r \<and> t \<in> set (sr_tickets r) \<and> tk_modem t = ''CM-1''"
proof -
  obtain r where r: "demo_scan = Inr r" "length (sr_tickets r) = 1" using demo_scan_one by (auto split: sum.splits)
  then obtain t where t: "t \<in> set (sr_tickets r)" by (cases "sr_tickets r") auto
  from tickets_are_founded [OF r(1) [unfolded demo_scan_def] t] r(1) t show ?thesis
    by (auto simp: demo_series_def)
qed

end
