(* ===== verification/PipelineLaws.thy ===== *)
theory PipelineLaws
  imports PredictiveLaws AgentLaws
begin

text \<open>
  Laws of the predictive pipeline and its hand-over: what is closed without a person, the
  maintenance window, suppression by an agent, the clock of a merged incident, the accounting
  of a daily run, and the open tickets the history never closes.
\<close>

subsection \<open>Attempts\<close>

definition reboots :: "attempt list \<Rightarrow> nat" where
  "reboots as = length (filter (\<lambda>a. at_executed a \<and> at_action a \<in> set service_affecting) as)"

lemma run_attempts_facts:
  "run_attempts D c rm t hour rolls xs = (as, res, mins) \<Longrightarrow>
   length as \<le> length xs \<and> at_action ` set as \<subseteq> snd ` set xs \<and> mins = rm_interruption rm * int (reboots as) \<and>
   (res \<longleftrightarrow> (\<exists>a \<in> set as. at_succeeded a)) \<and> (\<forall>a \<in> set (butlast as). \<not> at_succeeded a) \<and>
   (\<forall>a \<in> set as. (at_succeeded a \<longrightarrow> at_executed a) \<and> at_key a = action_key D t (at_action a) (at_index a) \<and>
      (at_executed a \<and> at_action a \<in> set service_affecting \<longrightarrow> in_maintenance_window c hour))"
proof (induction xs arbitrary: as res mins)
  case Nil
  then show ?case by (simp add: reboots_def)
next
  case (Cons x xs)
  obtain i a where x: "x = (i, a)" by (cases x)
  obtain as' res' mins' where rest: "run_attempts D c rm t hour rolls xs = (as', res', mins')" by (metis prod_cases3)
  note IH = Cons.IH [OF rest]
  obtain may why where may: "execute_allowed a hour c = (may, why)" by (metis surj_pair)
  have window: "in_maintenance_window c hour" if "may" "a \<in> set service_affecting"
    using may that by (auto simp: execute_allowed_def split: if_splits)
  define roll where "roll = (if i < length rolls then rolls ! i else 1)"
  consider (deferred) "\<not> may" | (won) "may" "succeeds a (tk_cause t) roll rm"
    | (lost) "may" "\<not> succeeds a (tk_cause t) roll rm" by blast
  then show ?case
  proof cases
    case deferred
    with Cons.prems rest may have eq:
      "as = \<lparr>at_action = a, at_index = i, at_key = action_key D t a i, at_executed = False, at_succeeded = False,
         at_reason = why\<rparr> # as'" "res = res'" "mins = mins'"
      by (simp_all add: x Let_def)
    show ?thesis using IH unfolding eq by (auto simp: x reboots_def)
  next
    case won
    with Cons.prems may have eq:
      "as = [\<lparr>at_action = a, at_index = i, at_key = action_key D t a i, at_executed = True, at_succeeded = True,
         at_reason = ''resolved''\<rparr>]"
      "res = True" "mins = (if a \<in> set service_affecting then rm_interruption rm else 0)"
      by (auto simp: x Let_def roll_def [symmetric])
    show ?thesis
      using window [OF won(1)] unfolding eq by (simp add: x reboots_def)
  next
    case lost
    with Cons.prems rest may have eq:
      "as = \<lparr>at_action = a, at_index = i, at_key = action_key D t a i, at_executed = True, at_succeeded = False,
         at_reason = ''did not clear the condition''\<rparr> # as'"
      "res = res'" "mins = (if a \<in> set service_affecting then rm_interruption rm else 0) + mins'"
      by (auto simp: x Let_def roll_def [symmetric])
    show ?thesis
      using IH window [OF lost(1)] unfolding eq by (auto simp: x reboots_def algebra_simps)
  qed
qed

lemma remediate_Inr:
  assumes "remediate E t tri w = (Inr o1, w')"
  obtains as res mins blocked where
    "attempts_for (pe_digest E) (pe_scan E) (pe_remediation E) t (pe_hour E) (pe_rolls E) = (as, res, mins)"
    "oc_attempts o1 = as" "oc_resolved o1 = res" "oc_interruption o1 = mins" "oc_ticket o1 = tk_id t"
    "oc_truck o1 = truck_roll_needed t res as" "oc_notify o1 = notification_reasons t (oc_truck o1) res (pe_scan E)"
    "oc_gate o1 = gate_reasons res (oc_notify o1) as" "oc_verdict o1 = verdict_of blocked (oc_gate o1)"
    "oc_blocked o1 = blocked" "oc_escalated o1 = (oc_gate o1 \<noteq> [] \<or> blocked \<noteq> [])"
    "oc_triage o1 = map_option ad_decision tri"
    "if oc_truck o1 then policy_blocks (pe_digest E) t (case tri of None \<Rightarrow> None | Some d \<Rightarrow> agrees_with_baseline d)
       (map_option ad_source tri) = Inr blocked else blocked = []"
proof -
  obtain as res mins where a: "attempts_for (pe_digest E) (pe_scan E) (pe_remediation E) t (pe_hour E) (pe_rolls E) = (as, res, mins)"
    by (metis prod_cases3)
  from assms show thesis
    unfolding remediate_def a Let_def split_conv bindE_eq_Inr
    by (elim exE conjE) (rule that [OF a], auto split: if_splits)
qed

lemma process_ticket_Inr:
  assumes "process_ticket E t w = (Inr o1, w')"
  obtains (suppressed) d where "o1 = suppression_outcome t d" "ad_decision d = ''suppress''" "fst w \<noteq> None"
  | (remediated) tri w1 where "remediate E t tri w1 = (Inr o1, w')" "map_option ad_decision tri \<noteq> Some ''suppress''"
      "fst w = None \<longrightarrow> tri = None"
proof (cases "fst w")
  case None
  with assms show thesis by (intro remediated [of None w]) (auto simp: process_ticket_def bindE_eq_Inr)
next
  case (Some q)
  with assms obtain bt d w1 where "baseline_triage_for t = Inr bt"
    "(if ad_decision d = ''suppress'' then retE (suppression_outcome t d) else remediate E t (Some d)) w1 = (Inr o1, w')"
    by (auto simp: process_ticket_def bindE_eq_Inr)
  with Some show thesis by (auto split: if_splits intro: suppressed remediated)
qed

lemma suppression_fields:
  "oc_triage (suppression_outcome t d) = Some (ad_decision d)" "oc_attempts (suppression_outcome t d) = []"
  "oc_escalated (suppression_outcome t d)" "\<not> oc_resolved (suppression_outcome t d)"
  "oc_notify (suppression_outcome t d) = []" "oc_interruption (suppression_outcome t d) = 0"
  "oc_ticket (suppression_outcome t d) = tk_id t"
  "oc_verdict (suppression_outcome t d) = (if \<exists>f \<in> set (tk_findings t). fi_breached f then Blocked else RequiresApproval)"
  "oc_truck (suppression_outcome t d) \<longleftrightarrow> (\<exists>f \<in> set (tk_findings t). fi_breached f)"
proof -
  have "(\<exists>f \<in> set (tk_findings t). fi_breached f) \<longleftrightarrow> filter fi_breached (tk_findings t) \<noteq> []"
    by (auto simp: filter_empty_conv)
  then show "oc_triage (suppression_outcome t d) = Some (ad_decision d)" "oc_attempts (suppression_outcome t d) = []"
    "oc_escalated (suppression_outcome t d)" "\<not> oc_resolved (suppression_outcome t d)"
    "oc_notify (suppression_outcome t d) = []" "oc_interruption (suppression_outcome t d) = 0"
    "oc_ticket (suppression_outcome t d) = tk_id t"
    "oc_verdict (suppression_outcome t d) = (if \<exists>f \<in> set (tk_findings t). fi_breached f then Blocked else RequiresApproval)"
    "oc_truck (suppression_outcome t d) \<longleftrightarrow> (\<exists>f \<in> set (tk_findings t). fi_breached f)"
    by (simp_all add: suppression_outcome_def no_outcome_def Let_def split: list.splits)
qed

lemma physical_no_attempts:
  "attempts_for D c rm t hour rolls = (as, res, mins) \<Longrightarrow> tk_cause t \<in> set physical_causes \<Longrightarrow> as = [] \<and> \<not> res"
  by (simp add: attempts_for_def plan_actions_def py_take_def)

text \<open>
  C21. The pipeline closes a ticket without a person only when it is over: a remote action
  succeeded, the cause is not physical, no truck is needed, nobody has to be notified, the
  modem is no repeat offender, nothing was escalated and no agent dismissed the finding.
\<close>
theorem closed_without_person:
  assumes "process_ticket E t w = (Inr o1, w')" "oc_verdict o1 = Allowed"
  shows "oc_resolved o1 \<and> (\<exists>a \<in> set (oc_attempts o1). at_succeeded a \<and> at_executed a) \<and>
    tk_cause t \<notin> set physical_causes \<and> \<not> oc_truck o1 \<and> oc_notify o1 = [] \<and> \<not> tk_repeat t \<and>
    \<not> oc_escalated o1 \<and> oc_triage o1 \<noteq> Some ''suppress''"
  using assms(1)
proof (cases rule: process_ticket_Inr)
  case (suppressed d)
  then show ?thesis using assms(2) by (simp add: suppression_fields split: if_splits)
next
  case (remediated tri w1)
  from remediated(1) show ?thesis
  proof (rule remediate_Inr)
    fix as res mins blocked
    assume a: "attempts_for (pe_digest E) (pe_scan E) (pe_remediation E) t (pe_hour E) (pe_rolls E) = (as, res, mins)"
      and o: "oc_attempts o1 = as" "oc_resolved o1 = res" "oc_truck o1 = truck_roll_needed t res as"
      "oc_notify o1 = notification_reasons t (oc_truck o1) res (pe_scan E)" "oc_gate o1 = gate_reasons res (oc_notify o1) as"
      "oc_verdict o1 = verdict_of blocked (oc_gate o1)" "oc_escalated o1 = (oc_gate o1 \<noteq> [] \<or> blocked \<noteq> [])"
      "oc_triage o1 = map_option ad_decision tri"
    have gate: "oc_gate o1 = []" "blocked = []"
      using assms(2) o(6) by (auto simp: verdict_of_def split: if_splits)
    then have res: res "oc_notify o1 = []"
      using o(5) by (auto simp: gate_reasons_def split: if_splits)
    then have "\<not> tk_repeat t" using o(4) by (auto simp: notification_reasons_def split: if_splits)
    moreover have "\<not> oc_truck o1" using o(3) res by (simp add: truck_roll_needed_def)
    moreover have "tk_cause t \<notin> set physical_causes" using physical_no_attempts [OF a] res by auto
    moreover have "\<exists>a \<in> set as. at_succeeded a \<and> at_executed a"
      using run_attempts_facts [OF a [unfolded attempts_for_def]] res by auto
    ultimately show ?thesis using res gate o remediated(2) by simp
  qed
qed

text \<open>
  C22. Remote remediation keeps to its limits: no attempt on a physical cause, no more attempts
  than configured, a reboot only inside the maintenance window, nothing after the attempt that
  succeeded, and the minutes of interruption are those of the reboots executed.
\<close>
theorem remediation_keeps_limits:
  assumes "process_ticket E t w = (Inr o1, w')" "0 \<le> rm_max_attempts (pe_remediation E)"
  shows "int (length (oc_attempts o1)) \<le> rm_max_attempts (pe_remediation E) \<and>
    (tk_cause t \<in> set physical_causes \<longrightarrow> oc_attempts o1 = []) \<and>
    (\<forall>a \<in> set (oc_attempts o1). at_executed a \<and> at_action a = ''remote_reboot'' \<longrightarrow>
       in_maintenance_window (pe_scan E) (pe_hour E)) \<and>
    (\<forall>a \<in> set (butlast (oc_attempts o1)). \<not> at_succeeded a) \<and>
    oc_interruption o1 = rm_interruption (pe_remediation E) * int (reboots (oc_attempts o1))"
  using assms(1)
proof (cases rule: process_ticket_Inr)
  case (suppressed d)
  then show ?thesis using assms(2) by (simp add: suppression_fields reboots_def)
next
  case (remediated tri w1)
  from remediated(1) show ?thesis
  proof (rule remediate_Inr)
    fix as res mins blocked
    assume a: "attempts_for (pe_digest E) (pe_scan E) (pe_remediation E) t (pe_hour E) (pe_rolls E) = (as, res, mins)"
      and o: "oc_attempts o1 = as" "oc_interruption o1 = mins"
    have "int (length (py_take (rm_max_attempts (pe_remediation E)) (plan_actions t))) \<le> rm_max_attempts (pe_remediation E)"
      using assms(2) by (simp add: py_take_def)
    then show ?thesis
      using run_attempts_facts [OF a [unfolded attempts_for_def]] physical_no_attempts [OF a]
      unfolding o by (auto simp: service_affecting_def)
  qed
qed

text \<open>
  An agent cannot make a finding disappear: a ticket it suppresses is never closed; when a
  threshold is already crossed the suppression is refused and the ticket blocked with a truck
  roll, otherwise it goes to a person.
\<close>
theorem suppression_needs_person:
  assumes "process_ticket E t w = (Inr o1, w')" "oc_triage o1 = Some ''suppress''"
  shows "oc_escalated o1 \<and> oc_attempts o1 = [] \<and>
    oc_verdict o1 = (if \<exists>f \<in> set (tk_findings t). fi_breached f then Blocked else RequiresApproval) \<and>
    (oc_truck o1 \<longleftrightarrow> (\<exists>f \<in> set (tk_findings t). fi_breached f))"
  using assms(1)
proof (cases rule: process_ticket_Inr)
  case (suppressed d)
  then show ?thesis by (simp add: suppression_fields)
next
  case (remediated tri w1)
  from remediated(1) have "oc_triage o1 = map_option ad_decision tri" by (rule remediate_Inr)
  with assms(2) remediated(2) show ?thesis by simp
qed

lemma policy_blocks_Nil:
  assumes "policy_blocks D t ag src = Inr bs" "tk_findings t \<noteq> []"
  shows "bs = []"
proof -
  let ?r = "policy_request t ag src"
  have "domain_for_cause (tk_cause t) \<in> set known_domains"
    by (auto simp: domain_for_cause_def known_domains_def split: option.splits dest!: map_of_SomeD)
  moreover have "domain_for_cause (tk_cause t) \<notin> set plant_domains" if "tk_cause t \<notin> set physical_causes"
    using that by (auto simp: domain_for_cause_def plant_domains_def physical_causes_def split: if_splits)
  ultimately have "input_blocks ?r = []" "hard_blocks ?r homes = []" for homes
    unfolding input_blocks_Nil hard_blocks_Nil base_blocks_Nil using assms(2)
    by (auto simp: policy_request_def known_actions_def remote_actions_def hard_max_field_visits_def)
  with assms(1) show ?thesis
    by (auto simp: policy_blocks_def bindR_eq_Inr evaluate_def split_def Let_def split: if_splits)
qed

text \<open>
  On a ticket with findings the policy check of the truck roll never stops anything: the
  only blocked outcomes of the pipeline are refused suppressions.
\<close>
theorem policy_never_blocks_ticket:
  assumes "process_ticket E t w = (Inr o1, w')" "tk_findings t \<noteq> []"
  shows "oc_verdict o1 = Blocked \<longleftrightarrow> oc_triage o1 = Some ''suppress'' \<and> (\<exists>f \<in> set (tk_findings t). fi_breached f)"
  using assms(1)
proof (cases rule: process_ticket_Inr)
  case (suppressed d)
  then show ?thesis by (simp add: suppression_fields)
next
  case (remediated tri w1)
  from remediated(1) show ?thesis
  proof (rule remediate_Inr)
    fix as res mins blocked
    assume o: "oc_verdict o1 = verdict_of blocked (oc_gate o1)" "oc_triage o1 = map_option ad_decision tri"
      and b: "if oc_truck o1 then policy_blocks (pe_digest E) t (case tri of None \<Rightarrow> None | Some d \<Rightarrow> agrees_with_baseline d)
         (map_option ad_source tri) = Inr blocked else blocked = []"
    from b have "blocked = []" using policy_blocks_Nil assms(2) by (auto split: if_splits)
    with o remediated(2) show ?thesis by (simp add: verdict_of_def)
  qed
qed

subsection \<open>Examples\<close>

definition demo_env :: pipeline_env where
  "demo_env = \<lparr>pe_digest = (\<lambda>s. s), pe_math = flat_mathlib, pe_transport = silent_transport, pe_dumps = (\<lambda>j. []),
     pe_system = (\<lambda>s. s), pe_scan = default_scan, pe_remediation = default_remediation, pe_hour = 2, pe_rolls = [0],
     pe_households = 1, pe_customer = None, pe_sla_breached = False\<rparr>"

definition demo_finding :: finding where
  "demo_finding = \<lparr>fi_kpi = ''t3_timeouts_per_day'', fi_value = 30, fi_threshold = 25, fi_direction = Rising,
     fi_breached = True, fi_days = None, fi_slope = 0, fi_r2 = 0\<rparr>"

definition demo_ticket :: ticket where
  "demo_ticket = \<lparr>tk_id = ''PRD-r1-00001'', tk_modem = ''CM-1'', tk_site = ''PR-SJU'', tk_technology = ''HFC'',
     tk_class = ''proactive'', tk_severity = ''high'', tk_opened = utc 0, tk_due = utc 86400000000,
     tk_findings = [demo_finding], tk_cause = ''cpe_state'', tk_repeat = False, tk_flags = 0, tk_run = ''r1''\<rparr>"

definition suppressing :: provider where
  "suppressing = ScriptedProvider (\<lambda>s. ''{}'')"

definition suppress_env :: pipeline_env where
  "suppress_env = demo_env\<lparr>pe_transport := silent_transport\<lparr>tr_loads := (\<lambda>s. Inr (JObj [(''triage'', JStr ''suppress''),
     (''confidence'', JFloat 1), (''rationale'', JStr [])]))\<rparr>\<rparr>"

lemma demo_ticket_closed: "(case fst (process_ticket demo_env demo_ticket (None, empty_recorder)) of
    Inl _ \<Rightarrow> False | Inr o1 \<Rightarrow> oc_verdict o1 = Allowed)"
  by code_simp

lemma demo_suppressed: "(case fst (process_ticket suppress_env demo_ticket (Some suppressing, empty_recorder)) of
    Inl _ \<Rightarrow> False | Inr o1 \<Rightarrow> oc_triage o1 = Some ''suppress'')"
  by code_simp

lemma demo_run:
  obtains o1 w' where "process_ticket demo_env demo_ticket (None, empty_recorder) = (Inr o1, w')" "oc_verdict o1 = Allowed"
  using demo_ticket_closed by (cases "process_ticket demo_env demo_ticket (None, empty_recorder)") (auto split: sum.splits)

corollary closed_without_person_witness:
  "\<exists>o1 w'. process_ticket demo_env demo_ticket (None, empty_recorder) = (Inr o1, w') \<and> oc_resolved o1 \<and> oc_notify o1 = []"
proof (rule demo_run)
  fix o1 w'
  assume r: "process_ticket demo_env demo_ticket (None, empty_recorder) = (Inr o1, w')" "oc_verdict o1 = Allowed"
  from closed_without_person [OF r] r(1) show ?thesis by blast
qed

corollary remediation_keeps_limits_witness:
  "\<exists>o1 w'. process_ticket demo_env demo_ticket (None, empty_recorder) = (Inr o1, w') \<and> length (oc_attempts o1) \<le> 2"
proof (rule demo_run)
  fix o1 w'
  assume r: "process_ticket demo_env demo_ticket (None, empty_recorder) = (Inr o1, w')"
  from remediation_keeps_limits [OF r] r show ?thesis by (auto simp: demo_env_def default_remediation_def)
qed

corollary suppression_needs_person_witness:
  "\<exists>o1 w'. process_ticket suppress_env demo_ticket (Some suppressing, empty_recorder) = (Inr o1, w') \<and> oc_verdict o1 = Blocked"
proof -
  obtain o1 w' where r: "process_ticket suppress_env demo_ticket (Some suppressing, empty_recorder) = (Inr o1, w')"
    "oc_triage o1 = Some ''suppress''"
    using demo_suppressed
    by (cases "process_ticket suppress_env demo_ticket (Some suppressing, empty_recorder)") (auto split: sum.splits)
  from suppression_needs_person [OF r] r(1) show ?thesis by (auto simp: demo_ticket_def demo_finding_def)
qed

corollary policy_never_blocks_ticket_witness:
  "\<exists>o1 w'. process_ticket demo_env demo_ticket (None, empty_recorder) = (Inr o1, w') \<and> oc_triage o1 \<noteq> Some ''suppress''"
proof (rule demo_run)
  fix o1 w'
  assume r: "process_ticket demo_env demo_ticket (None, empty_recorder) = (Inr o1, w')" "oc_verdict o1 = Allowed"
  from policy_never_blocks_ticket [OF r(1)] r show ?thesis by (auto simp: demo_ticket_def demo_finding_def)
qed

subsection \<open>The hand-over\<close>

text \<open>
  A customer call inherits the running clock: the merged incident keeps the opening time
  and the due time of the predictive ticket, names it as its parent, and says that the SLA was
  already breached exactly when the call came after the due time.
\<close>
theorem merged_clock_runs_on:
  assumes "seed_from t o1 = Inr s" "attach_customer_call s reactive called_at = Inr m"
  shows "is_opened (apply_merge s m) = tk_opened t \<and> is_due (apply_merge s m) = tk_due t \<and>
    is_parent (apply_merge s m) = Some (''INC-'' @ tk_id t) \<and> is_role (apply_merge s m) = Child \<and>
    is_incident (apply_merge s m) = reactive \<and> is_ticket (apply_merge s m) = tk_id t \<and>
    (is_breached_at_attach (apply_merge s m) \<longleftrightarrow> instant (tk_due t) < instant called_at) \<and> 0 \<le> md_spent m"
proof -
  have s: "is_opened s = tk_opened t" "is_due s = tk_due t" "is_incident s = ''INC-'' @ tk_id t" "is_ticket s = tk_id t"
    using assms(1) by (auto simp: seed_from_def bindR_eq_Inr split: if_splits)
  have "0 \<le> round_dec 2 (max r 0)" for r
    using round_dec_mono [of 0 "max r 0" 2] round_he_of_int [of 0] by (simp add: round_dec_def)
  then show ?thesis
    using assms(2) by (auto simp: attach_customer_call_def apply_merge_def bindR_eq_Inr dt_ge_def Let_def s split: if_splits)
qed

definition gated_outcome :: outcome where
  "gated_outcome = (no_outcome demo_ticket)\<lparr>oc_verdict := RequiresApproval\<rparr>"

corollary merged_clock_runs_on_witness:
  "\<exists>s m. seed_from demo_ticket gated_outcome = Inr s \<and> attach_customer_call s ''INC-2'' (utc 90000000000) = Inr m \<and>
     is_breached_at_attach (apply_merge s m)"
proof -
  obtain s where s: "seed_from demo_ticket gated_outcome = Inr s"
    by (simp add: seed_from_def ticket_headline_def evidence_row_of_def demo_ticket_def demo_finding_def gated_outcome_def)
  then have "is_opened s = utc 0" "is_due s = utc 86400000000"
    by (auto simp: seed_from_def bindR_eq_Inr demo_ticket_def split: if_splits)
  then obtain m where m: "attach_customer_call s ''INC-2'' (utc 90000000000) = Inr m"
    by (simp add: attach_customer_call_def dt_diff_def dt_ge_def utc_def Let_def)
  from merged_clock_runs_on [OF s m] s m show ?thesis
    by (auto simp: demo_ticket_def)
qed

lemma process_ticket_names: "process_ticket E t w = (Inr o1, w') \<Longrightarrow> oc_ticket o1 = tk_id t"
  by (erule process_ticket_Inr) (auto simp: suppression_fields elim: remediate_Inr)

lemma seed_from_ticket: "seed_from t o1 = Inr s \<Longrightarrow> is_ticket s = tk_id t"
  by (auto simp: seed_from_def bindR_eq_Inr split: if_splits)

lemma process_all_Inr:
  "process_all G E ts g rc = Inr (os, ss) \<Longrightarrow>
   map oc_ticket os = map tk_id ts \<and> map is_ticket ss = map oc_ticket (filter (\<lambda>x. oc_verdict x = RequiresApproval) os)"
proof (induction ts arbitrary: g os ss)
  case (Cons t ts)
  obtain rolls g1 where d: "draws G (nat (rm_max_attempts (pe_remediation E))) g = (rolls, g1)" by (metis surj_pair)
  from Cons.prems d obtain o1 ss1 os2 ss2 where
    p: "fst (process_ticket (E\<lparr>pe_rolls := rolls\<rparr>) t (None, rc)) = Inr o1"
    and s1: "(if oc_verdict o1 = RequiresApproval then bindR (seed_from t o1) (\<lambda>s. Inr [s]) else Inr []) = Inr ss1"
    and rest: "process_all G E ts g1 rc = Inr (os2, ss2)" and eq: "os = o1 # os2" "ss = ss1 @ ss2"
    by (auto simp: bindR_eq_Inr Let_def)
  have "oc_ticket o1 = tk_id t"
    using p process_ticket_names by (metis prod.collapse)
  moreover have "map is_ticket ss1 = (if oc_verdict o1 = RequiresApproval then [tk_id t] else [])"
    using s1 by (auto simp: bindR_eq_Inr seed_from_ticket split: if_splits)
  ultimately show ?case using Cons.IH [OF rest] by (simp add: eq)
qed simp

lemma run_once_parts:
  assumes "run_once G E rc run moment now modems h c rm sd = Inr (r, h')"
  obtains pool where "scan c pool run moment (as_datetimes h) (fh_open h) = Inr (rp_scan r)"
    "process_all G (run_env E c rm moment) (sr_tickets (rp_scan r)) (rg_seed G (nat \<bar>sd\<bar>)) rc = Inr (rp_outcomes r, rp_seeds r)"
    "record_run_history now 90 (map oc_ticket (filter (\<lambda>x. oc_verdict x = Allowed) (rp_outcomes r)))
       (sr_tickets (rp_scan r)) h = Inr h'"
proof -
  obtain pool result rs h2 where p: "scan c pool run moment (as_datetimes h) (fh_open h) = Inr result"
    "process_all G (run_env E c rm moment) (sr_tickets result) (rg_seed G (nat \<bar>sd\<bar>)) rc = Inr rs"
    "record_run_history now 90 (map oc_ticket (filter (\<lambda>x. oc_verdict x = Allowed) (fst rs))) (sr_tickets result) h = Inr h2"
    "Inr (\<lparr>rp_run = run, rp_ran_at = moment, rp_scan = result, rp_outcomes = fst rs, rp_seeds = snd rs\<rparr>, h2) =
       (Inr (r, h') :: exn + run_report \<times> flag_history)"
    using assms unfolding run_once_def bindR_eq_Inr by blast
  then have "rp_scan r = result" "rp_outcomes r = fst rs" "rp_seeds r = snd rs" "h' = h2" by auto
  with p show thesis by (intro that [of pool]) simp_all
qed

text \<open>
  A daily run loses no ticket: every ticket of the scan has one outcome, in order, and the
  seeds handed to the main flow are precisely those of the outcomes that require a person.
\<close>
theorem daily_run_hands_over:
  assumes "run_once G E rc run moment now modems h c rm sd = Inr (r, h')"
  shows "map oc_ticket (rp_outcomes r) = map tk_id (sr_tickets (rp_scan r)) \<and>
    map is_ticket (rp_seeds r) = map oc_ticket (filter (\<lambda>x. oc_verdict x = RequiresApproval) (rp_outcomes r)) \<and>
    length (rp_seeds r) = gated r"
proof (rule run_once_parts [OF assms])
  assume "process_all G (run_env E c rm moment) (sr_tickets (rp_scan r)) (rg_seed G (nat \<bar>sd\<bar>)) rc =
    Inr (rp_outcomes r, rp_seeds r)"
  from process_all_Inr [OF this] show ?thesis
    by (metis count_if_def gated_def length_map)
qed

definition constant_rng :: "unit rng" where
  "constant_rng = \<lparr>rg_seed = (\<lambda>n. ()), rg_random = (\<lambda>g. (0, g)), rg_gauss = (\<lambda>m s g. (m, g)),
     rg_uniform = (\<lambda>a b g. (a, g)), rg_randrange = (\<lambda>a b g. (a, g))\<rparr>"

definition noisy_series :: modem_series where
  "noisy_series = demo_series\<lparr>ms_cause := ''cpe_state'', ms_kpis := [(''ds_rx_dbmv'', [0, 0]), (''us_tx_dbmv'', [44, 44]),
     (''ds_mer_db'', [38, 38]), (''uncorrectable_ratio'', [0, 0]), (''t3_timeouts_per_day'', [30, 30])]\<rparr>"

definition demo_daily :: "flag_history \<Rightarrow> (run_report \<times> flag_history) res" where
  "demo_daily h = run_once constant_rng demo_env empty_recorder ''r1'' (utc 7200000000) (utc 7200000000) [noisy_series] h
     default_scan default_remediation 1"

lemma demo_daily_closed:
  "(case demo_daily no_history of Inl _ \<Rightarrow> False | Inr (r, h) \<Rightarrow> auto_closed r = 1 \<and> length (fh_flags h) = 1)"
  by code_simp

corollary daily_run_hands_over_witness:
  "\<exists>r h. demo_daily no_history = Inr (r, h) \<and> auto_closed r = 1 \<and> length (rp_seeds r) = gated r"
proof -
  obtain r h where r: "demo_daily no_history = Inr (r, h)" "auto_closed r = 1"
    using demo_daily_closed by (cases "demo_daily no_history") auto
  from daily_run_hands_over [OF r(1) [unfolded demo_daily_def]] r show ?thesis by blast
qed

lemma record_tickets_open:
  "\<forall>t \<in> set ts. tk_modem t \<noteq> m \<Longrightarrow> map_of (fh_open (fold (record_ticket ids) ts h)) m = map_of (fh_open h) m"
proof (induction ts arbitrary: h)
  case (Cons t ts)
  have "map_of (ddelete k d) m = map_of d m" if "m \<noteq> k" for k :: string and d :: "(string \<times> string) list"
    using that by (induction d) (auto simp: ddelete_def)
  moreover have "m \<noteq> tk_modem t" using Cons.prems by auto
  ultimately have "map_of (fh_open (record_ticket ids t h)) m = map_of (fh_open h) m"
    by (simp add: record_ticket_def)
  with Cons show ?case by simp
qed simp

text \<open>
  C24. The history never closes an open proactive ticket: while one is on record for a modem, no
  daily run raises a ticket for it, and the record is still there after the run, so no later
  run does either.
\<close>
theorem open_proactive_ticket_stays:
  assumes "run_once G E rc run moment now modems h c rm sd = Inr (r, h')"
    and "map_of (fh_open h) m = Some ''proactive''"
  shows "(\<forall>t \<in> set (sr_tickets (rp_scan r)). tk_modem t \<noteq> m) \<and> map_of (fh_open h') m = Some ''proactive''"
proof (rule run_once_parts [OF assms(1)])
  fix pool
  assume s: "scan c pool run moment (as_datetimes h) (fh_open h) = Inr (rp_scan r)"
    and h: "record_run_history now 90 (map oc_ticket (filter (\<lambda>x. oc_verdict x = Allowed) (rp_outcomes r)))
       (sr_tickets (rp_scan r)) h = Inr h'"
  have none: "\<forall>t \<in> set (sr_tickets (rp_scan r)). tk_modem t \<noteq> m"
    using tickets_of_modem [OF s] assms(2) by fastforce
  from h none show ?thesis
    using record_tickets_open [OF none] assms(2) by (auto simp: record_run_history_def bindR_eq_Inr Let_def)
qed

corollary open_proactive_ticket_stays_witness:
  "\<exists>r h'. demo_daily \<lparr>fh_flags = [], fh_open = [(''CM-1'', ''proactive'')]\<rparr> = Inr (r, h') \<and>
     map_of (fh_open h') ''CM-1'' = Some ''proactive''"
proof -
  have "is_ok (demo_daily \<lparr>fh_flags = [], fh_open = [(''CM-1'', ''proactive'')]\<rparr>)" by code_simp
  then obtain r h' where r: "demo_daily \<lparr>fh_flags = [], fh_open = [(''CM-1'', ''proactive'')]\<rparr> = Inr (r, h')"
    by (metis is_ok_simps(2) old.sum.exhaust surj_pair)
  from open_proactive_ticket_stays [OF r [unfolded demo_daily_def], of "''CM-1''"] r show ?thesis by simp
qed

end
