(* ===== verification/TwinDecision.thy ===== *)
theory TwinDecision
  imports Prelude
begin

text \<open>
  Decisions of the digital twin (\<open>digital_twin/models.py\<close>, \<open>digital_twin/decision.py\<close>): the
  scenario table, the rule-based decision it gives, the assistant's answers and their
  validation, and the reconciliation that says whether a person has to decide.
\<close>

subsection \<open>Models\<close>

definition scenarios :: "string list" where
  "scenarios = [''slow_wifi'', ''no_service'', ''intermittent_service'', ''iptv_degradation'', ''fiber_cut'',
     ''hfc_ingress'', ''congestion'', ''power_outage'', ''storm'', ''flooding'', ''hurricane'',
     ''provisioning_error'', ''cpe_failure'']"

definition side_effect_actions :: "string list" where
  "side_effect_actions = [''remote_repair'', ''dispatch_clean'', ''create_mr'', ''plant_repair'', ''cpe_swap'']"

definition twin_domains :: "string list" where
  "twin_domains = [''cpe'', ''wifi_or_home'', ''premise_wiring'', ''drop'', ''hfc_tap'', ''pon_odp'',
     ''shared_network'', ''plant'', ''provisioning'', ''unknown'']"

record twin_agent =
  ta_source :: string
  ta_provider_status :: string
  ta_domain :: string
  ta_best :: string
  ta_next :: string
  ta_confidence :: rat
  ta_safe :: bool
  ta_evidence :: "string list"
  ta_rationale :: string

text \<open>The constraints the model class puts on an answer.\<close>

definition check_agent :: "twin_agent \<Rightarrow> twin_agent res" where
  "check_agent a =
     (if \<not> List.member [''llm'', ''fake'', ''disabled'', ''unavailable'', ''invalid''] (ta_source a)
      then Inl (ValidationError ''source'')
      else if \<not> List.member [''ok'', ''fake'', ''disabled'', ''unavailable'', ''invalid''] (ta_provider_status a)
      then Inl (ValidationError ''provider_status'')
      else if \<not> List.member twin_domains (ta_domain a) then Inl (ValidationError ''recommended_domain'')
      else if ta_confidence a < 0 \<or> 1 < ta_confidence a then Inl (ValidationError ''confidence'')
      else Inr a)"

record reconciliation =
  rc_independent :: bool
  rc_domain :: bool
  rc_action :: bool
  rc_evidence :: bool
  rc_human :: bool
  rc_reason :: string

record human_decision =
  hd_case :: string
  hd_revision :: int
  hd_response :: string
  hd_actor :: string
  hd_rationale :: string

definition check_human :: "human_decision \<Rightarrow> human_decision res" where
  "check_human h =
     (if hd_revision h < 1 then Inl (ValidationError ''revision'')
      else if \<not> List.member [''approve'', ''reject'', ''request_evidence'', ''escalate''] (hd_response h)
      then Inl (ValidationError ''response'')
      else if length (hd_actor h) < 1 \<or> 80 < length (hd_actor h) then Inl (ValidationError ''actor'')
      else if length (hd_rationale h) < 1 \<or> 1000 < length (hd_rationale h) then Inl (ValidationError ''rationale'')
      else Inr h)"

text \<open>The scenarios of a generation request: known ones only, at least one, each once.\<close>

definition validate_scenarios :: "string list \<Rightarrow> string list res" where
  "validate_scenarios value =
     (let unknown = filter (\<lambda>s. \<not> List.member scenarios s) value in
      if unknown \<noteq> [] then Inl (ValueError ''unknown scenarios'')
      else if value = [] then Inl (ValueError ''at least one scenario is required'')
      else Inr (dedup value))"

subsection \<open>The scenario table\<close>

record scenario_policy =
  sp_domain :: string
  sp_best :: string
  sp_next :: string
  sp_technologies :: "string list"
  sp_restores :: bool

definition all_technologies :: "string list" where
  "all_technologies = [''HFC'', ''GPON'', ''XGS-PON'']"

definition on_all :: "string \<Rightarrow> string \<Rightarrow> string \<Rightarrow> scenario_policy" where
  "on_all domain best next_best =
     \<lparr>sp_domain = domain, sp_best = best, sp_next = next_best, sp_technologies = all_technologies,
      sp_restores = True\<rparr>"

definition scenario_policies :: "(string \<times> scenario_policy) list" where
  "scenario_policies =
     [(''slow_wifi'', on_all ''wifi_or_home'' ''remote_repair'' ''dispatch_clean''),
      (''no_service'', on_all ''drop'' ''dispatch_clean'' ''create_mr''),
      (''intermittent_service'', on_all ''drop'' ''dispatch_clean'' ''create_mr''),
      (''iptv_degradation'', on_all ''wifi_or_home'' ''remote_repair'' ''dispatch_clean''),
      (''fiber_cut'', on_all ''plant'' ''create_mr'' ''plant_repair''),
      (''hfc_ingress'', (on_all ''hfc_tap'' ''create_mr'' ''plant_repair'')\<lparr>sp_technologies := [''HFC'']\<rparr>),
      (''congestion'', (on_all ''shared_network'' ''collect_evidence'' ''plant_repair'')\<lparr>sp_restores := False\<rparr>),
      (''power_outage'', (on_all ''shared_network'' ''collect_evidence'' ''plant_repair'')\<lparr>sp_restores := False\<rparr>),
      (''storm'', on_all ''plant'' ''create_mr'' ''plant_repair''),
      (''flooding'', on_all ''plant'' ''create_mr'' ''plant_repair''),
      (''hurricane'', on_all ''plant'' ''create_mr'' ''plant_repair''),
      (''provisioning_error'', on_all ''provisioning'' ''remote_repair'' ''dispatch_clean''),
      (''cpe_failure'', on_all ''cpe'' ''cpe_swap'' ''dispatch_clean'')]"

record rule_decision =
  rd_domain :: string
  rd_best :: string
  rd_next :: string
  rd_evidence :: "string list"
  rd_eligible :: "string list"

definition deterministic_decision :: "string \<Rightarrow> string list \<Rightarrow> rule_decision res" where
  "deterministic_decision scenario evidence_ids =
     (case map_of scenario_policies scenario of
        None \<Rightarrow> Inl (KeyError scenario)
      | Some policy \<Rightarrow> Inr
          \<lparr>rd_domain = sp_domain policy, rd_best = sp_best policy, rd_next = sp_next policy,
           rd_evidence = evidence_ids,
           rd_eligible = dedup [sp_best policy, sp_next policy, ''collect_evidence'']\<rparr>)"

subsection \<open>The assistant's answers\<close>

definition fake_agent_decision :: "rule_decision \<Rightarrow> twin_agent" where
  "fake_agent_decision d =
     \<lparr>ta_source = ''fake'', ta_provider_status = ''fake'', ta_domain = rd_domain d, ta_best = rd_best d,
      ta_next = rd_next d, ta_confidence = 1/2, ta_safe = False, ta_evidence = rd_evidence d,
      ta_rationale = ''Offline fake assistant mirrors evidence for display only; it is not independent corroboration.''\<rparr>"

definition unavailable_agent_decision :: "rule_decision \<Rightarrow> twin_agent" where
  "unavailable_agent_decision d =
     \<lparr>ta_source = ''unavailable'', ta_provider_status = ''unavailable'', ta_domain = ''unknown'',
      ta_best = ''collect_evidence'', ta_next = rd_next d, ta_confidence = 0, ta_safe = False,
      ta_evidence = rd_evidence d, ta_rationale = ''Model unavailable; route to human review.''\<rparr>"

definition disabled_agent_decision :: "rule_decision \<Rightarrow> twin_agent" where
  "disabled_agent_decision d =
     \<lparr>ta_source = ''disabled'', ta_provider_status = ''disabled'', ta_domain = ''unknown'',
      ta_best = ''collect_evidence'', ta_next = rd_next d, ta_confidence = 0, ta_safe = False,
      ta_evidence = rd_evidence d,
      ta_rationale = ''External model disabled; route consequential decisions to human review.''\<rparr>"

text \<open>
  The answer of a run's configured assistant. The client of the language model is not
  program code: \<open>invoke\<close> stands for building it and asking it, and gives an exception or an
  unvalidated answer.
\<close>

record twin_llm =
  tl_provider :: string
  tl_enabled :: bool
  tl_model :: string
  tl_api_key :: string
  tl_invoke :: "twin_agent res"

definition twin_agent_decision :: "twin_llm \<Rightarrow> rule_decision \<Rightarrow> twin_agent" where
  "twin_agent_decision c d =
     (if tl_provider c = ''fake'' then fake_agent_decision d
      else if tl_provider c = ''disabled'' \<or> \<not> tl_enabled c then disabled_agent_decision d
      else if tl_api_key c = [] \<or> tl_model c = [] then unavailable_agent_decision d
      else case bindR (tl_invoke c) check_agent of
             Inl _ \<Rightarrow> unavailable_agent_decision d
           | Inr a \<Rightarrow> a)"

subsection \<open>Reconciliation\<close>

definition flagged :: "(bool \<times> string) list \<Rightarrow> string list" where
  "flagged fs = map snd (filter fst fs)"

definition reconcile_twin :: "rule_decision \<Rightarrow> twin_agent \<Rightarrow> string list \<Rightarrow> reconciliation" where
  "reconcile_twin d a valid_evidence =
     (let independent = (ta_source a = ''llm'' \<and> ta_provider_status a = ''ok'');
          domain_agreement = (ta_domain a = rd_domain d);
          action_agreement = (ta_best a = rd_best d);
          evidence_valid = (ta_evidence a \<noteq> [] \<and> list_all (List.member valid_evidence) (ta_evidence a));
          side_effect = List.member side_effect_actions (rd_best d);
          automation_safe = (ta_safe a \<and> 80/100 \<le> ta_confidence a);
          reasons = flagged
            [(\<not> independent, ''model_not_independent''), (\<not> domain_agreement, ''domain_disagreement''),
             (\<not> action_agreement, ''action_disagreement''), (\<not> evidence_valid, ''invalid_evidence''),
             (side_effect, ''side_effect_requires_human''),
             (\<not> automation_safe, ''automation_not_safe_or_low_confidence'')]
      in \<lparr>rc_independent = independent, rc_domain = domain_agreement, rc_action = action_agreement,
          rc_evidence = evidence_valid,
          rc_human = (\<not> independent \<or> \<not> domain_agreement \<or> \<not> action_agreement \<or> \<not> evidence_valid \<or>
             side_effect \<or> \<not> automation_safe),
          rc_reason = (if reasons \<noteq> [] then join '','' reasons else ''read_only_agreement'')\<rparr>)"

definition reconcile_with_operating_controls ::
  "rule_decision \<Rightarrow> twin_agent \<Rightarrow> string list \<Rightarrow> bool \<Rightarrow> reconciliation" where
  "reconcile_with_operating_controls d a valid_evidence repeat =
     (let base = reconcile_twin d a valid_evidence in
      if \<not> repeat then base
      else
        (let reasons = filter (\<lambda>r. r \<noteq> [] \<and> r \<noteq> ''read_only_agreement'') (split_on (CHR '','') (rc_reason base));
             reasons' = (if List.member reasons ''repeat_requires_supervisor'' then reasons
                         else reasons @ [''repeat_requires_supervisor''])
         in base\<lparr>rc_human := True, rc_reason := join '','' reasons'\<rparr>))"

subsection \<open>Facts\<close>

text \<open>Every scenario of the model has a row, and the rows name domains of the model.\<close>

lemma scenario_policies_complete:
  "map fst scenario_policies = scenarios"
  "list_all (\<lambda>p. sp_domain (snd p) \<in> set twin_domains \<and> sp_best (snd p) \<noteq> sp_next (snd p) \<and>
      sp_technologies (snd p) \<noteq> []) scenario_policies"
  by (simp_all add: scenario_policies_def scenarios_def on_all_def twin_domains_def all_technologies_def)

lemma scenario_policy_actions:
  assumes "map_of scenario_policies scenario = Some p"
  shows "sp_best p = ''collect_evidence'' \<or> sp_best p \<in> set side_effect_actions"
  using map_of_SomeD [OF assms]
  by (auto simp: scenario_policies_def on_all_def side_effect_actions_def)

lemma deterministic_decision_Inr:
  assumes "deterministic_decision scenario ev = Inr d"
  shows "rd_best d \<in> set (rd_eligible d)" "rd_best d = ''collect_evidence'' \<or> rd_best d \<in> set side_effect_actions"
    and "rd_domain d \<in> set twin_domains" "rd_evidence d = ev"
proof -
  obtain p where p: "map_of scenario_policies scenario = Some p"
    using assms by (auto simp: deterministic_decision_def split: option.splits)
  then have mem: "(scenario, p) \<in> set scenario_policies" by (rule map_of_SomeD)
  then have "sp_best p = ''collect_evidence'' \<or> sp_best p \<in> set side_effect_actions" "sp_domain p \<in> set twin_domains"
    by (auto simp: scenario_policies_def on_all_def side_effect_actions_def twin_domains_def)
  with assms p show "rd_best d \<in> set (rd_eligible d)" "rd_evidence d = ev"
    "rd_best d = ''collect_evidence'' \<or> rd_best d \<in> set side_effect_actions" "rd_domain d \<in> set twin_domains"
    by (auto simp: deterministic_decision_def)
qed

lemma check_agent_Inr: "check_agent a = Inr b \<Longrightarrow> b = a"
  unfolding check_agent_def by (split if_split_asm; simp?)+

lemma check_agent_idem: "check_agent a = Inr b \<Longrightarrow> check_agent b = Inr b"
  using check_agent_Inr by blast

lemma twin_agent_decision_cases:
  "twin_agent_decision c d \<in> {fake_agent_decision d, disabled_agent_decision d, unavailable_agent_decision d} \<or>
   check_agent (twin_agent_decision c d) = Inr (twin_agent_decision c d)"
  by (cases "bindR (tl_invoke c) check_agent")
     (auto simp: twin_agent_decision_def bindR_eq_Inr check_agent_idem)

text \<open>Exactly when a case needs no person.\<close>

lemma reconcile_auto_iff:
  "\<not> rc_human (reconcile_with_operating_controls d a ev repeat) \<longleftrightarrow>
     \<not> repeat \<and> ta_source a = ''llm'' \<and> ta_provider_status a = ''ok'' \<and> ta_domain a = rd_domain d \<and>
     ta_best a = rd_best d \<and> ta_evidence a \<noteq> [] \<and> set (ta_evidence a) \<subseteq> set ev \<and>
     rd_best d \<notin> set side_effect_actions \<and> ta_safe a \<and> 80/100 \<le> ta_confidence a"
proof -
  have base: "rc_human (reconcile_twin d a ev) \<longleftrightarrow>
      \<not> (ta_source a = ''llm'' \<and> ta_provider_status a = ''ok'') \<or> ta_domain a \<noteq> rd_domain d \<or>
      ta_best a \<noteq> rd_best d \<or> \<not> (ta_evidence a \<noteq> [] \<and> set (ta_evidence a) \<subseteq> set ev) \<or>
      rd_best d \<in> set side_effect_actions \<or> \<not> (ta_safe a \<and> 80/100 \<le> ta_confidence a)"
    unfolding reconcile_twin_def Let_def by (simp only: reconciliation.simps List.member_iff subset_code(1) list_all_iff) simp
  show ?thesis
  proof (cases repeat)
    case True
    then show ?thesis by (simp add: reconcile_with_operating_controls_def Let_def)
  next
    case False
    then have "reconcile_with_operating_controls d a ev repeat = reconcile_twin d a ev"
      by (simp add: reconcile_with_operating_controls_def Let_def)
    with False base show ?thesis by (simp only: de_Morgan_disj not_not simp_thms conj_assoc)
  qed
qed

lemma flagged_subset: "set (flagged fs) \<subseteq> snd ` set fs"
  by (auto simp: flagged_def)

lemma flagged_Nil: "flagged fs = [] \<longleftrightarrow> (\<forall>p \<in> set fs. \<not> fst p)"
  by (simp add: flagged_def filter_empty_conv)

definition reason_texts :: "string list" where
  "reason_texts = [''model_not_independent'', ''domain_disagreement'', ''action_disagreement'',
     ''invalid_evidence'', ''side_effect_requires_human'', ''automation_not_safe_or_low_confidence'']"

lemma reasons_plain:
  assumes "r \<in> set (flagged (zip bs reason_texts))"
  shows "CHR '','' \<notin> set r" "r \<noteq> []" "r \<noteq> ''read_only_agreement''" "r \<noteq> ''repeat_requires_supervisor''"
proof -
  have "r \<in> set reason_texts"
    using assms by (auto simp: flagged_def dest: set_zip_rightD)
  moreover have "list_all (\<lambda>r. CHR '','' \<notin> set r \<and> r \<noteq> [] \<and> r \<noteq> ''read_only_agreement'' \<and>
      r \<noteq> ''repeat_requires_supervisor'') reason_texts"
    by (simp add: reason_texts_def)
  ultimately show "CHR '','' \<notin> set r" "r \<noteq> []" "r \<noteq> ''read_only_agreement''" "r \<noteq> ''repeat_requires_supervisor''"
    by (auto simp: list_all_iff)
qed

text \<open>The reason given for a repeat is the first answer's reasons and the repeat's own.\<close>

lemma repeat_reason:
  "rc_reason (reconcile_with_operating_controls d a ev True) =
     (if rc_human (reconcile_twin d a ev)
      then rc_reason (reconcile_twin d a ev) @ '','' @ ''repeat_requires_supervisor''
      else ''repeat_requires_supervisor'')"
proof -
  define rs where "rs = flagged (zip
      [\<not> (ta_source a = ''llm'' \<and> ta_provider_status a = ''ok''), ta_domain a \<noteq> rd_domain d, ta_best a \<noteq> rd_best d,
       \<not> (ta_evidence a \<noteq> [] \<and> list_all (List.member ev) (ta_evidence a)),
       List.member side_effect_actions (rd_best d), \<not> (ta_safe a \<and> 80/100 \<le> ta_confidence a)] reason_texts)"
  have rc: "rc_reason (reconcile_twin d a ev) = (if rs \<noteq> [] then join '','' rs else ''read_only_agreement'')"
    by (simp add: reconcile_twin_def Let_def rs_def reason_texts_def)
  have hum: "rc_human (reconcile_twin d a ev) \<longleftrightarrow> rs \<noteq> []"
    by (simp add: reconcile_twin_def Let_def rs_def reason_texts_def flagged_Nil; blast)
  have plain: "CHR '','' \<notin> set r" "r \<noteq> []" "r \<noteq> ''read_only_agreement''" "r \<noteq> ''repeat_requires_supervisor''"
    if "r \<in> set rs" for r
    using reasons_plain that unfolding rs_def by blast+
  have join_snoc: "join s (xs @ [x]) = join s xs @ s @ x" if "xs \<noteq> []" for s x and xs :: "string list"
    using that by (induction s xs rule: join.induct) auto
  show ?thesis
  proof (cases "rs = []")
    case True
    have "split_on (CHR '','') ''read_only_agreement'' = [''read_only_agreement'']"
      by (rule split_on_plain) simp
    with True rc hum show ?thesis
      by (simp add: reconcile_with_operating_controls_def Let_def)
  next
    case False
    have "split_on (CHR '','') (join '','' rs) = rs"
      by (rule split_on_join) (use False plain in auto)
    moreover have "filter (\<lambda>r. r \<noteq> [] \<and> r \<noteq> ''read_only_agreement'') rs = rs"
      using plain by (auto simp: filter_id_conv)
    moreover have "''repeat_requires_supervisor'' \<notin> set rs"
      using plain by blast
    ultimately show ?thesis
      using False rc hum by (simp add: reconcile_with_operating_controls_def Let_def join_snoc)
  qed
qed

end
