(* ===== verification/TwinCase.thy ===== *)
theory TwinCase
  imports EffectStore TwinDecision
begin

text \<open>
  The durable cases of the digital twin (\<open>digital_twin/workflow.py\<close>): one row per case, its
  revision, state, decision and simulated effect. An operation reads the row, decides on what
  it read, and updates the row only when revision and state are still the ones it expects; each
  operation is given both as one call and as the part that runs after the read. The JSON
  columns are kept as the values they encode.
\<close>

subsection \<open>Rows\<close>

datatype twin_state =
    WAITING_HUMAN | READY_AUTO | ACTION_SIMULATED | NEEDS_EVIDENCE | TWIN_ESCALATED | CLOSED_SIMULATED

fun twin_state_value :: "twin_state \<Rightarrow> string" where
  "twin_state_value WAITING_HUMAN = ''WAITING_HUMAN''"
| "twin_state_value READY_AUTO = ''READY_AUTO''"
| "twin_state_value ACTION_SIMULATED = ''ACTION_SIMULATED''"
| "twin_state_value NEEDS_EVIDENCE = ''NEEDS_EVIDENCE''"
| "twin_state_value TWIN_ESCALATED = ''ESCALATED''"
| "twin_state_value CLOSED_SIMULATED = ''CLOSED_SIMULATED''"

record sim_effect =
  se_action :: string
  se_outcome :: string
  se_production_write :: bool
  se_authorization :: "string option"
  se_rationale :: "string option"
  se_key :: string

record case_row =
  tc_revision :: int
  tc_state :: twin_state
  tc_eligible :: "string list"
  tc_proposed :: string
  tc_decision :: "human_decision option"
  tc_effect :: "sim_effect option"
  tc_updated :: string

type_synonym case_store = "(string \<times> case_row) list"

text \<open>The given time, or the clock's when none (or an empty one) is given.\<close>

definition now_text :: "string \<Rightarrow> string option \<Rightarrow> string" where
  "now_text clock t = (case t of None \<Rightarrow> clock | Some s \<Rightarrow> if s = [] then clock else s)"

definition new_case :: "string \<Rightarrow> string list \<Rightarrow> bool \<Rightarrow> string \<Rightarrow> case_row" where
  "new_case proposed eligible human_review_required updated =
     \<lparr>tc_revision = 1, tc_state = (if human_review_required then WAITING_HUMAN else READY_AUTO),
      tc_eligible = eligible, tc_proposed = proposed, tc_decision = None, tc_effect = None,
      tc_updated = updated\<rparr>"

subsection \<open>Operations\<close>

definition case_get :: "string \<Rightarrow> (case_store, case_row) eff" where
  "case_get case_id = (\<lambda>st. case map_of st case_id of
       None \<Rightarrow> (Inl (KeyError case_id), st)
     | Some row \<Rightarrow> (Inr row, st))"

definition create_case ::
  "string \<Rightarrow> string \<Rightarrow> string \<Rightarrow> string list \<Rightarrow> bool \<Rightarrow> string option \<Rightarrow> (case_store, case_row) eff" where
  "create_case clock case_id proposed eligible human_review_required t =
     bindE (updE (insert_or_ignore case_id (new_case proposed eligible human_review_required (now_text clock t))))
       (\<lambda>_. case_get case_id)"

definition create_pending ::
  "string \<Rightarrow> string \<Rightarrow> string \<Rightarrow> string list \<Rightarrow> string option \<Rightarrow> (case_store, case_row) eff" where
  "create_pending clock case_id proposed eligible t = create_case clock case_id proposed eligible True t"

text \<open>\<open>UPDATE .. WHERE case_id=? AND revision=? AND state=..\<close>, raising when no row matched.\<close>

definition update_case :: "string \<Rightarrow> int \<Rightarrow> twin_state \<Rightarrow> (case_row \<Rightarrow> case_row) \<Rightarrow> (case_store, unit) eff" where
  "update_case case_id revision state f = (\<lambda>st. case map_of st case_id of
       None \<Rightarrow> (Inl (ValueError ''concurrent or stale case update''), st)
     | Some row \<Rightarrow>
         if tc_revision row = revision \<and> tc_state row = state then (Inr (), dset case_id (f row) st)
         else (Inl (ValueError ''concurrent or stale case update''), st))"

definition effect_key :: "string \<Rightarrow> int \<Rightarrow> string \<Rightarrow> string" where
  "effect_key case_id revision action = case_id @ '':'' @ int_str revision @ '':'' @ action"

text \<open>The state and effect a decision leads to, from the row that was read.\<close>

definition decide_plan :: "case_row \<Rightarrow> human_decision \<Rightarrow> (twin_state \<times> sim_effect option) res" where
  "decide_plan current d =
     (if tc_state current \<noteq> WAITING_HUMAN then Inl (ValueError ''case is not waiting for human review'')
      else if tc_revision current \<noteq> hd_revision d then Inl (ValueError ''stale decision revision'')
      else if hd_response d = ''approve''
      then if tc_proposed current \<notin> set (tc_eligible current)
           then Inl (ValueError ''proposed action is not eligible'')
           else Inr (ACTION_SIMULATED, Some
             \<lparr>se_action = tc_proposed current, se_outcome = ''SIMULATED'', se_production_write = False,
              se_authorization = None, se_rationale = None,
              se_key = effect_key (hd_case d) (hd_revision d) (tc_proposed current)\<rparr>)
      else if hd_response d = ''request_evidence'' then Inr (NEEDS_EVIDENCE, None)
      else Inr (TWIN_ESCALATED, None))"

definition decide_commit ::
  "string \<Rightarrow> human_decision \<Rightarrow> string option \<Rightarrow> case_row \<Rightarrow> (case_store, case_row) eff" where
  "decide_commit clock d t current =
     bindE (liftE (decide_plan current d)) (\<lambda>(state, eff).
     bindE (update_case (hd_case d) (hd_revision d) WAITING_HUMAN
         (\<lambda>row. row\<lparr>tc_revision := hd_revision d + 1, tc_state := state, tc_decision := Some d,
            tc_effect := eff, tc_updated := now_text clock t\<rparr>)) (\<lambda>_.
     case_get (hd_case d)))"

definition case_decide :: "string \<Rightarrow> human_decision \<Rightarrow> string option \<Rightarrow> (case_store, case_row) eff" where
  "case_decide clock d t = bindE (case_get (hd_case d)) (decide_commit clock d t)"

definition auto_plan :: "string \<Rightarrow> string \<Rightarrow> case_row \<Rightarrow> sim_effect res" where
  "auto_plan case_id rationale current =
     (if tc_state current \<noteq> READY_AUTO then Inl (ValueError ''case is not eligible for automatic execution'')
      else if tc_proposed current \<notin> set (tc_eligible current)
      then Inl (ValueError ''proposed action is not eligible'')
      else Inr \<lparr>se_action = tc_proposed current, se_outcome = ''SIMULATED'', se_production_write = False,
              se_authorization = Some ''POLICY_AUTO'', se_rationale = Some rationale,
              se_key = effect_key case_id (tc_revision current) (tc_proposed current)\<rparr>)"

definition auto_commit ::
  "string \<Rightarrow> string \<Rightarrow> string \<Rightarrow> string option \<Rightarrow> case_row \<Rightarrow> (case_store, case_row) eff" where
  "auto_commit clock case_id rationale t current =
     bindE (liftE (auto_plan case_id rationale current)) (\<lambda>eff.
     bindE (update_case case_id (tc_revision current) READY_AUTO
         (\<lambda>row. row\<lparr>tc_revision := tc_revision current + 1, tc_state := ACTION_SIMULATED,
            tc_effect := Some eff, tc_updated := now_text clock t\<rparr>)) (\<lambda>_.
     case_get case_id))"

definition auto_execute :: "string \<Rightarrow> string \<Rightarrow> string \<Rightarrow> string option \<Rightarrow> (case_store, case_row) eff" where
  "auto_execute clock case_id rationale t = bindE (case_get case_id) (auto_commit clock case_id rationale t)"

definition verify_commit :: "string \<Rightarrow> string \<Rightarrow> string option \<Rightarrow> case_row \<Rightarrow> (case_store, case_row) eff" where
  "verify_commit clock case_id t current =
     (if tc_state current \<noteq> ACTION_SIMULATED
      then liftE (Inl (ValueError ''case has no simulated action to verify''))
      else bindE (update_case case_id (tc_revision current) ACTION_SIMULATED
         (\<lambda>row. row\<lparr>tc_revision := tc_revision current + 1, tc_state := CLOSED_SIMULATED,
            tc_updated := now_text clock t\<rparr>)) (\<lambda>_.
     case_get case_id))"

definition mark_verified :: "string \<Rightarrow> string \<Rightarrow> string option \<Rightarrow> (case_store, case_row) eff" where
  "mark_verified clock case_id t = bindE (case_get case_id) (verify_commit clock case_id t)"

text \<open>The guards of the decision route: who may decide, and only under the own name.\<close>

definition may_decide :: "string \<Rightarrow> string \<Rightarrow> human_decision \<Rightarrow> unit res" where
  "may_decide user role d =
     (if role \<noteq> ''operator'' \<and> role \<noteq> ''supervisor'' then Inl (HTTPException 403 ''role cannot decide'')
      else if hd_actor d \<noteq> user then Inl (HTTPException 400 ''actor must be the authenticated principal'')
      else Inr ())"

subsection \<open>Histories\<close>

text \<open>
  A request that has read its row and has not yet updated it. Several requests, each on a
  connection of its own, run their two parts in any order.
\<close>

datatype request =
    Decide string human_decision "string option"
  | Auto string string string "string option"
  | Verify string string "string option"

fun target :: "request \<Rightarrow> string" where
  "target (Decide clock d t) = hd_case d"
| "target (Auto clock case_id rationale t) = case_id"
| "target (Verify clock case_id t) = case_id"

fun commit :: "request \<Rightarrow> case_row \<Rightarrow> (case_store, case_row) eff" where
  "commit (Decide clock d t) = decide_commit clock d t"
| "commit (Auto clock case_id rationale t) = auto_commit clock case_id rationale t"
| "commit (Verify clock case_id t) = verify_commit clock case_id t"

fun perform_request :: "request \<Rightarrow> (case_store, case_row) eff" where
  "perform_request (Decide clock d t) = case_decide clock d t"
| "perform_request (Auto clock case_id rationale t) = auto_execute clock case_id rationale t"
| "perform_request (Verify clock case_id t) = mark_verified clock case_id t"

type_synonym twin_config = "case_store \<times> (request \<times> case_row) list"

inductive twin_step :: "twin_config \<Rightarrow> twin_config \<Rightarrow> bool" where
  create: "twin_step (st, ps) (snd (create_case clock case_id proposed eligible human t st), ps)"
| read: "case_get (target q) st = (Inr row, st) \<Longrightarrow> twin_step (st, ps) (st, (q, row) # ps)"
| update: "(q, row) \<in> set ps \<Longrightarrow> twin_step (st, ps) (snd (commit q row st), remove1 (q, row) ps)"

inductive_cases twin_stepE: "twin_step c c'"

text \<open>The specification: one whole operation at a time.\<close>

inductive case_step :: "case_store \<Rightarrow> case_store \<Rightarrow> bool" where
  create: "case_step st (snd (create_case clock case_id proposed eligible human t st))"
| operate: "case_step st (snd (perform_request q st))"

inductive_cases case_stepE: "case_step st st'"

subsection \<open>The invariant of a row\<close>

definition executed_row :: "string \<Rightarrow> case_row \<Rightarrow> bool" where
  "executed_row k r \<longleftrightarrow> (case tc_effect r of
       None \<Rightarrow> False
     | Some e \<Rightarrow> tc_proposed r \<in> set (tc_eligible r) \<and> se_action e = tc_proposed r \<and>
         \<not> se_production_write e \<and> se_key e = effect_key k 1 (tc_proposed r) \<and>
         (case tc_decision r of
            None \<Rightarrow> se_authorization e = Some ''POLICY_AUTO''
          | Some h \<Rightarrow> se_authorization e = None \<and> hd_case h = k \<and> hd_revision h = 1 \<and>
              hd_response h = ''approve''))"

definition refused_row :: "string \<Rightarrow> case_row \<Rightarrow> bool \<Rightarrow> bool" where
  "refused_row k r evidence \<longleftrightarrow> tc_effect r = None \<and> (case tc_decision r of
       None \<Rightarrow> False
     | Some h \<Rightarrow> hd_case h = k \<and> hd_revision h = 1 \<and> hd_response h \<noteq> ''approve'' \<and>
         (hd_response h = ''request_evidence'' \<longleftrightarrow> evidence))"

fun state_ok :: "string \<Rightarrow> case_row \<Rightarrow> twin_state \<Rightarrow> bool" where
  "state_ok k r WAITING_HUMAN \<longleftrightarrow> tc_revision r = 1 \<and> tc_decision r = None \<and> tc_effect r = None"
| "state_ok k r READY_AUTO \<longleftrightarrow> tc_revision r = 1 \<and> tc_decision r = None \<and> tc_effect r = None"
| "state_ok k r ACTION_SIMULATED \<longleftrightarrow> tc_revision r = 2 \<and> executed_row k r"
| "state_ok k r CLOSED_SIMULATED \<longleftrightarrow> tc_revision r = 3 \<and> executed_row k r"
| "state_ok k r NEEDS_EVIDENCE \<longleftrightarrow> tc_revision r = 2 \<and> refused_row k r True"
| "state_ok k r TWIN_ESCALATED \<longleftrightarrow> tc_revision r = 2 \<and> refused_row k r False"

definition row_ok :: "string \<Rightarrow> case_row \<Rightarrow> bool" where
  "row_ok k r \<longleftrightarrow> state_ok k r (tc_state r)"

definition store_ok :: "case_store \<Rightarrow> bool" where
  "store_ok st \<longleftrightarrow> (\<forall>k r. map_of st k = Some r \<longrightarrow> row_ok k r)"

text \<open>\<open>snap\<close> is a version the row of the case went through, the last one or an earlier one.\<close>

definition version_of :: "case_store \<Rightarrow> string \<Rightarrow> case_row \<Rightarrow> bool" where
  "version_of st k snap \<longleftrightarrow> (case map_of st k of
       None \<Rightarrow> False
     | Some r \<Rightarrow> tc_proposed snap = tc_proposed r \<and> tc_eligible snap = tc_eligible r \<and> row_ok k snap \<and>
         (snap = r \<or> tc_revision snap < tc_revision r))"

definition config_ok :: "twin_config \<Rightarrow> bool" where
  "config_ok c \<longleftrightarrow> store_ok (fst c) \<and> (\<forall>(q, snap) \<in> set (snd c). version_of (fst c) (target q) snap)"

subsection \<open>What one operation does\<close>

lemma case_get_eq: "case_get k st = (case map_of st k of None \<Rightarrow> Inl (KeyError k) | Some r \<Rightarrow> Inr r, st)"
  by (simp add: case_get_def split: option.split)

lemma case_get_Inr [simp]: "case_get k st = (Inr r, st') \<longleftrightarrow> map_of st k = Some r \<and> st' = st"
  by (auto simp: case_get_eq split: option.splits)

lemma create_case_eq:
  "create_case clock k p el h t st =
     case_get k (insert_or_ignore k (new_case p el h (now_text clock t)) st)"
  by (simp add: create_case_def)

lemma snd_create_case [simp]:
  "snd (create_case clock k p el h t st) = insert_or_ignore k (new_case p el h (now_text clock t)) st"
  by (simp add: create_case_eq case_get_eq)

lemma row_ok_new [simp]: "row_ok k (new_case p el h u)"
  by (simp add: row_ok_def new_case_def)

text \<open>
  An update after a read either leaves the store alone or moves the one row, which was exactly
  the row that was read in revision and state, to a row of the next revision. A row that waits
  for a person only moves on with a decision.
\<close>

definition gated :: "case_row \<Rightarrow> bool" where
  "gated r \<longleftrightarrow> tc_state r = WAITING_HUMAN \<or> tc_decision r \<noteq> None"

definition moved :: "string \<Rightarrow> case_row \<Rightarrow> case_row \<Rightarrow> bool" where
  "moved k r r' \<longleftrightarrow> tc_revision r' = tc_revision r + 1 \<and> tc_proposed r' = tc_proposed r \<and>
     tc_eligible r' = tc_eligible r \<and> (gated r \<longrightarrow> gated r') \<and> row_ok k r'"

lemma perform_request_eq:
  "perform_request q st = (case map_of st (target q) of
       None \<Rightarrow> (Inl (KeyError (target q)), st)
     | Some r \<Rightarrow> commit q r st)"
  by (cases q) (auto simp: case_decide_def auto_execute_def mark_verified_def bindE_def case_get_eq
      split: option.splits)

text \<open>An update refused, or moving the row that was read.\<close>

definition outcome_ok :: "string \<Rightarrow> case_row \<Rightarrow> case_store \<Rightarrow> case_row res \<times> case_store \<Rightarrow> bool" where
  "outcome_ok k snap st out \<longleftrightarrow> (\<exists>e. out = (Inl e, st)) \<or>
     (\<exists>r'. map_of st k = Some snap \<and> moved k snap r' \<and> out = (Inr r', dset k r' st))"

lemma outcome_ok_refused [simp]: "outcome_ok k snap st (Inl e, st)"
  by (simp add: outcome_ok_def)

lemma outcome_ok_update:
  assumes "version_of st k snap"
    and "tc_state snap = s \<Longrightarrow> moved k snap (f snap)"
  shows "outcome_ok k snap st (bindE (update_case k (tc_revision snap) s f) (\<lambda>_. case_get k) st)"
proof -
  obtain r where r: "map_of st k = Some r" "snap = r \<or> tc_revision snap < tc_revision r"
    using assms(1) by (auto simp: version_of_def split: option.splits)
  show ?thesis
  proof (cases "tc_revision r = tc_revision snap \<and> tc_state r = s")
    case True
    then have "r = snap" using r(2) by auto
    with r(1) True assms(2) show ?thesis
      by (simp add: bindE_def update_case_def case_get_eq outcome_ok_def)
  next
    case False
    with r(1) show ?thesis by (auto simp: bindE_def update_case_def outcome_ok_def)
  qed
qed

lemma version_of_row_ok: "version_of st k snap \<Longrightarrow> row_ok k snap"
  by (simp add: version_of_def split: option.splits)

lemma decide_plan_moved:
  assumes "decide_plan snap d = Inr (s, eff)" "row_ok (hd_case d) snap"
  shows "moved (hd_case d) snap (snap\<lparr>tc_revision := hd_revision d + 1, tc_state := s,
     tc_decision := Some d, tc_effect := eff, tc_updated := u\<rparr>)"
proof -
  have wait: "tc_state snap = WAITING_HUMAN" "tc_revision snap = hd_revision d"
    using assms(1) unfolding decide_plan_def by (auto split: if_splits)
  then have one: "hd_revision d = 1" "tc_revision snap = 1"
    using assms(2) by (simp_all add: row_ok_def)
  consider
      (approve) "hd_response d = ''approve''" "tc_proposed snap \<in> set (tc_eligible snap)" "s = ACTION_SIMULATED"
        "eff = Some \<lparr>se_action = tc_proposed snap, se_outcome = ''SIMULATED'', se_production_write = False,
              se_authorization = None, se_rationale = None,
              se_key = effect_key (hd_case d) (hd_revision d) (tc_proposed snap)\<rparr>"
    | (evidence) "hd_response d = ''request_evidence''" "s = NEEDS_EVIDENCE" "eff = None"
    | (refuse) "hd_response d \<noteq> ''approve''" "hd_response d \<noteq> ''request_evidence''" "s = TWIN_ESCALATED" "eff = None"
    using assms(1) wait unfolding decide_plan_def by (simp split: if_splits)
  then show ?thesis
    by cases (simp_all add: moved_def gated_def row_ok_def executed_row_def refused_row_def one)
qed

lemma auto_plan_moved:
  assumes "auto_plan k why snap = Inr eff" "row_ok k snap"
  shows "moved k snap (snap\<lparr>tc_revision := tc_revision snap + 1, tc_state := ACTION_SIMULATED,
     tc_effect := Some eff, tc_updated := u\<rparr>)"
proof -
  have plan: "tc_state snap = READY_AUTO" "tc_proposed snap \<in> set (tc_eligible snap)"
    "eff = \<lparr>se_action = tc_proposed snap, se_outcome = ''SIMULATED'', se_production_write = False,
              se_authorization = Some ''POLICY_AUTO'', se_rationale = Some why,
              se_key = effect_key k (tc_revision snap) (tc_proposed snap)\<rparr>"
    using assms(1) unfolding auto_plan_def by (simp_all split: if_splits)
  then have "tc_revision snap = 1" "tc_decision snap = None"
    using assms(2) by (simp_all add: row_ok_def)
  with plan show ?thesis by (simp add: moved_def gated_def row_ok_def executed_row_def)
qed

lemma verify_moved:
  assumes "tc_state snap = ACTION_SIMULATED" "row_ok k snap"
  shows "moved k snap (snap\<lparr>tc_revision := tc_revision snap + 1, tc_state := CLOSED_SIMULATED, tc_updated := u\<rparr>)"
  using assms by (cases "tc_effect snap"; cases "tc_decision snap")
    (simp_all add: moved_def gated_def row_ok_def executed_row_def)

lemma commit_outcome:
  assumes v: "version_of st (target q) snap"
  shows "outcome_ok (target q) snap st (commit q snap st)"
proof (cases q)
  case (Decide clock d t)
  show ?thesis
  proof (cases "decide_plan snap d")
    case (Inl e)
    then show ?thesis by (simp add: Decide decide_commit_def bindE_def)
  next
    case (Inr p)
    then obtain s eff where p: "decide_plan snap d = Inr (s, eff)" by (cases p) simp
    then have rev: "hd_revision d = tc_revision snap"
      unfolding decide_plan_def by (simp split: if_splits)
    show ?thesis
      using outcome_ok_update [OF v] decide_plan_moved [OF p] version_of_row_ok [OF v]
      by (simp add: Decide decide_commit_def p rev)
  qed
next
  case (Auto clock k why t)
  show ?thesis
  proof (cases "auto_plan k why snap")
    case (Inl e)
    then show ?thesis by (simp add: Auto auto_commit_def bindE_def)
  next
    case (Inr eff)
    then show ?thesis
      using outcome_ok_update [OF v] auto_plan_moved [OF Inr] version_of_row_ok [OF v]
      by (simp add: Auto auto_commit_def)
  qed
next
  case (Verify clock k t)
  then show ?thesis
    using outcome_ok_update [OF v] verify_moved version_of_row_ok [OF v]
    by (simp add: verify_commit_def)
qed

lemma commit_cases:
  assumes "version_of st (target q) snap"
  obtains e where "commit q snap st = (Inl e, st)"
  | r' where "map_of st (target q) = Some snap" "moved (target q) snap r'"
      "commit q snap st = (Inr r', dset (target q) r' st)"
  using commit_outcome [OF assms] that by (auto simp: outcome_ok_def)

text \<open>What was read stays a version of its row, whatever happens to the store.\<close>

lemma version_of_moved:
  assumes "version_of st k' snap" "map_of st k = Some r" "moved k r r'"
  shows "version_of (dset k r' st) k' snap"
  using assms by (auto simp: version_of_def moved_def split: option.splits)

lemma version_of_insert: "version_of st k' snap \<Longrightarrow> version_of (insert_or_ignore k r st) k' snap"
  by (auto simp: version_of_def split: option.splits)

lemma store_ok_moved: "store_ok st \<Longrightarrow> moved k r r' \<Longrightarrow> store_ok (dset k r' st)"
  by (auto simp: store_ok_def moved_def)

lemma store_ok_insert: "store_ok st \<Longrightarrow> row_ok k r \<Longrightarrow> store_ok (insert_or_ignore k r st)"
  by (auto simp: store_ok_def split: if_splits)

lemma version_of_read: "store_ok st \<Longrightarrow> map_of st k = Some r \<Longrightarrow> version_of st k r"
  by (simp add: version_of_def store_ok_def)

lemma config_ok_empty [simp]: "config_ok ([], [])"
  by (simp add: config_ok_def store_ok_def)

lemma commit_config_ok:
  assumes "config_ok (st, ps)" "(q, snap) \<in> set ps"
  shows "config_ok (snd (commit q snap st), ps)"
proof -
  have v: "version_of st (target q) snap" using assms by (auto simp: config_ok_def)
  show ?thesis
    using v
  proof (cases rule: commit_cases)
    case (1 e)
    with assms show ?thesis by simp
  next
    case (2 r')
    with assms show ?thesis
      by (auto simp: config_ok_def intro: store_ok_moved version_of_moved [OF _ 2(1,2)])
  qed
qed

lemma twin_step_ok:
  assumes "twin_step c c'" "config_ok c"
  shows "config_ok c'"
  using assms
proof (cases rule: twin_step.cases)
  case (create st ps clock case_id proposed eligible human t)
  with assms(2) show ?thesis
    by (auto simp: config_ok_def intro: store_ok_insert version_of_insert)
next
  case (read q st row ps)
  with assms(2) show ?thesis
    by (auto simp: config_ok_def intro: version_of_read)
next
  case (update q row ps st)
  with assms(2) have "config_ok (snd (commit q row st), ps)" by (auto intro: commit_config_ok)
  with update show ?thesis
    by (auto simp: config_ok_def dest: notin_set_remove1 set_remove1_subset [THEN subsetD])
qed

lemma twin_steps_ok: "twin_step\<^sup>*\<^sup>* c c' \<Longrightarrow> config_ok c \<Longrightarrow> config_ok c'"
  by (induction rule: rtranclp_induct) (auto intro: twin_step_ok)

text \<open>
  An interleaved update is either refused, leaving the store alone, or it is the whole
  operation, reading the row and updating it at once.
\<close>

lemma commit_is_operation:
  assumes "version_of st (target q) snap"
  shows "(\<exists>e. commit q snap st = (Inl e, st)) \<or> commit q snap st = perform_request q st"
  using assms by (cases rule: commit_cases) (simp_all add: perform_request_eq)

lemma twin_step_refines:
  assumes "twin_step c c'" "config_ok c"
  shows "fst c' = fst c \<or> case_step (fst c) (fst c')"
  using assms
proof (cases rule: twin_step.cases)
  case (create st ps clock case_id proposed eligible human t)
  then show ?thesis by (auto intro: case_step.create simp del: snd_create_case)
next
  case (read q st row ps)
  then show ?thesis by simp
next
  case (update q row ps st)
  then have "version_of st (target q) row" using assms(2) by (auto simp: config_ok_def)
  from commit_is_operation [OF this] show ?thesis
    using update case_step.operate [of st q] by auto
qed

end
