(* ===== verification/TwinRecords.thy ===== *)
theory TwinRecords
  imports TwinDecision PyJson
begin

text \<open>
  The records of a digital-twin run and how they come about (\<open>digital_twin/orchestrator.py\<close>):
  subscribers over the footprint, the case a scenario opens, and everything that follows an
  authorised action. A time is the instant its text denotes, in microseconds. A field the
  program may find missing or empty is an option; the tables of a run are lists in file order.
\<close>

subsection \<open>Instants\<close>

definition seconds :: "int \<Rightarrow> int" where "seconds n = n * 1000000"
definition minutes :: "int \<Rightarrow> int" where "minutes n = seconds (60 * n)"
definition hours_of :: "int \<Rightarrow> int" where "hours_of n = minutes (60 * n)"
definition days_of :: "int \<Rightarrow> int" where "days_of n = hours_of (24 * n)"

lemmas instant_defs = seconds_def minutes_def hours_of_def days_of_def

subsection \<open>Rows\<close>

record subscriber =
  ts_customer :: string
  ts_account :: string
  ts_premise :: string
  ts_service :: string
  ts_device :: string
  ts_serial :: string
  ts_mac :: string
  ts_technology :: string
  ts_region :: string
  ts_delimiter_type :: string
  ts_delimiter :: string
  ts_port :: string

record manifest =
  mf_scenario :: string
  mf_truth_domain :: string
  mf_case :: string
  mf_root_case :: string
  mf_root_incident :: string
  mf_service :: string
  mf_technology :: string
  mf_delimiter_type :: string
  mf_delimiter :: string
  mf_time :: "int option"
  mf_repeat_of :: "string option"
  mf_repeat_sequence :: int
  mf_supervisor :: bool
  mf_lifecycle :: "string option"

record telemetry =
  te_event :: string
  te_case :: "string option"
  te_service :: "string option"
  te_time :: "int option"
  te_collected :: "int option"
  te_technology :: string
  te_health :: string
  te_scenario :: string

record alarm =
  al_event :: string
  al_case :: "string option"
  al_service :: "string option"
  al_time :: "int option"
  al_collected :: "int option"
  al_family :: string
  al_severity :: string

record contact =
  ct_contact :: string
  ct_case :: "string option"
  ct_root_case :: string
  ct_incident :: "string option"
  ct_service :: "string option"
  ct_time :: int
  ct_channel :: string
  ct_repeat :: bool
  ct_repeat_of :: "string option"
  ct_repeat_sequence :: int

record root_incident =
  ri_incident :: string
  ri_case :: string
  ri_root_case :: string
  ri_service :: string
  ri_opened :: "int option"
  ri_resolved :: "int option"
  ri_closed :: "int option"
  ri_status :: string
  ri_scenario :: string
  ri_repeat_count :: int
  ri_reopen_count :: int
  ri_last_repeat :: "int option"
  ri_last_reopened :: "int option"
  ri_prior_closed :: "int option"
  ri_origin :: "string option"
  ri_predictive :: "string option"

record work_order =
  wo_id :: string
  wo_incident :: "string option"
  wo_case :: "string option"
  wo_root_case :: string
  wo_service :: "string option"
  wo_type :: string
  wo_diagnosed :: "int option"
  wo_readiness :: "int option"
  wo_assigned :: "int option"
  wo_dispatched :: "int option"
  wo_arrived :: "int option"
  wo_completed :: "int option"
  wo_distance :: "rat option"
  wo_ferry :: "bool option"
  wo_overnight :: "bool option"
  wo_economics :: string
  wo_crew :: string
  wo_required_skill :: string
  wo_technician_skill :: string
  wo_skill_ok :: bool
  wo_parts :: "string list"
  wo_parts_ok :: bool
  wo_access_ok :: bool
  wo_cpe :: "bool option"
  wo_ready :: bool
  wo_repeat_sequence :: int
  wo_supervised :: bool
  wo_supervisor :: "string option"
  wo_replacement :: "int option"
  wo_preconditions :: "string list"

record field_row =
  fe_id :: string
  fe_case :: "string option"
  fe_root_case :: string
  fe_incident :: "string option"
  fe_service :: "string option"
  fe_work_order :: string
  fe_captured :: "int option"
  fe_delimiter :: "string option"
  fe_measurement :: string
  fe_result :: "string option"
  fe_reason :: string
  fe_photo :: string

record mr_row =
  mr_id :: string
  mr_case :: "string option"
  mr_root_case :: string
  mr_incident :: "string option"
  mr_service :: "string option"
  mr_work_order :: string
  mr_delimiter_type :: string
  mr_delimiter :: "string option"
  mr_evidence :: "string list"
  mr_created :: "int option"
  mr_accepted :: "int option"
  mr_completion_evidence :: "string list"
  mr_completed :: "int option"

record validation =
  va_id :: string
  va_case :: "string option"
  va_root_case :: string
  va_incident :: "string option"
  va_service :: "string option"
  va_time :: "int option"
  va_evidence :: "string list"
  va_service_test :: string
  va_stable :: bool
  va_checklist :: "(string \<times> bool) list"
  va_checklist_time :: "int option"
  va_confirmation :: string

record resolution =
  re_id :: string
  re_case :: "string option"
  re_root_case :: string
  re_incident :: "string option"
  re_service :: "string option"
  re_time :: "int option"
  re_validation :: string
  re_outcome :: string
  re_domain :: string

record human_row =
  hr_case :: string
  hr_status :: string
  hr_revision :: int
  hr_required :: bool
  hr_response :: "string option"
  hr_actor :: "string option"
  hr_decided :: "int option"
  hr_rationale :: "string option"
  hr_source :: string
  hr_supervisor :: bool

record action_row =
  ae_case :: string
  ae_action :: string
  ae_status :: string
  ae_time :: "int option"
  ae_production_write :: bool

record predictive_finding =
  pf_breached :: bool
  pf_days :: "rat option"

record predictive_ticket =
  pk_id :: string
  pk_device :: string
  pk_service :: string
  pk_class :: string
  pk_severity :: string
  pk_opened :: "int option"
  pk_findings :: "predictive_finding list"

record modem_pull =
  mp_id :: string
  mp_service :: string
  mp_device :: string
  mp_kpis :: "(string \<times> rat) list"
  mp_window_days :: int

record care_ticket =
  cr_id :: string
  cr_contact :: string
  cr_case :: string
  cr_root_case :: string
  cr_incident :: string
  cr_service :: string
  cr_device :: string
  cr_opened :: "int option"
  cr_closed :: "int option"
  cr_status :: string
  cr_channel :: string
  cr_category :: string
  cr_summary :: string
  cr_priority :: string
  cr_due :: int
  cr_repeat :: bool
  cr_repeat_sequence :: int
  cr_match :: bool
  cr_predictive :: "string option"
  cr_class :: "string option"
  cr_severity :: "string option"
  cr_disposition :: string
  cr_suppressed :: bool
  cr_production_write :: bool

record care_review =
  cv_care :: string
  cv_case :: string
  cv_incident :: string
  cv_service :: string
  cv_status :: string
  cv_incident_status :: string
  cv_domain :: string
  cv_action :: string
  cv_eligible :: "string list"
  cv_agent_source :: string
  cv_agent_status :: string
  cv_agent_domain :: string
  cv_agent_action :: string
  cv_agent_confidence :: rat
  cv_agent_rationale :: string
  cv_human :: bool
  cv_reason :: string
  cv_match :: bool
  cv_predictive :: "string option"
  cv_disposition :: string
  cv_evidence :: "string list"

record run_rows =
  rr_master :: "subscriber list"
  rr_manifests :: "manifest list"
  rr_telemetry :: "telemetry list"
  rr_alarms :: "alarm list"
  rr_contacts :: "contact list"
  rr_incidents :: "root_incident list"
  rr_work :: "work_order list"
  rr_evidence :: "field_row list"
  rr_mrs :: "mr_row list"
  rr_validations :: "validation list"
  rr_resolutions :: "resolution list"
  rr_rules :: "(string \<times> rule_decision) list"
  rr_agents :: "(string \<times> twin_agent) list"
  rr_reconciliations :: "(string \<times> reconciliation) list"
  rr_humans :: "human_row list"
  rr_actions :: "action_row list"
  rr_pulls :: "modem_pull list"
  rr_tickets :: "predictive_ticket list"
  rr_care :: "care_ticket list"
  rr_reviews :: "care_review list"

definition no_rows :: run_rows where
  "no_rows = \<lparr>rr_master = [], rr_manifests = [], rr_telemetry = [], rr_alarms = [], rr_contacts = [],
     rr_incidents = [], rr_work = [], rr_evidence = [], rr_mrs = [], rr_validations = [],
     rr_resolutions = [], rr_rules = [], rr_agents = [], rr_reconciliations = [], rr_humans = [],
     rr_actions = [], rr_pulls = [], rr_tickets = [], rr_care = [], rr_reviews = []\<rparr>"

text \<open>\<open>next(r for r in xs if ..)\<close> as a reference into the list, and its update in place.\<close>

fun update_first :: "('a \<Rightarrow> bool) \<Rightarrow> ('a \<Rightarrow> 'a) \<Rightarrow> 'a list \<Rightarrow> 'a list" where
  "update_first P f [] = []"
| "update_first P f (x # xs) = (if P x then f x # xs else x # update_first P f xs)"

subsection \<open>The footprint\<close>

definition regions :: "string list" where
  "regions = [''metro'', ''coastal'', ''mountain'', ''remote_island'']"

definition road_km_per_minute :: "(string \<times> rat) list" where
  "road_km_per_minute = [(''metro'', 55/100), (''coastal'', 70/100), (''mountain'', 48/100), (''remote_island'', 30/100)]"

definition closure_checks :: "string list" where
  "closure_checks = [''original_symptom_absent'', ''service_test_passed'', ''telemetry_stable'',
     ''repair_actions_documented'', ''required_measurements_captured'']"

definition technology_of :: "nat \<Rightarrow> nat \<Rightarrow> string" where
  "technology_of i homes =
     (let frac = (of_nat i + 1/2) / (of_nat homes :: rat) in
      if frac \<le> 60/100 then ''HFC'' else if frac \<le> 95/100 then ''GPON'' else ''XGS-PON'')"

definition subscriber_of :: "nat \<Rightarrow> nat \<Rightarrow> subscriber" where
  "subscriber_of i homes =
     (let tech = technology_of i homes;
          delimiter = (if tech = ''HFC'' then ''TAP'' else ''ODP'');
          delimiter_group = i div 8
      in \<lparr>ts_customer = ''CUST-'' @ nat_str_pad 7 (i + 1), ts_account = ''ACCT-'' @ nat_str_pad 7 (i + 1),
          ts_premise = ''PREM-'' @ nat_str_pad 7 (i + 1), ts_service = ''SVC-'' @ nat_str_pad 7 (i + 1),
          ts_device = ''CPE-'' @ nat_str_pad 7 (i + 1), ts_serial = ''LPR'' @ nat_str_pad 10 (2400000000 + i),
          ts_mac = ''02:4c:'' @ hex2 (i div 65536 mod 256) @ '':'' @ hex2 (i div 256 mod 256) @ '':'' @
            hex2 (i mod 256) @ '':'' @ hex2 (i * 17 mod 256),
          ts_technology = tech, ts_region = regions ! (delimiter_group mod length regions),
          ts_delimiter_type = delimiter,
          ts_delimiter = delimiter @ ''-'' @ nat_str_pad 6 (delimiter_group + 1),
          ts_port = tech @ ''-HUB-'' @ nat_str_pad 4 (i div 512 + 1) @ ''-PORT-'' @ nat_str_pad 4 (i mod 512 + 1)\<rparr>)"

text \<open>The subscriber master, refusing a delimiter in two regions.\<close>

fun master_from :: "(string \<times> string) list \<Rightarrow> nat \<Rightarrow> nat list \<Rightarrow> subscriber list res" where
  "master_from region_by_delimiter homes [] = Inr []"
| "master_from region_by_delimiter homes (i # is) =
     (let row = subscriber_of i homes;
          previous = (case map_of region_by_delimiter (ts_delimiter row) of
             None \<Rightarrow> ts_region row | Some r \<Rightarrow> r)
      in if previous \<noteq> ts_region row
         then Inl (ValueError ''subscriber topology assigns multiple regions'')
         else bindR (master_from (dset (ts_delimiter row) previous region_by_delimiter) homes is)
                (\<lambda>rows. Inr (row # rows)))"

definition subscriber_master_rows :: "nat \<Rightarrow> subscriber list res" where
  "subscriber_master_rows homes = master_from [] homes [0..<homes]"

subsection \<open>Volumes and samples\<close>

text \<open>
  The fields of a generation request the tables depend on; the language model's answer is given
  for each case, whose evidence packet it is asked about.
\<close>

record gen_config =
  gc_profile :: string
  gc_homes :: nat
  gc_scenarios :: "string list"
  gc_seed :: int
  gc_llm :: "string \<Rightarrow> twin_llm"
  gc_predictive :: bool
  gc_population :: nat

definition case_rate :: "string \<Rightarrow> rat" where
  "case_rate profile = (if profile = ''smoke'' then 0 else 5/1000)"

definition telemetry_rate :: "string \<Rightarrow> rat" where
  "telemetry_rate profile = (if profile = ''smoke'' then 1 else if profile = ''preview'' then 25/100 else 10/100)"

definition case_count :: "gen_config \<Rightarrow> nat" where
  "case_count c =
     (let minimum = length (gc_scenarios c) * 2 in
      if gc_profile c = ''smoke'' then minimum
      else max minimum (nat (round_he (of_nat (gc_homes c) * case_rate (gc_profile c)))))"

definition telemetry_count :: "gen_config \<Rightarrow> nat" where
  "telemetry_count c =
     max 1 (min (gc_homes c) (nat \<lceil>of_nat (gc_homes c) * telemetry_rate (gc_profile c)\<rceil>))"

definition predictive_count :: "gen_config \<Rightarrow> nat \<Rightarrow> nat" where
  "predictive_count c total_cases =
     (if \<not> gc_predictive c then 0
      else if 0 < gc_population c then min (gc_homes c) (max total_cases (gc_population c))
      else min (gc_homes c) (max total_cases (min (telemetry_count c) 20000)))"

text \<open>The step of the sample: the first number from the seed's on that is coprime to the footprint.\<close>

partial_function (option) coprime_loop :: "nat \<Rightarrow> nat \<Rightarrow> nat option" where
  "coprime_loop n step = (if gcd step n \<noteq> 1 then coprime_loop n (step + 1) else Some step)"

declare coprime_loop.simps [code]

definition coprime_step :: "nat \<Rightarrow> int \<Rightarrow> nat option" where
  "coprime_step n seed =
     (if n \<le> 1 then Some 1 else coprime_loop n (7919 + nat (\<bar>seed\<bar> mod 997)))"

definition sample_indices :: "nat \<Rightarrow> nat \<Rightarrow> int \<Rightarrow> nat list option" where
  "sample_indices homes count seed =
     map_option (\<lambda>step. map (\<lambda>n. (nat (\<bar>seed\<bar> mod int homes) + n * step) mod homes) [0..<count])
       (coprime_step homes seed)"

definition compatible_subscriber :: "nat \<Rightarrow> string \<Rightarrow> int \<Rightarrow> (nat \<times> subscriber) res" where
  "compatible_subscriber homes scenario token =
     (case map_of scenario_policies scenario of
        None \<Rightarrow> Inl (KeyError scenario)
      | Some policy \<Rightarrow>
          (let start = nat (\<bar>token\<bar> mod int homes) in
           case find (\<lambda>i. technology_of i homes \<in> set (sp_technologies policy))
                  (map (\<lambda>offset. (start + offset) mod homes) [0..<homes]) of
             None \<Rightarrow> Inl (ValueError ''no subscriber technology compatible with scenario'')
           | Some i \<Rightarrow> Inr (i, subscriber_of i homes)))"

definition background_telemetry :: "gen_config \<Rightarrow> int \<Rightarrow> telemetry list option" where
  "background_telemetry c base =
     map_option (map (\<lambda>i.
         (let sub = subscriber_of i (gc_homes c);
              event_time = base - minutes 30 + seconds (int (i mod 1800))
          in \<lparr>te_event = ''TEL-BG-'' @ ts_service sub, te_case = None, te_service = Some (ts_service sub),
              te_time = Some event_time, te_collected = Some (event_time + seconds 30),
              te_technology = ts_technology sub, te_health = ''HEALTHY'', te_scenario = ''baseline''\<rparr>)))
       (sample_indices (gc_homes c) (telemetry_count c) (gc_seed c + 31))"

subsection \<open>The case of a scenario\<close>

record effect_case =
  tk_manifest :: manifest
  tk_sub :: subscriber
  tk_tele :: telemetry
  tk_alarm :: alarm
  tk_diagnosed :: int

record twin_case = effect_case +
  tk_contact :: contact
  tk_incident :: "root_incident option"
  tk_ticket :: int

text \<open>A repeat names its root and the case it repeats; the first attempt is its own root.\<close>

record repeat_of =
  rp_root_case :: string
  rp_root_incident :: string
  rp_previous :: string
  rp_sequence :: int

definition base_case :: "string \<Rightarrow> subscriber \<Rightarrow> nat \<Rightarrow> int \<Rightarrow> repeat_of option \<Rightarrow> twin_case res" where
  "base_case scenario sub idx base repeat =
     (case map_of scenario_policies scenario of
        None \<Rightarrow> Inl (KeyError scenario)
      | Some policy \<Rightarrow>
     (let case_id = ''CASE-'' @ nat_str_pad 7 (idx + 1) @ ''-'' @ map upper_char scenario;
          root_case = (case repeat of None \<Rightarrow> case_id | Some r \<Rightarrow> rp_root_case r);
          root_incident = (case repeat of None \<Rightarrow> ''INC-'' @ case_id | Some r \<Rightarrow> rp_root_incident r);
          repeat_of = map_option rp_previous repeat;
          sequence = (case repeat of None \<Rightarrow> 0 | Some r \<Rightarrow> rp_sequence r);
          t0 = base + minutes (int idx * 2);
          t_alarm = t0 + minutes 2;
          t_contact = t_alarm + minutes 2;
          t_ticket = t_contact + minutes 1
      in Inr
        \<lparr>tk_manifest = \<lparr>mf_scenario = scenario, mf_truth_domain = sp_domain policy, mf_case = case_id,
           mf_root_case = root_case, mf_root_incident = root_incident, mf_service = ts_service sub,
           mf_technology = ts_technology sub, mf_delimiter_type = ts_delimiter_type sub,
           mf_delimiter = ts_delimiter sub, mf_time = Some t0, mf_repeat_of = repeat_of,
           mf_repeat_sequence = sequence, mf_supervisor = (repeat \<noteq> None), mf_lifecycle = None\<rparr>,
         tk_sub = sub,
         tk_tele = \<lparr>te_event = ''TEL-'' @ case_id @ ''-PRE'', te_case = Some case_id,
           te_service = Some (ts_service sub), te_time = Some t0, te_collected = Some (t0 + seconds 30),
           te_technology = ts_technology sub, te_health = ''DEGRADED'', te_scenario = scenario\<rparr>,
         tk_alarm = \<lparr>al_event = ''ALM-'' @ case_id, al_case = Some case_id,
           al_service = Some (ts_service sub), al_time = Some t_alarm, al_collected = Some (t_alarm + seconds 20),
           al_family = ''NETWORK_OR_CPE_DEGRADATION'', al_severity = ''MAJOR''\<rparr>,
         tk_diagnosed = t_ticket + minutes 4,
         tk_contact = \<lparr>ct_contact = ''CON-'' @ case_id, ct_case = Some case_id, ct_root_case = root_case,
           ct_incident = Some root_incident, ct_service = Some (ts_service sub), ct_time = t_contact,
           ct_channel = ''VOICE'', ct_repeat = (repeat \<noteq> None), ct_repeat_of = repeat_of,
           ct_repeat_sequence = sequence\<rparr>,
         tk_incident = (if repeat \<noteq> None then None else Some
           \<lparr>ri_incident = root_incident, ri_case = root_case, ri_root_case = root_case,
            ri_service = ts_service sub, ri_opened = Some t_ticket, ri_resolved = None, ri_closed = None,
            ri_status = ''OPEN'', ri_scenario = scenario, ri_repeat_count = 0, ri_reopen_count = 0,
            ri_last_repeat = None, ri_last_reopened = None, ri_prior_closed = None, ri_origin = None,
            ri_predictive = None\<rparr>),
         tk_ticket = t_ticket\<rparr>))"

subsection \<open>Work and its evidence\<close>

definition required_skill :: "string \<Rightarrow> subscriber \<Rightarrow> string" where
  "required_skill action sub =
     (if action = ''cpe_swap'' then ''CPE_SWAP_CERTIFIED''
      else if action = ''dispatch_clean'' then ''CLEAN_BOOTS_CERTIFIED''
      else if action = ''create_mr'' \<or> action = ''plant_repair''
      then (if ts_technology sub = ''HFC'' then ''HFC_PLANT'' else ''PON_PLANT'')
      else ''REMOTE_ASSURANCE'')"

definition parts_required :: "string \<Rightarrow> string list" where
  "parts_required action =
     (if action = ''cpe_swap'' then [''replacement_cpe'', ''premise_test_kit'']
      else if action = ''dispatch_clean'' then [''drop_repair_kit'', ''premise_test_kit'']
      else if action = ''create_mr'' \<or> action = ''plant_repair'' then [''plant_test_kit'', ''repair_materials'']
      else [])"

definition whole_minutes :: "int \<Rightarrow> int" where
  "whole_minutes d = round_he (of_int d / of_int (minutes 1))"

definition generated_work_order ::
  "effect_case \<Rightarrow> string \<Rightarrow> string \<Rightarrow> string \<Rightarrow> string \<Rightarrow> int \<Rightarrow> int \<Rightarrow> int \<Rightarrow> int \<Rightarrow> work_order" where
  "generated_work_order k action work_order_id work_order_type crew_domain action_time dispatched arrived completed =
     (let m = tk_manifest k;
          sub = tk_sub k;
          readiness = max (tk_diagnosed k + minutes 1) (action_time + seconds 30);
          assigned = readiness + seconds 30;
          skill = required_skill action sub;
          one_way = max 0 (whole_minutes (arrived - dispatched));
          on_site = max 0 (whole_minutes (completed - arrived));
          region = (if ts_region sub = [] then ''coastal'' else ts_region sub);
          factor = (case map_of road_km_per_minute region of None \<Rightarrow> 70/100 | Some f \<Rightarrow> f)
      in \<lparr>wo_id = work_order_id, wo_incident = Some (mf_root_incident m), wo_case = Some (mf_case m),
          wo_root_case = mf_root_case m, wo_service = Some (ts_service sub), wo_type = work_order_type,
          wo_diagnosed = Some (tk_diagnosed k), wo_readiness = Some readiness, wo_assigned = Some assigned,
          wo_dispatched = Some dispatched, wo_arrived = Some arrived, wo_completed = Some completed,
          wo_distance = Some (round_dec 2 (of_int one_way * factor)), wo_ferry = Some (region = ''remote_island''),
          wo_overnight = Some (480 < 2 * one_way + on_site), wo_economics = ''synthetic_work_order'',
          wo_crew = crew_domain, wo_required_skill = skill, wo_technician_skill = skill, wo_skill_ok = True,
          wo_parts = parts_required action, wo_parts_ok = True, wo_access_ok = True,
          wo_cpe = (if action = ''cpe_swap'' then Some True else None), wo_ready = True,
          wo_repeat_sequence = mf_repeat_sequence m, wo_supervised = mf_supervisor m,
          wo_supervisor = (if mf_supervisor m then Some ''synthetic_senior_supervisor'' else None),
          wo_replacement = None, wo_preconditions = []\<rparr>)"

definition closure_checklist :: "(string \<times> bool) list" where
  "closure_checklist = map (\<lambda>key. (key, True)) closure_checks"

definition evidence_for ::
  "effect_case \<Rightarrow> string \<Rightarrow> string \<Rightarrow> int \<Rightarrow> string \<Rightarrow> string option \<Rightarrow> string \<Rightarrow> string \<Rightarrow> field_row" where
  "evidence_for k evidence_id work_order_id captured measurement diagnostic_result reason photo =
     (let m = tk_manifest k; sub = tk_sub k in
      \<lparr>fe_id = evidence_id, fe_case = Some (mf_case m), fe_root_case = mf_root_case m,
       fe_incident = Some (mf_root_incident m), fe_service = Some (ts_service sub),
       fe_work_order = work_order_id, fe_captured = Some captured, fe_delimiter = Some (ts_delimiter sub),
       fe_measurement = measurement, fe_result = diagnostic_result, fe_reason = reason,
       fe_photo = ''synthetic://'' @ evidence_id @ photo\<rparr>)"

text \<open>
  The branches of an authorised action: the work orders, evidence and maintenance requests it
  adds, the evidence the validation cites, and when telemetry is taken afterwards.
\<close>

record effect_branch =
  eb_work :: "work_order list"
  eb_evidence :: "field_row list"
  eb_mrs :: "mr_row list"
  eb_cited :: "string list"
  eb_post :: int

definition remote_branch :: "int \<Rightarrow> effect_branch" where
  "remote_branch action_time =
     \<lparr>eb_work = [], eb_evidence = [], eb_mrs = [], eb_cited = [], eb_post = action_time + minutes 10\<rparr>"

definition clean_branch :: "effect_case \<Rightarrow> string \<Rightarrow> int \<Rightarrow> effect_branch" where
  "clean_branch k action action_time =
     (let case_id = mf_case (tk_manifest k);
          wo_id' = ''WO-'' @ case_id;
          t_dispatch = action_time + minutes 5;
          t_arrive = t_dispatch + minutes 35;
          t_complete = t_arrive + minutes 50;
          wo = generated_work_order k action wo_id'
                 (if action = ''cpe_swap'' then ''CPE_SWAP'' else ''CLEAN_BOOTS'') ''CLEAN''
                 action_time t_dispatch t_arrive t_complete
      in if action = ''cpe_swap''
         then (let diag_id = ''EVD-'' @ case_id @ ''-CPE-DIAG'';
                   t_diag = t_arrive + minutes 15;
                   swap_id = ''EVD-'' @ case_id @ ''-CPE-SWAP''
               in \<lparr>eb_work = [wo\<lparr>wo_replacement := Some (t_diag + minutes 5), wo_preconditions := [diag_id]\<rparr>],
                   eb_evidence =
                     [evidence_for k diag_id wo_id' t_diag ''cpe_diagnostic_failed'' (Some ''FAIL'')
                        ''Synthetic failed CPE diagnostic authorizes replacement.'' ''/diagnostic'',
                      evidence_for k swap_id wo_id' (t_complete - minutes 5) ''cpe_replacement_completed'' None
                        ''Replacement completed after failed diagnostic.'' ''/photo''],
                   eb_mrs = [], eb_cited = [diag_id, swap_id], eb_post = t_complete + minutes 5\<rparr>)
         else (let evidence_id = ''EVD-'' @ case_id
               in \<lparr>eb_work = [wo],
                   eb_evidence =
                     [evidence_for k evidence_id wo_id' (t_complete - minutes 5) ''last_good_first_bad''
                        (Some ''BOUNDARY_CONFIRMED'') ''Clean Boots repair and boundary test completed.'' ''/photo''],
                   eb_mrs = [], eb_cited = [evidence_id], eb_post = t_complete + minutes 5\<rparr>))"

definition plant_branch :: "effect_case \<Rightarrow> string \<Rightarrow> int \<Rightarrow> effect_branch" where
  "plant_branch k action action_time =
     (let m = tk_manifest k;
          sub = tk_sub k;
          case_id = mf_case m;
          t_created = action_time + minutes 2;
          t_accepted = t_created + minutes 3;
          wo_id' = ''WO-'' @ case_id @ ''-PLANT'';
          t_dispatch = t_accepted + minutes 5;
          t_arrive = t_dispatch + minutes 40;
          t_complete = t_arrive + minutes 60;
          evidence_id = ''EVD-'' @ case_id @ ''-PLANT''
      in \<lparr>eb_work = [generated_work_order k action wo_id' ''PLANT_REPAIR'' ''PLANT'' action_time
                       t_dispatch t_arrive t_complete],
          eb_evidence = [evidence_for k evidence_id wo_id' (t_complete - minutes 5) ''plant_repair_completion''
                           (Some ''REPAIRED'') ''Plant repair completed and measured at handoff delimiter.'' ''/photo''],
          eb_mrs = [\<lparr>mr_id = ''MR-'' @ case_id, mr_case = Some case_id, mr_root_case = mf_root_case m,
             mr_incident = Some (mf_root_incident m), mr_service = Some (ts_service sub), mr_work_order = wo_id',
             mr_delimiter_type = ts_delimiter_type sub, mr_delimiter = Some (ts_delimiter sub),
             mr_evidence = [te_event (tk_tele k), al_event (tk_alarm k)], mr_created = Some t_created,
             mr_accepted = Some t_accepted, mr_completion_evidence = [evidence_id],
             mr_completed = Some (t_complete + minutes 2)\<rparr>],
          eb_cited = [evidence_id], eb_post = t_complete + minutes 5\<rparr>)"

definition add_branch :: "effect_branch \<Rightarrow> run_rows \<Rightarrow> run_rows" where
  "add_branch b rows = rows\<lparr>rr_work := rr_work rows @ eb_work b, rr_evidence := rr_evidence rows @ eb_evidence b,
     rr_mrs := rr_mrs rows @ eb_mrs b\<rparr>"

text \<open>Healthy telemetry, the validation, the resolution and the closed incident.\<close>

definition restore_case :: "effect_case \<Rightarrow> scenario_policy \<Rightarrow> effect_branch \<Rightarrow> run_rows \<Rightarrow> run_rows" where
  "restore_case k policy b rows =
     (let m = tk_manifest k;
          sub = tk_sub k;
          case_id = mf_case m;
          tele_post = ''TEL-'' @ case_id @ ''-POST'';
          t_validate = eb_post b + minutes 10;
          t_close = t_validate + minutes 5
      in rows\<lparr>rr_telemetry := rr_telemetry rows @
            [\<lparr>te_event = tele_post, te_case = Some case_id, te_service = Some (ts_service sub),
              te_time = Some (eb_post b), te_collected = Some (eb_post b + seconds 30),
              te_technology = ts_technology sub, te_health = ''HEALTHY'', te_scenario = mf_scenario m\<rparr>],
          rr_validations := rr_validations rows @
            [\<lparr>va_id = ''VAL-'' @ case_id, va_case = Some case_id, va_root_case = mf_root_case m,
              va_incident = Some (mf_root_incident m), va_service = Some (ts_service sub),
              va_time = Some t_validate, va_evidence = tele_post # eb_cited b, va_service_test = ''PASS'',
              va_stable = True, va_checklist = closure_checklist, va_checklist_time = Some t_validate,
              va_confirmation = ''NOT_REQUIRED_TELEMETRY_SUFFICIENT''\<rparr>],
          rr_resolutions := rr_resolutions rows @
            [\<lparr>re_id = ''RES-'' @ case_id, re_case = Some case_id, re_root_case = mf_root_case m,
              re_incident = Some (mf_root_incident m), re_service = Some (ts_service sub),
              re_time = Some t_validate, re_validation = ''VAL-'' @ case_id, re_outcome = ''RESTORED'',
              re_domain = sp_domain policy\<rparr>],
          rr_incidents := update_first (\<lambda>r. ri_incident r = mf_root_incident m)
            (\<lambda>r. r\<lparr>ri_resolved := Some t_validate, ri_closed := Some t_close, ri_status := ''CLOSED''\<rparr>)
            (rr_incidents rows)\<rparr>)"

text \<open>The root incident of the case is the row of that identifier, when the run has one.\<close>

definition materialize_effect :: "run_rows \<Rightarrow> effect_case \<Rightarrow> string \<Rightarrow> int \<Rightarrow> (run_rows \<times> int option) res" where
  "materialize_effect rows k action action_time =
     (if \<not> (\<exists>r \<in> set (rr_incidents rows). ri_incident r = mf_root_incident (tk_manifest k))
      then Inl (ValueError ''materialization requires root incident'')
      else case map_of scenario_policies (mf_scenario (tk_manifest k)) of
        None \<Rightarrow> Inl (KeyError (mf_scenario (tk_manifest k)))
      | Some policy \<Rightarrow>
          if action = ''collect_evidence'' then Inr (rows, None)
          else if \<not> List.member [''remote_repair'', ''dispatch_clean'', ''cpe_swap'', ''create_mr'', ''plant_repair''] action
          then Inl (ValueError (''unsupported simulated action: '' @ action))
          else
            (let b = (if action = ''remote_repair'' then remote_branch action_time
                      else if action = ''dispatch_clean'' \<or> action = ''cpe_swap'' then clean_branch k action action_time
                      else plant_branch k action action_time);
                 rows' = add_branch b rows
             in if \<not> sp_restores policy then Inr (rows', None)
                else Inr (restore_case k policy b rows', Some (eb_post b + minutes 15))))"

end
