(* ===== verification/Tables.thy ===== *)
theory Tables
  imports PyJson
begin

text \<open>
  Tables of rows as dictionaries: the comprehension \<open>{key(r): r for r in rows}\<close> and the grouping
  of rows by a key, as the projections over exported tables use them.
\<close>

text \<open>\<open>s.endswith(suffix)\<close>\<close>

definition ends_with :: "string \<Rightarrow> string \<Rightarrow> bool" where
  "ends_with suffix s \<longleftrightarrow> drop (length s - length suffix) s = suffix"

lemma is_ok_iff: "is_ok r \<longleftrightarrow> (\<exists>x. r = Inr x)"
  by (cases r) auto

lemma mapR_total: "\<forall>x \<in> set xs. \<exists>y. f x = Inr y \<Longrightarrow> \<exists>ys. mapR f xs = Inr ys"
  by (induction xs) (auto simp: bindR_eq_Inr)

text \<open>\<open>{key(r): r for r in rows}\<close>: keys in first-seen order, the last row of each.\<close>

definition index_by :: "('a \<Rightarrow> string) \<Rightarrow> 'a list \<Rightarrow> (string \<times> 'a) list" where
  "index_by key xs = foldl (\<lambda>d x. dset (key x) x d) [] xs"

lemma foldl_dset_map_of:
  "map_of (foldl (\<lambda>d x. dset (key x) x d) d xs) k =
     (case find (\<lambda>x. key x = k) (rev xs) of None \<Rightarrow> map_of d k | Some x \<Rightarrow> Some x)"
  by (induction xs rule: rev_induct) auto

lemma map_of_index_by: "map_of (index_by key xs) k = find (\<lambda>x. key x = k) (rev xs)"
  by (simp add: index_by_def foldl_dset_map_of split: option.split)

lemma keys_index_by: "fst ` set (index_by key xs) = key ` set xs"
  unfolding index_by_def by (induction xs rule: rev_induct) auto

lemma distinct_index_by: "distinct (map fst (index_by key xs))"
  unfolding index_by_def by (induction xs rule: rev_induct) (simp_all add: distinct_dset)

lemma find_SomeD: "find P xs = Some x \<Longrightarrow> x \<in> set xs \<and> P x"
  by (induction xs) (auto split: if_splits)

lemma find_rev_distinct:
  assumes "distinct (map key xs)" "x \<in> set xs"
  shows "find (\<lambda>y. key y = key x) (rev xs) = Some x"
proof -
  obtain y where y: "find (\<lambda>y. key y = key x) (rev xs) = Some y"
    using assms(2) by (cases "find (\<lambda>y. key y = key x) (rev xs)") (auto simp: find_None_iff)
  then have "y \<in> set xs" "key y = key x" by (auto dest: find_SomeD)
  with assms y show ?thesis by (metis distinct_map inj_onD)
qed

lemma map_of_index_byD: "map_of (index_by key xs) k = Some x \<Longrightarrow> x \<in> set xs \<and> key x = k"
  by (auto simp: map_of_index_by dest: find_SomeD)

lemma index_by_mem: "(k, x) \<in> set (index_by key xs) \<longleftrightarrow> map_of (index_by key xs) k = Some x"
  using distinct_index_by by (metis map_of_eq_Some_iff)

text \<open>A table without repeated keys is indexed row by row.\<close>

lemma index_by_distinct: "distinct (map key xs) \<Longrightarrow> index_by key xs = map (\<lambda>x. (key x, x)) xs"
proof (induction xs rule: rev_induct)
  case (snoc x xs)
  then have "index_by key (xs @ [x]) = dset (key x) x (map (\<lambda>x. (key x, x)) xs)"
    by (simp add: index_by_def)
  also have "\<dots> = map (\<lambda>x. (key x, x)) xs @ [(key x, x)]"
    using snoc.prems by (intro dset_fresh) auto
  finally show ?case by simp
qed (simp add: index_by_def)

text \<open>\<open>d.setdefault(key, []).append(row)\<close> for each row.\<close>

definition group_by :: "('a \<Rightarrow> string) \<Rightarrow> 'a list \<Rightarrow> (string \<times> 'a list) list" where
  "group_by key xs =
     foldl (\<lambda>d x. dset (key x) (case map_of d (key x) of None \<Rightarrow> [x] | Some g \<Rightarrow> g @ [x]) d) [] xs"

lemma keys_group_by: "fst ` set (group_by key xs) = key ` set xs"
  unfolding group_by_def by (induction xs rule: rev_induct) auto

lemma distinct_group_by: "distinct (map fst (group_by key xs))"
  unfolding group_by_def by (induction xs rule: rev_induct) (simp_all add: distinct_dset)

lemma map_of_group_by:
  "map_of (group_by key xs) k = (let g = filter (\<lambda>x. key x = k) xs in if g = [] then None else Some g)"
proof (induction xs rule: rev_induct)
  case (snoc x xs)
  have "group_by key (xs @ [x]) =
      dset (key x) (case map_of (group_by key xs) (key x) of None \<Rightarrow> [x] | Some g \<Rightarrow> g @ [x]) (group_by key xs)"
    by (simp add: group_by_def)
  then show ?case using snoc by (auto simp: Let_def)
qed (simp add: group_by_def)

lemma length_group_by: "length (group_by key xs) = card (key ` set xs)"
  using distinct_group_by [of key xs] keys_group_by [of key xs]
  by (metis distinct_card length_map set_map)

end
