(* ===== verification/TwinQuality.thy ===== *)
theory TwinQuality
  imports TwinRecords Tables
begin

text \<open>
  The quality gate of a digital-twin run (\<open>quality_check\<close> in \<open>digital_twin/orchestrator.py\<close>):
  twenty groups of checks over all the tables, each giving its error texts in the order the
  program appends them. A run passes when there is none.
\<close>

subsection \<open>Lookup tables\<close>

definition flag :: "bool \<Rightarrow> string \<Rightarrow> string list" where
  "flag b message = (if b then [message] else [])"

lemma flag_Nil [simp]: "flag b m = [] \<longleftrightarrow> \<not> b"
  by (simp add: flag_def)

definition q_master :: "run_rows \<Rightarrow> (string \<times> subscriber) list" where
  "q_master rows = index_by ts_service (rr_master rows)"

definition q_manifests :: "run_rows \<Rightarrow> (string \<times> manifest) list" where
  "q_manifests rows = index_by mf_case (rr_manifests rows)"

definition q_incidents :: "run_rows \<Rightarrow> (string \<times> root_incident) list" where
  "q_incidents rows = index_by ri_incident (rr_incidents rows)"

definition q_incidents_by_root :: "run_rows \<Rightarrow> (string \<times> root_incident) list" where
  "q_incidents_by_root rows = index_by ri_case (rr_incidents rows)"

definition q_rules :: "run_rows \<Rightarrow> (string \<times> rule_decision) list" where
  "q_rules rows = map (\<lambda>(k, p). (k, snd p)) (index_by fst (rr_rules rows))"

definition q_agents :: "run_rows \<Rightarrow> (string \<times> twin_agent) list" where
  "q_agents rows = map (\<lambda>(k, p). (k, snd p)) (index_by fst (rr_agents rows))"

definition q_reconciliations :: "run_rows \<Rightarrow> (string \<times> reconciliation) list" where
  "q_reconciliations rows = map (\<lambda>(k, p). (k, snd p)) (index_by fst (rr_reconciliations rows))"

definition q_humans :: "run_rows \<Rightarrow> (string \<times> human_row) list" where
  "q_humans rows = index_by hr_case (rr_humans rows)"

definition q_actions :: "run_rows \<Rightarrow> (string \<times> action_row) list" where
  "q_actions rows = index_by ae_case (rr_actions rows)"

definition q_work :: "run_rows \<Rightarrow> (string \<times> work_order) list" where
  "q_work rows = index_by wo_id (rr_work rows)"

definition work_of_case :: "run_rows \<Rightarrow> string option \<Rightarrow> work_order list" where
  "work_of_case rows c = (case c of None \<Rightarrow> [] | Some k \<Rightarrow> filter (\<lambda>w. wo_case w = Some k) (rr_work rows))"

definition mrs_of_case :: "run_rows \<Rightarrow> string \<Rightarrow> mr_row list" where
  "mrs_of_case rows k = filter (\<lambda>m. mr_case m = Some k) (rr_mrs rows)"

definition q_validations :: "run_rows \<Rightarrow> (string \<times> validation) list" where
  "q_validations rows = index_by va_id (rr_validations rows)"

definition validated :: "run_rows \<Rightarrow> string \<Rightarrow> bool" where
  "validated rows k \<longleftrightarrow> (\<exists>v \<in> set (rr_validations rows). va_case v = Some k)"

text \<open>The last resolution of a case, as the table by case keeps it.\<close>

definition resolution_of :: "run_rows \<Rightarrow> string \<Rightarrow> resolution option" where
  "resolution_of rows k = find (\<lambda>r. re_case r = Some k) (rev (rr_resolutions rows))"

record cited_evidence =
  ce_case :: "string option"
  ce_time :: "int option"
  ce_healthy :: bool

definition q_evidence :: "run_rows \<Rightarrow> (string \<times> cited_evidence) list" where
  "q_evidence rows = map (\<lambda>(k, p). (k, snd p)) (index_by fst
     (map (\<lambda>r. (te_event r, \<lparr>ce_case = te_case r, ce_time = te_time r,
        ce_healthy = (starts_with ''TEL-'' (te_event r) \<and> te_health r = ''HEALTHY'')\<rparr>)) (rr_telemetry rows) @
      map (\<lambda>r. (al_event r, \<lparr>ce_case = al_case r, ce_time = al_time r, ce_healthy = False\<rparr>)) (rr_alarms rows) @
      map (\<lambda>r. (fe_id r, \<lparr>ce_case = fe_case r, ce_time = fe_captured r, ce_healthy = False\<rparr>)) (rr_evidence rows)))"

text \<open>All times are given and in order.\<close>

definition in_order :: "int option list \<Rightarrow> bool" where
  "in_order ts \<longleftrightarrow> None \<notin> set ts \<and> sorted (map the ts)"

text \<open>Not known to be at most: one is missing, or the first is later.\<close>

definition not_before :: "int option \<Rightarrow> int option \<Rightarrow> bool" where
  "not_before a b = (case (a, b) of (Some x, Some y) \<Rightarrow> y < x | _ \<Rightarrow> True)"

subsection \<open>Identity, graph and scenario truth\<close>

definition quality_identity :: "run_rows \<Rightarrow> string list" where
  "quality_identity rows = concat (map (\<lambda>(values, label). flag (\<not> distinct values) (''duplicate '' @ label))
     [(map ts_service (rr_master rows), ''service_id''),
      (map mf_case (rr_manifests rows), ''case_id''),
      (map te_event (rr_telemetry rows), ''telemetry event_id''),
      (map al_event (rr_alarms rows), ''alarm event_id''),
      (map ct_contact (rr_contacts rows), ''contact_id''),
      (map ri_incident (rr_incidents rows), ''incident_id''),
      (map wo_id (rr_work rows), ''work_order_id''),
      (map fe_id (rr_evidence rows), ''field evidence_id''),
      (map mr_id (rr_mrs rows), ''mr_id''),
      (map va_id (rr_validations rows), ''validation_id''),
      (map re_id (rr_resolutions rows), ''resolution_id''),
      (map fst (rr_rules rows), ''deterministic case_id''),
      (map fst (rr_agents rows), ''agent case_id''),
      (map fst (rr_reconciliations rows), ''reconciliation case_id''),
      (map hr_case (rr_humans rows), ''human case_id''),
      (map ae_case (rr_actions rows), ''action case_id''),
      (map mp_id (rr_pulls rows), ''predictive pull_id''),
      (map pk_id (rr_tickets rows), ''predictive ticket_id''),
      (map cr_id (rr_care rows), ''care ticket_id''),
      (map cv_care (rr_reviews rows), ''care review ticket_id'')])"

definition quality_regions :: "run_rows \<Rightarrow> string list" where
  "quality_regions rows =
     (let located = filter (\<lambda>s. ts_delimiter s \<noteq> [] \<and> ts_region s \<noteq> []) (rr_master rows);
          regions_at = (\<lambda>d. dedup (map ts_region (filter (\<lambda>s. ts_delimiter s = d) located)))
      in concat (map (\<lambda>s. flag (ts_region s \<notin> set regions)
           (''subscriber has unsupported planning region for '' @
            (if ts_delimiter s \<noteq> [] then ts_delimiter s else ''unknown delimiter''))) (rr_master rows)) @
         concat (map (\<lambda>d. flag (length (regions_at d) \<noteq> 1)
           (''delimiter spans multiple planning regions: '' @ d @ '' -> '' @
            py_repr (jarr (sort (regions_at d))))) (dedup (map ts_delimiter located))))"

definition case_graph :: "run_rows \<Rightarrow> string \<Rightarrow> manifest \<Rightarrow> string list" where
  "case_graph rows case_id m =
     (case map_of (q_master rows) (mf_service m) of
        None \<Rightarrow> [''scenario service missing from master for '' @ case_id]
      | Some sub \<Rightarrow>
          flag (mf_technology m \<noteq> ts_technology sub) (''scenario technology disagrees with subscriber for '' @ case_id) @
          flag (mf_delimiter_type m \<noteq> ts_delimiter_type sub \<or> mf_delimiter m \<noteq> ts_delimiter sub)
            (''scenario delimiter disagrees with subscriber for '' @ case_id) @
          (case map_of (q_manifests rows) (mf_root_case m) of
             None \<Rightarrow> [''missing root case for '' @ case_id]
           | Some r \<Rightarrow> flag (mf_service r \<noteq> mf_service m) (''root case service mismatch for '' @ case_id)) @
          (case map_of (q_incidents rows) (mf_root_incident m) of
             None \<Rightarrow> [''missing root incident for '' @ case_id]
           | Some i \<Rightarrow> flag (ri_case i \<noteq> mf_root_case m \<or> ri_service i \<noteq> mf_service m)
                         (''root incident graph mismatch for '' @ case_id)) @
          flag (mf_repeat_sequence m = 0 \<and> (mf_root_case m \<noteq> case_id \<or> mf_root_incident m \<noteq> ''INC-'' @ case_id))
            (''non-repeat case has non-self root for '' @ case_id) @
          flag (0 < mf_repeat_sequence m \<and> case_id \<in> fst ` set (q_incidents_by_root rows))
            (''repeat attempt created a child incident for '' @ case_id))"

text \<open>Rows that name a case: its table, case, service, incident and delimiter.\<close>

record graph_row =
  gr_table :: string
  gr_case :: "string option"
  gr_service :: "string option"
  gr_incident :: "string option"
  gr_delimiter :: "string option"

definition graph_row_of ::
  "string \<Rightarrow> string option \<Rightarrow> string option \<Rightarrow> string option \<Rightarrow> string option \<Rightarrow> graph_row" where
  "graph_row_of table c s i d =
     \<lparr>gr_table = table, gr_case = c, gr_service = s, gr_incident = i, gr_delimiter = d\<rparr>"

definition graph_rows :: "run_rows \<Rightarrow> graph_row list" where
  "graph_rows rows =
     map (\<lambda>r. graph_row_of ''telemetry_tr181'' (te_case r) (te_service r) None None) (rr_telemetry rows) @
     map (\<lambda>r. graph_row_of ''nxt_alarms'' (al_case r) (al_service r) None None) (rr_alarms rows) @
     map (\<lambda>r. graph_row_of ''contacts'' (ct_case r) (ct_service r) (ct_incident r) None) (rr_contacts rows) @
     map (\<lambda>r. graph_row_of ''work_orders'' (wo_case r) (wo_service r) (wo_incident r) None) (rr_work rows) @
     map (\<lambda>r. graph_row_of ''field_evidence'' (fe_case r) (fe_service r) (fe_incident r) (fe_delimiter r)) (rr_evidence rows) @
     map (\<lambda>r. graph_row_of ''mrs'' (mr_case r) (mr_service r) (mr_incident r) (mr_delimiter r)) (rr_mrs rows) @
     map (\<lambda>r. graph_row_of ''validation_events'' (va_case r) (va_service r) (va_incident r) None) (rr_validations rows) @
     map (\<lambda>r. graph_row_of ''resolution_events'' (re_case r) (re_service r) (re_incident r) None) (rr_resolutions rows)"

definition differs :: "string option \<Rightarrow> string \<Rightarrow> bool" where
  "differs x y \<longleftrightarrow> x \<noteq> None \<and> x \<noteq> Some y"

definition row_graph :: "run_rows \<Rightarrow> graph_row \<Rightarrow> string list" where
  "row_graph rows g = (case gr_case g of
       None \<Rightarrow> []
     | Some c \<Rightarrow> (case map_of (q_manifests rows) c of
         None \<Rightarrow> [''orphan case in '' @ gr_table g]
       | Some m \<Rightarrow>
           flag (differs (gr_service g) (mf_service m)) (''cross-case service in '' @ gr_table g) @
           flag (differs (gr_incident g) (mf_root_incident m)) (''cross-case incident in '' @ gr_table g) @
           flag (differs (gr_delimiter g) (mf_delimiter m)) (''cross-case delimiter in '' @ gr_table g)))"

definition incident_graph :: "run_rows \<Rightarrow> root_incident \<Rightarrow> string list" where
  "incident_graph rows i = (case map_of (q_manifests rows) (ri_case i) of
       None \<Rightarrow> [''incident is not anchored to a root case'']
     | Some m \<Rightarrow>
         if mf_root_case m \<noteq> ri_case i then [''incident is not anchored to a root case'']
         else flag (ri_incident i \<noteq> mf_root_incident m \<or> ri_service i \<noteq> mf_service m)
                ''incident identity disagrees with root manifest'')"

definition quality_graph :: "run_rows \<Rightarrow> string list" where
  "quality_graph rows =
     concat (map (\<lambda>(c, m). case_graph rows c m) (q_manifests rows)) @
     concat (map (row_graph rows) (graph_rows rows)) @
     concat (map (incident_graph rows) (rr_incidents rows))"

definition scenario_truth :: "run_rows \<Rightarrow> string \<Rightarrow> manifest \<Rightarrow> string list" where
  "scenario_truth rows case_id m = (case map_of scenario_policies (mf_scenario m) of
       None \<Rightarrow> [''unknown scenario policy for '' @ case_id]
     | Some policy \<Rightarrow>
         (case map_of (q_master rows) (mf_service m) of
            None \<Rightarrow> []
          | Some sub \<Rightarrow> flag (ts_technology sub \<notin> set (sp_technologies policy))
                          (''scenario technology incompatible for '' @ case_id)) @
         (case map_of (q_rules rows) case_id of
            None \<Rightarrow> [''missing deterministic decision for '' @ case_id]
          | Some det \<Rightarrow>
              flag (rd_domain det \<noteq> sp_domain policy \<or> rd_domain det = ''unknown'')
                (''deterministic domain mismatch for '' @ case_id) @
              flag (rd_best det \<noteq> sp_best policy) (''deterministic action mismatch for '' @ case_id)))"

definition quality_scenarios :: "run_rows \<Rightarrow> string list" where
  "quality_scenarios rows = concat (map (\<lambda>(c, m). scenario_truth rows c m) (q_manifests rows))"

subsection \<open>Decisions\<close>

definition cited_by :: "run_rows \<Rightarrow> string \<Rightarrow> string \<Rightarrow> string list \<Rightarrow> string list" where
  "cited_by rows dataset case_id refs =
     flag (refs = []) (dataset @ '' has empty evidence'') @
     concat (map (\<lambda>e. case map_of (q_evidence rows) e of
          None \<Rightarrow> [dataset @ '' cites missing evidence'']
        | Some ev \<Rightarrow> flag (ce_case ev \<noteq> Some case_id) (dataset @ '' cites cross-case evidence'')) refs)"

definition quality_citations :: "run_rows \<Rightarrow> string list" where
  "quality_citations rows =
     concat (map (\<lambda>(c, d). cited_by rows ''deterministic_decisions'' c (rd_evidence d)) (rr_rules rows)) @
     concat (map (\<lambda>(c, a). cited_by rows ''agent_decisions'' c (ta_evidence a)) (rr_agents rows))"

text \<open>The reconciliation of a case, computed again from its decision, answer and evidence.\<close>

definition evidence_of_case :: "run_rows \<Rightarrow> string \<Rightarrow> string list" where
  "evidence_of_case rows case_id = map fst (filter (\<lambda>p. ce_case (snd p) = Some case_id) (q_evidence rows))"

definition expected_reconciliation :: "run_rows \<Rightarrow> string \<Rightarrow> reconciliation option" where
  "expected_reconciliation rows case_id =
     (case (map_of (q_manifests rows) case_id, map_of (q_rules rows) case_id,
            map_of (q_agents rows) case_id, map_of (q_reconciliations rows) case_id) of
        (Some m, Some det, Some answer, Some stored) \<Rightarrow>
          (case check_agent answer of
             Inl _ \<Rightarrow> None
           | Inr agent \<Rightarrow> Some (reconcile_with_operating_controls det agent (evidence_of_case rows case_id)
                             (mf_repeat_sequence m \<noteq> 0)))
      | _ \<Rightarrow> None)"

definition recomputed_policy :: "run_rows \<Rightarrow> string \<Rightarrow> string list" where
  "recomputed_policy rows case_id =
     (case (map_of (q_rules rows) case_id, map_of (q_agents rows) case_id, map_of (q_reconciliations rows) case_id) of
        (Some det, Some answer, Some stored) \<Rightarrow>
          (case expected_reconciliation rows case_id of
             None \<Rightarrow> [''invalid agent decision schema for '' @ case_id]
           | Some recomputed \<Rightarrow>
               flag (stored \<noteq> recomputed) (''stored reconciliation violates recomputed policy for '' @ case_id) @
               flag (map_option ae_action (map_of (q_actions rows) case_id) \<noteq> Some (rd_best det))
                 (''action disagrees with deterministic policy for '' @ case_id))
      | _ \<Rightarrow> [''missing decision/reconciliation record for '' @ case_id])"

definition quality_policy :: "run_rows \<Rightarrow> string list" where
  "quality_policy rows = concat (map (\<lambda>(c, m). recomputed_policy rows c) (q_manifests rows))"

subsection \<open>Field work\<close>

definition repeat_case :: "run_rows \<Rightarrow> string option \<Rightarrow> bool" where
  "repeat_case rows c = (case Option.bind c (map_of (q_manifests rows)) of
       None \<Rightarrow> False | Some m \<Rightarrow> 0 < mf_repeat_sequence m)"

definition work_order_errors :: "run_rows \<Rightarrow> work_order \<Rightarrow> string list" where
  "work_order_errors rows wo =
     flag (\<not> in_order [wo_diagnosed wo, wo_readiness wo, wo_assigned wo, wo_dispatched wo, wo_arrived wo, wo_completed wo])
       ''invalid work-order readiness/lifecycle ordering'' @
     flag (\<not> wo_ready wo \<or> \<not> wo_skill_ok wo \<or> \<not> wo_parts_ok wo \<or> \<not> wo_access_ok wo)
       ''work order assigned without complete readiness gate'' @
     flag (wo_required_skill wo = [] \<or> wo_required_skill wo \<noteq> wo_technician_skill wo) ''work order skill mismatch'' @
     flag (wo_parts wo \<noteq> [] \<and> \<not> wo_parts_ok wo) ''work order parts not confirmed'' @
     flag (wo_type wo = ''CPE_SWAP'' \<and> wo_cpe wo \<noteq> Some True) ''CPE swap assigned without replacement CPE'' @
     flag (wo_arrived wo = None \<or> wo_dispatched wo = None \<or>
        (case wo_distance wo of None \<Rightarrow> True | Some d \<Rightarrow> d < 0)) ''work order lacks generated travel economics'' @
     flag (wo_ferry wo = None) ''work order ferry use is not explicit'' @
     flag (wo_overnight wo = None) ''work order overnight use is not explicit'' @
     flag (wo_economics wo \<noteq> ''synthetic_work_order'') ''work order travel economics source is missing'' @
     flag (repeat_case rows (wo_case wo) \<and>
        (\<not> wo_supervised wo \<or> wo_supervisor wo = None \<or> wo_supervisor wo = Some []))
       ''repeat work dispatched without supervisor escalation''"

definition field_evidence_errors :: "run_rows \<Rightarrow> field_row \<Rightarrow> string list" where
  "field_evidence_errors rows ev = (case map_of (q_work rows) (fe_work_order ev) of
       None \<Rightarrow> [''field evidence missing case-local work order'']
     | Some wo \<Rightarrow>
         if wo_case wo \<noteq> fe_case ev then [''field evidence missing case-local work order'']
         else flag (\<not> in_order [wo_arrived wo, fe_captured ev, wo_completed wo]) ''field evidence outside work interval'')"

definition quality_work :: "run_rows \<Rightarrow> string list" where
  "quality_work rows =
     concat (map (work_order_errors rows) (rr_work rows)) @
     concat (map (field_evidence_errors rows) (rr_evidence rows))"

definition failed_diagnostic :: "work_order \<Rightarrow> int \<Rightarrow> field_row \<Rightarrow> bool" where
  "failed_diagnostic wo start ev \<longleftrightarrow> fe_case ev = wo_case wo \<and> fe_work_order ev = wo_id wo \<and>
     fe_measurement ev = ''cpe_diagnostic_failed'' \<and> fe_result ev = Some ''FAIL'' \<and> fe_reason ev \<noteq> [] \<and>
     (case fe_captured ev of None \<Rightarrow> False | Some t \<Rightarrow> t < start)"

definition swap_errors :: "run_rows \<Rightarrow> work_order \<Rightarrow> string list" where
  "swap_errors rows wo =
     (if wo_type wo \<noteq> ''CPE_SWAP'' then []
      else case wo_replacement wo of
        None \<Rightarrow> [''CPE swap lacks pre-replacement diagnostic gate'']
      | Some start \<Rightarrow>
          if wo_preconditions wo = [] then [''CPE swap lacks pre-replacement diagnostic gate'']
          else flag (\<not> (\<exists>ref \<in> set (wo_preconditions wo).
                 case map_of (index_by fe_id (rr_evidence rows)) ref of
                   None \<Rightarrow> False | Some ev \<Rightarrow> failed_diagnostic wo start ev))
               ''CPE replacement started without documented failed diagnostic'')"

definition quality_swaps :: "run_rows \<Rightarrow> string list" where
  "quality_swaps rows = concat (map (swap_errors rows) (rr_work rows))"

definition mr_errors :: "run_rows \<Rightarrow> mr_row \<Rightarrow> string list" where
  "mr_errors rows mr =
     (let wo = map_of (q_work rows) (mr_work_order mr) in
      flag (\<not> in_order [mr_created mr, mr_accepted mr, Option.bind wo wo_dispatched, Option.bind wo wo_completed,
             mr_completed mr]) ''invalid MR/work lifecycle ordering'' @
      flag (mr_evidence mr = [] \<or> mr_completion_evidence mr = [])
        ''MR lacks required initial/completion evidence'' @
      concat (map (\<lambda>e. case map_of (q_evidence rows) e of
           None \<Rightarrow> [''invalid MR initial evidence'']
         | Some ev \<Rightarrow> if ce_case ev \<noteq> mr_case mr then [''invalid MR initial evidence'']
             else flag (not_before (ce_time ev) (mr_created mr)) ''MR created before cited evidence exists'')
        (mr_evidence mr)) @
      concat (map (\<lambda>e. case map_of (q_evidence rows) e of
           None \<Rightarrow> [''invalid MR completion evidence'']
         | Some ev \<Rightarrow> if ce_case ev \<noteq> mr_case mr then [''invalid MR completion evidence'']
             else flag (not_before (ce_time ev) (mr_completed mr)) ''MR completed before completion evidence exists'')
        (mr_completion_evidence mr)))"

definition quality_mrs :: "run_rows \<Rightarrow> string list" where
  "quality_mrs rows = concat (map (mr_errors rows) (rr_mrs rows))"

subsection \<open>Validation and resolution\<close>

definition validation_citation :: "run_rows \<Rightarrow> validation \<Rightarrow> string \<Rightarrow> string list" where
  "validation_citation rows v e = (case map_of (q_evidence rows) e of
       None \<Rightarrow> [''validation cites missing evidence'']
     | Some ev \<Rightarrow>
         flag (ce_case ev \<noteq> va_case v) ''validation cites cross-case evidence'' @
         flag (not_before (ce_time ev) (va_time v)) ''validation precedes cited evidence'')"

definition healthy_citation :: "run_rows \<Rightarrow> string \<Rightarrow> bool" where
  "healthy_citation rows e = (case map_of (q_evidence rows) e of None \<Rightarrow> False | Some ev \<Rightarrow> ce_healthy ev)"

definition checklist_complete :: "(string \<times> bool) list \<Rightarrow> bool" where
  "checklist_complete cs \<longleftrightarrow> fst ` set cs = set closure_checks \<and> (\<forall>k \<in> set closure_checks. map_of cs k = Some True)"

definition validation_errors :: "run_rows \<Rightarrow> validation \<Rightarrow> string list" where
  "validation_errors rows v =
     flag (va_evidence v = []) ''validation has no objective evidence'' @
     concat (map (validation_citation rows v) (va_evidence v)) @
     flag (\<not> (\<exists>e \<in> set (va_evidence v). healthy_citation rows e)) ''validation lacks healthy post-fix telemetry'' @
     flag (va_service_test v \<noteq> ''PASS'' \<or> \<not> va_stable v) ''validation is not PASS/stable'' @
     flag (\<not> checklist_complete (va_checklist v)) ''closure checklist incomplete'' @
     flag (not_before (va_checklist_time v) (va_time v)) ''closure checklist not completed before validation'' @
     concat (map (\<lambda>wo. flag (not_before (wo_completed wo) (va_time v)) ''validation precedes work completion'')
       (work_of_case rows (va_case v)))"

definition quality_validations :: "run_rows \<Rightarrow> string list" where
  "quality_validations rows = concat (map (validation_errors rows) (rr_validations rows))"

definition resolution_errors :: "run_rows \<Rightarrow> resolution \<Rightarrow> string list" where
  "resolution_errors rows r = (case map_of (q_validations rows) (re_validation r) of
       None \<Rightarrow> [''resolution missing case-local validation'']
     | Some v \<Rightarrow>
         if va_case v \<noteq> re_case r \<or> va_incident v \<noteq> re_incident r
         then [''resolution missing case-local validation'']
         else flag (not_before (va_time v) (re_time r)) ''resolution precedes validation'' @
              (case Option.bind (re_case r) (map_of (q_manifests rows)) of
                 None \<Rightarrow> []
               | Some m \<Rightarrow> flag (re_domain r \<noteq> mf_truth_domain m) ''resolution fault domain contradicts scenario truth''))"

definition quality_resolutions :: "run_rows \<Rightarrow> string list" where
  "quality_resolutions rows = concat (map (resolution_errors rows) (rr_resolutions rows))"

end
