(* ===== verification/TwinGate.thy ===== *)
theory TwinGate
  imports TwinQuality
begin

text \<open>
  The rest of the quality gate: the state of root incidents, the human and action records, the
  branch an action may take, repeats, the predictive and care records, and the gate itself. One
  check can raise: a closed incident without its closing time is compared with a time.
\<close>

subsection \<open>Root incidents\<close>

text \<open>The instant of \<open>datetime.min\<close>, the key of an attempt without a time.\<close>

definition min_instant :: int where
  "min_instant = - 62135596800000000"

definition attempts_of_root :: "run_rows \<Rightarrow> string \<Rightarrow> manifest list" where
  "attempts_of_root rows root_case =
     sort_key (\<lambda>m. case mf_time m of None \<Rightarrow> min_instant | Some t \<Rightarrow> t)
       (filter (\<lambda>m. mf_root_case m = root_case) (map snd (q_manifests rows)))"

definition closed_root_errors :: "run_rows \<Rightarrow> root_incident \<Rightarrow> string \<Rightarrow> string list res" where
  "closed_root_errors rows i latest_case =
     (let lifecycle = flag (\<not> in_order [ri_opened i, ri_resolved i, ri_closed i])
            ''invalid closed root-incident lifecycle''
      in case resolution_of rows latest_case of
        None \<Rightarrow> Inr (lifecycle @ [''root incident closed without latest-attempt resolution''])
      | Some r \<Rightarrow> (case re_time r of
          None \<Rightarrow> Inr (lifecycle @ [''root incident closes before latest resolution''])
        | Some t \<Rightarrow> (case ri_closed i of
            None \<Rightarrow> Inl (TypeError ''not supported between instances of NoneType and datetime'')
          | Some closed_at \<Rightarrow> Inr (lifecycle @
              flag (closed_at < t) ''root incident closes before latest resolution''))))"

definition open_root_errors :: "run_rows \<Rightarrow> root_incident \<Rightarrow> string \<Rightarrow> string list" where
  "open_root_errors rows i latest_case =
     flag (ri_resolved i \<noteq> None \<or> ri_closed i \<noteq> None) ''open root incident contains resolved/closed timestamp'' @
     flag (map_option ae_status (map_of (q_actions rows) latest_case) = Some ''SIMULATED_EXECUTED'' \<and>
           map_option rd_best (map_of (q_rules rows) latest_case) \<noteq> Some ''collect_evidence'' \<and>
           resolution_of rows latest_case \<noteq> None)
       ''restored latest attempt left root incident open''"

definition root_errors :: "run_rows \<Rightarrow> string \<Rightarrow> root_incident \<Rightarrow> string list res" where
  "root_errors rows root_case i =
     (let attempts = attempts_of_root rows root_case in
      if attempts = [] then Inr [''root incident has no attempts'']
      else
        (let latest_case = mf_case (last attempts);
             repeats = length (filter (\<lambda>a. 0 < mf_repeat_sequence a) attempts)
         in bindR (if ri_status i = ''CLOSED'' then closed_root_errors rows i latest_case
                   else if ri_status i = ''OPEN'' then Inr (open_root_errors rows i latest_case)
                   else Inr [''unknown root incident status''])
              (\<lambda>es. Inr (es @ flag (ri_repeat_count i \<noteq> int repeats) ''root incident repeat count mismatch''))))"

definition quality_roots :: "run_rows \<Rightarrow> string list res" where
  "quality_roots rows =
     bindR (mapR (\<lambda>(c, i). root_errors rows c i) (q_incidents_by_root rows)) (\<lambda>ess. Inr (concat ess))"

subsection \<open>Human decisions, actions and their branches\<close>

definition downstream :: "run_rows \<Rightarrow> string \<Rightarrow> bool" where
  "downstream rows c \<longleftrightarrow> work_of_case rows (Some c) \<noteq> [] \<or> mrs_of_case rows c \<noteq> [] \<or> validated rows c \<or>
     resolution_of rows c \<noteq> None"

definition executed_errors :: "human_row \<Rightarrow> action_row \<Rightarrow> reconciliation \<Rightarrow> string list" where
  "executed_errors h a rec =
     (if rc_human rec
      then flag (hr_status h \<noteq> ''APPROVED'' \<or> hr_response h \<noteq> Some ''approve'' \<or> \<not> hr_required h)
             ''human-gated action executed without approval'' @
           flag (not_before (hr_decided h) (ae_time a)) ''action executed before human approval''
      else flag (hr_status h \<noteq> ''NOT_REQUIRED'' \<or> hr_required h)
             ''policy-auto action has inconsistent human status'')"

definition control_errors :: "run_rows \<Rightarrow> string \<Rightarrow> string list" where
  "control_errors rows c =
     (case (map_of (q_humans rows) c, map_of (q_actions rows) c, expected_reconciliation rows c) of
        (Some h, Some a, Some rec) \<Rightarrow>
          flag (ae_production_write a) ''production write enabled in action event'' @
          (if ae_status a = ''BLOCKED_PENDING_HUMAN''
           then flag (hr_status h \<noteq> ''PENDING'' \<or> \<not> hr_required h \<or> \<not> rc_human rec)
                  ''blocked action lacks required pending human decision'' @
                flag (downstream rows c) ''downstream records exist while action remains pending''
           else if ae_status a = ''SIMULATED_EXECUTED'' then executed_errors h a rec
           else if ae_status a = ''BLOCKED_NEEDS_EVIDENCE''
           then flag (hr_status h \<noteq> ''EVIDENCE_REQUESTED'' \<or> hr_response h \<noteq> Some ''request_evidence'')
                  ''evidence-request block has inconsistent human record'' @
                flag (downstream rows c) ''downstream records exist after evidence request''
           else if ae_status a = ''BLOCKED_ESCALATED''
           then flag (\<not> List.member [''ESCALATED'', ''REJECTED''] (hr_status h) \<or>
                  \<not> List.member [Some ''escalate'', Some ''reject''] (hr_response h))
                  ''escalated/rejected block has inconsistent human record'' @
                flag (downstream rows c) ''downstream records exist after escalation/rejection''
           else [''unknown action status''])
      | _ \<Rightarrow> [''missing control-plane record for '' @ c])"

definition quality_control :: "run_rows \<Rightarrow> string list" where
  "quality_control rows = concat (map (\<lambda>(c, m). control_errors rows c) (q_manifests rows))"

definition executed_action :: "run_rows \<Rightarrow> string \<Rightarrow> action_row option" where
  "executed_action rows c = (case map_of (q_actions rows) c of
       None \<Rightarrow> None | Some a \<Rightarrow> if ae_status a = ''SIMULATED_EXECUTED'' then Some a else None)"

definition branch_errors :: "run_rows \<Rightarrow> string \<Rightarrow> rule_decision \<Rightarrow> string list" where
  "branch_errors rows c det = (case executed_action rows c of
       None \<Rightarrow> []
     | Some a \<Rightarrow>
         (let work = work_of_case rows (Some c); mrs = mrs_of_case rows c; selected = rd_best det in
          flag (List.member [''remote_repair'', ''collect_evidence''] selected \<and> (work \<noteq> [] \<or> mrs \<noteq> []))
            ''remote/read-only branch incorrectly created truck work'' @
          flag (List.member [''dispatch_clean'', ''cpe_swap''] selected \<and> (length work \<noteq> 1 \<or> mrs \<noteq> []))
            ''field branch missing or duplicated Clean Boots work'' @
          flag (List.member [''create_mr'', ''plant_repair''] selected \<and> (length work \<noteq> 1 \<or> length mrs \<noteq> 1))
            ''plant branch missing MR or plant work'' @
          concat (map (\<lambda>w. flag (not_before (ae_time a) (wo_dispatched w)) ''work dispatched before authorized action'') work) @
          concat (map (\<lambda>m. flag (not_before (ae_time a) (mr_created m)) ''MR created before authorized action'') mrs)))"

definition quality_branches :: "run_rows \<Rightarrow> string list" where
  "quality_branches rows = concat (map (\<lambda>(c, d). branch_errors rows c d) (q_rules rows))"

definition closure_errors :: "run_rows \<Rightarrow> string \<Rightarrow> rule_decision \<Rightarrow> string list" where
  "closure_errors rows c det = (case executed_action rows c of
       None \<Rightarrow> []
     | Some a \<Rightarrow>
         if rd_best det = ''collect_evidence''
         then flag (resolution_of rows c \<noteq> None \<or> validated rows c)
                ''collect-evidence action incorrectly claims restoration''
         else flag (resolution_of rows c = None \<or> \<not> validated rows c)
                ''executed restoring action lacks verified closure'')"

definition quality_closures :: "run_rows \<Rightarrow> string list" where
  "quality_closures rows = concat (map (\<lambda>(c, d). closure_errors rows c d) (q_rules rows))"

subsection \<open>Repeats and data-set safety\<close>

definition repeat_errors :: "run_rows \<Rightarrow> manifest \<Rightarrow> string list" where
  "repeat_errors rows m =
     (if mf_repeat_sequence m \<le> 0
      then flag (mf_repeat_of m \<noteq> None \<or> mf_supervisor m) ''non-repeat case has repeat metadata''
      else case (Option.bind (mf_repeat_of m) (map_of (q_manifests rows)), map_of (q_manifests rows) (mf_root_case m)) of
        (Some parent, Some root_m) \<Rightarrow>
          flag (mf_root_case parent \<noteq> mf_root_case m \<or> mf_service parent \<noteq> mf_service m)
            ''repeat attempt changes root/service identity'' @
          flag (case (mf_time parent, mf_time m) of
              (Some p, Some t) \<Rightarrow> \<not> (p < t \<and> t \<le> p + days_of 30) | _ \<Rightarrow> True)
            ''repeat attempt outside 30-day window'' @
          flag (mf_root_incident m \<noteq> mf_root_incident root_m) ''repeat attempt changes root incident'' @
          flag (\<not> mf_supervisor m) ''repeat attempt missing supervisor escalation policy'' @
          flag (case map_of (q_humans rows) (mf_case m) of
              None \<Rightarrow> True
            | Some h \<Rightarrow> \<not> hr_required h \<or> \<not> hr_supervisor h \<or>
                \<not> contains ''supervisor'' (case hr_actor h of None \<Rightarrow> ''None'' | Some a \<Rightarrow> a))
            ''repeat attempt lacks supervisor/senior approval''
      | _ \<Rightarrow> [''repeat attempt references missing parent/root''])"

definition quality_repeats :: "run_rows \<Rightarrow> string list" where
  "quality_repeats rows = concat (map (\<lambda>(c, m). repeat_errors rows m) (q_manifests rows))"

definition quality_safety :: "run_rows \<Rightarrow> string list" where
  "quality_safety rows =
     flag (\<exists>a \<in> set (rr_actions rows). ae_production_write a) ''production-write safety contract violated'' @
     concat (map (\<lambda>i. flag (ri_status i = ''CLOSED'' \<and>
         \<not> (\<exists>r \<in> set (rr_resolutions rows). re_incident r = Some (ri_incident i)))
       ''closed root incident lacks resolution history'') (rr_incidents rows))"

subsection \<open>Predictive and care records\<close>

definition pull_errors :: "run_rows \<Rightarrow> modem_pull \<Rightarrow> string list" where
  "pull_errors rows p =
     flag (map_option ts_device (map_of (q_master rows) (mp_service p)) \<noteq> Some (mp_device p))
       ''predictive pull is not correlated to subscriber master'' @
     flag (mp_kpis p = [] \<or> mp_window_days p < 7) ''predictive pull lacks trend evidence''"

definition predictive_errors :: "run_rows \<Rightarrow> predictive_ticket \<Rightarrow> string list" where
  "predictive_errors rows t =
     (if map_option mp_service (map_of (index_by mp_device (rr_pulls rows)) (pk_device t)) \<noteq> Some (pk_service t)
      then [''predictive ticket lacks matching modem pull'']
      else
        flag (pk_findings t = []) ''predictive ticket lacks findings'' @
        flag (pk_class t = ''proactive'' \<and> \<not> list_ex pf_breached (pk_findings t))
          ''proactive ticket has no breached KPI'' @
        (if pk_class t = ''forecast''
         then flag (list_ex pf_breached (pk_findings t)) ''forecast ticket contains current breach'' @
              flag (\<not> list_ex (\<lambda>f. pf_days f \<noteq> None) (pk_findings t)) ''forecast ticket lacks days-to-breach evidence''
         else flag (pk_class t \<noteq> ''proactive'') ''unknown predictive ticket class''))"

definition q_tickets :: "run_rows \<Rightarrow> (string \<times> predictive_ticket) list" where
  "q_tickets rows = index_by pk_id (rr_tickets rows)"

definition quality_predictive :: "run_rows \<Rightarrow> string list" where
  "quality_predictive rows =
     concat (map (pull_errors rows) (rr_pulls rows)) @
     concat (map (\<lambda>(k, t). predictive_errors rows t) (q_tickets rows))"

definition q_care :: "run_rows \<Rightarrow> (string \<times> care_ticket) list" where
  "q_care rows = index_by cr_id (rr_care rows)"

definition care_status_for :: "root_incident \<Rightarrow> string" where
  "care_status_for i = (if ri_status i = ''CLOSED'' then ''CLOSED'' else ''OPEN'')"

definition care_errors :: "run_rows \<Rightarrow> care_ticket \<Rightarrow> string list" where
  "care_errors rows c =
     (case (map_of (index_by ct_contact (rr_contacts rows)) (cr_contact c), map_of (q_manifests rows) (cr_case c),
            map_of (q_incidents rows) (cr_incident c)) of
        (Some ct, Some m, Some i) \<Rightarrow>
          flag (cr_incident c \<noteq> mf_root_incident m \<or> cr_service c \<noteq> mf_service m)
            ''care ticket is not attached to canonical root incident'' @
          flag (\<not> cr_suppressed c \<or> cr_production_write c)
            ''care ticket duplicate/production-write safety contract violated'' @
          flag (cr_status c \<noteq> care_status_for i) ''care ticket status disagrees with root incident''
      | _ \<Rightarrow> [''care ticket has orphan contact/case/incident''])"

definition quality_care :: "run_rows \<Rightarrow> string list" where
  "quality_care rows = concat (map (\<lambda>(k, c). care_errors rows c) (q_care rows))"

definition correlation_errors :: "run_rows \<Rightarrow> care_ticket \<Rightarrow> string list" where
  "correlation_errors rows c =
     (if cr_match c
      then case Option.bind (cr_predictive c) (map_of (q_tickets rows)) of
          None \<Rightarrow> [''care predictive match references missing ticket'']
        | Some p \<Rightarrow>
            flag (pk_service p \<noteq> cr_service c) ''care predictive match crosses service identity'' @
            flag (not_before (pk_opened p) (cr_opened c)) ''care predictive match is not predictive-before-contact'' @
            flag (cr_disposition c \<noteq> ''ATTACH_TO_PREDICTIVE_ROOT_INCIDENT'')
              ''predictive care match has wrong correlation disposition''
      else flag (cr_predictive c \<noteq> None) ''care ticket carries predictive id without predictive match'')"

definition quality_correlation :: "run_rows \<Rightarrow> string list" where
  "quality_correlation rows = concat (map (\<lambda>(k, c). correlation_errors rows c) (q_care rows))"

definition review_errors :: "run_rows \<Rightarrow> care_review \<Rightarrow> string list" where
  "review_errors rows v = (case map_of (q_care rows) (cv_care v) of
       None \<Rightarrow> []
     | Some c \<Rightarrow>
         (let det = map_of (q_rules rows) (cr_case c);
              agent = map_of (q_agents rows) (cr_case c);
              rec = map_of (q_reconciliations rows) (cr_case c)
          in flag (map_option rd_domain det \<noteq> Some (cv_domain v) \<or> map_option rd_best det \<noteq> Some (cv_action v))
               ''care review disagrees with deterministic branch'' @
             flag (map_option ta_source agent \<noteq> Some (cv_agent_source v) \<or>
                   map_option ta_best agent \<noteq> Some (cv_agent_action v))
               ''care review disagrees with agent decision'' @
             flag (map_option rc_human rec \<noteq> Some (cv_human v)) ''care review disagrees with reconciliation'' @
             flag (cv_match v \<noteq> cr_match c \<or> cv_predictive v \<noteq> cr_predictive c)
               ''care review disagrees with predictive correlation''))"

definition quality_reviews :: "run_rows \<Rightarrow> string list" where
  "quality_reviews rows =
     (let reviews = index_by cv_care (rr_reviews rows) in
      flag (fst ` set reviews \<noteq> fst ` set (q_care rows)) ''care review coverage does not match care ticket queue'' @
      concat (map (\<lambda>(k, v). review_errors rows v) reviews))"

subsection \<open>The gate\<close>

record quality =
  qu_passed :: bool
  qu_errors :: "string list"
  qu_checks :: nat

definition quality_check :: "run_rows \<Rightarrow> quality res" where
  "quality_check rows =
     bindR (quality_roots rows) (\<lambda>root_errs.
       (let errors = quality_identity rows @ quality_regions rows @ quality_graph rows @ quality_scenarios rows @
              quality_citations rows @ quality_policy rows @ quality_work rows @ quality_swaps rows @
              quality_mrs rows @ quality_validations rows @ quality_resolutions rows @ root_errs @
              quality_control rows @ quality_branches rows @ quality_closures rows @ quality_repeats rows @
              quality_safety rows @ quality_predictive rows @ quality_care rows @ quality_correlation rows @
              quality_reviews rows
        in Inr \<lparr>qu_passed = (errors = []), qu_errors = errors, qu_checks = 20\<rparr>))"

subsection \<open>Reading an accepted run\<close>

text \<open>The gate is passed exactly when every group of checks is.\<close>

lemmas quality_groups = quality_identity_def quality_graph_def quality_scenarios_def quality_citations_def
  quality_policy_def quality_work_def quality_swaps_def quality_mrs_def quality_validations_def
  quality_resolutions_def quality_control_def quality_branches_def quality_closures_def quality_repeats_def
  quality_safety_def

definition accepted :: "run_rows \<Rightarrow> bool" where
  "accepted rows \<longleftrightarrow> (case quality_check rows of Inl _ \<Rightarrow> False | Inr q \<Rightarrow> qu_passed q)"

lemma accepted_iff:
  "accepted rows \<longleftrightarrow> quality_roots rows = Inr [] \<and> quality_identity rows = [] \<and> quality_regions rows = [] \<and>
     quality_graph rows = [] \<and> quality_scenarios rows = [] \<and> quality_citations rows = [] \<and>
     quality_policy rows = [] \<and> quality_work rows = [] \<and> quality_swaps rows = [] \<and> quality_mrs rows = [] \<and>
     quality_validations rows = [] \<and> quality_resolutions rows = [] \<and> quality_control rows = [] \<and>
     quality_branches rows = [] \<and> quality_closures rows = [] \<and> quality_repeats rows = [] \<and>
     quality_safety rows = [] \<and> quality_predictive rows = [] \<and> quality_care rows = [] \<and>
     quality_correlation rows = [] \<and> quality_reviews rows = []"
  by (cases "quality_roots rows") (auto simp: accepted_def quality_check_def Let_def)

end
