(* ===== verification/TwinRun.thy ===== *)
theory TwinRun
  imports TwinCase TwinGate Datetime
begin

text \<open>
  A digital-twin run: the care tickets of its contacts (\<open>digital_twin/care.py\<close>), its generation
  case by case, and the mirroring of a live decision into its tables
  (\<open>digital_twin/orchestrator.py\<close>). The predictive snapshot a run starts from is an argument.
  The tables and the case store are separate: what happens to one does not undo the other.
\<close>

definition look :: "string \<Rightarrow> (string \<times> 'v) list \<Rightarrow> 'v res" where
  "look k d = (case map_of d k of None \<Rightarrow> Inl (KeyError k) | Some v \<Rightarrow> Inr v)"

definition next_of :: "('a \<Rightarrow> bool) \<Rightarrow> 'a list \<Rightarrow> 'a res" where
  "next_of P xs = (case find P xs of None \<Rightarrow> Inl StopIteration | Some x \<Rightarrow> Inr x)"

text \<open>\<open>_iso\<close> and \<open>_parse_ts\<close>.\<close>

definition iso_text :: "int \<Rightarrow> string" where
  "iso_text t = isoformat (utc t)"

definition parse_ts :: "string \<Rightarrow> int res" where
  "parse_ts s = bindR (fromisoformat (concat (map (\<lambda>c. if c = CHR ''Z'' then ''+00:00'' else [c]) s)))
     (\<lambda>d. Inr (instant d))"

subsection \<open>Care tickets\<close>

definition issue_text :: "(string \<times> string) list" where
  "issue_text =
     [(''slow_wifi'', ''Customer reports Wi-Fi is slow or unstable inside the home.''),
      (''no_service'', ''Customer reports no broadband service.''),
      (''intermittent_service'', ''Customer reports repeated service drops.''),
      (''iptv_degradation'', ''Customer reports IPTV freezing or pixelation.''),
      (''fiber_cut'', ''Customer reports loss of service associated with an access fault.''),
      (''hfc_ingress'', ''Customer reports unstable broadband consistent with RF impairment.''),
      (''congestion'', ''Customer reports slow service during busy periods.''),
      (''power_outage'', ''Customer reports service unavailable during a power event.''),
      (''storm'', ''Customer reports service degradation during storm conditions.''),
      (''flooding'', ''Customer reports service loss during flooding conditions.''),
      (''hurricane'', ''Customer reports service loss during hurricane conditions.''),
      (''provisioning_error'', ''Customer reports service not working after activation or change.''),
      (''cpe_failure'', ''Customer reports gateway or modem malfunction.'')]"

definition care_priority :: "string \<Rightarrow> string" where
  "care_priority scenario =
     (if List.member [''no_service'', ''fiber_cut'', ''power_outage'', ''storm'', ''flooding'', ''hurricane''] scenario
      then ''P1''
      else if List.member [''intermittent_service'', ''hfc_ingress'', ''cpe_failure'', ''provisioning_error''] scenario
      then ''P2'' else ''P3'')"

definition care_sla_hours :: "string \<Rightarrow> int" where
  "care_sla_hours priority = (if priority = ''P1'' then 8 else if priority = ''P2'' then 24 else 48)"

text \<open>
  The predictive tickets of a service, proactive before forecast, then by severity, then by
  opening time: the three keys of one sort, applied as stable sorts from the last to the first.
\<close>

definition ticket_opened :: "predictive_ticket \<Rightarrow> int res" where
  "ticket_opened p = (case pk_opened p of
       None \<Rightarrow> Inl (AttributeError ''object has no attribute replace'') | Some t \<Rightarrow> Inr t)"

definition tickets_for_service :: "predictive_ticket list \<Rightarrow> string \<Rightarrow> predictive_ticket list" where
  "tickets_for_service tickets service =
     sort_key (\<lambda>p. if pk_class p = ''proactive'' then 0 else (1::nat))
       (sort_key (\<lambda>p. if List.member [''critical'', ''high''] (pk_severity p) then 0 else (1::nat))
         (sort_key (\<lambda>p. case pk_opened p of None \<Rightarrow> 0 | Some t \<Rightarrow> t)
           (filter (\<lambda>p. pk_service p = service) tickets)))"

definition predictive_for :: "predictive_ticket list \<Rightarrow> string \<Rightarrow> int \<Rightarrow> predictive_ticket option res" where
  "predictive_for tickets service opened_at =
     bindR (mapR (\<lambda>p. bindR (ticket_opened p) (\<lambda>t. Inr (p, t))) (tickets_for_service tickets service))
       (\<lambda>timed. Inr (case filter (\<lambda>(p, t). t \<le> opened_at) timed of [] \<Rightarrow> None | (p, t) # _ \<Rightarrow> Some p))"

text \<open>The root incident of a contact that a predictive ticket foresaw, or did not.\<close>

definition correlate_root :: "predictive_ticket option \<Rightarrow> root_incident \<Rightarrow> root_incident" where
  "correlate_root predictive i = (case predictive of
       Some p \<Rightarrow> i\<lparr>ri_origin := Some ''PREDICTIVE'', ri_predictive := Some (pk_id p),
           ri_opened := (case (pk_opened p, ri_opened i) of
              (Some a, Some b) \<Rightarrow> if a < b then Some a else Some b | _ \<Rightarrow> ri_opened i)\<rparr>
     | None \<Rightarrow> i\<lparr>ri_origin := (case ri_origin i of None \<Rightarrow> Some ''REACTIVE'' | Some x \<Rightarrow> Some x)\<rparr>)"

definition opt_list :: "'a option \<Rightarrow> 'a list" where
  "opt_list x = (case x of None \<Rightarrow> [] | Some y \<Rightarrow> [y])"

definition care_record ::
  "run_rows \<Rightarrow> (string \<times> subscriber) list \<Rightarrow> contact \<Rightarrow> (root_incident \<times> care_ticket \<times> care_review) res" where
  "care_record rows subscribers c =
     bindR (look (case ct_case c of None \<Rightarrow> ''None'' | Some k \<Rightarrow> k) (q_manifests rows)) (\<lambda>m.
     bindR (look (mf_root_incident m) (q_incidents rows)) (\<lambda>incident.
     (let case_id = mf_case m; service = (case ct_service c of None \<Rightarrow> ''None'' | Some s \<Rightarrow> s) in
     bindR (look service subscribers) (\<lambda>sub.
     bindR (predictive_for (rr_tickets rows) service (ct_time c)) (\<lambda>predictive.
     bindR (look case_id (q_rules rows)) (\<lambda>det.
     bindR (look case_id (q_agents rows)) (\<lambda>agent.
     bindR (look case_id (q_reconciliations rows)) (\<lambda>rec.
       (let incident' = correlate_root predictive incident;
            priority = care_priority (mf_scenario m);
            care_id = ''CARE-'' @ ct_contact c;
            disposition = (if predictive = None then ''ATTACH_TO_REACTIVE_ROOT_INCIDENT''
                           else ''ATTACH_TO_PREDICTIVE_ROOT_INCIDENT'')
        in Inr (incident',
          \<lparr>cr_id = care_id, cr_contact = ct_contact c, cr_case = case_id, cr_root_case = mf_root_case m,
           cr_incident = mf_root_incident m, cr_service = service, cr_device = ts_device sub,
           cr_opened = Some (ct_time c), cr_closed = ri_closed incident', cr_status = care_status_for incident',
           cr_channel = ct_channel c, cr_category = mf_scenario m,
           cr_summary = (case map_of issue_text (mf_scenario m) of
              None \<Rightarrow> ''Customer reports broadband service issue.'' | Some x \<Rightarrow> x),
           cr_priority = priority, cr_due = ct_time c + hours_of (care_sla_hours priority),
           cr_repeat = ct_repeat c, cr_repeat_sequence = ct_repeat_sequence c,
           cr_match = (predictive \<noteq> None), cr_predictive = map_option pk_id predictive,
           cr_class = map_option pk_class predictive, cr_severity = map_option pk_severity predictive,
           cr_disposition = disposition, cr_suppressed = True, cr_production_write = False\<rparr>,
          \<lparr>cv_care = care_id, cv_case = case_id, cv_incident = mf_root_incident m, cv_service = service,
           cv_status = ''REVIEWED'', cv_incident_status = ri_status incident', cv_domain = rd_domain det,
           cv_action = rd_best det, cv_eligible = rd_eligible det, cv_agent_source = ta_source agent,
           cv_agent_status = ta_provider_status agent, cv_agent_domain = ta_domain agent,
           cv_agent_action = ta_best agent, cv_agent_confidence = ta_confidence agent,
           cv_agent_rationale = ta_rationale agent, cv_human = rc_human rec, cv_reason = rc_reason rec,
           cv_match = (predictive \<noteq> None), cv_predictive = map_option pk_id predictive,
           cv_disposition = disposition,
           cv_evidence = [''TEL-'' @ case_id @ ''-PRE'', ''ALM-'' @ case_id] @ opt_list (map_option pk_id predictive)\<rparr>))))))))))"

text \<open>Contacts in order; the incident rows are the ones the run keeps.\<close>

fun care_records :: "run_rows \<Rightarrow> (string \<times> subscriber) list \<Rightarrow> contact list \<Rightarrow> run_rows res" where
  "care_records rows subscribers [] = Inr rows"
| "care_records rows subscribers (c # cs) =
     bindR (care_record rows subscribers c) (\<lambda>(incident', ticket, review).
       care_records (rows\<lparr>rr_incidents := map (\<lambda>i. if ri_incident i = ri_incident incident' then incident' else i)
                            (rr_incidents rows),
                          rr_care := rr_care rows @ [ticket], rr_reviews := rr_reviews rows @ [review]\<rparr>)
         subscribers cs)"

definition build_care_records :: "run_rows \<Rightarrow> (string \<times> subscriber) list \<Rightarrow> run_rows res" where
  "build_care_records rows subscribers =
     care_records (rows\<lparr>rr_care := [], rr_reviews := []\<rparr>) subscribers (rr_contacts rows)"

definition refresh_ticket :: "run_rows \<Rightarrow> care_ticket \<Rightarrow> care_ticket" where
  "refresh_ticket rows t = (case map_of (q_incidents rows) (cr_incident t) of
       None \<Rightarrow> t
     | Some i \<Rightarrow>
         t\<lparr>cr_status := care_status_for i, cr_closed := (if ri_status i = ''CLOSED'' then ri_closed i else None)\<rparr>)"

definition refresh_review :: "run_rows \<Rightarrow> string list \<Rightarrow> care_review \<Rightarrow> care_review res" where
  "refresh_review rows changed v =
     (if cv_care v \<in> set changed
      then bindR (look (cv_incident v) (q_incidents rows)) (\<lambda>i. Inr (v\<lparr>cv_incident_status := ri_status i\<rparr>))
      else Inr v)"

text \<open>The refreshed tables, with the tickets and the reviews that were touched.\<close>

definition refresh_care_status :: "run_rows \<Rightarrow> (run_rows \<times> string list \<times> string list) res" where
  "refresh_care_status rows =
     (let changed = map cr_id (filter (\<lambda>t. refresh_ticket rows t \<noteq> t) (rr_care rows)) in
      bindR (mapR (refresh_review rows changed) (rr_reviews rows)) (\<lambda>reviews.
        Inr (rows\<lparr>rr_care := map (refresh_ticket rows) (rr_care rows), rr_reviews := reviews\<rparr>,
             changed, filter (\<lambda>k. k \<in> set changed) (map cv_care reviews))))"

end
