(* ===== verification/TwinLive.thy ===== *)
theory TwinLive
  imports TwinRun
begin

text \<open>
  Generating a run, and what a live decision makes of its tables
  (\<open>digital_twin/orchestrator.py\<close>). Each case opens or repeats a root incident, is decided and
  reconciled, and either waits in the case store or has its effect at once.
\<close>

subsection \<open>Generating the cases\<close>

record gen_state =
  gs_rows :: run_rows
  gs_store :: case_store
  gs_subs :: "(string \<times> subscriber) list"
  gs_seen :: "(string \<times> nat) list"
  gs_roots :: "(string \<times> (string \<times> string \<times> subscriber)) list"
  gs_last :: "(string \<times> string) list"
  gs_repeats :: nat

definition gen_start :: gen_state where
  "gen_start = \<lparr>gs_rows = no_rows, gs_store = [], gs_subs = [], gs_seen = [], gs_roots = [], gs_last = [],
     gs_repeats = 0\<rparr>"

definition reopen :: "int option \<Rightarrow> root_incident \<Rightarrow> root_incident" where
  "reopen t i = (if ri_status i = ''CLOSED''
     then i\<lparr>ri_prior_closed := ri_closed i, ri_resolved := None, ri_closed := None, ri_status := ''OPEN'',
            ri_reopen_count := ri_reopen_count i + 1, ri_last_reopened := t\<rparr>
     else i)"

definition repeat_attempt ::
  "nat \<Rightarrow> int \<Rightarrow> string \<Rightarrow> gen_state \<Rightarrow> string \<times> string \<times> subscriber \<Rightarrow> (twin_case \<times> gen_state) res" where
  "repeat_attempt idx base scenario g r =
     (let (root_case, root_incident, sub) = r in
      case find (\<lambda>i. ri_incident i = root_incident) (rr_incidents (gs_rows g)) of
        None \<Rightarrow> Inl (KeyError root_incident)
      | Some i \<Rightarrow>
          (let sequence = ri_repeat_count i + 1;
               previous = (case map_of (gs_last g) root_case of None \<Rightarrow> root_case | Some c \<Rightarrow> c)
           in bindR (base_case scenario sub idx base (Some \<lparr>rp_root_case = root_case,
                  rp_root_incident = root_incident, rp_previous = previous, rp_sequence = sequence\<rparr>)) (\<lambda>k.
              (let t = mf_time (tk_manifest k) in
               Inr (k, g\<lparr>gs_rows := (gs_rows g)\<lparr>rr_incidents := update_first (\<lambda>i. ri_incident i = root_incident)
                        (\<lambda>i. reopen t (i\<lparr>ri_repeat_count := sequence, ri_last_repeat := t\<rparr>))
                        (rr_incidents (gs_rows g))\<rparr>,
                      gs_repeats := gs_repeats g + 1\<rparr>)))))"

definition first_attempt ::
  "gen_config \<Rightarrow> nat \<Rightarrow> int \<Rightarrow> string \<Rightarrow> nat \<Rightarrow> gen_state \<Rightarrow> (twin_case \<times> gen_state) res" where
  "first_attempt c idx base scenario occurrence g =
     bindR (compatible_subscriber (gc_homes c) scenario (gc_seed c + int idx * 137)) (\<lambda>(i, sub).
     bindR (base_case scenario sub idx base None) (\<lambda>k.
       Inr (k, g\<lparr>gs_rows := (gs_rows g)\<lparr>rr_incidents := rr_incidents (gs_rows g) @ opt_list (tk_incident k)\<rparr>,
                 gs_roots := (if occurrence = 2
                    then dset scenario (mf_root_case (tk_manifest k), mf_root_incident (tk_manifest k), sub) (gs_roots g)
                    else gs_roots g)\<rparr>)))"

definition is_repeat :: "nat \<Rightarrow> string \<Rightarrow> gen_state \<Rightarrow> (string \<times> string \<times> subscriber) option" where
  "is_repeat occurrence scenario g =
     (if 2 < occurrence \<and> occurrence mod 10 = 0 then map_of (gs_roots g) scenario else None)"

text \<open>The rows of one attempt before its action: what was seen, decided and reconciled.\<close>

definition add_attempt ::
  "twin_case \<Rightarrow> string option \<Rightarrow> rule_decision \<Rightarrow> twin_agent \<Rightarrow> reconciliation \<Rightarrow> run_rows \<Rightarrow> run_rows" where
  "add_attempt k mode det agent rec rows =
     (let m = tk_manifest k in
      rows\<lparr>rr_manifests := rr_manifests rows @ [m\<lparr>mf_lifecycle := mode\<rparr>],
           rr_telemetry := rr_telemetry rows @ [tk_tele k], rr_alarms := rr_alarms rows @ [tk_alarm k],
           rr_contacts := rr_contacts rows @ [tk_contact k],
           rr_rules := rr_rules rows @ [(mf_case m, det)], rr_agents := rr_agents rows @ [(mf_case m, agent)],
           rr_reconciliations := rr_reconciliations rows @ [(mf_case m, rec)]\<rparr>)"

definition add_control :: "human_row \<Rightarrow> action_row \<Rightarrow> run_rows \<Rightarrow> run_rows" where
  "add_control h a rows = rows\<lparr>rr_humans := rr_humans rows @ [h], rr_actions := rr_actions rows @ [a]\<rparr>"

definition pending_human :: "string \<Rightarrow> human_row" where
  "pending_human c = \<lparr>hr_case = c, hr_status = ''PENDING'', hr_revision = 1, hr_required = True, hr_response = None,
     hr_actor = None, hr_decided = None, hr_rationale = None, hr_source = ''live_control'', hr_supervisor = False\<rparr>"

definition approved_human :: "string \<Rightarrow> bool \<Rightarrow> int \<Rightarrow> human_row" where
  "approved_human c repeat t = \<lparr>hr_case = c, hr_status = ''APPROVED'', hr_revision = 1, hr_required = True,
     hr_response = Some ''approve'',
     hr_actor = Some (if repeat then ''synthetic_senior_supervisor'' else ''synthetic_supervisor''),
     hr_decided = Some t, hr_rationale = Some ''Synthetic historical approval under operating controls.'',
     hr_source = ''synthetic_history'', hr_supervisor = repeat\<rparr>"

definition auto_human :: "string \<Rightarrow> human_row" where
  "auto_human c = \<lparr>hr_case = c, hr_status = ''NOT_REQUIRED'', hr_revision = 1, hr_required = False,
     hr_response = None, hr_actor = None, hr_decided = None, hr_rationale = None, hr_source = ''policy_auto'',
     hr_supervisor = False\<rparr>"

definition action_event :: "string \<Rightarrow> string \<Rightarrow> string \<Rightarrow> int \<Rightarrow> action_row" where
  "action_event c action status t = \<lparr>ae_case = c, ae_action = action, ae_status = status, ae_time = Some t,
     ae_production_write = False\<rparr>"

text \<open>A case that waits for a person, or has its effect in the run's past.\<close>

definition settle_attempt ::
  "nat \<Rightarrow> twin_case \<Rightarrow> rule_decision \<Rightarrow> twin_agent \<Rightarrow> reconciliation \<Rightarrow> gen_state \<Rightarrow> gen_state res" where
  "settle_attempt occurrence k det agent rec g =
     (let c = mf_case (tk_manifest k);
          repeat = (mf_repeat_sequence (tk_manifest k) \<noteq> 0);
          t_decision = tk_ticket k + minutes 5;
          k' = (effect_case.truncate k)\<lparr>tk_diagnosed := t_decision - minutes 1\<rparr>
      in if occurrence = 1 \<and> rc_human rec
         then Inr (g\<lparr>gs_rows := add_control (pending_human c)
                  (action_event c (rd_best det) ''BLOCKED_PENDING_HUMAN'' t_decision)
                  (add_attempt k (Some ''LIVE_PENDING'') det agent rec (gs_rows g)),
                gs_store := snd (create_case '''' c (rd_best det) (rd_eligible det) True
                  (Some (iso_text t_decision)) (gs_store g))\<rparr>)
         else
           (let human_time = t_decision + minutes 1;
                action_time = (if rc_human rec then human_time + minutes 1 else t_decision + minutes 1);
                mode = (if rc_human rec then ''SYNTHETIC_HISTORY_APPROVED'' else ''POLICY_AUTO'');
                human = (if rc_human rec then approved_human c repeat human_time else auto_human c)
            in bindR (materialize_effect
                   (add_control human (action_event c (rd_best det) ''SIMULATED_EXECUTED'' action_time)
                      (add_attempt k (Some mode) det agent rec (gs_rows g))) k' (rd_best det) action_time)
                 (\<lambda>(rows, closed_at). Inr (g\<lparr>gs_rows := rows\<rparr>))))"

definition gen_case :: "gen_config \<Rightarrow> int \<Rightarrow> nat \<Rightarrow> gen_state \<Rightarrow> gen_state res" where
  "gen_case c base idx g =
     (let scenario = gc_scenarios c ! (idx mod length (gc_scenarios c));
          occurrence = (case map_of (gs_seen g) scenario of None \<Rightarrow> 1 | Some n \<Rightarrow> n + 1);
          g = g\<lparr>gs_seen := dset scenario occurrence (gs_seen g)\<rparr>
      in bindR (case is_repeat occurrence scenario g of
             Some r \<Rightarrow> repeat_attempt idx base scenario g r
           | None \<Rightarrow> first_attempt c idx base scenario occurrence g) (\<lambda>(k, g).
         (let m = tk_manifest k;
              g = g\<lparr>gs_last := dset (mf_root_case m) (mf_case m) (gs_last g),
                    gs_subs := dset (ts_service (tk_sub k)) (tk_sub k) (gs_subs g)\<rparr>;
              evidence_ids = [te_event (tk_tele k), al_event (tk_alarm k)]
          in bindR (deterministic_decision scenario evidence_ids) (\<lambda>det.
             (let agent = twin_agent_decision (gc_llm c (mf_case m)) det;
                  rec = reconcile_with_operating_controls det agent evidence_ids (mf_repeat_sequence m \<noteq> 0)
              in settle_attempt occurrence k det agent rec g)))))"

fun gen_cases :: "gen_config \<Rightarrow> int \<Rightarrow> nat list \<Rightarrow> gen_state \<Rightarrow> gen_state res" where
  "gen_cases c base [] g = Inr g"
| "gen_cases c base (idx # is) g = bindR (gen_case c base idx g) (gen_cases c base is)"

subsection \<open>Finishing a run\<close>

text \<open>Subscribers added in sample order until there are enough.\<close>

fun add_subscribers :: "nat \<Rightarrow> nat \<Rightarrow> nat list \<Rightarrow> (string \<times> subscriber) list \<Rightarrow> (string \<times> subscriber) list" where
  "add_subscribers homes needed [] selected = selected"
| "add_subscribers homes needed (i # is) selected =
     (let sub = subscriber_of i homes;
          selected' = (if ts_service sub \<in> fst ` set selected then selected else selected @ [(ts_service sub, sub)])
      in if needed \<le> length selected' then selected' else add_subscribers homes needed is selected')"

definition predictive_subscribers ::
  "gen_config \<Rightarrow> nat \<Rightarrow> (string \<times> subscriber) list \<Rightarrow> subscriber list option" where
  "predictive_subscribers c total_cases case_subscribers =
     (let needed = predictive_count c total_cases in
      if needed = 0 then Some []
      else map_option (\<lambda>is. take needed (map snd (add_subscribers (gc_homes c) needed is case_subscribers)))
             (sample_indices (gc_homes c) needed (gc_seed c + 47)))"

type_synonym snapshot = "subscriber list \<Rightarrow> (string \<times> string) list \<Rightarrow> modem_pull list \<times> predictive_ticket list"

definition with_predictive :: "snapshot \<Rightarrow> subscriber list \<Rightarrow> run_rows \<Rightarrow> run_rows" where
  "with_predictive build_snapshot subs rows =
     (if subs = [] then rows
      else (let scenario_by_service = foldl (\<lambda>d m. if mf_service m \<in> fst ` set d then d
                    else d @ [(mf_service m, mf_scenario m)]) [] (rr_manifests rows);
                (pulls, tickets) = build_snapshot subs scenario_by_service
            in rows\<lparr>rr_pulls := pulls, rr_tickets := tickets\<rparr>))"

definition volume_errors :: "gen_config \<Rightarrow> nat \<Rightarrow> nat \<Rightarrow> nat \<Rightarrow> gen_state \<Rightarrow> run_rows \<Rightarrow> string list" where
  "volume_errors c total_cases master_count telemetry_rows g rows =
     flag (master_count \<noteq> gc_homes c) ''subscriber master count does not match configured homes'' @
     flag (telemetry_rows < telemetry_count c + total_cases) ''telemetry volume did not scale to configured profile'' @
     flag (length (rr_contacts rows) \<noteq> total_cases) ''case-attempt volume did not scale to configured profile'' @
     flag (int (length (rr_incidents rows)) \<noteq> int total_cases - int (gs_repeats g))
       ''root-incident volume disagrees with repeat consolidation''"

text \<open>The generated tables and the case store, or the gate's refusal; \<open>None\<close> would be a sample that never ends.\<close>

definition generate_into :: "snapshot \<Rightarrow> gen_config \<Rightarrow> int \<Rightarrow> (run_rows \<times> case_store) res option" where
  "generate_into build_snapshot c base =
     (let total_cases = case_count c in
      case gen_cases c base [0..<total_cases] gen_start of
        Inl e \<Rightarrow> Some (Inl e)
      | Inr g \<Rightarrow>
     Option.bind (predictive_subscribers c total_cases (gs_subs g)) (\<lambda>subs.
     Option.bind (background_telemetry c base) (\<lambda>background.
       Some (bindR (build_care_records (with_predictive build_snapshot subs (gs_rows g)) (gs_subs g)) (\<lambda>rows.
         bindR (subscriber_master_rows (gc_homes c)) (\<lambda>master_rows.
         bindR (quality_check (rows\<lparr>rr_master := map snd
             (foldl (\<lambda>d s. dset (ts_service s) s d) (gs_subs g) subs)\<rparr>)) (\<lambda>q.
           (let errors = qu_errors q @ volume_errors c total_cases (length master_rows)
                  (length background + length (rr_telemetry rows)) g rows
            in if errors \<noteq> []
               then Inl (ValueError (''generated data failed quality gate: '' @ join ''; '' (take 10 errors)))
               else Inr (rows\<lparr>rr_master := master_rows, rr_telemetry := background @ rr_telemetry rows\<rparr>,
                         gs_store g)))))))))"

subsection \<open>Deciding a live case\<close>

fun project_master :: "string list \<Rightarrow> (string \<times> subscriber) list \<Rightarrow> subscriber list \<Rightarrow> subscriber list" where
  "project_master wanted found [] = map snd found"
| "project_master wanted found (s # ss) =
     (if ts_service s \<in> set wanted
      then (let found' = dset (ts_service s) s found in
            if length found' = length (dedup wanted) then map snd found' else project_master wanted found' ss)
      else project_master wanted found ss)"

definition quality_projection :: "run_rows \<Rightarrow> run_rows" where
  "quality_projection rows = rows\<lparr>
     rr_master := project_master (map mf_service (rr_manifests rows) @
       filter (\<lambda>s. s \<noteq> []) (map mp_service (rr_pulls rows))) [] (rr_master rows),
     rr_telemetry := filter (\<lambda>t. te_case t \<noteq> None) (rr_telemetry rows)\<rparr>"

definition decided_human :: "human_decision \<Rightarrow> int \<Rightarrow> bool \<Rightarrow> string \<Rightarrow> human_row \<Rightarrow> human_row" where
  "decided_human d t repeat status h = h\<lparr>hr_status := status, hr_revision := hd_revision d, hr_required := True,
     hr_response := Some (hd_response d), hr_actor := Some (hd_actor d), hr_decided := Some t,
     hr_rationale := Some (hd_rationale d), hr_source := ''live_control'', hr_supervisor := repeat\<rparr>"

definition approve_rows :: "run_rows \<Rightarrow> human_decision \<Rightarrow> manifest \<Rightarrow> rule_decision \<Rightarrow> int \<Rightarrow> run_rows res" where
  "approve_rows rows d m det decided_at =
     (let action_time = decided_at + minutes 1;
          c = hd_case d;
          rows1 = rows\<lparr>rr_actions := update_first (\<lambda>a. ae_case a = c)
            (\<lambda>a. a\<lparr>ae_status := ''SIMULATED_EXECUTED'', ae_time := Some action_time, ae_production_write := False\<rparr>)
            (rr_actions rows)\<rparr>
      in case project_master [mf_service m] [] (rr_master rows) of
        [] \<Rightarrow> Inl (ValueError ''case subscriber not found'')
      | sub # _ \<Rightarrow>
          (case (find (\<lambda>i. ri_incident i = mf_root_incident m) (rr_incidents rows),
                 find (\<lambda>t. te_case t = Some c \<and> te_health t = ''DEGRADED'') (rr_telemetry rows),
                 find (\<lambda>a. al_case a = Some c) (rr_alarms rows)) of
             (Some i, Some tele, Some alarm) \<Rightarrow>
               bindR (materialize_effect
                   (rows1\<lparr>rr_incidents := update_first (\<lambda>i. ri_incident i = mf_root_incident m)
                      (reopen (mf_time m)) (rr_incidents rows)\<rparr>)
                   \<lparr>tk_manifest = m, tk_sub = sub, tk_tele = tele, tk_alarm = alarm,
                    tk_diagnosed = action_time - minutes 2\<rparr> (rd_best det) action_time)
                 (\<lambda>(rows', closed_at). Inr rows')
           | _ \<Rightarrow> Inl (ValueError ''live case graph is incomplete'')))"

definition block_rows :: "run_rows \<Rightarrow> human_decision \<Rightarrow> string \<Rightarrow> run_rows" where
  "block_rows rows d status = rows\<lparr>rr_actions := update_first (\<lambda>a. ae_case a = hd_case d)
     (\<lambda>a. a\<lparr>ae_status := status\<rparr>) (rr_actions rows)\<rparr>"

text \<open>What the mirroring looks up before it changes anything: the manifest and the rules' decision.\<close>

definition live_case :: "run_rows \<Rightarrow> string \<Rightarrow> (manifest \<times> rule_decision) res" where
  "live_case rows c =
     (case map_of (q_manifests rows) c of
        None \<Rightarrow> Inl (KeyError c)
      | Some m \<Rightarrow>
     bindR (next_of (\<lambda>h. hr_case h = c) (rr_humans rows)) (\<lambda>human.
     bindR (next_of (\<lambda>a. ae_case a = c) (rr_actions rows)) (\<lambda>action.
     bindR (next_of (\<lambda>p. fst p = c) (rr_rules rows)) (\<lambda>det. Inr (m, snd det)))))"

definition decision_status :: "string \<Rightarrow> string" where
  "decision_status response =
     (if response = ''approve'' then ''APPROVED''
      else if response = ''request_evidence'' then ''EVIDENCE_REQUESTED''
      else if response = ''reject'' then ''REJECTED'' else ''ESCALATED'')"

text \<open>The tables after a decision, before they are checked.\<close>

definition decided_rows ::
  "run_rows \<Rightarrow> human_decision \<Rightarrow> manifest \<Rightarrow> rule_decision \<Rightarrow> int \<Rightarrow> run_rows res" where
  "decided_rows rows d m det decided_at =
     (let c = hd_case d;
          rows1 = rows\<lparr>rr_humans := update_first (\<lambda>h. hr_case h = c)
            (decided_human d decided_at (mf_repeat_sequence m \<noteq> 0) (decision_status (hd_response d))) (rr_humans rows)\<rparr>
      in if hd_response d = ''approve'' then approve_rows rows1 d m det decided_at
         else if hd_response d = ''request_evidence'' then Inr (block_rows rows1 d ''BLOCKED_NEEDS_EVIDENCE'')
         else Inr (block_rows rows1 d ''BLOCKED_ESCALATED''))"

end
