(* ===== verification/TwinLiveLaws.thy ===== *)
theory TwinLiveLaws
  imports TwinLive
begin

text \<open>
  Laws of a run's generation: the sample of the footprint, and the subscriber master.
\<close>

subsection \<open>The sample of the footprint\<close>

lemma coprime_loop_finds:
  assumes "gcd (step + k) n = (1 :: nat)"
  shows "\<exists>s. coprime_loop n step = Some s \<and> gcd s n = 1"
  using assms
proof (induction k arbitrary: step)
  case 0
  then show ?case by (subst coprime_loop.simps) simp
next
  case (Suc k)
  show ?case
  proof (cases "gcd step n = 1")
    case True
    then show ?thesis by (subst coprime_loop.simps) simp
  next
    case False
    have "\<exists>s. coprime_loop n (step + 1) = Some s \<and> gcd s n = 1"
      using Suc.prems by (intro Suc.IH) simp
    with False show ?thesis by (subst coprime_loop.simps) simp
  qed
qed

lemma coprime_step_finds: "\<exists>s. coprime_step n seed = Some s \<and> (n \<le> 1 \<or> gcd s n = 1)"
proof (cases "n \<le> 1")
  case True
  then show ?thesis by (simp add: coprime_step_def)
next
  case False
  define a where "a = 7919 + nat (\<bar>seed\<bar> mod 997)"
  have le: "a \<le> a * n" using False by simp
  then have "gcd (a + (a * n - a + 1)) n = gcd (a * n + 1) n" by simp
  also have "\<dots> = gcd n 1" by (simp only: gcd.commute [of "a * n + 1"] gcd_add_mult)
  finally have "gcd (a + (a * n - a + 1)) n = 1" by simp
  then have "\<exists>s. coprime_loop n a = Some s \<and> gcd s n = 1"
    by (rule coprime_loop_finds)
  with False show ?thesis by (simp add: coprime_step_def a_def)
qed

lemma sample_step_inj:
  fixes start step n :: nat
  assumes "gcd step n = 1" "i < n" "j < n" "(start + i * step) mod n = (start + j * step) mod n"
  shows "i = j"
proof -
  have *: "i = j" if "i \<le> j" "j < n" "(start + i * step) mod n = (start + j * step) mod n" for i j :: nat
  proof -
    have "n dvd (start + j * step) - (start + i * step)"
      using that(1,3) mod_eq_dvd_iff_nat [of "start + i * step" "start + j * step" n] by simp
    then have "n dvd (j - i) * step" by (simp add: diff_mult_distrib)
    moreover have "coprime n step" using assms(1) by (simp add: coprime_iff_gcd_eq_1 gcd.commute)
    ultimately have "n dvd j - i" by (simp add: coprime_dvd_mult_left_iff)
    with that(1,2) show ?thesis by (auto dest: dvd_imp_le)
  qed
  show ?thesis
    using * [of i j] * [of j i] assms(2-4) by (cases "i \<le> j") auto
qed

text \<open>
  The search for the sample's step ends for every footprint and seed, and the sample has the
  size asked for, stays inside the footprint, and takes no home twice as long as there are
  homes left.
\<close>

theorem sample_is_drawn_without_repetition:
  assumes "0 < homes"
  shows "\<exists>is. sample_indices homes n seed = Some is \<and> length is = n \<and> set is \<subseteq> {..<homes} \<and>
     (n \<le> homes \<longrightarrow> distinct is)"
proof -
  obtain s where s: "coprime_step homes seed = Some s" "homes \<le> 1 \<or> gcd s homes = 1"
    using coprime_step_finds [of homes seed] by (elim exE conjE) (rule that)
  have inj: "inj_on (\<lambda>k. (nat (\<bar>seed\<bar> mod int homes) + k * s) mod homes) (set [0..<n])" if "n \<le> homes"
  proof (rule inj_onI)
    fix i j
    assume ij: "i \<in> set [0..<n]" "j \<in> set [0..<n]"
      "(nat (\<bar>seed\<bar> mod int homes) + i * s) mod homes = (nat (\<bar>seed\<bar> mod int homes) + j * s) mod homes"
    show "i = j"
    proof (cases "homes \<le> 1")
      case True
      with ij that show ?thesis by simp
    next
      case False
      with s(2) have "gcd s homes = 1" by simp
      from sample_step_inj [OF this _ _ ij(3)] ij(1,2) that show ?thesis by simp
    qed
  qed
  let ?is = "map (\<lambda>k. (nat (\<bar>seed\<bar> mod int homes) + k * s) mod homes) [0..<n]"
  have "sample_indices homes n seed = Some ?is" by (simp add: sample_indices_def s(1))
  moreover have "set ?is \<subseteq> {..<homes}" using assms by auto
  moreover have "distinct ?is" if "n \<le> homes" using inj [OF that] by (simp add: distinct_map)
  ultimately show ?thesis by (intro exI [of _ ?is] conjI impI) simp_all
qed

subsection \<open>The subscriber master\<close>

lemma delimiter_region:
  assumes "ts_delimiter (subscriber_of i homes) = ts_delimiter (subscriber_of j homes)"
  shows "ts_region (subscriber_of i homes) = ts_region (subscriber_of j homes)"
proof -
  have "drop 4 (ts_delimiter (subscriber_of i homes)) = nat_str_pad 6 (i div 8 + 1)" for i
    by (simp add: subscriber_of_def Let_def)
  then have "i div 8 = j div 8" using assms by (metis add_right_cancel nat_str_pad_inj)
  then show ?thesis by (simp add: subscriber_of_def Let_def)
qed

lemma quality_regions_NilI:
  assumes "\<And>s. s \<in> set (rr_master rows) \<Longrightarrow> ts_region s \<in> set regions"
    and "\<And>x. x \<in> set (rr_master rows) \<Longrightarrow>
      length (dedup (map ts_region (filter (\<lambda>s. ts_delimiter s = ts_delimiter x)
        (filter (\<lambda>s. ts_delimiter s \<noteq> [] \<and> ts_region s \<noteq> []) (rr_master rows))))) = 1"
  shows "quality_regions rows = []"
  using assms by (auto simp: quality_regions_def Let_def)

lemma single_region:
  assumes "x \<in> set ss" "ts_delimiter x \<noteq> []" "ts_region x \<noteq> []"
    and "\<And>s. s \<in> set ss \<Longrightarrow> ts_delimiter s = ts_delimiter x \<Longrightarrow> ts_region s = ts_region x"
  shows "length (dedup (map ts_region (filter (\<lambda>s. ts_delimiter s = ts_delimiter x)
     (filter (\<lambda>s. ts_delimiter s \<noteq> [] \<and> ts_region s \<noteq> []) ss)))) = 1" (is "length (dedup ?rs) = 1")
proof -
  have "r = ts_region x" if "r \<in> set ?rs" for r
    using that assms(4) by (auto simp only: set_map set_filter image_iff mem_Collect_eq)
  moreover have "ts_region x \<in> set ?rs" using assms(1-3) by simp
  ultimately have "set ?rs = {ts_region x}" by blast
  then have "card (set (dedup ?rs)) = 1" by simp
  then show ?thesis by (simp only: distinct_card [OF distinct_dedup])
qed

lemma master_from_rows:
  assumes "\<And>d r i. map_of seen d = Some r \<Longrightarrow> ts_delimiter (subscriber_of i homes) = d \<Longrightarrow> ts_region (subscriber_of i homes) = r"
  shows "master_from seen homes is = Inr (map (\<lambda>i. subscriber_of i homes) is)"
  using assms
proof (induction "is" arbitrary: seen)
  case (Cons i "is")
  define row where "row = subscriber_of i homes"
  define previous where "previous = (case map_of seen (ts_delimiter row) of None \<Rightarrow> ts_region row | Some r \<Rightarrow> r)"
  have prev: "previous = ts_region row"
    using Cons.prems by (auto simp: previous_def row_def split: option.splits)
  have "master_from (dset (ts_delimiter row) previous seen) homes is = Inr (map (\<lambda>i. subscriber_of i homes) is)"
  proof (rule Cons.IH)
    fix d r j
    assume "map_of (dset (ts_delimiter row) previous seen) d = Some r" "ts_delimiter (subscriber_of j homes) = d"
    then show "ts_region (subscriber_of j homes) = r"
      using Cons.prems [of d r j] delimiter_region [of j homes i] by (simp add: prev row_def split: if_splits)
  qed
  then show ?case
    unfolding master_from.simps Let_def row_def [symmetric] previous_def [symmetric] by (simp add: prev row_def)
qed simp

text \<open>
  The subscriber master of every footprint is generated without refusal: one row for each
  home, no service twice, and all homes behind one TAP or ODP in one planning region.
\<close>

theorem subscriber_master_complete:
  "subscriber_master_rows homes = Inr (map (\<lambda>i. subscriber_of i homes) [0..<homes]) \<and>
   distinct (map ts_service (map (\<lambda>i. subscriber_of i homes) [0..<homes])) \<and>
   quality_regions (no_rows\<lparr>rr_master := map (\<lambda>i. subscriber_of i homes) [0..<homes]\<rparr>) = []"
proof (intro conjI)
  show "subscriber_master_rows homes = Inr (map (\<lambda>i. subscriber_of i homes) [0..<homes])"
    unfolding subscriber_master_rows_def by (rule master_from_rows) simp
  show "distinct (map ts_service (map (\<lambda>i. subscriber_of i homes) [0..<homes]))"
    by (simp add: distinct_map inj_on_def subscriber_of_def Let_def)
  let ?ss = "map (\<lambda>i. subscriber_of i homes) [0..<homes]"
  have region: "ts_region s \<in> set regions" if "s \<in> set ?ss" for s
  proof -
    have "regions ! (k mod length regions) \<in> set regions" for k
      by (rule nth_mem) (simp add: regions_def)
    with that show ?thesis by (auto simp: subscriber_of_def Let_def)
  qed
  have nonempty: "ts_delimiter s \<noteq> []" "ts_region s \<noteq> []" if "s \<in> set ?ss" for s
    using region [OF that] that by (auto simp: subscriber_of_def Let_def regions_def)
  have same: "ts_region s = ts_region x" if mem: "s \<in> set ?ss" "x \<in> set ?ss" "ts_delimiter s = ts_delimiter x" for s x
  proof -
    obtain i j where "s = subscriber_of i homes" "x = subscriber_of j homes" using mem(1,2) by auto
    with mem(3) delimiter_region [of i homes j] show ?thesis by simp
  qed
  have master: "rr_master (no_rows\<lparr>rr_master := ?ss\<rparr>) = ?ss" by simp
  show "quality_regions (no_rows\<lparr>rr_master := ?ss\<rparr>) = []"
  proof (rule quality_regions_NilI)
    fix x assume "x \<in> set (rr_master (no_rows\<lparr>rr_master := ?ss\<rparr>))"
    then have x: "x \<in> set ?ss" by simp
    have "length (dedup (map ts_region (filter (\<lambda>s. ts_delimiter s = ts_delimiter x)
        (filter (\<lambda>s. ts_delimiter s \<noteq> [] \<and> ts_region s \<noteq> []) ?ss)))) = 1"
      using x nonempty [OF x] same [OF _ x] by (rule single_region)
    then show "length (dedup (map ts_region (filter (\<lambda>s. ts_delimiter s = ts_delimiter x)
        (filter (\<lambda>s. ts_delimiter s \<noteq> [] \<and> ts_region s \<noteq> []) (rr_master (no_rows\<lparr>rr_master := ?ss\<rparr>)))))) = 1"
      unfolding master .
  qed (use region in simp)
qed

theorem sample_is_drawn_without_repetition_witness:
  "\<exists>is. sample_indices 10 4 (- 3) = Some is \<and> length is = 4 \<and> distinct is"
  using sample_is_drawn_without_repetition [of 10 4 "- 3"] by auto

end
