(* ===== verification/TwinMirror.thy ===== *)
theory TwinMirror
  imports TwinLive PyJson
begin

text \<open>
  Mirroring a live decision into the files of a run (\<open>materialize_live_decision\<close> and
  \<open>_write_changed_datasets\<close> of \<open>digital_twin/orchestrator.py\<close>) and the decision route of
  \<open>digital_twin/api.py\<close>. The decision is stored first. The changed datasets are then written file
  by file, each replaced atomically, in the order of their names, and last the catalog, which is
  written in place: a failing write stops the mirror where it is. The operating system's answers
  and the digests of the files are arguments.
\<close>

subsection \<open>The files of a run\<close>

definition datasets :: "string list" where
  "datasets = [''subscriber_master'', ''scenario_manifests'', ''telemetry_tr181'', ''nxt_alarms'', ''contacts'',
     ''incidents'', ''work_orders'', ''field_evidence'', ''mrs'', ''validation_events'', ''resolution_events'',
     ''deterministic_decisions'', ''agent_decisions'', ''reconciliation_records'', ''human_decisions'',
     ''action_events'', ''predictive_modem_pulls'', ''predictive_tickets'', ''care_tickets'',
     ''care_ticket_reviews'']"

text \<open>One dataset file replaced by the table of another set of rows, and its number of rows.\<close>

definition copy_table :: "string \<Rightarrow> run_rows \<Rightarrow> run_rows \<Rightarrow> run_rows" where
  "copy_table name new rows =
     (if name = ''subscriber_master'' then rows\<lparr>rr_master := rr_master new\<rparr>
      else if name = ''scenario_manifests'' then rows\<lparr>rr_manifests := rr_manifests new\<rparr>
      else if name = ''telemetry_tr181'' then rows\<lparr>rr_telemetry := rr_telemetry new\<rparr>
      else if name = ''nxt_alarms'' then rows\<lparr>rr_alarms := rr_alarms new\<rparr>
      else if name = ''contacts'' then rows\<lparr>rr_contacts := rr_contacts new\<rparr>
      else if name = ''incidents'' then rows\<lparr>rr_incidents := rr_incidents new\<rparr>
      else if name = ''work_orders'' then rows\<lparr>rr_work := rr_work new\<rparr>
      else if name = ''field_evidence'' then rows\<lparr>rr_evidence := rr_evidence new\<rparr>
      else if name = ''mrs'' then rows\<lparr>rr_mrs := rr_mrs new\<rparr>
      else if name = ''validation_events'' then rows\<lparr>rr_validations := rr_validations new\<rparr>
      else if name = ''resolution_events'' then rows\<lparr>rr_resolutions := rr_resolutions new\<rparr>
      else if name = ''deterministic_decisions'' then rows\<lparr>rr_rules := rr_rules new\<rparr>
      else if name = ''agent_decisions'' then rows\<lparr>rr_agents := rr_agents new\<rparr>
      else if name = ''reconciliation_records'' then rows\<lparr>rr_reconciliations := rr_reconciliations new\<rparr>
      else if name = ''human_decisions'' then rows\<lparr>rr_humans := rr_humans new\<rparr>
      else if name = ''action_events'' then rows\<lparr>rr_actions := rr_actions new\<rparr>
      else if name = ''predictive_modem_pulls'' then rows\<lparr>rr_pulls := rr_pulls new\<rparr>
      else if name = ''predictive_tickets'' then rows\<lparr>rr_tickets := rr_tickets new\<rparr>
      else if name = ''care_tickets'' then rows\<lparr>rr_care := rr_care new\<rparr>
      else if name = ''care_ticket_reviews'' then rows\<lparr>rr_reviews := rr_reviews new\<rparr>
      else rows)"

definition table_length :: "string \<Rightarrow> run_rows \<Rightarrow> nat" where
  "table_length name rows =
     (case map_of (zip datasets
         [length (rr_master rows), length (rr_manifests rows), length (rr_telemetry rows), length (rr_alarms rows),
          length (rr_contacts rows), length (rr_incidents rows), length (rr_work rows), length (rr_evidence rows),
          length (rr_mrs rows), length (rr_validations rows), length (rr_resolutions rows), length (rr_rules rows),
          length (rr_agents rows), length (rr_reconciliations rows), length (rr_humans rows), length (rr_actions rows),
          length (rr_pulls rows), length (rr_tickets rows), length (rr_care rows), length (rr_reviews rows)]) name of
        None \<Rightarrow> 0 | Some n \<Rightarrow> n)"

record catalog_entry =
  ce_count :: nat
  ce_sha :: string

record catalog =
  cg_entries :: "(string \<times> catalog_entry) list"
  cg_quality :: quality
  cg_scope :: string
  cg_updated :: "string option"

text \<open>The catalog file may be missing, or cut off by a write that failed; then the parser says how.\<close>

datatype catalog_file = NoCatalog | TornCatalog string | Catalog catalog

record run_disk =
  dk_rows :: run_rows
  dk_catalog :: catalog_file

text \<open>
  What the operating system does for one request: whether the datasets can be read, which of them
  can be replaced and read back, the digest of a written file, and the fate of the catalog.
\<close>

datatype catalog_write = WriteDone | WriteRefused | WriteTorn string

record file_io =
  io_load :: bool
  io_write :: "string \<Rightarrow> bool"
  io_hash :: "string \<Rightarrow> bool"
  io_digest :: "string \<Rightarrow> run_rows \<Rightarrow> string"
  io_catalog :: catalog_write

subsection \<open>Writing\<close>

text \<open>The loop of the writer: each named dataset replaced, then its entry brought up to date.\<close>

fun write_datasets ::
  "file_io \<Rightarrow> run_rows \<Rightarrow> string list \<Rightarrow> (string \<times> catalog_entry) list \<Rightarrow>
   (run_rows, (string \<times> catalog_entry) list) eff" where
  "write_datasets E new [] by_name rows = (Inr by_name, rows)"
| "write_datasets E new (name # names) by_name rows =
     (if \<not> io_write E name then (Inl (OSError name), rows)
      else (let rows' = copy_table name new rows in
        case map_of by_name name of
          None \<Rightarrow> (Inl (KeyError name), rows')
        | Some e \<Rightarrow>
            if \<not> io_hash E name then (Inl (OSError name), rows')
            else write_datasets E new names
              (dset name \<lparr>ce_count = table_length name rows', ce_sha = io_digest E name rows'\<rparr> by_name) rows'))"

definition write_changed :: "file_io \<Rightarrow> run_rows \<Rightarrow> catalog \<Rightarrow> string list \<Rightarrow> (run_rows, catalog) eff" where
  "write_changed E new c changed =
     bindE (write_datasets E new (sort (dedup changed)) (foldl (\<lambda>d (n, e). dset n e d) [] (cg_entries c)))
       (\<lambda>by_name. liftE (bindR (mapR (\<lambda>n. bindR (look n by_name) (\<lambda>e. Inr (n, e))) datasets)
          (\<lambda>entries. Inr (c\<lparr>cg_entries := entries\<rparr>))))"

definition write_catalog :: "file_io \<Rightarrow> catalog \<Rightarrow> (run_disk, unit) eff" where
  "write_catalog E c dk = (case io_catalog E of
       WriteDone \<Rightarrow> (Inr (), dk\<lparr>dk_catalog := Catalog c\<rparr>)
     | WriteRefused \<Rightarrow> (Inl (OSError ''catalog.json''), dk)
     | WriteTorn msg \<Rightarrow> (Inl (OSError ''catalog.json''), dk\<lparr>dk_catalog := TornCatalog msg\<rparr>))"

subsection \<open>Mirroring a decision\<close>

definition changed_tables :: "human_decision \<Rightarrow> string list \<Rightarrow> string list \<Rightarrow> string list" where
  "changed_tables d tickets reviews =
     [''human_decisions'', ''action_events''] @
     (if hd_response d = ''approve''
      then [''telemetry_tr181'', ''incidents'', ''work_orders'', ''field_evidence'', ''mrs'', ''validation_events'',
            ''resolution_events'']
      else []) @
     (if tickets = [] then [] else [''care_tickets'']) @
     (if reviews = [] then [] else [''care_ticket_reviews''])"

text \<open>What the tables would be, which of them change, what the gate says, and when it was decided.\<close>

record mirror_plan =
  mp_rows :: run_rows
  mp_changed :: "string list"
  mp_quality :: quality
  mp_decided :: int

definition plan_mirror :: "human_decision \<Rightarrow> case_row \<Rightarrow> run_rows \<Rightarrow> mirror_plan res" where
  "plan_mirror d store_result rows =
     bindR (live_case rows (hd_case d)) (\<lambda>(m, det).
     bindR (parse_ts (tc_updated store_result)) (\<lambda>decided_at.
     bindR (decided_rows rows d m det decided_at) (\<lambda>rows1.
     bindR (refresh_care_status rows1) (\<lambda>(rows2, tickets, reviews).
     bindR (quality_check (quality_projection rows2)) (\<lambda>q.
       Inr \<lparr>mp_rows = rows2, mp_changed = changed_tables d tickets reviews, mp_quality = q,
            mp_decided = decided_at\<rparr>)))))"

definition gate_prefix :: string where
  "gate_prefix = ''live decision would violate quality gate: ''"

text \<open>The plan written, when the gate passes it.\<close>

definition write_plan :: "file_io \<Rightarrow> catalog \<Rightarrow> mirror_plan \<Rightarrow> (run_disk, unit) eff" where
  "write_plan E c p dk =
     (if \<not> qu_passed (mp_quality p)
      then (Inl (ValueError (gate_prefix @ join ''; '' (take 10 (qu_errors (mp_quality p))))), dk)
      else case write_changed E (mp_rows p) c (mp_changed p) (dk_rows dk) of
        (Inl e, rows') \<Rightarrow> (Inl e, dk\<lparr>dk_rows := rows'\<rparr>)
      | (Inr c', rows') \<Rightarrow>
          write_catalog E (c'\<lparr>cg_quality := mp_quality p,
              cg_scope := ''post-live-decision canonical graph and operating controls'',
              cg_updated := Some (iso_text (mp_decided p))\<rparr>) (dk\<lparr>dk_rows := rows'\<rparr>))"

definition mirror_decision :: "file_io \<Rightarrow> human_decision \<Rightarrow> case_row \<Rightarrow> (run_disk, mirror_plan) eff" where
  "mirror_decision E d store_result dk =
     (case dk_catalog dk of
        NoCatalog \<Rightarrow> (Inl (FileNotFoundError ''catalog.json''), dk)
      | TornCatalog msg \<Rightarrow> (Inl (ValueError msg), dk)
      | Catalog c \<Rightarrow>
          if \<not> io_load E then (Inl (OSError ''datasets''), dk)
          else bindE (liftE (plan_mirror d store_result (dk_rows dk)))
                 (\<lambda>p. bindE (write_plan E c p) (\<lambda>_. retE p)) dk)"

type_synonym run_world = "run_disk \<times> case_store"

definition on_disk :: "(run_disk, 'a) eff \<Rightarrow> (run_world, 'a) eff" where
  "on_disk f = (\<lambda>(dk, st). case f dk of (out, dk') \<Rightarrow> (out, dk', st))"

definition on_store :: "(case_store, 'a) eff \<Rightarrow> (run_world, 'a) eff" where
  "on_store f = (\<lambda>(dk, st). case f st of (out, st') \<Rightarrow> (out, dk, st'))"

definition materialize_live_decision :: "file_io \<Rightarrow> human_decision \<Rightarrow> case_row \<Rightarrow> (run_world, case_row) eff" where
  "materialize_live_decision E d store_result =
     bindE (on_disk (mirror_decision E d store_result)) (\<lambda>p.
     bindE (if hd_response d = ''approve'' \<and> resolution_of (mp_rows p) (hd_case d) \<noteq> None
            then on_store (bindE (mark_verified '''' (hd_case d) (Some (iso_text (mp_decided p + minutes 2))))
                   (\<lambda>_. retE ()))
            else retE ()) (\<lambda>_.
     on_store (case_get (hd_case d))))"

subsection \<open>The decision route\<close>

text \<open>A refusal by the gate is answered with its issues and the way out; anything else with its text.\<close>

record gate_detail =
  gd_error :: string
  gd_run :: string
  gd_issues :: "string list"
  gd_recovery :: string
  gd_schema :: string

datatype detail = Text string | GateDetail gate_detail

text \<open>A response the route gives, or an exception it does not handle.\<close>

datatype route_failure = Refused nat detail | Unhandled exn

definition gate_issues :: "string \<Rightarrow> string list" where
  "gate_issues message =
     filter (\<lambda>s. s \<noteq> []) (map strip (split_on (CHR '';'') (drop (length gate_prefix) message)))"

definition conflict_detail :: "string \<Rightarrow> string \<Rightarrow> detail" where
  "conflict_detail run message =
     (if starts_with gate_prefix message
      then GateDetail \<lparr>gd_error = ''live_decision_quality_gate_failed'', gd_run = run,
             gd_issues = gate_issues message,
             gd_recovery = ''generate and activate a current-schema run'',
             gd_schema = ''lpr-digital-twin-run-v3-execution-economics''\<rparr>
      else Text message)"

definition guard_error :: "exn \<Rightarrow> route_failure" where
  "guard_error e = (case e of HTTPException code m \<Rightarrow> Refused code (Text m) | _ \<Rightarrow> Unhandled e)"

definition route_error :: "string \<Rightarrow> exn \<Rightarrow> route_failure" where
  "route_error run e = (case e of
       KeyError k \<Rightarrow> Refused 404 (Text ''case not found'')
     | ValueError m \<Rightarrow> Refused 409 (conflict_detail run m)
     | _ \<Rightarrow> guard_error e)"

text \<open>A request: what the system does for it, the time, who asks in which role, and the decision.\<close>

record decide_request =
  dq_io :: file_io
  dq_clock :: string
  dq_user :: string
  dq_role :: string
  dq_decision :: human_decision

definition decide_and_mirror :: "decide_request \<Rightarrow> (run_world, case_row) eff" where
  "decide_and_mirror q =
     bindE (on_store (case_decide (dq_clock q) (dq_decision q) None))
       (materialize_live_decision (dq_io q) (dq_decision q))"

definition decide_route :: "string \<Rightarrow> decide_request \<Rightarrow> run_world \<Rightarrow> (route_failure + case_row) \<times> run_world" where
  "decide_route run q w =
     (case may_decide (dq_user q) (dq_role q) (dq_decision q) of
        Inl e \<Rightarrow> (Inl (guard_error e), w)
      | Inr _ \<Rightarrow>
          (case decide_and_mirror q w of
             (Inl e, w') \<Rightarrow> (Inl (route_error run e), w')
           | (Inr row, w') \<Rightarrow> (Inr row, w')))"

text \<open>A history of requests, one after another.\<close>

fun decide_all :: "string \<Rightarrow> decide_request list \<Rightarrow> run_world \<Rightarrow> run_world" where
  "decide_all run [] w = w"
| "decide_all run (q # qs) w = decide_all run qs (snd (decide_route run q w))"

end
