(* ===== verification/TwinLaws.thy ===== *)
theory TwinLaws
  imports TwinCase
begin

text \<open>
  Laws of the digital twin's cases: what a simulated effect presupposes, that concurrent
  requests behave as if they ran one after the other, and that of two requests on one version
  of a case only one changes it.
\<close>

subsection \<open>A case through a history\<close>

definition later_row :: "case_row \<Rightarrow> case_row \<Rightarrow> bool" where
  "later_row r r' \<longleftrightarrow> r' = r \<or> tc_revision r < tc_revision r' \<and> tc_proposed r' = tc_proposed r \<and>
     tc_eligible r' = tc_eligible r \<and> (gated r \<longrightarrow> gated r')"

lemma later_row_trans: "later_row r r' \<Longrightarrow> later_row r' r'' \<Longrightarrow> later_row r r''"
  by (auto simp: later_row_def)

lemma moved_later: "moved k r r' \<Longrightarrow> later_row r r'"
  by (simp add: moved_def later_row_def)

lemma twin_step_later:
  assumes "twin_step c c'" "config_ok c" "map_of (fst c) k = Some r"
  shows "\<exists>r'. map_of (fst c') k = Some r' \<and> later_row r r'"
  using assms
proof (cases rule: twin_step.cases)
  case (create st ps clock case_id proposed eligible human t)
  with assms(3) show ?thesis by (auto simp: later_row_def)
next
  case (read q st row ps)
  with assms(3) show ?thesis by (auto simp: later_row_def)
next
  case (update q row ps st)
  then have "version_of st (target q) row" using assms(2) by (auto simp: config_ok_def)
  then show ?thesis
  proof (cases rule: commit_cases)
    case (1 e)
    with update assms(3) show ?thesis by (auto simp: later_row_def)
  next
    case (2 r')
    with update assms(3) show ?thesis
      by (auto simp: later_row_def [of r r] dest: moved_later)
  qed
qed

lemma twin_steps_later:
  assumes "twin_step\<^sup>*\<^sup>* c c'" "config_ok c" "map_of (fst c) k = Some r"
  shows "\<exists>r'. map_of (fst c') k = Some r' \<and> later_row r r'"
  using assms(1)
proof (induction rule: rtranclp_induct)
  case base
  with assms(3) show ?case by (auto simp: later_row_def)
next
  case (step c1 c2)
  then obtain r1 where r1: "map_of (fst c1) k = Some r1" "later_row r r1" by blast
  have "config_ok c1" using step.hyps(1) assms(2) by (rule twin_steps_ok)
  with twin_step_later [OF step.hyps(2) _ r1(1)] obtain r2 where
    "map_of (fst c2) k = Some r2" "later_row r1 r2" by blast
  with r1(2) later_row_trans show ?case by blast
qed

lemma reachable_ok: "twin_step\<^sup>*\<^sup>* ([], []) c \<Longrightarrow> config_ok c"
  using twin_steps_ok config_ok_empty by blast

lemma effect_row_ok:
  assumes "row_ok k r" "tc_effect r = Some e"
  shows "executed_row k r"
  using assms by (cases "tc_state r") (auto simp: row_ok_def refused_row_def)

subsection \<open>What an effect presupposes\<close>

text \<open>
  C25. A case is opened with the rule-based action and the review flag of the reconciliation. In
  every later history of concurrent requests it keeps that action, nothing is ever written to
  production, and a simulated effect was either approved by a person on this case or is the
  collection of evidence, for a case that is no repeat and on which an independent model agreed
  with valid evidence and sufficient confidence. The five actions with side effects never run
  without a person.
\<close>

theorem simulated_effect_authorised:
  assumes "deterministic_decision scenario ev = Inr d"
    and "twin_step\<^sup>*\<^sup>* ([], []) (st, ps)" "map_of st k = None"
    and "twin_step\<^sup>*\<^sup>*
       (snd (create_case clock k (rd_best d) (rd_eligible d)
          (rc_human (reconcile_with_operating_controls d a ev repeat)) t st), ps) (st', ps')"
  shows "\<exists>r. map_of st' k = Some r \<and> tc_proposed r = rd_best d \<and> (\<forall>e. tc_effect r = Some e \<longrightarrow>
     se_action e = rd_best d \<and> \<not> se_production_write e \<and>
     ((\<exists>h. tc_decision r = Some h \<and> hd_case h = k \<and> hd_response h = ''approve'') \<or>
      tc_decision r = None \<and> rd_best d = ''collect_evidence'' \<and> \<not> repeat \<and>
      ta_source a = ''llm'' \<and> ta_best a = rd_best d \<and> ta_domain a = rd_domain d \<and>
      ta_evidence a \<noteq> [] \<and> set (ta_evidence a) \<subseteq> set ev \<and> 80/100 \<le> ta_confidence a))"
proof -
  define human where "human = rc_human (reconcile_with_operating_controls d a ev repeat)"
  define row where "row = new_case (rd_best d) (rd_eligible d) human (now_text clock t)"
  have step: "twin_step (st, ps) (insert_or_ignore k row st, ps)"
    using twin_step.create [of st ps clock k "rd_best d" "rd_eligible d" human t] by (simp add: row_def)
  then have ok: "config_ok (insert_or_ignore k row st, ps)"
    using reachable_ok [OF assms(2)] twin_step_ok by blast
  have steps: "twin_step\<^sup>*\<^sup>* (insert_or_ignore k row st, ps) (st', ps')"
    using assms(4) by (simp add: row_def human_def)
  have "map_of (fst (insert_or_ignore k row st, ps)) k = Some row" using assms(3) by simp
  from twin_steps_later [OF steps ok this] obtain r where r: "map_of st' k = Some r" "later_row row r"
    by auto
  have "row_ok k r"
    using twin_steps_ok [OF steps ok] r(1) by (auto simp: config_ok_def store_ok_def)
  then have exec: "executed_row k r" if "tc_effect r = Some e" for e
    using that by (rule effect_row_ok)
  have keeps: "tc_proposed r = rd_best d" using r(2) by (auto simp: later_row_def row_def new_case_def)
  have reviewed: "\<not> human" if "tc_decision r = None" "tc_effect r = Some e" for e
    using r(2) that exec [OF that(2)] \<open>row_ok k r\<close>
    by (auto simp: later_row_def row_def new_case_def gated_def row_ok_def split: if_splits)
  show ?thesis
  proof (intro exI conjI allI impI)
    show "map_of st' k = Some r" "tc_proposed r = rd_best d" by fact+
    fix e assume e: "tc_effect r = Some e"
    from exec [OF e] e keeps show "se_action e = rd_best d" "\<not> se_production_write e"
      by (simp_all add: executed_row_def)
    show "(\<exists>h. tc_decision r = Some h \<and> hd_case h = k \<and> hd_response h = ''approve'') \<or>
      tc_decision r = None \<and> rd_best d = ''collect_evidence'' \<and> \<not> repeat \<and>
      ta_source a = ''llm'' \<and> ta_best a = rd_best d \<and> ta_domain a = rd_domain d \<and>
      ta_evidence a \<noteq> [] \<and> set (ta_evidence a) \<subseteq> set ev \<and> 80/100 \<le> ta_confidence a"
    proof (cases "tc_decision r")
      case (Some h)
      with exec [OF e] e show ?thesis by (simp add: executed_row_def)
    next
      case None
      with reviewed e have "\<not> human" by blast
      then show ?thesis
        using None deterministic_decision_Inr(2) [OF assms(1)] unfolding human_def reconcile_auto_iff by blast
    qed
  qed
qed

subsection \<open>Concurrent requests\<close>

text \<open>
  C26. Requests that read a case and update it later, interleaved in any order and with the
  creation of cases, leave the store as some sequence of whole operations does; and every
  request still under way will either be refused without a change or do exactly what the whole
  operation would do at that moment.
\<close>

theorem interleaving_refines_operations:
  assumes "twin_step\<^sup>*\<^sup>* ([], []) (st, ps)"
  shows "case_step\<^sup>*\<^sup>* [] st \<and> (\<forall>(q, row) \<in> set ps.
     (\<exists>e. commit q row st = (Inl e, st)) \<or> commit q row st = perform_request q st)"
proof -
  have "case_step\<^sup>*\<^sup>* [] (fst c)" if "twin_step\<^sup>*\<^sup>* ([], []) c" for c
    using that
  proof (induction rule: rtranclp_induct)
    case base
    then show ?case by simp
  next
    case (step c1 c2)
    with twin_step_refines [OF step.hyps(2) reachable_ok] show ?case
      by (metis rtranclp.rtrancl_into_rtrancl)
  qed
  with assms have "case_step\<^sup>*\<^sup>* [] st" by fastforce
  moreover have "version_of st (target q) row" if "(q, row) \<in> set ps" for q row
    using reachable_ok [OF assms] that by (auto simp: config_ok_def)
  ultimately show ?thesis using commit_is_operation by blast
qed

text \<open>
  C27. Of the requests that have read a case, the first one whose update goes through wins:
  every other one that read before is refused and changes nothing, whatever it wanted.
\<close>

theorem first_update_wins:
  assumes "twin_step\<^sup>*\<^sup>* ([], []) (st, ps)"
    and "(q1, row1) \<in> set ps" "(q2, row2) \<in> set ps" "target q1 = target q2"
    and "commit q1 row1 st = (Inr r, st1)"
  shows "\<exists>e. commit q2 row2 st1 = (Inl e, st1)"
proof -
  have v: "version_of st (target q1) row1" "version_of st (target q1) row2"
    using reachable_ok [OF assms(1)] assms(2-4) by (auto simp: config_ok_def)
  from v(1) obtain r' where m: "map_of st (target q1) = Some row1" "moved (target q1) row1 r'"
    "st1 = dset (target q1) r' st"
    using assms(5) by (cases rule: commit_cases) auto
  have v1: "version_of st1 (target q2) row2"
    unfolding m(3) assms(4) [symmetric] by (rule version_of_moved [OF v(2) m(1,2)])
  have "tc_revision row2 \<noteq> tc_revision r'"
    using v(2) m(1,2) by (auto simp: version_of_def moved_def)
  then have "map_of st1 (target q2) \<noteq> Some row2" using m(3) assms(4) by auto
  with v1 show ?thesis by (cases rule: commit_cases) auto
qed

text \<open>A case that asked for evidence, was escalated or is closed never changes again.\<close>

lemma settled_case_final:
  assumes "config_ok c" "twin_step\<^sup>*\<^sup>* c c'" "map_of (fst c) k = Some r"
    and "tc_state r \<in> {NEEDS_EVIDENCE, TWIN_ESCALATED, CLOSED_SIMULATED}"
  shows "map_of (fst c') k = Some r"
  using assms(2)
proof (induction rule: rtranclp_induct)
  case base
  with assms(3) show ?case by simp
next
  case (step c1 c2)
  have ok: "config_ok c1" using step.hyps(1) assms(1) by (rule twin_steps_ok)
  show ?case
    using step.hyps(2)
  proof (cases rule: twin_step.cases)
    case (update q row ps st)
    then have v: "version_of st (target q) row" using ok by (auto simp: config_ok_def)
    have "\<exists>e. commit q row st = (Inl e, st)" if "row = r"
      using assms(4) by (cases q)
        (auto simp: that decide_commit_def decide_plan_def auto_commit_def auto_plan_def verify_commit_def bindE_def)
    with update step.IH show ?thesis
      by (cases "target q = k"; use v in \<open>cases rule: commit_cases\<close>) auto
  qed (use step.IH in auto)
qed

subsection \<open>A concrete history\<close>

text \<open>
  A congestion case on which the model agreed, and a case on a drop fault that waits for a
  person, with two decisions on it that were both read before either was stored.
\<close>

definition demo_answer :: twin_agent where
  "demo_answer = \<lparr>ta_source = ''llm'', ta_provider_status = ''ok'', ta_domain = ''shared_network'',
     ta_best = ''collect_evidence'', ta_next = ''plant_repair'', ta_confidence = 9/10, ta_safe = True,
     ta_evidence = [''E1''], ta_rationale = ''r''\<rparr>"

definition demo_rule :: rule_decision where
  "demo_rule = \<lparr>rd_domain = ''shared_network'', rd_best = ''collect_evidence'', rd_next = ''plant_repair'',
     rd_evidence = [''E1''], rd_eligible = [''collect_evidence'', ''plant_repair'']\<rparr>"

definition demo_auto :: request where
  "demo_auto = Auto ''t1'' ''C1'' ''policy'' None"

definition demo_auto_row :: case_row where
  "demo_auto_row = new_case ''collect_evidence'' [''collect_evidence'', ''plant_repair''] False ''t0''"

definition demo_person :: "string \<Rightarrow> human_decision" where
  "demo_person response = \<lparr>hd_case = ''C2'', hd_revision = 1, hd_response = response,
     hd_actor = ''demo'', hd_rationale = ''checked''\<rparr>"

definition demo_waiting :: case_row where
  "demo_waiting = new_case ''dispatch_clean'' [''dispatch_clean'', ''collect_evidence''] True ''t0''"

definition demo_pending :: "(request \<times> case_row) list" where
  "demo_pending = [(Decide ''t2'' (demo_person ''reject'') None, demo_waiting),
     (Decide ''t1'' (demo_person ''approve'') None, demo_waiting)]"

lemmas demo_twin_defs = demo_answer_def demo_rule_def demo_auto_def demo_auto_row_def demo_person_def
  demo_waiting_def demo_pending_def

lemma demo_rule_decision: "deterministic_decision ''congestion'' [''E1''] = Inr demo_rule"
  by (simp add: deterministic_decision_def scenario_policies_def on_all_def demo_rule_def)

lemma demo_no_review: "\<not> rc_human (reconcile_with_operating_controls demo_rule demo_answer [''E1''] False)"
  by (simp add: reconcile_auto_iff demo_rule_def demo_answer_def side_effect_actions_def)

lemma demo_auto_history:
  "twin_step\<^sup>*\<^sup>* ([(''C1'', demo_auto_row)], []) (snd (commit demo_auto demo_auto_row [(''C1'', demo_auto_row)]), [])"
proof -
  have "twin_step ([(''C1'', demo_auto_row)], []) ([(''C1'', demo_auto_row)], [(demo_auto, demo_auto_row)])"
    by (rule twin_step.read) (simp add: demo_auto_def)
  moreover have "twin_step ([(''C1'', demo_auto_row)], [(demo_auto, demo_auto_row)])
      (snd (commit demo_auto demo_auto_row [(''C1'', demo_auto_row)]), remove1 (demo_auto, demo_auto_row) [(demo_auto, demo_auto_row)])"
    by (rule twin_step.update) simp
  ultimately show ?thesis by simp
qed

lemma demo_auto_effect:
  "\<exists>r. map_of (snd (commit demo_auto demo_auto_row [(''C1'', demo_auto_row)])) ''C1'' = Some r \<and>
     tc_effect r \<noteq> None \<and> tc_decision r = None"
  by (simp add: demo_auto_def demo_auto_row_def auto_commit_def auto_plan_def new_case_def bindE_def
      update_case_def case_get_eq)

theorem simulated_effect_authorised_witness:
  "\<exists>st' r. twin_step\<^sup>*\<^sup>* ([], []) (st', []) \<and> map_of st' ''C1'' = Some r \<and> tc_proposed r = ''collect_evidence'' \<and>
     tc_effect r \<noteq> None \<and> tc_decision r = None"
proof -
  have created: "snd (create_case ''t0'' ''C1'' (rd_best demo_rule) (rd_eligible demo_rule)
      (rc_human (reconcile_with_operating_controls demo_rule demo_answer [''E1''] False)) None []) =
      [(''C1'', demo_auto_row)]"
    using demo_no_review by (simp add: insert_or_ignore_def now_text_def demo_rule_def demo_auto_row_def)
  let ?st' = "snd (commit demo_auto demo_auto_row [(''C1'', demo_auto_row)])"
  have "\<exists>r. map_of ?st' ''C1'' = Some r \<and> tc_proposed r = rd_best demo_rule"
    using simulated_effect_authorised [OF demo_rule_decision rtranclp.rtrancl_refl _
        demo_auto_history [folded created], unfolded created] by auto
  moreover have "twin_step ([], []) ([(''C1'', demo_auto_row)], [])"
    unfolding created [symmetric] by (rule twin_step.create)
  then have "twin_step\<^sup>*\<^sup>* ([], []) (?st', [])"
    using demo_auto_history by (rule converse_rtranclp_into_rtranclp)
  ultimately show ?thesis
    using demo_auto_effect by (auto simp: demo_rule_def)
qed

lemma demo_pending_history: "twin_step\<^sup>*\<^sup>* ([], []) ([(''C2'', demo_waiting)], demo_pending)"
proof -
  have "twin_step ([], []) (snd (create_case ''t0'' ''C2'' ''dispatch_clean'' [''dispatch_clean'', ''collect_evidence''] True None []), [])"
    by (rule twin_step.create)
  then have "twin_step ([], []) ([(''C2'', demo_waiting)], [])"
    by (simp add: insert_or_ignore_def demo_waiting_def now_text_def)
  moreover have "twin_step ([(''C2'', demo_waiting)], []) ([(''C2'', demo_waiting)], [(Decide ''t1'' (demo_person ''approve'') None, demo_waiting)])"
    by (rule twin_step.read) (simp add: demo_person_def)
  moreover have "twin_step ([(''C2'', demo_waiting)], [(Decide ''t1'' (demo_person ''approve'') None, demo_waiting)])
      ([(''C2'', demo_waiting)], demo_pending)"
    unfolding demo_pending_def by (rule twin_step.read) (simp add: demo_person_def)
  ultimately show ?thesis by (simp add: converse_rtranclp_into_rtranclp)
qed

theorem interleaving_refines_operations_witness:
  "case_step\<^sup>*\<^sup>* [] [(''C2'', demo_waiting)] \<and>
   commit (Decide ''t1'' (demo_person ''approve'') None) demo_waiting [(''C2'', demo_waiting)] =
     perform_request (Decide ''t1'' (demo_person ''approve'') None) [(''C2'', demo_waiting)]"
proof -
  have "\<not> (\<exists>e. commit (Decide ''t1'' (demo_person ''approve'') None) demo_waiting [(''C2'', demo_waiting)] =
      (Inl e, [(''C2'', demo_waiting)]))"
    by (simp add: decide_commit_def decide_plan_def demo_person_def demo_waiting_def new_case_def bindE_def
        update_case_def case_get_eq)
  then show ?thesis
    using interleaving_refines_operations [OF demo_pending_history] by (auto simp: demo_pending_def)
qed

theorem first_update_wins_witness:
  "\<exists>r st1 e. commit (Decide ''t1'' (demo_person ''approve'') None) demo_waiting [(''C2'', demo_waiting)] = (Inr r, st1) \<and>
     tc_state r = ACTION_SIMULATED \<and>
     commit (Decide ''t2'' (demo_person ''reject'') None) demo_waiting st1 = (Inl e, st1)"
proof -
  obtain r st1 where r: "commit (Decide ''t1'' (demo_person ''approve'') None) demo_waiting [(''C2'', demo_waiting)] = (Inr r, st1)"
    "tc_state r = ACTION_SIMULATED"
    by (simp add: decide_commit_def decide_plan_def demo_person_def demo_waiting_def new_case_def bindE_def
        update_case_def case_get_eq)
  have "\<exists>e. commit (Decide ''t2'' (demo_person ''reject'') None) demo_waiting st1 = (Inl e, st1)"
    by (rule first_update_wins [OF demo_pending_history _ _ _ r(1)])
       (simp_all add: demo_pending_def demo_person_def)
  with r show ?thesis by blast
qed

end
