(* ===== verification/TwinMirrorLaws.thy ===== *)
theory TwinMirrorLaws
  imports TwinMirror TwinLaws
begin

text \<open>
  Laws of the mirroring of live decisions: which tables a decision changes, that the writer
  replaces exactly those, what is left when it is stopped on the way, and what a decision whose
  mirror fails leaves behind.
\<close>

subsection \<open>The tables a decision changes\<close>

text \<open>The tables that no decision changes, and the ones only an approval changes.\<close>

definition same_source :: "run_rows \<Rightarrow> run_rows \<Rightarrow> bool" where
  "same_source rows new \<longleftrightarrow>
     rr_master new = rr_master rows \<and> rr_manifests new = rr_manifests rows \<and> rr_alarms new = rr_alarms rows \<and>
     rr_contacts new = rr_contacts rows \<and> rr_rules new = rr_rules rows \<and> rr_agents new = rr_agents rows \<and>
     rr_reconciliations new = rr_reconciliations rows \<and> rr_pulls new = rr_pulls rows \<and>
     rr_tickets new = rr_tickets rows"

definition same_effects :: "run_rows \<Rightarrow> run_rows \<Rightarrow> bool" where
  "same_effects rows new \<longleftrightarrow>
     rr_telemetry new = rr_telemetry rows \<and> rr_incidents new = rr_incidents rows \<and> rr_work new = rr_work rows \<and>
     rr_evidence new = rr_evidence rows \<and> rr_mrs new = rr_mrs rows \<and> rr_validations new = rr_validations rows \<and>
     rr_resolutions new = rr_resolutions rows"

definition same_care :: "run_rows \<Rightarrow> run_rows \<Rightarrow> bool" where
  "same_care rows new \<longleftrightarrow> rr_care new = rr_care rows \<and> rr_reviews new = rr_reviews rows"

lemmas frames = same_source_def same_effects_def same_care_def

definition same_control :: "run_rows \<Rightarrow> run_rows \<Rightarrow> bool" where
  "same_control rows new \<longleftrightarrow> same_source rows new \<and> same_care rows new \<and> rr_humans new = rr_humans rows \<and>
     rr_actions new = rr_actions rows"

lemma add_branch_frame: "same_control rows (add_branch b rows)"
  by (simp add: add_branch_def same_control_def frames)

lemma restore_case_frame: "same_control rows new \<Longrightarrow> same_control rows (restore_case k policy b new)"
  by (simp add: restore_case_def Let_def same_control_def frames)

lemma materialize_effect_cases:
  assumes "materialize_effect rows k action t = Inr (new, closed_at)"
  shows "new = rows \<or> (\<exists>b. new = add_branch b rows) \<or> (\<exists>b policy. new = restore_case k policy b (add_branch b rows))"
proof -
  define b where "b = (if action = ''remote_repair'' then remote_branch t
     else if action = ''dispatch_clean'' \<or> action = ''cpe_swap'' then clean_branch k action t
     else plant_branch k action t)"
  obtain policy where
    "(if action = ''collect_evidence'' then Inr (rows, None)
      else if \<not> List.member [''remote_repair'', ''dispatch_clean'', ''cpe_swap'', ''create_mr'', ''plant_repair''] action
      then Inl (ValueError (''unsupported simulated action: '' @ action))
      else if \<not> sp_restores policy then Inr (add_branch b rows, None)
      else Inr (restore_case k policy b (add_branch b rows), Some (eb_post b + minutes 15))) = Inr (new, closed_at)"
    using assms unfolding materialize_effect_def Let_def b_def [symmetric]
    by (cases "map_of scenario_policies (mf_scenario (tk_manifest k))") (simp_all split: if_split_asm)
  then have "new = rows \<or> new = add_branch b rows \<or> new = restore_case k policy b (add_branch b rows)"
    by (simp split: if_split_asm)
  then show ?thesis by blast
qed

lemma materialize_effect_frame:
  assumes "materialize_effect rows k action t = Inr (new, closed_at)"
  shows "same_control rows new"
proof -
  have "same_control rows rows" by (simp add: same_control_def frames)
  then show ?thesis
    using materialize_effect_cases [OF assms] add_branch_frame restore_case_frame by metis
qed

lemma approve_rows_frame:
  assumes "approve_rows rows d m det t = Inr new"
  shows "same_source rows new \<and> same_care rows new"
  using assms
  by (auto simp: approve_rows_def Let_def bindR_eq_Inr frames same_control_def split: list.splits option.splits
      dest!: materialize_effect_frame)

lemma decided_rows_frame:
  assumes "decided_rows rows d m det t = Inr new"
  shows "same_source rows new \<and> same_care rows new \<and> (hd_response d \<noteq> ''approve'' \<longrightarrow> same_effects rows new)"
  using assms
  by (auto simp: decided_rows_def block_rows_def Let_def frames split: if_splits dest!: approve_rows_frame)

lemma mapR_id: "(\<And>x. x \<in> set xs \<Longrightarrow> f x = Inr x) \<Longrightarrow> mapR f xs = Inr xs"
  by (induction xs) simp_all

lemma refresh_care_frame:
  assumes "refresh_care_status rows = Inr (new, tickets, reviews)"
  shows "new = rows\<lparr>rr_care := rr_care new, rr_reviews := rr_reviews new\<rparr> \<and>
     (tickets = [] \<longrightarrow> rr_care new = rr_care rows) \<and> (reviews = [] \<longrightarrow> rr_reviews new = rr_reviews rows)"
proof -
  define changed where "changed = map cr_id (filter (\<lambda>t. refresh_ticket rows t \<noteq> t) (rr_care rows))"
  obtain rs where rs: "mapR (refresh_review rows changed) (rr_reviews rows) = Inr rs"
    and new: "new = rows\<lparr>rr_care := map (refresh_ticket rows) (rr_care rows), rr_reviews := rs\<rparr>"
    and tickets: "tickets = changed" and reviews: "reviews = filter (\<lambda>k. k \<in> set changed) (map cv_care rs)"
    using assms by (auto simp: refresh_care_status_def Let_def changed_def bindR_eq_Inr)
  have "map (refresh_ticket rows) (rr_care rows) = rr_care rows" if "tickets = []"
    using that by (intro map_idI) (auto simp: tickets changed_def filter_empty_conv)
  moreover have "rs = rr_reviews rows" if "reviews = []"
  proof -
    have keys: "map cv_care vs = map cv_care xs" if "mapR (refresh_review rows changed) xs = Inr vs" for xs vs
      using that by (induction xs arbitrary: vs) (auto simp: bindR_eq_Inr refresh_review_def split: if_splits)
    have "cv_care v \<notin> set changed" if "v \<in> set (rr_reviews rows)" for v
      using \<open>reviews = []\<close> keys [OF rs] that by (force simp: reviews filter_empty_conv)
    then have "mapR (refresh_review rows changed) (rr_reviews rows) = Inr (rr_reviews rows)"
      by (intro mapR_id) (simp add: refresh_review_def)
    with rs show ?thesis by simp
  qed
  ultimately show ?thesis by (simp add: new)
qed

subsection \<open>The writer\<close>

lemma sorted_changed:
  "sort (dedup (changed_tables d tickets reviews)) =
     [''action_events''] @
     (if reviews = [] then [] else [''care_ticket_reviews'']) @
     (if tickets = [] then [] else [''care_tickets'']) @
     (if hd_response d = ''approve'' then [''field_evidence''] else []) @ [''human_decisions''] @
     (if hd_response d = ''approve''
      then [''incidents'', ''mrs'', ''resolution_events'', ''telemetry_tr181'', ''validation_events'', ''work_orders'']
      else [])"
  by (cases "tickets = []"; cases "reviews = []"; cases "hd_response d = ''approve''";
      simp add: changed_tables_def; code_simp)

text \<open>All the changed tables copied one by one make the planned tables.\<close>

lemma copy_changed:
  assumes "plan_mirror d r rows = Inr p"
  shows "foldl (\<lambda>rows n. copy_table n (mp_rows p) rows) rows (sort (dedup (mp_changed p))) = mp_rows p"
proof -
  obtain m det t rows1 tickets reviews q where
    dec: "decided_rows rows d m det t = Inr rows1" and
    ref: "refresh_care_status rows1 = Inr (mp_rows p, tickets, reviews)" and
    p: "mp_changed p = changed_tables d tickets reviews"
    using assms by (auto simp: plan_mirror_def bindR_eq_Inr)
  note f1 = decided_rows_frame [OF dec]
  note f2 = refresh_care_frame [OF ref]
  show ?thesis
    unfolding p sorted_changed
    using f1 f2
    by (cases rows; cases "mp_rows p"; cases rows1; cases "tickets = []"; cases "reviews = []";
        cases "hd_response d = ''approve''") (simp_all add: copy_table_def frames)
qed

text \<open>What the writer leaves when every write succeeds, and that it succeeds then.\<close>

lemma write_datasets_Inr:
  assumes "write_datasets E new names by_name rows = (Inr by_name', rows')"
  shows "rows' = foldl (\<lambda>rows n. copy_table n new rows) rows names \<and> fst ` set by_name' = fst ` set by_name"
  using assms
proof (induction names arbitrary: by_name rows)
  case (Cons n names)
  then obtain e where "map_of by_name n = Some e"
    and rest: "write_datasets E new names
      (dset n \<lparr>ce_count = table_length n (copy_table n new rows), ce_sha = io_digest E n (copy_table n new rows)\<rparr> by_name)
      (copy_table n new rows) = (Inr by_name', rows')"
    by (auto simp: Let_def split: if_splits option.splits)
  then have "n \<in> fst ` set by_name" by (metis domI dom_map_of_conv_image_fst)
  with Cons.IH [OF rest] show ?case by (simp add: insert_absorb)
qed simp

definition writes_succeed :: "file_io \<Rightarrow> bool" where
  "writes_succeed E \<longleftrightarrow> list_all (\<lambda>n. io_write E n \<and> io_hash E n) datasets"

lemma write_datasets_ok:
  assumes "writes_succeed E" "set names \<subseteq> set datasets" "set names \<subseteq> fst ` set by_name"
  shows "\<exists>by_name'. write_datasets E new names by_name rows =
     (Inr by_name', foldl (\<lambda>rows n. copy_table n new rows) rows names) \<and> fst ` set by_name' = fst ` set by_name"
  using assms(2,3)
proof (induction names arbitrary: by_name rows)
  case (Cons n names)
  then obtain e where e: "map_of by_name n = Some e"
    by (metis domD dom_map_of_conv_image_fst insert_subset list.simps(15))
  have io: "io_write E n" "io_hash E n"
    using assms(1) Cons.prems(1) by (auto simp: writes_succeed_def list_all_iff)
  have "n \<in> fst ` set by_name" using Cons.prems(2) by simp
  with Cons.IH [of "dset n \<lparr>ce_count = table_length n (copy_table n new rows),
      ce_sha = io_digest E n (copy_table n new rows)\<rparr> by_name" "copy_table n new rows"] Cons.prems
  show ?case by (simp add: e io Let_def insert_absorb)
qed simp

lemma write_changed_Inr:
  assumes "write_changed E new c changed rows = (Inr c', rows')"
  shows "rows' = foldl (\<lambda>rows n. copy_table n new rows) rows (sort (dedup changed)) \<and> map fst (cg_entries c') = datasets"
proof -
  have keys: "map fst es = ns" if "mapR (\<lambda>n. bindR (look n d) (\<lambda>e. Inr (n, e))) ns = Inr es"
    for ns es and d :: "(string \<times> catalog_entry) list"
    using that by (induction ns arbitrary: es) (auto simp: bindR_eq_Inr)
  show ?thesis
    using assms unfolding write_changed_def
    by (auto simp: bindE_eq_Inr bindR_eq_Inr keys dest: write_datasets_Inr)
qed

lemma catalog_keys: "fst ` set (foldl (\<lambda>d (n, e). dset n e d) d0 es) = fst ` set d0 \<union> fst ` set es"
  by (induction es arbitrary: d0) (simp_all add: case_prod_beta)

lemma mapR_look:
  assumes "set ns \<subseteq> fst ` set d"
  shows "\<exists>es. mapR (\<lambda>n. bindR (look n d) (\<lambda>e. Inr (n, e))) ns = Inr es"
  using assms
proof (induction ns)
  case (Cons n ns)
  then obtain e where "map_of d n = Some e"
    by (metis domD dom_map_of_conv_image_fst insert_subset list.simps(15))
  with Cons show ?case by (auto simp: look_def)
qed simp

lemma write_changed_ok:
  assumes "writes_succeed E" "set changed \<subseteq> set datasets" "set datasets \<subseteq> fst ` set (cg_entries c)"
  shows "\<exists>c'. write_changed E new c changed rows =
     (Inr c', foldl (\<lambda>rows n. copy_table n new rows) rows (sort (dedup changed)))"
proof -
  define by_name where "by_name = foldl (\<lambda>d (n, e). dset n e d) [] (cg_entries c)"
  have keys: "fst ` set by_name = fst ` set (cg_entries c)" by (simp add: by_name_def catalog_keys)
  obtain by' where by': "write_datasets E new (sort (dedup changed)) by_name rows =
      (Inr by', foldl (\<lambda>rows n. copy_table n new rows) rows (sort (dedup changed)))"
    "fst ` set by' = fst ` set by_name"
    using write_datasets_ok [OF assms(1), of "sort (dedup changed)" by_name new rows] assms(2,3) keys by auto
  obtain es where "mapR (\<lambda>n. bindR (look n by') (\<lambda>e. Inr (n, e))) datasets = Inr es"
    using mapR_look [of datasets by'] by'(2) keys assms(3) by auto
  then show ?thesis
    using by'(1) by (simp add: write_changed_def by_name_def [symmetric] bindE_def)
qed

lemma changed_tables_known: "set (changed_tables d tickets reviews) \<subseteq> set datasets"
  by (auto simp: changed_tables_def datasets_def)

subsection \<open>A mirrored decision\<close>

text \<open>
  A plan that was written in full: the tables are the planned ones, and those pass the gate.
\<close>

lemma plan_accepted:
  assumes "plan_mirror d r rows = Inr p" "qu_passed (mp_quality p)"
  shows "accepted (quality_projection (mp_rows p))"
  using assms by (auto simp: plan_mirror_def bindR_eq_Inr accepted_def)

lemma write_catalog_rows: "write_catalog E c dk = (out, dk') \<Longrightarrow> dk_rows dk' = dk_rows dk"
  by (auto simp: write_catalog_def split: catalog_write.splits)

lemma write_plan_cases:
  assumes "write_plan E c p dk = (out, dk')"
  shows "(\<not> qu_passed (mp_quality p) \<and> dk' = dk \<and>
      out = Inl (ValueError (gate_prefix @ join ''; '' (take 10 (qu_errors (mp_quality p)))))) \<or>
    (qu_passed (mp_quality p) \<and> (\<exists>written rows'.
       write_changed E (mp_rows p) c (mp_changed p) (dk_rows dk) = (written, rows') \<and> dk_rows dk' = rows' \<and>
       (case written of Inl e \<Rightarrow> out = Inl e \<and> dk_catalog dk' = dk_catalog dk | Inr c' \<Rightarrow> True)))"
  using assms
  by (auto simp: write_plan_def split: if_splits prod.splits sum.splits dest: write_catalog_rows)

lemma write_plan_Inr:
  assumes "plan_mirror d r (dk_rows dk) = Inr p" "write_plan E c p dk = (Inr u, dk')"
  shows "dk_rows dk' = mp_rows p \<and> accepted (quality_projection (mp_rows p))"
proof -
  obtain c' where "qu_passed (mp_quality p)"
    and "write_changed E (mp_rows p) c (mp_changed p) (dk_rows dk) = (Inr c', dk_rows dk')"
    using write_plan_cases [OF assms(2)]
    by (cases "fst (write_changed E (mp_rows p) c (mp_changed p) (dk_rows dk))") auto
  then show ?thesis
    using write_changed_Inr copy_changed [OF assms(1)] plan_accepted [OF assms(1)] by metis
qed

text \<open>The catalog lists every dataset, or cannot be read at all.\<close>

definition catalog_complete :: "catalog_file \<Rightarrow> bool" where
  "catalog_complete f = (case f of Catalog c \<Rightarrow> list_all (\<lambda>n. n \<in> fst ` set (cg_entries c)) datasets | _ \<Rightarrow> True)"

lemma write_plan_ok:
  assumes "plan_mirror d r (dk_rows dk) = Inr p" "writes_succeed E"
    and "dk_catalog dk = Catalog c" "catalog_complete (Catalog c)" "write_plan E c p dk = (out, dk')"
  shows "(dk_rows dk' = dk_rows dk \<or> accepted (quality_projection (dk_rows dk'))) \<and> catalog_complete (dk_catalog dk')"
proof (cases "qu_passed (mp_quality p)")
  case False
  with assms(3-5) show ?thesis by (simp add: write_plan_def)
next
  case True
  have "set (mp_changed p) \<subseteq> set datasets"
    using assms(1) changed_tables_known by (fastforce simp: plan_mirror_def bindR_eq_Inr)
  moreover have "set datasets \<subseteq> fst ` set (cg_entries c)"
    using assms(4) by (auto simp: catalog_complete_def list_all_iff)
  ultimately obtain c' where c': "write_changed E (mp_rows p) c (mp_changed p) (dk_rows dk) = (Inr c', mp_rows p)"
    using write_changed_ok [OF assms(2)] copy_changed [OF assms(1)] by metis
  then have "map fst (cg_entries c') = datasets" using write_changed_Inr by metis
  then have "set datasets \<subseteq> fst ` set (cg_entries c')" by (metis list.set_map subset_refl)
  with True c' assms(3-5) plan_accepted [OF assms(1) True] show ?thesis
    by (auto simp: write_plan_def write_catalog_def catalog_complete_def list_all_iff split: catalog_write.splits)
qed

lemma mirror_decision_ok:
  assumes "writes_succeed E" "catalog_complete (dk_catalog dk)" "mirror_decision E d r dk = (out, dk')"
  shows "(dk_rows dk' = dk_rows dk \<or> accepted (quality_projection (dk_rows dk'))) \<and> catalog_complete (dk_catalog dk')"
proof (cases "dk_catalog dk")
  case (Catalog c)
  show ?thesis
  proof (cases "plan_mirror d r (dk_rows dk)")
    case (Inl e)
    with Catalog assms show ?thesis by (auto simp: mirror_decision_def bindE_def split: if_splits)
  next
    case (Inr p)
    obtain out' dk1 where w: "write_plan E c p dk = (out', dk1)" by fastforce
    have "dk' = dk \<or> dk' = dk1"
      using assms(3) Catalog Inr w by (auto simp: mirror_decision_def bindE_def split: if_splits sum.splits)
    with write_plan_ok [OF Inr assms(1) Catalog _ w] assms(2) Catalog show ?thesis by auto
  qed
qed (use assms in \<open>auto simp: mirror_decision_def\<close>)

lemma mirror_decision_Inr:
  assumes "mirror_decision E d r dk = (Inr p, dk')"
  shows "dk_rows dk' = mp_rows p \<and> accepted (quality_projection (mp_rows p))"
  using assms
  by (auto simp: mirror_decision_def bindE_eq_Inr split: catalog_file.splits if_splits dest: write_plan_Inr)

subsection \<open>Requests\<close>

lemma materialize_live_cases:
  assumes "materialize_live_decision E d r (dk, st) = (out, dk', st')"
  obtains e where "mirror_decision E d r dk = (Inl e, dk')" "out = Inl e" "st' = st"
  | p where "mirror_decision E d r dk = (Inr p, dk')"
      "st' = st \<or> (\<exists>t. snd (mark_verified '''' (hd_case d) t st) = st')"
proof (cases "mirror_decision E d r dk")
  case (Pair res dk1)
  show thesis
  proof (cases res)
    case (Inl e)
    with assms Pair that(1) show thesis
      by (simp add: materialize_live_decision_def bindE_def on_disk_def)
  next
    case (Inr p)
    let ?verify = "mark_verified '''' (hd_case d) (Some (iso_text (mp_decided p + minutes 2)))"
    have rest: "bindE (if hd_response d = ''approve'' \<and> resolution_of (mp_rows p) (hd_case d) \<noteq> None
        then on_store (bindE ?verify (\<lambda>_. retE ())) else retE ()) (\<lambda>_. on_store (case_get (hd_case d))) (dk1, st) =
        (out, dk', st')"
      using assms Pair Inr
      by (simp add: materialize_live_decision_def bindE_def [of "on_disk _"] on_disk_def
          del: not_None_eq split del: if_split)
    obtain vout st1 where v: "?verify st = (vout, st1)" by fastforce
    have "dk' = dk1 \<and> (st' = st \<or> st' = st1)"
      using rest v
      by (auto simp: bindE_def on_store_def case_get_eq split: if_splits sum.splits)
    moreover have "snd (?verify st) = st1" by (simp add: v)
    ultimately show thesis using that(2) [of p] Pair Inr by blast
  qed
qed

lemma mark_verified_store:
  assumes "mark_verified clock c t st = (out, st')"
  shows "st' = st \<or> (\<exists>r. st' = dset c r st \<and> tc_state r = CLOSED_SIMULATED)"
  using assms
  by (auto simp: mark_verified_def verify_commit_def update_case_def bindE_def case_get_eq
      split: option.splits if_splits)

lemma case_decide_store:
  assumes "case_decide clock d t st = (out, st')"
  shows "st' = st \<or> (\<exists>r. st' = dset (hd_case d) r st \<and> tc_state r \<noteq> WAITING_HUMAN)"
  using assms
  by (auto simp: case_decide_def decide_commit_def decide_plan_def update_case_def bindE_def case_get_eq
      split: option.splits if_splits)

lemma case_decide_Inr:
  assumes "case_decide clock d t st = (Inr r, st')"
  obtains r0 where "map_of st (hd_case d) = Some r0" "tc_state r0 = WAITING_HUMAN" "tc_revision r0 = hd_revision d"
    "map_of st' (hd_case d) = Some r" "tc_state r \<noteq> WAITING_HUMAN"
  using assms that
  by (auto simp: case_decide_def bindE_eq_Inr decide_commit_def decide_plan_def update_case_def split: if_splits option.splits)

text \<open>A case that no longer waits for a person, and that it never does again.\<close>

definition settled :: "string \<Rightarrow> case_store \<Rightarrow> bool" where
  "settled c st = (case map_of st c of None \<Rightarrow> False | Some r \<Rightarrow> tc_state r \<noteq> WAITING_HUMAN)"

lemma settled_dset: "settled c st \<Longrightarrow> tc_state r \<noteq> WAITING_HUMAN \<Longrightarrow> settled c (dset k r st)"
  by (simp add: settled_def)

lemma settled_refused:
  assumes "settled (hd_case d) st"
  shows "case_decide clock d t st = (Inl (ValueError ''case is not waiting for human review''), st)"
  using assms
  by (auto simp: settled_def case_decide_def decide_commit_def decide_plan_def bindE_def case_get_eq split: option.splits)

text \<open>The three ends of a request: refused at once, stopped in the mirror, or mirrored.\<close>

lemma decide_route_cases:
  assumes "decide_route run q (dk, st) = (out, dk', st')"
  obtains f where "out = Inl f" "dk' = dk" "st' = st"
  | r st1 e where "may_decide (dq_user q) (dq_role q) (dq_decision q) = Inr ()"
      "case_decide (dq_clock q) (dq_decision q) None st = (Inr r, st1)"
      "mirror_decision (dq_io q) (dq_decision q) r dk = (Inl e, dk')" "out = Inl (route_error run e)" "st' = st1"
  | r st1 p where "may_decide (dq_user q) (dq_role q) (dq_decision q) = Inr ()"
      "case_decide (dq_clock q) (dq_decision q) None st = (Inr r, st1)"
      "mirror_decision (dq_io q) (dq_decision q) r dk = (Inr p, dk')"
      "st' = st1 \<or> (\<exists>t. snd (mark_verified '''' (hd_case (dq_decision q)) t st1) = st')"
proof (cases "may_decide (dq_user q) (dq_role q) (dq_decision q)")
  case (Inl e)
  with assms show thesis by (intro that(1) [of "guard_error e"]) (simp_all add: decide_route_def)
next
  case (Inr u)
  obtain res st1 where dec: "case_decide (dq_clock q) (dq_decision q) None st = (res, st1)" by fastforce
  show thesis
  proof (cases res)
    case (Inl e)
    with dec have "st1 = st"
      by (auto simp: case_decide_def decide_commit_def decide_plan_def update_case_def bindE_def case_get_eq
          split: option.splits if_splits)
    with assms Inr Inl dec show thesis
      by (intro that(1) [of "route_error run e"])
        (simp_all add: decide_route_def decide_and_mirror_def bindE_def on_store_def)
  next
    case res: (Inr r)
    obtain mout dk2 st2 where m: "materialize_live_decision (dq_io q) (dq_decision q) r (dk, st1) = (mout, dk2, st2)"
      by (metis prod.exhaust)
    have eq: "dk' = dk2" "st' = st2" "out = (case mout of Inl e \<Rightarrow> Inl (route_error run e) | Inr x \<Rightarrow> Inr x)"
      using assms Inr dec res m
      by (auto simp: decide_route_def decide_and_mirror_def bindE_def on_store_def split: sum.splits)
    from m show thesis
      by (cases rule: materialize_live_cases) (use that(2,3) Inr dec res eq in auto)
  qed
qed

lemma settled_route:
  assumes "settled c (snd w)"
  shows "settled c (snd (snd (decide_route run q w)))"
proof -
  obtain dk st out dk' st' where w: "w = (dk, st)" and eq: "decide_route run q (dk, st) = (out, dk', st')"
    by (metis prod.exhaust)
  have dec: "settled c st1" if "case_decide clock d None st = (Inr r, st1)" for clock d r st1
    using case_decide_store [OF that] assms settled_dset by (auto simp: w)
  have ver: "settled c st2" if "settled c st1" "snd (mark_verified '''' k t st1) = st2" for k t st1 st2
    using mark_verified_store [of "''''" k t st1] that settled_dset
    by (cases "mark_verified '''' k t st1") fastforce
  from eq have "settled c st'"
  proof (cases rule: decide_route_cases)
    case (3 r st1 p)
    then show ?thesis using dec [OF 3(2)] ver by metis
  qed (use assms dec in \<open>auto simp: w\<close>)
  then show ?thesis by (simp add: w eq)
qed

lemma settled_all: "settled c (snd w) \<Longrightarrow> settled c (snd (decide_all run qs w))"
  by (induction run qs w rule: decide_all.induct) (simp_all add: settled_route)

subsection \<open>What holds of every history\<close>

lemma decide_route_ok:
  assumes "writes_succeed (dq_io q)" "accepted (quality_projection (dk_rows dk))" "catalog_complete (dk_catalog dk)"
    and "decide_route run q (dk, st) = (out, dk', st')"
  shows "accepted (quality_projection (dk_rows dk')) \<and> catalog_complete (dk_catalog dk')"
  using assms(4)
proof (cases rule: decide_route_cases)
  case 1
  with assms(2,3) show ?thesis by simp
next
  case 2
  from mirror_decision_ok [OF assms(1,3) 2(3)] assms(2) show ?thesis by auto
next
  case 3
  from mirror_decision_ok [OF assms(1,3) 3(3)] assms(2) show ?thesis by auto
qed

lemma decide_route_Inr:
  assumes "decide_route run q (dk, st) = (Inr row, dk', st')"
  shows "accepted (quality_projection (dk_rows dk'))"
  using assms
  by (cases rule: decide_route_cases) (auto dest: mirror_decision_Inr)

lemma decide_route_changes:
  assumes "decide_route run q (dk, st) = (out, dk', st')" "dk' \<noteq> dk"
  shows "may_decide (dq_user q) (dq_role q) (dq_decision q) = Inr () \<and>
    (\<exists>r. map_of st (hd_case (dq_decision q)) = Some r \<and> tc_state r = WAITING_HUMAN \<and>
       tc_revision r = hd_revision (dq_decision q))"
  using assms(1)
  by (cases rule: decide_route_cases) (use assms(2) in \<open>auto elim: case_decide_Inr\<close>)

text \<open>
  C30. Decisions sent to an accepted run, in any order and by any users, leave its tables accepted
  as long as the dataset files can be written; the catalog may then still be lost. Whatever
  failed before, tables accepted or not, a request that is answered with its case leaves tables
  that the gate accepts. And a request changes a file of the run only if its user may decide
  under that name and its case waits for a person at the revision the decision names.
\<close>

theorem decisions_keep_run_accepted:
  assumes "accepted (quality_projection (dk_rows dk))" "catalog_complete (dk_catalog dk)"
    and "\<forall>q \<in> set qs. writes_succeed (dq_io q)"
  shows "accepted (quality_projection (dk_rows (fst (decide_all run qs (dk, st))))) \<and>
     (\<forall>q w row w'. decide_route run q w = (Inr row, w') \<longrightarrow> accepted (quality_projection (dk_rows (fst w')))) \<and>
     (\<forall>q w out w'. decide_route run q w = (out, w') \<and> fst w' \<noteq> fst w \<longrightarrow>
        List.member [''operator'', ''supervisor''] (dq_role q) \<and> hd_actor (dq_decision q) = dq_user q \<and>
        (\<exists>r. map_of (snd w) (hd_case (dq_decision q)) = Some r \<and> tc_state r = WAITING_HUMAN \<and>
           tc_revision r = hd_revision (dq_decision q)))"
proof (intro conjI allI impI)
  have "accepted (quality_projection (dk_rows (fst (decide_all run qs w))))"
    if "accepted (quality_projection (dk_rows (fst w)))" "catalog_complete (dk_catalog (fst w))" for w
    using that assms(3)
  proof (induction run qs w rule: decide_all.induct)
    case (2 run q qs w)
    obtain out dk' st' where eq: "decide_route run q (fst w, snd w) = (out, dk', st')" by (metis prod.exhaust)
    have "accepted (quality_projection (dk_rows dk')) \<and> catalog_complete (dk_catalog dk')"
      by (rule decide_route_ok [OF _ _ _ eq]) (use "2.prems" in auto)
    with eq "2.IH" "2.prems"(3) show ?case by simp
  qed simp
  with assms(1,2) show "accepted (quality_projection (dk_rows (fst (decide_all run qs (dk, st)))))" by simp
next
  fix q w row w' assume "decide_route run q w = (Inr row, w')"
  then show "accepted (quality_projection (dk_rows (fst w')))"
    using decide_route_Inr by (metis prod.collapse)
next
  fix q w out w'
  assume "decide_route run q w = (out, w') \<and> fst w' \<noteq> fst w"
  then have *: "may_decide (dq_user q) (dq_role q) (dq_decision q) = Inr () \<and>
    (\<exists>r. map_of (snd w) (hd_case (dq_decision q)) = Some r \<and> tc_state r = WAITING_HUMAN \<and>
       tc_revision r = hd_revision (dq_decision q))"
    using decide_route_changes [of run q "fst w" "snd w" out "fst w'" "snd w'"] by simp
  then show "List.member [''operator'', ''supervisor''] (dq_role q)" "hd_actor (dq_decision q) = dq_user q"
    "\<exists>r. map_of (snd w) (hd_case (dq_decision q)) = Some r \<and> tc_state r = WAITING_HUMAN \<and>
       tc_revision r = hd_revision (dq_decision q)"
    by (auto simp: may_decide_def split: if_splits)
qed

subsection \<open>A mirror the gate refuses\<close>

lemma strip_blanks: "set pre \<subseteq> {CHR '' ''} \<Longrightarrow> strip (pre @ x) = strip x"
proof (induction pre)
  case (Cons c pre)
  then have "strip (c # pre @ x) = strip (pre @ x)" by (simp add: strip_def is_space_def)
  with Cons show ?case by simp
qed simp

text \<open>The issues of the response are the errors of the gate, one by one.\<close>

lemma split_joined:
  assumes "\<forall>e \<in> set (e # es). CHR '';'' \<notin> set e" "set pre \<subseteq> {CHR '' ''}"
  shows "map strip (split_on (CHR '';'') (pre @ join ''; '' (e # es))) = map strip (e # es)"
  using assms
proof (induction es arbitrary: e pre)
  case Nil
  then have "CHR '';'' \<notin> set (pre @ e)" by auto
  then have "split_on (CHR '';'') (pre @ e) = [pre @ e]" by (rule split_on_plain)
  with Nil.prems(2) show ?case by (simp add: strip_blanks)
next
  case (Cons e' es)
  have "CHR '';'' \<notin> set (pre @ e)" using Cons.prems by auto
  then have "split_on (CHR '';'') ((pre @ e) @ CHR '';'' # ('' '' @ join ''; '' (e' # es))) =
      (pre @ e) # split_on (CHR '';'') ('' '' @ join ''; '' (e' # es))"
    by (rule split_on_append)
  moreover have "map strip (split_on (CHR '';'') ('' '' @ join ''; '' (e' # es))) = map strip (e' # es)"
    using Cons.prems by (intro Cons.IH) auto
  ultimately show ?case using Cons.prems(2) by (simp add: strip_blanks)
qed

lemma gate_issues_join:
  assumes "\<forall>e \<in> set es. CHR '';'' \<notin> set e"
  shows "gate_issues (gate_prefix @ join ''; '' es) = filter (\<lambda>s. s \<noteq> []) (map strip es)"
proof (cases es)
  case (Cons e es')
  with split_joined [of e es' "[]"] assms show ?thesis by (simp add: gate_issues_def)
qed (simp add: gate_issues_def strip_def)

lemma settled_route_refused:
  assumes "settled (hd_case (dq_decision q)) (snd w)" "may_decide (dq_user q) (dq_role q) (dq_decision q) = Inr ()"
  shows "decide_route run q w = (Inl (Refused 409 (Text ''case is not waiting for human review'')), w)"
proof -
  have "\<not> starts_with gate_prefix ''case is not waiting for human review''"
    by (simp add: starts_with_def gate_prefix_def)
  with assms settled_refused [OF assms(1)] show ?thesis
    by (cases w) (simp add: decide_route_def decide_and_mirror_def bindE_def on_store_def route_error_def
        conflict_detail_def)
qed

lemma write_plan_refused:
  assumes "\<not> qu_passed (mp_quality p)" "dk_catalog dk = Catalog c" "io_load E" "plan_mirror d r (dk_rows dk) = Inr p"
  shows "mirror_decision E d r dk =
    (Inl (ValueError (gate_prefix @ join ''; '' (take 10 (qu_errors (mp_quality p))))), dk)"
  using assms by (simp add: mirror_decision_def write_plan_def bindE_def)

text \<open>
  C31. The decision is stored before the gate judges the tables it leads to. When the gate
  refuses them, no file of the run is touched and the route answers 409 with the errors of the
  gate as its issues; but the stored decision stays, and after any further requests every
  decision on the case by any user who may decide is refused as a case that does not wait.
\<close>

theorem refused_mirror_strands_case:
  assumes "may_decide (dq_user q) (dq_role q) (dq_decision q) = Inr ()"
    and "case_decide (dq_clock q) (dq_decision q) None st = (Inr row, st1)"
    and "dk_catalog dk = Catalog c" "io_load (dq_io q)"
    and "plan_mirror (dq_decision q) row (dk_rows dk) = Inr p" "\<not> qu_passed (mp_quality p)"
  shows "(\<exists>g. decide_route run q (dk, st) = (Inl (Refused 409 (GateDetail g)), dk, st1) \<and> gd_run g = run \<and>
       ((\<forall>e \<in> set (take 10 (qu_errors (mp_quality p))). CHR '';'' \<notin> set e) \<longrightarrow>
         gd_issues g = filter (\<lambda>s. s \<noteq> []) (map strip (take 10 (qu_errors (mp_quality p)))))) \<and>
     (\<forall>qs q'. hd_case (dq_decision q') = hd_case (dq_decision q) \<longrightarrow>
        may_decide (dq_user q') (dq_role q') (dq_decision q') = Inr () \<longrightarrow>
        decide_route run q' (decide_all run qs (dk, st1)) =
          (Inl (Refused 409 (Text ''case is not waiting for human review'')), decide_all run qs (dk, st1)))"
proof (intro conjI allI impI)
  let ?msg = "gate_prefix @ join ''; '' (take 10 (qu_errors (mp_quality p)))"
  obtain g where g: "conflict_detail run ?msg = GateDetail g" "gd_run g = run" "gd_issues g = gate_issues ?msg"
    by (simp add: conflict_detail_def starts_with_def)
  have "decide_route run q (dk, st) = (Inl (Refused 409 (GateDetail g)), dk, st1)"
    using assms(1,2) write_plan_refused [OF assms(6,3,4,5)] g(1)
    by (simp add: decide_route_def decide_and_mirror_def bindE_def on_store_def materialize_live_decision_def
        on_disk_def route_error_def)
  with g(2,3) gate_issues_join show "\<exists>g. decide_route run q (dk, st) = (Inl (Refused 409 (GateDetail g)), dk, st1) \<and>
      gd_run g = run \<and> ((\<forall>e \<in> set (take 10 (qu_errors (mp_quality p))). CHR '';'' \<notin> set e) \<longrightarrow>
         gd_issues g = filter (\<lambda>s. s \<noteq> []) (map strip (take 10 (qu_errors (mp_quality p)))))"
    by metis
next
  fix qs and q' :: decide_request
  assume same: "hd_case (dq_decision q') = hd_case (dq_decision q)"
    and may: "may_decide (dq_user q') (dq_role q') (dq_decision q') = Inr ()"
  from assms(2) have "settled (hd_case (dq_decision q)) st1"
    by (rule case_decide_Inr) (simp add: settled_def)
  then have "settled (hd_case (dq_decision q')) (snd (decide_all run qs (dk, st1)))"
    unfolding same by (intro settled_all) simp
  then show "decide_route run q' (decide_all run qs (dk, st1)) =
      (Inl (Refused 409 (Text ''case is not waiting for human review'')), decide_all run qs (dk, st1))"
    using may by (rule settled_route_refused)
qed

subsection \<open>A mirror stopped by a failing write\<close>

text \<open>The action of a case is marked as blocked by a decision that its human row does not show.\<close>

definition half_mirrored :: "string \<Rightarrow> run_rows \<Rightarrow> bool" where
  "half_mirrored c rows \<longleftrightarrow> c \<in> mf_case ` set (rr_manifests rows) \<and>
     map hr_status (filter (\<lambda>h. hr_case h = c) (rr_humans rows)) = [''PENDING''] \<and>
     List.member [[''BLOCKED_NEEDS_EVIDENCE''], [''BLOCKED_ESCALATED'']]
       (map ae_status (filter (\<lambda>a. ae_case a = c) (rr_actions rows)))"

lemma map_of_index_by_single:
  assumes "filter (\<lambda>x. key x = c) xs = [x]"
  shows "map_of (index_by key xs) c = Some x"
proof -
  have "find P ys = Some x" if "filter P ys = [x]" for P and ys :: "'a list"
    using that by (induction ys) (auto split: if_splits)
  moreover have "filter (\<lambda>x. key x = c) (rev xs) = [x]" using assms by (simp add: rev_filter [symmetric])
  ultimately show ?thesis by (simp add: map_of_index_by)
qed

lemma half_mirrored_refused:
  assumes "half_mirrored c rows"
  shows "\<not> accepted (quality_projection rows)"
proof -
  let ?rows = "quality_projection rows"
  obtain h a where h: "filter (\<lambda>h. hr_case h = c) (rr_humans rows) = [h]" "hr_status h = ''PENDING''"
    and a: "filter (\<lambda>a. ae_case a = c) (rr_actions rows) = [a]"
      "ae_status a = ''BLOCKED_NEEDS_EVIDENCE'' \<or> ae_status a = ''BLOCKED_ESCALATED''"
    and m: "c \<in> mf_case ` set (rr_manifests rows)"
    using assms by (auto simp: half_mirrored_def map_eq_Cons_conv)
  have hm: "map_of (q_humans ?rows) c = Some h" "map_of (q_actions ?rows) c = Some a"
    using map_of_index_by_single [OF h(1)] map_of_index_by_single [OF a(1)]
    by (simp_all add: q_humans_def q_actions_def quality_projection_def)
  have "control_errors ?rows c \<noteq> []"
    using h(2) a(2)
    by (cases "expected_reconciliation ?rows c") (auto simp: control_errors_def hm flag_def)
  moreover obtain k where "(c, k) \<in> set (q_manifests ?rows)"
    using m keys_index_by [of mf_case "rr_manifests rows"]
    by (force simp: q_manifests_def quality_projection_def)
  ultimately have "quality_control ?rows \<noteq> []" by (force simp: quality_control_def)
  then show ?thesis by (simp add: accepted_iff)
qed

lemma filter_update_first:
  assumes "\<And>x. P x \<Longrightarrow> \<not> Q x \<and> \<not> Q (f x)"
  shows "filter Q (update_first P f xs) = filter Q xs"
  using assms by (induction xs) auto

lemma filter_update_first_hit:
  assumes "filter P xs = [x]" "P (f x)"
  shows "filter P (update_first P f xs) = [f x]"
  using assms by (induction xs) (auto split: if_splits)

lemma approve_rows_control:
  assumes "approve_rows rows d m det t = Inr new"
  shows "rr_humans new = rr_humans rows \<and>
    rr_actions new = update_first (\<lambda>a. ae_case a = hd_case d)
      (\<lambda>a. a\<lparr>ae_status := ''SIMULATED_EXECUTED'', ae_time := Some (t + minutes 1), ae_production_write := False\<rparr>)
      (rr_actions rows)"
  using assms
  by (auto simp: approve_rows_def Let_def bindR_eq_Inr same_control_def split: list.splits option.splits
      dest!: materialize_effect_frame)

lemma decided_rows_control:
  assumes "decided_rows rows d m det t = Inr new"
  shows "rr_humans new = update_first (\<lambda>h. hr_case h = hd_case d)
      (decided_human d t (mf_repeat_sequence m \<noteq> 0) (decision_status (hd_response d))) (rr_humans rows) \<and>
    (\<exists>f. (\<forall>a. ae_case (f a) = ae_case a) \<and>
       rr_actions new = update_first (\<lambda>a. ae_case a = hd_case d) f (rr_actions rows) \<and>
       (hd_response d \<noteq> ''approve'' \<longrightarrow> (\<forall>a. ae_status (f a) =
          (if hd_response d = ''request_evidence'' then ''BLOCKED_NEEDS_EVIDENCE'' else ''BLOCKED_ESCALATED''))))"
proof (cases "hd_response d = ''approve''")
  case True
  with assms approve_rows_control show ?thesis
    by (fastforce simp: decided_rows_def Let_def intro: exI [of _ "\<lambda>a. a\<lparr>ae_status := ''SIMULATED_EXECUTED'',
        ae_time := Some (t + minutes 1), ae_production_write := False\<rparr>"])
next
  case False
  with assms show ?thesis
    by (auto simp: decided_rows_def block_rows_def Let_def
        intro: exI [of _ "\<lambda>a. a\<lparr>ae_status := ''BLOCKED_NEEDS_EVIDENCE''\<rparr>"] exI [of _ "\<lambda>a. a\<lparr>ae_status := ''BLOCKED_ESCALATED''\<rparr>"]
        split: if_splits)
qed

lemma plan_mirror_decided:
  assumes "plan_mirror d r rows = Inr p"
  obtains m det t rows1 where "live_case rows (hd_case d) = Inr (m, det)" "decided_rows rows d m det t = Inr rows1"
    "rr_manifests (mp_rows p) = rr_manifests rows" "rr_humans (mp_rows p) = rr_humans rows1"
    "rr_actions (mp_rows p) = rr_actions rows1"
proof -
  obtain m det t rows1 tickets reviews where
    "live_case rows (hd_case d) = Inr (m, det)" and dec: "decided_rows rows d m det t = Inr rows1"
    and ref: "refresh_care_status rows1 = Inr (mp_rows p, tickets, reviews)"
    using assms by (auto simp: plan_mirror_def bindR_eq_Inr)
  moreover have "rr_manifests (mp_rows p) = rr_manifests rows1 \<and> rr_humans (mp_rows p) = rr_humans rows1 \<and>
      rr_actions (mp_rows p) = rr_actions rows1"
    using refresh_care_frame [OF ref] by (cases "mp_rows p"; cases rows1) simp
  moreover have "rr_manifests rows1 = rr_manifests rows"
    using decided_rows_frame [OF dec] by (simp add: same_source_def)
  ultimately show thesis using that by metis
qed

text \<open>Once half mirrored, the tables are refused by the gate whatever is decided for other cases.\<close>

lemma half_mirrored_plan:
  assumes "half_mirrored c rows" "plan_mirror d r rows = Inr p" "hd_case d \<noteq> c"
  shows "half_mirrored c (mp_rows p)"
proof -
  obtain m det t rows1 where dec: "decided_rows rows d m det t = Inr rows1"
    and eq: "rr_manifests (mp_rows p) = rr_manifests rows" "rr_humans (mp_rows p) = rr_humans rows1"
      "rr_actions (mp_rows p) = rr_actions rows1"
    using plan_mirror_decided [OF assms(2)] by metis
  have "filter (\<lambda>h. hr_case h = c) (rr_humans rows1) = filter (\<lambda>h. hr_case h = c) (rr_humans rows)"
    using decided_rows_control [OF dec] assms(3)
    by (auto simp: decided_human_def intro!: filter_update_first)
  moreover have "filter (\<lambda>a. ae_case a = c) (rr_actions rows1) = filter (\<lambda>a. ae_case a = c) (rr_actions rows)"
    using decided_rows_control [OF dec] assms(3) by (auto intro!: filter_update_first)
  ultimately show ?thesis using assms(1) by (simp add: half_mirrored_def eq)
qed

lemma half_mirrored_route:
  assumes "half_mirrored c (dk_rows dk)" "settled c st" "decide_route run q (dk, st) = (out, dk', st')"
  shows "dk' = dk \<and> settled c st' \<and> (\<exists>f. out = Inl f)"
proof -
  have st': "settled c st'" using settled_route [of c "(dk, st)" run q] assms(2,3) by simp
  have other: "hd_case d \<noteq> c" if "case_decide clock d None st = (Inr r, st1)" for clock d r st1
    using that assms(2) settled_refused [of d st clock None] by auto
  have refused: "\<not> qu_passed (mp_quality p)" if "plan_mirror d r (dk_rows dk) = Inr p" "hd_case d \<noteq> c" for d r p
    using half_mirrored_plan [OF assms(1) that] half_mirrored_refused plan_accepted [OF that(1)] by blast
  have mirror: "dk1 = dk \<and> (\<exists>e. res = Inl e)" if "mirror_decision E d r dk = (res, dk1)" "hd_case d \<noteq> c" for E d r res dk1
    using that refused [OF _ that(2)]
    by (cases "plan_mirror d r (dk_rows dk)")
      (auto simp: mirror_decision_def bindE_def write_plan_def split: catalog_file.splits if_splits dest: sym [of "Inl _"])
  from assms(3) show ?thesis
    by (cases rule: decide_route_cases) (use st' mirror other in \<open>blast+\<close>)
qed

lemma write_datasets_stops:
  assumes "list_all (\<lambda>n. io_write E n \<and> io_hash E n) names" "set names \<subseteq> fst ` set by_name" "\<not> io_write E n"
  shows "write_datasets E new (names @ n # rest) by_name rows =
    (Inl (OSError n), foldl (\<lambda>rows n. copy_table n new rows) rows names)"
  using assms(1,2)
proof (induction names arbitrary: by_name rows)
  case (Cons n' names)
  then obtain e where e: "map_of by_name n' = Some e"
    by (metis domD dom_map_of_conv_image_fst insert_subset list.simps(15))
  have "n' \<in> fst ` set by_name" using Cons.prems(2) by simp
  with Cons e show ?case by (simp add: Let_def insert_absorb)
qed (simp add: assms(3))

lemma live_case_manifest: "live_case rows c = Inr (m, det) \<Longrightarrow> c \<in> mf_case ` set (rr_manifests rows)"
  using keys_index_by [of mf_case "rr_manifests rows"]
  by (force simp: live_case_def q_manifests_def bindR_eq_Inr split: option.splits dest: map_of_SomeD)

text \<open>The tables after the writes of the action events and the care tables alone.\<close>

lemma half_written:
  assumes "plan_mirror d r rows = Inr p" "hd_response d \<noteq> ''approve''"
    and "map hr_status (filter (\<lambda>h. hr_case h = hd_case d) (rr_humans rows)) = [''PENDING'']"
    and "length (filter (\<lambda>a. ae_case a = hd_case d) (rr_actions rows)) = 1"
    and "rr_manifests rows' = rr_manifests rows" "rr_humans rows' = rr_humans rows"
    and "rr_actions rows' = rr_actions (mp_rows p)"
  shows "half_mirrored (hd_case d) rows'"
proof -
  obtain m det t rows1 where live: "live_case rows (hd_case d) = Inr (m, det)"
    and dec: "decided_rows rows d m det t = Inr rows1" and eq: "rr_actions (mp_rows p) = rr_actions rows1"
    using plan_mirror_decided [OF assms(1)] by metis
  obtain f where f: "\<And>a. ae_case (f a) = ae_case a"
    "rr_actions rows1 = update_first (\<lambda>a. ae_case a = hd_case d) f (rr_actions rows)"
    "\<And>a. ae_status (f a) = (if hd_response d = ''request_evidence'' then ''BLOCKED_NEEDS_EVIDENCE'' else ''BLOCKED_ESCALATED'')"
    using decided_rows_control [OF dec] assms(2) by metis
  obtain a where a: "filter (\<lambda>a. ae_case a = hd_case d) (rr_actions rows) = [a]"
    using assms(4) by (auto simp: length_Suc_conv)
  then have "a \<in> set (filter (\<lambda>a. ae_case a = hd_case d) (rr_actions rows))" by simp
  then have "ae_case (f a) = hd_case d" using f(1) by simp
  then have "filter (\<lambda>a. ae_case a = hd_case d) (rr_actions rows1) = [f a]"
    unfolding f(2) using a by (intro filter_update_first_hit)
  then show ?thesis
    using assms(3,5-7) live_case_manifest [OF live] by (simp add: half_mirrored_def eq f(3))
qed

text \<open>
  The dataset files are written in the order of their names, the action events before the human
  decisions. A decision other than an approval whose human decisions cannot be written leaves the
  action blocked by a decision that the tables do not hold: the gate refuses the tables, the
  case is settled in the store, and no later request on any case of the run is answered with its
  case or changes a file.
\<close>

theorem interrupted_mirror_ends_decisions:
  assumes "may_decide (dq_user q) (dq_role q) (dq_decision q) = Inr ()"
    and "case_decide (dq_clock q) (dq_decision q) None st = (Inr row, st1)"
    and "dk_catalog dk = Catalog c" "catalog_complete (Catalog c)" "io_load (dq_io q)"
    and "plan_mirror (dq_decision q) row (dk_rows dk) = Inr p" "qu_passed (mp_quality p)"
    and "hd_response (dq_decision q) \<noteq> ''approve''"
    and "map hr_status (filter (\<lambda>h. hr_case h = hd_case (dq_decision q)) (rr_humans (dk_rows dk))) = [''PENDING'']"
    and "length (filter (\<lambda>a. ae_case a = hd_case (dq_decision q)) (rr_actions (dk_rows dk))) = 1"
    and "list_all (\<lambda>n. io_write (dq_io q) n = (n \<noteq> ''human_decisions'') \<and> io_hash (dq_io q) n) datasets"
  shows "\<exists>w. decide_route run q (dk, st) = (Inl (Unhandled (OSError ''human_decisions'')), w) \<and>
     (\<forall>qs. \<not> accepted (quality_projection (dk_rows (fst (decide_all run qs w)))) \<and>
        fst (decide_all run qs w) = fst w \<and>
        (\<forall>q'. \<exists>f. fst (decide_route run q' (decide_all run qs w)) = Inl f))"
proof -
  let ?d = "dq_decision q" and ?E = "dq_io q"
  obtain tickets reviews where changed: "mp_changed p = changed_tables ?d tickets reviews"
    using assms(6) by (auto simp: plan_mirror_def bindR_eq_Inr)
  define first where "first = [''action_events''] @ (if reviews = [] then [] else [''care_ticket_reviews'']) @
    (if tickets = [] then [] else [''care_tickets''])"
  have order: "sort (dedup (mp_changed p)) = first @ ''human_decisions'' # []"
    using assms(8) by (simp add: changed sorted_changed first_def)
  define rows' where "rows' = foldl (\<lambda>rows n. copy_table n (mp_rows p) rows) (dk_rows dk) first"
  have first_ok: "list_all (\<lambda>n. io_write ?E n \<and> io_hash ?E n) first" "\<not> io_write ?E ''human_decisions''"
    using assms(11) by (auto simp: first_def datasets_def)
  have "set first \<subseteq> fst ` set (foldl (\<lambda>d (n, e). dset n e d) [] (cg_entries c))"
    using assms(4) by (auto simp: catalog_keys catalog_complete_def first_def datasets_def list_all_iff)
  then have "write_changed ?E (mp_rows p) c (mp_changed p) (dk_rows dk) = (Inl (OSError ''human_decisions''), rows')"
    unfolding write_changed_def order rows'_def
    by (intro bindE_Inl write_datasets_stops first_ok)
  then have "mirror_decision ?E ?d row dk = (Inl (OSError ''human_decisions''), dk\<lparr>dk_rows := rows'\<rparr>)"
    using assms(3,5-7) by (simp add: mirror_decision_def write_plan_def bindE_def)
  then have route: "decide_route run q (dk, st) =
      (Inl (Unhandled (OSError ''human_decisions'')), dk\<lparr>dk_rows := rows'\<rparr>, st1)"
    using assms(1,2) by (simp add: decide_route_def decide_and_mirror_def bindE_def on_store_def
        materialize_live_decision_def on_disk_def route_error_def guard_error_def)
  have half: "half_mirrored (hd_case ?d) rows'"
    by (rule half_written [OF assms(6,8,9,10)]) (simp_all add: rows'_def first_def copy_table_def)
  have settled: "settled (hd_case ?d) st1"
    using assms(2) by (rule case_decide_Inr) (simp add: settled_def)
  have later: "fst (decide_all run qs w) = fst w \<and> settled (hd_case ?d) (snd (decide_all run qs w))"
    if "half_mirrored (hd_case ?d) (dk_rows (fst w))" "settled (hd_case ?d) (snd w)" for qs and w
    using that
  proof (induction run qs w rule: decide_all.induct)
    case (2 run q' qs w)
    obtain out dk' st' where eq: "decide_route run q' (fst w, snd w) = (out, dk', st')" by (metis prod.exhaust)
    from half_mirrored_route [OF "2.prems" eq] have "dk' = fst w" "settled (hd_case ?d) st'" by simp_all
    with eq "2.IH" "2.prems"(1) show ?case by simp
  qed simp
  show ?thesis
  proof (intro exI [of _ "(dk\<lparr>dk_rows := rows'\<rparr>, st1)"] conjI allI route)
    fix qs and q' :: decide_request
    let ?w = "decide_all run qs (dk\<lparr>dk_rows := rows'\<rparr>, st1)"
    have w: "fst ?w = dk\<lparr>dk_rows := rows'\<rparr>" "settled (hd_case ?d) (snd ?w)"
      using later [of "(dk\<lparr>dk_rows := rows'\<rparr>, st1)" qs] half settled by simp_all
    then show "\<not> accepted (quality_projection (dk_rows (fst ?w)))" "fst ?w = fst (dk\<lparr>dk_rows := rows'\<rparr>, st1)"
      using half_mirrored_refused [OF half] by simp_all
    obtain out dk' st' where "decide_route run q' (fst ?w, snd ?w) = (out, dk', st')" by (metis prod.exhaust)
    moreover from half_mirrored_route [OF _ w(2) this] w(1) half have "\<exists>f. out = Inl f" by simp
    ultimately show "\<exists>f. fst (decide_route run q' ?w) = Inl f" by simp
  qed
qed

text \<open>
  Two mirrors that read the same tables and write one after the other, as two requests handled at
  the same time may: the second writer puts back the human row of the first one's case.
\<close>

lemma overlapping_mirrors_lose_a_decision:
  assumes "plan_mirror d1 r1 rows = Inr p1" "plan_mirror d2 r2 rows = Inr p2" "hd_case d1 \<noteq> hd_case d2"
    and "write_changed E1 (mp_rows p1) c1 (mp_changed p1) rows = (Inr c1', rows1)"
    and "write_changed E2 (mp_rows p2) c2 (mp_changed p2) rows1 = (Inr c2', rows2)"
  shows "filter (\<lambda>h. hr_case h = hd_case d1) (rr_humans rows2) = filter (\<lambda>h. hr_case h = hd_case d1) (rr_humans rows)"
proof -
  obtain m det t rowsA where dec: "decided_rows rows d2 m det t = Inr rowsA"
    and eq: "rr_humans (mp_rows p2) = rr_humans rowsA"
    using plan_mirror_decided [OF assms(2)] by metis
  obtain tickets reviews where "mp_changed p2 = changed_tables d2 tickets reviews"
    using assms(2) by (auto simp: plan_mirror_def bindR_eq_Inr)
  then have "rr_humans rows2 = rr_humans (mp_rows p2)"
    using write_changed_Inr [OF assms(5)] by (simp add: sorted_changed copy_table_def split: if_splits)
  also have "filter (\<lambda>h. hr_case h = hd_case d1) \<dots> = filter (\<lambda>h. hr_case h = hd_case d1) (rr_humans rows)"
    using decided_rows_control [OF dec] assms(3)
    by (auto simp: eq decided_human_def intro!: filter_update_first)
  finally show ?thesis .
qed

end
