(* ===== verification/TwinGateLaws.thy ===== *)
theory TwinGateLaws
  imports TwinGate
begin

text \<open>
  What an accepted run guarantees: how a closed incident came to be closed, and that every
  executed action was allowed to run.
\<close>

subsection \<open>Identity in an accepted run\<close>

lemma accepted_distinct:
  assumes "accepted rows"
  shows "distinct (map mf_case (rr_manifests rows))" "distinct (map ri_incident (rr_incidents rows))"
    "distinct (map va_id (rr_validations rows))" "distinct (map ae_case (rr_actions rows))"
    "distinct (map hr_case (rr_humans rows))"
  using assms by (simp_all add: accepted_iff quality_identity_def)

lemma manifest_lookup:
  assumes "accepted rows" "m \<in> set (rr_manifests rows)"
  shows "map_of (q_manifests rows) (mf_case m) = Some m"
  using find_rev_distinct [OF accepted_distinct(1) [OF assms(1)] assms(2)]
  by (simp add: q_manifests_def map_of_index_by)

lemma manifest_found: "map_of (q_manifests rows) c = Some m \<Longrightarrow> m \<in> set (rr_manifests rows) \<and> mf_case m = c"
  unfolding q_manifests_def by (rule map_of_index_byD)

lemma accepted_incident:
  assumes "accepted rows" "i \<in> set (rr_incidents rows)"
  obtains m where "map_of (q_manifests rows) (ri_case i) = Some m" "mf_root_case m = ri_case i"
    "mf_root_incident m = ri_incident i"
proof -
  have "incident_graph rows i = []"
    using assms by (simp add: accepted_iff quality_graph_def)
  then show thesis
    using that by (auto simp: incident_graph_def split: option.splits if_splits)
qed

text \<open>One incident per root case.\<close>

lemma root_unique:
  assumes "accepted rows" "i \<in> set (rr_incidents rows)" "i' \<in> set (rr_incidents rows)" "ri_case i = ri_case i'"
  shows "i = i'"
proof -
  obtain m m' where "map_of (q_manifests rows) (ri_case i) = Some m" "mf_root_incident m = ri_incident i"
    "map_of (q_manifests rows) (ri_case i') = Some m'" "mf_root_incident m' = ri_incident i'"
    using accepted_incident [OF assms(1,2)] accepted_incident [OF assms(1,3)] by metis
  with assms(4) have "ri_incident i = ri_incident i'" by auto
  with accepted_distinct(2) [OF assms(1)] assms(2,3) show ?thesis by (auto simp: distinct_map dest: inj_onD)
qed

lemma root_lookup:
  assumes "accepted rows" "i \<in> set (rr_incidents rows)"
  shows "(ri_case i, i) \<in> set (q_incidents_by_root rows)"
proof -
  have "ri_case i \<in> fst ` set (q_incidents_by_root rows)"
    using assms(2) by (auto simp: q_incidents_by_root_def keys_index_by)
  then obtain i' where i': "(ri_case i, i') \<in> set (q_incidents_by_root rows)" by force
  then have "i' \<in> set (rr_incidents rows) \<and> ri_case i' = ri_case i"
    unfolding q_incidents_by_root_def index_by_mem by (rule map_of_index_byD)
  with root_unique [OF assms] i' show ?thesis by metis
qed

lemma mapR_Nil: "mapR f xs = Inr ess \<Longrightarrow> concat ess = [] \<Longrightarrow> x \<in> set xs \<Longrightarrow> f x = Inr []"
  by (induction xs arbitrary: ess) (auto simp: bindR_eq_Inr)

lemma accepted_root:
  assumes "accepted rows" "i \<in> set (rr_incidents rows)"
  shows "root_errors rows (ri_case i) i = Inr []"
proof -
  obtain ess where "mapR (\<lambda>(c, i). root_errors rows c i) (q_incidents_by_root rows) = Inr ess" "concat ess = []"
    using assms(1) by (auto simp: accepted_iff quality_roots_def bindR_eq_Inr)
  from mapR_Nil [OF this root_lookup [OF assms]] show ?thesis by simp
qed

lemma accepted_manifest_root:
  assumes "accepted rows" "m \<in> set (rr_manifests rows)"
  obtains i where "i \<in> set (rr_incidents rows)" "ri_incident i = mf_root_incident m" "ri_case i = mf_root_case m"
proof -
  have "(mf_case m, m) \<in> set (q_manifests rows)"
    using manifest_lookup [OF assms] by (rule map_of_SomeD)
  then have "case_graph rows (mf_case m) m = []"
    using assms(1) by (auto simp: accepted_iff quality_graph_def)
  then obtain i where "map_of (q_incidents rows) (mf_root_incident m) = Some i" "ri_case i = mf_root_case m"
    by (auto simp: case_graph_def split: option.splits)
  then show thesis using that by (auto simp: q_incidents_def dest: map_of_index_byD)
qed

subsection \<open>The last attempt\<close>

definition attempt_time :: "manifest \<Rightarrow> int" where
  "attempt_time m = (case mf_time m of None \<Rightarrow> min_instant | Some t \<Rightarrow> t)"

lemma last_attempt:
  assumes "accepted rows" "attempts_of_root rows c \<noteq> []"
  defines "m \<equiv> last (attempts_of_root rows c)"
  shows "m \<in> set (rr_manifests rows)" "mf_root_case m = c"
    and "\<And>m'. m' \<in> set (rr_manifests rows) \<Longrightarrow> mf_root_case m' = c \<Longrightarrow> attempt_time m' \<le> attempt_time m"
proof -
  have sorted: "sorted (map attempt_time (attempts_of_root rows c))"
    unfolding attempts_of_root_def attempt_time_def by (rule sorted_sort_key)
  have set: "set (attempts_of_root rows c) = {m' \<in> snd ` set (q_manifests rows). mf_root_case m' = c}"
    by (auto simp: attempts_of_root_def)
  have last: "m \<in> set (attempts_of_root rows c)"
    unfolding m_def by (rule last_in_set) fact
  then obtain k where "(k, m) \<in> set (q_manifests rows)" "mf_root_case m = c" using set by auto
  then show "m \<in> set (rr_manifests rows)" "mf_root_case m = c"
    by (auto simp: q_manifests_def index_by_mem dest: map_of_index_byD)
  fix m' assume m': "m' \<in> set (rr_manifests rows)" "mf_root_case m' = c"
  have "m' \<in> snd ` set (q_manifests rows)"
    using map_of_SomeD [OF manifest_lookup [OF assms(1) m'(1)]] by force
  then have "m' \<in> set (attempts_of_root rows c)" using m'(2) set by simp
  then obtain j where j: "j < length (attempts_of_root rows c)" "attempts_of_root rows c ! j = m'"
    by (auto simp: in_set_conv_nth)
  have "attempt_time (attempts_of_root rows c ! j) \<le> attempt_time (attempts_of_root rows c ! (length (attempts_of_root rows c) - 1))"
    using sorted_nth_mono [OF sorted, of j "length (attempts_of_root rows c) - 1"] j(1) assms(2)
    by (simp add: Suc_leI)
  then show "attempt_time m' \<le> attempt_time m"
    using j(2) assms(2) by (simp add: m_def last_conv_nth)
qed

subsection \<open>Cited telemetry\<close>

lemma map_of_snd: "map_of (map (\<lambda>(k, p). (k, snd p)) d) k = map_option snd (map_of d k)"
  by (induction d) auto

lemma healthy_citation_telemetry:
  assumes "healthy_citation rows e"
  obtains t where "t \<in> set (rr_telemetry rows)" "te_event t = e" "te_health t = ''HEALTHY''"
    "map_of (q_evidence rows) e = Some \<lparr>ce_case = te_case t, ce_time = te_time t, ce_healthy = True\<rparr>"
proof -
  obtain ev where ev: "map_of (q_evidence rows) e = Some ev" "ce_healthy ev"
    using assms by (auto simp: healthy_citation_def split: option.splits)
  then obtain p where p: "map_of (index_by fst
     (map (\<lambda>r. (te_event r, \<lparr>ce_case = te_case r, ce_time = te_time r,
        ce_healthy = (starts_with ''TEL-'' (te_event r) \<and> te_health r = ''HEALTHY'')\<rparr>)) (rr_telemetry rows) @
      map (\<lambda>r. (al_event r, \<lparr>ce_case = al_case r, ce_time = al_time r, ce_healthy = False\<rparr>)) (rr_alarms rows) @
      map (\<lambda>r. (fe_id r, \<lparr>ce_case = fe_case r, ce_time = fe_captured r, ce_healthy = False\<rparr>)) (rr_evidence rows))) e
      = Some p" "ev = snd p"
    unfolding q_evidence_def map_of_snd by auto
  from map_of_index_byD [OF p(1)] p(2) ev(2) obtain t where
    "t \<in> set (rr_telemetry rows)" "te_event t = e" "te_health t = ''HEALTHY''"
    "ev = \<lparr>ce_case = te_case t, ce_time = te_time t, ce_healthy = True\<rparr>"
    by auto
  with that ev(1) show thesis by simp
qed

subsection \<open>What a passed validation holds\<close>

text \<open>A validation in good order, from the facts of the run it cites.\<close>

definition objective_validation :: "run_rows \<Rightarrow> validation \<Rightarrow> bool" where
  "objective_validation rows v \<longleftrightarrow> va_service_test v = ''PASS'' \<and> va_stable v \<and> checklist_complete (va_checklist v) \<and>
     (\<exists>t \<in> set (rr_telemetry rows). te_event t \<in> set (va_evidence v) \<and> te_case t = va_case v \<and>
        te_health t = ''HEALTHY'' \<and> \<not> not_before (te_time t) (va_time v)) \<and>
     (\<forall>w \<in> set (work_of_case rows (va_case v)). \<not> not_before (wo_completed w) (va_time v))"

lemma validation_objective:
  assumes "validation_errors rows v = []"
  shows "objective_validation rows v"
proof -
  obtain e where e: "e \<in> set (va_evidence v)" "healthy_citation rows e"
    using assms by (auto simp: validation_errors_def)
  from e(2) obtain t where t: "t \<in> set (rr_telemetry rows)" "te_event t = e" "te_health t = ''HEALTHY''"
    "map_of (q_evidence rows) e = Some \<lparr>ce_case = te_case t, ce_time = te_time t, ce_healthy = True\<rparr>"
    by (rule healthy_citation_telemetry)
  have "validation_citation rows v e = []"
    using assms e(1) by (auto simp: validation_errors_def)
  with t(4) have "te_case t = va_case v" "\<not> not_before (te_time t) (va_time v)"
    by (simp_all add: validation_citation_def)
  with t e(1) assms show ?thesis
    by (auto simp: objective_validation_def validation_errors_def)
qed

lemma not_beforeD: "\<not> not_before a b \<Longrightarrow> \<exists>x y. a = Some x \<and> b = Some y \<and> x \<le> y"
  by (auto simp: not_before_def split: option.splits)

subsection \<open>Closed incidents\<close>

text \<open>
  C28. In a run the quality gate accepts, a closed incident was closed by its latest attempt: that
  attempt has a resolution, no earlier than a validation of the same attempt and no later than
  the closing time; and the validation passed, was stable, has its whole checklist, cites healthy
  telemetry of the same attempt taken before it, and comes after all work on the attempt.
\<close>

theorem accepted_run_closes_on_evidence:
  assumes "accepted rows" "i \<in> set (rr_incidents rows)" "ri_status i = ''CLOSED''"
  shows "\<exists>m \<in> set (rr_manifests rows). \<exists>r \<in> set (rr_resolutions rows). \<exists>v \<in> set (rr_validations rows).
     \<exists>tv tr tc. mf_root_incident m = ri_incident i \<and>
       (\<forall>m' \<in> set (rr_manifests rows). mf_root_incident m' = ri_incident i \<longrightarrow> attempt_time m' \<le> attempt_time m) \<and>
       re_case r = Some (mf_case m) \<and> va_id v = re_validation r \<and> va_case v = Some (mf_case m) \<and>
       objective_validation rows v \<and>
       va_time v = Some tv \<and> re_time r = Some tr \<and> ri_closed i = Some tc \<and> tv \<le> tr \<and> tr \<le> tc"
proof -
  let ?as = "attempts_of_root rows (ri_case i)"
  have root: "root_errors rows (ri_case i) i = Inr []" by (rule accepted_root) fact+
  then have as: "?as \<noteq> []" by (auto simp: root_errors_def)
  define m where "m = last ?as"
  have m: "m \<in> set (rr_manifests rows)" "mf_root_case m = ri_case i"
    using last_attempt(1,2) [OF assms(1) as] by (simp_all add: m_def)
  have same_root: "mf_root_incident m' = ri_incident i \<longleftrightarrow> mf_root_case m' = ri_case i"
    if mem: "m' \<in> set (rr_manifests rows)" for m'
  proof -
    obtain i' where "i' \<in> set (rr_incidents rows)" "ri_incident i' = mf_root_incident m'" "ri_case i' = mf_root_case m'"
      using accepted_manifest_root [OF assms(1) mem] by blast
    moreover have "ri_incident j = ri_incident i \<Longrightarrow> j = i" if "j \<in> set (rr_incidents rows)" for j
      using accepted_distinct(2) [OF assms(1)] that assms(2) by (auto simp: distinct_map dest: inj_onD)
    ultimately show ?thesis using root_unique [OF assms(1,2)] by metis
  qed
  have "closed_root_errors rows i (mf_case m) = Inr []"
    using root as assms(3) by (auto simp: root_errors_def m_def Let_def bindR_eq_Inr)
  then obtain r tr tc where r: "resolution_of rows (mf_case m) = Some r" "re_time r = Some tr"
    "ri_closed i = Some tc" "tr \<le> tc"
    by (auto simp: closed_root_errors_def Let_def split: option.splits)
  then have r_mem: "r \<in> set (rr_resolutions rows)" "re_case r = Some (mf_case m)"
    unfolding resolution_of_def by (auto dest: find_SomeD)
  have "resolution_errors rows r = []"
    using assms(1) r_mem(1) by (simp add: accepted_iff quality_resolutions_def)
  then obtain v where v: "map_of (q_validations rows) (re_validation r) = Some v" "va_case v = re_case r"
    "\<not> not_before (va_time v) (re_time r)"
    by (auto simp: resolution_errors_def split: option.splits if_splits)
  have v_mem: "v \<in> set (rr_validations rows)" "va_id v = re_validation r"
    using v(1) by (auto simp: q_validations_def dest: map_of_index_byD)
  have "objective_validation rows v"
    using assms(1) v_mem(1) by (intro validation_objective) (simp add: accepted_iff quality_validations_def)
  moreover obtain tv where "va_time v = Some tv" "tv \<le> tr"
    using not_beforeD [OF v(3)] r(2) by auto
  moreover have "attempt_time m' \<le> attempt_time m"
    if "m' \<in> set (rr_manifests rows)" "mf_root_incident m' = ri_incident i" for m'
    using last_attempt(3) [OF assms(1) as that(1)] same_root [OF that(1)] that(2) by (simp add: m_def)
  moreover have "mf_root_incident m = ri_incident i" using same_root m by simp
  ultimately show ?thesis
    using m(1) r r_mem v_mem v(2) by (metis (no_types, lifting))
qed

subsection \<open>Executed actions\<close>

text \<open>
  C29. In a run the quality gate accepts, no action writes to production and every executed action
  of a case is the one the rules chose for its scenario. The gate reconciles the case again from
  the stored decision, the stored answer of the assistant and the evidence: where that
  reconciliation demands a person, a person approved the case no later than the action ran;
  where it does not, the action is the collection of evidence of a case that is no repeat, and
  the assistant's answer came from the model, agrees with the rules on domain and action, cites
  evidence of this case only, and holds it safe with a confidence of at least 0.8. A case that is
  still blocked has no work, validation or resolution.
\<close>

theorem accepted_run_actions_authorised:
  assumes "accepted rows" "a \<in> set (rr_actions rows)" "m \<in> set (rr_manifests rows)" "mf_case m = ae_case a"
  shows "\<not> ae_production_write a \<and>
     (\<exists>rec. expected_reconciliation rows (ae_case a) = Some rec \<and>
        map_of (q_reconciliations rows) (ae_case a) = Some rec \<and>
        (if ae_status a = ''SIMULATED_EXECUTED''
         then (\<exists>policy. map_of scenario_policies (mf_scenario m) = Some policy \<and> ae_action a = sp_best policy) \<and>
              (if rc_human rec
               then \<exists>h \<in> set (rr_humans rows). hr_case h = ae_case a \<and> hr_status h = ''APPROVED'' \<and>
                      hr_response h = Some ''approve'' \<and> \<not> not_before (hr_decided h) (ae_time a)
               else ae_action a = ''collect_evidence'' \<and> mf_repeat_sequence m = 0 \<and>
                    (\<exists>det answer agent. map_of (q_rules rows) (ae_case a) = Some det \<and>
                       map_of (q_agents rows) (ae_case a) = Some answer \<and> check_agent answer = Inr agent \<and>
                       ta_source agent = ''llm'' \<and> ta_provider_status agent = ''ok'' \<and>
                       ta_domain agent = rd_domain det \<and> ta_best agent = rd_best det \<and> ta_evidence agent \<noteq> [] \<and>
                       set (ta_evidence agent) \<subseteq> set (evidence_of_case rows (ae_case a)) \<and>
                       ta_safe agent \<and> 80/100 \<le> ta_confidence agent))
         else \<not> downstream rows (ae_case a)))"
proof -
  have in_m: "(ae_case a, m) \<in> set (q_manifests rows)"
    using map_of_SomeD [OF manifest_lookup [OF assms(1,3)]] assms(4) by simp
  have look: "map_of (q_actions rows) (ae_case a) = Some a" "map_of (q_manifests rows) (ae_case a) = Some m"
    using find_rev_distinct [OF accepted_distinct(4) [OF assms(1)] assms(2)] manifest_lookup [OF assms(1,3)] assms(4)
    by (simp_all add: q_actions_def map_of_index_by)
  have "control_errors rows (ae_case a) = []"
    using assms(1) in_m by (auto simp: accepted_iff quality_control_def)
  then obtain h rec where h: "map_of (q_humans rows) (ae_case a) = Some h"
    "expected_reconciliation rows (ae_case a) = Some rec" "\<not> ae_production_write a"
    and st: "ae_status a = ''SIMULATED_EXECUTED'' \<Longrightarrow> executed_errors h a rec = []"
      "ae_status a \<noteq> ''SIMULATED_EXECUTED'' \<Longrightarrow> \<not> downstream rows (ae_case a)"
    by (simp add: control_errors_def look split: option.splits if_splits)
  have h_mem: "h \<in> set (rr_humans rows)" "hr_case h = ae_case a"
    using h(1) by (auto simp: q_humans_def dest: map_of_index_byD)
  obtain det answer agent where det: "map_of (q_rules rows) (ae_case a) = Some det"
    "rec = reconcile_with_operating_controls det agent (evidence_of_case rows (ae_case a)) (mf_repeat_sequence m \<noteq> 0)"
    and answer: "map_of (q_agents rows) (ae_case a) = Some answer" "check_agent answer = Inr agent"
    using h(2) by (auto simp: expected_reconciliation_def look split: option.splits sum.splits)
  have "scenario_truth rows (ae_case a) m = []" "recomputed_policy rows (ae_case a) = []"
    using assms(1) in_m by (auto simp: accepted_iff quality_scenarios_def quality_policy_def)
  then obtain policy where policy: "map_of scenario_policies (mf_scenario m) = Some policy"
    "rd_best det = sp_best policy" "ae_action a = rd_best det"
    and stored: "map_of (q_reconciliations rows) (ae_case a) = Some rec"
    by (auto simp: scenario_truth_def recomputed_policy_def look det(1) h(2) split: option.splits)
  have auto_action: "ae_action a = ''collect_evidence'' \<and> mf_repeat_sequence m = 0 \<and>
      ta_source agent = ''llm'' \<and> ta_provider_status agent = ''ok'' \<and> ta_domain agent = rd_domain det \<and>
      ta_best agent = rd_best det \<and> ta_evidence agent \<noteq> [] \<and>
      set (ta_evidence agent) \<subseteq> set (evidence_of_case rows (ae_case a)) \<and> ta_safe agent \<and> 80/100 \<le> ta_confidence agent"
    if "\<not> rc_human rec"
  proof -
    note agreed = that [unfolded det(2) reconcile_auto_iff]
    moreover have "sp_best policy = ''collect_evidence'' \<or> sp_best policy \<in> set side_effect_actions"
      using scenario_policy_actions [OF policy(1)] .
    ultimately show ?thesis using policy by simp
  qed
  show ?thesis
  proof (cases "ae_status a = ''SIMULATED_EXECUTED''")
    case True
    have approved: "\<exists>h \<in> set (rr_humans rows). hr_case h = ae_case a \<and> hr_status h = ''APPROVED'' \<and>
        hr_response h = Some ''approve'' \<and> \<not> not_before (hr_decided h) (ae_time a)" if "rc_human rec"
      using st(1) [OF True] h_mem that by (auto simp: executed_errors_def)
    with True policy h(2,3) stored det(1) answer auto_action show ?thesis by (cases "rc_human rec") auto
  next
    case False
    with st(2) h(2,3) stored show ?thesis by simp
  qed
qed

end
