(* ===== verification/TwinDemo.thy ===== *)
theory TwinDemo
  imports TwinGateLaws TwinLive
begin

text \<open>
  A small run for the witnesses: one home, one Wi-Fi case that a person approved and that was
  repaired remotely, with its validation, its resolution and its closed incident.
\<close>

definition demo_home :: subscriber where
  "demo_home = \<lparr>ts_customer = ''U'', ts_account = ''A'', ts_premise = ''P'', ts_service = ''S'', ts_device = ''D'',
     ts_serial = ''N'', ts_mac = ''M'', ts_technology = ''HFC'', ts_region = ''metro'',
     ts_delimiter_type = ''TAP'', ts_delimiter = ''T'', ts_port = ''Q''\<rparr>"

definition demo_manifest :: manifest where
  "demo_manifest = \<lparr>mf_scenario = ''slow_wifi'', mf_truth_domain = ''wifi_or_home'', mf_case = ''C'',
     mf_root_case = ''C'', mf_root_incident = ''INC-C'', mf_service = ''S'', mf_technology = ''HFC'',
     mf_delimiter_type = ''TAP'', mf_delimiter = ''T'', mf_time = Some 0, mf_repeat_of = None,
     mf_repeat_sequence = 0, mf_supervisor = False, mf_lifecycle = None\<rparr>"

definition demo_det :: rule_decision where
  "demo_det = \<lparr>rd_domain = ''wifi_or_home'', rd_best = ''remote_repair'', rd_next = ''dispatch_clean'',
     rd_evidence = [''E''], rd_eligible = [''remote_repair'']\<rparr>"

definition demo_before :: telemetry where
  "demo_before = \<lparr>te_event = ''E'', te_case = Some ''C'', te_service = Some ''S'', te_time = Some 0,
     te_collected = Some 0, te_technology = ''HFC'', te_health = ''DEGRADED'', te_scenario = ''slow_wifi''\<rparr>"

definition demo_after :: telemetry where
  "demo_after = demo_before\<lparr>te_event := ''TEL-C'', te_time := Some 40, te_health := ''HEALTHY''\<rparr>"

definition demo_alarm :: alarm where
  "demo_alarm = \<lparr>al_event = ''L'', al_case = Some ''C'', al_service = Some ''S'', al_time = Some 1,
     al_collected = Some 1, al_family = ''F'', al_severity = ''MAJOR''\<rparr>"

definition demo_root :: root_incident where
  "demo_root = \<lparr>ri_incident = ''INC-C'', ri_case = ''C'', ri_root_case = ''C'', ri_service = ''S'',
     ri_opened = Some 5, ri_resolved = Some 50, ri_closed = Some 60, ri_status = ''CLOSED'',
     ri_scenario = ''slow_wifi'', ri_repeat_count = 0, ri_reopen_count = 0, ri_last_repeat = None,
     ri_last_reopened = None, ri_prior_closed = None, ri_origin = None, ri_predictive = None\<rparr>"

definition demo_validation :: validation where
  "demo_validation = \<lparr>va_id = ''V'', va_case = Some ''C'', va_root_case = ''C'', va_incident = Some ''INC-C'',
     va_service = Some ''S'', va_time = Some 50, va_evidence = [''TEL-C''], va_service_test = ''PASS'',
     va_stable = True, va_checklist = closure_checklist, va_checklist_time = Some 50, va_confirmation = ''N''\<rparr>"

definition demo_resolution :: resolution where
  "demo_resolution = \<lparr>re_id = ''R'', re_case = Some ''C'', re_root_case = ''C'', re_incident = Some ''INC-C'',
     re_service = Some ''S'', re_time = Some 50, re_validation = ''V'', re_outcome = ''RESTORED'',
     re_domain = ''wifi_or_home''\<rparr>"

definition demo_run :: run_rows where
  "demo_run = no_rows\<lparr>rr_master := [demo_home], rr_manifests := [demo_manifest],
     rr_telemetry := [demo_before, demo_after], rr_alarms := [demo_alarm], rr_incidents := [demo_root],
     rr_validations := [demo_validation], rr_resolutions := [demo_resolution],
     rr_rules := [(''C'', demo_det)], rr_agents := [(''C'', fake_agent_decision demo_det)],
     rr_reconciliations := [(''C'', reconcile_with_operating_controls demo_det (fake_agent_decision demo_det)
        [''E'', ''TEL-C'', ''L''] False)],
     rr_humans := [approved_human ''C'' False 10],
     rr_actions := [action_event ''C'' ''remote_repair'' ''SIMULATED_EXECUTED'' 20]\<rparr>"

lemma demo_groups:
  "quality_roots demo_run = Inr []" "quality_identity demo_run = []" "quality_regions demo_run = []"
  "quality_graph demo_run = []" "quality_scenarios demo_run = []"
  by code_simp+

lemma demo_groups2:
  "quality_citations demo_run = []" "quality_policy demo_run = []" "quality_work demo_run = []" "quality_swaps demo_run = []"
  "quality_mrs demo_run = []" "quality_validations demo_run = []" "quality_resolutions demo_run = []"
  by code_simp+

lemma demo_groups3:
  "quality_control demo_run = []" "quality_branches demo_run = []" "quality_closures demo_run = []"
  "quality_repeats demo_run = []" "quality_safety demo_run = []" "quality_predictive demo_run = []"
  "quality_care demo_run = []" "quality_correlation demo_run = []" "quality_reviews demo_run = []"
  by code_simp+

lemma demo_accepted: "accepted demo_run"
  unfolding accepted_iff using demo_groups demo_groups2 demo_groups3 by blast

theorem accepted_run_closes_on_evidence_witness:
  "\<exists>m \<in> set (rr_manifests demo_run). \<exists>v \<in> set (rr_validations demo_run).
     mf_root_incident m = ''INC-C'' \<and> va_case v = Some (mf_case m) \<and> objective_validation demo_run v"
proof -
  have "demo_root \<in> set (rr_incidents demo_run)" "ri_status demo_root = ''CLOSED''" "ri_incident demo_root = ''INC-C''"
    by (simp_all add: demo_run_def demo_root_def)
  with accepted_run_closes_on_evidence [OF demo_accepted this(1,2)] show ?thesis by metis
qed

text \<open>The reconciliation of the executed repair, computed again, demands a person.\<close>

lemma demo_needs_person:
  "case expected_reconciliation demo_run ''C'' of None \<Rightarrow> False | Some rec \<Rightarrow> rc_human rec"
  by code_simp

theorem accepted_run_actions_authorised_witness:
  "\<exists>rec. expected_reconciliation demo_run ''C'' = Some rec \<and> rc_human rec \<and>
     (\<exists>h \<in> set (rr_humans demo_run). hr_case h = ''C'' \<and> hr_status h = ''APPROVED'' \<and>
        hr_response h = Some ''approve'' \<and> \<not> not_before (hr_decided h) (Some 20))"
proof -
  let ?a = "action_event ''C'' ''remote_repair'' ''SIMULATED_EXECUTED'' 20"
  have a: "?a \<in> set (rr_actions demo_run)" "demo_manifest \<in> set (rr_manifests demo_run)" "mf_case demo_manifest = ae_case ?a"
    by (simp_all add: demo_run_def demo_manifest_def action_event_def)
  obtain rec where rec: "expected_reconciliation demo_run ''C'' = Some rec" "rc_human rec"
    using demo_needs_person by (auto split: option.splits)
  have "ae_case ?a = ''C''" "ae_status ?a = ''SIMULATED_EXECUTED''" "ae_time ?a = Some 20"
    by (simp_all add: action_event_def)
  with accepted_run_actions_authorised [OF demo_accepted a] rec show ?thesis by auto
qed

end
