(* ===== verification/TwinMirrorDemo.thy ===== *)
theory TwinMirrorDemo
  imports TwinMirrorLaws TwinDemo
begin

text \<open>
  Concrete decisions on the small run while its case still waits: one that is mirrored, one whose
  tables the gate refuses, and one whose mirror is stopped by a failing write.
\<close>

definition pending_run :: run_rows where
  "pending_run = demo_run\<lparr>rr_manifests := [demo_manifest\<lparr>mf_lifecycle := Some ''LIVE_PENDING''\<rparr>],
     rr_telemetry := [demo_before],
     rr_incidents := [demo_root\<lparr>ri_status := ''OPEN'', ri_resolved := None, ri_closed := None\<rparr>],
     rr_validations := [], rr_resolutions := [],
     rr_reconciliations := [(''C'', reconcile_with_operating_controls demo_det (fake_agent_decision demo_det)
        [''E'', ''L''] False)],
     rr_humans := [pending_human ''C''],
     rr_actions := [action_event ''C'' ''remote_repair'' ''BLOCKED_PENDING_HUMAN'' 20]\<rparr>"

definition demo_catalog :: catalog where
  "demo_catalog = \<lparr>cg_entries = map (\<lambda>n. (n, \<lparr>ce_count = 0, ce_sha = []\<rparr>)) datasets,
     cg_quality = \<lparr>qu_passed = True, qu_errors = [], qu_checks = 20\<rparr>, cg_scope = [], cg_updated = None\<rparr>"

definition pending_disk :: run_disk where
  "pending_disk = \<lparr>dk_rows = pending_run, dk_catalog = Catalog demo_catalog\<rparr>"

definition demo_clock :: string where
  "demo_clock = ''2026-01-01T00:00:00+00:00''"

definition pending_store :: case_store where
  "pending_store = [(''C'', new_case ''remote_repair'' [''remote_repair''] True demo_clock)]"

definition demo_io :: file_io where
  "demo_io = \<lparr>io_load = True, io_write = (\<lambda>n. True), io_hash = (\<lambda>n. True), io_digest = (\<lambda>n rows. n),
     io_catalog = WriteDone\<rparr>"

definition demo_reject :: decide_request where
  "demo_reject = \<lparr>dq_io = demo_io, dq_clock = demo_clock, dq_user = ''demo'', dq_role = ''operator'',
     dq_decision = \<lparr>hd_case = ''C'', hd_revision = 1, hd_response = ''reject'', hd_actor = ''demo'',
       hd_rationale = ''no''\<rparr>\<rparr>"

definition demo_guest :: decide_request where
  "demo_guest = demo_reject\<lparr>dq_role := ''guest''\<rparr>"

lemma pending_groups:
  "quality_roots pending_run = Inr []" "quality_identity pending_run = []" "quality_regions pending_run = []"
  "quality_graph pending_run = []" "quality_scenarios pending_run = []"
  by code_simp+

lemma pending_groups2:
  "quality_citations pending_run = []" "quality_policy pending_run = []" "quality_work pending_run = []"
  "quality_swaps pending_run = []" "quality_mrs pending_run = []" "quality_validations pending_run = []"
  "quality_resolutions pending_run = []"
  by code_simp+

lemma pending_groups3:
  "quality_control pending_run = []" "quality_branches pending_run = []" "quality_closures pending_run = []"
  "quality_repeats pending_run = []" "quality_safety pending_run = []" "quality_predictive pending_run = []"
  "quality_care pending_run = []" "quality_correlation pending_run = []" "quality_reviews pending_run = []"
  by code_simp+

lemma pending_projection: "quality_projection pending_run = pending_run"
  by code_simp

lemma pending_accepted: "accepted (quality_projection (dk_rows pending_disk))"
  by (simp add: pending_disk_def pending_projection accepted_iff pending_groups pending_groups2 pending_groups3)

lemma demo_catalog_complete: "catalog_complete (dk_catalog pending_disk)"
  by code_simp

lemma demo_writes: "writes_succeed demo_io"
  by code_simp

lemma demo_reject_answered:
  "is_ok (fst (decide_route ''R'' demo_reject (pending_disk, pending_store)))"
  by code_simp

lemma demo_reject_mirrored:
  "map hr_status (rr_humans (dk_rows (fst (snd (decide_route ''R'' demo_reject (pending_disk, pending_store)))))) =
     [''REJECTED'']"
  by code_simp

text \<open>The waiting case is rejected and its tables follow; a guest's request changes nothing.\<close>

theorem decisions_keep_run_accepted_witness:
  "accepted (quality_projection (dk_rows (fst (decide_all ''R'' [demo_reject, demo_guest] (pending_disk, pending_store))))) \<and>
   is_ok (fst (decide_route ''R'' demo_reject (pending_disk, pending_store))) \<and>
   map hr_status (rr_humans (dk_rows (fst (snd (decide_route ''R'' demo_reject (pending_disk, pending_store)))))) =
     [''REJECTED'']"
proof -
  have "\<forall>q \<in> set [demo_reject, demo_guest]. writes_succeed (dq_io q)"
    using demo_writes by (simp add: demo_reject_def demo_guest_def)
  from decisions_keep_run_accepted [OF pending_accepted demo_catalog_complete this] show ?thesis
    using demo_reject_answered demo_reject_mirrored by blast
qed

text \<open>Tables whose action is not the one the rules chose: the gate refuses every decision on them.\<close>

definition crossed_disk :: run_disk where
  "crossed_disk = pending_disk\<lparr>dk_rows := pending_run\<lparr>rr_actions :=
     [action_event ''C'' ''dispatch_clean'' ''BLOCKED_PENDING_HUMAN'' 20]\<rparr>\<rparr>"

definition crossed_issue :: string where
  "crossed_issue = ''action disagrees with deterministic policy for C''"

definition demo_rejected :: case_row where
  "demo_rejected = (new_case ''remote_repair'' [''remote_repair''] True demo_clock)
     \<lparr>tc_revision := 2, tc_state := TWIN_ESCALATED, tc_decision := Some (dq_decision demo_reject)\<rparr>"

lemma demo_decided:
  "case_decide (dq_clock demo_reject) (dq_decision demo_reject) None pending_store = (Inr demo_rejected, [(''C'', demo_rejected)])"
  by (simp add: case_decide_def bindE_def case_get_eq decide_commit_def decide_plan_def update_case_def
      pending_store_def demo_reject_def demo_rejected_def new_case_def now_text_def demo_clock_def)

lemma demo_may: "may_decide (dq_user demo_reject) (dq_role demo_reject) (dq_decision demo_reject) = Inr ()"
  by (simp add: may_decide_def demo_reject_def)

lemma crossed_plan:
  "bindR (plan_mirror (dq_decision demo_reject) demo_rejected (dk_rows crossed_disk))
     (\<lambda>p. Inr (qu_passed (mp_quality p), qu_errors (mp_quality p))) = Inr (False, [crossed_issue])"
  by code_simp

theorem refused_mirror_strands_case_witness:
  "\<exists>g. decide_route ''R'' demo_reject (crossed_disk, pending_store) =
      (Inl (Refused 409 (GateDetail g)), crossed_disk, [(''C'', demo_rejected)]) \<and>
    gd_issues g = [crossed_issue] \<and>
    decide_route ''R'' (demo_reject\<lparr>dq_clock := []\<rparr>) (crossed_disk, [(''C'', demo_rejected)]) =
      (Inl (Refused 409 (Text ''case is not waiting for human review'')), crossed_disk, [(''C'', demo_rejected)])"
proof -
  obtain p where p: "plan_mirror (dq_decision demo_reject) demo_rejected (dk_rows crossed_disk) = Inr p"
    "\<not> qu_passed (mp_quality p)" "qu_errors (mp_quality p) = [crossed_issue]"
    using crossed_plan by (auto simp: bindR_eq_Inr)
  have cat: "dk_catalog crossed_disk = Catalog demo_catalog" and io: "io_load (dq_io demo_reject)"
    by (simp_all add: crossed_disk_def pending_disk_def demo_reject_def demo_io_def)
  note refused = refused_mirror_strands_case [OF demo_may demo_decided cat io p(1,2), of "''R''"]
  obtain g where g: "decide_route ''R'' demo_reject (crossed_disk, pending_store) =
      (Inl (Refused 409 (GateDetail g)), crossed_disk, [(''C'', demo_rejected)])"
    "(\<forall>e \<in> set (take 10 [crossed_issue]). CHR '';'' \<notin> set e) \<longrightarrow>
       gd_issues g = filter (\<lambda>s. s \<noteq> []) (map strip (take 10 [crossed_issue]))"
    using refused unfolding p(3) by blast
  have "gd_issues g = [crossed_issue]"
    using g(2) by (simp add: crossed_issue_def strip_def is_space_def)
  moreover have "decide_route ''R'' (demo_reject\<lparr>dq_clock := []\<rparr>) (decide_all ''R'' [] (crossed_disk, [(''C'', demo_rejected)])) =
      (Inl (Refused 409 (Text ''case is not waiting for human review'')), decide_all ''R'' [] (crossed_disk, [(''C'', demo_rejected)]))"
    by (rule refused [THEN conjunct2, rule_format]) (simp_all add: demo_reject_def may_decide_def)
  ultimately show ?thesis using g(1) by simp
qed

text \<open>The same decision on the accepted tables, when the human decisions cannot be written.\<close>

definition demo_stopped :: decide_request where
  "demo_stopped = demo_reject\<lparr>dq_io := demo_io\<lparr>io_write := (\<lambda>n. n \<noteq> ''human_decisions'')\<rparr>\<rparr>"

lemma pending_plan:
  "bindR (plan_mirror (dq_decision demo_reject) demo_rejected (dk_rows pending_disk))
     (\<lambda>p. Inr (qu_passed (mp_quality p))) = Inr True"
  by code_simp

theorem interrupted_mirror_ends_decisions_witness:
  "\<exists>w. decide_route ''R'' demo_stopped (pending_disk, pending_store) = (Inl (Unhandled (OSError ''human_decisions'')), w) \<and>
     \<not> accepted (quality_projection (dk_rows (fst w)))"
proof -
  obtain p where p: "plan_mirror (dq_decision demo_stopped) demo_rejected (dk_rows pending_disk) = Inr p"
    "qu_passed (mp_quality p)"
    using pending_plan by (auto simp: bindR_eq_Inr demo_stopped_def)
  have cat: "dk_catalog pending_disk = Catalog demo_catalog" "catalog_complete (Catalog demo_catalog)"
    and io: "io_load (dq_io demo_stopped)" "hd_response (dq_decision demo_stopped) \<noteq> ''approve''"
      "list_all (\<lambda>n. io_write (dq_io demo_stopped) n = (n \<noteq> ''human_decisions'') \<and> io_hash (dq_io demo_stopped) n) datasets"
    using demo_catalog_complete
    by (simp_all add: pending_disk_def demo_stopped_def demo_reject_def demo_io_def list_all_iff)
  have rows: "map hr_status (filter (\<lambda>h. hr_case h = hd_case (dq_decision demo_stopped)) (rr_humans (dk_rows pending_disk))) =
      [''PENDING'']"
    "length (filter (\<lambda>a. ae_case a = hd_case (dq_decision demo_stopped)) (rr_actions (dk_rows pending_disk))) = 1"
    by (simp_all add: pending_disk_def pending_run_def demo_stopped_def demo_reject_def pending_human_def action_event_def)
  have may: "may_decide (dq_user demo_stopped) (dq_role demo_stopped) (dq_decision demo_stopped) = Inr ()"
    and dec: "case_decide (dq_clock demo_stopped) (dq_decision demo_stopped) None pending_store =
      (Inr demo_rejected, [(''C'', demo_rejected)])"
    using demo_may demo_decided by (simp_all add: demo_stopped_def)
  obtain w where w: "decide_route ''R'' demo_stopped (pending_disk, pending_store) = (Inl (Unhandled (OSError ''human_decisions'')), w)"
    "\<forall>qs. \<not> accepted (quality_projection (dk_rows (fst (decide_all ''R'' qs w))))"
    using interrupted_mirror_ends_decisions [OF may dec cat io(1) p io(2) rows io(3), of "''R''"] by blast
  then have "\<not> accepted (quality_projection (dk_rows (fst (decide_all ''R'' [] w))))" by blast
  with w(1) show ?thesis by simp
qed

end
