(* ===== verification/Effort.thy ===== *)
theory Effort
  imports Geography Plant Tables
begin

text \<open>
  The effort ledger (\<open>effort.py\<close>): what the resolution of an incident takes in minutes and
  money, line by line, what a false alarm and a missed error cost, and the account of one arm
  of the comparison of \<open>ab_metrics.py\<close>, whose counts and shares are here as well.
\<close>

subsection \<open>Rates and durations\<close>

definition rates :: "(string \<times> rat) list" where
  "rates = [(''noc_analyst_hour'', 45), (''l2_sme_hour'', 65), (''dispatcher_hour'', 50),
     (''clean_boots_hour'', 55), (''dirty_boots_hour'', 140), (''vehicle_km'', 60/100),
     (''ferry_round_trip'', 180), (''overnight_premium'', 220), (''parts_cpe'', 85), (''parts_drop'', 40),
     (''parts_tap'', 120), (''parts_odp'', 260)]"

definition durations :: "(string \<times> int) list" where
  "durations = [(''triage'', 10), (''rca_cycle'', 15), (''remote_attempt'', 25), (''self_help_guided'', 20),
     (''gate_review'', 12), (''dispatch_planning'', 8), (''clean_boots_on_site'', 90),
     (''dirty_boots_on_site'', 180), (''handover_package'', 25), (''handover_review'', 15),
     (''verification'', 12), (''closure'', 8)]"

definition road_km_per_minute :: rat where
  "road_km_per_minute = 75/100"

text \<open>The keys in use are all in the tables.\<close>

definition rate :: "string \<Rightarrow> rat" where
  "rate k = the (map_of rates k)"

definition duration :: "string \<Rightarrow> int" where
  "duration k = the (map_of durations k)"

definition labour :: "string \<Rightarrow> int \<Rightarrow> rat" where
  "labour role_hour_key minutes = rate role_hour_key * of_int minutes / 60"

subsection \<open>The ledger\<close>

record ledger_line =
  ll_step :: string
  ll_role :: string
  ll_minutes :: int
  ll_cost :: rat
  ll_note :: string

record effort_ledger =
  el_incident :: string
  el_site :: string
  el_lines :: "ledger_line list"

definition ledger_line :: "string \<Rightarrow> string \<Rightarrow> int \<Rightarrow> rat \<Rightarrow> string \<Rightarrow> ledger_line" where
  "ledger_line stp role minutes cost note =
     \<lparr>ll_step = stp, ll_role = role, ll_minutes = minutes, ll_cost = round_dec 2 cost, ll_note = note\<rparr>"

definition add_line :: "string \<Rightarrow> string \<Rightarrow> int \<Rightarrow> rat \<Rightarrow> string \<Rightarrow> effort_ledger \<Rightarrow> effort_ledger" where
  "add_line stp role minutes cost note l = l\<lparr>el_lines := el_lines l @ [ledger_line stp role minutes cost note]\<rparr>"

definition total_minutes :: "effort_ledger \<Rightarrow> int" where
  "total_minutes l = sum_list (map ll_minutes (el_lines l))"

definition total_cost :: "effort_ledger \<Rightarrow> rat" where
  "total_cost l = round_dec 2 (sum_list (map ll_cost (el_lines l)))"

definition truck_rolls :: "effort_ledger \<Rightarrow> nat" where
  "truck_rolls l = length (filter (\<lambda>x. ends_with ''on site'' (ll_step x)) (el_lines l))"

definition elapsed_hours :: "effort_ledger \<Rightarrow> rat" where
  "elapsed_hours l = round_dec 2 (of_int (total_minutes l) / 60)"

subsection \<open>One visit\<close>

definition hour_key :: "string \<Rightarrow> string" where
  "hour_key crew = (if crew = ''clean'' then ''clean_boots_hour'' else ''dirty_boots_hour'')"

definition on_site_key :: "string \<Rightarrow> string" where
  "on_site_key crew = (if crew = ''clean'' then ''clean_boots_on_site'' else ''dirty_boots_on_site'')"

definition road_minutes_both_ways :: "travel \<Rightarrow> int" where
  "road_minutes_both_ways p = sum_list (map l_minutes (filter (\<lambda>l. l_kind l = Road) (tp_legs p))) * 2"

definition visit_lines :: "string \<Rightarrow> base_selection \<Rightarrow> string option \<Rightarrow> string \<Rightarrow> ledger_line list" where
  "visit_lines crew sel parts_cost_key label =
     (let boots = crew @ '' boots''; p = bs_plan sel; travel = tp_total p * 2;
          vehicle = of_int (road_minutes_both_ways p) * road_km_per_minute * rate ''vehicle_km'' in
      [ledger_line ''dispatch planning'' ''dispatcher'' (duration ''dispatch_planning'')
         (labour ''dispatcher_hour'' (duration ''dispatch_planning'')) (''staged from '' @ b_id (bs_base sel)),
       ledger_line ''travel'' boots travel (labour (hour_key crew) travel + vehicle)
         (int_str (tp_total p) @ '' min each way from '' @ b_name (bs_base sel))] @
      (if tp_ferry p then [ledger_line ''ferry'' boots 0 (rate ''ferry_round_trip'') ''vehicle and cargo slot''] else []) @
      (if \<not> tp_same_day p
       then [ledger_line ''overnight'' boots 0 (rate ''overnight_premium'') ''round trip plus on-site work exceeds one shift'']
       else []) @
      [ledger_line ((if label = [] then crew else label) @ '' boots on site'') boots (duration (on_site_key crew))
         (labour (hour_key crew) (duration (on_site_key crew))) []] @
      (case parts_cost_key of
         None \<Rightarrow> []
       | Some k \<Rightarrow> if k = [] then [] else [ledger_line ''parts'' ''inventory'' 0 (rate k) k]))"

definition visit ::
  "mathlib \<Rightarrow> string \<Rightarrow> string \<Rightarrow> string list \<Rightarrow> string list \<Rightarrow> string option \<Rightarrow> string \<Rightarrow>
   (rat \<times> rat) option \<Rightarrow> effort_ledger \<Rightarrow> effort_ledger res" where
  "visit M crew site_id skills parts parts_cost_key label destination l =
     bindR (site_by_id site_id) (\<lambda>site.
     bindR (select_base M site crew skills parts None destination) (\<lambda>sel.
     Inr (l\<lparr>el_lines := el_lines l @ visit_lines crew sel parts_cost_key label\<rparr>)))"

subsection \<open>The walk of an incident to its closure\<close>

definition dirty_domains :: "string list" where
  "dirty_domains = [''hfc_tap'', ''pon_odp'', ''plant'', ''shared_network'']"

definition crew_needed :: "string \<Rightarrow> string" where
  "crew_needed true_domain = (if List.member dirty_domains true_domain then ''dirty'' else ''clean'')"

definition wrong_crew :: "string \<Rightarrow> string" where
  "wrong_crew true_domain = (if crew_needed true_domain = ''dirty'' then ''clean'' else ''dirty'')"

definition parts_keys :: "(string \<times> string) list" where
  "parts_keys = [(''hfc_tap'', ''parts_tap''), (''pon_odp'', ''parts_odp''), (''drop'', ''parts_drop''), (''cpe'', ''parts_cpe'')]"

definition remote_domains :: "string list" where
  "remote_domains = [''cpe'', ''wifi_or_home'', ''provisioning'']"

definition noc_line :: "string \<Rightarrow> string \<Rightarrow> string \<Rightarrow> ledger_line" where
  "noc_line stp duration_key note =
     ledger_line stp ''noc analyst'' (duration duration_key) (labour ''noc_analyst_hour'' (duration duration_key)) note"

text \<open>Triage, analysis, the gate's review and the failed remote attempts.\<close>

definition opening_lines :: "bool \<Rightarrow> int \<Rightarrow> ledger_line list" where
  "opening_lines gate_raised remote_attempts_failed =
     [noc_line ''triage'' ''triage'' [], noc_line ''rca'' ''rca_cycle'' []] @
     (if gate_raised
      then [ledger_line ''gate review'' ''l2 sme'' (duration ''gate_review'')
              (labour ''l2_sme_hour'' (duration ''gate_review'')) ''human decision required before the lane opens'']
      else []) @
     concat (map (\<lambda>attempt.
       [noc_line ''remote attempt'' ''remote_attempt'' (''attempt '' @ nat_str (attempt + 1) @ '', unsuccessful''),
        noc_line ''rca'' ''rca_cycle'' ''new evidence required before retry'']) [0..<nat remote_attempts_failed])"

definition handover_lines :: "string \<Rightarrow> ledger_line list" where
  "handover_lines wrong =
     [ledger_line ''handover package'' (wrong @ '' boots'') (duration ''handover_package'')
        (labour (hour_key wrong) (duration ''handover_package'')) ''evidence and exclusions for the receiving crew'',
      ledger_line ''handover review'' ''dispatcher'' (duration ''handover_review'')
        (labour ''dispatcher_hour'' (duration ''handover_review'')) []]"

definition fixed_remotely :: "string \<Rightarrow> bool \<Rightarrow> int \<Rightarrow> bool" where
  "fixed_remotely true_domain misdispatch remote_attempts_failed \<longleftrightarrow>
     List.member remote_domains true_domain \<and> \<not> misdispatch \<and> remote_attempts_failed = 0"

definition add_lines :: "ledger_line list \<Rightarrow> effort_ledger \<Rightarrow> effort_ledger" where
  "add_lines ls l = l\<lparr>el_lines := el_lines l @ ls\<rparr>"

definition wasted_visit ::
  "mathlib \<Rightarrow> string \<Rightarrow> string \<Rightarrow> (rat \<times> rat) option \<Rightarrow> effort_ledger \<Rightarrow> effort_ledger res" where
  "wasted_visit M site_id true_domain destination l =
     (let wrong = wrong_crew true_domain in
      bindR (visit M wrong site_id [] [] None (wrong @ '' (wasted)'') destination l) (\<lambda>l1.
      Inr (add_lines (handover_lines wrong) l1)))"

definition repair ::
  "mathlib \<Rightarrow> string \<Rightarrow> string \<Rightarrow> int \<Rightarrow> bool \<Rightarrow> (rat \<times> rat) option \<Rightarrow> effort_ledger \<Rightarrow> effort_ledger res" where
  "repair M site_id true_domain remote_attempts_failed misdispatch destination l =
     (if fixed_remotely true_domain misdispatch remote_attempts_failed
      then Inr (add_lines [noc_line ''remote fix'' ''remote_attempt'' ''resolved without dispatch''] l)
      else visit M (crew_needed true_domain) site_id
             (if true_domain = ''pon_odp'' then [''fibre_splice''] else [])
             (if true_domain = ''pon_odp'' then [''splice_kit''] else [])
             (map_of parts_keys true_domain) [] destination l)"

definition simulate_resolution ::
  "(string \<Rightarrow> string) \<Rightarrow> mathlib \<Rightarrow> string \<Rightarrow> string \<Rightarrow> string \<Rightarrow> string \<Rightarrow> int \<Rightarrow> bool \<Rightarrow> bool \<Rightarrow>
   (rat \<times> rat) option \<Rightarrow> effort_ledger res" where
  "simulate_resolution D M incident_id site_id technology true_domain remote_attempts_failed gate_raised
       misdispatch destination =
     (let l0 = add_lines (opening_lines gate_raised remote_attempts_failed)
                 \<lparr>el_incident = incident_id, el_site = site_id, el_lines = []\<rparr> in
      bindR (if misdispatch then wasted_visit M site_id true_domain destination l0 else Inr l0) (\<lambda>l1.
      bindR (repair M site_id true_domain remote_attempts_failed misdispatch destination l1) (\<lambda>l2.
      bindR (blast_radius D true_domain site_id technology) (\<lambda>homes.
      Inr (add_lines [noc_line ''verification'' ''verification'' [],
             noc_line ''closure'' ''closure'' (''blast radius '' @ int_str homes @ '' household(s)'')] l2)))))"

subsection \<open>The cost of being wrong\<close>

record error_cost =
  ec_kind :: string
  ec_minutes :: int
  ec_cost :: rat
  ec_detail :: string

definition false_positive_cost :: error_cost where
  "false_positive_cost =
     \<lparr>ec_kind = ''false_positive'', ec_minutes = duration ''gate_review'' + duration ''dispatch_planning'',
      ec_cost = round_dec 2 (labour ''l2_sme_hour'' (duration ''gate_review'') +
        labour ''dispatcher_hour'' (duration ''dispatch_planning'')),
      ec_detail = ''L2 review plus re-planning; the SLA clock keeps running''\<rparr>"

definition false_negative_cost :: "mathlib \<Rightarrow> string \<Rightarrow> string \<Rightarrow> (rat \<times> rat) option \<Rightarrow> error_cost res" where
  "false_negative_cost M site_id true_domain destination =
     bindR (site_by_id site_id) (\<lambda>site.
     let wrong = wrong_crew true_domain in
     bindR (select_base M site wrong [] [] None destination) (\<lambda>sel.
     let p = bs_plan sel; travel = tp_total p * 2; on_site = duration (on_site_key wrong);
         minutes = duration ''dispatch_planning'' + travel + on_site + duration ''handover_package'' +
           duration ''handover_review'';
         cost = labour ''dispatcher_hour'' (duration ''dispatch_planning'') +
           labour (hour_key wrong) (travel + on_site + duration ''handover_package'') +
           of_int (road_minutes_both_ways p) * road_km_per_minute * rate ''vehicle_km'' +
           labour ''dispatcher_hour'' (duration ''handover_review'') +
           (if tp_ferry p then rate ''ferry_round_trip'' else 0) +
           (if \<not> tp_same_day p then rate ''overnight_premium'' else 0)
     in Inr \<lparr>ec_kind = ''false_negative'', ec_minutes = minutes, ec_cost = round_dec 2 cost,
          ec_detail = ''wasted '' @ wrong @ ''-boots visit to '' @ s_municipio site @ '' from '' @
            b_id (bs_base sel) @ '' plus handover; the correct visit still has to happen''\<rparr>))"

subsection \<open>The comparison of the gates\<close>

definition crew_for_domain :: "(string \<times> string) list" where
  "crew_for_domain = [(''cpe'', ''clean''), (''wifi_or_home'', ''clean''), (''premise_wiring'', ''clean''),
     (''drop'', ''clean''), (''provisioning'', ''remote''), (''unknown'', ''remote''), (''hfc_tap'', ''dirty''),
     (''pon_odp'', ''dirty''), (''plant'', ''dirty''), (''shared_network'', ''dirty'')]"

record case_result =
  cr_case :: string
  cr_rules :: string
  cr_truth :: string
  cr_gated :: bool
  cr_reason :: string
  cr_site :: string
  cr_model :: "string option"
  cr_model_correct :: "bool option"
  cr_cited :: "string list"
  cr_valid :: "string list"

definition rules_wrong :: "case_result \<Rightarrow> bool" where
  "rules_wrong c \<longleftrightarrow> cr_rules c \<noteq> cr_truth c"

definition crew_would_differ :: "case_result \<Rightarrow> bool" where
  "crew_would_differ c \<longleftrightarrow> map_of crew_for_domain (cr_rules c) \<noteq> map_of crew_for_domain (cr_truth c)"

record arm_report =
  ar_arm :: string
  ar_cases :: "case_result list"

definition how_many :: "('a \<Rightarrow> bool) \<Rightarrow> 'a list \<Rightarrow> nat" where
  "how_many P xs = length (filter P xs)"

text \<open>The share of the cases in \<open>xs\<close> with \<open>P\<close>, to three decimals; \<open>None\<close> without cases.\<close>

definition share :: "('a \<Rightarrow> bool) \<Rightarrow> 'a list \<Rightarrow> rat option" where
  "share P xs = (if xs = [] then None else Some (round_dec 3 (of_nat (how_many P xs) / of_nat (length xs))))"

definition gates :: "arm_report \<Rightarrow> nat" where
  "gates r = how_many cr_gated (ar_cases r)"

definition wrong_cases :: "arm_report \<Rightarrow> nat" where
  "wrong_cases r = how_many rules_wrong (ar_cases r)"

definition dissent_precision :: "arm_report \<Rightarrow> rat option" where
  "dissent_precision r = share rules_wrong (filter (\<lambda>c. cr_reason c = ''domain_disagreement'') (ar_cases r))"

definition gate_precision :: "arm_report \<Rightarrow> rat option" where
  "gate_precision r = share rules_wrong (filter cr_gated (ar_cases r))"

definition false_alarms :: "arm_report \<Rightarrow> nat" where
  "false_alarms r = how_many (\<lambda>c. cr_gated c \<and> \<not> rules_wrong c) (ar_cases r)"

definition dissent_recall :: "arm_report \<Rightarrow> rat option" where
  "dissent_recall r = share cr_gated (filter rules_wrong (ar_cases r))"

definition avoided_misdispatch :: "arm_report \<Rightarrow> nat" where
  "avoided_misdispatch r = how_many (\<lambda>c. rules_wrong c \<and> crew_would_differ c \<and> cr_gated c) (ar_cases r)"

definition missed_misdispatch :: "arm_report \<Rightarrow> nat" where
  "missed_misdispatch r = how_many (\<lambda>c. rules_wrong c \<and> crew_would_differ c \<and> \<not> cr_gated c) (ar_cases r)"

definition interruption_cost :: "arm_report \<Rightarrow> rat" where
  "interruption_cost r =
     (if ar_cases r = [] then 0 else round_dec 1 (100 * of_nat (gates r) / of_nat (length (ar_cases r))))"

definition model_domain_accuracy :: "arm_report \<Rightarrow> rat option" where
  "model_domain_accuracy r =
     share (\<lambda>c. cr_model c = Some (cr_truth c)) (filter (\<lambda>c. cr_model c \<noteq> None) (ar_cases r))"

definition citation_validity :: "arm_report \<Rightarrow> rat option" where
  "citation_validity r =
     (let cited = sum_list (map (length \<circ> cr_cited) (ar_cases r)) in
      if cited = 0 then None
      else Some (round_dec 3 (of_nat (sum_list (map (length \<circ> cr_valid) (ar_cases r))) / of_nat cited)))"

record cost_case =
  cc_gated :: bool
  cc_wrong :: bool
  cc_differ :: bool
  cc_site :: string
  cc_domain :: string

definition cost_cases :: "arm_report \<Rightarrow> cost_case list" where
  "cost_cases r = map (\<lambda>c. \<lparr>cc_gated = cr_gated c, cc_wrong = rules_wrong c, cc_differ = crew_would_differ c,
     cc_site = cr_site c, cc_domain = cr_truth c\<rparr>) (ar_cases r)"

record arm_cost =
  ac_arm :: string
  ac_false_positives :: nat
  ac_false_negatives :: nat
  ac_fp_minutes :: int
  ac_fp_cost :: rat
  ac_fn_minutes :: int
  ac_fn_cost :: rat

definition arm_total_minutes :: "arm_cost \<Rightarrow> int" where
  "arm_total_minutes a = ac_fp_minutes a + ac_fn_minutes a"

definition arm_total_cost :: "arm_cost \<Rightarrow> rat" where
  "arm_total_cost a = round_dec 2 (ac_fp_cost a + ac_fn_cost a)"

definition bill_case :: "mathlib \<Rightarrow> cost_case \<Rightarrow> arm_cost \<Rightarrow> arm_cost res" where
  "bill_case M c a =
     (if cc_gated c \<and> \<not> cc_wrong c
      then Inr (a\<lparr>ac_false_positives := ac_false_positives a + 1,
                 ac_fp_minutes := ac_fp_minutes a + ec_minutes false_positive_cost,
                 ac_fp_cost := ac_fp_cost a + ec_cost false_positive_cost\<rparr>)
      else if cc_wrong c \<and> \<not> cc_gated c \<and> cc_differ c
      then bindR (false_negative_cost M (cc_site c) (cc_domain c) None) (\<lambda>err.
        Inr (a\<lparr>ac_false_negatives := ac_false_negatives a + 1,
               ac_fn_minutes := ac_fn_minutes a + ec_minutes err, ac_fn_cost := ac_fn_cost a + ec_cost err\<rparr>))
      else Inr a)"

fun cost_loop :: "mathlib \<Rightarrow> cost_case list \<Rightarrow> arm_cost \<Rightarrow> arm_cost res" where
  "cost_loop M [] a = Inr a"
| "cost_loop M (c # cs) a = bindR (bill_case M c a) (cost_loop M cs)"

definition cost_arm :: "mathlib \<Rightarrow> string \<Rightarrow> cost_case list \<Rightarrow> arm_cost res" where
  "cost_arm M arm cases =
     bindR (cost_loop M cases \<lparr>ac_arm = arm, ac_false_positives = 0, ac_false_negatives = 0, ac_fp_minutes = 0,
              ac_fp_cost = 0, ac_fn_minutes = 0, ac_fn_cost = 0\<rparr>) (\<lambda>a.
     Inr (a\<lparr>ac_fp_cost := round_dec 2 (ac_fp_cost a), ac_fn_cost := round_dec 2 (ac_fn_cost a)\<rparr>))"

end
