(* ===== verification/EffortLaws.thy ===== *)
theory EffortLaws
  imports Effort
begin

text \<open>
  Laws of the effort ledger: a misdispatch adds to the ledger what \<open>false_negative_cost\<close> says,
  unless the fault could have been fixed remotely, the price of a missed error against a false
  alarm, and the agreement of the cost account with the counts of the comparison.
\<close>

lemma round_dec_error: "\<bar>round_dec 2 r - r\<bar> \<le> 5/1000"
proof -
  have "round_dec 2 r - r \<le> 5/1000" "r - round_dec 2 r \<le> 5/1000"
    using round_he_bounds [of "r * 100"] by (simp_all add: round_dec_def field_simps)
  then show ?thesis by linarith
qed

lemma ferry_terminals_known:
  "list_all (\<lambda>s. case s_ferry_from s of None \<Rightarrow> True | Some e \<Rightarrow> is_ok (site_by_id e)) sites"
  by code_simp

lemma travel_plan_total: "s \<in> set sites \<Longrightarrow> \<exists>p. travel_plan M b s sh os d = Inr p"
  using ferry_terminals_known
  by (auto simp: travel_plan_def island_legs_def bindR_eq_Inr Let_def list_all_iff is_ok_iff split: option.splits)

lemma select_base_total:
  assumes "site_by_id i = Inr s" "viable crew skills parts b" "b \<in> set dispatch_bases"
  shows "\<exists>sel. select_base M s crew skills parts None d = Inr sel"
proof -
  let ?c = "filter (viable crew skills parts) dispatch_bases"
  have "?c \<noteq> []" using assms(2,3) by (auto simp: filter_empty_conv)
  moreover obtain ps where "mapR (\<lambda>b. bindR (travel_plan M b s 480 90 d) (\<lambda>p. Inr (p, b))) ?c = Inr ps"
    using mapR_total [of ?c "\<lambda>b. bindR (travel_plan M b s 480 90 d) (\<lambda>p. Inr (p, b))"]
      travel_plan_total [of s] site_by_id_Inr [OF assms(1)]
    by (fastforce simp: bindR_eq_Inr)
  ultimately show ?thesis by (simp add: select_base_def base_pool_def Let_def)
qed

text \<open>The first base serves every crew, skill and part the ledger asks for.\<close>

lemma first_base_serves:
  "crew = ''clean'' \<or> crew = ''dirty'' \<Longrightarrow> viable crew [] [] (hd dispatch_bases)"
  "viable ''dirty'' [''fibre_splice''] [''splice_kit''] (hd dispatch_bases)"
  by (auto simp: viable_def dispatch_bases_def subset_of_def plant_skills_def)

lemma first_base: "hd dispatch_bases \<in> set dispatch_bases"
  by (simp add: dispatch_bases_def)

lemma crew_cases: "wrong_crew d = ''clean'' \<or> wrong_crew d = ''dirty''"
  by (simp add: wrong_crew_def)

subsection \<open>A wasted visit\<close>

lemma add_lines_simps [simp]:
  "el_lines (add_lines ls l) = el_lines l @ ls" "el_incident (add_lines ls l) = el_incident l"
  "el_site (add_lines ls l) = el_site l"
  by (simp_all add: add_lines_def)

lemma visit_eq_Inr:
  "visit M crew i skills parts k label d l = Inr l' \<longleftrightarrow>
     (\<exists>s sel. site_by_id i = Inr s \<and> select_base M s crew skills parts None d = Inr sel \<and>
        l' = add_lines (visit_lines crew sel k label) l)"
  by (auto simp: visit_def bindR_eq_Inr add_lines_def)

definition wasted_lines :: "string \<Rightarrow> base_selection \<Rightarrow> ledger_line list" where
  "wasted_lines d sel =
     visit_lines (wrong_crew d) sel None (wrong_crew d @ '' (wasted)'') @ handover_lines (wrong_crew d)"

lemma wasted_visit_eq_Inr:
  "wasted_visit M i d dest l = Inr l' \<longleftrightarrow>
     (\<exists>s sel. site_by_id i = Inr s \<and> select_base M s (wrong_crew d) [] [] None dest = Inr sel \<and>
        l' = add_lines (wasted_lines d sel) l)"
  by (auto simp: wasted_visit_def Let_def bindR_eq_Inr visit_eq_Inr wasted_lines_def add_lines_def)

lemmas figures = duration_def durations_def rate_def rates_def labour_def hour_key_def on_site_key_def

lemma ledger_line_simps [simp]:
  "ll_step (ledger_line s r m c n) = s" "ll_minutes (ledger_line s r m c n) = m"
  "ll_cost (ledger_line s r m c n) = round_dec 2 c"
  by (simp_all add: ledger_line_def)

lemma round_whole [simp]: "round_dec 2 (of_int i) = of_int i" "round_dec 2 (numeral n) = numeral n" "round_dec 2 0 = 0"
proof -
  show whole: "round_dec 2 (of_int i) = of_int i" for i
    using round_he_of_int [of "i * 100"] by (simp add: round_dec_def)
  show "round_dec 2 (numeral n) = numeral n" "round_dec 2 0 = 0"
    using whole [of "numeral n"] whole [of 0] by simp_all
qed

lemma wasted_lines_sums:
  assumes "site_by_id i = Inr s" "select_base M s (wrong_crew d) [] [] None dest = Inr sel"
  obtains e where "false_negative_cost M i d dest = Inr e"
    "sum_list (map ll_minutes (wasted_lines d sel)) = ec_minutes e"
    "\<bar>sum_list (map ll_cost (wasted_lines d sel)) - ec_cost e\<bar> \<le> 3/100"
    "length (filter (\<lambda>x. ends_with ''on site'' (ll_step x)) (wasted_lines d sel)) = 1"
proof -
  let ?p = "bs_plan sel" and ?w = "wrong_crew d"
  let ?travel = "tp_total ?p * 2"
  let ?vehicle = "of_int (road_minutes_both_ways ?p) * road_km_per_minute * rate ''vehicle_km''"
  let ?extra = "(if tp_ferry ?p then 180 else 0) + (if \<not> tp_same_day ?p then 220 else 0) :: rat"
  let ?a = "labour ''dispatcher_hour'' (duration ''dispatch_planning'')"
  let ?b = "labour (hour_key ?w) ?travel + ?vehicle"
  let ?c = "labour (hour_key ?w) (duration (on_site_key ?w))"
  let ?d = "labour (hour_key ?w) (duration ''handover_package'')"
  let ?e = "labour ''dispatcher_hour'' (duration ''handover_review'')"
  obtain e where e: "false_negative_cost M i d dest = Inr e"
    "ec_minutes e = duration ''dispatch_planning'' + ?travel + duration (on_site_key ?w) +
       duration ''handover_package'' + duration ''handover_review''"
    "ec_cost e = round_dec 2 (?a + ?b + ?c + ?d + ?e + ?extra)"
    using assms by (simp add: false_negative_cost_def Let_def labour_def rate_def rates_def field_simps)
  have minutes: "sum_list (map ll_minutes (wasted_lines d sel)) = ec_minutes e"
    by (simp add: e(2) wasted_lines_def visit_lines_def handover_lines_def Let_def)
  have "sum_list (map ll_cost (wasted_lines d sel)) =
      round_dec 2 ?a + round_dec 2 ?b + round_dec 2 ?c + round_dec 2 ?d + round_dec 2 ?e + ?extra"
    by (simp add: wasted_lines_def visit_lines_def handover_lines_def Let_def rate_def rates_def)
  moreover note round_dec_error [of ?a] round_dec_error [of ?b] round_dec_error [of ?c] round_dec_error [of ?d]
    round_dec_error [of ?e] round_dec_error [of "?a + ?b + ?c + ?d + ?e + ?extra"]
  ultimately have cost: "\<bar>sum_list (map ll_cost (wasted_lines d sel)) - ec_cost e\<bar> \<le> 3/100"
    unfolding e(3) by linarith
  have "length (filter (\<lambda>x. ends_with ''on site'' (ll_step x)) (wasted_lines d sel)) = 1"
    using crew_cases [of d]
    by (elim disjE) (simp_all add: wasted_lines_def visit_lines_def handover_lines_def Let_def ends_with_def)
  with e(1) minutes cost show thesis by (rule that)
qed

lemma chosen_plan_floor: "select_base M s crew skills parts bases d = Inr sel \<Longrightarrow> 14 \<le> tp_total (bs_plan sel)"
  using select_base_Inr travel_plan_floor by blast

lemma repair_cases:
  assumes "repair M i d n mis dest l = Inr l'"
  obtains rs where "l' = add_lines rs l" "fixed_remotely d mis n"
    "rs = [noc_line ''remote fix'' ''remote_attempt'' ''resolved without dispatch'']"
  | sel where "\<not> fixed_remotely d mis n" "14 \<le> tp_total (bs_plan sel)" "\<And>l2 mis. \<not> fixed_remotely d mis n \<Longrightarrow>
        repair M i d n mis dest l2 = Inr (add_lines (visit_lines (crew_needed d) sel (map_of parts_keys d) []) l2)"
      "l' = add_lines (visit_lines (crew_needed d) sel (map_of parts_keys d) []) l"
proof (cases "fixed_remotely d mis n")
  case True
  with assms show thesis by (intro that(1)) (auto simp: repair_def)
next
  case False
  with assms obtain s sel where sel: "site_by_id i = Inr s"
    "select_base M s (crew_needed d) (if d = ''pon_odp'' then [''fibre_splice''] else [])
       (if d = ''pon_odp'' then [''splice_kit''] else []) None dest = Inr sel"
    "l' = add_lines (visit_lines (crew_needed d) sel (map_of parts_keys d) []) l"
    unfolding repair_def by (auto simp only: if_False visit_eq_Inr)
  show thesis
    using False chosen_plan_floor [OF sel(2)] sel
    by (intro that(2) [of sel]) (simp_all add: repair_def visit_eq_Inr)
qed

definition closing_lines :: "int \<Rightarrow> ledger_line list" where
  "closing_lines homes =
     [noc_line ''verification'' ''verification'' [],
      noc_line ''closure'' ''closure'' (''blast radius '' @ int_str homes @ '' household(s)'')]"

definition opened :: "string \<Rightarrow> string \<Rightarrow> bool \<Rightarrow> int \<Rightarrow> effort_ledger" where
  "opened incident_id site_id gate n =
     add_lines (opening_lines gate n) \<lparr>el_incident = incident_id, el_site = site_id, el_lines = []\<rparr>"

lemma simulate_eq_Inr:
  "simulate_resolution D M inc i tech d n gate mis dest = Inr l \<longleftrightarrow>
     (\<exists>l1 l2 homes. (if mis then wasted_visit M i d dest (opened inc i gate n) else Inr (opened inc i gate n)) = Inr l1 \<and>
        repair M i d n mis dest l1 = Inr l2 \<and> blast_radius D d i tech = Inr homes \<and>
        l = add_lines (closing_lines homes) l2)"
  by (auto simp: simulate_resolution_def Let_def bindR_eq_Inr closing_lines_def opened_def add_lines_def)

lemma visit_lines_rolls:
  "crew = ''clean'' \<or> crew = ''dirty'' \<Longrightarrow>
   length (filter (\<lambda>x. ends_with ''on site'' (ll_step x)) (visit_lines crew sel k [])) = 1"
  by (elim disjE) (simp_all add: visit_lines_def Let_def ends_with_def split: option.split)

lemma visit_lines_minutes:
  "crew = ''clean'' \<or> crew = ''dirty'' \<Longrightarrow> 14 \<le> tp_total (bs_plan sel) \<Longrightarrow>
   126 \<le> sum_list (map ll_minutes (visit_lines crew sel k []))"
  by (elim disjE) (simp_all add: visit_lines_def Let_def figures split: option.split)

lemma crew_needed_cases: "crew_needed d = ''clean'' \<or> crew_needed d = ''dirty''"
  by (simp add: crew_needed_def)

definition rolls_of :: "ledger_line list \<Rightarrow> nat" where
  "rolls_of ls = length (filter (\<lambda>x. ends_with ''on site'' (ll_step x)) ls)"

lemma rolls_of_append [simp]: "rolls_of (xs @ ys) = rolls_of xs + rolls_of ys"
  by (simp add: rolls_of_def)

lemma truck_rolls_eq: "truck_rolls l = rolls_of (el_lines l)"
  by (simp add: truck_rolls_def rolls_of_def)

lemma no_rolls [simp]: "rolls_of (closing_lines h) = 0" "rolls_of (noc_line ''remote fix'' k m # ls) = rolls_of ls"
  by (simp_all add: rolls_of_def closing_lines_def noc_line_def ends_with_def)

lemma opening_no_rolls [simp]: "rolls_of (opening_lines g n) = 0"
  by (simp add: rolls_of_def opening_lines_def noc_line_def ends_with_def filter_concat o_def)

lemma totals_diff:
  assumes "el_lines l1 = xs @ ws @ ys" "el_lines l0 = xs @ ys"
  shows "total_minutes l1 = total_minutes l0 + sum_list (map ll_minutes ws)"
    "\<bar>total_cost l1 - total_cost l0 - sum_list (map ll_cost ws)\<bar> \<le> 1/100"
    "truck_rolls l1 = truck_rolls l0 + rolls_of ws"
proof -
  show "total_minutes l1 = total_minutes l0 + sum_list (map ll_minutes ws)"
    using assms by (simp add: total_minutes_def)
  show "truck_rolls l1 = truck_rolls l0 + rolls_of ws"
    using assms by (simp add: truck_rolls_eq)
  show "\<bar>total_cost l1 - total_cost l0 - sum_list (map ll_cost ws)\<bar> \<le> 1/100"
  proof -
    let ?s1 = "sum_list (map ll_cost (el_lines l1))" and ?s0 = "sum_list (map ll_cost (el_lines l0))"
    have "?s1 = ?s0 + sum_list (map ll_cost ws)" by (simp add: assms)
    with round_dec_error [of ?s1] round_dec_error [of ?s0] show ?thesis
      unfolding total_cost_def by linarith
  qed
qed

text \<open>
  C32. Sending the wrong crew adds to the ledger of an incident exactly the minutes of
  the cost of a missed error, its cost up to rounding, and one truck roll, when the right crew has
  to drive anyway. When the fault could have been fixed remotely, the ledger grows by a second
  truck roll instead of the remote fix, which the cost of a missed error leaves out.
\<close>

theorem misdispatch_adds_wasted_visit:
  assumes "simulate_resolution D M inc i tech d n gate False dest = Inr l0"
    and "simulate_resolution D M inc i tech d n gate True dest = Inr l1"
  shows "\<exists>e. false_negative_cost M i d dest = Inr e \<and>
     (if fixed_remotely d False n
      then truck_rolls l0 = 0 \<and> truck_rolls l1 = 2 \<and> total_minutes l0 + ec_minutes e + 101 \<le> total_minutes l1
      else truck_rolls l1 = truck_rolls l0 + 1 \<and> total_minutes l1 = total_minutes l0 + ec_minutes e \<and>
           \<bar>total_cost l1 - total_cost l0 - ec_cost e\<bar> \<le> 4/100)"
proof -
  obtain l0a h where r0: "repair M i d n False dest (opened inc i gate n) = Inr l0a"
    "blast_radius D d i tech = Inr h" "l0 = add_lines (closing_lines h) l0a"
    using assms(1) by (auto simp: simulate_eq_Inr)
  obtain lw l1a where w: "wasted_visit M i d dest (opened inc i gate n) = Inr lw"
    "repair M i d n True dest lw = Inr l1a" "l1 = add_lines (closing_lines h) l1a"
    using assms(2) r0(2) by (auto simp: simulate_eq_Inr)
  obtain s sel where sel: "site_by_id i = Inr s" "select_base M s (wrong_crew d) [] [] None dest = Inr sel"
    "lw = add_lines (wasted_lines d sel) (opened inc i gate n)"
    using w(1) by (auto simp: wasted_visit_eq_Inr)
  obtain e where e: "false_negative_cost M i d dest = Inr e"
    "sum_list (map ll_minutes (wasted_lines d sel)) = ec_minutes e"
    "\<bar>sum_list (map ll_cost (wasted_lines d sel)) - ec_cost e\<bar> \<le> 3/100"
    "rolls_of (wasted_lines d sel) = 1"
    using wasted_lines_sums [OF sel(1,2)] unfolding rolls_of_def by metis
  have lines_op: "el_lines (opened inc i gate n) = opening_lines gate n" by (simp add: opened_def)
  have not_fixed: "\<not> fixed_remotely d True n" by (simp add: fixed_remotely_def)
  show ?thesis
  proof (cases "fixed_remotely d False n")
    case False
    from r0(1) obtain sel' where
      rep: "\<And>l2 mis. \<not> fixed_remotely d mis n \<Longrightarrow>
        repair M i d n mis dest l2 = Inr (add_lines (visit_lines (crew_needed d) sel' (map_of parts_keys d) []) l2)"
      by (rule repair_cases) (use False in blast)+
    let ?v = "visit_lines (crew_needed d) sel' (map_of parts_keys d) []"
    have "el_lines l1 = opening_lines gate n @ wasted_lines d sel @ ?v @ closing_lines h"
      using w(2) sel(3) lines_op rep [OF not_fixed, of lw] w(3) by auto
    moreover have "el_lines l0 = opening_lines gate n @ ?v @ closing_lines h"
      using r0(1) lines_op rep [OF False, of "opened inc i gate n"] r0(3) by auto
    ultimately have diff: "total_minutes l1 = total_minutes l0 + sum_list (map ll_minutes (wasted_lines d sel))"
      "\<bar>total_cost l1 - total_cost l0 - sum_list (map ll_cost (wasted_lines d sel))\<bar> \<le> 1/100"
      "truck_rolls l1 = truck_rolls l0 + rolls_of (wasted_lines d sel)"
      by (rule totals_diff)+
    have "\<bar>total_cost l1 - total_cost l0 - ec_cost e\<bar> \<le> 4/100" using diff(2) e(3) by linarith
    with e diff False show ?thesis by auto
  next
    case True
    obtain sel' where v: "l1a = add_lines (visit_lines (crew_needed d) sel' (map_of parts_keys d) []) lw"
      "14 \<le> tp_total (bs_plan sel')"
      using w(2) by (rule repair_cases) (use not_fixed in blast)+
    let ?v = "visit_lines (crew_needed d) sel' (map_of parts_keys d) []"
    have l1: "el_lines l1 = opening_lines gate n @ wasted_lines d sel @ ?v @ closing_lines h"
      using w(3) v(1) sel(3) lines_op by auto
    have l0: "el_lines l0 = opening_lines gate n @ [noc_line ''remote fix'' ''remote_attempt'' ''resolved without dispatch''] @ closing_lines h"
      using r0(1,3) lines_op True by (auto simp: repair_def)
    have "rolls_of ?v = 1" using visit_lines_rolls [OF crew_needed_cases] by (simp add: rolls_of_def)
    then have "truck_rolls l1 = 2" "truck_rolls l0 = 0"
      using e(4) by (simp_all add: truck_rolls_eq l1 l0)
    moreover have "126 \<le> sum_list (map ll_minutes ?v)"
      using visit_lines_minutes [OF crew_needed_cases v(2)] .
    then have "total_minutes l0 + ec_minutes e + 101 \<le> total_minutes l1"
      using e(2) by (simp add: total_minutes_def l1 l0 noc_line_def duration_def durations_def)
    ultimately show ?thesis using e(1) True by auto
  qed
qed

text \<open>Every walk of an incident of a known site is priced.\<close>

lemma simulate_total:
  assumes "is_ok (site_by_id i)"
  shows "is_ok (simulate_resolution D M inc i tech d n gate mis dest)"
proof -
  obtain s where s: "site_by_id i = Inr s" using assms by (auto simp: is_ok_iff)
  obtain lw where "(if mis then wasted_visit M i d dest (opened inc i gate n) else Inr (opened inc i gate n)) = Inr lw"
    using select_base_total [OF s first_base_serves(1) [OF crew_cases] first_base] s
    by (fastforce simp: wasted_visit_eq_Inr)
  moreover have "\<exists>sel. select_base M s (crew_needed d) (if d = ''pon_odp'' then [''fibre_splice''] else [])
      (if d = ''pon_odp'' then [''splice_kit''] else []) None dest = Inr sel"
    using select_base_total [OF s first_base_serves(1) [OF crew_needed_cases [of d]] first_base, of M dest]
      select_base_total [OF s first_base_serves(2) first_base, of M dest]
    by (cases "d = ''pon_odp''") (auto simp: crew_needed_def dirty_domains_def)
  then have "\<exists>l2. repair M i d n mis dest lw = Inr l2"
    using s by (auto simp: repair_def visit_eq_Inr)
  ultimately show ?thesis
    using blast_radius_eq [OF s, of D d tech] by (auto simp: is_ok_iff simulate_eq_Inr)
qed

lemma false_negative_total:
  assumes "is_ok (site_by_id i)"
  shows "is_ok (false_negative_cost M i d dest)"
proof -
  obtain s where s: "site_by_id i = Inr s" using assms by (auto simp: is_ok_iff)
  obtain sel where "select_base M s (wrong_crew d) [] [] None dest = Inr sel"
    using select_base_total [OF s first_base_serves(1) [OF crew_cases] first_base] by blast
  with s show ?thesis by (auto simp: is_ok_iff false_negative_cost_def Let_def)
qed

lemma cost_loop_total:
  "list_all (\<lambda>c. is_ok (site_by_id (cc_site c))) cs \<Longrightarrow> is_ok (cost_loop M cs a)"
proof (induction cs arbitrary: a)
  case (Cons c cs)
  have "\<exists>a'. bill_case M c a = Inr a'"
    using Cons.prems false_negative_total [of "cc_site c" M "cc_domain c" None]
    by (auto simp: bill_case_def is_ok_iff bindR_eq_Inr)
  with Cons.IH Cons.prems show ?case by (auto simp: is_ok_iff bindR_eq_Inr)
qed simp

subsection \<open>False alarms and missed errors\<close>

lemma chosen_plan_roads:
  assumes "select_base M s crew skills parts bases d = Inr sel"
  shows "28 \<le> road_minutes_both_ways (bs_plan sel) \<or> 0 \<le> road_minutes_both_ways (bs_plan sel) \<and> tp_ferry (bs_plan sel)"
proof -
  have "travel_plan M (bs_base sel) s 480 90 d = Inr (bs_plan sel)"
    using select_base_Inr [OF assms] by simp
  then show ?thesis
    using min_one_way_positive [of "s_archetype s"]
    by (elim travel_plan_cases) (auto simp: road_minutes_both_ways_def road_leg_minutes le_max_iff_disj)
qed

lemma false_positive_figures:
  "ec_minutes false_positive_cost = 20" "ec_cost false_positive_cost = 1967/100"
  by code_simp+

lemma false_negative_floor:
  assumes "false_negative_cost M i d dest = Inr e"
  shows "8 * (1967/100) \<le> ec_cost e" "166 \<le> ec_minutes e"
proof -
  obtain s sel where sel: "site_by_id i = Inr s" "select_base M s (wrong_crew d) [] [] None dest = Inr sel"
    using assms by (auto simp: false_negative_cost_def Let_def bindR_eq_Inr)
  note floor = chosen_plan_floor [OF sel(2)] chosen_plan_roads [OF sel(2)]
  show "166 \<le> ec_minutes e"
    using assms sel floor(1) crew_cases [of d]
    by (elim disjE) (auto simp: false_negative_cost_def Let_def figures)
  let ?p = "bs_plan sel"
  let ?raw = "labour ''dispatcher_hour'' (duration ''dispatch_planning'') +
     labour (hour_key (wrong_crew d)) (tp_total ?p * 2 + duration (on_site_key (wrong_crew d)) + duration ''handover_package'') +
     of_int (road_minutes_both_ways ?p) * road_km_per_minute * rate ''vehicle_km'' +
     labour ''dispatcher_hour'' (duration ''handover_review'') +
     (if tp_ferry ?p then rate ''ferry_round_trip'' else 0) +
     (if \<not> tp_same_day ?p then rate ''overnight_premium'' else 0)"
  have e: "ec_cost e = round_dec 2 ?raw"
    using assms sel by (auto simp: false_negative_cost_def Let_def)
  have minutes: "14 \<le> (of_int (tp_total ?p) :: rat)" using floor(1) by simp
  have roads: "28 \<le> (of_int (road_minutes_both_ways ?p) :: rat) \<or>
      0 \<le> (of_int (road_minutes_both_ways ?p) :: rat) \<and> tp_ferry ?p"
    using floor(2) by simp
  have "16285/100 \<le> ?raw"
    using crew_cases [of d] minutes roads
    by (elim disjE) (auto simp: figures road_km_per_minute_def field_simps)
  with round_dec_error [of ?raw] show "8 * (1967/100) \<le> ec_cost e" unfolding e by linarith
qed

lemma cost_loop_counts:
  assumes "cost_loop M cs a = Inr b"
  shows "ac_false_positives b = ac_false_positives a + how_many (\<lambda>c. cc_gated c \<and> \<not> cc_wrong c) cs"
    and "ac_false_negatives b = ac_false_negatives a + how_many (\<lambda>c. cc_wrong c \<and> \<not> cc_gated c \<and> cc_differ c) cs"
    and "ac_fp_cost b = ac_fp_cost a + 1967/100 * of_nat (how_many (\<lambda>c. cc_gated c \<and> \<not> cc_wrong c) cs)"
    and "ac_fn_cost a + 8 * (1967/100) * of_nat (how_many (\<lambda>c. cc_wrong c \<and> \<not> cc_gated c \<and> cc_differ c) cs) \<le> ac_fn_cost b"
proof -
  let ?p = "\<lambda>c. cc_gated c \<and> \<not> cc_wrong c" and ?n = "\<lambda>c. cc_wrong c \<and> \<not> cc_gated c \<and> cc_differ c"
  have "ac_false_positives b = ac_false_positives a + how_many ?p cs \<and>
      ac_false_negatives b = ac_false_negatives a + how_many ?n cs \<and>
      ac_fp_cost b = ac_fp_cost a + 1967/100 * of_nat (how_many ?p cs) \<and>
      ac_fn_cost a + 8 * (1967/100) * of_nat (how_many ?n cs) \<le> ac_fn_cost b"
    using assms
  proof (induction cs arbitrary: a)
    case (Cons c cs)
    obtain a' where a': "bill_case M c a = Inr a'" "cost_loop M cs a' = Inr b"
      using Cons.prems by (auto simp: bindR_eq_Inr)
    have step: "ac_false_positives a' = ac_false_positives a + (if ?p c then 1 else 0)"
      "ac_false_negatives a' = ac_false_negatives a + (if ?n c then 1 else 0)"
      "ac_fp_cost a' = ac_fp_cost a + (if ?p c then 1967/100 else 0)"
      "ac_fn_cost a + (if ?n c then 8 * (1967/100) else 0) \<le> ac_fn_cost a'"
      using a'(1) false_negative_floor
      by (auto simp: bill_case_def bindR_eq_Inr false_positive_figures split: if_splits)
    have split: "how_many P (c # cs) = (if P c then 1 else 0) + how_many P cs" for P :: "cost_case \<Rightarrow> bool"
      by (simp add: how_many_def)
    from Cons.IH [OF a'(2)] step show ?case
      unfolding split by (auto simp: field_simps)
  qed (simp add: how_many_def)
  then show "ac_false_positives b = ac_false_positives a + how_many ?p cs"
    "ac_false_negatives b = ac_false_negatives a + how_many ?n cs"
    "ac_fp_cost b = ac_fp_cost a + 1967/100 * of_nat (how_many ?p cs)"
    "ac_fn_cost a + 8 * (1967/100) * of_nat (how_many ?n cs) \<le> ac_fn_cost b" by simp_all
qed

lemma how_many_map: "how_many P (map f xs) = how_many (P \<circ> f) xs"
  by (simp add: how_many_def filter_map)

lemma round_hundredths [simp]: "round_dec 2 (of_int k / 100) = of_int k / 100"
  by (simp add: round_dec_def)

text \<open>
  The cost account of an arm counts what its report counts: as many false positives as false
  alarms and as many false negatives as missed misdispatches. Every false alarm is billed the
  same; a missed misdispatch is never billed less than eight false alarms, so an arm whose gates
  catch one more of them may raise eight false alarms for it.
\<close>

theorem cost_account_matches_report:
  assumes "cost_arm M arm (cost_cases r) = Inr a"
  shows "ac_false_positives a = false_alarms r \<and> ac_false_negatives a = missed_misdispatch r \<and>
     ac_fp_cost a = of_nat (false_alarms r) * ec_cost false_positive_cost \<and>
     8 * of_nat (missed_misdispatch r) * ec_cost false_positive_cost \<le> ac_fn_cost a"
proof -
  let ?a0 = "\<lparr>ac_arm = arm, ac_false_positives = 0, ac_false_negatives = 0, ac_fp_minutes = 0,
     ac_fp_cost = 0, ac_fn_minutes = 0, ac_fn_cost = 0\<rparr> :: arm_cost"
  obtain b where b: "cost_loop M (cost_cases r) ?a0 = Inr b"
    "a = b\<lparr>ac_fp_cost := round_dec 2 (ac_fp_cost b), ac_fn_cost := round_dec 2 (ac_fn_cost b)\<rparr>"
    using assms by (auto simp: cost_arm_def bindR_eq_Inr)
  have counts: "how_many (\<lambda>c. cc_gated c \<and> \<not> cc_wrong c) (cost_cases r) = false_alarms r"
    "how_many (\<lambda>c. cc_wrong c \<and> \<not> cc_gated c \<and> cc_differ c) (cost_cases r) = missed_misdispatch r"
    by (auto simp: cost_cases_def how_many_map false_alarms_def missed_misdispatch_def how_many_def o_def
        intro: arg_cong [where f = length] filter_cong)
  note loop = cost_loop_counts [OF b(1), unfolded counts]
  have fp: "ac_fp_cost b = of_int (1967 * int (false_alarms r)) / 100"
    using loop(3) by simp
  have "8 * (1967/100) * of_nat (missed_misdispatch r) = (of_int (8 * 1967 * int (missed_misdispatch r)) / 100 :: rat)"
    by simp
  then have "round_dec 2 (8 * (1967/100) * of_nat (missed_misdispatch r)) = 8 * (1967/100) * of_nat (missed_misdispatch r)"
    by (metis round_hundredths)
  moreover have "round_dec 2 (8 * (1967/100) * of_nat (missed_misdispatch r)) \<le> round_dec 2 (ac_fn_cost b)"
    using loop(4) by (intro round_dec_mono) simp
  ultimately have "8 * (1967/100) * of_nat (missed_misdispatch r) \<le> ac_fn_cost a" by (simp add: b(2))
  moreover have "ac_fp_cost a = of_nat (false_alarms r) * (1967/100)"
    unfolding b(2) by (simp only: fp round_hundredths arm_cost.simps) simp
  ultimately show ?thesis using loop(1,2) b(2) by (simp add: false_positive_figures mult.commute mult.left_commute)
qed

text \<open>
  The crew billed for a missed error follows from the true domain alone. When the rules send a
  clean crew to a fault of the provisioning, the cost of a dirty crew is charged.
\<close>

lemma billed_crew_is_not_the_one_sent:
  "\<exists>c. rules_wrong c \<and> crew_would_differ c \<and> map_of crew_for_domain (cr_rules c) = Some ''clean'' \<and>
     wrong_crew (cr_truth c) = ''dirty''"
  by (rule exI [of _ "\<lparr>cr_case = ''c'', cr_rules = ''cpe'', cr_truth = ''provisioning'', cr_gated = False, cr_reason = [],
     cr_site = ''PR-SJU'', cr_model = None, cr_model_correct = None, cr_cited = [], cr_valid = []\<rparr>"])
    (simp add: rules_wrong_def crew_would_differ_def crew_for_domain_def wrong_crew_def crew_needed_def dirty_domains_def)

subsection \<open>Examples\<close>

definition demo_report :: arm_report where
  "demo_report = \<lparr>ar_arm = ''rules'', ar_cases =
     [\<lparr>cr_case = ''c1'', cr_rules = ''cpe'', cr_truth = ''hfc_tap'', cr_gated = False, cr_reason = [],
        cr_site = ''PR-VQS'', cr_model = None, cr_model_correct = None, cr_cited = [], cr_valid = []\<rparr>,
      \<lparr>cr_case = ''c2'', cr_rules = ''drop'', cr_truth = ''drop'', cr_gated = True, cr_reason = ''low_confidence'',
        cr_site = ''PR-SJU'', cr_model = None, cr_model_correct = None, cr_cited = [], cr_valid = []\<rparr>]\<rparr>"

lemma demo_account: "is_ok (cost_arm flat_mathlib ''rules'' (cost_cases demo_report))"
proof -
  have "is_ok (cost_loop flat_mathlib (cost_cases demo_report) a)" for a
    by (rule cost_loop_total) code_simp
  then show ?thesis by (auto simp: cost_arm_def is_ok_iff bindR_eq_Inr)
qed

theorem cost_account_matches_report_witness:
  "\<exists>a. cost_arm flat_mathlib ''rules'' (cost_cases demo_report) = Inr a \<and>
     ac_false_positives a = 1 \<and> ac_false_negatives a = 1"
proof -
  obtain a where a: "cost_arm flat_mathlib ''rules'' (cost_cases demo_report) = Inr a"
    using demo_account by (auto simp: is_ok_iff)
  moreover have "false_alarms demo_report = 1" "missed_misdispatch demo_report = 1" by code_simp+
  ultimately show ?thesis using cost_account_matches_report [OF a] by auto
qed

definition demo_walk :: "bool \<Rightarrow> effort_ledger res" where
  "demo_walk misdispatch =
     simulate_resolution (\<lambda>x. ''0'') flat_mathlib ''INC-1'' ''PR-VQS'' ''HFC'' ''hfc_tap'' 0 True misdispatch None"

lemma demo_walks: "is_ok (demo_walk mis)"
  unfolding demo_walk_def by (rule simulate_total) code_simp

theorem misdispatch_adds_wasted_visit_witness:
  "\<exists>l0 l1 e. demo_walk False = Inr l0 \<and> demo_walk True = Inr l1 \<and> truck_rolls l1 = truck_rolls l0 + 1 \<and>
     false_negative_cost flat_mathlib ''PR-VQS'' ''hfc_tap'' None = Inr e \<and> total_minutes l1 = total_minutes l0 + ec_minutes e"
proof -
  obtain l0 l1 where l: "demo_walk False = Inr l0" "demo_walk True = Inr l1"
    using demo_walks [of False] demo_walks [of True] by (auto simp: is_ok_iff)
  have "\<not> fixed_remotely ''hfc_tap'' False 0" by code_simp
  with misdispatch_adds_wasted_visit [OF l [unfolded demo_walk_def]] l show ?thesis by auto
qed

end
