(* ===== verification/Measurement.thy ===== *)
theory Measurement
  imports Service Tables
begin

text \<open>
  The measurement contract shared by the dashboards (\<open>measurement.py\<close>) and the projection of the
  live workflow repository into it (\<open>measurement_projection\<close> of \<open>workflow/service.py\<close>).
\<close>

subsection \<open>The contract\<close>

record metric_definition =
  md_label :: string
  md_grain :: string
  md_formula :: string

definition status_partition_keys :: "case_status list" where
  "status_partition_keys = [CS_OPEN, CS_WAITING, CS_CLOSED, CS_ESCALATED, CS_QUARANTINED]"

definition metric_definitions :: "(string \<times> metric_definition) list" where
  "metric_definitions = [
     (''footprint_services'', \<lparr>md_label = ''Services in footprint'', md_grain = ''service_id'',
        md_formula = ''Distinct eligible service_id values.''\<rparr>),
     (''scanned_devices'', \<lparr>md_label = ''Devices scanned'', md_grain = ''device_id'',
        md_formula = ''Distinct devices with a completed canonical predictive pull.''\<rparr>),
     (''scan_coverage_pct'', \<lparr>md_label = ''Scan coverage'', md_grain = ''device_id'',
        md_formula = ''Devices scanned divided by eligible services/devices.''\<rparr>),
     (''healthy_scanned_services'', \<lparr>md_label = ''Healthy scanned services'', md_grain = ''service_id'',
        md_formula = ''Scanned services without a canonical current risk.''\<rparr>),
     (''at_risk_services'', \<lparr>md_label = ''At-risk services'', md_grain = ''service_id'',
        md_formula = ''Distinct services with one or more canonical predictive risks.''\<rparr>),
     (''forecast_risk_services'', \<lparr>md_label = ''Forecast-risk services'', md_grain = ''service_id'',
        md_formula = ''At-risk services forecast to breach but not currently degraded.''\<rparr>),
     (''degraded_services'', \<lparr>md_label = ''Currently degraded services'', md_grain = ''service_id'',
        md_formula = ''Distinct services with a current predictive threshold breach.''\<rparr>),
     (''care_contacts'', \<lparr>md_label = ''Care contacts'', md_grain = ''contact_id'',
        md_formula = ''Distinct customer contacts in the selected window.''\<rparr>),
     (''predictively_matched_contacts'', \<lparr>md_label = ''Predictively matched contacts'', md_grain = ''contact_id'',
        md_formula = ''Care contacts preceded by canonical predictive evidence.''\<rparr>),
     (''predictive_match_rate_pct'', \<lparr>md_label = ''Predictive match rate'', md_grain = ''contact_id'',
        md_formula = ''Predictively matched contacts divided by all Care contacts.''\<rparr>),
     (''canonical_root_attachments'', \<lparr>md_label = ''Contacts attached to a canonical root incident'', md_grain = ''contact_id'',
        md_formula = ''Care contacts carrying a durable incident_id reference.''\<rparr>),
     (''actual_duplicate_attempts_intercepted'', \<lparr>md_label = ''Duplicate creation attempts intercepted'', md_grain = ''contact_id'',
        md_formula = ''Audited duplicate-creation attempts actively rejected by policy.''\<rparr>),
     (''root_incidents'', \<lparr>md_label = ''Root incidents'', md_grain = ''incident_id'',
        md_formula = ''Distinct durable incident_id values.''\<rparr>),
     (''closed_root_incidents'', \<lparr>md_label = ''Closed root incidents'', md_grain = ''incident_id'',
        md_formula = ''Root incidents closed after objective validation.''\<rparr>),
     (''waiting_root_incidents'', \<lparr>md_label = ''Waiting root incidents'', md_grain = ''incident_id'',
        md_formula = ''Root incidents currently waiting for a human decision.''\<rparr>),
     (''case_attempts'', \<lparr>md_label = ''Case attempts'', md_grain = ''case_id'',
        md_formula = ''Distinct diagnosis/action attempts; may exceed root incidents.''\<rparr>),
     (''pending_approvals'', \<lparr>md_label = ''Pending approvals'', md_grain = ''approval_id'',
        md_formula = ''Distinct pending human-decision objects, shown outside status totals.''\<rparr>),
     (''field_dispatched_root_incidents'', \<lparr>md_label = ''Field-dispatched root incidents'', md_grain = ''incident_id'',
        md_formula = ''Distinct root incidents with one or more field work orders.''\<rparr>),
     (''work_orders'', \<lparr>md_label = ''Work orders'', md_grain = ''work_order_id'',
        md_formula = ''Distinct field-work records.''\<rparr>),
     (''maintenance_requests'', \<lparr>md_label = ''Maintenance requests'', md_grain = ''mr_id'',
        md_formula = ''Distinct plant/MR handoff records.''\<rparr>)]"

record metric =
  mt_key :: string
  mt_label :: string
  mt_grain :: string
  mt_formula :: string
  mt_value :: "nat option"
  mt_numerator :: "nat option"
  mt_denominator :: "nat option"
  mt_provenance :: string
  mt_available :: bool
  mt_note :: string

definition metric ::
  "string \<Rightarrow> nat option \<Rightarrow> string \<Rightarrow> nat option \<Rightarrow> nat option \<Rightarrow> bool \<Rightarrow> string \<Rightarrow> metric res" where
  "metric key v provenance numerator denominator available note =
     (case map_of metric_definitions key of
        None \<Rightarrow> Inl (KeyError key)
      | Some d \<Rightarrow> Inr \<lparr>mt_key = key, mt_label = md_label d, mt_grain = md_grain d, mt_formula = md_formula d,
          mt_value = (if available then v else None), mt_numerator = numerator, mt_denominator = denominator,
          mt_provenance = (if available then provenance else ''unavailable''), mt_available = available,
          mt_note = note\<rparr>)"

definition unavailable_metric :: "string \<Rightarrow> string \<Rightarrow> metric res" where
  "unavailable_metric key reason = metric key None ''unavailable'' None None False reason"

definition status_partition_total :: "(case_status \<times> nat) list \<Rightarrow> nat" where
  "status_partition_total shares =
     sum_list (map (\<lambda>k. case map_of shares k of None \<Rightarrow> 0 | Some n \<Rightarrow> n) status_partition_keys)"

subsection \<open>Roots and their states\<close>

text \<open>\<open>parent_incident_id or incident_id or ""\<close>\<close>

definition root_id :: "incident \<Rightarrow> string" where
  "root_id s = (case i_parent s of Some p \<Rightarrow> if p = [] then i_id s else p | None \<Rightarrow> i_id s)"

definition root_status :: "incident list \<Rightarrow> case_status" where
  "root_status records =
     (let states = map i_status records in
      case find (\<lambda>st. List.member states st) [CS_QUARANTINED, CS_ESCALATED, CS_WAITING, CS_OPEN] of
        Some st \<Rightarrow> st
      | None \<Rightarrow> if states \<noteq> [] \<and> list_all (\<lambda>st. st = CS_CLOSED) states then CS_CLOSED else CS_OPEN)"

text \<open>\<open>value not in {None, ""}\<close>; a list or a dictionary has no hash.\<close>

fun present :: "json \<Rightarrow> bool res" where
  "present (JArr xs) = Inl (TypeError ''unhashable type: list'')"
| "present (JObj d) = Inl (TypeError ''unhashable type: dict'')"
| "present JNull = Inr False"
| "present (JStr s) = Inr (s \<noteq> [])"
| "present v = Inr True"

fun first_id :: "string list \<Rightarrow> dict \<Rightarrow> string option res" where
  "first_id [] item = Inr None"
| "first_id (k # ks) item =
     (let v = (case map_of item k of None \<Rightarrow> JNull | Some v \<Rightarrow> v) in
      bindR (present v) (\<lambda>found. if found then Inr (Some (py_str v)) else first_id ks item))"

text \<open>The distinct identifiers of the nested records, the first of \<open>keys\<close> an item has.\<close>

definition nested_ids :: "(incident \<Rightarrow> dict list) \<Rightarrow> string list \<Rightarrow> incident list \<Rightarrow> string list res" where
  "nested_ids collection keys records =
     bindR (mapR (first_id keys) (concat (map collection records))) (\<lambda>found.
     Inr (remdups (concat (map (\<lambda>x. case x of None \<Rightarrow> [] | Some i \<Rightarrow> [i]) found))))"

subsection \<open>The projection\<close>

record projection =
  pj_as_of :: string
  pj_metrics :: "(string \<times> metric) list"
  pj_partition :: "(case_status \<times> nat) list"
  pj_pending :: nat
  pj_remote :: nat
  pj_field :: nat
  pj_mr :: nat
  pj_returned :: nat
  pj_attempts :: nat
  pj_hfc :: nat
  pj_pon :: nat
  pj_checks :: "(string \<times> bool) list"
  pj_passed :: bool

definition unobserved :: "string list" where
  "unobserved = [''footprint_services'', ''scanned_devices'', ''scan_coverage_pct'', ''healthy_scanned_services'', ''at_risk_services'', ''forecast_risk_services'', ''degraded_services'', ''care_contacts'', ''predictively_matched_contacts'', ''predictive_match_rate_pct'', ''canonical_root_attachments'', ''actual_duplicate_attempts_intercepted'']"

definition iso_utc :: "datetime \<Rightarrow> string" where
  "iso_utc d = isoformat (utc (instant d))"

text \<open>\<open>partition[state] += 1\<close> for every root\<close>

definition partition_of :: "(string \<times> incident list) list \<Rightarrow> (case_status \<times> nat) list" where
  "partition_of groups =
     map (\<lambda>k. (k, length (filter (\<lambda>g. root_status (snd g) = k) groups))) status_partition_keys"

definition dispatched_roots :: "incident list \<Rightarrow> string list" where
  "dispatched_roots cases =
     filter (\<lambda>r. r \<noteq> []) (remdups (map root_id (filter (\<lambda>s. 0 < i_field s \<or> i_work_orders s \<noteq> []) cases)))"

definition observed :: "string \<Rightarrow> nat \<Rightarrow> string \<Rightarrow> (string \<times> metric) res" where
  "observed key n note = bindR (metric key (Some n) ''observed'' None None True note) (\<lambda>m. Inr (key, m))"

definition latest_update :: "int \<Rightarrow> incident list \<Rightarrow> datetime option \<Rightarrow> string" where
  "latest_update now cases as_of =
     (case as_of of
        Some d \<Rightarrow> iso_utc d
      | None \<Rightarrow> if cases = [] then isoformat (utc now)
                else (let xs = map (\<lambda>s. iso_utc (i_updated s)) cases in foldl max (hd xs) (tl xs)))"

definition build_operations_projection ::
  "int \<Rightarrow> incident list \<Rightarrow> approval list \<Rightarrow> datetime option \<Rightarrow> projection res" where
  "build_operations_projection now incidents approvals as_of =
     (let cases = map snd (index_by i_id (filter (\<lambda>s. i_id s \<noteq> []) incidents));
          decisions = map snd (index_by a_id (filter (\<lambda>a. a_id a \<noteq> []) approvals));
          groups = group_by root_id (filter (\<lambda>s. root_id s \<noteq> []) cases);
          shares = partition_of groups;
          pending = count_if (\<lambda>a. a_status a = AP_PENDING) decisions;
          counted_as = (\<lambda>k. case map_of shares k of None \<Rightarrow> 0 | Some n \<Rightarrow> n) in
      bindR (nested_ids i_work_orders [''work_order_id'', ''action_id''] cases) (\<lambda>work_order_ids.
      bindR (nested_ids i_mr_records [''mr_id'', ''action_id''] cases) (\<lambda>mr_ids.
      bindR (mapR (\<lambda>k. bindR (unavailable_metric k
          ''The live workflow repository does not currently expose this population.'') (\<lambda>m. Inr (k, m))) unobserved) (\<lambda>missing.
      bindR (mapR (\<lambda>(k, n, note). observed k n note)
        [(''root_incidents'', length groups, []),
         (''closed_root_incidents'', counted_as CS_CLOSED, []),
         (''waiting_root_incidents'', counted_as CS_WAITING, []),
         (''case_attempts'', length cases, ''Each IncidentState is a case attempt; parent_incident_id collapses '' @
            ''common-cause children into one durable root incident.''),
         (''pending_approvals'', pending, []),
         (''field_dispatched_root_incidents'', length (dispatched_roots cases), []),
         (''work_orders'', length work_order_ids, ''Distinct work-order IDs projected from incident state.''),
         (''maintenance_requests'', length mr_ids, ''Distinct MR IDs projected from incident state.'')]) (\<lambda>counted.
      let checks = [(''status_partition_equals_root_incidents'', status_partition_total shares = length groups),
            (''case_attempts_cover_root_incidents'', length groups \<le> length cases),
            (''pending_approvals_outside_status_partition'', True), (''headlines_not_paginated'', True)]
      in Inr \<lparr>pj_as_of = latest_update now cases as_of, pj_metrics = missing @ counted, pj_partition = shares,
           pj_pending = pending, pj_remote = sum_list (map i_remote cases), pj_field = sum_list (map i_field cases),
           pj_mr = sum_list (map i_mr cases), pj_returned = count_if (\<lambda>s. 1 < i_cycles s) cases,
           pj_attempts = length cases, pj_hfc = count_if (\<lambda>s. i_technology s = HFC) cases,
           pj_pon = count_if (\<lambda>s. i_technology s = PON) cases,
           pj_checks = checks, pj_passed = list_all snd checks\<rparr>)))))"

text \<open>\<open>measurement_projection\<close>: the service reads its cases with the default limit.\<close>

definition measurement_projection :: "int \<Rightarrow> repo \<Rightarrow> projection res" where
  "measurement_projection now rp =
     build_operations_projection now (list_incidents rp 200) (list_approvals rp None None) None"

end
