(* ===== verification/MeasurementLaws.thy ===== *)
theory MeasurementLaws
  imports Measurement
begin

text \<open>
  Laws of the measurement projection: its reconciliation always holds, its counts agree with the
  service's dashboard, and both see at most two hundred cases.
\<close>

lemma length_filter_cases:
  "distinct ks \<Longrightarrow> \<forall>x \<in> set xs. f x \<in> set ks \<Longrightarrow>
   sum_list (map (\<lambda>k. length (filter (\<lambda>x. f x = k) xs)) ks) = length xs"
proof (induction xs)
  case (Cons x xs)
  have "sum_list (map (\<lambda>k. length (filter (\<lambda>y. f y = k) (x # xs))) ks) =
      sum_list (map (\<lambda>k. (if k = f x then 1 else 0) + length (filter (\<lambda>y. f y = k) xs)) ks)"
    by (intro arg_cong [where f = sum_list] map_cong) auto
  also have "\<dots> = sum_list (map (\<lambda>k. if k = f x then 1 else 0) ks) + length xs"
    using Cons by (simp add: sum_list_addf)
  also have "sum_list (map (\<lambda>k. if k = f x then 1 else 0) ks) = (1 :: nat)"
    using Cons.prems by (simp add: sum_list_distinct_conv_sum_set)
  finally show ?case by simp
qed simp

lemma root_status_partition: "root_status g \<in> set status_partition_keys"
  by (cases "root_status g") (simp_all add: status_partition_keys_def)

lemma partition_of_lookup:
  "k \<in> set status_partition_keys \<Longrightarrow>
   map_of (partition_of groups) k = Some (length (filter (\<lambda>g. root_status (snd g) = k) groups))"
  unfolding partition_of_def by (simp add: map_of_map_restrict)

lemma partition_total: "status_partition_total (partition_of groups) = length groups"
proof -
  have "status_partition_total (partition_of groups) =
      sum_list (map (\<lambda>k. length (filter (\<lambda>g. root_status (snd g) = k) groups)) status_partition_keys)"
    unfolding status_partition_total_def
    by (intro arg_cong [where f = sum_list] map_cong) (simp_all add: partition_of_lookup)
  then show ?thesis
    using root_status_partition by (subst (asm) length_filter_cases) (auto simp: status_partition_keys_def)
qed

lemma index_by_length: "length (index_by key xs) \<le> length xs"
  unfolding index_by_def
  by (induction xs rule: rev_induct) (auto simp: length_dset)

lemma cases_of_index: "set (map snd (index_by key xs)) \<subseteq> set xs"
  by (auto simp: index_by_mem dest: map_of_index_byD)

subsection \<open>Reconciliation\<close>

lemma build_operations_projection_Inr:
  assumes "build_operations_projection now xs as as_of = Inr p"
  defines "cases \<equiv> map snd (index_by i_id (filter (\<lambda>s. i_id s \<noteq> []) xs))"
  defines "groups \<equiv> group_by root_id (filter (\<lambda>s. root_id s \<noteq> []) cases)"
  shows "pj_partition p = partition_of groups \<and>
    pj_attempts p = length cases \<and>
    pj_checks p = [(''status_partition_equals_root_incidents'', status_partition_total (partition_of groups) = length groups),
       (''case_attempts_cover_root_incidents'', length groups \<le> length cases),
       (''pending_approvals_outside_status_partition'', True), (''headlines_not_paginated'', True)] \<and>
    pj_passed p = list_all snd (pj_checks p) \<and>
    pj_remote p = sum_list (map i_remote cases) \<and>
    pj_field p = sum_list (map i_field cases) \<and>
    pj_mr p = sum_list (map i_mr cases) \<and>
    pj_returned p = count_if (\<lambda>s. 1 < i_cycles s) cases \<and>
    pj_hfc p = count_if (\<lambda>s. i_technology s = HFC) cases \<and>
    pj_pon p = count_if (\<lambda>s. i_technology s = PON) cases \<and>
    pj_pending p = count_if (\<lambda>a. a_status a = AP_PENDING) (map snd (index_by a_id (filter (\<lambda>a. a_id a \<noteq> []) as)))"
proof -
  from assms(1) show ?thesis
    unfolding build_operations_projection_def Let_def bindR_eq_Inr cases_def groups_def
    by (elim exE conjE) (drule sum.inject(2) [THEN iffD1], hypsubst, simp only: projection.select_convs simp_thms)
qed

lemma root_id_nonempty: "i_id s \<noteq> [] \<Longrightarrow> root_id s \<noteq> []"
  by (auto simp: root_id_def split: option.splits)

text \<open>The cases in the projection are the distinct named ones.\<close>

lemma projected_cases:
  "set (map i_id (map snd (index_by i_id (filter (\<lambda>s. i_id s \<noteq> []) xs)))) = i_id ` set xs - {[]}"
  "length (map snd (index_by i_id (filter (\<lambda>s. i_id s \<noteq> []) xs))) = card (i_id ` set xs - {[]})"
proof -
  let ?d = "index_by i_id (filter (\<lambda>s. i_id s \<noteq> []) xs)"
  have key: "i_id (snd q) = fst q" if "q \<in> set ?d" for q
    using that index_by_mem [of "fst q" "snd q"] by (auto dest: map_of_index_byD)
  then have "map i_id (map snd ?d) = map fst ?d" by (auto simp: o_def)
  moreover have "set (map fst ?d) = i_id ` set xs - {[]}" by (auto simp: keys_index_by)
  moreover have "distinct (map fst ?d)" by (rule distinct_index_by)
  ultimately show "set (map i_id (map snd ?d)) = i_id ` set xs - {[]}"
    "length (map snd ?d) = card (i_id ` set xs - {[]})"
    using distinct_card [of "map fst ?d"] by simp_all
qed

text \<open>
  Whatever cases and approvals the repository returns, the projection's own reconciliation
  passes: every root incident is in exactly one state of the partition, the roots are no more
  than the case attempts, and the attempts are the distinct named cases.
\<close>

theorem measurement_reconciles:
  assumes "build_operations_projection now xs as as_of = Inr p"
  shows "pj_passed p \<and> pj_attempts p = card (i_id ` set xs - {[]}) \<and>
     status_partition_total (pj_partition p) \<le> pj_attempts p \<and>
     (distinct (map i_id xs) \<and> [] \<notin> i_id ` set xs \<longrightarrow>
        status_partition_total (pj_partition p) = card (root_id ` set xs) \<and>
        pj_hfc p + pj_pon p = pj_attempts p)"
proof -
  let ?cases = "map snd (index_by i_id (filter (\<lambda>s. i_id s \<noteq> []) xs))"
  let ?groups = "group_by root_id (filter (\<lambda>s. root_id s \<noteq> []) ?cases)"
  have proj: "pj_partition p = partition_of ?groups" "pj_attempts p = length ?cases"
    "pj_passed p = (status_partition_total (partition_of ?groups) = length ?groups \<and> length ?groups \<le> length ?cases)"
    "pj_hfc p = count_if (\<lambda>s. i_technology s = HFC) ?cases" "pj_pon p = count_if (\<lambda>s. i_technology s = PON) ?cases"
    using build_operations_projection_Inr [OF assms] by simp_all
  have "length ?groups \<le> length ?cases"
    unfolding length_group_by set_map [symmetric]
    by (rule order_trans [OF card_length]) (simp add: le_trans [OF length_filter_le])
  moreover have "pj_attempts p = card (i_id ` set xs - {[]})" unfolding proj(2) by (rule projected_cases(2))
  moreover have "status_partition_total (pj_partition p) = card (root_id ` set xs) \<and> pj_hfc p + pj_pon p = pj_attempts p"
    if "distinct (map i_id xs)" "[] \<notin> i_id ` set xs"
  proof
    have all: "filter (\<lambda>s. i_id s \<noteq> []) xs = xs" using that(2) by (intro filter_True) force
    then have cases: "?cases = xs" using that(1) by (simp add: index_by_distinct o_def)
    have "filter (\<lambda>s. root_id s \<noteq> []) xs = xs" using that(2) root_id_nonempty by (intro filter_True) force
    then show "status_partition_total (pj_partition p) = card (root_id ` set xs)"
      unfolding proj(1) partition_total cases by (simp add: length_group_by)
    show "pj_hfc p + pj_pon p = pj_attempts p"
      unfolding proj(2,4,5) cases count_if_def
      by (rule trans [OF _ sum_length_filter_compl [of "\<lambda>s. i_technology s = HFC"]])
        (metis (mono_tags, lifting) technology.exhaust technology.distinct(1))
  qed
  ultimately show ?thesis by (simp add: proj(1-3) partition_total)
qed

subsection \<open>The service's two dashboards\<close>

lemma distinct_map_sort_key: "distinct (map g xs) \<Longrightarrow> distinct (map g (sort_key f xs))"
  by (simp add: distinct_map)

lemma list_incidents_distinct:
  assumes "repo_inv rp"
  shows "distinct (map i_id (list_incidents rp n))"
proof -
  have keys: "map (\<lambda>p. i_id (n_state (snd p))) (rp_incidents rp) = map fst (rp_incidents rp)"
    using assms by (intro map_cong) (auto simp: repo_inv_def)
  have "distinct (map (\<lambda>p. i_id (n_state (snd p))) (rp_incidents rp))"
    by (subst keys) (use assms in \<open>simp add: repo_inv_def\<close>)
  then have "distinct (map (i_id \<circ> n_state) (newest_first n_updated (map snd (rp_incidents rp))))"
    unfolding newest_first_def by (intro distinct_map_sort_key) (simp add: o_def)
  then have "distinct (take n (map (i_id \<circ> n_state) (newest_first n_updated (map snd (rp_incidents rp)))))"
    by (rule distinct_take)
  then show ?thesis by (simp add: list_incidents_def take_map)
qed

lemma list_approvals_distinct:
  assumes "repo_inv rp"
  shows "distinct (map a_id (list_approvals rp None None))"
proof -
  have keys: "map a_id (map snd (rp_approvals rp)) = map fst (rp_approvals rp)"
    using assms by (auto simp: repo_inv_def)
  have "distinct (map a_id (map snd (rp_approvals rp)))"
    by (subst keys) (use assms in \<open>simp add: repo_inv_def\<close>)
  from distinct_map_sort_key [OF this] show ?thesis by (simp add: list_approvals_def newest_first_def)
qed

lemma index_by_all: "distinct (map key xs) \<Longrightarrow> [] \<notin> key ` set xs \<Longrightarrow>
    map snd (index_by key (filter (\<lambda>x. key x \<noteq> []) xs)) = xs"
  by (subst filter_True) (force, simp add: index_by_distinct o_def)

text \<open>The listing splits the cases on record: those it shows, and those updated no later than any of them.\<close>

lemma list_incidents_split:
  assumes "repo_inv rp"
  obtains hidden where
    "mset (list_incidents rp n) + mset hidden = mset (map (n_state \<circ> snd) (rp_incidents rp))"
    "length (list_incidents rp n) = min n (length (rp_incidents rp))"
    "\<And>s h. s \<in> set (list_incidents rp n) \<Longrightarrow> h \<in> set hidden \<Longrightarrow> instant (i_updated h) \<le> instant (i_updated s)"
proof -
  define all where "all = newest_first n_updated (map snd (rp_incidents rp))"
  have eq: "n_updated x = i_updated (n_state x)" if "x \<in> set all" for x
  proof -
    have "x \<in> set (map snd (rp_incidents rp))" using that by (simp add: all_def newest_first_def)
    then show ?thesis
      using assms by (auto simp: repo_inv_def) (metis incident_row.select_convs(19) row_of_def snd_conv)
  qed
  have "sorted (map (\<lambda>x. - instant (n_updated x)) (take n all @ drop n all))"
    by (simp only: append_take_drop_id) (simp add: all_def newest_first_def)
  then have "instant (n_updated y) \<le> instant (n_updated x)" if "x \<in> set (take n all)" "y \<in> set (drop n all)" for x y
    using that unfolding map_append sorted_append by fastforce
  moreover have "mset (map n_state (take n all)) + mset (map n_state (drop n all)) = mset (map (n_state \<circ> snd) (rp_incidents rp))"
  proof -
    have "mset (map n_state (take n all)) + mset (map n_state (drop n all)) = image_mset n_state (mset all)"
      by (metis append_take_drop_id image_mset_union mset_append mset_map)
    also have "mset all = mset (map snd (rp_incidents rp))" by (simp add: all_def newest_first_def)
    finally show ?thesis by (simp add: multiset.map_comp)
  qed
  moreover have "list_incidents rp n = map n_state (take n all)" by (simp add: list_incidents_def all_def)
  moreover have "length all = length (rp_incidents rp)" by (simp add: all_def newest_first_def)
  ultimately show thesis
    using eq by (intro that [of "map n_state (drop n all)"]) (auto, metis in_set_takeD in_set_dropD)
qed

text \<open>
  C33. On a well-formed repository the projection and the service's dashboard report the same
  work: the totals over the cases one listing shows. It shows at most two hundred; a case it
  leaves out was updated no later than every case it shows, and none is left out as long as
  there are no more.
\<close>

theorem measurement_agrees_with_dashboard:
  assumes "repo_inv rp" "measurement_projection now rp = Inr p"
    and "[] \<notin> fst ` set (rp_incidents rp)" "[] \<notin> fst ` set (rp_approvals rp)"
  shows "(let db = service_dashboard rp in
       pj_remote p = db_remote db \<and> pj_field p = db_field db \<and> pj_mr p = db_mr db \<and> pj_returned p = db_returned db \<and>
       pj_attempts p = db_total db \<and> pj_pending p = sm_pending (db_summary db)) \<and>
     (\<exists>shown hidden. mset shown + mset hidden = mset (map (n_state \<circ> snd) (rp_incidents rp)) \<and>
        length shown = min 200 (length (rp_incidents rp)) \<and>
        (\<forall>s \<in> set shown. \<forall>h \<in> set hidden. instant (i_updated h) \<le> instant (i_updated s)) \<and>
        pj_attempts p = length shown \<and> pj_remote p = sum_list (map i_remote shown) \<and>
        pj_field p = sum_list (map i_field shown) \<and> pj_mr p = sum_list (map i_mr shown) \<and>
        pj_returned p = length (filter (\<lambda>s. 1 < i_cycles s) shown))"
proof
  let ?xs = "list_incidents rp 200" and ?as = "list_approvals rp None None"
  note proj = build_operations_projection_Inr [OF assms(2) [unfolded measurement_projection_def]]
  have "i_id ` set ?xs \<subseteq> fst ` set (rp_incidents rp)"
    using assms(1) by (force simp: list_incidents_def newest_first_def repo_inv_def dest: in_set_takeD)
  then have cases: "map snd (index_by i_id (filter (\<lambda>s. i_id s \<noteq> []) ?xs)) = ?xs"
    using assms(3) list_incidents_distinct [OF assms(1)] by (intro index_by_all) auto
  have "a_id ` set ?as \<subseteq> fst ` set (rp_approvals rp)"
    using assms(1) by (force simp: list_approvals_def newest_first_def repo_inv_def)
  then have approvals: "map snd (index_by a_id (filter (\<lambda>a. a_id a \<noteq> []) ?as)) = ?as"
    using assms(4) list_approvals_distinct [OF assms(1)] by (intro index_by_all) auto
  have "pj_pending p = sm_pending (summary rp)"
    using proj unfolding approvals
    by (simp add: summary_def Let_def list_approvals_def newest_first_def count_if_def filter_sort)
  then show "let db = service_dashboard rp in
       pj_remote p = db_remote db \<and> pj_field p = db_field db \<and> pj_mr p = db_mr db \<and> pj_returned p = db_returned db \<and>
       pj_attempts p = db_total db \<and> pj_pending p = sm_pending (db_summary db)"
    unfolding service_dashboard_def Let_def
    using proj unfolding cases by simp
  obtain hidden where "mset ?xs + mset hidden = mset (map (n_state \<circ> snd) (rp_incidents rp))"
    "length ?xs = min 200 (length (rp_incidents rp))"
    "\<And>s h. s \<in> set ?xs \<Longrightarrow> h \<in> set hidden \<Longrightarrow> instant (i_updated h) \<le> instant (i_updated s)"
    using list_incidents_split [OF assms(1), of 200] by blast
  then show "\<exists>shown hidden. mset shown + mset hidden = mset (map (n_state \<circ> snd) (rp_incidents rp)) \<and>
        length shown = min 200 (length (rp_incidents rp)) \<and>
        (\<forall>s \<in> set shown. \<forall>h \<in> set hidden. instant (i_updated h) \<le> instant (i_updated s)) \<and>
        pj_attempts p = length shown \<and> pj_remote p = sum_list (map i_remote shown) \<and>
        pj_field p = sum_list (map i_field shown) \<and> pj_mr p = sum_list (map i_mr shown) \<and>
        pj_returned p = length (filter (\<lambda>s. 1 < i_cycles s) shown)"
    using proj unfolding cases count_if_def by blast
qed

subsection \<open>When the projection succeeds\<close>

definition hashable :: "json \<Rightarrow> bool" where
  "hashable v \<longleftrightarrow> (case v of JArr _ \<Rightarrow> False | JObj _ \<Rightarrow> False | _ \<Rightarrow> True)"

lemma present_total: "hashable v \<Longrightarrow> \<exists>b. present v = Inr b"
  by (cases v) (auto simp: hashable_def)

lemma first_id_total: "\<forall>q \<in> set item. hashable (snd q) \<Longrightarrow> \<exists>r. first_id ks item = Inr r"
proof (induction ks)
  case (Cons k ks)
  let ?v = "case map_of item k of None \<Rightarrow> JNull | Some v \<Rightarrow> v"
  have "hashable ?v"
    using Cons.prems by (force simp: hashable_def split: option.splits dest: map_of_SomeD)
  with present_total Cons show ?case by (fastforce simp: Let_def)
qed simp

lemma nested_ids_total:
  assumes "\<forall>s \<in> set cases. \<forall>item \<in> set (col s). \<forall>q \<in> set item. hashable (snd q)"
  shows "\<exists>ids. nested_ids col keys cases = Inr ids"
proof -
  have "\<exists>ys. mapR (first_id keys) (concat (map col cases)) = Inr ys"
    using assms first_id_total by (intro mapR_total) auto
  then show ?thesis by (auto simp: nested_ids_def)
qed

lemma defined_metrics:
  "list_all (\<lambda>k. map_of metric_definitions k \<noteq> None) (unobserved @ [''root_incidents'', ''closed_root_incidents'',
     ''waiting_root_incidents'', ''case_attempts'', ''pending_approvals'', ''field_dispatched_root_incidents'',
     ''work_orders'', ''maintenance_requests''])"
  by code_simp

lemma metric_total: "map_of metric_definitions k \<noteq> None \<Longrightarrow> \<exists>m. metric k v pr nu de av note = Inr m"
  by (auto simp: metric_def)

text \<open>The projection fails only on a nested identifier that has no hash.\<close>

lemma projection_total:
  assumes "\<forall>s \<in> set xs. \<forall>item \<in> set (i_work_orders s) \<union> set (i_mr_records s). \<forall>q \<in> set item. hashable (snd q)"
  shows "\<exists>p. build_operations_projection now xs as as_of = Inr p"
proof -
  let ?cases = "map snd (index_by i_id (filter (\<lambda>s. i_id s \<noteq> []) xs))"
  have sub: "set ?cases \<subseteq> set xs" using cases_of_index by force
  obtain w where w: "nested_ids i_work_orders [''work_order_id'', ''action_id''] ?cases = Inr w"
    using nested_ids_total [of ?cases i_work_orders] assms sub by blast
  obtain m where m: "nested_ids i_mr_records [''mr_id'', ''action_id''] ?cases = Inr m"
    using nested_ids_total [of ?cases i_mr_records] assms sub by blast
  have u: "\<exists>u. mapR (\<lambda>k. bindR (unavailable_metric k r) (\<lambda>m. Inr (k, m))) unobserved = Inr u" for r
  proof (intro mapR_total ballI)
    fix k assume "k \<in> set unobserved"
    then have "map_of metric_definitions k \<noteq> None" using defined_metrics by (auto simp: list_all_iff)
    then show "\<exists>y. bindR (unavailable_metric k r) (\<lambda>m. Inr (k, m)) = Inr y"
      using metric_total [of k None "''unavailable''" None None False r] by (auto simp: unavailable_metric_def)
  qed
  have c: "\<exists>c. mapR (\<lambda>(k, n, note). observed k n note)
      [(''root_incidents'', n1, []), (''closed_root_incidents'', n2, []), (''waiting_root_incidents'', n3, []),
       (''case_attempts'', n4, t4), (''pending_approvals'', n5, []), (''field_dispatched_root_incidents'', n6, []),
       (''work_orders'', n7, t7), (''maintenance_requests'', n8, t8)] = Inr c" for n1 n2 n3 n4 n5 n6 n7 n8 t4 t7 t8
  proof (intro mapR_total ballI)
    fix x assume "x \<in> set [(''root_incidents'', n1, []), (''closed_root_incidents'', n2, []), (''waiting_root_incidents'', n3, []),
       (''case_attempts'', n4, t4), (''pending_approvals'', n5, []), (''field_dispatched_root_incidents'', n6, []),
       (''work_orders'', n7, t7), (''maintenance_requests'', n8, t8 :: string)]"
    then have "fst x \<in> set (unobserved @ [''root_incidents'', ''closed_root_incidents'',
     ''waiting_root_incidents'', ''case_attempts'', ''pending_approvals'', ''field_dispatched_root_incidents'',
     ''work_orders'', ''maintenance_requests''])" by auto
    then have "map_of metric_definitions (fst x) \<noteq> None" using defined_metrics by (simp only: list_all_iff) blast
    then show "\<exists>y. (case x of (k, n, note) \<Rightarrow> observed k n note) = Inr y"
      using metric_total [of "fst x" "Some (fst (snd x))" "''observed''" None None True "snd (snd x)"]
      by (auto simp: observed_def split: prod.split)
  qed
  show ?thesis
    unfolding build_operations_projection_def Let_def w m bindR_Inr
    using u c by (simp only: bindR_eq_Inr) blast
qed

subsection \<open>Examples\<close>

definition demo_incident :: incident where
  "demo_incident = new_incident ''INC-1'' ''drop'' ''Drop fault'' HFC ''P2'' ''demo'' (utc 0) (utc 3600000000) []"

definition demo_repo :: repo where
  "demo_repo = snd (save_incident 1 demo_incident repo_empty)"

lemma demo_repo_inv: "repo_inv demo_repo" "fst ` set (rp_incidents demo_repo) = {''INC-1''}"
    "fst ` set (rp_approvals demo_repo) = {}" "list_incidents demo_repo 200 = [demo_incident\<lparr>i_updated := utc 1\<rparr>]"
  by (simp_all add: demo_repo_def save_incident_inv)
    (simp_all add: save_incident_def repo_empty_def demo_incident_def new_incident_def Let_def list_incidents_def newest_first_def)

lemma demo_projected:
  "\<exists>p. build_operations_projection 2 (list_incidents demo_repo 200) as None = Inr p"
  by (rule projection_total) (simp add: demo_repo_inv demo_incident_def new_incident_def)

theorem measurement_reconciles_witness:
  "\<exists>p. build_operations_projection 2 (list_incidents demo_repo 200) [] None = Inr p \<and> pj_passed p \<and> pj_attempts p = 1"
proof -
  obtain p where p: "build_operations_projection 2 (list_incidents demo_repo 200) [] None = Inr p"
    using demo_projected by blast
  have "i_id ` set (list_incidents demo_repo 200) - {[]} = {''INC-1''}"
    by (simp add: demo_repo_inv demo_incident_def new_incident_def)
  with measurement_reconciles [OF p] p show ?thesis by simp
qed

theorem measurement_agrees_with_dashboard_witness:
  "\<exists>p. measurement_projection 2 demo_repo = Inr p \<and> pj_attempts p = db_total (service_dashboard demo_repo)"
proof -
  obtain p where p: "measurement_projection 2 demo_repo = Inr p"
    using demo_projected unfolding measurement_projection_def by blast
  from measurement_agrees_with_dashboard [OF demo_repo_inv(1) p] p show ?thesis
    by (auto simp: demo_repo_inv Let_def)
qed

end
