(* ===== verification/Install.thy ===== *)
theory Install
  imports TwinRecords Digest Tables
begin

text \<open>
  The 24-hour install-assurance watch (\<open>digital_twin/install_assurance.py\<close>, with
  \<open>project_install_assurance_context\<close> of \<open>caddi.py\<close>): the choice of a cohort, the plan of a
  scenario, observations, actions, contacts, promotion to a root incident, and the summary.
  Hours are rationals, instants are microseconds. The digest is an argument.
\<close>

definition us_of_hours :: "rat \<Rightarrow> int" where
  "us_of_hours h = round_he (h * 3600000000)"

definition hours_between :: "int \<Rightarrow> int \<Rightarrow> rat" where
  "hours_between a b = of_int (b - a) / 3600000000"

definition watch_digest :: "(string \<Rightarrow> string) \<Rightarrow> nat \<Rightarrow> string list \<Rightarrow> string" where
  "watch_digest D n parts = take n (map upper_char (sha_hex D (join ''|'' parts)))"

definition validate_watch_id :: "string \<Rightarrow> string res" where
  "validate_watch_id watch_id =
     (if \<not> starts_with ''IAW-'' watch_id \<or> length watch_id \<noteq> 20 \<or>
         \<not> list_all (\<lambda>c. List.member ''0123456789ABCDEF'' c) (drop 4 watch_id)
      then Inl (ValueError ''invalid install assurance watch_id'') else Inr watch_id)"

record watch_request =
  wr_population :: int
  wr_as_of :: rat
  wr_tail :: rat
  wr_seed :: int

subsection \<open>The cohort\<close>

definition same_delimiter_pair :: "subscriber list \<Rightarrow> string \<Rightarrow> subscriber list" where
  "same_delimiter_pair rows technology =
     (let matching = filter (\<lambda>r. if technology = ''HFC'' then ts_technology r = ''HFC'' else ts_technology r \<noteq> ''HFC'') rows in
      case find (\<lambda>g. 2 \<le> length (snd g)) (group_by ts_delimiter matching) of
        None \<Rightarrow> [] | Some g \<Rightarrow> take 2 (snd g))"

text \<open>The first row of the pool, from a start chosen by the token, whose service is not used yet.\<close>

definition add_from :: "subscriber list \<Rightarrow> int \<Rightarrow> subscriber list \<Rightarrow> subscriber list" where
  "add_from pool token selected =
     (if pool = [] then selected
      else let start = nat (\<bar>token\<bar> mod int (length pool));
               turned = map (\<lambda>k. pool ! ((start + k) mod length pool)) [0..<length pool] in
           case find (\<lambda>r. ts_service r \<noteq> [] \<and> \<not> List.member (map ts_service selected) (ts_service r)) turned of
             None \<Rightarrow> selected | Some r \<Rightarrow> selected @ [r])"

definition slot_technologies :: "string list" where
  "slot_technologies = [''HFC'', ''PON'', ''HFC'', ''HFC'', ''PON'', ''PON'', ''COMMON_A'', ''COMMON_B'',
     ''HFC'', ''PON'', ''HFC'', ''PON'']"

definition fill_slot ::
  "subscriber list \<Rightarrow> subscriber list \<Rightarrow> subscriber list \<Rightarrow> int \<Rightarrow> nat \<times> string \<Rightarrow> subscriber list \<Rightarrow> subscriber list" where
  "fill_slot pair hfc_general pon seed slot selected =
     (let index = int (fst slot) in
      if snd slot = ''COMMON_A'' \<and> 2 \<le> length pair then add_from [pair ! 0] (seed + index) selected
      else if snd slot = ''COMMON_B'' \<and> 2 \<le> length pair then add_from [pair ! 1] (seed + index) selected
      else if snd slot = ''HFC'' then add_from hfc_general (seed + index * 17) selected
      else add_from pon (seed + index * 17) selected)"

fun fill_up :: "nat \<Rightarrow> int \<Rightarrow> (nat \<times> subscriber) list \<Rightarrow> subscriber list \<Rightarrow> subscriber list" where
  "fill_up n seed [] selected = selected"
| "fill_up n seed ((index, row) # rows) selected =
     (if n \<le> length selected then selected
      else fill_up n seed rows (add_from [row] (seed + int index) selected))"

definition pick_subscribers :: "subscriber list \<Rightarrow> int \<Rightarrow> int \<Rightarrow> subscriber list res" where
  "pick_subscribers rows population seed =
     (if population < 1 then Inl (ValueError ''population must be at least 1'')
      else if int (length rows) < population
      then Inl (ValueError (''population must be between 1 and '' @ nat_str (length rows)))
      else
        let hfc = filter (\<lambda>r. ts_technology r = ''HFC'') rows;
            pon = filter (\<lambda>r. ts_technology r \<noteq> ''HFC'') rows in
        if hfc = [] \<or> pon = []
        then Inl (ValueError ''install assurance requires both HFC and PON subscribers'')
        else
          let n = nat population; pair = same_delimiter_pair rows ''HFC'';
              apart = filter (\<lambda>r. \<not> List.member (map ts_service pair) (ts_service r)) hfc;
              hfc_general = (if apart = [] then hfc else apart);
              slotted = fold (fill_slot pair hfc_general pon seed) (enumerate 0 (take n slot_technologies)) [];
              selected = fill_up n seed (enumerate 0 rows) slotted
          in if length selected \<noteq> n
             then Inl (ValueError ''could not select a unique install assurance population'')
             else Inr selected)"

subsection \<open>Scenarios and their plans\<close>

definition install_scenarios :: "string list" where
  "install_scenarios = [''healthy_hfc'', ''healthy_pon'', ''remote_stabilized'', ''persistent_hfc_impairment'',
     ''persistent_pon_impairment'', ''wifi_impairment'', ''common_cause_hfc'', ''common_cause_hfc'',
     ''late_action_extension'', ''active_green'', ''active_amber'', ''active_red'']"

definition scenario_for :: "nat \<Rightarrow> string \<Rightarrow> string" where
  "scenario_for index technology =
     (if index < length install_scenarios
      then let scenario = install_scenarios ! index in
           if ends_with ''_hfc'' scenario \<and> technology \<noteq> ''HFC'' then ''healthy_pon''
           else if scenario = ''healthy_pon'' \<and> technology = ''HFC'' then ''healthy_hfc''
           else scenario
      else if technology = ''HFC'' then ''healthy_hfc'' else ''healthy_pon'')"

definition start_offset_hours :: "string \<Rightarrow> rat" where
  "start_offset_hours scenario =
     (case map_of [(''active_green'', 12), (''active_amber'', 18), (''active_red'', 20)] scenario of
        None \<Rightarrow> 0 | Some h \<Rightarrow> h)"

text \<open>\<open>range(first, last + 1, step)\<close>\<close>

definition range_by :: "nat \<Rightarrow> nat \<Rightarrow> nat \<Rightarrow> nat list" where
  "range_by lo hi stp = map (\<lambda>k. lo + k * stp) [0..<(if hi < lo then 0 else (hi - lo) div stp + 1)]"

definition observation_offsets :: "rat \<Rightarrow> nat list" where
  "observation_offsets age_hours =
     (let limit = nat \<lfloor>age_hours * 60\<rfloor> in
      sort (remdups ([0] @ range_by 5 (min limit 120) 5 @
        (if 120 < limit then range_by 135 (min limit 360) 15 else []) @
        (if 360 < limit then range_by 390 (min limit 1440) 30 else []) @
        (if 1440 < limit then range_by 1500 limit 60 else []) @ [limit])))"

definition persistent_plan :: "(string \<times> rat) list" where
  "persistent_plan = [(''finding'', 1), (''contact'', 4), (''remote_action'', 5/2), (''incident'', 3),
     (''dispatch'', 5), (''mr'', 7), (''repair'', 12), (''stable'', 25/2)]"

definition event_plans :: "(string \<times> (string \<times> rat) list) list" where
  "event_plans =
     [(''remote_stabilized'', [(''finding'', 2), (''contact'', 3), (''remote_action'', 4), (''stable'', 9/2)]),
      (''wifi_impairment'', [(''finding'', 1), (''contact'', 3/2), (''remote_action'', 2), (''stable'', 5/2)]),
      (''persistent_hfc_impairment'', persistent_plan),
      (''persistent_pon_impairment'', persistent_plan),
      (''common_cause_hfc'', [(''finding'', 3/4), (''contact'', 2), (''incident'', 3/2), (''dispatch'', 3),
         (''mr'', 4), (''repair'', 8), (''stable'', 17/2)]),
      (''late_action_extension'', [(''finding'', 20), (''contact'', 21), (''remote_action'', 23), (''stable'', 47/2)]),
      (''active_amber'', [(''finding'', 2), (''contact'', 3)]),
      (''active_red'', [(''finding'', 1), (''contact'', 2), (''incident'', 3)])]"

definition event_plan :: "string \<Rightarrow> (string \<times> rat) list" where
  "event_plan scenario = (case map_of event_plans scenario of None \<Rightarrow> [] | Some p \<Rightarrow> p)"

text \<open>An event of the plan that is due at the age.\<close>

definition due :: "string \<Rightarrow> string \<Rightarrow> rat \<Rightarrow> bool" where
  "due scenario event age = (case map_of (event_plan scenario) event of None \<Rightarrow> False | Some h \<Rightarrow> h \<le> age)"

datatype health = GREEN | AMBER | RED

definition health_at :: "string \<Rightarrow> rat \<Rightarrow> health \<times> string" where
  "health_at scenario age =
     (if \<not> due scenario ''finding'' age then (GREEN, ''commissioning baseline stable'')
      else if due scenario ''stable'' age then (GREEN, ''post-action telemetry stable'')
      else if due scenario ''incident'' age then
        (if contains ''pon'' scenario then (RED, ''persistent optical instability'')
         else if contains ''common_cause'' scenario then (RED, ''shared tap impairment across new installs'')
         else (RED, ''persistent HFC access impairment''))
      else if scenario = ''active_red'' then (RED, ''repeated loss of service during installation watch'')
      else if scenario = ''wifi_impairment'' then (AMBER, ''in-home Wi-Fi onboarding impairment'')
      else if scenario = ''late_action_extension''
      then (AMBER, ''late service instability requires extended observation'')
      else (AMBER, ''short-horizon stability threshold exceeded''))"

subsection \<open>Rows of the watch\<close>

record hfc_signal =
  hs_ds_rx :: rat
  hs_us_tx :: rat
  hs_mer :: rat
  hs_uncorrectable :: rat
  hs_t3 :: nat

record pon_signal =
  ps_ont_rx :: rat
  ps_ber :: rat
  ps_los :: nat
  ps_dying_gasp :: nat

record observation =
  ob_id :: string
  ob_episode :: string
  ob_service :: string
  ob_device :: string
  ob_technology :: string
  ob_observed :: int
  ob_age :: rat
  ob_health :: health
  ob_online :: bool
  ob_registered :: bool
  ob_loss :: rat
  ob_latency :: rat
  ob_throughput :: rat
  ob_reboots :: nat
  ob_wifi :: string
  ob_finding :: string
  ob_sources :: "string list"
  ob_hfc :: "hfc_signal option"
  ob_pon :: "pon_signal option"
  ob_production_write :: bool

fun by_health :: "health \<Rightarrow> 'a \<Rightarrow> 'a \<Rightarrow> 'a \<Rightarrow> 'a" where
  "by_health GREEN g a r = g"
| "by_health AMBER g a r = a"
| "by_health RED g a r = r"

definition observation :: "string \<Rightarrow> subscriber \<Rightarrow> string \<Rightarrow> int \<Rightarrow> nat \<Rightarrow> observation" where
  "observation episode_id service scenario started_at offset_minutes =
     (let age = of_nat offset_minutes / 60; (h, finding) = health_at scenario age in
      \<lparr>ob_id = ''OBS-'' @ episode_id @ ''-'' @ nat_str_pad 4 offset_minutes, ob_episode = episode_id,
       ob_service = ts_service service, ob_device = ts_device service, ob_technology = ts_technology service,
       ob_observed = started_at + minutes (int offset_minutes), ob_age = round_dec 3 age, ob_health = h,
       ob_online = (\<not> (h = RED \<and> \<lfloor>age * 2\<rfloor> mod 3 = 0)), ob_registered = (h = GREEN),
       ob_loss = by_health h (5/100) (3/2) 8, ob_latency = by_health h 18 45 120,
       ob_throughput = by_health h (93/100) (67/100) (22/100), ob_reboots = by_health h 0 1 3,
       ob_wifi = (if scenario = ''wifi_impairment'' \<and> h \<noteq> GREEN then ''IMPAIRED'' else ''HEALTHY''),
       ob_finding = finding, ob_sources = [''NXT'', ''Provisioning systems'', ''Synthetic install watch''],
       ob_hfc = (if ts_technology service = ''HFC''
         then Some \<lparr>hs_ds_rx = by_health h (- 1) (- 11) (- 162/10), hs_us_tx = by_health h 44 (525/10) 56,
           hs_mer = by_health h 38 32 (285/10), hs_uncorrectable = by_health h (2/10^8) (7/10^5) (2/10^3),
           hs_t3 = by_health h 0 8 31\<rparr> else None),
       ob_pon = (if ts_technology service = ''HFC'' then None
         else Some \<lparr>ps_ont_rx = by_health h (- 195/10) (- 255/10) (- 28), ps_ber = by_health h (1/10^11) (5/10^7) (2/10^5),
           ps_los = by_health h 0 1 5, ps_dying_gasp = by_health h 0 1 3\<rparr>),
       ob_production_write = False\<rparr>)"

record install_action =
  xa_id :: string
  xa_episode :: string
  xa_incident :: "string option"
  xa_service :: string
  xa_type :: string
  xa_owner :: string
  xa_scheduled :: int
  xa_status :: string
  xa_affecting :: bool
  xa_work_order :: "string option"
  xa_mr :: "string option"
  xa_production_write :: bool

definition action_definitions :: "(string \<times> string \<times> string) list" where
  "action_definitions =
     [(''remote_action'', ''controlled_remote_reprovision'', ''remote_assurance''),
      (''dispatch'', ''clean_boots_diagnostic'', ''field_operations''),
      (''mr'', ''create_plant_maintenance_request'', ''plant_operations''),
      (''repair'', ''complete_access_repair'', ''plant_operations''),
      (''stable'', ''validate_post_action_stability'', ''install_assurance'')]"

definition action_row ::
  "string \<Rightarrow> int \<Rightarrow> subscriber \<Rightarrow> string option \<Rightarrow> string \<times> string \<times> string \<Rightarrow> rat \<Rightarrow> install_action" where
  "action_row episode_id started_at service incident_id d offset =
     (case d of (key, action_type, owner) \<Rightarrow>
       \<lparr>xa_id = ''ACT-'' @ episode_id @ ''-'' @ map upper_char key, xa_episode = episode_id,
        xa_incident = incident_id, xa_service = ts_service service, xa_type = action_type, xa_owner = owner,
        xa_scheduled = started_at + us_of_hours offset, xa_status = ''SIMULATED_EXECUTED'',
        xa_affecting = (key = ''remote_action'' \<or> key = ''repair''),
        xa_work_order = (if key = ''dispatch'' then Some (''WO-'' @ episode_id) else None),
        xa_mr = (if key = ''mr'' then Some (''MR-'' @ episode_id) else None), xa_production_write = False\<rparr>)"

definition action_rows :: "string \<Rightarrow> string \<Rightarrow> int \<Rightarrow> subscriber \<Rightarrow> string option \<Rightarrow> install_action list" where
  "action_rows episode_id scenario started_at service incident_id =
     concat (map (\<lambda>d. case map_of (event_plan scenario) (fst d) of
        None \<Rightarrow> [] | Some offset \<Rightarrow> [action_row episode_id started_at service incident_id d offset]) action_definitions)"

definition install_incident_id ::
  "(string \<Rightarrow> string) \<Rightarrow> string \<Rightarrow> string \<Rightarrow> string \<Rightarrow> string \<Rightarrow> string option" where
  "install_incident_id D cohort_id episode_id scenario delimiter_id =
     (if List.member [''persistent_hfc_impairment'', ''persistent_pon_impairment'', ''active_red''] scenario
      then Some (''INC-INSTALL-'' @ watch_digest D 12 [cohort_id, episode_id])
      else if scenario = ''common_cause_hfc''
      then Some (''INC-INSTALL-COMMON-'' @ watch_digest D 10 [cohort_id, delimiter_id])
      else None)"

datatype lifecycle = PENDING_BASELINE | ACTIVE | RECOVERING | PASSED_24H | PROMOTED_TO_INCIDENT | INVALIDATED

text \<open>\<open>float(plan.get("incident") or 0)\<close>\<close>

definition plan_hours :: "string \<Rightarrow> string \<Rightarrow> rat" where
  "plan_hours scenario event = (case map_of (event_plan scenario) event of None \<Rightarrow> 0 | Some h \<Rightarrow> h)"

definition lifecycle_of :: "string \<Rightarrow> rat \<Rightarrow> health \<Rightarrow> rat \<Rightarrow> string option \<Rightarrow> lifecycle" where
  "lifecycle_of scenario age_hours h effective_maturity_hours incident_id =
     (if incident_id \<noteq> None \<and> plan_hours scenario ''incident'' \<le> age_hours then PROMOTED_TO_INCIDENT
      else if effective_maturity_hours \<le> age_hours \<and> h = GREEN then PASSED_24H
      else if map_of (event_plan scenario) ''remote_action'' \<noteq> None \<and> h = GREEN
      then (if age_hours < effective_maturity_hours then RECOVERING else PASSED_24H)
      else ACTIVE)"

end
