(* ===== verification/InstallWatch.thy ===== *)
theory InstallWatch
  imports Install
begin

text \<open>
  One artifact of the install-assurance watch (\<open>_build_artifact\<close> and
  \<open>create_install_assurance_watch\<close> of \<open>digital_twin/install_assurance.py\<close>): an episode per
  selected service, the root incidents they are promoted to, and the reconciled summary.
\<close>

record install_contact =
  ic_id :: string
  ic_genesys :: string
  ic_episode :: string
  ic_incident :: "string option"
  ic_service :: string
  ic_device :: string
  ic_opened :: int
  ic_channel :: string
  ic_disposition :: string
  ic_restarted :: bool
  ic_duplicate :: bool
  ic_production_write :: bool

record episode =
  ep_id :: string
  ep_cohort :: string
  ep_watch :: string
  ep_install_work_order :: string
  ep_customer :: string
  ep_service :: string
  ep_device :: string
  ep_technology :: string
  ep_delimiter_type :: string
  ep_delimiter :: string
  ep_scenario :: string
  ep_started :: int
  ep_nominal_maturity :: int
  ep_effective_maturity :: int
  ep_as_of :: int
  ep_age :: rat
  ep_lifecycle :: lifecycle
  ep_health :: health
  ep_baseline :: string
  ep_last_observation :: int
  ep_last_action :: "int option"
  ep_stable_since :: "int option"
  ep_incident :: "string option"
  ep_contacts :: "string list"
  ep_work_orders :: "string list"
  ep_mrs :: "string list"
  ep_action_types :: "string list"
  ep_validation :: string
  ep_outcome :: string
  ep_detected :: "int option"
  ep_contacted :: "int option"
  ep_before_call :: bool
  ep_owner :: string
  ep_finding :: string
  ep_next_action :: string
  ep_next_update :: int
  ep_confidence :: rat
  ep_production_write :: bool

record install_incident =
  ii_id :: string
  ii_root :: string
  ii_origin :: string
  ii_status :: string
  ii_opened :: int
  ii_closed :: "int option"
  ii_services :: "string list"
  ii_episodes :: "string list"
  ii_technology :: string
  ii_delimiter :: string
  ii_common_cause :: bool
  ii_domain :: string
  ii_work_orders :: "string list"
  ii_mrs :: "string list"
  ii_production_write :: bool

record watch_frame =
  wf_run :: string
  wf_cohort :: string
  wf_watch :: string
  wf_base :: int
  wf_snapshot :: int
  wf_request :: watch_request

subsection \<open>One episode\<close>

definition max_instant :: "int list \<Rightarrow> int option" where
  "max_instant ts = (if ts = [] then None else Some (foldl max (hd ts) (tl ts)))"

record episode_facts =
  ef_id :: string
  ef_scenario :: string
  ef_started :: int
  ef_age :: rat
  ef_observations :: "observation list"
  ef_incident :: "string option"
  ef_actions :: "install_action list"
  ef_effective :: int

definition episode_facts :: "(string \<Rightarrow> string) \<Rightarrow> watch_frame \<Rightarrow> nat \<Rightarrow> subscriber \<Rightarrow> episode_facts" where
  "episode_facts D w index service =
     (let episode_id = ''IAE-'' @ watch_digest D 12 [wf_cohort w, ts_service service];
          scenario = scenario_for index (ts_technology service);
          started_at = wf_base w + us_of_hours (min (start_offset_hours scenario) (wr_as_of (wf_request w)));
          age = max 0 (hours_between started_at (wf_snapshot w));
          observations = map (observation episode_id service scenario started_at) (observation_offsets age);
          planned = install_incident_id D (wf_cohort w) episode_id scenario (ts_delimiter service);
          incident_id = (if due scenario ''incident'' age then planned else None);
          executed = filter (\<lambda>a. xa_scheduled a \<le> wf_snapshot w) (action_rows episode_id scenario started_at service incident_id);
          nominal = started_at + hours_of 24;
          effective = (case max_instant (map xa_scheduled (filter xa_affecting executed)) of
             None \<Rightarrow> nominal | Some t \<Rightarrow> max nominal (t + us_of_hours (wr_tail (wf_request w))))
      in \<lparr>ef_id = episode_id, ef_scenario = scenario, ef_started = started_at, ef_age = age,
          ef_observations = observations, ef_incident = incident_id, ef_actions = executed, ef_effective = effective\<rparr>)"

definition episode_contact :: "(string \<Rightarrow> string) \<Rightarrow> subscriber \<Rightarrow> episode_facts \<Rightarrow> install_contact option" where
  "episode_contact D service f =
     (if due (ef_scenario f) ''contact'' (ef_age f)
      then Some \<lparr>ic_id = ''CON-INSTALL-'' @ ef_id f, ic_genesys = ''GEN-'' @ watch_digest D 12 [ef_id f, ''genesys''],
        ic_episode = ef_id f, ic_incident = ef_incident f, ic_service = ts_service service,
        ic_device = ts_device service,
        ic_opened = ef_started f + us_of_hours (plan_hours (ef_scenario f) ''contact''), ic_channel = ''VOICE'',
        ic_disposition = (if ef_incident f \<noteq> None then ''ATTACH_TO_EXISTING_INSTALL_INCIDENT''
          else ''ATTACH_TO_INSTALL_ASSURANCE_EPISODE''),
        ic_restarted = False, ic_duplicate = False, ic_production_write = False\<rparr>
      else None)"

definition due_instant :: "episode_facts \<Rightarrow> string \<Rightarrow> int option" where
  "due_instant f event =
     (if due (ef_scenario f) event (ef_age f)
      then Some (ef_started f + us_of_hours (plan_hours (ef_scenario f) event)) else None)"

definition episode_of ::
  "watch_frame \<Rightarrow> subscriber \<Rightarrow> episode_facts \<Rightarrow> install_contact option \<Rightarrow> episode" where
  "episode_of w service f contact =
     (let latest = last (ef_observations f); h = ob_health latest;
          lc = lifecycle_of (ef_scenario f) (ef_age f) h (hours_between (ef_started f) (ef_effective f)) (ef_incident f);
          detected = due_instant f ''finding'';
          contacted = map_option ic_opened contact
      in \<lparr>ep_id = ef_id f, ep_cohort = wf_cohort w, ep_watch = wf_watch w,
          ep_install_work_order = ''INSTALL-WO-'' @ ef_id f, ep_customer = ts_customer service,
          ep_service = ts_service service, ep_device = ts_device service, ep_technology = ts_technology service,
          ep_delimiter_type = ts_delimiter_type service, ep_delimiter = ts_delimiter service,
          ep_scenario = ef_scenario f, ep_started = ef_started f, ep_nominal_maturity = ef_started f + hours_of 24,
          ep_effective_maturity = ef_effective f, ep_as_of = wf_snapshot w, ep_age = round_dec 3 (ef_age f),
          ep_lifecycle = lc, ep_health = h, ep_baseline = ''ACCEPTED'', ep_last_observation = ob_observed latest,
          ep_last_action = max_instant (map xa_scheduled (ef_actions f)),
          ep_stable_since = (case due_instant f ''stable'' of Some t \<Rightarrow> Some t
            | None \<Rightarrow> if h = GREEN then Some (ef_started f) else None),
          ep_incident = ef_incident f,
          ep_contacts = (case contact of None \<Rightarrow> [] | Some c \<Rightarrow> [ic_id c]),
          ep_work_orders = List.map_filter xa_work_order (ef_actions f),
          ep_mrs = List.map_filter xa_mr (ef_actions f), ep_action_types = map xa_type (ef_actions f),
          ep_validation = (if lc = PASSED_24H then ''PASSED'' else if lc = PROMOTED_TO_INCIDENT
            then ''INCIDENT_GOVERNED'' else ''PENDING''),
          ep_outcome = (if lc = PASSED_24H \<and> ef_actions f = [] then ''PASSED_WITHOUT_INTERVENTION''
            else if lc = PASSED_24H then ''PASSED_AFTER_REMOTE_STABILIZATION''
            else if lc = PROMOTED_TO_INCIDENT then ''PROMOTED_TO_ROOT_INCIDENT'' else ''WATCH_IN_PROGRESS''),
          ep_detected = detected, ep_contacted = contacted,
          ep_before_call = (case (detected, contacted) of (Some d, Some c) \<Rightarrow> d \<le> c | _ \<Rightarrow> False),
          ep_owner = (if ef_incident f \<noteq> None \<and> h = RED then ''plant_operations''
            else if lc = ACTIVE \<or> lc = RECOVERING then ''install_assurance'' else ''closed_loop_assurance''),
          ep_finding = ob_finding latest,
          ep_next_action = (if h = GREEN \<and> lc \<noteq> PASSED_24H then ''continue_observation''
            else if lc = PASSED_24H then ''close_assurance_episode''
            else if ef_incident f \<noteq> None then ''continue_incident_repair_and_validation''
            else ''collect_expanded_diagnostics''),
          ep_next_update = min (wf_snapshot w + hours_of 1) (ef_effective f),
          ep_confidence = by_health h (97/100) (82/100) (93/100), ep_production_write = False\<rparr>)"

subsection \<open>Root incidents\<close>

definition new_install_incident :: "subscriber \<Rightarrow> episode_facts \<Rightarrow> string \<Rightarrow> install_incident" where
  "new_install_incident service f iid =
     (let repair = map_of (event_plan (ef_scenario f)) ''repair'';
          closed_at = (case repair of None \<Rightarrow> None | Some h \<Rightarrow>
             if h + 1/2 \<le> ef_age f then Some (ef_started f + us_of_hours (h + 1/2)) else None)
      in \<lparr>ii_id = iid, ii_root = iid, ii_origin = ''INSTALL_ASSURANCE'',
          ii_status = (if closed_at = None then ''OPEN'' else ''CLOSED''),
          ii_opened = ef_started f + us_of_hours (plan_hours (ef_scenario f) ''incident''), ii_closed = closed_at,
          ii_services = [], ii_episodes = [], ii_technology = ts_technology service,
          ii_delimiter = ts_delimiter service, ii_common_cause = (ef_scenario f = ''common_cause_hfc''),
          ii_domain = (if contains ''pon'' (ef_scenario f) then ''pon_odp'' else ''hfc_tap''),
          ii_work_orders = [], ii_mrs = [], ii_production_write = False\<rparr>)"

definition promote ::
  "subscriber \<Rightarrow> episode_facts \<Rightarrow> episode \<Rightarrow> (string \<times> install_incident) list \<Rightarrow> (string \<times> install_incident) list" where
  "promote service f e incidents =
     (case ep_incident e of
        None \<Rightarrow> incidents
      | Some iid \<Rightarrow>
          if ep_lifecycle e \<noteq> PROMOTED_TO_INCIDENT then incidents
          else let i = (case map_of incidents iid of None \<Rightarrow> new_install_incident service f iid | Some i \<Rightarrow> i)
               in dset iid (i\<lparr>ii_services := ii_services i @ [ep_service e], ii_episodes := ii_episodes i @ [ep_id e],
                    ii_work_orders := ii_work_orders i @ ep_work_orders e, ii_mrs := ii_mrs i @ ep_mrs e\<rparr>) incidents)"

subsection \<open>The context for the contact centre\<close>

record caddi_context =
  cx_record :: string
  cx_systems :: "string list"
  cx_source_ids :: "string list"
  cx_observed :: int
  cx_analyzed :: int
  cx_confidence :: rat
  cx_recommended :: string
  cx_genesys :: "string option"
  cx_episode :: string
  cx_service :: string
  cx_status :: lifecycle
  cx_health :: health
  cx_before_call :: bool
  cx_finding :: string
  cx_actions :: "string list"
  cx_owner :: string
  cx_root_incident :: "string option"
  cx_live :: bool
  cx_production_write :: bool

definition project_install_assurance_context ::
  "episode \<Rightarrow> install_contact option \<Rightarrow> install_incident option \<Rightarrow> caddi_context" where
  "project_install_assurance_context e contact incident =
     \<lparr>cx_record = ''CADDI-'' @ ep_id e,
      cx_systems = [''LPR Install Assurance'', ''CommScope ServAssure NXT'', ''Provisioning systems''] @
        (if contact \<noteq> None then [''Genesys''] else []) @ (if incident \<noteq> None then [''LPR Operations''] else []),
      cx_source_ids = filter (\<lambda>s. s \<noteq> []) ([ep_id e] @ (case contact of None \<Rightarrow> [] | Some c \<Rightarrow> [ic_id c]) @
        (case incident of None \<Rightarrow> [] | Some i \<Rightarrow> [ii_id i])),
      cx_observed = ep_last_observation e, cx_analyzed = ep_as_of e, cx_confidence = ep_confidence e,
      cx_recommended = ep_next_action e, cx_genesys = map_option ic_genesys contact, cx_episode = ep_id e,
      cx_service = ep_service e, cx_status = ep_lifecycle e, cx_health = ep_health e,
      cx_before_call = ep_before_call e, cx_finding = ep_finding e, cx_actions = ep_action_types e,
      cx_owner = ep_owner e, cx_root_incident = ep_incident e, cx_live = False, cx_production_write = False\<rparr>"

subsection \<open>The artifact\<close>

record watch_rows =
  ww_episodes :: "episode list"
  ww_observations :: "observation list"
  ww_actions :: "install_action list"
  ww_contacts :: "install_contact list"
  ww_incidents :: "(string \<times> install_incident) list"
  ww_contexts :: "caddi_context list"

definition add_episode ::
  "(string \<Rightarrow> string) \<Rightarrow> watch_frame \<Rightarrow> nat \<times> subscriber \<Rightarrow> watch_rows \<Rightarrow> watch_rows" where
  "add_episode D w ixs r =
     (case ixs of (index, service) \<Rightarrow>
      let f = episode_facts D w index service; contact = episode_contact D service f;
          e = episode_of w service f contact; incidents = promote service f e (ww_incidents r);
          incident = (case ep_incident e of None \<Rightarrow> map_of incidents [] | Some iid \<Rightarrow> map_of incidents iid)
      in \<lparr>ww_episodes = ww_episodes r @ [e], ww_observations = ww_observations r @ ef_observations f,
          ww_actions = ww_actions r @ ef_actions f,
          ww_contacts = ww_contacts r @ (case contact of None \<Rightarrow> [] | Some c \<Rightarrow> [c]),
          ww_incidents = incidents,
          ww_contexts = ww_contexts r @ [project_install_assurance_context e contact incident]\<rparr>)"

definition no_watch_rows :: watch_rows where
  "no_watch_rows = \<lparr>ww_episodes = [], ww_observations = [], ww_actions = [], ww_contacts = [], ww_incidents = [],
     ww_contexts = []\<rparr>"

definition settled_incident :: "install_incident \<Rightarrow> install_incident" where
  "settled_incident i =
     i\<lparr>ii_services := sort (remdups (ii_services i)), ii_episodes := sort (remdups (ii_episodes i)),
       ii_work_orders := sort (remdups (ii_work_orders i)), ii_mrs := sort (remdups (ii_mrs i))\<rparr>"

record watch_rate =
  rt_numerator :: nat
  rt_denominator :: nat
  rt_value :: "rat option"

definition rate_of :: "nat \<Rightarrow> nat \<Rightarrow> watch_rate" where
  "rate_of n d = \<lparr>rt_numerator = n, rt_denominator = d,
     rt_value = (if d = 0 then None else Some (round_dec 5 (of_nat n / of_nat d)))\<rparr>"

definition lifecycle_states :: "lifecycle list" where
  "lifecycle_states = [PENDING_BASELINE, ACTIVE, RECOVERING, PASSED_24H, PROMOTED_TO_INCIDENT, INVALIDATED]"

definition health_states :: "health list" where
  "health_states = [GREEN, AMBER, RED]"

record watch_summary =
  su_watch :: string
  su_cohort :: string
  su_run :: string
  su_as_of :: int
  su_population :: int
  su_as_of_hours :: rat
  su_tail_hours :: rat
  su_matured :: nat
  su_passed :: nat
  su_intervened :: nat
  su_remote_stabilized :: nat
  su_promoted :: nat
  su_roots :: nat
  su_contacts :: nat
  su_before_call :: nat
  su_mean_stable :: "rat option"
  su_rates :: "(string \<times> watch_rate) list"
  su_lifecycle :: "(lifecycle \<times> nat) list"
  su_health :: "(health \<times> nat) list"
  su_remote_actions :: nat
  su_work_orders :: nat
  su_mrs :: nat
  su_open_incidents :: nat
  su_reconciliation :: "(string \<times> bool) list"

record watch_artifact =
  wa_summary :: watch_summary
  wa_episodes :: "episode list"
  wa_observations :: "observation list"
  wa_actions :: "install_action list"
  wa_contacts :: "install_contact list"
  wa_incidents :: "install_incident list"
  wa_contexts :: "caddi_context list"

definition tally :: "('a \<Rightarrow> bool) \<Rightarrow> 'a list \<Rightarrow> nat" where
  "tally P xs = length (filter P xs)"

definition stable_hours :: "episode \<Rightarrow> rat list" where
  "stable_hours e = (case ep_stable_since e of None \<Rightarrow> [] | Some t \<Rightarrow> [hours_between (ep_started e) t])"

definition watch_summary :: "watch_frame \<Rightarrow> watch_rows \<Rightarrow> install_incident list \<Rightarrow> watch_summary" where
  "watch_summary w r incidents =
     (let es = ww_episodes r; n = length es;
          matured = tally (\<lambda>e. ep_effective_maturity e \<le> wf_snapshot w) es;
          passed = filter (\<lambda>e. ep_lifecycle e = PASSED_24H) es;
          intervened = tally (\<lambda>e. ep_action_types e \<noteq> []) es;
          stabilized = tally (\<lambda>e. ep_outcome e = ''PASSED_AFTER_REMOTE_STABILIZATION'') es;
          promoted = filter (\<lambda>e. ep_lifecycle e = PROMOTED_TO_INCIDENT) es;
          before = tally (\<lambda>c. \<exists>e \<in> set es. ep_id e = ic_episode c \<and> ep_before_call e) (ww_contacts r);
          stable = concat (map stable_hours es);
          accepted = tally (\<lambda>e. ep_baseline e = ''ACCEPTED'') es;
          lifecycles = map (\<lambda>s. (s, tally (\<lambda>e. ep_lifecycle e = s) es)) lifecycle_states;
          healths = map (\<lambda>s. (s, tally (\<lambda>e. ep_health e = s) es)) health_states
      in \<lparr>su_watch = wf_watch w, su_cohort = wf_cohort w, su_run = wf_run w, su_as_of = wf_snapshot w,
          su_population = wr_population (wf_request w), su_as_of_hours = wr_as_of (wf_request w),
          su_tail_hours = wr_tail (wf_request w), su_matured = matured, su_passed = length passed,
          su_intervened = intervened, su_remote_stabilized = stabilized, su_promoted = length promoted,
          su_roots = length incidents, su_contacts = length (ww_contacts r), su_before_call = before,
          su_mean_stable = (if stable = [] then None else Some (round_dec 3 (sum_list stable / of_nat (length stable)))),
          su_rates = [(''baseline_acceptance_rate'', rate_of accepted n), (''pass_rate_24h'', rate_of (length passed) matured),
            (''intervention_rate'', rate_of intervened n), (''remote_stabilization_rate'', rate_of stabilized intervened),
            (''incident_conversion_rate'', rate_of (length promoted) n),
            (''network_before_call_rate'', rate_of before (length (ww_contacts r)))],
          su_lifecycle = lifecycles, su_health = healths,
          su_remote_actions = tally (\<lambda>a. xa_type a = ''controlled_remote_reprovision'') (ww_actions r),
          su_work_orders = tally (\<lambda>a. xa_work_order a \<noteq> None) (ww_actions r),
          su_mrs = tally (\<lambda>a. xa_mr a \<noteq> None) (ww_actions r),
          su_open_incidents = tally (\<lambda>i. ii_status i = ''OPEN'') incidents,
          su_reconciliation =
            [(''healthy_passed_without_incident'', list_all (\<lambda>e. ep_incident e = None) passed),
             (''promoted_have_incident'', list_all (\<lambda>e. ep_incident e \<noteq> None) promoted),
             (''status_partition_balances'', sum_list (map snd lifecycles) = n),
             (''health_partition_balances'', sum_list (map snd healths) = n),
             (''contacts_restart_no_diagnostics'', list_all (\<lambda>c. \<not> ic_restarted c) (ww_contacts r)),
             (''canonical_parent_run_unchanged'', True)]\<rparr>)"

definition watch_frame :: "(string \<Rightarrow> string) \<Rightarrow> string \<Rightarrow> int \<Rightarrow> watch_request \<Rightarrow> watch_frame" where
  "watch_frame D run_id run_date rq =
     (let cohort = ''IAC-'' @ watch_digest D 16 [run_id, int_str (wr_population rq), int_str (wr_seed rq)];
          base = run_date + hours_of 8
      in \<lparr>wf_run = run_id, wf_cohort = cohort,
          wf_watch = ''IAW-'' @ watch_digest D 16 [cohort, float_repr (wr_as_of rq), float_repr (wr_tail rq)],
          wf_base = base, wf_snapshot = base + us_of_hours (wr_as_of rq), wf_request = rq\<rparr>)"

definition build_artifact ::
  "(string \<Rightarrow> string) \<Rightarrow> string \<Rightarrow> int \<Rightarrow> subscriber list \<Rightarrow> watch_request \<Rightarrow> watch_artifact res" where
  "build_artifact D run_id run_date subscribers rq =
     bindR (pick_subscribers subscribers (wr_population rq) (wr_seed rq)) (\<lambda>selected.
     let w = watch_frame D run_id run_date rq;
         r = fold (add_episode D w) (enumerate 0 selected) no_watch_rows;
         incidents = map (settled_incident \<circ> snd) (ww_incidents r)
     in Inr \<lparr>wa_summary = watch_summary w r incidents, wa_episodes = ww_episodes r,
          wa_observations = ww_observations r, wa_actions = ww_actions r, wa_contacts = ww_contacts r,
          wa_incidents = incidents, wa_contexts = ww_contexts r\<rparr>)"

text \<open>
  The watches under a run, by identifier. An existing watch answers with its stored summary;
  the write of a new one is one step.
\<close>

definition create_install_assurance_watch ::
  "(string \<Rightarrow> string) \<Rightarrow> string \<Rightarrow> int \<Rightarrow> subscriber list \<Rightarrow> watch_request \<Rightarrow>
   ((string \<times> watch_artifact) list, watch_summary) eff" where
  "create_install_assurance_watch D run_id run_date subscribers rq watches =
     (if 5000 < wr_population rq
      then (Inl (ValueError ''population must not exceed 5,000 for one watch''), watches)
      else if \<not> (0 \<le> wr_as_of rq \<and> wr_as_of rq \<le> 72)
      then (Inl (ValueError ''as_of_hours must be between 0 and 72''), watches)
      else if \<not> (1 \<le> wr_tail rq \<and> wr_tail rq \<le> 12)
      then (Inl (ValueError ''stability_tail_hours must be between 1 and 12''), watches)
      else case build_artifact D run_id run_date subscribers rq of
        Inl e \<Rightarrow> (Inl e, watches)
      | Inr a \<Rightarrow>
          (case map_of watches (su_watch (wa_summary a)) of
             Some old \<Rightarrow> (Inr (wa_summary old), watches)
           | None \<Rightarrow> (Inr (wa_summary a), dset (su_watch (wa_summary a)) a watches)))"

end
