(* ===== verification/InstallLaws.thy ===== *)
theory InstallLaws
  imports InstallWatch
begin

text \<open>
  Laws of the install-assurance watch: the cohort, the observation schedule, what a passed
  episode has behind it, the reconciliation of the summary, and the creation of a watch.
\<close>

subsection \<open>The cohort\<close>

definition cohort_ok :: "subscriber list \<Rightarrow> subscriber list \<Rightarrow> bool" where
  "cohort_ok rows sel \<longleftrightarrow> distinct (map ts_service sel) \<and> set sel \<subseteq> set rows"

lemma turned_pool:
  "pool \<noteq> [] \<Longrightarrow> set (map (\<lambda>k. pool ! ((start + k) mod length pool)) [0..<length pool]) = set pool"
proof
  assume ne: "pool \<noteq> []"
  then show "set (map (\<lambda>k. pool ! ((start + k) mod length pool)) [0..<length pool]) \<subseteq> set pool" by auto
  show "set pool \<subseteq> set (map (\<lambda>k. pool ! ((start + k) mod length pool)) [0..<length pool])"
  proof
    fix x assume "x \<in> set pool"
    then obtain i where i: "i < length pool" "pool ! i = x" by (auto simp: in_set_conv_nth)
    let ?n = "length pool"
    define k where "k = (i + (?n - start mod ?n)) mod ?n"
    have "start mod ?n \<le> ?n" using ne by (simp add: less_imp_le)
    then have turn: "start mod ?n + (i + (?n - start mod ?n)) = i + ?n" by linarith
    have "(start + k) mod ?n = (start mod ?n + (i + (?n - start mod ?n))) mod ?n"
      by (simp add: k_def mod_simps)
    also have "\<dots> = (i + ?n) mod ?n"
      using turn by simp
    also have "\<dots> = i" using i(1) by simp
    finally have "(start + k) mod ?n = i" .
    moreover have "k < ?n" using ne by (simp add: k_def)
    ultimately show "x \<in> set (map (\<lambda>k. pool ! ((start + k) mod ?n)) [0..<?n])"
      using i(2) by force
  qed
qed

lemma add_from_cases:
  obtains "add_from pool token sel = sel"
      "\<And>r. r \<in> set pool \<Longrightarrow> ts_service r \<noteq> [] \<Longrightarrow> ts_service r \<in> set (map ts_service sel)"
  | r where "add_from pool token sel = sel @ [r]" "r \<in> set pool" "ts_service r \<notin> set (map ts_service sel)"
proof (cases "pool = []")
  case True
  then show thesis by (intro that(1)) (simp_all add: add_from_def)
next
  case False
  let ?P = "\<lambda>r. ts_service r \<noteq> [] \<and> \<not> List.member (map ts_service sel) (ts_service r)"
  let ?t = "map (\<lambda>k. pool ! ((nat (\<bar>token\<bar> mod int (length pool)) + k) mod length pool)) [0..<length pool]"
  have t: "set ?t = set pool" using turned_pool [OF False] .
  have eq: "add_from pool token sel = (case find ?P ?t of None \<Rightarrow> sel | Some r \<Rightarrow> sel @ [r])"
    using False by (simp add: add_from_def Let_def)
  show thesis
  proof (cases "find ?P ?t")
    case None
    then have "\<forall>r \<in> set pool. \<not> ?P r" unfolding t [symmetric] by (simp add: find_None_iff)
    with None eq show thesis by (intro that(1)) auto
  next
    case (Some r)
    then have "r \<in> set ?t" "?P r" by (rule find_SomeD [THEN conjunct1], rule find_SomeD [THEN conjunct2])
    with Some eq t show thesis by (intro that(2) [of r]) auto
  qed
qed

lemma add_from_ok:
  assumes "cohort_ok rows sel" "set pool \<subseteq> set rows"
  shows "cohort_ok rows (add_from pool token sel)" "length (add_from pool token sel) \<le> Suc (length sel)"
    "length sel \<le> length (add_from pool token sel)"
  using assms by (cases rule: add_from_cases [where pool = pool and token = token and sel = sel]; auto simp: cohort_ok_def)+

lemma fill_slot_ok:
  assumes "cohort_ok rows sel" "set pair \<subseteq> set rows" "set hfc \<subseteq> set rows" "set pon \<subseteq> set rows"
  shows "cohort_ok rows (fill_slot pair hfc pon seed slot sel) \<and> length (fill_slot pair hfc pon seed slot sel) \<le> Suc (length sel)"
proof -
  have "pair ! 0 \<in> set rows" "pair ! 1 \<in> set rows" if "2 \<le> length pair"
    using that assms(2) by (auto intro!: nth_mem subsetD [OF assms(2)])
  then show ?thesis using assms by (auto simp: fill_slot_def Let_def intro!: add_from_ok)
qed

lemma fold_slots_ok:
  assumes "cohort_ok rows sel" "set pair \<subseteq> set rows" "set hfc \<subseteq> set rows" "set pon \<subseteq> set rows"
  shows "cohort_ok rows (fold (fill_slot pair hfc pon seed) slots sel) \<and>
    length (fold (fill_slot pair hfc pon seed) slots sel) \<le> length sel + length slots"
  using assms(1)
proof (induction slots arbitrary: sel)
  case (Cons s slots)
  let ?sel = "fill_slot pair hfc pon seed s sel"
  have step: "cohort_ok rows ?sel" "length ?sel \<le> Suc (length sel)"
    using fill_slot_ok [OF Cons.prems assms(2-4)] by simp_all
  from Cons.IH [OF step(1)] step(2) show ?case by simp
qed simp

lemma fill_up_ok:
  assumes "cohort_ok rows sel" "snd ` set irows \<subseteq> set rows" "length sel \<le> n"
  shows "cohort_ok rows (fill_up n seed irows sel) \<and> length (fill_up n seed irows sel) \<le> n \<and>
    (length (fill_up n seed irows sel) < n \<longrightarrow>
      set (map ts_service sel) \<subseteq> set (map ts_service (fill_up n seed irows sel)) \<and>
      (\<forall>p \<in> set irows. ts_service (snd p) \<noteq> [] \<longrightarrow> ts_service (snd p) \<in> set (map ts_service (fill_up n seed irows sel))))"
  using assms
proof (induction n seed irows sel rule: fill_up.induct)
  case (2 n seed index row irows sel)
  show ?case
  proof (cases "n \<le> length sel")
    case True
    with "2.prems" show ?thesis by simp
  next
    case False
    let ?sel = "add_from [row] (seed + int index) sel"
    have ok: "cohort_ok rows ?sel" "length ?sel \<le> Suc (length sel)"
      using "2.prems" by (auto intro!: add_from_ok)
    have used: "set (map ts_service sel) \<subseteq> set (map ts_service ?sel)"
      "ts_service row \<noteq> [] \<Longrightarrow> ts_service row \<in> set (map ts_service ?sel)"
      by (cases rule: add_from_cases [where pool = "[row]" and token = "seed + int index" and sel = sel]; auto)+
    have IH: "cohort_ok rows (fill_up n seed irows ?sel) \<and> length (fill_up n seed irows ?sel) \<le> n \<and>
      (length (fill_up n seed irows ?sel) < n \<longrightarrow>
        set (map ts_service ?sel) \<subseteq> set (map ts_service (fill_up n seed irows ?sel)) \<and>
        (\<forall>p \<in> set irows. ts_service (snd p) \<noteq> [] \<longrightarrow> ts_service (snd p) \<in> set (map ts_service (fill_up n seed irows ?sel))))"
      using "2.IH" [OF False ok(1)] "2.prems"(2) False ok(2) by simp
    with used False show ?thesis by (simp del: set_map) blast
  qed
qed auto

lemma enumerate_rows: "snd ` set (enumerate 0 rows) = set rows"
  by (metis list.set_map map_snd_enumerate)

lemma same_pair_rows: "set (same_delimiter_pair rows tech) \<subseteq> set rows"
proof -
  have "set (snd g) \<subseteq> set xs" if "g \<in> set (group_by key xs)" for g :: "string \<times> subscriber list" and key xs
  proof -
    have "map_of (group_by key xs) (fst g) = Some (snd g)" using that by (intro map_of_is_SomeI distinct_group_by) simp
    then have "snd g = filter (\<lambda>x. key x = fst g) xs"
      by (simp add: map_of_group_by Let_def split: if_splits)
    then show ?thesis by (simp only: filter_is_subset)
  qed
  note groups = this
  let ?m = "filter (\<lambda>r. if tech = ''HFC'' then ts_technology r = ''HFC'' else ts_technology r \<noteq> ''HFC'') rows"
  show ?thesis
  proof (cases "find (\<lambda>g. 2 \<le> length (snd g)) (group_by ts_delimiter ?m)")
    case None
    then show ?thesis by (simp add: same_delimiter_pair_def)
  next
    case (Some g)
    then have "g \<in> set (group_by ts_delimiter ?m)" by (blast dest: find_SomeD)
    from groups [OF this] have "set (snd g) \<subseteq> set rows" by auto
    moreover have "same_delimiter_pair rows tech = take 2 (snd g)" using Some by (simp add: same_delimiter_pair_def)
    ultimately show ?thesis using set_take_subset by fastforce
  qed
qed

text \<open>
  The cohort of a watch is drawn from the subscriber master, has exactly the requested size
  and no service twice; and the draw succeeds for every population up to the size of a master
  with both technologies in which every service has an identifier of its own.
\<close>

theorem cohort_is_complete:
  "(pick_subscribers rows population seed = Inr sel \<longrightarrow>
      int (length sel) = population \<and> distinct (map ts_service sel) \<and> set sel \<subseteq> set rows) \<and>
   (1 \<le> population \<and> population \<le> int (length rows) \<and> distinct (map ts_service rows) \<and>
      [] \<notin> ts_service ` set rows \<and> (\<exists>r \<in> set rows. ts_technology r = ''HFC'') \<and>
      (\<exists>r \<in> set rows. ts_technology r \<noteq> ''HFC'') \<longrightarrow> is_ok (pick_subscribers rows population seed))"
proof -
  let ?hfc = "filter (\<lambda>r. ts_technology r = ''HFC'') rows" and ?pon = "filter (\<lambda>r. ts_technology r \<noteq> ''HFC'') rows"
  let ?pair = "same_delimiter_pair rows ''HFC''"
  let ?apart = "filter (\<lambda>r. \<not> List.member (map ts_service ?pair) (ts_service r)) ?hfc"
  let ?general = "if ?apart = [] then ?hfc else ?apart"
  let ?n = "nat population"
  define slotted where "slotted = fold (fill_slot ?pair ?general ?pon seed) (enumerate 0 (take ?n slot_technologies)) []"
  define final where "final = fill_up ?n seed (enumerate 0 rows) slotted"
  have subs: "set ?pair \<subseteq> set rows" "set ?general \<subseteq> set rows" "set ?pon \<subseteq> set rows"
    using same_pair_rows by auto
  have "cohort_ok rows []" by (simp add: cohort_ok_def)
  note fold_slots_ok [OF this subs, where seed = seed and slots = "enumerate 0 (take ?n slot_technologies)"]
  note slots = this [folded slotted_def]
  then have slotted: "cohort_ok rows slotted" "length slotted \<le> ?n" by simp_all
  note out = fill_up_ok [OF slotted(1) equalityD1 [OF enumerate_rows] slotted(2), of seed, folded final_def]
  have "length final = ?n"
    if rows: "population \<le> int (length rows)" "distinct (map ts_service rows)" "[] \<notin> ts_service ` set rows"
  proof (rule ccontr)
    assume "length final \<noteq> ?n"
    with out have less: "length final < ?n"
      and all: "\<forall>p \<in> set (enumerate 0 rows). ts_service (snd p) \<noteq> [] \<longrightarrow> ts_service (snd p) \<in> set (map ts_service final)"
      by auto
    have "set (map ts_service rows) \<subseteq> set (map ts_service final)"
    proof
      fix s assume "s \<in> set (map ts_service rows)"
      then obtain r where r: "r \<in> set rows" "s = ts_service r" by auto
      then obtain p where "p \<in> set (enumerate 0 rows)" "snd p = r" using enumerate_rows by (metis imageE)
      with all r rows(3) show "s \<in> set (map ts_service final)" by (metis image_eqI)
    qed
    then have "card (set (map ts_service rows)) \<le> card (set (map ts_service final))" by (intro card_mono) auto
    also have "\<dots> \<le> length final" using card_length [of "map ts_service final"] by simp
    also note less
    also have "?n \<le> length rows" using rows(1) by simp
    finally show False using distinct_card [OF rows(2)] by simp
  qed
  note full = this
  have good: "distinct (map ts_service final)" "set final \<subseteq> set rows"
    using out by (simp_all add: cohort_ok_def)
  have hfc: "?hfc = [] \<longleftrightarrow> \<not> (\<exists>r \<in> set rows. ts_technology r = ''HFC'')"
    and pon: "?pon = [] \<longleftrightarrow> \<not> (\<exists>r \<in> set rows. ts_technology r \<noteq> ''HFC'')"
    by (simp_all add: filter_empty_conv)
  have eq: "pick_subscribers rows population seed = (if population < 1 then Inl (ValueError ''population must be at least 1'')
      else if int (length rows) < population
      then Inl (ValueError (''population must be between 1 and '' @ nat_str (length rows)))
      else if ?hfc = [] \<or> ?pon = [] then Inl (ValueError ''install assurance requires both HFC and PON subscribers'')
      else if length final \<noteq> ?n then Inl (ValueError ''could not select a unique install assurance population'')
      else Inr final)"
    by (simp add: pick_subscribers_def Let_def final_def slotted_def)
  show ?thesis
    unfolding eq hfc pon using full good by (auto simp: is_ok_def)
qed

subsection \<open>The observation schedule\<close>

lemma range_by_mem: "0 < s \<Longrightarrow> x \<in> set (range_by lo hi s) \<longleftrightarrow> lo \<le> x \<and> x \<le> hi \<and> s dvd (x - lo)"
proof
  assume s: "0 < s"
  show "x \<in> set (range_by lo hi s) \<Longrightarrow> lo \<le> x \<and> x \<le> hi \<and> s dvd (x - lo)"
  proof -
    assume "x \<in> set (range_by lo hi s)"
    then have "\<exists>k. x = lo + k * s \<and> lo \<le> hi \<and> k \<le> (hi - lo) div s"
      by (auto simp: range_by_def less_Suc_eq_le split: if_splits)
    then obtain k where k: "x = lo + k * s" "lo \<le> hi" "k \<le> (hi - lo) div s" by blast
    then have "k * s \<le> hi - lo" using s by (simp add: less_eq_div_iff_mult_less_eq)
    with k show ?thesis by simp
  qed
  show "lo \<le> x \<and> x \<le> hi \<and> s dvd (x - lo) \<Longrightarrow> x \<in> set (range_by lo hi s)"
  proof -
    assume x: "lo \<le> x \<and> x \<le> hi \<and> s dvd (x - lo)"
    then obtain k where k: "x - lo = s * k" by blast
    have "k \<le> (hi - lo) div s"
      using s x k by (simp add: less_eq_div_iff_mult_less_eq) (metis diff_le_mono mult.commute)
    moreover have "x = lo + k * s" using k x by (metis le_add_diff_inverse mult.commute)
    ultimately have "x \<in> (\<lambda>k. lo + k * s) ` {0..<(hi - lo) div s + 1}" by (intro image_eqI [of _ _ k]) auto
    then show ?thesis using x by (simp add: range_by_def del: upt_Suc)
  qed
qed

text \<open>How far apart observations may be: five minutes in the first two hours, an hour in the end.\<close>

definition observation_gap :: "nat \<Rightarrow> nat" where
  "observation_gap t = (if t < 120 then 5 else if t < 360 then 15 else if t < 1440 then 30 else 60)"

lemma offsets_mem:
  "x \<in> set (observation_offsets age) \<longleftrightarrow> (let limit = nat \<lfloor>age * 60\<rfloor> in
     x = 0 \<or> x = limit \<or> 5 \<le> x \<and> x \<le> min limit 120 \<and> 5 dvd (x - 5) \<or>
     120 < limit \<and> 135 \<le> x \<and> x \<le> min limit 360 \<and> 15 dvd (x - 135) \<or>
     360 < limit \<and> 390 \<le> x \<and> x \<le> min limit 1440 \<and> 30 dvd (x - 390) \<or>
     1440 < limit \<and> 1500 \<le> x \<and> x \<le> limit \<and> 60 dvd (x - 1500))"
  by (auto simp: observation_offsets_def Let_def range_by_mem simp del: min_less_iff_conj)

lemma last_step:
  assumes "lo \<le> (t :: nat)" "0 < s"
  obtains x where "lo \<le> x" "x \<le> t" "t < x + s" "s dvd (x - lo)"
proof (rule that [of "t - (t - lo) mod s"])
  have le: "(t - lo) mod s \<le> t - lo" by simp
  then show "lo \<le> t - (t - lo) mod s" using assms(1) by linarith
  show "t - (t - lo) mod s \<le> t" by simp
  have "(t - lo) mod s < s" using assms(2) by simp
  with le show "t < t - (t - lo) mod s + s" by linarith
  have "t - (t - lo) mod s - lo = (t - lo) - (t - lo) mod s" by simp
  then show "s dvd (t - (t - lo) mod s - lo)" by (metis dvd_minus_mod)
qed

text \<open>
  Every watch observes its service at the start and at the snapshot, in order and never twice
  at one minute, and leaves no gap: up to the snapshot there is an observation at most five
  minutes back in the first two hours, fifteen minutes until hour six, half an hour on the first
  day and an hour after it.
\<close>

theorem observations_leave_no_gap:
  "sorted (observation_offsets age) \<and> distinct (observation_offsets age) \<and>
   hd (observation_offsets age) = 0 \<and> last (observation_offsets age) = nat \<lfloor>age * 60\<rfloor> \<and>
   (\<forall>t \<le> nat \<lfloor>age * 60\<rfloor>. \<exists>x \<in> set (observation_offsets age). x \<le> t \<and> t < x + observation_gap t)"
proof (intro conjI allI impI)
  let ?os = "observation_offsets age" and ?limit = "nat \<lfloor>age * 60\<rfloor>"
  show sorted: "sorted ?os" and "distinct ?os" by (simp_all add: observation_offsets_def Let_def)
  have zero: "0 \<in> set ?os" and limit: "?limit \<in> set ?os" by (simp_all add: offsets_mem Let_def)
  then have ne: "?os \<noteq> []" by auto
  have "hd ?os \<le> 0" using sorted zero by (cases ?os) auto
  then show "hd ?os = 0" by simp
  have "last ?os \<le> ?limit" using last_in_set [OF ne] unfolding offsets_mem by (auto simp: Let_def)
  moreover have "?limit \<le> last ?os"
    using sorted limit ne by (metis append_butlast_last_id in_set_conv_decomp_last sorted_append set_append UnE list.set_intros(1) order_refl empty_iff empty_set insert_iff list.simps(15))
  ultimately show "last ?os = ?limit" by simp
  fix t assume t: "t \<le> ?limit"
  have mem: "x \<in> set ?os" if "x = 0 \<or> 5 \<le> x \<and> x \<le> 120 \<and> 5 dvd (x - 5) \<or> 120 < t \<and> 135 \<le> x \<and> x \<le> 360 \<and> 15 dvd (x - 135) \<or>
      360 < t \<and> 390 \<le> x \<and> x \<le> 1440 \<and> 30 dvd (x - 390) \<or> 1440 < t \<and> 1500 \<le> x \<and> 60 dvd (x - 1500)" "x \<le> t" for x
    using that t unfolding offsets_mem Let_def by auto
  consider "t < 5" | "5 \<le> t" "t < 120" | "120 \<le> t" "t < 135" | "135 \<le> t" "t < 360" | "360 \<le> t" "t < 390"
    | "390 \<le> t" "t < 1440" | "1440 \<le> t" "t < 1500" | "1500 \<le> t" by linarith
  then show "\<exists>x \<in> set ?os. x \<le> t \<and> t < x + observation_gap t"
  proof cases
    case 1 then show ?thesis using zero by (auto simp: observation_gap_def)
  next
    case 2 then show ?thesis
      using last_step [of 5 t 5] mem by (simp add: observation_gap_def) (metis dual_order.trans less_imp_le)
  next
    case 3 then show ?thesis using mem [of 120] by (intro bexI [of _ 120]) (auto simp: observation_gap_def)
  next
    case 4 then show ?thesis
      using last_step [of 135 t 15] mem by (simp add: observation_gap_def) (metis dual_order.trans less_imp_le)
  next
    case 5 then show ?thesis using mem [of 360] by (intro bexI [of _ 360]) (auto simp: observation_gap_def)
  next
    case 6 then show ?thesis
      using last_step [of 390 t 30] mem by (simp add: observation_gap_def) (metis dual_order.trans less_imp_le)
  next
    case 7 then show ?thesis using mem [of 1440] by (intro bexI [of _ 1440]) (auto simp: observation_gap_def)
  next
    case 8 then show ?thesis
      using last_step [of 1500 t 60] mem by (simp add: observation_gap_def) (metis dual_order.trans less_imp_le)
  qed
qed

subsection \<open>The episodes of a watch\<close>

definition episode_for :: "(string \<Rightarrow> string) \<Rightarrow> watch_frame \<Rightarrow> nat \<times> subscriber \<Rightarrow> episode" where
  "episode_for D w p =
     (let f = episode_facts D w (fst p) (snd p) in episode_of w (snd p) f (episode_contact D (snd p) f))"

lemma fold_episodes:
  "ww_episodes (fold (add_episode D w) ps r) = ww_episodes r @ map (episode_for D w) ps"
  "ww_actions (fold (add_episode D w) ps r) =
     ww_actions r @ concat (map (\<lambda>p. ef_actions (episode_facts D w (fst p) (snd p))) ps)"
  "ww_contacts (fold (add_episode D w) ps r) = ww_contacts r @
     concat (map (\<lambda>p. case episode_contact D (snd p) (episode_facts D w (fst p) (snd p)) of None \<Rightarrow> [] | Some c \<Rightarrow> [c]) ps)"
  by (induction ps arbitrary: r) (simp_all add: add_episode_def episode_for_def Let_def split: prod.splits)

lemma build_artifact_Inr:
  assumes "build_artifact D run date subs rq = Inr a"
  obtains sel w where "pick_subscribers subs (wr_population rq) (wr_seed rq) = Inr sel"
    "w = watch_frame D run date rq" "wf_request w = rq" "wf_snapshot w = wf_base w + us_of_hours (wr_as_of rq)"
    "wa_episodes a = map (episode_for D w) (enumerate 0 sel)"
    "wa_actions a = concat (map (\<lambda>p. ef_actions (episode_facts D w (fst p) (snd p))) (enumerate 0 sel))"
    "wa_contacts a = concat (map (\<lambda>p. case episode_contact D (snd p) (episode_facts D w (fst p) (snd p)) of
       None \<Rightarrow> [] | Some c \<Rightarrow> [c]) (enumerate 0 sel))"
    "wa_summary a = watch_summary w (fold (add_episode D w) (enumerate 0 sel) no_watch_rows) (wa_incidents a)"
proof -
  obtain sel where sel: "pick_subscribers subs (wr_population rq) (wr_seed rq) = Inr sel"
    using assms by (auto simp: build_artifact_def bindR_eq_Inr)
  let ?w = "watch_frame D run date rq"
  let ?r = "fold (add_episode D ?w) (enumerate 0 sel) no_watch_rows"
  have frame: "wf_request ?w = rq" "wf_snapshot ?w = wf_base ?w + us_of_hours (wr_as_of rq)"
    by (simp_all add: watch_frame_def Let_def)
  have rows: "wa_episodes a = ww_episodes ?r" "wa_actions a = ww_actions ?r" "wa_contacts a = ww_contacts ?r"
    "wa_summary a = watch_summary ?w ?r (wa_incidents a)"
    using assms sel by (auto simp: build_artifact_def Let_def)
  show thesis
    by (rule that [OF sel refl frame _ _ _ rows(4)]) (simp_all add: rows(1-3) fold_episodes no_watch_rows_def)
qed

lemma episode_for_fields:
  "ep_as_of (episode_for D w p) = wf_snapshot w" "\<not> ep_production_write (episode_for D w p)"
  "ep_incident (episode_for D w p) = ef_incident (episode_facts D w (fst p) (snd p))"
  "ep_lifecycle (episode_for D w p) = lifecycle_of (ef_scenario (episode_facts D w (fst p) (snd p)))
     (ef_age (episode_facts D w (fst p) (snd p))) (ep_health (episode_for D w p))
     (hours_between (ef_started (episode_facts D w (fst p) (snd p))) (ef_effective (episode_facts D w (fst p) (snd p))))
     (ef_incident (episode_facts D w (fst p) (snd p)))"
  by (simp_all add: episode_for_def episode_of_def Let_def)

lemma us_of_hours_mono: "a \<le> b \<Longrightarrow> us_of_hours a \<le> us_of_hours b"
  unfolding us_of_hours_def by (intro round_he_mono) simp

lemma hours_between_le: "hours_between a b \<le> hours_between a c \<longleftrightarrow> b \<le> c"
  by (simp add: hours_between_def divide_le_cancel)

lemma facts_started:
  "0 \<le> wr_as_of rq \<Longrightarrow> wf_request w = rq \<Longrightarrow> wf_snapshot w = wf_base w + us_of_hours (wr_as_of rq) \<Longrightarrow>
   ef_started (episode_facts D w i s) \<le> wf_snapshot w \<and>
   ef_age (episode_facts D w i s) = hours_between (ef_started (episode_facts D w i s)) (wf_snapshot w)"
  using us_of_hours_mono [of "min (start_offset_hours (scenario_for i (ts_technology s))) (wr_as_of rq)" "wr_as_of rq"]
  by (simp add: episode_facts_def Let_def hours_between_def)

lemma foldl_max_ge: "(a :: int) \<le> foldl max a ts \<and> (\<forall>x \<in> set ts. x \<le> foldl max a ts)"
  by (induction ts arbitrary: a) (auto intro: order_trans [OF _ conjunct1], (metis max.cobounded1 max.cobounded2 order_trans)+)

lemma max_instant_ge: "x \<in> set ts \<Longrightarrow> \<exists>m. max_instant ts = Some m \<and> x \<le> m"
  using foldl_max_ge [of "hd ts" "tl ts"] by (cases ts) (auto simp: max_instant_def)

lemma facts_effective:
  "ef_started (episode_facts D w i s) + hours_of 24 \<le> ef_effective (episode_facts D w i s)"
  "x \<in> set (ef_actions (episode_facts D w i s)) \<Longrightarrow> xa_affecting x \<Longrightarrow>
   xa_scheduled x + us_of_hours (wr_tail (wf_request w)) \<le> ef_effective (episode_facts D w i s)"
proof -
  show "ef_started (episode_facts D w i s) + hours_of 24 \<le> ef_effective (episode_facts D w i s)"
    by (auto simp: episode_facts_def Let_def split: option.split)
  assume "x \<in> set (ef_actions (episode_facts D w i s))" "xa_affecting x"
  then have "xa_scheduled x \<in> set (map xa_scheduled (filter xa_affecting (ef_actions (episode_facts D w i s))))" by simp
  from max_instant_ge [OF this] obtain m where
    m: "max_instant (map xa_scheduled (filter xa_affecting (ef_actions (episode_facts D w i s)))) = Some m" "xa_scheduled x \<le> m"
    by blast
  then show "xa_scheduled x + us_of_hours (wr_tail (wf_request w)) \<le> ef_effective (episode_facts D w i s)"
    by (simp add: episode_facts_def Let_def le_max_iff_disj)
qed

text \<open>What the life cycle says of an episode.\<close>

lemma lifecycle_passed:
  "lifecycle_of scenario age h eff inc = PASSED_24H \<longleftrightarrow>
     \<not> (inc \<noteq> None \<and> plan_hours scenario ''incident'' \<le> age) \<and> eff \<le> age \<and> h = GREEN"
  by (auto simp: lifecycle_of_def)

lemma lifecycle_promoted:
  "lifecycle_of scenario age h eff inc = PROMOTED_TO_INCIDENT \<longleftrightarrow> inc \<noteq> None \<and> plan_hours scenario ''incident'' \<le> age"
  by (auto simp: lifecycle_of_def)

lemma facts_incident_due:
  "ef_incident (episode_facts D w i s) \<noteq> None \<Longrightarrow>
   plan_hours (ef_scenario (episode_facts D w i s)) ''incident'' \<le> ef_age (episode_facts D w i s)"
  by (auto simp: episode_facts_def Let_def due_def plan_hours_def split: if_splits option.splits)

lemma facts_actions_rows:
  "\<exists>e sc st inc. set (ef_actions (episode_facts D w i s)) \<subseteq> set (action_rows e sc st s inc)"
  unfolding episode_facts_def Let_def episode_facts.select_convs by (intro exI) (rule filter_is_subset)

lemma facts_actions_service:
  assumes "x \<in> set (ef_actions (episode_facts D w i s))"
  shows "xa_service x = ts_service s \<and> \<not> xa_production_write x"
proof -
  obtain e sc st inc where "x \<in> set (action_rows e sc st s inc)"
    using assms facts_actions_rows by blast
  then obtain d o' where "x = action_row e st s inc d o'"
    by (auto simp: action_rows_def split: option.splits)
  then show ?thesis by (simp add: action_row_def split: prod.split)
qed

lemma passed_episode:
  assumes "wf_request w = rq" "wf_snapshot w = wf_base w + us_of_hours (wr_as_of rq)" "0 \<le> wr_as_of rq"
    and "ep_lifecycle (episode_for D w (i, s)) = PASSED_24H"
  shows "ef_incident (episode_facts D w i s) = None" "ef_effective (episode_facts D w i s) \<le> wf_snapshot w"
    "ep_health (episode_for D w (i, s)) = GREEN"
proof -
  let ?f = "episode_facts D w i s" and ?e = "episode_for D w (i, s)"
  have lc: "ep_lifecycle ?e = lifecycle_of (ef_scenario ?f) (ef_age ?f) (ep_health ?e)
      (hours_between (ef_started ?f) (ef_effective ?f)) (ef_incident ?f)"
    by (simp add: episode_for_def episode_of_def Let_def)
  have age: "ef_age ?f = hours_between (ef_started ?f) (wf_snapshot w)"
    using facts_started [OF assms(3,1,2)] by simp
  have "\<not> (ef_incident ?f \<noteq> None \<and> plan_hours (ef_scenario ?f) ''incident'' \<le> ef_age ?f)"
    and at: "ef_effective ?f \<le> wf_snapshot w" "ep_health ?e = GREEN"
    using assms(4) unfolding lc lifecycle_passed age hours_between_le by simp_all
  then show "ef_incident ?f = None" using facts_incident_due by blast
  show "ef_effective ?f \<le> wf_snapshot w" "ep_health ?e = GREEN" by (rule at)+
qed

text \<open>
  C34. An episode that passed the watch is healthy and has no incident, its service was watched
  for at least a day, and the stability tail after the last service-affecting action on it was
  over at the snapshot.
\<close>

theorem passed_episode_is_stable:
  assumes "build_artifact D run date subs rq = Inr a" "0 \<le> wr_as_of rq"
    and "e \<in> set (wa_episodes a)" "ep_lifecycle e = PASSED_24H"
  shows "ep_health e = GREEN \<and> ep_incident e = None \<and> ep_started e + hours_of 24 \<le> ep_as_of e \<and>
     ep_effective_maturity e \<le> ep_as_of e \<and>
     (\<forall>x \<in> set (wa_actions a). xa_service x = ep_service e \<and> xa_affecting x \<longrightarrow>
        xa_scheduled x + us_of_hours (wr_tail rq) \<le> ep_as_of e)"
proof -
  obtain sel w where sel: "pick_subscribers subs (wr_population rq) (wr_seed rq) = Inr sel"
    and w: "wf_request w = rq" "wf_snapshot w = wf_base w + us_of_hours (wr_as_of rq)"
    and es: "wa_episodes a = map (episode_for D w) (enumerate 0 sel)"
    and acts: "wa_actions a = concat (map (\<lambda>p. ef_actions (episode_facts D w (fst p) (snd p))) (enumerate 0 sel))"
    using assms(1) by (rule build_artifact_Inr)
  obtain i s where p: "(i, s) \<in> set (enumerate 0 sel)" "e = episode_for D w (i, s)"
    using assms(3) es by auto
  let ?f = "episode_facts D w i s"
  have e: "ep_started e = ef_started ?f" "ep_as_of e = wf_snapshot w" "ep_effective_maturity e = ef_effective ?f"
    "ep_incident e = ef_incident ?f" "ep_service e = ts_service s"
    by (simp_all add: p(2) episode_for_def episode_of_def Let_def)
  note passed = passed_episode [OF w assms(2) assms(4) [unfolded p(2)], folded p(2)]
  have "xa_scheduled x + us_of_hours (wr_tail rq) \<le> wf_snapshot w"
    if x: "x \<in> set (wa_actions a)" "xa_service x = ts_service s" "xa_affecting x" for x
  proof -
    obtain j s' where j: "(j, s') \<in> set (enumerate 0 sel)" "x \<in> set (ef_actions (episode_facts D w j s'))"
      using x(1) unfolding acts by auto
    have "distinct (map ts_service sel)" using cohort_is_complete sel by blast
    moreover have "s' \<in> set sel" "s \<in> set sel" "sel ! j = s'" "sel ! i = s" "j < length sel" "i < length sel"
      using j(1) p(1) by (auto simp: in_set_enumerate_eq)
    moreover have "ts_service s' = ts_service s" using facts_actions_service [OF j(2)] x(2) by simp
    ultimately have "j = i" "s' = s" by (metis length_map nth_eq_iff_index_eq nth_map)+
    with j(2) x(3) facts_effective(2) [of x D w i s] w(1) passed(2) show ?thesis by simp
  qed
  then show ?thesis
    using passed facts_effective(1) [of D w i s] by (simp add: e)
qed

subsection \<open>The summary\<close>

lemma tally_partition:
  "distinct ks \<Longrightarrow> (\<And>x. f x \<in> set ks) \<Longrightarrow> sum_list (map (\<lambda>k. tally (\<lambda>x. f x = k) xs) ks) = length xs"
proof (induction xs)
  case (Cons x xs)
  have "sum_list (map (\<lambda>k. tally (\<lambda>y. f y = k) (x # xs)) ks) =
      sum_list (map (\<lambda>k. (if k = f x then 1 else 0) + tally (\<lambda>y. f y = k) xs) ks)"
    by (intro arg_cong [where f = sum_list] map_cong) (auto simp: tally_def)
  also have "\<dots> = sum_list (map (\<lambda>k. if k = f x then 1 else 0) ks) + length xs"
    using Cons by (simp add: sum_list_addf)
  also have "sum_list (map (\<lambda>k. if k = f x then 1 else 0) ks) = (1 :: nat)"
    using Cons.prems by (simp add: sum_list_distinct_conv_sum_set)
  finally show ?case by simp
qed (simp add: tally_def)

lemma lifecycle_listed: "s \<in> set lifecycle_states" and health_listed: "h \<in> set health_states"
  by (cases s; simp add: lifecycle_states_def) (cases h; simp add: health_states_def)

lemma tally_mono: "(\<And>x. x \<in> set xs \<Longrightarrow> P x \<Longrightarrow> Q x) \<Longrightarrow> tally P xs \<le> tally Q xs"
  unfolding tally_def by (induction xs) auto

text \<open>No row of any of the six kinds records a write to production.\<close>

definition rows_safe :: "watch_rows \<Rightarrow> bool" where
  "rows_safe r \<longleftrightarrow> list_all (\<lambda>e. \<not> ep_production_write e) (ww_episodes r) \<and>
     list_all (\<lambda>x. \<not> ob_production_write x) (ww_observations r) \<and>
     list_all (\<lambda>x. \<not> xa_production_write x) (ww_actions r) \<and>
     list_all (\<lambda>c. \<not> ic_production_write c) (ww_contacts r) \<and>
     list_all (\<lambda>p. \<not> ii_production_write (snd p)) (ww_incidents r) \<and>
     list_all (\<lambda>c. \<not> cx_production_write c) (ww_contexts r)"

lemma promote_safe:
  assumes "list_all (\<lambda>p. \<not> ii_production_write (snd p)) incidents"
  shows "list_all (\<lambda>p. \<not> ii_production_write (snd p)) (promote service f e incidents)"
proof -
  have new: "\<not> ii_production_write (new_install_incident service f iid)" for iid
    by (simp add: new_install_incident_def Let_def)
  have old: "\<not> ii_production_write i" if "map_of incidents iid = Some i" for iid i
    using assms map_of_SomeD [OF that] by (auto simp: list_all_iff)
  have "\<not> ii_production_write (snd q)" if "q \<in> set (dset iid j incidents)" "\<not> ii_production_write j" for q iid j
    using that assms subsetD [OF set_dset_subset that(1)] by (auto simp: list_all_iff)
  then show ?thesis
    using assms new old by (auto simp: promote_def Let_def list_all_iff split: option.split)
qed

lemma add_episode_safe: "rows_safe r \<Longrightarrow> rows_safe (add_episode D w p r)"
proof -
  assume safe: "rows_safe r"
  obtain i s where p: "p = (i, s)" by fastforce
  let ?f = "episode_facts D w i s"
  have "list_all (\<lambda>x. \<not> ob_production_write x) (ef_observations ?f)"
    by (auto simp: episode_facts_def Let_def list_all_iff observation_def split: prod.split)
  moreover have "list_all (\<lambda>x. \<not> xa_production_write x) (ef_actions ?f)"
    using facts_actions_service by (auto simp: list_all_iff)
  ultimately show ?thesis
    using safe promote_safe
    by (auto simp: p add_episode_def rows_safe_def Let_def episode_of_def episode_contact_def
        project_install_assurance_context_def split: option.split)
qed

lemma artifact_is_safe:
  assumes "build_artifact D run date subs rq = Inr a"
  shows "list_all (\<lambda>e. \<not> ep_production_write e) (wa_episodes a) \<and>
     list_all (\<lambda>x. \<not> ob_production_write x) (wa_observations a) \<and>
     list_all (\<lambda>x. \<not> xa_production_write x) (wa_actions a) \<and>
     list_all (\<lambda>c. \<not> ic_production_write c) (wa_contacts a) \<and>
     list_all (\<lambda>i. \<not> ii_production_write i) (wa_incidents a) \<and>
     list_all (\<lambda>c. \<not> cx_production_write c) (wa_contexts a)"
proof -
  have "rows_safe r \<Longrightarrow> rows_safe (fold (add_episode D w) ps r)" for w ps r
    by (induction ps arbitrary: r) (simp_all add: add_episode_safe)
  moreover have "rows_safe no_watch_rows" by (simp add: rows_safe_def no_watch_rows_def)
  ultimately have safe: "rows_safe (fold (add_episode D w) ps no_watch_rows)" for w ps by blast
  have settled: "(\<lambda>i. \<not> ii_production_write i) \<circ> (settled_incident \<circ> snd) = (\<lambda>p. \<not> ii_production_write (snd p))"
    by (simp add: fun_eq_iff settled_incident_def)
  obtain sel where sel: "pick_subscribers subs (wr_population rq) (wr_seed rq) = Inr sel"
    using assms unfolding build_artifact_def by (cases "pick_subscribers subs (wr_population rq) (wr_seed rq)") simp_all
  show ?thesis
    using assms [symmetric] safe [of "watch_frame D run date rq" "enumerate 0 sel"]
    by (simp add: build_artifact_def sel Let_def rows_safe_def list.pred_map settled)
qed

text \<open>
  C35. The summary of every watch reconciles: all its checks hold, and the states and the health
  of the episodes each add up to the requested population. Every episode it counts as passed had
  reached its effective maturity by the time of the snapshot, so it counts no more passed than
  matured ones. And no row of the watch, be it an episode, an observation, an action, a contact,
  an incident or a context for the contact centre, records a write to production.
\<close>

theorem watch_summary_reconciles:
  assumes "build_artifact D run date subs rq = Inr a" "0 \<le> wr_as_of rq"
  shows "list_all snd (su_reconciliation (wa_summary a)) \<and>
     int (length (wa_episodes a)) = wr_population rq \<and>
     sum_list (map snd (su_lifecycle (wa_summary a))) = length (wa_episodes a) \<and>
     sum_list (map snd (su_health (wa_summary a))) = length (wa_episodes a) \<and>
     su_passed (wa_summary a) = length (filter (\<lambda>e. ep_lifecycle e = PASSED_24H) (wa_episodes a)) \<and>
     (\<forall>e \<in> set (wa_episodes a). ep_lifecycle e = PASSED_24H \<longrightarrow> ep_effective_maturity e \<le> su_as_of (wa_summary a)) \<and>
     su_passed (wa_summary a) \<le> su_matured (wa_summary a) \<and>
     su_passed (wa_summary a) + su_promoted (wa_summary a) \<le> length (wa_episodes a) \<and>
     list_all (\<lambda>e. \<not> ep_production_write e) (wa_episodes a) \<and>
     list_all (\<lambda>x. \<not> ob_production_write x) (wa_observations a) \<and>
     list_all (\<lambda>x. \<not> xa_production_write x) (wa_actions a) \<and>
     list_all (\<lambda>c. \<not> ic_production_write c) (wa_contacts a) \<and>
     list_all (\<lambda>i. \<not> ii_production_write i) (wa_incidents a) \<and>
     list_all (\<lambda>c. \<not> cx_production_write c) (wa_contexts a)"
proof -
  obtain sel w where sel: "pick_subscribers subs (wr_population rq) (wr_seed rq) = Inr sel"
    and w: "wf_request w = rq" "wf_snapshot w = wf_base w + us_of_hours (wr_as_of rq)"
    and es: "wa_episodes a = map (episode_for D w) (enumerate 0 sel)"
    and acts: "wa_actions a = concat (map (\<lambda>p. ef_actions (episode_facts D w (fst p) (snd p))) (enumerate 0 sel))"
    and cons: "wa_contacts a = concat (map (\<lambda>p. case episode_contact D (snd p) (episode_facts D w (fst p) (snd p)) of
       None \<Rightarrow> [] | Some c \<Rightarrow> [c]) (enumerate 0 sel))"
    and su: "wa_summary a = watch_summary w (fold (add_episode D w) (enumerate 0 sel) no_watch_rows) (wa_incidents a)"
    using assms(1) by (rule build_artifact_Inr)
  let ?r = "fold (add_episode D w) (enumerate 0 sel) no_watch_rows"
  have r: "ww_episodes ?r = wa_episodes a" "ww_contacts ?r = wa_contacts a"
    by (simp_all add: fold_episodes es cons no_watch_rows_def)
  have states: "sum_list (map (\<lambda>s. tally (\<lambda>e. ep_lifecycle e = s) (wa_episodes a)) lifecycle_states) = length (wa_episodes a)"
    "sum_list (map (\<lambda>s. tally (\<lambda>e. ep_health e = s) (wa_episodes a)) health_states) = length (wa_episodes a)"
    by (intro tally_partition lifecycle_listed health_listed; simp add: lifecycle_states_def health_states_def)+
  have passed: "ep_incident e = None" "ep_effective_maturity e \<le> wf_snapshot w"
    if mem: "e \<in> set (wa_episodes a)" and lc: "ep_lifecycle e = PASSED_24H" for e
  proof -
    obtain i s where e: "e = episode_for D w (i, s)" using mem unfolding es by auto
    show "ep_incident e = None" "ep_effective_maturity e \<le> wf_snapshot w"
      using passed_episode [OF w assms(2) lc [unfolded e]] unfolding e
      by (simp_all add: episode_for_def episode_of_def Let_def)
  qed
  have promoted: "ep_incident e \<noteq> None"
    if mem: "e \<in> set (wa_episodes a)" and lc: "ep_lifecycle e = PROMOTED_TO_INCIDENT" for e
  proof -
    obtain p where "e = episode_for D w p" using mem unfolding es by auto
    with lc show ?thesis by (simp only: episode_for_fields lifecycle_promoted) simp
  qed
  have restarted: "\<not> ic_restarted c" if "c \<in> set (wa_contacts a)" for c
    using that by (auto simp: cons episode_contact_def split: option.splits if_splits)
  have "su_passed (wa_summary a) = tally (\<lambda>e. ep_lifecycle e = PASSED_24H) (wa_episodes a)"
    "su_promoted (wa_summary a) = tally (\<lambda>e. ep_lifecycle e = PROMOTED_TO_INCIDENT) (wa_episodes a)"
    "su_matured (wa_summary a) = tally (\<lambda>e. ep_effective_maturity e \<le> wf_snapshot w) (wa_episodes a)"
    by (simp_all add: su watch_summary_def Let_def r tally_def)
  moreover have "tally (\<lambda>e. ep_lifecycle e = PASSED_24H) (wa_episodes a) \<le>
      tally (\<lambda>e. ep_effective_maturity e \<le> wf_snapshot w) (wa_episodes a)"
    using passed(2) by (rule tally_mono)
  moreover have "tally (\<lambda>e. ep_lifecycle e = PASSED_24H) (wa_episodes a) +
      tally (\<lambda>e. ep_lifecycle e = PROMOTED_TO_INCIDENT) (wa_episodes a) \<le> length (wa_episodes a)"
    using states(1) by (simp add: lifecycle_states_def)
  moreover have "list_all snd (su_reconciliation (wa_summary a))"
    using passed(1) promoted restarted states
    by (simp add: su watch_summary_def Let_def r list_all_iff o_def)
  moreover have "sum_list (map snd (su_lifecycle (wa_summary a))) = length (wa_episodes a)"
    "sum_list (map snd (su_health (wa_summary a))) = length (wa_episodes a)"
    using states by (simp_all add: su watch_summary_def Let_def r o_def)
  moreover have "int (length (wa_episodes a)) = wr_population rq"
    using cohort_is_complete sel by (simp add: es)
  moreover have "su_as_of (wa_summary a) = wf_snapshot w" by (simp add: su watch_summary_def Let_def)
  then have "\<forall>e \<in> set (wa_episodes a). ep_lifecycle e = PASSED_24H \<longrightarrow> ep_effective_maturity e \<le> su_as_of (wa_summary a)"
    using passed(2) by simp
  moreover note artifact_is_safe [OF assms(1)]
  ultimately show ?thesis by (simp add: tally_def)
qed

subsection \<open>Creating a watch\<close>

text \<open>
  Creating a watch is idempotent: the same request answers with the same summary and stores
  nothing further, a watch once stored is never replaced, and a refused request stores nothing.
\<close>

theorem watch_created_once:
  assumes "create_install_assurance_watch D run date subs rq watches = (out, watches')"
  shows "(case out of
       Inl e \<Rightarrow> watches' = watches
     | Inr s \<Rightarrow> create_install_assurance_watch D run date subs rq watches' = (Inr s, watches') \<and>
         1 \<le> wr_population rq \<and> wr_population rq \<le> 5000 \<and> 0 \<le> wr_as_of rq \<and> wr_as_of rq \<le> 72) \<and>
     (\<forall>k a. map_of watches k = Some a \<longrightarrow> map_of watches' k = Some a)"
proof (cases "5000 < wr_population rq \<or> \<not> (0 \<le> wr_as_of rq \<and> wr_as_of rq \<le> 72) \<or>
    \<not> (1 \<le> wr_tail rq \<and> wr_tail rq \<le> 12)")
  case True
  with assms show ?thesis by (auto simp: create_install_assurance_watch_def split: if_splits)
next
  case False
  show ?thesis
  proof (cases "build_artifact D run date subs rq")
    case (Inl e)
    with assms False show ?thesis by (auto simp: create_install_assurance_watch_def)
  next
    case (Inr a)
    then have "is_ok (pick_subscribers subs (wr_population rq) (wr_seed rq))"
      by (cases "pick_subscribers subs (wr_population rq) (wr_seed rq)") (auto simp: build_artifact_def)
    then have "1 \<le> wr_population rq" by (auto simp: pick_subscribers_def is_ok_def split: if_splits)
    with assms False Inr show ?thesis
      by (auto simp: create_install_assurance_watch_def split: option.splits)
  qed
qed

subsection \<open>Healthy installations\<close>

lemma no_plan_green: "event_plan scenario = [] \<Longrightarrow> health_at scenario age = (GREEN, ''commissioning baseline stable'')"
  by (simp add: health_at_def due_def)

text \<open>A healthy installation passes after a day, without an action or an incident.\<close>

lemma healthy_install_passes:
  assumes "scenario_for i (ts_technology s) = ''healthy_hfc'' \<or> scenario_for i (ts_technology s) = ''healthy_pon''"
    and "24 \<le> wr_as_of rq" "wf_request w = rq" "wf_snapshot w = wf_base w + us_of_hours (wr_as_of rq)"
  shows "ep_lifecycle (episode_for D w (i, s)) = PASSED_24H"
proof -
  let ?sc = "scenario_for i (ts_technology s)" and ?f = "episode_facts D w i s"
  have plan: "event_plan ?sc = []" "start_offset_hours ?sc = 0"
    using assms(1) by (auto simp: event_plan_def event_plans_def start_offset_hours_def)
  have scenario: "ef_scenario ?f = ?sc" by (simp add: episode_facts_def Let_def)
  have zero: "us_of_hours 0 = 0" by (simp add: us_of_hours_def round_he_def)
  have no_actions: "action_rows e ?sc st s inc = []" for e st inc by (simp add: action_rows_def plan)
  have facts: "ef_started ?f = wf_base w" "ef_incident ?f = None" "ef_effective ?f = wf_base w + hours_of 24"
    using assms(2,3) by (simp_all add: episode_facts_def Let_def plan zero no_actions due_def max_instant_def)
  have "ep_health (episode_for D w (i, s)) = ob_health (last (ef_observations ?f))"
    by (simp add: episode_for_def episode_of_def Let_def)
  also have "\<dots> = GREEN"
  proof -
    have "0 \<in> set (observation_offsets age)" for age by (simp add: offsets_mem Let_def)
    then have "observation_offsets age \<noteq> []" for age by (metis list.set(1) empty_iff)
    then show ?thesis
      by (simp add: episode_facts_def Let_def last_map observation_def no_plan_green [OF plan(1)])
  qed
  finally have green: "ep_health (episode_for D w (i, s)) = GREEN" .
  have started: "ef_started ?f \<le> wf_snapshot w \<and> ef_age ?f = hours_between (ef_started ?f) (wf_snapshot w)"
    by (rule facts_started) (use assms in simp_all)
  have "us_of_hours 24 = hours_of 24" by (simp add: us_of_hours_def instant_defs round_he_def)
  then have "ef_effective ?f \<le> wf_snapshot w"
    using us_of_hours_mono [OF assms(2)] by (simp add: facts assms(4))
  then show ?thesis
    using started green by (simp add: episode_for_fields lifecycle_passed facts(2) hours_between_le)
qed

subsection \<open>Examples\<close>

definition demo_subscriber :: "string \<Rightarrow> string \<Rightarrow> subscriber" where
  "demo_subscriber n tech = \<lparr>ts_customer = ''C'' @ n, ts_account = ''A'' @ n, ts_premise = ''P'' @ n, ts_service = ''S'' @ n,
     ts_device = ''D'' @ n, ts_serial = n, ts_mac = n, ts_technology = tech, ts_region = ''metro'',
     ts_delimiter_type = ''TAP'', ts_delimiter = ''TAP-'' @ n, ts_port = n\<rparr>"

definition demo_subscribers :: "subscriber list" where
  "demo_subscribers = [demo_subscriber ''1'' ''HFC'', demo_subscriber ''2'' ''PON'']"

definition demo_request :: watch_request where
  "demo_request = \<lparr>wr_population = 2, wr_as_of = 24, wr_tail = 4, wr_seed = 0\<rparr>"

lemma demo_picked:
  "pick_subscribers demo_subscribers (wr_population demo_request) (wr_seed demo_request) = Inr demo_subscribers"
  by code_simp

definition demo_watch :: "watch_artifact res" where
  "demo_watch = build_artifact (\<lambda>x. ''x'') ''run'' 0 demo_subscribers demo_request"

theorem watch_summary_reconciles_witness:
  "\<exists>a. demo_watch = Inr a \<and> list_all snd (su_reconciliation (wa_summary a)) \<and> length (wa_episodes a) = 2"
proof -
  obtain a where a: "demo_watch = Inr a"
    by (auto simp: demo_watch_def build_artifact_def demo_picked Let_def)
  have rq: "0 \<le> wr_as_of demo_request" "wr_population demo_request = 2" by (simp_all add: demo_request_def)
  from watch_summary_reconciles [OF a [unfolded demo_watch_def] rq(1)] a rq(2) show ?thesis
    by (intro exI [of _ a]) auto
qed

theorem passed_episode_is_stable_witness:
  "\<exists>a e. demo_watch = Inr a \<and> e \<in> set (wa_episodes a) \<and> ep_lifecycle e = PASSED_24H \<and>
     ep_started e + hours_of 24 \<le> ep_as_of e"
proof -
  obtain a where a: "demo_watch = Inr a"
    by (auto simp: demo_watch_def build_artifact_def demo_picked Let_def)
  obtain sel w where sel: "pick_subscribers demo_subscribers (wr_population demo_request) (wr_seed demo_request) = Inr sel"
    and w: "wf_request w = demo_request" "wf_snapshot w = wf_base w + us_of_hours (wr_as_of demo_request)"
    and es: "wa_episodes a = map (episode_for (\<lambda>x. ''x'') w) (enumerate 0 sel)"
    using a [unfolded demo_watch_def] by (rule build_artifact_Inr)
  let ?e = "episode_for (\<lambda>x. ''x'') w (0, demo_subscriber ''1'' ''HFC'')"
  have "sel = demo_subscribers" using sel by (simp add: demo_picked)
  then have mem: "?e \<in> set (wa_episodes a)" by (simp add: es demo_subscribers_def)
  have passed: "ep_lifecycle ?e = PASSED_24H"
    by (rule healthy_install_passes) (simp_all add: w, simp_all add: demo_request_def demo_subscriber_def scenario_for_def install_scenarios_def ends_with_def)
  have "0 \<le> wr_as_of demo_request" by (simp add: demo_request_def)
  from passed_episode_is_stable [OF a [unfolded demo_watch_def] this mem passed] a mem passed show ?thesis by blast
qed

theorem watch_created_once_witness:
  "\<exists>s ws. create_install_assurance_watch (\<lambda>x. ''x'') ''run'' 0 demo_subscribers demo_request [] = (Inr s, ws) \<and>
     create_install_assurance_watch (\<lambda>x. ''x'') ''run'' 0 demo_subscribers demo_request ws = (Inr s, ws)"
proof -
  obtain a where a: "build_artifact (\<lambda>x. ''x'') ''run'' 0 demo_subscribers demo_request = Inr a"
    by (auto simp: build_artifact_def demo_picked Let_def)
  have created: "create_install_assurance_watch (\<lambda>x. ''x'') ''run'' 0 demo_subscribers demo_request [] =
      (Inr (wa_summary a), dset (su_watch (wa_summary a)) a [])"
    unfolding create_install_assurance_watch_def a by (simp add: demo_request_def)
  from watch_created_once [OF this] created show ?thesis by auto
qed

text \<open>
  The guard on the technology of a scenario looks at the end of its name only, and
  \<open>persistent_hfc_impairment\<close> does not end in \<open>_hfc\<close>: in a population with a single HFC service
  a PON service is watched for, and promoted with, an HFC fault.
\<close>

definition mixed_subscribers :: "subscriber list" where
  "mixed_subscribers = map (\<lambda>k. demo_subscriber (nat_str k) (if k = 0 then ''HFC'' else ''PON'')) [0..<6]"

lemma technology_guard_misses:
  "case pick_subscribers mixed_subscribers 6 0 of
     Inl e \<Rightarrow> False
   | Inr sel \<Rightarrow> ts_technology (sel ! 3) = ''PON'' \<and> scenario_for 3 (ts_technology (sel ! 3)) = ''persistent_hfc_impairment''"
  by code_simp

end
