(* ===== verification/CsvText.thy ===== *)
theory CsvText
  imports PyJson
begin

text \<open>
  The part of Python's \<open>csv\<close> module that reads the uploaded evidence: the state machine of
  \<open>csv.reader\<close> with its default dialect and \<open>strict=True\<close>, the dictionaries of
  \<open>csv.DictReader\<close>, and the newline translation of \<open>read_text\<close>. A reader yields its rows one by
  one and may fail after some of them, so its output is a list whose last item may be a failure.
  The text is the decoded one: the byte order mark that \<open>utf-8-sig\<close> drops at its start is U+FEFF,
  which is none of the characters of the model.
\<close>

definition NL :: char where "NL = CHR 0x0A"
definition CR :: char where "CR = CHR 0x0D"
definition QUOTE :: char where "QUOTE = CHR 0x22"
definition COMMA :: char where "COMMA = CHR '',''"

lemmas csv_consts = NL_def CR_def QUOTE_def COMMA_def

datatype csv_mode = START_RECORD | START_FIELD | IN_FIELD | IN_QUOTED | QUOTE_IN_QUOTED | EAT_CRNL

record csv_state =
  cs_mode :: csv_mode
  cs_field :: string
  cs_fields :: "string list"

definition csv_fresh :: csv_state where
  "csv_fresh = \<lparr>cs_mode = START_RECORD, cs_field = [], cs_fields = []\<rparr>"

definition save_field :: "csv_mode \<Rightarrow> csv_state \<Rightarrow> csv_state" where
  "save_field m s = s\<lparr>cs_mode := m, cs_field := [], cs_fields := cs_fields s @ [cs_field s]\<rparr>"

definition csv_field_limit :: int where "csv_field_limit = 131072"

definition add_char :: "csv_mode \<Rightarrow> char \<Rightarrow> csv_state \<Rightarrow> csv_state res" where
  "add_char m c s = (if csv_field_limit \<le> int (length (cs_field s)) then Inl (CsvError ''field larger than field limit (131072)'')
     else Inr (s\<lparr>cs_mode := m, cs_field := cs_field s @ [c]\<rparr>))"

text \<open>One character, or the end of a line; a field that ends at a newline leaves the newline to eat.\<close>

definition ends_line :: "char option \<Rightarrow> bool" where
  "ends_line c \<longleftrightarrow> c = None \<or> c = Some NL \<or> c = Some CR"

definition after_line :: "char option \<Rightarrow> csv_mode" where
  "after_line c = (if c = None then START_RECORD else EAT_CRNL)"

definition start_field :: "char option \<Rightarrow> csv_state \<Rightarrow> csv_state res" where
  "start_field c s =
     (if ends_line c then Inr (save_field (after_line c) s)
      else if c = Some QUOTE then Inr (s\<lparr>cs_mode := IN_QUOTED\<rparr>)
      else if c = Some COMMA then Inr (save_field START_FIELD s)
      else add_char IN_FIELD (the c) s)"

definition csv_char :: "char option \<Rightarrow> csv_state \<Rightarrow> csv_state res" where
  "csv_char c s = (case cs_mode s of
       START_RECORD \<Rightarrow>
         if c = None then Inr s
         else if ends_line c then Inr (s\<lparr>cs_mode := EAT_CRNL\<rparr>)
         else start_field c s
     | START_FIELD \<Rightarrow> start_field c s
     | IN_FIELD \<Rightarrow>
         if ends_line c then Inr (save_field (after_line c) s)
         else if c = Some COMMA then Inr (save_field START_FIELD s)
         else add_char IN_FIELD (the c) s
     | IN_QUOTED \<Rightarrow>
         if c = None then Inr s
         else if c = Some QUOTE then Inr (s\<lparr>cs_mode := QUOTE_IN_QUOTED\<rparr>)
         else add_char IN_QUOTED (the c) s
     | QUOTE_IN_QUOTED \<Rightarrow>
         if c = Some QUOTE then add_char IN_QUOTED QUOTE s
         else if c = Some COMMA then Inr (save_field START_FIELD s)
         else if ends_line c then Inr (save_field (after_line c) s)
         else Inl (CsvError ([CHR 0x27] @ '','' @ [CHR 0x27] @ '' expected after '' @ [CHR 0x27, QUOTE, CHR 0x27]))
     | EAT_CRNL \<Rightarrow>
         if c = None then Inr (s\<lparr>cs_mode := START_RECORD\<rparr>)
         else if ends_line c then Inr s
         else Inl (CsvError ''new-line character seen in unquoted field''))"

fun csv_chars :: "string \<Rightarrow> csv_state \<Rightarrow> csv_state res" where
  "csv_chars [] s = Inr s"
| "csv_chars (c # cs) s = bindR (csv_char (Some c) s) (csv_chars cs)"

definition csv_line :: "string \<Rightarrow> csv_state \<Rightarrow> csv_state res" where
  "csv_line l s = bindR (csv_chars l s) (csv_char None)"

text \<open>The lines of a text, each with its newline.\<close>

fun lines_keep :: "string \<Rightarrow> string list" where
  "lines_keep [] = []"
| "lines_keep (c # s) =
     (if c = NL then [c] # lines_keep s
      else case lines_keep s of [] \<Rightarrow> [[c]] | l # ls \<Rightarrow> (c # l) # ls)"

fun universal_newlines :: "string \<Rightarrow> string" where
  "universal_newlines [] = []"
| "universal_newlines [c] = [if c = CR then NL else c]"
| "universal_newlines (c # d # s) =
     (if c = CR then NL # (if d = NL then universal_newlines s else universal_newlines (d # s))
      else c # universal_newlines (d # s))"

text \<open>What the reader yields: rows with the number of lines read so far, and a failure at the end.\<close>

datatype csv_item = CsvRow "string list" nat | CsvFail string nat

fun csv_read :: "nat \<Rightarrow> csv_state \<Rightarrow> string list \<Rightarrow> csv_item list" where
  "csv_read n s [] =
     (if cs_field s \<noteq> [] \<or> cs_mode s = IN_QUOTED then [CsvFail ''unexpected end of data'' n] else [])"
| "csv_read n s (l # ls) = (case csv_line l s of
       Inl e \<Rightarrow> [CsvFail (exn_text e) (Suc n)]
     | Inr s' \<Rightarrow>
         if cs_mode s' = START_RECORD then CsvRow (cs_fields s') (Suc n) # csv_read (Suc n) csv_fresh ls
         else csv_read (Suc n) s' ls)"

definition csv_items :: "string \<Rightarrow> csv_item list" where
  "csv_items text0 = csv_read 0 csv_fresh (lines_keep (universal_newlines text0))"

subsection \<open>Dictionaries of rows\<close>

text \<open>
  A row as \<open>DictReader\<close> builds it: the named cells, the missing ones as \<open>None\<close>, and the cells
  beyond the header, which Python files under the key \<open>None\<close>.
\<close>

type_synonym raw_row = "(string \<times> string option) list \<times> string list option"

definition dict_row :: "string list \<Rightarrow> string list \<Rightarrow> raw_row" where
  "dict_row names cells =
     (foldl (\<lambda>d k. dset k None d) (foldl (\<lambda>d (k, v). dset k (Some v) d) [] (zip names cells))
        (drop (length cells) names),
      if length names < length cells then Some (drop (length names) cells) else None)"

definition blank_item :: "csv_item \<Rightarrow> bool" where
  "blank_item it \<longleftrightarrow> (case it of CsvRow cells n \<Rightarrow> cells = [] | CsvFail m n \<Rightarrow> False)"

subsection \<open>Plain lines\<close>

definition plain_cell :: "string \<Rightarrow> bool" where
  "plain_cell c \<longleftrightarrow> c \<noteq> [] \<and> int (length c) \<le> csv_field_limit \<and> NL \<notin> set c \<and> CR \<notin> set c \<and> QUOTE \<notin> set c \<and> COMMA \<notin> set c"

lemma csv_chars_append: "csv_chars (xs @ ys) s = bindR (csv_chars xs s) (csv_chars ys)"
  by (induction xs arbitrary: s) (auto simp: bindR_def split: sum.split)

lemma csv_chars_in_field:
  assumes "set w \<inter> {NL, CR, COMMA} = {}" "cs_mode s = IN_FIELD" "int (length (cs_field s) + length w) \<le> csv_field_limit"
  shows "csv_chars w s = Inr (s\<lparr>cs_field := cs_field s @ w\<rparr>)"
  using assms
proof (induction w arbitrary: s)
  case (Cons c w)
  have "csv_char (Some c) s = Inr (s\<lparr>cs_mode := IN_FIELD, cs_field := cs_field s @ [c]\<rparr>)"
    using Cons.prems by (auto simp: csv_char_def ends_line_def add_char_def)
  moreover have "csv_chars w (s\<lparr>cs_mode := IN_FIELD, cs_field := cs_field s @ [c]\<rparr>) =
      Inr (s\<lparr>cs_mode := IN_FIELD, cs_field := cs_field s @ [c] @ w\<rparr>)"
    using Cons.prems by (subst Cons.IH) auto
  moreover have "s\<lparr>cs_mode := IN_FIELD\<rparr> = s" using Cons.prems(2) by (cases s) simp
  ultimately show ?case by (simp add: csv_state.surjective)
qed simp

lemma csv_chars_cell:
  assumes "plain_cell w" "cs_mode s = START_FIELD \<or> cs_mode s = START_RECORD" "cs_field s = []"
  shows "csv_chars w s = Inr (s\<lparr>cs_mode := IN_FIELD, cs_field := w\<rparr>)"
proof (cases w)
  case (Cons c v)
  let ?s = "s\<lparr>cs_mode := IN_FIELD, cs_field := [c]\<rparr>"
  have "csv_char (Some c) s = Inr ?s"
    using assms unfolding Cons
    by (auto simp: csv_char_def start_field_def ends_line_def add_char_def plain_cell_def csv_field_limit_def)
  moreover have "csv_chars v ?s = Inr (?s\<lparr>cs_field := [c] @ v\<rparr>)"
    using assms(1) unfolding Cons by (subst csv_chars_in_field) (auto simp: plain_cell_def)
  ultimately show ?thesis by (simp add: Cons)
qed (use assms in \<open>simp add: plain_cell_def\<close>)

lemma csv_chars_plain:
  assumes "cells \<noteq> []" "list_all plain_cell cells" "cs_mode s = START_FIELD \<or> cs_mode s = START_RECORD" "cs_field s = []"
  shows "csv_chars (join [COMMA] cells @ [NL]) s =
     Inr (s\<lparr>cs_mode := EAT_CRNL, cs_field := [], cs_fields := cs_fields s @ cells\<rparr>)"
  using assms
proof (induction cells arbitrary: s)
  case (Cons c cells)
  let ?s = "s\<lparr>cs_mode := IN_FIELD, cs_field := c\<rparr>"
  have cell: "csv_chars c s = Inr ?s" using Cons.prems by (intro csv_chars_cell) auto
  show ?case
  proof (cases cells)
    case Nil
    then show ?thesis
      using cell by (simp add: csv_chars_append csv_char_def ends_line_def after_line_def save_field_def)
  next
    case (Cons d ds)
    have ends: "\<not> ends_line (Some COMMA)" by (simp add: ends_line_def csv_consts)
    let ?t = "s\<lparr>cs_mode := START_FIELD, cs_field := [], cs_fields := cs_fields s @ [c]\<rparr>"
    have "csv_char (Some COMMA) ?s = Inr ?t" by (simp add: csv_char_def ends save_field_def)
    moreover have "csv_chars (join [COMMA] cells @ [NL]) ?t =
        Inr (?t\<lparr>cs_mode := EAT_CRNL, cs_field := [], cs_fields := cs_fields ?t @ cells\<rparr>)"
      using Cons.prems Cons by (intro Cons.IH) auto
    ultimately show ?thesis
      using cell by (simp add: Cons csv_chars_append)
  qed
qed simp

lemma csv_line_plain:
  assumes "cells \<noteq> []" "list_all plain_cell cells"
  shows "csv_line (join [COMMA] cells @ [NL]) csv_fresh =
     Inr \<lparr>cs_mode = START_RECORD, cs_field = [], cs_fields = cells\<rparr>"
  by (simp add: csv_line_def csv_chars_plain [OF assms] csv_fresh_def csv_char_def)

text \<open>A text of plain lines is read line by line.\<close>

definition plain_line :: "string list \<Rightarrow> string" where
  "plain_line cells = join [COMMA] cells @ [NL]"

definition plain_row :: "string list \<Rightarrow> bool" where
  "plain_row cells \<longleftrightarrow> cells \<noteq> [] \<and> list_all plain_cell cells"

lemma plain_line_chars: "plain_row cells \<Longrightarrow> c \<in> set (join [COMMA] cells) \<Longrightarrow> c \<noteq> NL \<and> c \<noteq> CR"
proof (induction "[COMMA]" cells rule: join.induct)
  case (2 x)
  then show ?case by (auto simp: plain_row_def plain_cell_def)
next
  case (3 x y xs)
  then show ?case by (auto simp: plain_row_def plain_cell_def csv_consts)
qed simp

lemma universal_newlines_id: "CR \<notin> set s \<Longrightarrow> universal_newlines s = s"
  by (induction s rule: universal_newlines.induct) auto

lemma lines_keep_line: "NL \<notin> set w \<Longrightarrow> lines_keep (w @ NL # s) = (w @ [NL]) # lines_keep s"
  by (induction w) auto

lemma lines_keep_plain:
  "list_all plain_row rows \<Longrightarrow> lines_keep (concat (map plain_line rows)) = map plain_line rows"
proof (induction rows)
  case (Cons cells rows)
  have "NL \<notin> set (join [COMMA] cells)" using Cons.prems plain_line_chars [of cells NL] by auto
  then show ?case using Cons by (simp add: plain_line_def lines_keep_line)
qed simp

fun plain_items :: "nat \<Rightarrow> string list list \<Rightarrow> csv_item list" where
  "plain_items n [] = []"
| "plain_items n (cells # rows) = CsvRow cells (Suc n) # plain_items (Suc n) rows"

lemma csv_read_plain: "list_all plain_row rows \<Longrightarrow> csv_read n csv_fresh (map plain_line rows) = plain_items n rows"
proof (induction rows arbitrary: n)
  case (Cons cells rows)
  have "csv_line (plain_line cells) csv_fresh = Inr \<lparr>cs_mode = START_RECORD, cs_field = [], cs_fields = cells\<rparr>"
    using Cons.prems unfolding plain_line_def by (intro csv_line_plain) (auto simp: plain_row_def)
  then show ?case using Cons by simp
qed (simp add: csv_fresh_def)

lemma csv_items_plain:
  assumes "list_all plain_row rows"
  shows "csv_items (concat (map plain_line rows)) = plain_items 0 rows"
proof -
  have "CR \<notin> set (concat (map plain_line rows))"
    using assms plain_line_chars [of _ CR]
    by (auto simp: plain_line_def list_all_iff NL_def CR_def)
  then show ?thesis
    using assms by (simp add: csv_items_def universal_newlines_id lines_keep_plain csv_read_plain)
qed

end
