(* ===== verification/Evidence.thy ===== *)
theory Evidence
  imports CsvText Datetime Digest Tables
begin

text \<open>
  The intake of external evidence (\<open>digital_twin/external_evidence.py\<close>): the sources and their
  columns, the findings, the normalisation of a row and the reading of an uploaded file. A row is
  a dictionary of the canonical columns; an instant is a number of microseconds. A number is read
  as the rational its literal denotes: the special values \<open>nan\<close> and \<open>inf\<close> and underscores between
  digits are left out. The digest is an argument.
\<close>

subsection \<open>Sources\<close>

definition source_aliases :: "(string \<times> string) list" where
  "source_aliases =
     [(''identity'', ''identity_map''), (''identity_map'', ''identity_map''), (''nxt'',
      ''nxt_telemetry''), (''nxt_telemetry'', ''nxt_telemetry''), (''telemetry'',
      ''nxt_telemetry''), (''nxt_alarm'', ''nxt_alarms''), (''nxt_alarms'', ''nxt_alarms''),
      (''alarms'', ''nxt_alarms''), (''dvsum'', ''dvsum_caddi_insights''), (''caddi'',
      ''dvsum_caddi_insights''), (''cadi'', ''dvsum_caddi_insights''), (''dvsum_caddi'',
      ''dvsum_caddi_insights''), (''dvsum_caddi_insights'', ''dvsum_caddi_insights''), (''genesys'',
      ''genesys_interactions''), (''genesys_interactions'', ''genesys_interactions''), (''jtrack'',
      ''jtrack_events''), (''jtrack_events'', ''jtrack_events''), (''install'', ''install_cohort''),
      (''install_cohort'', ''install_cohort'')]"

record source_spec =
  ss_label :: string
  ss_grain :: string
  ss_required :: "string list"
  ss_required_any :: "string list list"
  ss_id_fields :: "string list"
  ss_timestamp_fields :: "string list"
  ss_numeric_fields :: "string list"
  ss_boolean_fields :: "string list"
  ss_aliases :: "(string \<times> string) list"

definition source_definitions :: "(string \<times> source_spec) list" where
  "source_definitions =
    [(''identity_map'',
       \<lparr>ss_label = ''Identity bridge'', ss_grain = ''service/device relationship per validity period'',
         ss_required = [''service_id'', ''device_id'', ''technology''],
         ss_required_any = [],
         ss_id_fields = [''service_id''],
         ss_timestamp_fields = [''valid_from'', ''valid_to''],
         ss_numeric_fields = [],
         ss_boolean_fields = [],
         ss_aliases = [(''subscriber_id'', ''service_id''), (''modem_id'', ''device_id''),
           (''cm_mac'', ''mac_address''), (''mac'', ''mac_address''), (''access_technology'',
           ''technology''), (''tap_or_odp_id'', ''delimiter_id'')]\<rparr>),
     (''nxt_telemetry'',
       \<lparr>ss_label = ''NXT telemetry'', ss_grain = ''one metric observation'',
         ss_required = [''observed_at'', ''metric_name'', ''metric_value''],
         ss_required_any = [[''service_id'', ''device_id'', ''mac_address'', ''serial_number'']],
         ss_id_fields = [''source_record_id'', ''event_id''],
         ss_timestamp_fields = [''observed_at'', ''collected_at''],
         ss_numeric_fields = [''metric_value''],
         ss_boolean_fields = [],
         ss_aliases = [(''timestamp'', ''observed_at''), (''event_timestamp'', ''observed_at''),
           (''modem_id'', ''device_id''), (''kpi'', ''metric_name''), (''value'', ''metric_value''),
           (''site_id'', ''delimiter_id''), (''record_id'', ''source_record_id'')]\<rparr>),
     (''nxt_alarms'',
       \<lparr>ss_label = ''NXT alarms'', ss_grain = ''one alarm lifecycle event'',
         ss_required = [''event_at'', ''alarm_code''],
         ss_required_any = [[''service_id'', ''device_id'', ''network_element_id'']],
         ss_id_fields = [''alarm_event_id'', ''source_record_id'', ''alarm_id''],
         ss_timestamp_fields = [''event_at'', ''raised_at'', ''cleared_at''],
         ss_numeric_fields = [''affected_services''],
         ss_boolean_fields = [''planned_work''],
         ss_aliases = [(''timestamp'', ''event_at''), (''event_timestamp'', ''event_at''),
           (''code'', ''alarm_code''), (''description'', ''alarm_text''), (''modem_id'',
           ''device_id''), (''site_id'', ''delimiter_id''), (''record_id'', ''source_record_id'')]\<rparr>),
     (''dvsum_caddi_insights'',
       \<lparr>ss_label = ''DvSum CADDI analytical insights'', ss_grain = ''one analytical insight or recommendation'',
         ss_required = [''insight_id'', ''generated_at'', ''service_id'', ''insight_type''],
         ss_required_any = [],
         ss_id_fields = [''insight_id''],
         ss_timestamp_fields = [''generated_at'', ''observed_at''],
         ss_numeric_fields = [''confidence''],
         ss_boolean_fields = [],
         ss_aliases = [(''created_at'', ''generated_at''), (''domain'', ''suspected_domain''),
           (''action'', ''recommended_action''), (''route'', ''recommended_route''), (''sources'',
           ''underlying_sources''), (''evidence_ids'', ''evidence_record_ids''), (''record_id'',
           ''insight_id'')]\<rparr>),
     (''genesys_interactions'',
       \<lparr>ss_label = ''Genesys interactions'', ss_grain = ''one interaction/contact attempt'',
         ss_required = [''interaction_id'', ''opened_at'', ''service_id''],
         ss_required_any = [],
         ss_id_fields = [''interaction_id''],
         ss_timestamp_fields = [''opened_at'', ''closed_at''],
         ss_numeric_fields = [],
         ss_boolean_fields = [''repeat_contact''],
         ss_aliases = [(''contact_id'', ''interaction_id''), (''contact_timestamp'',
           ''opened_at''), (''reason'', ''contact_reason''), (''disposition'', ''contact_outcome''),
           (''record_id'', ''interaction_id'')]\<rparr>),
     (''jtrack_events'',
       \<lparr>ss_label = ''JTrack maintenance and repair events'', ss_grain = ''one MR/work lifecycle event'',
         ss_required = [''event_id'', ''mr_id'', ''event_at'', ''status''],
         ss_required_any = [[''service_id'', ''incident_id'', ''delimiter_id'']],
         ss_id_fields = [''event_id''],
         ss_timestamp_fields = [''event_at''],
         ss_numeric_fields = [''repeat_sequence''],
         ss_boolean_fields = [''evidence_complete''],
         ss_aliases = [(''timestamp'', ''event_at''), (''mr_status'', ''status''), (''result'',
           ''outcome''), (''site_id'', ''delimiter_id''), (''record_id'', ''event_id'')]\<rparr>),
     (''install_cohort'',
       \<lparr>ss_label = ''Installation cohort'', ss_grain = ''one installation commissioning event'',
         ss_required = [''install_work_order_id'', ''service_id'', ''device_id'',
           ''installed_at''],
         ss_required_any = [],
         ss_id_fields = [''install_work_order_id''],
         ss_timestamp_fields = [''installed_at''],
         ss_numeric_fields = [],
         ss_boolean_fields = [''baseline_complete''],
         ss_aliases = [(''work_order_id'', ''install_work_order_id''), (''completed_at'',
           ''installed_at''), (''commissioned_at'', ''installed_at''), (''record_id'',
           ''install_work_order_id'')]\<rparr>)]"

definition csv_templates :: "(string \<times> string list) list" where
  "csv_templates =
    [(''identity_map'',
       [''service_id'', ''customer_id'', ''service_account_id'', ''premise_id'', ''device_id'',
        ''serial_number'', ''mac_address'', ''technology'', ''delimiter_type'', ''delimiter_id'',
        ''access_port_id'', ''node_id'', ''valid_from'', ''valid_to'']),
     (''nxt_telemetry'',
       [''source_record_id'', ''observed_at'', ''service_id'', ''device_id'', ''technology'',
        ''delimiter_id'', ''network_element_id'', ''metric_name'', ''metric_value'', ''unit'',
        ''quality'', ''extract_id'']),
     (''nxt_alarms'',
       [''alarm_event_id'', ''alarm_id'', ''event_at'', ''event_type'', ''severity'',
        ''service_id'', ''device_id'', ''technology'', ''network_element_id'', ''delimiter_id'',
        ''alarm_code'', ''alarm_text'', ''affected_services'', ''planned_work'',
        ''source_record_id'']),
     (''dvsum_caddi_insights'',
       [''insight_id'', ''generated_at'', ''service_id'', ''interaction_id'', ''incident_id'',
        ''insight_type'', ''suspected_domain'', ''confidence'', ''recommended_route'',
        ''recommended_action'', ''underlying_sources'', ''evidence_record_ids'',
        ''freshness_status'', ''model_or_rule_version'', ''authoritative_status_source'']),
     (''genesys_interactions'',
       [''interaction_id'', ''opened_at'', ''closed_at'', ''customer_id'', ''service_id'',
        ''channel'', ''queue'', ''contact_reason'', ''wrapup_code'', ''repeat_contact'',
        ''agent_id'', ''transcript_summary'', ''customer_sentiment'', ''contact_outcome'']),
     (''jtrack_events'',
       [''event_id'', ''mr_id'', ''event_at'', ''status'', ''incident_id'', ''service_id'',
        ''work_order_id'', ''delimiter_type'', ''delimiter_id'', ''network_element_id'', ''owner'',
        ''priority'', ''evidence_complete'', ''action_taken'', ''outcome'', ''resolution_code'',
        ''repeat_sequence'', ''source_record_id'']),
     (''install_cohort'',
       [''install_work_order_id'', ''service_id'', ''device_id'', ''install_type'',
        ''installed_at'', ''technician_id'', ''commissioning_status'', ''baseline_complete'',
        ''product_profile'', ''source_system''])]"

definition allowed_domains :: "string list" where
  "allowed_domains =
     [''cpe'', ''wifi_or_home'', ''premise_wiring'', ''drop'', ''hfc_tap'', ''pon_odp'',
      ''shared_network'', ''plant'', ''provisioning'', ''service_platform'', ''commercial_power'',
      ''unknown'']"

definition allowed_actions :: "string list" where
  "allowed_actions =
     [''attach_to_existing_incident'', ''attach_to_existing_mr'', ''collect_more_evidence'',
      ''expanded_rf_diagnostics'', ''optical_diagnostics'', ''validate_or_reprovision'',
      ''wifi_diagnostics'', ''clean_boots_assessment'', ''manual_review'', ''monitor'']"

definition spec_of :: "string \<Rightarrow> source_spec" where
  "spec_of source = (case map_of source_definitions source of Some s \<Rightarrow> s | None \<Rightarrow> snd (hd source_definitions))"

text \<open>Runs of other characters become one underscore, and none is left at the ends.\<close>

definition header_char :: "char \<Rightarrow> bool" where
  "header_char c \<longleftrightarrow> (let n = (of_char c :: nat) in 97 \<le> n \<and> n \<le> 122) \<or> is_digit_char c"

lemma length_dropWhile_Suc [termination_simp]: "length (dropWhile P s) < Suc (length s)"
  by (simp add: le_imp_less_Suc length_dropWhile_le)

fun sub_runs :: "(char \<Rightarrow> bool) \<Rightarrow> string \<Rightarrow> string" where
  "sub_runs P [] = []"
| "sub_runs P (c # s) = (if P c then CHR ''_'' # sub_runs P (dropWhile P s) else c # sub_runs P s)"

definition strip_char :: "char \<Rightarrow> string \<Rightarrow> string" where
  "strip_char c s = rev (dropWhile (\<lambda>d. d = c) (rev (dropWhile (\<lambda>d. d = c) s)))"

definition normalise_header :: "string \<Rightarrow> string" where
  "normalise_header value =
     strip_char (CHR ''_'') (sub_runs (\<lambda>c. c = CHR ''_'') (sub_runs (\<lambda>c. \<not> header_char c) (lower (strip value))))"

definition canonical_source_type :: "string \<Rightarrow> string res" where
  "canonical_source_type source_type = (case map_of source_aliases (normalise_header source_type) of
       Some s \<Rightarrow> Inr s
     | None \<Rightarrow> Inl (ValueError (''unknown external evidence source: '' @ source_type)))"

definition csv_template :: "string \<Rightarrow> string res" where
  "csv_template source_type = bindR (canonical_source_type source_type) (\<lambda>source.
     case map_of csv_templates source of
       None \<Rightarrow> Inl (KeyError source)
     | Some columns \<Rightarrow> Inr (join [COMMA] columns @ [NL]))"

definition canonical_column :: "string \<Rightarrow> string \<Rightarrow> string" where
  "canonical_column source header = (let h = normalise_header header in
     case map_of (ss_aliases (spec_of source)) h of None \<Rightarrow> h | Some c \<Rightarrow> c)"

subsection \<open>Findings\<close>

datatype issue_severity = ISS_INFO | ISS_WARNING | ISS_ERROR

record quality_issue =
  qi_code :: string
  qi_severity :: issue_severity
  qi_message :: string
  qi_source :: "string option"
  qi_file :: "string option"
  qi_row :: "int option"
  qi_field :: "string option"
  qi_service :: "string option"
  qi_records :: "string list"

text \<open>A finding on a row of a file, on a field of it, and one on a service and its records.\<close>

definition row_issue :: "string \<Rightarrow> issue_severity \<Rightarrow> string \<Rightarrow> string \<Rightarrow> string \<Rightarrow> int \<Rightarrow> string option \<Rightarrow> quality_issue" where
  "row_issue code sev message source file n field =
     \<lparr>qi_code = code, qi_severity = sev, qi_message = message, qi_source = Some source, qi_file = Some file,
      qi_row = Some n, qi_field = field, qi_service = None, qi_records = []\<rparr>"

definition file_issue :: "string \<Rightarrow> string \<Rightarrow> string \<Rightarrow> string \<Rightarrow> int option \<Rightarrow> quality_issue" where
  "file_issue code message source file n =
     \<lparr>qi_code = code, qi_severity = ISS_ERROR, qi_message = message, qi_source = Some source,
      qi_file = Some file, qi_row = n, qi_field = None, qi_service = None, qi_records = []\<rparr>"

definition batch_issue :: "string \<Rightarrow> string \<Rightarrow> quality_issue" where
  "batch_issue code message =
     \<lparr>qi_code = code, qi_severity = ISS_ERROR, qi_message = message, qi_source = None,
      qi_file = None, qi_row = None, qi_field = None, qi_service = None, qi_records = []\<rparr>"

subsection \<open>Cells\<close>

text \<open>\<open>str(row.get(field, ""))\<close>, stripped and not.\<close>

definition cell :: "string \<Rightarrow> dict \<Rightarrow> string" where
  "cell field row = py_str (dget_or field (JStr []) row)"

definition cell_strip :: "string \<Rightarrow> dict \<Rightarrow> string" where
  "cell_strip field row = strip (cell field row)"

definition upper :: "string \<Rightarrow> string" where
  "upper s = map upper_char s"

text \<open>The literal of a finite float: an optional sign, digits with an optional point, an exponent.\<close>

definition read_mantissa :: "string \<Rightarrow> rat option" where
  "read_mantissa s = (case split_at (CHR ''.'') s of
       (a, None) \<Rightarrow> (if all_digits a then Some (of_nat (digits_val a)) else None)
     | (a, Some b) \<Rightarrow>
         (if (a = [] \<or> all_digits a) \<and> (b = [] \<or> all_digits b) \<and> (a \<noteq> [] \<or> b \<noteq> [])
          then Some (of_nat (digits_val a) + of_nat (digits_val b) / 10 ^ length b) else None))"

definition ten_to :: "int \<Rightarrow> rat" where
  "ten_to e = (if 0 \<le> e then 10 ^ nat e else 1 / 10 ^ nat (- e))"

definition read_unsigned :: "string \<Rightarrow> rat option" where
  "read_unsigned s = (case split_at (CHR ''e'') (lower s) of
       (m, None) \<Rightarrow> read_mantissa m
     | (m, Some e) \<Rightarrow> (case (read_mantissa m, parse_int e) of
         (Some r, Some k) \<Rightarrow> Some (r * ten_to k) | _ \<Rightarrow> None))"

text \<open>Underscores may group digits: one at a time, between two digits.\<close>

fun ungroup :: "bool \<Rightarrow> string \<Rightarrow> string option" where
  "ungroup after_digit [] = Some []"
| "ungroup after_digit (c # cs) =
     (if c = CHR ''_''
      then (case cs of [] \<Rightarrow> None
            | d # _ \<Rightarrow> if after_digit \<and> is_digit_char d then ungroup False cs else None)
      else map_option ((#) c) (ungroup (is_digit_char c) cs))"

text \<open>
  \<open>float(text)\<close> for the finite floats. The literals of infinity and of not-a-number, which Python
  reads as well, have no rational value: here they are not numbers.
\<close>

definition read_float :: "string \<Rightarrow> rat option" where
  "read_float text0 = (case ungroup False (strip text0) of
       None \<Rightarrow> None
     | Some [] \<Rightarrow> None
     | Some (c # cs) \<Rightarrow> if c = CHR ''-'' then map_option uminus (read_unsigned cs)
       else if c = CHR ''+'' then read_unsigned cs else read_unsigned (c # cs))"

definition looks_numeric :: "string \<Rightarrow> bool" where
  "looks_numeric value \<longleftrightarrow> read_float value \<noteq> None"

text \<open>\<open>float(value)\<close> on a value of a row.\<close>

definition float_of :: "json \<Rightarrow> rat res" where
  "float_of v = (case v of JStr s \<Rightarrow> (case read_float s of
       None \<Rightarrow> Inl (ValueError (''could not convert string to float: '' @ str_repr s)) | Some r \<Rightarrow> Inr r)
     | _ \<Rightarrow> py_float v)"

definition bool_value :: "string \<Rightarrow> bool res" where
  "bool_value value = (let t = lower (strip value) in
     if List.member [''true'', ''1'', ''yes'', ''y''] t then Inr True
     else if List.member [''false'', ''0'', ''no'', ''n'', []] t then Inr False
     else Inl (ValueError ''expected a boolean''))"

definition iso :: "int \<Rightarrow> string" where
  "iso t = (let s = isoformat (utc t); k = length s - 6 in
     if ends_with ''+00:00'' s then take k s @ ''Z'' else s)"

definition parse_datetime :: "string \<Rightarrow> int res" where
  "parse_datetime value = (let t = strip value in
     if t = [] then Inl (ValueError ''timestamp is empty'')
     else bindR (fromisoformat (replace_z t)) (\<lambda>parsed.
       if dt_off parsed = None then Inl (ValueError ''timestamp must include a timezone'')
       else Inr (instant parsed)))"

subsection \<open>Normalising a row\<close>

text \<open>Each pass takes the row and gives it back with the findings it adds.\<close>

type_synonym row_pass = "dict \<Rightarrow> dict \<times> quality_issue list"

definition then_pass :: "row_pass \<Rightarrow> row_pass \<Rightarrow> row_pass" where
  "then_pass f g row = (case f row of (r1, i1) \<Rightarrow> case g r1 of (r2, i2) \<Rightarrow> (r2, i1 @ i2))"

fun passes :: "row_pass list \<Rightarrow> row_pass" where
  "passes [] row = (row, [])"
| "passes (p # ps) row = then_pass p (passes ps) row"

definition formula_prefix :: "string \<Rightarrow> bool" where
  "formula_prefix value \<longleftrightarrow> (case value of [] \<Rightarrow> False | c # s \<Rightarrow> c \<in> set ''=+-@'')"

definition cell_pass :: "string \<Rightarrow> string \<Rightarrow> int \<Rightarrow> string \<times> string option \<Rightarrow> row_pass" where
  "cell_pass source file n c row =
     (let key = canonical_column source (fst c);
          value = (case snd c of None \<Rightarrow> [] | Some v \<Rightarrow> strip v)
      in (dset key (JStr value) row,
          if formula_prefix value \<and> \<not> looks_numeric value
          then [row_issue ''CSV_FORMULA_PREFIX'' ISS_WARNING
            ''Value begins with a spreadsheet formula prefix; keep it as text on export.'' source file n (Some key)]
          else []))"

definition extra_pass :: "string \<Rightarrow> string \<Rightarrow> int \<Rightarrow> string list option \<Rightarrow> row_pass" where
  "extra_pass source file n extra row =
     (row, case extra of None \<Rightarrow> [] | Some cs \<Rightarrow>
        [row_issue ''EXTRA_CSV_COLUMNS'' ISS_ERROR ''Row contains values beyond the declared CSV header.'' source file n None])"

definition required_pass :: "string \<Rightarrow> string \<Rightarrow> int \<Rightarrow> string \<Rightarrow> row_pass" where
  "required_pass source file n field row =
     (row, if cell_strip field row = []
      then [row_issue ''REQUIRED_FIELD_MISSING'' ISS_ERROR (''Required field '' @ field @ '' is missing.'') source file n (Some field)]
      else [])"

definition identity_pass :: "string \<Rightarrow> string \<Rightarrow> int \<Rightarrow> string list \<Rightarrow> row_pass" where
  "identity_pass source file n names row =
     (row, if list_all (\<lambda>field. cell_strip field row = []) names
      then [row_issue ''IDENTITY_FIELD_MISSING'' ISS_ERROR
        (''At least one identity field is required: '' @ join '', '' names @ ''.'') source file n None]
      else [])"

definition timestamp_pass :: "string \<Rightarrow> string \<Rightarrow> int \<Rightarrow> string \<Rightarrow> row_pass" where
  "timestamp_pass source file n field row =
     (let value = cell_strip field row in
      if value = [] then (row, [])
      else case parse_datetime value of
          Inr t \<Rightarrow> (dset field (JStr (iso t)) row, [])
        | Inl e \<Rightarrow> (row, [row_issue ''INVALID_TIMESTAMP'' ISS_ERROR (field @ '': '' @ exn_text e) source file n (Some field)]))"

definition numeric_pass :: "string \<Rightarrow> string \<Rightarrow> int \<Rightarrow> string \<Rightarrow> row_pass" where
  "numeric_pass source file n field row =
     (let value = cell_strip field row in
      if value = [] then (dset field JNull row, [])
      else case read_float value of
          Some r \<Rightarrow> (dset field (JFloat r) row, [])
        | None \<Rightarrow> (row, [row_issue ''INVALID_NUMBER'' ISS_ERROR (field @ '' must be numeric.'') source file n (Some field)]))"

definition boolean_pass :: "string \<Rightarrow> string \<Rightarrow> int \<Rightarrow> string \<Rightarrow> row_pass" where
  "boolean_pass source file n field row = (case bool_value (cell_strip field row) of
       Inr b \<Rightarrow> (dset field (JBool b) row, [])
     | Inl e \<Rightarrow> (row, [row_issue ''INVALID_BOOLEAN'' ISS_ERROR (field @ '' must be true or false.'') source file n (Some field)]))"

definition technology_pass :: "string \<Rightarrow> string \<Rightarrow> int \<Rightarrow> row_pass" where
  "technology_pass source file n row =
     (if \<not> truthy (dget ''technology'' row) then (row, [])
      else let given = py_str (dget ''technology'' row);
               t0 = map (\<lambda>c. if c = CHR ''-'' then CHR ''_'' else c) (upper given);
               t = (if t0 = ''PON'' then ''GPON'' else if t0 = ''XGSPON'' then ''XGS_PON'' else t0)
           in (dset ''technology'' (JStr t) row,
               if List.member [''HFC'', ''GPON'', ''XGS_PON''] t then []
               else [row_issue ''UNKNOWN_TECHNOLOGY'' ISS_ERROR (''Unsupported technology '' @ given @ ''.'') source file n (Some ''technology'')]))"

text \<open>
  The range of the confidence is checked on whatever the row holds under that name; text that is
  no number raises.
\<close>

definition confidence_issues :: "string \<Rightarrow> string \<Rightarrow> int \<Rightarrow> dict \<Rightarrow> quality_issue list res" where
  "confidence_issues source file n row =
     (let confidence = dget ''confidence'' row in
      if confidence = JNull then Inr []
      else bindR (float_of confidence) (\<lambda>c.
        if 0 \<le> c \<and> c \<le> 1 then Inr []
        else Inr [row_issue ''CONFIDENCE_OUT_OF_RANGE'' ISS_ERROR ''confidence must be between 0 and 1.'' source file n (Some ''confidence'')]))"

definition record_id :: "(string \<Rightarrow> string) \<Rightarrow> string \<Rightarrow> dict \<Rightarrow> int \<Rightarrow> string" where
  "record_id D source row n =
     (case filter (\<lambda>field. cell_strip field row \<noteq> []) (ss_id_fields (spec_of source)) of
        field # _ \<Rightarrow> cell_strip field row
      | [] \<Rightarrow> ''EXT-'' @ upper source @ ''-'' @
          upper (take 16 (sha_hex D (source @ ''|'' @ int_str n @ ''|'' @ json_dumps (JObj row)))))"

definition stamp_row :: "(string \<Rightarrow> string) \<Rightarrow> string \<Rightarrow> string \<Rightarrow> string \<Rightarrow> int \<Rightarrow> dict \<Rightarrow> dict" where
  "stamp_row D batch source file n row =
     dset ''production_write'' (JBool False) (dset ''import_batch_id'' (JStr batch)
       (dset ''source_row_number'' (JInt n) (dset ''source_file'' (JStr file)
         (dset ''source_type'' (JStr source) (dset ''record_id'' (JStr (record_id D source row n)) row)))))"

definition column_passes :: "string \<Rightarrow> string \<Rightarrow> int \<Rightarrow> raw_row \<Rightarrow> row_pass list" where
  "column_passes source file n raw = (let spec = spec_of source in
     map (cell_pass source file n) (fst raw) @ [extra_pass source file n (snd raw)] @
     map (required_pass source file n) (ss_required spec) @
     map (identity_pass source file n) (ss_required_any spec) @
     map (timestamp_pass source file n) (ss_timestamp_fields spec) @
     map (numeric_pass source file n) (ss_numeric_fields spec) @
     map (boolean_pass source file n) (ss_boolean_fields spec) @ [technology_pass source file n])"

definition normalise_row ::
    "(string \<Rightarrow> string) \<Rightarrow> string \<Rightarrow> string \<Rightarrow> string \<Rightarrow> int \<Rightarrow> raw_row \<Rightarrow> (dict \<times> quality_issue list) res" where
  "normalise_row D batch source file n raw =
     (case passes (column_passes source file n raw) [] of (row, issues) \<Rightarrow>
        bindR (confidence_issues source file n row) (\<lambda>more0.
          Inr (stamp_row D batch source file n row, issues @ more0)))"

subsection \<open>Reading a file\<close>

text \<open>The digits of a number in groups of three.\<close>

fun group3 :: "string \<Rightarrow> string" where
  "group3 (a # b # c # d # s) = a # b # c # CHR '','' # group3 (d # s)"
| "group3 s = s"

definition thousands :: "int \<Rightarrow> string" where
  "thousands n = rev (group3 (rev (int_str n)))"

definition batch_max_rows :: int where "batch_max_rows = 500000"
definition file_max_rows :: int where "file_max_rows = 200000"

text \<open>
  The loop over the reader. The row number counts from two and skips blank lines; the row beyond
  the limit ends the file, and so does malformed text.
\<close>

fun read_rows ::
    "(string \<Rightarrow> string) \<Rightarrow> string \<Rightarrow> string \<Rightarrow> string \<Rightarrow> int \<Rightarrow> string list \<Rightarrow> int \<Rightarrow> csv_item list \<Rightarrow>
      (dict list \<times> quality_issue list) res" where
  "read_rows D batch source file limit names n [] = Inr ([], [])"
| "read_rows D batch source file limit names n (CsvFail m line # items) =
     Inr ([], [file_issue ''CSV_PARSE_ERROR'' (''Malformed CSV: '' @ m) source file
       (if line = 0 then None else Some (int line))])"
| "read_rows D batch source file limit names n (CsvRow cells line # items) =
     (if limit + 1 < n
      then Inr ([], [file_issue ''ROW_LIMIT_EXCEEDED'' (''CSV exceeds its remaining '' @ thousands limit @
        ''-row batch allowance.'') source file (Some n)])
      else bindR (normalise_row D batch source file n (dict_row names cells)) (\<lambda>(row, is).
        bindR (read_rows D batch source file limit names (n + 1) items) (\<lambda>(rows, js).
          Inr (row # rows, is @ js))))"

definition duplicate_headers :: "string list \<Rightarrow> string list" where
  "duplicate_headers headers = sort (dedup (filter (\<lambda>h. 1 < length (filter (\<lambda>k. k = h) headers)) headers))"

definition parse_source_file ::
    "(string \<Rightarrow> string) \<Rightarrow> string \<Rightarrow> string \<Rightarrow> string \<Rightarrow> string \<Rightarrow> int \<Rightarrow> (dict list \<times> quality_issue list) res" where
  "parse_source_file D batch source file content limit = (case csv_items content of
       CsvFail m line # _ \<Rightarrow> Inl (CsvError m)
     | [] \<Rightarrow> Inr ([], [file_issue ''CSV_HEADER_MISSING'' ''CSV has no header row.'' source file None])
     | CsvRow names line # items \<Rightarrow>
         if names = []
         then Inr ([], [file_issue ''CSV_HEADER_MISSING'' ''CSV has no header row.'' source file None])
         else let dups = duplicate_headers (map (canonical_column source) names);
                  heads = (if dups = [] then [] else
                    [file_issue ''DUPLICATE_CANONICAL_COLUMN''
                      (''CSV headers map to duplicate canonical columns: '' @ join '', '' dups) source file None])
              in bindR (read_rows D batch source file limit names 2 (filter (\<lambda>it. \<not> blank_item it) items))
                   (\<lambda>(rows, is). Inr (rows, heads @ is)))"

end
