(* ===== verification/EvidenceChecks.thy ===== *)
theory EvidenceChecks
  imports Evidence
begin

text \<open>
  The deterministic validation of a batch of external evidence: duplicates, the correlation with
  the identity map, plausibility, the checks across sources, the dispositions of the rows and the
  reports. The checks that write into rows give the rows back; a batch is the list of its sources
  with their rows, in the order of the upload.
\<close>

type_synonym batch_rows = "(string \<times> dict list) list"

definition rows_of :: "string \<Rightarrow> batch_rows \<Rightarrow> dict list" where
  "rows_of source records = (case map_of records source of None \<Rightarrow> [] | Some rows \<Rightarrow> rows)"

definition all_rows :: "batch_rows \<Rightarrow> dict list" where
  "all_rows records = concat (map snd records)"

definition or_none :: "string \<Rightarrow> string option" where
  "or_none s = (if s = [] then None else Some s)"

subsection \<open>Findings on rows\<close>

type_synonym row_key = "string \<times> string \<times> int"

definition row_number :: "dict \<Rightarrow> int" where
  "row_number row = (case dget ''source_row_number'' row of JInt n \<Rightarrow> n | _ \<Rightarrow> 0)"

definition row_key :: "dict \<Rightarrow> row_key" where
  "row_key row = (cell ''source_type'' row, cell ''source_file'' row, row_number row)"

definition issue_key :: "quality_issue \<Rightarrow> row_key option" where
  "issue_key i = (case (qi_source i, qi_file i, qi_row i) of
       (Some s, Some f, Some n) \<Rightarrow> Some (s, f, n) | _ \<Rightarrow> None)"

definition error_row_keys :: "quality_issue list \<Rightarrow> row_key list" where
  "error_row_keys issues = List.map_filter issue_key (filter (\<lambda>i. qi_severity i = ISS_ERROR) issues)"

definition row_has_error :: "quality_issue list \<Rightarrow> dict \<Rightarrow> bool" where
  "row_has_error issues row \<longleftrightarrow> List.member (error_row_keys issues) (row_key row)"

definition row_note ::
    "string \<Rightarrow> issue_severity \<Rightarrow> string \<Rightarrow> string \<Rightarrow> dict \<Rightarrow> string option \<Rightarrow> string option \<Rightarrow> string list \<Rightarrow> quality_issue" where
  "row_note code sev message source row field service records =
     \<lparr>qi_code = code, qi_severity = sev, qi_message = message, qi_source = Some source,
      qi_file = Some (cell ''source_file'' row), qi_row = Some (row_number row), qi_field = field,
      qi_service = service, qi_records = filter (\<lambda>r. r \<noteq> []) records\<rparr>"

subsection \<open>Duplicates\<close>

fun duplicate_rows ::
    "string \<Rightarrow> (string \<times> string \<times> int) list \<Rightarrow> dict list \<Rightarrow> (string \<times> string \<times> int) list \<times> quality_issue list" where
  "duplicate_rows source seen [] = (seen, [])"
| "duplicate_rows source seen (row # rows) =
     (let rid = cell ''record_id'' row in
      case map_of seen rid of
        Some (f, n) \<Rightarrow>
          let issue = row_note ''DUPLICATE_SOURCE_RECORD_ID'' ISS_ERROR
                (''Record ID '' @ rid @ '' duplicates '' @ f @ '':'' @ int_str n @ ''.'') source row None
                (or_none (cell ''service_id'' row)) [rid]
          in (case duplicate_rows source seen rows of (seen', is) \<Rightarrow> (seen', issue # is))
      | None \<Rightarrow> duplicate_rows source (dset rid (cell ''source_file'' row, row_number row) seen) rows)"

fun duplicate_sources :: "(string \<times> string \<times> int) list \<Rightarrow> batch_rows \<Rightarrow> quality_issue list" where
  "duplicate_sources seen [] = []"
| "duplicate_sources seen ((source, rows) # rest) =
     (case duplicate_rows source seen rows of (seen', is) \<Rightarrow> is @ duplicate_sources seen' rest)"

definition duplicate_checks :: "batch_rows \<Rightarrow> quality_issue list" where
  "duplicate_checks records = duplicate_sources [] records"

subsection \<open>Correlation\<close>

definition device_values :: "dict \<Rightarrow> string list" where
  "device_values row =
     [cell_strip ''device_id'' row, lower (cell_strip ''mac_address'' row), cell_strip ''serial_number'' row]"

definition by_service_index :: "dict list \<Rightarrow> (string \<times> dict) list" where
  "by_service_index identities =
     foldl (\<lambda>d row. if cell_strip ''service_id'' row \<noteq> [] then dset (cell_strip ''service_id'' row) row d else d)
       [] identities"

definition by_device_index :: "dict list \<Rightarrow> (string \<times> dict) list" where
  "by_device_index identities =
     foldl (\<lambda>d row. foldl (\<lambda>d v. if v \<noteq> [] then dset v row d else d) d (device_values row)) [] identities"

text \<open>One column of a record against its identity; an absent value is filled in.\<close>

definition match_field :: "string \<Rightarrow> string \<Rightarrow> dict \<Rightarrow> string \<Rightarrow> row_pass" where
  "match_field source service identity field row =
     (let source_value = cell_strip field row; identity_value = cell_strip field identity in
      (if source_value = [] \<and> identity_value \<noteq> [] then dset field (JStr identity_value) row else row,
       if source_value \<noteq> [] \<and> identity_value \<noteq> [] \<and> source_value \<noteq> identity_value
       then [row_note (upper field @ ''_MISMATCH'') (if field = ''delimiter_id'' then ISS_WARNING else ISS_ERROR)
         (''Source value '' @ source_value @ '' disagrees with identity value '' @ identity_value @ ''.'')
         source row (Some field) (Some service) [cell ''record_id'' row]]
       else []))"

definition matched_row :: "string \<Rightarrow> dict \<Rightarrow> dict" where
  "matched_row service row =
     dset ''correlation_confidence'' (JFloat 1) (dset ''correlation_status'' (JStr ''MATCHED'')
       (dset ''correlation_method'' (JStr ''exact_service_or_device_identity'') (dset ''service_id'' (JStr service) row)))"

definition service_identity :: "(string \<times> dict) list \<Rightarrow> dict \<Rightarrow> dict option" where
  "service_identity by_service row =
     (let service = cell_strip ''service_id'' row in if service = [] then None else map_of by_service service)"

definition device_identity :: "(string \<times> dict) list \<Rightarrow> dict \<Rightarrow> dict option" where
  "device_identity by_device row =
     (case List.map_filter (map_of by_device) (device_values row) of [] \<Rightarrow> None | r # _ \<Rightarrow> Some r)"

definition correlate_row :: "(string \<times> dict) list \<Rightarrow> (string \<times> dict) list \<Rightarrow> string \<Rightarrow> row_pass" where
  "correlate_row by_service by_device source row =
     (let service = cell_strip ''service_id'' row;
          identity = service_identity by_service row; device = device_identity by_device row
      in if identity \<noteq> None \<and> device \<noteq> None \<and> identity \<noteq> device
         then (row, [row_note ''SERVICE_DEVICE_IDENTITY_CONFLICT'' ISS_ERROR
           ''The supplied service and device map to different identity records.'' source row None
           (Some service) [cell ''record_id'' row]])
         else case (if identity \<noteq> None then identity else device) of
             None \<Rightarrow> (row, [row_note ''IDENTITY_NOT_RESOLVED'' ISS_ERROR
               ''No identity-map row matches this source record.'' source row None (or_none service)
               [cell ''record_id'' row]])
           | Some idrow \<Rightarrow>
               passes (map (match_field source (cell ''service_id'' idrow) idrow)
                   [''device_id'', ''technology'', ''delimiter_type'', ''delimiter_id''])
                 (matched_row (cell ''service_id'' idrow) row))"

definition identity_rows :: "batch_rows \<Rightarrow> quality_issue list \<Rightarrow> dict list" where
  "identity_rows records issues = filter (\<lambda>row. \<not> row_has_error issues row) (rows_of ''identity_map'' records)"

definition correlate_identity :: "batch_rows \<Rightarrow> quality_issue list \<Rightarrow> batch_rows \<times> quality_issue list" where
  "correlate_identity records issues =
     (let identities = identity_rows records issues in
      if identities = []
      then (records, [batch_issue ''IDENTITY_MAP_MISSING''
        ''An identity_map CSV is required for deterministic cross-source correlation.''])
      else let f = correlate_row (by_service_index identities) (by_device_index identities);
               one = (\<lambda>(source, rows). if source = ''identity_map'' then ((source, rows), [])
                 else ((source, map (\<lambda>row. fst (f source row)) rows), concat (map (\<lambda>row. snd (f source row)) rows)))
           in (map (\<lambda>p. fst (one p)) records, concat (map (\<lambda>p. snd (one p)) records)))"

subsection \<open>Plausibility\<close>

definition metric_ranges :: "(string \<times> rat \<times> rat) list" where
  "metric_ranges =
     [(''downstream_rx_dbmv'', -50, 50), (''upstream_tx_dbmv'', 0, 70), (''mer_db'', 0, 70), (''snr_db'', 0, 70),
      (''uncorrectable_ratio'', 0, 1), (''packet_loss_pct'', 0, 100), (''latency_ms'', 0, 120000),
      (''jitter_ms'', 0, 120000), (''ont_rx_dbm'', -60, 10), (''ont_tx_dbm'', -20, 20), (''ber'', 0, 1)]"

definition telemetry_issues :: "dict \<Rightarrow> quality_issue list" where
  "telemetry_issues row =
     (let name = lower (cell_strip ''metric_name'' row); value = dget ''metric_value'' row in
      case (map_of metric_ranges name, float_of value) of
        (Some (low, high), Inr v) \<Rightarrow>
          if value = JNull \<or> (low \<le> v \<and> v \<le> high) then []
          else [row_note ''NXT_VALUE_PHYSICALLY_IMPLAUSIBLE'' ISS_ERROR
            (name @ ''='' @ py_str value @ '' falls outside the accepted physical range ['' @ float_repr low @ '', '' @
             float_repr high @ ''].'') ''nxt_telemetry'' row (Some ''metric_value'')
            (or_none (cell ''service_id'' row)) [cell ''record_id'' row]]
      | _ \<Rightarrow> [])"

definition caddi_issues :: "string list \<Rightarrow> dict \<Rightarrow> quality_issue list" where
  "caddi_issues genesys_ids row =
     (let src = ''dvsum_caddi_insights''; service = or_none (cell ''service_id'' row);
          freshness = upper (cell_strip ''freshness_status'' row);
          interaction = cell_strip ''interaction_id'' row;
          domain = lower (cell_strip ''suspected_domain'' row);
          action = lower (cell_strip ''recommended_action'' row)
      in (if List.member [''STALE'', ''EXPIRED'', ''UNKNOWN''] freshness
          then [row_note ''CADDI_INSIGHT_NOT_FRESH'' ISS_WARNING (''DvSum CADDI freshness status is '' @ freshness @ ''.'')
            src row (Some ''freshness_status'') service [cell ''record_id'' row]] else []) @
         (if interaction \<noteq> [] \<and> \<not> List.member genesys_ids interaction
          then [row_note ''CADDI_GENESYS_INTERACTION_MISSING'' ISS_WARNING
            (''DvSum CADDI insight references unknown Genesys interaction '' @ interaction @ ''.'') src row
            (Some ''interaction_id'') service [cell ''record_id'' row, interaction]] else []) @
         (if cell_strip ''authoritative_status_source'' row = []
          then [row_note ''CADDI_AUTHORITY_SOURCE_MISSING'' ISS_WARNING
            ''DvSum CADDI insight does not name the system authoritative for status.'' src row
            (Some ''authoritative_status_source'') service [cell ''record_id'' row]] else []) @
         (if contains ''reprovision'' action \<and> domain \<noteq> [] \<and>
             \<not> List.member [''provisioning'', ''service_platform'', ''unknown''] domain
          then [row_note ''CADDI_DOMAIN_ACTION_INCONSISTENT'' ISS_WARNING
            (''DvSum CADDI recommends reprovisioning but its suspected domain is '' @ domain @ ''.'') src row None
            service [cell ''record_id'' row]] else []))"

definition jtrack_issues :: "dict \<Rightarrow> quality_issue list" where
  "jtrack_issues row =
     (let status = upper (cell_strip ''status'' row) in
      if List.member [''ACCEPTED'', ''ASSIGNED'', ''REPAIRED'', ''CLOSED''] status \<and> \<not> truthy (dget ''evidence_complete'' row)
      then [row_note ''JTRACK_EVIDENCE_INCOMPLETE_FOR_STATUS'' ISS_WARNING
        (''JTrack MR is '' @ status @ '' while evidence_complete is false.'') ''jtrack_events'' row None
        (or_none (cell ''service_id'' row)) [cell ''record_id'' row, cell ''mr_id'' row]]
      else [])"

definition install_issues :: "dict \<Rightarrow> quality_issue list" where
  "install_issues row =
     (let status = upper (cell_strip ''commissioning_status'' row) in
      if List.member [''PASSED'', ''COMPLETE'', ''COMPLETED''] status \<and> \<not> truthy (dget ''baseline_complete'' row)
      then [row_note ''INSTALL_BASELINE_STATUS_CONFLICT'' ISS_WARNING
        ''Commissioning is marked complete but baseline_complete is false.'' ''install_cohort'' row None
        (or_none (cell ''service_id'' row)) [cell ''record_id'' row]]
      else [])"

definition semantic_value_checks :: "batch_rows \<Rightarrow> quality_issue list" where
  "semantic_value_checks records =
     (let genesys_ids = map (cell ''interaction_id'')
            (filter (\<lambda>row. truthy (dget ''interaction_id'' row)) (rows_of ''genesys_interactions'' records))
      in concat (map telemetry_issues (rows_of ''nxt_telemetry'' records)) @
         concat (map (caddi_issues genesys_ids) (rows_of ''dvsum_caddi_insights'' records)) @
         concat (map jtrack_issues (rows_of ''jtrack_events'' records)) @
         concat (map install_issues (rows_of ''install_cohort'' records)))"

subsection \<open>Across sources\<close>

fun first_time :: "string list \<Rightarrow> dict \<Rightarrow> int option" where
  "first_time [] row = None"
| "first_time (field # rest) row =
     (if cell_strip field row = [] then first_time rest row
      else case parse_datetime (cell_strip field row) of Inl e \<Rightarrow> None | Inr t \<Rightarrow> Some t)"

definition event_time :: "dict \<Rightarrow> int option" where
  "event_time row = first_time [''observed_at'', ''event_at'', ''generated_at'', ''opened_at'', ''installed_at''] row"

definition list_part :: "char \<Rightarrow> char" where
  "list_part c = (if c = CHR ''|'' \<or> c = CHR '';'' then CHR '','' else c)"

fun as_list :: "json \<Rightarrow> string list" where
  "as_list JNull = []"
| "as_list (JArr xs) = filter (\<lambda>s. s \<noteq> []) (map (\<lambda>x. strip (py_str x)) xs)"
| "as_list v = filter (\<lambda>s. s \<noteq> []) (map strip (split_on (CHR '','') (map list_part (strip (py_str v)))))"

definition install_times :: "batch_rows \<Rightarrow> (string \<times> int) list res" where
  "install_times records =
     bindR (mapR (\<lambda>row. bindR (parse_datetime (py_str (dget ''installed_at'' row))) (\<lambda>t.
         Inr (py_str (dget ''service_id'' row), t)))
       (filter (\<lambda>row. truthy (dget ''service_id'' row) \<and> truthy (dget ''installed_at'' row)) (rows_of ''install_cohort'' records)))
       (\<lambda>ps. Inr (foldl (\<lambda>d (s, t). dset s t d) [] ps))"

definition too_late :: "int option \<Rightarrow> dict \<Rightarrow> bool" where
  "too_late as_of row \<longleftrightarrow> (case (as_of, event_time row) of (Some b, Some t) \<Rightarrow> b < t | _ \<Rightarrow> False)"

definition mark_eligible :: "int option \<Rightarrow> (string \<times> int) list \<Rightarrow> string \<Rightarrow> row_pass" where
  "mark_eligible as_of installs source row =
     (let service = or_none (cell ''service_id'' row);
          known = map_of installs (case service of None \<Rightarrow> ''None'' | Some s \<Rightarrow> s)
      in (dset ''eligible_as_of'' (JBool (\<not> too_late as_of row)) row,
          (if too_late as_of row
           then [row_note ''FUTURE_EVIDENCE_EXCLUDED'' ISS_WARNING
             ''Record occurs after the point-in-time analysis boundary.'' source row None service [cell ''record_id'' row]]
           else []) @
          (case (known, event_time row) of
             (Some installed, Some t) \<Rightarrow>
               if source = ''genesys_interactions'' \<and> t < installed
               then [row_note ''CONTACT_BEFORE_INSTALL'' ISS_WARNING
                 ''Genesys contact predates the installation commissioning event.'' source row None service
                 [cell ''record_id'' row]]
               else []
           | _ \<Rightarrow> [])))"

definition citation_issues :: "(string \<times> dict) list \<Rightarrow> dict \<Rightarrow> quality_issue list" where
  "citation_issues record_by_id row =
     (let refs = as_list (dget ''evidence_record_ids'' row);
          missing = sort (dedup (filter (\<lambda>r. map_of record_by_id r = None) refs));
          later = (case event_time row of None \<Rightarrow> [] | Some t \<Rightarrow>
            filter (\<lambda>r. case map_of record_by_id r of None \<Rightarrow> False
              | Some c \<Rightarrow> (case event_time c of None \<Rightarrow> False | Some u \<Rightarrow> t < u)) refs);
          src = ''dvsum_caddi_insights''; service = or_none (cell ''service_id'' row)
      in (if missing = [] then []
          else [row_note ''CADDI_EVIDENCE_REFERENCE_MISSING'' ISS_WARNING
            (''DvSum CADDI insight cites missing evidence: '' @ join '', '' missing @ ''.'') src row None service
            (cell ''record_id'' row # missing)]) @
         (if later = [] then []
          else [row_note ''CADDI_FUTURE_EVIDENCE_REFERENCE'' ISS_WARNING
            (''DvSum CADDI insight cites evidence recorded after the insight time: '' @ join '', '' (sort later)) src row
            None service (cell ''record_id'' row # sort later)]))"

definition jtrack_rank :: "(string \<times> int) list" where
  "jtrack_rank = [(''CREATED'', 0), (''ACCEPTED'', 1), (''ASSIGNED'', 2), (''REPAIRED'', 3), (''CLOSED'', 4), (''REJECTED'', 4)]"

fun sequence_issues :: "string \<Rightarrow> int \<Rightarrow> dict list \<Rightarrow> quality_issue list" where
  "sequence_issues mr last_rank [] = []"
| "sequence_issues mr last_rank (row # rows) =
     (let status = upper (cell ''status'' row); service = or_none (cell ''service_id'' row) in
      case map_of jtrack_rank status of
        None \<Rightarrow> row_note ''JTRACK_STATUS_UNKNOWN'' ISS_WARNING (''Unknown JTrack status '' @ status @ ''.'') ''jtrack_events''
            row None service [cell ''record_id'' row, mr] # sequence_issues mr last_rank rows
      | Some k \<Rightarrow>
          (if k < last_rank
           then [row_note ''JTRACK_LIFECYCLE_OUT_OF_ORDER'' ISS_ERROR
             (''MR '' @ mr @ '' regresses from a later lifecycle state to '' @ status @ ''.'') ''jtrack_events'' row None
             service [cell ''record_id'' row, mr]]
           else []) @ sequence_issues mr (max last_rank k) rows)"

definition jtrack_sequence_checks :: "dict list \<Rightarrow> quality_issue list" where
  "jtrack_sequence_checks rows =
     concat (map (\<lambda>(mr, ms). sequence_issues mr (-1) (sort_key (cell ''event_at'') ms)) (group_by (cell ''mr_id'') rows))"

definition cross_source_checks ::
    "int option \<Rightarrow> batch_rows \<Rightarrow> quality_issue list \<Rightarrow> (batch_rows \<times> quality_issue list) res" where
  "cross_source_checks as_of records issues =
     (let record_by_id = index_by (cell ''record_id'') (filter (\<lambda>row. \<not> row_has_error issues row) (all_rows records)) in
      bindR (install_times records) (\<lambda>installs.
        let f = mark_eligible as_of installs;
            marked = map (\<lambda>(source, rows). (source, map (\<lambda>row. fst (f source row)) rows)) records
        in Inr (marked,
            concat (map (\<lambda>(source, rows). concat (map (\<lambda>row. snd (f source row)) rows)) records) @
            concat (map (citation_issues record_by_id) (rows_of ''dvsum_caddi_insights'' marked)) @
            jtrack_sequence_checks (rows_of ''jtrack_events'' marked))))"

end
