(* ===== verification/EvidenceReport.thy ===== *)
theory EvidenceReport
  imports EvidenceChecks
begin

text \<open>
  What the validation of a batch produces: the disposition of every row, the accepted rows, the
  quality report with its status, the correlation report and the timeline.
\<close>

subsection \<open>Dispositions\<close>

datatype disposition = ACCEPTED | ACCEPTED_WITH_WARNING | QUARANTINED

definition issues_of_row :: "quality_issue list \<Rightarrow> dict \<Rightarrow> quality_issue list" where
  "issues_of_row issues row = filter (\<lambda>i. issue_key i = Some (row_key row)) issues"

definition disposition_of :: "quality_issue list \<Rightarrow> dict \<Rightarrow> disposition" where
  "disposition_of issues row =
     (if row_has_error issues row then QUARANTINED
      else if list_ex (\<lambda>i. qi_severity i = ISS_WARNING) (issues_of_row issues row) then ACCEPTED_WITH_WARNING
      else ACCEPTED)"

record row_disposition =
  rd_record_id :: string
  rd_source :: string
  rd_file :: string
  rd_row :: int
  rd_service :: json
  rd_disposition :: disposition
  rd_codes :: "string list"

definition row_disposition_of :: "quality_issue list \<Rightarrow> string \<Rightarrow> dict \<Rightarrow> row_disposition" where
  "row_disposition_of issues source row =
     \<lparr>rd_record_id = cell ''record_id'' row, rd_source = source, rd_file = cell ''source_file'' row,
      rd_row = row_number row, rd_service = dget ''service_id'' row, rd_disposition = disposition_of issues row,
      rd_codes = sort (dedup (map qi_code (issues_of_row issues row)))\<rparr>"

record normalized_files =
  nf_rows :: batch_rows
  nf_dispositions :: "row_disposition list"

definition write_normalized :: "batch_rows \<Rightarrow> quality_issue list \<Rightarrow> normalized_files" where
  "write_normalized records issues =
     \<lparr>nf_rows = map (\<lambda>p. (fst p, filter (\<lambda>row. disposition_of issues row \<noteq> QUARANTINED) (rows_of (fst p) records)))
        source_definitions,
      nf_dispositions = concat (map (\<lambda>p. map (row_disposition_of issues (fst p)) (rows_of (fst p) records)) source_definitions)\<rparr>"

definition disposition_count :: "normalized_files \<Rightarrow> disposition \<Rightarrow> nat" where
  "disposition_count n d = length (filter (\<lambda>r. rd_disposition r = d) (nf_dispositions n))"

subsection \<open>The quality report\<close>

record quality_report =
  qr_status :: string
  qr_total :: nat
  qr_accepted :: nat
  qr_quarantined :: int
  qr_info :: nat
  qr_warnings :: nat
  qr_errors :: nat
  qr_dispositions :: "(disposition \<times> nat) list"
  qr_issues :: "quality_issue list"
  qr_files :: "(string \<times> nat) list"
  qr_production_writes :: bool

definition severity_count :: "issue_severity \<Rightarrow> quality_issue list \<Rightarrow> nat" where
  "severity_count s issues = length (filter (\<lambda>i. qi_severity i = s) issues)"

definition validation_status :: "nat \<Rightarrow> quality_issue list \<Rightarrow> string" where
  "validation_status accepted issues =
     (if accepted = 0 \<or> list_ex (\<lambda>i. qi_code i = ''IDENTITY_MAP_MISSING'') issues then ''REJECTED''
      else if severity_count ISS_ERROR issues \<noteq> 0 then ''VALIDATED_WITH_QUARANTINE''
      else if severity_count ISS_WARNING issues \<noteq> 0 then ''VALIDATED_WITH_WARNINGS''
      else ''VALIDATED'')"

definition quality_report_of :: "batch_rows \<Rightarrow> quality_issue list \<Rightarrow> normalized_files \<Rightarrow> quality_report" where
  "quality_report_of records issues n =
     (let total = sum_list (map (\<lambda>p. length (snd p)) records);
          accepted = sum_list (map (\<lambda>p. length (snd p)) (nf_rows n))
      in \<lparr>qr_status = validation_status accepted issues, qr_total = total, qr_accepted = accepted,
          qr_quarantined = int total - int accepted,
          qr_info = severity_count ISS_INFO issues, qr_warnings = severity_count ISS_WARNING issues,
          qr_errors = severity_count ISS_ERROR issues, 
          qr_dispositions = map (\<lambda>d. (d, disposition_count n d)) [ACCEPTED, ACCEPTED_WITH_WARNING, QUARANTINED], qr_issues = issues,
          qr_files = map (\<lambda>p. (fst p, length (snd p))) (nf_rows n), qr_production_writes = False\<rparr>)"

subsection \<open>Correlation report and timeline\<close>

record service_entry =
  se_service :: string
  se_sources :: "(string \<times> nat) list"
  se_records :: "string list"
  se_issues :: nat
  se_quarantined :: nat
  se_errors :: nat
  se_status :: string

record correlation_report =
  cn_services :: "service_entry list"
  cn_count :: nat
  cn_unresolved :: nat

definition service_entry_of :: "batch_rows \<Rightarrow> quality_issue list \<Rightarrow> string \<Rightarrow> service_entry" where
  "service_entry_of records issues sid =
     (let mine = (\<lambda>row. cell_strip ''service_id'' row = sid);
          ok = map (\<lambda>(source, rows). (source, filter (\<lambda>row. mine row \<and> \<not> row_has_error issues row) rows)) records;
          errors = length (filter (\<lambda>i. qi_service i = Some sid \<and> qi_severity i = ISS_ERROR) issues)
      in \<lparr>se_service = sid, se_sources = map (\<lambda>(s, rows). (s, length rows)) (filter (\<lambda>p. snd p \<noteq> []) ok),
          se_records = map (cell ''record_id'') (all_rows ok),
          se_issues = length (filter (\<lambda>i. qi_service i = Some sid) issues),
          se_quarantined = length (filter (\<lambda>row. mine row \<and> row_has_error issues row) (all_rows records)),
          se_errors = errors, se_status = (if errors \<noteq> 0 then ''CONFLICT'' else ''MATCHED'')\<rparr>)"

definition build_correlation_report :: "batch_rows \<Rightarrow> quality_issue list \<Rightarrow> correlation_report" where
  "build_correlation_report records issues =
     (let sids = sort (dedup (filter (\<lambda>s. s \<noteq> []) (map (cell_strip ''service_id'')
            (filter (\<lambda>row. \<not> row_has_error issues row) (all_rows records)))))
      in \<lparr>cn_services = map (service_entry_of records issues) sids, cn_count = length sids,
          cn_unresolved = length (filter (\<lambda>i. List.member [''IDENTITY_NOT_RESOLVED'', ''IDENTITY_FIELD_MISSING''] (qi_code i)) issues)\<rparr>)"

definition event_label :: "string \<Rightarrow> dict \<Rightarrow> string" where
  "event_label source row =
     (let g = (\<lambda>k. py_str (dget k row)); o0 = (\<lambda>k d. py_str (dget_or k (JStr d) row)) in
      if source = ''nxt_telemetry'' then strip (g ''metric_name'' @ '' = '' @ g ''metric_value'' @ '' '' @ o0 ''unit'' [])
      else if source = ''nxt_alarms'' then o0 ''event_type'' ''ALARM'' @ '' '' @ g ''alarm_code''
      else if source = ''dvsum_caddi_insights''
      then ''DvSum CADDI: '' @ g ''insight_type'' @ '' / '' @ o0 ''suspected_domain'' ''unknown''
      else if source = ''genesys_interactions'' then ''Genesys: '' @ o0 ''contact_reason'' ''customer interaction''
      else if source = ''jtrack_events'' then ''JTrack '' @ g ''mr_id'' @ '': '' @ g ''status''
      else if source = ''install_cohort'' then ''Installation commissioned: '' @ o0 ''commissioning_status'' ''unknown''
      else ''Identity relationship effective'')"

record timeline_event =
  ev_time :: int
  ev_text :: string
  ev_source :: string
  ev_service :: json
  ev_record :: string
  ev_label :: string
  ev_file :: string
  ev_row :: int

definition timeline_row :: "quality_issue list \<Rightarrow> int option \<Rightarrow> string \<Rightarrow> dict \<Rightarrow> timeline_event list" where
  "timeline_row issues as_of source row =
     (if row_has_error issues row \<or> dget ''eligible_as_of'' row = JBool False then []
      else case event_time row of
          None \<Rightarrow> []
        | Some t \<Rightarrow> if (case as_of of None \<Rightarrow> False | Some b \<Rightarrow> b < t) then []
            else [\<lparr>ev_time = t, ev_text = iso t, ev_source = source, ev_service = dget ''service_id'' row,
              ev_record = cell ''record_id'' row, ev_label = event_label source row, ev_file = cell ''source_file'' row,
              ev_row = row_number row\<rparr>])"

definition build_timeline :: "int option \<Rightarrow> batch_rows \<Rightarrow> quality_issue list \<Rightarrow> timeline_event list" where
  "build_timeline as_of records issues =
     sort_key (\<lambda>e. [ev_text e, ev_source e, ev_record e])
       (concat (map (\<lambda>(source, rows). concat (map (timeline_row issues as_of source) rows)) records))"

subsection \<open>Validating the files of a batch\<close>

text \<open>An uploaded file: its source, the name it is stored under and its text.\<close>

type_synonym raw_file = "string \<times> string \<times> string"

fun read_files ::
    "(string \<Rightarrow> string) \<Rightarrow> string \<Rightarrow> int \<Rightarrow> raw_file list \<Rightarrow> (batch_rows \<times> quality_issue list) res" where
  "read_files D batch parsed [] = Inr ([], [])"
| "read_files D batch parsed ((source, file, content) # files) =
     (let remaining = batch_max_rows - parsed in
      bindR (if remaining \<le> 0
          then Inr ([], [file_issue ''BATCH_ROW_LIMIT_EXCEEDED'' (''Import batch exceeds the '' @ thousands batch_max_rows @
            ''-row limit.'') source file None])
          else parse_source_file D batch source file content (min file_max_rows remaining)) (\<lambda>(rows, is).
      bindR (read_files D batch (parsed + int (length rows)) files) (\<lambda>(records, js).
        Inr ((source, rows) # records, is @ js))))"

record validation =
  vd_rows :: batch_rows
  vd_issues :: "quality_issue list"
  vd_normalized :: normalized_files
  vd_report :: quality_report
  vd_correlation :: correlation_report
  vd_timeline :: "timeline_event list"

text \<open>The checks in the order of the code; each sees the findings of those before it.\<close>

definition check_records :: "int option \<Rightarrow> batch_rows \<Rightarrow> quality_issue list \<Rightarrow> (batch_rows \<times> quality_issue list) res" where
  "check_records as_of records issues =
     (let i1 = issues @ duplicate_checks records in
      case correlate_identity records i1 of (matched, i2) \<Rightarrow>
      let i3 = i1 @ i2; i4 = i3 @ semantic_value_checks matched in
      bindR (cross_source_checks as_of matched i4) (\<lambda>(marked, i5). Inr (marked, i4 @ i5)))"

definition validate_files ::
    "(string \<Rightarrow> string) \<Rightarrow> string \<Rightarrow> string option \<Rightarrow> raw_file list \<Rightarrow> validation res" where
  "validate_files D batch as_of_text files =
     bindR (read_files D batch 0 files) (\<lambda>(records, is).
     bindR (case as_of_text of None \<Rightarrow> Inr None | Some t \<Rightarrow>
         if t = [] then Inr None else bindR (parse_datetime t) (\<lambda>u. Inr (Some u))) (\<lambda>as_of.
     bindR (check_records as_of records (is @
         (if files = [] then [batch_issue ''NO_FILES_UPLOADED'' ''Upload at least one CSV file.''] else []))) (\<lambda>(rows, issues).
       let n = write_normalized rows issues in
       Inr \<lparr>vd_rows = rows, vd_issues = issues, vd_normalized = n, vd_report = quality_report_of rows issues n,
            vd_correlation = build_correlation_report rows issues, vd_timeline = build_timeline as_of rows issues\<rparr>)))"

end
