(* ===== verification/EvidenceAdvice.thy ===== *)
theory EvidenceAdvice
  imports EvidenceReport
begin

text \<open>
  The advice drawn from validated evidence: open alarms and maintenance requests, the
  recommendations of the rules, the bounded payload for the agent, its offline stand-in, the checks
  of its answer and the reconciliation with the rules. The language model is an argument: a function
  from the payload to a result that the schema accepted, or an exception.
\<close>

subsection \<open>State of alarms and maintenance requests\<close>

definition eligible_records :: "batch_rows \<Rightarrow> batch_rows" where
  "eligible_records records =
     map (\<lambda>(source, rows). (source, filter (\<lambda>row. dget ''eligible_as_of'' row \<noteq> JBool False) rows)) records"

definition alarm_key :: "dict \<Rightarrow> string" where
  "alarm_key row = py_str (py_or (py_or (dget ''alarm_id'' row) (dget ''alarm_code'' row)) (dget ''record_id'' row))"

definition active_alarms :: "dict list \<Rightarrow> dict list" where
  "active_alarms rows =
     filter (\<lambda>row. \<not> List.member [''CLEARED'', ''CLOSED'', ''RESOLVED'', ''CANCELLED'']
         (upper (strip (py_str (dget_or ''event_type'' (JStr ''RAISED'') row)))))
       (map snd (index_by alarm_key (sort_key (cell ''event_at'') rows)))"

definition open_jtrack :: "dict list \<Rightarrow> (string \<times> dict) list" where
  "open_jtrack rows =
     filter (\<lambda>(mr, row). \<not> List.member [''CLOSED'', ''REJECTED'', ''CANCELLED''] (upper (cell ''status'' row)))
       (index_by (cell ''mr_id'') (sort_key (cell ''event_at'') rows))"

subsection \<open>The recommendations of the rules\<close>

record advice =
  ad_service :: string
  ad_domain :: string
  ad_action :: string
  ad_confidence :: rat
  ad_rationale :: string
  ad_refs :: "string list"
  ad_incident :: "string option"
  ad_mrs :: "string list"
  ad_caddi_domain :: "string option"
  ad_caddi_action :: "string option"
  ad_caddi_agreement :: string
  ad_codes :: "string list"
  ad_human_review :: bool
  ad_policy :: string
  ad_production_write :: bool
  ad_execution_permitted :: bool

text \<open>The rows of one service by source; sources without a row of it are absent.\<close>

definition service_rows :: "batch_rows \<Rightarrow> string \<Rightarrow> batch_rows" where
  "service_rows records sid =
     filter (\<lambda>p. snd p \<noteq> []) (map (\<lambda>(source, rows). (source, filter (\<lambda>row. cell_strip ''service_id'' row = sid) rows)) records)"

definition service_ids :: "batch_rows \<Rightarrow> string list" where
  "service_ids records = sort (dedup (filter (\<lambda>s. s \<noteq> []) (map (cell_strip ''service_id'') (all_rows records))))"

definition domain_disagreement :: "batch_rows \<Rightarrow> string \<Rightarrow> bool" where
  "domain_disagreement sources domain =
     (let domains = filter (\<lambda>d. d \<noteq> []) (map (\<lambda>row. lower (cell_strip ''suspected_domain'' row)) (rows_of ''dvsum_caddi_insights'' sources))
      in domains \<noteq> [] \<and> domain \<noteq> ''unknown'' \<and> \<not> List.member domains domain)"

definition signal_text :: "dict list \<Rightarrow> dict list \<Rightarrow> string" where
  "signal_text alarms telemetry =
     join '' '' (concat (map (\<lambda>row. map (\<lambda>v. lower (py_str v)) (filter truthy [dget ''alarm_code'' row, dget ''alarm_text'' row])) alarms))
     @ '' '' @ join '' '' (map (\<lambda>row. lower (cell ''metric_name'' row)) telemetry)"

record verdict =
  ve_domain :: string
  ve_action :: string
  ve_confidence :: rat
  ve_rationale :: "string list"

text \<open>First what is already under repair, then what the analysis proposes, then the signals.\<close>

definition existing_work :: "(string \<times> dict) list \<Rightarrow> string option \<Rightarrow> verdict" where
  "existing_work open_mrs incident =
     (if open_mrs \<noteq> [] then
        (let latest = last (sort_key (cell ''event_at'') (map snd open_mrs)); kind = upper (cell ''delimiter_type'' latest)
         in \<lparr>ve_domain = (if kind = ''TAP'' then ''hfc_tap'' else if kind = ''ODP'' then ''pon_odp'' else ''plant''),
             ve_action = ''attach_to_existing_mr'', ve_confidence = 95/100,
             ve_rationale = [''JTrack already has open MR '' @ py_str (dget ''mr_id'' latest) @ ''.'']\<rparr>)
      else case incident of
          Some i \<Rightarrow> \<lparr>ve_domain = ''unknown'', ve_action = ''attach_to_existing_incident'', ve_confidence = 9/10,
            ve_rationale = [''An existing root incident '' @ i @ '' is referenced.'']\<rparr>
        | None \<Rightarrow> \<lparr>ve_domain = ''unknown'', ve_action = ''collect_more_evidence'', ve_confidence = 45/100, ve_rationale = []\<rparr>)"

definition with_caddi :: "dict option \<Rightarrow> verdict \<Rightarrow> verdict" where
  "with_caddi latest v = (case latest of None \<Rightarrow> v
     | Some row \<Rightarrow>
         let proposed = lower (cell_strip ''suspected_domain'' row) in
         v\<lparr>ve_domain := (if List.member allowed_domains proposed \<and> ve_domain v = ''unknown'' then proposed else ve_domain v),
           ve_rationale := ve_rationale v @ [''DvSum CADDI reports '' @ py_str (dget ''insight_type'' row) @ '' with domain '' @
             (if proposed = [] then ''unknown'' else proposed) @ ''.'']\<rparr>)"

definition with_signals :: "string \<Rightarrow> string \<Rightarrow> bool \<Rightarrow> verdict \<Rightarrow> verdict" where
  "with_signals signals technology observed v =
     (let any = (\<lambda>tokens. list_ex (\<lambda>t. contains t signals) tokens);
          keep = (\<lambda>d. if ve_domain v \<noteq> ''unknown'' then ve_domain v else d) in
      if ve_action v \<noteq> ''collect_more_evidence'' then v
      else if any [''provision'', ''auth'', ''profile'']
      then \<lparr>ve_domain = ''provisioning'', ve_action = ''validate_or_reprovision'', ve_confidence = 78/100,
        ve_rationale = ve_rationale v @ [''Provisioning indicators are present in imported evidence.'']\<rparr>
      else if any [''wifi'', ''airtime'', ''client_rssi'']
      then \<lparr>ve_domain = ''wifi_or_home'', ve_action = ''wifi_diagnostics'', ve_confidence = 72/100,
        ve_rationale = ve_rationale v @ [''Wi-Fi indicators are present in imported evidence.'']\<rparr>
      else if technology = ''HFC'' \<and> observed
      then \<lparr>ve_domain = keep ''hfc_tap'', ve_action = ''expanded_rf_diagnostics'', ve_confidence = 75/100,
        ve_rationale = ve_rationale v @ [''HFC evidence requires RF and peer comparison.'']\<rparr>
      else if (technology = ''GPON'' \<or> technology = ''XGS_PON'') \<and> observed
      then \<lparr>ve_domain = keep ''pon_odp'', ve_action = ''optical_diagnostics'', ve_confidence = 75/100,
        ve_rationale = ve_rationale v @ [''PON evidence requires optical and peer comparison.'']\<rparr>
      else v)"

definition service_verdict :: "batch_rows \<Rightarrow> string option \<Rightarrow> verdict" where
  "service_verdict sources incident =
     (let caddi = sort_key (cell ''generated_at'') (rows_of ''dvsum_caddi_insights'' sources);
          alarms = active_alarms (rows_of ''nxt_alarms'' sources); telemetry = rows_of ''nxt_telemetry'' sources;
          technology = (case rows_of ''identity_map'' sources of [] \<Rightarrow> [] | r # _ \<Rightarrow> cell ''technology'' r)
      in with_signals (signal_text alarms telemetry) technology (telemetry @ alarms \<noteq> [])
           (with_caddi (if caddi = [] then None else Some (last caddi))
             (existing_work (open_jtrack (rows_of ''jtrack_events'' sources)) incident)))"

definition severe :: "quality_issue \<Rightarrow> bool" where
  "severe i \<longleftrightarrow> qi_severity i = ISS_ERROR \<or> qi_severity i = ISS_WARNING"

definition existing_incident :: "batch_rows \<Rightarrow> string option" where
  "existing_incident sources = (case filter (\<lambda>row. truthy (dget ''incident_id'' row)) (all_rows sources) of
     [] \<Rightarrow> None | r # _ \<Rightarrow> Some (py_str (dget ''incident_id'' r)))"

definition recommend_service :: "batch_rows \<Rightarrow> quality_issue list \<Rightarrow> string \<Rightarrow> advice" where
  "recommend_service records issues sid =
     (let sources = service_rows records sid;
          mine = filter (\<lambda>i. qi_service i = Some sid) issues;
          open_mrs = open_jtrack (rows_of ''jtrack_events'' sources);
          caddi = sort_key (cell ''generated_at'') (rows_of ''dvsum_caddi_insights'' sources);
          incident = existing_incident sources;
          v = service_verdict sources incident;
          proposed = (if caddi = [] then None else or_none (lower (cell_strip ''suspected_domain'' (last caddi))));
          disagreement = domain_disagreement sources (ve_domain v);
          human = (list_ex severe mine \<or> disagreement \<or> ve_action v \<noteq> ''collect_more_evidence'');
          reasons = ve_rationale v @ (if disagreement then [''Analytical and evidence-derived domains disagree.''] else [])
      in \<lparr>ad_service = sid, ad_domain = ve_domain v, ad_action = ve_action v, ad_confidence = round_dec 3 (ve_confidence v),
          ad_rationale = (if reasons = [] then ''Evidence is insufficient for a stronger conclusion.'' else join '' '' reasons),
          ad_refs = sort (dedup (map (cell ''record_id'') (all_rows sources))), ad_incident = incident,
          ad_mrs = sort (map fst open_mrs), ad_caddi_domain = proposed,
          ad_caddi_action = (if caddi = [] then None else or_none (cell_strip ''recommended_action'' (last caddi))),
          ad_caddi_agreement = (case proposed of None \<Rightarrow> ''NO_CADDI_INSIGHT''
            | Some d \<Rightarrow> if d = ve_domain v then ''AGREE'' else ''DISAGREE''),
          ad_codes = sort (dedup (map qi_code mine)), ad_human_review = human,
          ad_policy = (if human then ''ADVISORY_HUMAN_REVIEW'' else ''ADVISORY_ONLY''),
          ad_production_write = False, ad_execution_permitted = False\<rparr>)"

definition deterministic_recommendations :: "batch_rows \<Rightarrow> quality_issue list \<Rightarrow> advice list" where
  "deterministic_recommendations records issues = map (recommend_service records issues) (service_ids records)"

subsection \<open>The payload for the agent\<close>

definition agent_fields :: "(string \<times> string list) list" where
  "agent_fields =
     [(''identity_map'', [''record_id'', ''service_id'', ''device_id'', ''technology'', ''delimiter_id'']),
      (''nxt_telemetry'', [''record_id'', ''observed_at'', ''service_id'', ''device_id'', ''technology'', ''delimiter_id'',
        ''metric_name'', ''metric_value'', ''unit'', ''quality'']),
      (''nxt_alarms'', [''record_id'', ''event_at'', ''service_id'', ''technology'', ''delimiter_id'', ''alarm_code'',
        ''alarm_text'', ''severity'']),
      (''dvsum_caddi_insights'', [''record_id'', ''generated_at'', ''service_id'', ''insight_type'', ''suspected_domain'',
        ''confidence'', ''recommended_route'', ''recommended_action'', ''underlying_sources'', ''evidence_record_ids'',
        ''freshness_status'']),
      (''genesys_interactions'', [''record_id'', ''opened_at'', ''service_id'', ''channel'', ''contact_reason'', ''wrapup_code'',
        ''repeat_contact'', ''contact_outcome'']),
      (''jtrack_events'', [''record_id'', ''mr_id'', ''event_at'', ''status'', ''incident_id'', ''service_id'', ''work_order_id'',
        ''delimiter_type'', ''delimiter_id'', ''evidence_complete'', ''outcome'', ''resolution_code'']),
      (''install_cohort'', [''record_id'', ''install_work_order_id'', ''service_id'', ''device_id'', ''install_type'',
        ''installed_at'', ''commissioning_status'', ''baseline_complete''])]"

fun clip :: "nat \<Rightarrow> json \<Rightarrow> json" where
  "clip n (JStr s) = JStr (take n s)"
| "clip n v = v"

definition agent_record :: "string \<Rightarrow> dict \<Rightarrow> dict" where
  "agent_record source row =
     map (\<lambda>f. (f, clip 500 (dget f row))) (case map_of agent_fields source of None \<Rightarrow> [] | Some fs \<Rightarrow> fs)"

record agent_payload =
  pl_deterministic :: "advice list"
  pl_issues :: "quality_issue list"
  pl_evidence :: "(string \<times> batch_rows) list"
  pl_truncated :: bool

definition safe_advice :: "advice \<Rightarrow> advice" where
  "safe_advice a = a\<lparr>ad_rationale := take 1500 (ad_rationale a), ad_refs := take 30 (ad_refs a)\<rparr>"

definition safe_issue :: "quality_issue \<Rightarrow> quality_issue" where
  "safe_issue i = i\<lparr>qi_message := take 1000 (qi_message i), qi_file := None, qi_records := take 20 (qi_records i)\<rparr>"

definition service_evidence :: "batch_rows \<Rightarrow> string list \<Rightarrow> (string \<times> batch_rows) list" where
  "service_evidence records services =
     map (\<lambda>sid. (sid, filter (\<lambda>p. snd p \<noteq> []) (map (\<lambda>(source, rows).
         (source, map (agent_record source) (filter (\<lambda>row. cell ''service_id'' row = sid) rows))) records)))
       (filter (List.member services) (dedup (map (cell ''service_id'') (all_rows records))))"

definition clip_evidence :: "nat \<Rightarrow> (string \<times> batch_rows) list \<Rightarrow> (string \<times> batch_rows) list" where
  "clip_evidence n ev = map (\<lambda>(sid, sources). (sid, map (\<lambda>(s, rows). (s, take n rows)) sources)) ev"

text \<open>
  The payload is cut to size: fewer findings and rows, then services from the end, then one row of
  each source for one service. Its size, the length of its JSON text, is an argument.
\<close>

fun drop_services :: "(agent_payload \<Rightarrow> nat) \<Rightarrow> nat \<Rightarrow> agent_payload \<Rightarrow> advice list \<Rightarrow> agent_payload" where
  "drop_services size0 limit p [] = p"
| "drop_services size0 limit p (a # as') =
     (if as' = [] \<or> size0 p \<le> limit then p
      else drop_services size0 limit
        (p\<lparr>pl_deterministic := butlast (pl_deterministic p),
           pl_evidence := filter (\<lambda>e. fst e \<noteq> ad_service (last (pl_deterministic p))) (pl_evidence p)\<rparr>) as')"

definition max_payload_chars :: nat where "max_payload_chars = 80000"

definition sanitised_agent_payload ::
    "(agent_payload \<Rightarrow> nat) \<Rightarrow> batch_rows \<Rightarrow> quality_issue list \<Rightarrow> advice list \<Rightarrow> nat \<Rightarrow> agent_payload" where
  "sanitised_agent_payload size0 records issues deterministic max_services =
     (let safe = map safe_advice (take max_services deterministic);
          evidence = service_evidence records (map ad_service safe);
          safe_issues = map safe_issue (take 100 issues);
          full = \<lparr>pl_deterministic = safe, pl_issues = safe_issues, pl_evidence = clip_evidence 5 evidence, pl_truncated = False\<rparr>
      in if size0 full \<le> max_payload_chars then full
         else let cut = full\<lparr>pl_truncated := True, pl_issues := take 30 safe_issues, pl_evidence := clip_evidence 2 evidence\<rparr>;
                  less = drop_services size0 max_payload_chars cut (pl_deterministic cut)
              in if size0 less \<le> max_payload_chars then less
                 else less\<lparr>pl_evidence := clip_evidence 1 (take 1 evidence), pl_issues := take 10 safe_issues,
                   pl_deterministic := take 1 safe\<rparr>)"

subsection \<open>The answer of the agent\<close>

record inconsistency =
  ti_code :: string
  ti_severity :: string
  ti_service :: "string option"
  ti_description :: string
  ti_sources :: "string list"
  ti_refs :: "string list"
  ti_resolution :: string

record agent_advice =
  tr_service :: string
  tr_domain :: string
  tr_action :: string
  tr_confidence :: rat
  tr_rationale :: string
  tr_refs :: "string list"
  tr_missing :: "string list"
  tr_human_review :: bool

record triangulation =
  ta_summary :: string
  ta_facts :: "string list"
  ta_inconsistencies :: "inconsistency list"
  ta_missing :: "string list"
  ta_recommendations :: "agent_advice list"
  ta_confidence :: rat
  ta_human_review :: bool

definition fake_inconsistency :: "quality_issue \<Rightarrow> inconsistency" where
  "fake_inconsistency i =
     \<lparr>ti_code = qi_code i,
      ti_severity = (case qi_severity i of ISS_ERROR \<Rightarrow> ''high'' | ISS_WARNING \<Rightarrow> ''medium'' | ISS_INFO \<Rightarrow> ''low''),
      ti_service = qi_service i, ti_description = qi_message i,
      ti_sources = (case qi_source i of None \<Rightarrow> [] | Some s \<Rightarrow> if s = [] then [] else [s]),
      ti_refs = qi_records i, ti_resolution = ''Review the source extract and authoritative system.''\<rparr>"

definition fake_advice :: "advice \<Rightarrow> agent_advice" where
  "fake_advice a =
     \<lparr>tr_service = ad_service a, tr_domain = ad_domain a, tr_action = ad_action a, tr_confidence = ad_confidence a,
      tr_rationale = ''Synthetic offline triangulation agrees with the deterministic analysis. '' @ ad_rationale a,
      tr_refs = take 30 (ad_refs a), tr_missing = [], tr_human_review = ad_human_review a\<rparr>"

definition fake_agent_result :: "agent_payload \<Rightarrow> triangulation" where
  "fake_agent_result p =
     (let inc = map fake_inconsistency (take 30 (pl_issues p)); recs = map fake_advice (pl_deterministic p) in
      \<lparr>ta_summary = ''Offline synthetic triangulation completed. Deterministic data-quality and '' @
         ''policy controls remain authoritative.'',
       ta_facts = [nat_str (length (pl_evidence p)) @ '' service evidence packet(s) assembled.''],
       ta_inconsistencies = inc, ta_missing = [], ta_recommendations = recs,
       ta_confidence = (if inc = [] then 75/100 else 55/100),
       ta_human_review = (inc \<noteq> [] \<or> list_ex tr_human_review recs)\<rparr>)"

record agent_invocation =
  iv_requested :: bool
  iv_provider :: string
  iv_model :: string
  iv_attempted :: bool
  iv_completed :: bool
  iv_status :: string
  iv_error :: "string option"

definition key_name :: "string \<Rightarrow> string" where
  "key_name provider = (if provider = ''openai'' then ''OPENAI_API_KEY'' else ''ANTHROPIC_API_KEY'')"

definition invoke_triangulation_agent ::
    "(string \<Rightarrow> string option) \<Rightarrow> (agent_payload \<Rightarrow> triangulation res) \<Rightarrow> (exn \<Rightarrow> string) \<Rightarrow> agent_payload \<Rightarrow> string \<Rightarrow> string \<Rightarrow> bool \<Rightarrow>
      triangulation \<times> agent_invocation" where
  "invoke_triangulation_agent env ask describe payload provider model enable =
     (let fake = fake_agent_result payload;
          inv = \<lparr>iv_requested = enable, iv_provider = provider, iv_model = model, iv_attempted = False,
            iv_completed = False, iv_status = ''disabled'', iv_error = None\<rparr>;
          key = (case env (key_name provider) of None \<Rightarrow> [] | Some k \<Rightarrow> k)
      in if \<not> enable \<or> provider = ''disabled''
         then (fake, inv\<lparr>iv_status := ''deterministic_fallback_disabled''\<rparr>)
         else if provider = ''fake''
         then (fake, inv\<lparr>iv_completed := True, iv_status := ''synthetic_offline_agent''\<rparr>)
         else if key = [] \<or> strip model = []
         then (fake, inv\<lparr>iv_status := ''unavailable_missing_'' @ lower (key_name provider) @ ''_or_model''\<rparr>)
         else case ask payload of
             Inr result \<Rightarrow> (result, inv\<lparr>iv_attempted := True, iv_completed := True, iv_status := ''accepted''\<rparr>)
           | Inl e \<Rightarrow> (fake, inv\<lparr>iv_attempted := True, iv_status := ''provider_error_fallback'', iv_error := Some (describe e)\<rparr>))"

subsection \<open>Checking the answer\<close>

record agent_finding =
  af_code :: string
  af_message :: string

definition unknown_refs :: "string list \<Rightarrow> string list \<Rightarrow> string list" where
  "unknown_refs known refs = sort (dedup (filter (\<lambda>r. \<not> List.member known r) refs))"

definition ref_findings :: "string list \<Rightarrow> string list \<Rightarrow> agent_finding list" where
  "ref_findings known refs = (let unknown = unknown_refs known refs in
     if unknown = [] then []
     else [\<lparr>af_code = ''LLM_UNKNOWN_EVIDENCE_REFERENCE'',
       af_message = ''Agent cited unknown evidence: '' @ join '', '' unknown @ ''.''\<rparr>])"

definition known_only :: "string list \<Rightarrow> string list \<Rightarrow> string list" where
  "known_only known refs = (if unknown_refs known refs = [] then refs else filter (List.member known) refs)"

definition check_advice :: "string list \<Rightarrow> agent_advice \<Rightarrow> agent_advice \<times> agent_finding list" where
  "check_advice known_services r =
     (let unknown = \<not> List.member known_services (tr_service r);
          bad_domain = \<not> List.member allowed_domains (tr_domain r);
          bad_action = \<not> List.member allowed_actions (tr_action r)
      in (r\<lparr>tr_domain := (if bad_domain then ''unknown'' else tr_domain r),
            tr_action := (if bad_action then ''manual_review'' else tr_action r),
            tr_human_review := (tr_human_review r \<or> unknown \<or> bad_domain \<or> bad_action)\<rparr>,
          (if unknown then [\<lparr>af_code = ''LLM_UNKNOWN_SERVICE_ID'',
             af_message = ''Agent returned a recommendation for an unknown service.''\<rparr>] else []) @
          (if bad_domain then [\<lparr>af_code = ''LLM_DOMAIN_NOT_ALLOWED'',
             af_message = ''Agent recommended an unsupported fault domain.''\<rparr>] else []) @
          (if bad_action then [\<lparr>af_code = ''LLM_ACTION_NOT_ALLOWED'',
             af_message = ''Agent recommended an unsupported action.''\<rparr>] else [])))"

definition validate_agent_result :: "triangulation \<Rightarrow> batch_rows \<Rightarrow> triangulation \<times> agent_finding list" where
  "validate_agent_result result records =
     (let known = map (cell ''record_id'') (all_rows records);
          services = map (cell ''service_id'') (filter (\<lambda>row. truthy (dget ''service_id'' row)) (all_rows records));
          inc = map (\<lambda>i. i\<lparr>ti_refs := known_only known (ti_refs i)\<rparr>) (ta_inconsistencies result);
          recs = map (\<lambda>r. check_advice services (r\<lparr>tr_refs := known_only known (tr_refs r)\<rparr>)) (ta_recommendations result)
      in (result\<lparr>ta_inconsistencies := inc, ta_recommendations := map fst recs\<rparr>,
          concat (map (\<lambda>i. ref_findings known (ti_refs i)) (ta_inconsistencies result)) @
          concat (map (\<lambda>r. ref_findings known (tr_refs r)) (ta_recommendations result)) @ concat (map snd recs)))"

subsection \<open>Reconciliation\<close>

record reconciled =
  rr_service :: string
  rr_deterministic :: advice
  rr_agent :: "agent_advice option"
  rr_agreement :: string
  rr_domain :: string
  rr_action :: string
  rr_source :: string
  rr_human_review :: bool
  rr_production_write :: bool
  rr_execution_permitted :: bool

definition reconcile_one :: "(string \<times> agent_advice) list \<Rightarrow> bool \<Rightarrow> advice \<Rightarrow> reconciled" where
  "reconcile_one by_service doubt item =
     (let agent = map_of by_service (ad_service item);
          agrees = (case agent of None \<Rightarrow> False | Some a \<Rightarrow> tr_domain a = ad_domain item \<and> tr_action a = ad_action item)
      in \<lparr>rr_service = ad_service item, rr_deterministic = item, rr_agent = agent,
          rr_agreement = (if agrees then ''AGREE'' else ''DISAGREE_OR_NO_AGENT_RESULT''),
          rr_domain = ad_domain item, rr_action = ad_action item, rr_source = ''deterministic_controls'',
          rr_human_review = (ad_human_review item \<or> \<not> agrees \<or> doubt),
          rr_production_write = False, rr_execution_permitted = False\<rparr>)"

definition reconcile_recommendations :: "advice list \<Rightarrow> triangulation \<Rightarrow> agent_finding list \<Rightarrow> reconciled list" where
  "reconcile_recommendations deterministic result findings =
     map (reconcile_one (index_by tr_service (ta_recommendations result)) (findings \<noteq> [] \<or> ta_human_review result)) deterministic"

end
