(* ===== verification/EvidenceBatch.thy ===== *)
theory EvidenceBatch
  imports EvidenceAdvice
begin

text \<open>
  A batch of external evidence over its life: created, filled with files, validated, analysed and
  materialised as a scenario. The directory of a batch is a record: the manifest and the reports
  derived from the files. The stored name of a file is unique to its source and revision (lemma
  \<open>stored_name_unique\<close>), so its text is kept with its entry. The clock, fresh identifiers, the
  digest and the language model are arguments; the lock and the copies of figures in the manifest
  are left out.
\<close>

subsection \<open>The projection of a scenario\<close>

definition threshold_breached :: "string \<Rightarrow> rat \<Rightarrow> bool" where
  "threshold_breached name v \<longleftrightarrow>
     name = ''upstream_tx_dbmv'' \<and> 55 \<le> v \<or> name = ''downstream_rx_dbmv'' \<and> v \<le> -15 \<or>
     name = ''mer_db'' \<and> v \<le> 30 \<or> name = ''ont_rx_dbm'' \<and> v \<le> -27 \<or>
     (name = ''ber'' \<or> name = ''uncorrectable_ratio'') \<and> 1/1000000 \<le> v \<or>
     name = ''packet_loss_pct'' \<and> 2 \<le> v \<or> (name = ''t3_timeout_count'' \<or> name = ''los_count'') \<and> 0 < v"

fun telemetry_breached :: "dict list \<Rightarrow> bool res" where
  "telemetry_breached [] = Inr False"
| "telemetry_breached (row # rows) =
     (let value = dget ''metric_value'' row in
      if value = JNull then telemetry_breached rows
      else bindR (float_of value) (\<lambda>v.
        if threshold_breached (lower (cell ''metric_name'' row)) v then Inr True else telemetry_breached rows))"

definition service_has_impairment :: "batch_rows \<Rightarrow> bool res" where
  "service_has_impairment sources =
     (if active_alarms (rows_of ''nxt_alarms'' sources) \<noteq> [] then Inr True
      else telemetry_breached (rows_of ''nxt_telemetry'' sources))"

definition has_repair_or_action :: "dict list \<Rightarrow> bool" where
  "has_repair_or_action rows \<longleftrightarrow>
     list_ex (\<lambda>row. List.member [''REPAIRED'', ''CLOSED''] (upper (cell ''status'' row)) \<or> truthy (dget ''action_taken'' row)) rows"

definition projection_as_of :: "string option \<Rightarrow> int \<Rightarrow> batch_rows \<Rightarrow> int res" where
  "projection_as_of as_of created records =
     (case as_of of Some t \<Rightarrow> parse_datetime t
      | None \<Rightarrow> (case List.map_filter event_time (all_rows records) of
          [] \<Rightarrow> Inr created | t # ts \<Rightarrow> Inr (foldl max t ts)))"

record service_projection =
  sp_service :: string
  sp_lifecycle :: string
  sp_health :: string
  sp_installed :: "int option"
  sp_age_hours :: "rat option"
  sp_counts :: "(string \<times> nat) list"
  sp_contacts :: nat
  sp_insights :: nat
  sp_incidents :: "string list"
  sp_open_mrs :: "string list"
  sp_domain :: "string option"
  sp_action :: "string option"
  sp_caddi_domain :: "string option"
  sp_caddi_action :: "string option"
  sp_caddi_agreement :: "string option"
  sp_agreement :: "string option"
  sp_human_review :: bool
  sp_codes :: "string list"

definition life_and_health :: "string \<Rightarrow> bool \<Rightarrow> bool \<Rightarrow> rat option \<Rightarrow> bool \<Rightarrow> bool \<Rightarrow> string \<times> string" where
  "life_and_health mode promoted repaired age impaired issues =
     (if promoted then (''PROMOTED_TO_INCIDENT'', ''RED'')
      else if repaired then (''RECOVERING'', if impaired then ''AMBER'' else ''GREEN'')
      else case (if mode = ''install_watch'' then age else None) of
          Some a \<Rightarrow>
            if a < 24 then (''ACTIVE'', if impaired \<or> issues then ''AMBER'' else ''GREEN'')
            else if \<not> impaired \<and> \<not> issues then (''PASSED_24H'', ''GREEN'') else (''ACTIVE'', ''AMBER'')
        | None \<Rightarrow> (''EVIDENCE_REPLAY'', if impaired \<or> issues then ''AMBER'' else ''GREEN''))"

definition age_hours :: "int \<Rightarrow> int \<Rightarrow> rat" where
  "age_hours as_of installed = max 0 (of_int (as_of - installed) / 3600000000)"

definition project_service ::
    "string \<Rightarrow> int \<Rightarrow> (string \<times> reconciled) list \<Rightarrow> batch_rows \<Rightarrow> string \<Rightarrow> service_projection res" where
  "project_service mode as_of recommendations records sid =
     (let sources = service_rows records sid; r = map_of recommendations sid;
          install = sort_key (cell ''installed_at'') (rows_of ''install_cohort'' sources);
          jtrack = rows_of ''jtrack_events'' sources; mrs = open_jtrack jtrack;
          incidents = sort (dedup (map (\<lambda>row. py_str (dget ''incident_id'' row))
            (filter (\<lambda>row. truthy (dget ''incident_id'' row)) (all_rows sources))));
          codes = (case r of None \<Rightarrow> [] | Some x \<Rightarrow> ad_codes (rr_deterministic x))
      in bindR (if install = [] then Inr None
                else bindR (parse_datetime (py_str (dget ''installed_at'' (last install)))) (\<lambda>t. Inr (Some t))) (\<lambda>installed.
         bindR (service_has_impairment sources) (\<lambda>impaired.
           let age = map_option (age_hours as_of) installed;
               lh = life_and_health mode (incidents \<noteq> [] \<or> mrs \<noteq> []) (has_repair_or_action jtrack) age impaired (codes \<noteq> [])
           in Inr \<lparr>sp_service = sid, sp_lifecycle = fst lh, sp_health = snd lh, sp_installed = installed,
                sp_age_hours = map_option (round_dec 2) age, sp_counts = sort_key fst (map (\<lambda>(s, rows). (s, length rows)) sources),
                sp_contacts = length (rows_of ''genesys_interactions'' sources),
                sp_insights = length (rows_of ''dvsum_caddi_insights'' sources), sp_incidents = incidents,
                sp_open_mrs = sort (map fst mrs), sp_domain = map_option rr_domain r, sp_action = map_option rr_action r,
                sp_caddi_domain = Option.bind r (ad_caddi_domain \<circ> rr_deterministic),
                sp_caddi_action = Option.bind r (ad_caddi_action \<circ> rr_deterministic),
                sp_caddi_agreement = map_option (ad_caddi_agreement \<circ> rr_deterministic) r,
                sp_agreement = map_option rr_agreement r,
                sp_human_review = (case r of None \<Rightarrow> True | Some x \<Rightarrow> rr_human_review x), sp_codes = codes\<rparr>)))"

record projection_metrics =
  px_services :: nat
  px_records :: nat
  px_accepted :: nat
  px_quarantined :: int
  px_contacts :: nat
  px_insights :: nat
  px_human_review :: nat
  px_matured :: nat
  px_passed :: nat
  px_promoted :: nat
  px_pass_rate :: "rat option"

definition how_many_of :: "('a \<Rightarrow> bool) \<Rightarrow> 'a list \<Rightarrow> nat" where
  "how_many_of P xs = length (filter P xs)"

definition projection_metrics_of :: "service_projection list \<Rightarrow> batch_rows \<Rightarrow> quality_report \<Rightarrow> projection_metrics" where
  "projection_metrics_of services records quality =
     (let matured = how_many_of (\<lambda>s. case sp_age_hours s of None \<Rightarrow> False | Some a \<Rightarrow> 24 \<le> a) services;
          passed = how_many_of (\<lambda>s. sp_lifecycle s = ''PASSED_24H'') services
      in \<lparr>px_services = length services, px_records = length (all_rows records), px_accepted = qr_accepted quality,
          px_quarantined = qr_quarantined quality, px_contacts = sum_list (map sp_contacts services),
          px_insights = sum_list (map sp_insights services), px_human_review = how_many_of sp_human_review services,
          px_matured = matured, px_passed = passed,
          px_promoted = how_many_of (\<lambda>s. sp_lifecycle s = ''PROMOTED_TO_INCIDENT'') services,
          px_pass_rate = (if matured = 0 then None else Some (round_dec 5 (of_nat passed / of_nat matured)))\<rparr>)"

record scenario_projection =
  pj_as_of :: int
  pj_metrics :: projection_metrics
  pj_services :: "service_projection list"
  pj_completeness :: string

definition scenario_projection_of ::
    "string \<Rightarrow> string option \<Rightarrow> int \<Rightarrow> validation \<Rightarrow> reconciled list \<Rightarrow> scenario_projection res" where
  "scenario_projection_of mode as_of created v recs =
     (let records = eligible_records (nf_rows (vd_normalized v)) in
      bindR (projection_as_of as_of created records) (\<lambda>t.
      bindR (mapR (project_service mode t (index_by rr_service recs) records) (service_ids records)) (\<lambda>services.
        Inr \<lparr>pj_as_of = t, pj_metrics = projection_metrics_of services records (vd_report v), pj_services = services,
             pj_completeness = qr_status (vd_report v)\<rparr>)))"

subsection \<open>The batch\<close>

record evidence_file =
  xf_source :: string
  xf_original :: string
  xf_stored :: string
  xf_bytes :: nat
  xf_sha256 :: string
  xf_uploaded :: int
  xf_revision :: nat
  xf_supersedes :: "string option"
  xf_content :: string

record analysis_report =
  an_id :: string
  an_analyzed :: int
  an_inputs :: "(string \<times> nat \<times> string \<times> string) list"
  an_deterministic :: "advice list"
  an_invocation :: agent_invocation
  an_triangulation :: triangulation
  an_findings :: "agent_finding list"
  an_reconciled :: "reconciled list"
  an_human_review :: bool

record evidence_scenario =
  sc_id :: string
  sc_type :: string
  sc_analysis :: string
  sc_run :: "string option"
  sc_created :: int
  sc_metrics :: projection_metrics

record evidence_batch =
  eb_name :: string
  eb_mode :: string
  eb_as_of :: "string option"
  eb_created :: int
  eb_updated :: int
  eb_status :: string
  eb_files :: "(string \<times> evidence_file) list"
  eb_history :: "(string \<times> evidence_file list) list"
  eb_validation :: "validation option"
  eb_analysis :: "analysis_report option"
  eb_analyses :: "analysis_report list"
  eb_projection :: "scenario_projection option"
  eb_scenario :: "evidence_scenario option"

type_synonym evidence_store = "(string \<times> evidence_batch) list"

text \<open>\<open>IMPORT-\<close>, eight digits, \<open>T\<close>, six digits, \<open>Z-\<close> and twelve upper-case hexadecimal digits.\<close>

definition upper_hex :: "char \<Rightarrow> bool" where
  "upper_hex c \<longleftrightarrow> is_digit_char c \<or> List.member ''ABCDEF'' c"

definition valid_batch_id :: "string \<Rightarrow> bool" where
  "valid_batch_id s \<longleftrightarrow> length s = 36 \<and> take 7 s = ''IMPORT-'' \<and> list_all is_digit_char (take 8 (drop 7 s)) \<and>
     s ! 15 = CHR ''T'' \<and> list_all is_digit_char (take 6 (drop 16 s)) \<and> take 2 (drop 22 s) = ''Z-'' \<and>
     list_all upper_hex (drop 24 s)"

definition find_batch :: "string \<Rightarrow> evidence_store \<Rightarrow> evidence_batch res" where
  "find_batch bid st =
     (if \<not> valid_batch_id bid then Inl (ValueError ''invalid import batch ID'')
      else case map_of st bid of None \<Rightarrow> Inl (FileNotFoundError bid) | Some b \<Rightarrow> Inr b)"

definition import_modes :: "string list" where
  "import_modes = [''historical_replay'', ''point_in_time'', ''install_watch'', ''shadow'']"

definition create_import_batch ::
    "int \<Rightarrow> string \<Rightarrow> string \<Rightarrow> string \<Rightarrow> string option \<Rightarrow> evidence_store \<Rightarrow> (string \<times> evidence_batch) res \<times> evidence_store" where
  "create_import_batch now hex mode name as_of st =
     (let bid = ''IMPORT-'' @ filter (\<lambda>c. c \<noteq> CHR ''-'' \<and> c \<noteq> CHR '':'') (take 19 (isoformat (utc now))) @ ''Z-'' @ take 12 (upper hex) in
      if \<not> List.member import_modes mode then (Inl (ValueError ''unsupported import mode''), st)
      else case (case as_of of None \<Rightarrow> Inr None | Some t \<Rightarrow>
          if t = [] then Inr None else bindR (parse_datetime t) (\<lambda>u. Inr (Some (iso u)))) of
        Inl e \<Rightarrow> (Inl e, st)
      | Inr a \<Rightarrow>
          if \<not> valid_batch_id bid then (Inl (ValueError ''invalid import batch ID''), st)
          else if map_of st bid \<noteq> None then (Inl (FileExistsError bid), st)
          else let b = \<lparr>eb_name = take 160 (strip name), eb_mode = mode, eb_as_of = a, eb_created = now, eb_updated = now,
                 eb_status = ''CREATED'', eb_files = [], eb_history = [], eb_validation = None, eb_analysis = None,
                 eb_analyses = [], eb_projection = None, eb_scenario = None\<rparr>
               in (Inr (bid, b), dset bid b st))"

subsection \<open>Uploading a file\<close>

definition path_name :: "string \<Rightarrow> string" where
  "path_name p = (case filter (\<lambda>w. w \<noteq> [] \<and> w \<noteq> ''.'') (split_on (CHR ''/'') p) of [] \<Rightarrow> [] | ws \<Rightarrow> last ws)"

definition filename_char :: "char \<Rightarrow> bool" where
  "filename_char c \<longleftrightarrow> (let n = (of_char (lower_char c) :: nat) in 97 \<le> n \<and> n \<le> 122) \<or> is_digit_char c \<or> List.member ''._-'' c"

definition strip_dots :: "string \<Rightarrow> string" where
  "strip_dots s = (let dot = List.member ''._'' in rev (dropWhile dot (rev (dropWhile dot s))))"

definition safe_filename :: "string \<Rightarrow> string \<Rightarrow> string" where
  "safe_filename filename source =
     (let s0 = strip_dots (sub_runs (\<lambda>c. \<not> filename_char c) (path_name filename));
          s1 = (if s0 = [] then source @ ''.csv'' else s0);
          s2 = (if ends_with ''.csv'' (lower s1) then s1 else s1 @ ''.csv'')
      in take 180 s2)"

definition max_file_bytes :: int where "max_file_bytes = 15 * 1024 * 1024"

definition stored_name :: "string \<Rightarrow> nat \<Rightarrow> string \<Rightarrow> string" where
  "stored_name source revision safe = source @ ''__v'' @ nat_str_pad 3 revision @ ''__'' @ safe"

definition frozen :: "evidence_batch \<Rightarrow> bool" where
  "frozen b \<longleftrightarrow> eb_status b = ''MATERIALIZED''"

definition immutable_error :: exn where
  "immutable_error = ValueError ''materialized import batches are immutable; create a new batch''"

definition new_file :: "(string \<Rightarrow> string) \<Rightarrow> int \<Rightarrow> string \<Rightarrow> string \<Rightarrow> string \<Rightarrow> evidence_file option \<Rightarrow> evidence_file" where
  "new_file D now source filename content old =
     (let revision = (case old of None \<Rightarrow> 1 | Some f \<Rightarrow> xf_revision f + 1) in
      \<lparr>xf_source = source, xf_original = filename, xf_stored = stored_name source revision (safe_filename filename source),
       xf_bytes = length (utf8 content), xf_sha256 = sha_hex D content, xf_uploaded = now, xf_revision = revision,
       xf_supersedes = map_option xf_sha256 old, xf_content = content\<rparr>)"

definition with_file :: "int \<Rightarrow> evidence_file \<Rightarrow> evidence_batch \<Rightarrow> evidence_batch" where
  "with_file now f b = b\<lparr>
     eb_history := dset (xf_source f)
       ((case map_of (eb_history b) (xf_source f) of None \<Rightarrow> [] | Some fs \<Rightarrow> fs) @ [f]) (eb_history b),
     eb_files := dset (xf_source f) f (eb_files b),
     eb_validation := None, eb_analysis := None, eb_scenario := None,
     eb_status := ''FILES_UPLOADED'', eb_updated := now\<rparr>"

definition add_csv_content ::
    "(string \<Rightarrow> string) \<Rightarrow> int \<Rightarrow> string \<Rightarrow> string \<Rightarrow> string \<Rightarrow> string \<Rightarrow> bool \<Rightarrow> evidence_store \<Rightarrow> evidence_file res \<times> evidence_store" where
  "add_csv_content D now bid source_type filename content replace st =
     (case canonical_source_type source_type of
        Inl e \<Rightarrow> (Inl e, st)
      | Inr source \<Rightarrow>
          if max_file_bytes < int (length (utf8 content)) then (Inl (ValueError (''CSV exceeds '' @ int_str max_file_bytes @ '' bytes'')), st)
          else if List.member content (CHR 0x00) then (Inl (ValueError ''CSV contains a NUL byte''), st)
          else case find_batch bid st of
              Inl e \<Rightarrow> (Inl e, st)
            | Inr b \<Rightarrow>
                if frozen b then (Inl immutable_error, st)
                else if map_of (eb_files b) source \<noteq> None \<and> \<not> replace
                then (Inl (FileExistsError (''source '' @ source @ '' already uploaded'')), st)
                else let f = new_file D now source filename content (map_of (eb_files b) source)
                     in (Inr f, dset bid (with_file now f b) st))"

subsection \<open>Validation, analysis, materialisation\<close>

definition raw_files :: "evidence_batch \<Rightarrow> raw_file list" where
  "raw_files b = map (\<lambda>(source, f). (source, xf_stored f, xf_content f)) (eb_files b)"

text \<open>The reports of an earlier analysis go first; an exception leaves the earlier validation.\<close>

definition validate_import_batch ::
    "(string \<Rightarrow> string) \<Rightarrow> int \<Rightarrow> string \<Rightarrow> evidence_store \<Rightarrow> quality_report res \<times> evidence_store" where
  "validate_import_batch D now bid st = (case find_batch bid st of
       Inl e \<Rightarrow> (Inl e, st)
     | Inr b0 \<Rightarrow>
         if frozen b0 then (Inl immutable_error, st)
         else let b = b0\<lparr>eb_analysis := None, eb_projection := None, eb_scenario := None\<rparr> in
           case validate_files D bid (eb_as_of b) (raw_files b) of
             Inl e \<Rightarrow> (Inl e, dset bid b st)
           | Inr v \<Rightarrow> (Inr (vd_report v),
               dset bid (b\<lparr>eb_validation := Some v, eb_status := qr_status (vd_report v), eb_updated := now\<rparr>) st))"

record agent_world =
  aw_env :: "string \<Rightarrow> string option"
  aw_ask :: "agent_payload \<Rightarrow> triangulation res"
  aw_describe :: "exn \<Rightarrow> string"
  aw_size :: "agent_payload \<Rightarrow> nat"

definition input_files :: "evidence_batch \<Rightarrow> (string \<times> nat \<times> string \<times> string) list" where
  "input_files b = map (\<lambda>(source, f). (source, xf_revision f, xf_sha256 f, xf_stored f)) (eb_files b)"

definition analysis_of ::
    "agent_world \<Rightarrow> int \<Rightarrow> string \<Rightarrow> bool \<Rightarrow> string \<Rightarrow> string \<Rightarrow> nat \<Rightarrow> (string \<times> nat \<times> string \<times> string) list \<Rightarrow>
      validation \<Rightarrow> analysis_report" where
  "analysis_of W now hex enable provider model max_services inputs v =
     (let records = eligible_records (nf_rows (vd_normalized v)); issues = qr_issues (vd_report v);
          det = deterministic_recommendations records issues;
          payload = sanitised_agent_payload (aw_size W) records issues det max_services;
          answer = invoke_triangulation_agent (aw_env W) (aw_ask W) (aw_describe W) payload provider model enable;
          checked = validate_agent_result (fst answer) records;
          rec = reconcile_recommendations det (fst checked) (snd checked)
      in \<lparr>an_id = ''ANALYSIS-'' @ take 16 (upper hex), an_analyzed = now, an_inputs = inputs, an_deterministic = det, an_invocation = snd answer,
          an_triangulation = fst checked, an_findings = snd checked, an_reconciled = rec,
          an_human_review = list_ex rr_human_review rec\<rparr>)"

definition analyze_import_batch ::
    "agent_world \<Rightarrow> int \<Rightarrow> string \<Rightarrow> bool \<Rightarrow> string \<Rightarrow> string \<Rightarrow> int \<Rightarrow> string \<Rightarrow> evidence_store \<Rightarrow>
      analysis_report res \<times> evidence_store" where
  "analyze_import_batch W now hex enable provider model max_services bid st =
     (if max_services < 1 \<or> 50 < max_services then (Inl (ValueError ''max_services must be between 1 and 50''), st)
      else case find_batch bid st of
          Inl e \<Rightarrow> (Inl e, st)
        | Inr b \<Rightarrow> (case eb_validation b of
            None \<Rightarrow> (Inl (ValueError ''validate the import batch before analysis''), st)
          | Some v \<Rightarrow>
              if frozen b then (Inl immutable_error, st)
              else if 20 \<le> length (eb_analyses b)
              then (Inl (ValueError ''import batch reached the 20-analysis limit''), st)
              else if qr_status (vd_report v) = ''REJECTED''
              then (Inl (ValueError ''the import batch failed deterministic validation''), st)
              else let a = analysis_of W now hex enable provider model (nat max_services) (input_files b) v
                   in (Inr a, dset bid (b\<lparr>eb_analysis := Some a, eb_analyses := eb_analyses b @ [a],
                        eb_status := ''ANALYZED'', eb_updated := now\<rparr>) st)))"

definition scenario_id :: "(string \<Rightarrow> string) \<Rightarrow> string \<Rightarrow> evidence_batch \<Rightarrow> analysis_report \<Rightarrow> string" where
  "scenario_id D bid b a = ''EXTSCN-'' @ take 16 (upper (sha_hex D (json_dumps (JObj
     [(''batch_id'', JStr bid), (''analysis_id'', JStr (an_id a)), (''mode'', JStr (eb_mode b)),
      (''as_of'', case eb_as_of b of None \<Rightarrow> JNull | Some t \<Rightarrow> JStr t)]))))"

definition materialize_import_batch ::
    "(string \<Rightarrow> string) \<Rightarrow> int \<Rightarrow> (string \<Rightarrow> bool) \<Rightarrow> string option \<Rightarrow> string \<Rightarrow> evidence_store \<Rightarrow>
      evidence_scenario res \<times> evidence_store" where
  "materialize_import_batch D now run_exists run bid st = (case find_batch bid st of
       Inl e \<Rightarrow> (Inl e, st)
     | Inr b \<Rightarrow> (case eb_analysis b of
         None \<Rightarrow> (Inl (ValueError ''analyze the import batch before materializing a scenario''), st)
       | Some a \<Rightarrow>
           if (case run of None \<Rightarrow> False | Some r \<Rightarrow> r \<noteq> [] \<and> \<not> run_exists r)
           then (Inl (FileNotFoundError (case run of None \<Rightarrow> [] | Some r \<Rightarrow> r)), st)
           else (case eb_validation b of
               None \<Rightarrow> (Inl (ValueError ''validate and analyze the import batch before projection''), st)
             | Some v \<Rightarrow> (case scenario_projection_of (eb_mode b) (eb_as_of b) (eb_created b) v (an_reconciled a) of
                 Inl e \<Rightarrow> (Inl e, st)
               | Inr p \<Rightarrow>
                   let s = \<lparr>sc_id = scenario_id D bid b a, sc_type = ''external_evidence_'' @ eb_mode b,
                         sc_analysis = an_id a, sc_run = run, sc_created = now, sc_metrics = pj_metrics p\<rparr>
                   in (Inr s, dset bid (b\<lparr>eb_projection := Some p, eb_scenario := Some s, eb_status := ''MATERIALIZED'',
                        eb_updated := now\<rparr>) st)))))"

subsection \<open>Histories\<close>

datatype evidence_op =
    OpCreate int string string string "string option"
  | OpAdd int string string string string bool
  | OpValidate int string
  | OpAnalyze int string bool string string int string
  | OpMaterialize int "string option" string

definition evidence_step ::
    "(string \<Rightarrow> string) \<Rightarrow> agent_world \<Rightarrow> (string \<Rightarrow> bool) \<Rightarrow> evidence_op \<Rightarrow> evidence_store \<Rightarrow> evidence_store" where
  "evidence_step D W run_exists x st = (case x of
       OpCreate now hex mode name as_of \<Rightarrow> snd (create_import_batch now hex mode name as_of st)
     | OpAdd now bid source filename content replace \<Rightarrow> snd (add_csv_content D now bid source filename content replace st)
     | OpValidate now bid \<Rightarrow> snd (validate_import_batch D now bid st)
     | OpAnalyze now hex enable provider model n bid \<Rightarrow> snd (analyze_import_batch W now hex enable provider model n bid st)
     | OpMaterialize now run bid \<Rightarrow> snd (materialize_import_batch D now run_exists run bid st))"

definition evidence_run ::
    "(string \<Rightarrow> string) \<Rightarrow> agent_world \<Rightarrow> (string \<Rightarrow> bool) \<Rightarrow> evidence_op list \<Rightarrow> evidence_store \<Rightarrow> evidence_store" where
  "evidence_run D W run_exists xs st = fold (evidence_step D W run_exists) xs st"

end
