(* ===== verification/EvidenceLaws.thy ===== *)
theory EvidenceLaws
  imports EvidenceReport
begin

text \<open>
  What the validation of external evidence guarantees: every row gets one disposition, no accepted
  row has an error against it, and an accepted record of a validated batch belongs to an accepted
  identity whose device, technology and delimiter it shares.
\<close>

subsection \<open>Cells and passes\<close>

lemma cell_dset [simp]: "cell k (dset k' v row) = (if k' = k then py_str v else cell k row)"
  by (simp add: cell_def dget_or_def)

lemma cell_strip_dset [simp]: "cell_strip k (dset k' v row) = (if k' = k then strip (py_str v) else cell_strip k row)"
  by (simp add: cell_strip_def)

lemma row_number_dset [simp]: "k \<noteq> ''source_row_number'' \<Longrightarrow> row_number (dset k v row) = row_number row"
  by (simp add: row_number_def)

lemma row_key_dset [simp]:
  "k \<noteq> ''source_type'' \<Longrightarrow> k \<noteq> ''source_file'' \<Longrightarrow> k \<noteq> ''source_row_number'' \<Longrightarrow> row_key (dset k v row) = row_key row"
  by (simp add: row_key_def)

lemma dropWhile_idem [simp]: "dropWhile P (dropWhile P xs) = dropWhile P xs"
  by (induction xs) auto

lemma strip_strip [simp]: "strip (strip s) = strip s"
proof -
  let ?a = "dropWhile is_space s"
  have "dropWhile is_space (strip s) = strip s"
  proof (cases "strip s")
    case (Cons c w)
    have "takeWhile is_space (rev ?a) @ dropWhile is_space (rev ?a) = rev ?a" by simp
    then have "?a = strip s @ rev (takeWhile is_space (rev ?a))"
      unfolding strip_def by (metis rev_append rev_rev_ident)
    then have "hd ?a = c" "?a \<noteq> []" using Cons by (metis append_Cons list.sel(1), metis append_Cons list.distinct(1))
    then have "\<not> is_space c" using hd_dropWhile by blast
    then show ?thesis by (simp add: Cons)
  qed simp
  then show ?thesis by (simp add: strip_def)
qed

lemma then_pass_simps [simp]:
  "fst (then_pass p q row) = fst (q (fst (p row)))"
  "snd (then_pass p q row) = snd (p row) @ snd (q (fst (p row)))"
  by (simp_all add: then_pass_def split: prod.splits)

lemma row_note_simps [simp]:
  "qi_code (row_note code sev m source row field service recs) = code"
  "qi_severity (row_note code sev m source row field service recs) = sev"
  "issue_key (row_note code sev m source row field service recs) = Some (source, cell ''source_file'' row, row_number row)"
  by (simp_all add: row_note_def issue_key_def)

lemma set_map_filter: "y \<in> set (List.map_filter f xs) \<longleftrightarrow> (\<exists>x \<in> set xs. f x = Some y)"
  by (induction xs) (auto split: option.splits)

lemma row_has_error_iff:
  "row_has_error issues row \<longleftrightarrow> (\<exists>i \<in> set issues. qi_severity i = ISS_ERROR \<and> issue_key i = Some (row_key row))"
  by (auto simp: row_has_error_def error_row_keys_def set_map_filter)

lemma row_has_error_append [simp]: "row_has_error (is @ js) row \<longleftrightarrow> row_has_error is row \<or> row_has_error js row"
  by (auto simp: row_has_error_iff)

text \<open>An error can only concern a row of its own source.\<close>

definition errors_in :: "string set \<Rightarrow> quality_issue list \<Rightarrow> bool" where
  "errors_in S issues \<longleftrightarrow> (\<forall>i \<in> set issues. qi_severity i = ISS_ERROR \<longrightarrow>
     (case issue_key i of None \<Rightarrow> True | Some (s, f, n) \<Rightarrow> s \<in> S))"

lemma errors_in_simps [simp]:
  "errors_in S []" "errors_in S (is @ js) \<longleftrightarrow> errors_in S is \<and> errors_in S js"
  "errors_in S (concat iss) \<longleftrightarrow> (\<forall>is \<in> set iss. errors_in S is)"
  by (auto simp: errors_in_def)

lemma errors_in_Cons:
  "errors_in S (row_note code sev m source row field service recs # is) \<longleftrightarrow> (sev = ISS_ERROR \<longrightarrow> source \<in> S) \<and> errors_in S is"
  by (auto simp: errors_in_def)

lemma errors_in_no_error: "errors_in S issues \<Longrightarrow> cell ''source_type'' row \<notin> S \<Longrightarrow> \<not> row_has_error issues row"
  by (auto simp: errors_in_def row_has_error_iff row_key_def)

subsection \<open>Rows as they are read\<close>

definition typed_records :: "batch_rows \<Rightarrow> bool" where
  "typed_records records \<longleftrightarrow> (\<forall>(source, rows) \<in> set records. \<forall>row \<in> set rows. cell ''source_type'' row = source)"

lemma normalise_row_source:
  "normalise_row D batch source file n raw = Inr (row, is) \<Longrightarrow> cell ''source_type'' row = source"
  by (auto simp: normalise_row_def stamp_row_def bindR_eq_Inr split: prod.splits)

lemma read_rows_Cons:
  assumes "read_rows D batch source fn limit names n (CsvRow cells line # items) = Inr (rows, is)"
  shows "rows = [] \<or> (\<exists>row js rs ks. normalise_row D batch source fn n (dict_row names cells) = Inr (row, js) \<and>
     read_rows D batch source fn limit names (n + 1) items = Inr (rs, ks) \<and> rows = row # rs)"
proof (cases "limit + 1 < n")
  case False
  then show ?thesis
    using assms
    by (cases "normalise_row D batch source fn n (dict_row names cells)";
        cases "read_rows D batch source fn limit names (n + 1) items") (auto simp: bindR_def)
qed (use assms in simp)

lemma read_rows_source:
  "read_rows D batch source fn limit names n items = Inr (rows, is) \<Longrightarrow> row \<in> set rows \<Longrightarrow>
     cell ''source_type'' row = source"
proof (induction items arbitrary: n rows "is")
  case (Cons it items)
  show ?case
  proof (cases it)
    case (CsvRow cells line)
    from read_rows_Cons [OF Cons.prems(1) [unfolded CsvRow]] Cons.prems(2) obtain r js rs ks where
      head: "normalise_row D batch source fn n (dict_row names cells) = Inr (r, js)" and mem: "row \<in> set (r # rs)"
      and rest: "read_rows D batch source fn limit names (n + 1) items = Inr (rs, ks)"
      by auto
    show ?thesis using mem Cons.IH [OF rest] normalise_row_source [OF head] by auto
  qed (use Cons.prems in auto)
qed auto

lemma parse_source_file_source:
  "parse_source_file D batch source file content limit = Inr (rows, is) \<Longrightarrow> \<forall>row \<in> set rows. cell ''source_type'' row = source"
  unfolding parse_source_file_def
  by (auto simp: Let_def bindR_eq_Inr split: list.splits csv_item.splits if_splits dest: read_rows_source)

lemma read_files_typed:
  "read_files D batch parsed files = Inr (records, is) \<Longrightarrow> typed_records records \<and> map fst records = map fst files"
proof (induction D batch parsed files arbitrary: records "is" rule: read_files.induct)
  case (2 D batch parsed source fn content files)
  obtain rows i1 rest i2 where rows: "(if batch_max_rows - parsed \<le> 0
      then Inr ([], [file_issue ''BATCH_ROW_LIMIT_EXCEEDED'' (''Import batch exceeds the '' @ thousands batch_max_rows @
            ''-row limit.'') source fn None])
      else parse_source_file D batch source fn content (min file_max_rows (batch_max_rows - parsed))) = Inr (rows, i1)"
    and rest: "read_files D batch (parsed + int (length rows)) files = Inr (rest, i2)" "records = (source, rows) # rest"
    using 2(2) by (auto simp: Let_def bindR_eq_Inr split: prod.splits)
  have "\<forall>row \<in> set rows. cell ''source_type'' row = source"
    using rows parse_source_file_source by (cases "batch_max_rows - parsed \<le> 0") auto
  moreover have "typed_records rest \<and> map fst rest = map fst files"
    using 2(1) [OF refl rows refl rest(1)] by simp
  ultimately show ?case by (auto simp: rest(2) typed_records_def)
qed (simp add: typed_records_def)

subsection \<open>Correlation\<close>

lemma match_field_simps:
  "snd (match_field source service idrow field row) =
     (if cell_strip field row \<noteq> [] \<and> cell_strip field idrow \<noteq> [] \<and> cell_strip field row \<noteq> cell_strip field idrow
      then [row_note (upper field @ ''_MISMATCH'') (if field = ''delimiter_id'' then ISS_WARNING else ISS_ERROR)
         (''Source value '' @ cell_strip field row @ '' disagrees with identity value '' @ cell_strip field idrow @ ''.'')
         source row (Some field) (Some service) [cell ''record_id'' row]]
      else [])"
  "fst (match_field source service idrow field row) =
     (if cell_strip field row = [] \<and> cell_strip field idrow \<noteq> [] then dset field (JStr (cell_strip field idrow)) row else row)"
  by (simp_all add: match_field_def Let_def)

definition meta_columns :: "string list" where
  "meta_columns = [''source_type'', ''source_file'', ''source_row_number'', ''service_id'']"

definition plain_columns :: "string list \<Rightarrow> bool" where
  "plain_columns fs \<longleftrightarrow> distinct fs \<and> set fs \<inter> set meta_columns = {}"

lemma plain_columns_Cons:
  "plain_columns (g # fs) \<Longrightarrow> plain_columns fs \<and> g \<notin> set fs \<and> g \<noteq> ''source_type'' \<and> g \<noteq> ''source_file'' \<and>
     g \<noteq> ''source_row_number'' \<and> g \<noteq> ''service_id''"
  by (auto simp: plain_columns_def meta_columns_def)

lemma match_fields_key:
  "plain_columns fs \<Longrightarrow> row_key (fst (passes (map (match_field source srv idrow) fs) row)) = row_key row"
proof (induction fs arbitrary: row)
  case (Cons g fs)
  then show ?case using plain_columns_Cons [OF Cons.prems] by (simp add: match_field_simps)
qed simp

lemma match_fields_service:
  "plain_columns fs \<Longrightarrow>
     cell ''service_id'' (fst (passes (map (match_field source srv idrow) fs) row)) = cell ''service_id'' row"
proof (induction fs arbitrary: row)
  case (Cons g fs)
  then show ?case using plain_columns_Cons [OF Cons.prems] by (simp add: match_field_simps)
qed simp

lemma match_field_keeps:
  assumes "g \<noteq> ''source_type''" "g \<noteq> ''source_file''" "g \<noteq> ''source_row_number''"
  shows "cell ''source_file'' (fst (match_field source srv idrow g row)) = cell ''source_file'' row"
    "row_number (fst (match_field source srv idrow g row)) = row_number row"
  using assms by (simp_all add: match_field_simps(2))

lemma match_field_cell:
  "cell_strip f (fst (match_field source srv idrow g row)) =
     (if f = g \<and> cell_strip f row = [] \<and> cell_strip f idrow \<noteq> [] then cell_strip f idrow else cell_strip f row)"
proof -
  have "strip (cell_strip g idrow) = cell_strip g idrow" by (simp add: cell_strip_def)
  then show ?thesis by (simp add: match_field_simps(2))
qed

lemma match_fields_cell:
  "plain_columns fs \<Longrightarrow> cell_strip f (fst (passes (map (match_field source srv idrow) fs) row)) =
     (if f \<in> set fs \<and> cell_strip f row = [] \<and> cell_strip f idrow \<noteq> [] then cell_strip f idrow else cell_strip f row)"
proof (induction fs arbitrary: row)
  case (Cons g fs)
  have plain: "plain_columns fs" "g \<notin> set fs" using plain_columns_Cons [OF Cons.prems] by simp_all
  show ?case
    unfolding list.map passes.simps then_pass_simps Cons.IH [OF plain(1)] match_field_cell
    using plain(2) by (cases "f = g") simp_all
qed simp

lemma match_fields_error:
  assumes "plain_columns fs" "f \<in> set fs" "f \<noteq> ''delimiter_id''" "cell_strip f row \<noteq> []" "cell_strip f idrow \<noteq> []"
    "cell_strip f row \<noteq> cell_strip f idrow"
  shows "\<exists>i \<in> set (snd (passes (map (match_field source srv idrow) fs) row)).
     qi_severity i = ISS_ERROR \<and> issue_key i = Some (source, cell ''source_file'' row, row_number row)"
  using assms
proof (induction fs arbitrary: row)
  case (Cons g fs)
  note plain = plain_columns_Cons [OF Cons.prems(1)]
  show ?case
  proof (cases "f = g")
    case True
    with Cons.prems show ?thesis by (simp add: match_field_simps)
  next
    case False
    let ?r = "fst (match_field source srv idrow g row)"
    have "\<exists>i \<in> set (snd (passes (map (match_field source srv idrow) fs) ?r)).
        qi_severity i = ISS_ERROR \<and> issue_key i = Some (source, cell ''source_file'' ?r, row_number ?r)"
      using False Cons.prems(2-6) plain by (intro Cons.IH) (simp_all add: match_field_cell)
    then show ?thesis using plain match_field_keeps [of g] by auto
  qed
qed simp

lemma match_fields_errors_in:
  "source \<in> S \<Longrightarrow> errors_in S (snd (passes (map (match_field source srv idrow) fs) row))"
  by (induction fs arbitrary: row) (simp_all add: match_field_simps errors_in_Cons)

lemma by_service_mem: "map_of (by_service_index ids) s = Some r \<Longrightarrow> r \<in> set ids"
proof (induction ids rule: rev_induct)
  case (snoc x xs)
  then show ?case by (auto simp: by_service_index_def split: if_splits)
qed (simp add: by_service_index_def)

lemma by_device_step:
  "map_of (foldl (\<lambda>d v. if v \<noteq> [] then dset v row d else d) d vs) k = Some r \<Longrightarrow> r = row \<or> map_of d k = Some r"
proof (induction vs arbitrary: d)
  case (Cons v vs)
  show ?case
    using Cons.prems Cons.IH [of "if v \<noteq> [] then dset v row d else d"] by (cases "v = []") (auto split: if_splits)
qed simp

lemma by_device_mem: "map_of (by_device_index ids) s = Some r \<Longrightarrow> r \<in> set ids"
proof (induction ids rule: rev_induct)
  case (snoc x xs)
  then have "map_of (foldl (\<lambda>d v. if v \<noteq> [] then dset v x d else d) (by_device_index xs) (device_values x)) s = Some r"
    by (simp add: by_device_index_def)
  with by_device_step snoc show ?case by fastforce
qed (simp add: by_device_index_def)

definition identity_columns :: "string list" where
  "identity_columns = [''device_id'', ''technology'', ''delimiter_type'', ''delimiter_id'']"

lemma plain_identity_columns: "plain_columns identity_columns"
  by (simp add: plain_columns_def meta_columns_def identity_columns_def)

lemma matched_row_simps [simp]:
  "row_key (matched_row s row) = row_key row" "cell ''service_id'' (matched_row s row) = s"
  "f \<in> set identity_columns \<Longrightarrow> cell_strip f (matched_row s row) = cell_strip f row"
  by (auto simp: matched_row_def identity_columns_def)

definition identity_of :: "(string \<times> dict) list \<Rightarrow> (string \<times> dict) list \<Rightarrow> dict \<Rightarrow> dict option" where
  "identity_of by_service by_device row =
     (let identity = service_identity by_service row; device = device_identity by_device row
      in if identity \<noteq> None \<and> device \<noteq> None \<and> identity \<noteq> device then None
         else if identity \<noteq> None then identity else device)"

lemma correlate_row_cases:
  obtains (refused) i where "identity_of bs bd row = None" "correlate_row bs bd source row = (row, [i])"
      "qi_severity i = ISS_ERROR" "issue_key i = Some (source, cell ''source_file'' row, row_number row)"
      "qi_code i \<noteq> ''IDENTITY_MAP_MISSING''"
  | (matched) idrow where "identity_of bs bd row = Some idrow" "correlate_row bs bd source row =
      passes (map (match_field source (cell ''service_id'' idrow) idrow) identity_columns) (matched_row (cell ''service_id'' idrow) row)"
proof (cases "identity_of bs bd row")
  case (Some idrow)
  then have "correlate_row bs bd source row =
      passes (map (match_field source (cell ''service_id'' idrow) idrow) identity_columns) (matched_row (cell ''service_id'' idrow) row)"
    unfolding identity_of_def correlate_row_def Let_def identity_columns_def
    by (cases "service_identity bs row"; cases "device_identity bd row") (auto split: if_splits)
  with Some matched show ?thesis by blast
next
  case None
  then obtain i where "correlate_row bs bd source row = (row, [i])" "qi_severity i = ISS_ERROR"
    "issue_key i = Some (source, cell ''source_file'' row, row_number row)" "qi_code i \<noteq> ''IDENTITY_MAP_MISSING''"
    unfolding identity_of_def correlate_row_def Let_def
    by (cases "service_identity bs row"; cases "device_identity bd row") (auto split: if_splits)
  with None refused show ?thesis by blast
qed

lemma identity_of_mem:
  assumes "identity_of (by_service_index ids) (by_device_index ids) row = Some idrow"
  shows "idrow \<in> set ids"
proof -
  have "x \<in> set ids" if "List.map_filter (map_of (by_device_index ids)) vs = x # xs" for vs x xs
  proof -
    have "x \<in> set (List.map_filter (map_of (by_device_index ids)) vs)" using that by simp
    then show ?thesis by (auto simp: set_map_filter dest: by_device_mem)
  qed
  with assms by_service_mem show ?thesis
    by (auto simp: identity_of_def service_identity_def device_identity_def Let_def split: if_splits list.splits)
qed

lemma correlate_row_key [simp]: "row_key (fst (correlate_row bs bd source row)) = row_key row"
  by (rule correlate_row_cases [of bs bd row source]) (simp_all add: match_fields_key [OF plain_identity_columns])

lemma correlate_row_errors_in: "source \<in> S \<Longrightarrow> errors_in S (snd (correlate_row bs bd source row))"
  by (rule correlate_row_cases [of bs bd row source]) (simp_all add: match_fields_errors_in, simp add: errors_in_def)

lemma correlate_row_accepted:
  assumes "\<not> row_has_error (snd (correlate_row bs bd source row)) row" "cell ''source_type'' row = source"
  shows "\<exists>idrow. identity_of bs bd row = Some idrow \<and>
     cell ''service_id'' (fst (correlate_row bs bd source row)) = cell ''service_id'' idrow \<and>
     (\<forall>f \<in> {''device_id'', ''technology'', ''delimiter_type''}. cell_strip f idrow \<noteq> [] \<longrightarrow>
        cell_strip f (fst (correlate_row bs bd source row)) = cell_strip f idrow)"
proof (cases rule: correlate_row_cases [of bs bd row source])
  case (refused i)
  then show ?thesis using assms by (simp add: row_has_error_iff row_key_def)
next
  case (matched idrow)
  let ?m = "matched_row (cell ''service_id'' idrow) row"
  have key: "row_key ?m = row_key row" by simp
  have agree: "cell_strip f ?m = [] \<or> cell_strip f ?m = cell_strip f idrow"
    if f: "f \<in> {''device_id'', ''technology'', ''delimiter_type''}" and id: "cell_strip f idrow \<noteq> []" for f
  proof (rule ccontr)
    assume "\<not> ?thesis"
    moreover have "f \<in> set identity_columns" "f \<noteq> ''delimiter_id''" using f by (auto simp: identity_columns_def)
    ultimately obtain i where "i \<in> set (snd (correlate_row bs bd source row))" "qi_severity i = ISS_ERROR"
      "issue_key i = Some (source, cell ''source_file'' ?m, row_number ?m)"
      using match_fields_error [OF plain_identity_columns, of f ?m idrow source "cell ''service_id'' idrow"] id
      unfolding matched(2) by auto
    with assms key show False unfolding row_has_error_iff row_key_def by auto
  qed
  have cells: "cell_strip f (fst (correlate_row bs bd source row)) = cell_strip f idrow"
    if "f \<in> {''device_id'', ''technology'', ''delimiter_type''}" "cell_strip f idrow \<noteq> []" for f
  proof -
    have "f \<in> set identity_columns" using that(1) by (auto simp: identity_columns_def)
    with agree [OF that] that(2) show ?thesis
      unfolding matched(2) match_fields_cell [OF plain_identity_columns] by auto
  qed
  moreover have "cell ''service_id'' (fst (correlate_row bs bd source row)) = cell ''service_id'' idrow"
    unfolding matched(2) match_fields_service [OF plain_identity_columns] by simp
  ultimately show ?thesis using matched(1) by blast
qed

subsection \<open>The checks on a batch\<close>

lemma rows_of_simps [simp]:
  "rows_of s [] = []" "rows_of s ((source, rows) # records) = (if source = s then rows else rows_of s records)"
  by (simp_all add: rows_of_def)

lemma rows_of_mem: "row \<in> set (rows_of s records) \<Longrightarrow> (s, rows_of s records) \<in> set records"
  by (induction records) (auto split: if_splits)

lemma rows_of_map:
  "(\<And>s. g s [] = []) \<Longrightarrow> rows_of s (map (\<lambda>(source, rows). (source, g source rows)) records) = g s (rows_of s records)"
  by (induction records) auto

lemma typed_rows_of: "typed_records records \<Longrightarrow> row \<in> set (rows_of s records) \<Longrightarrow> cell ''source_type'' row = s"
  using rows_of_mem [of row s records] unfolding typed_records_def by blast

abbreviation "not_identity \<equiv> - {''identity_map''}"

lemma correlate_identity_rows:
  assumes "correlate_identity records issues = (matched, i2)" "identity_rows records issues \<noteq> []"
  defines "f \<equiv> correlate_row (by_service_index (identity_rows records issues)) (by_device_index (identity_rows records issues))"
  shows "rows_of s matched = (if s = ''identity_map'' then rows_of s records else map (\<lambda>row. fst (f s row)) (rows_of s records))"
    and "map fst matched = map fst records"
    and "s \<noteq> ''identity_map'' \<Longrightarrow> row \<in> set (rows_of s records) \<Longrightarrow> set (snd (f s row)) \<subseteq> set i2"
    and "errors_in not_identity i2"
proof -
  let ?one = "\<lambda>(source, rows). if source = ''identity_map'' then ((source, rows), [])
     else ((source, map (\<lambda>row. fst (f source row)) rows), concat (map (\<lambda>row. snd (f source row)) rows))"
  have eq: "matched = map (\<lambda>p. fst (?one p)) records" "i2 = concat (map (\<lambda>p. snd (?one p)) records)"
    unfolding f_def using assms(1,2) by (auto simp: correlate_identity_def Let_def)
  have "matched = map (\<lambda>(source, rows). (source, if source = ''identity_map'' then rows else map (\<lambda>row. fst (f source row)) rows)) records"
    unfolding eq(1) by (rule map_cong) auto
  then show "rows_of s matched = (if s = ''identity_map'' then rows_of s records else map (\<lambda>row. fst (f s row)) (rows_of s records))"
    by (simp add: rows_of_map [where g = "\<lambda>source rows. if source = ''identity_map'' then rows else map (\<lambda>row. fst (f source row)) rows"])
  show "map fst matched = map fst records" unfolding eq(1) by (auto simp: o_def)
  show "set (snd (f s row)) \<subseteq> set i2" if "s \<noteq> ''identity_map''" "row \<in> set (rows_of s records)"
  proof -
    have "set (snd (f s row)) \<subseteq> set (snd (?one (s, rows_of s records)))" using that by auto
    moreover have "snd (?one (s, rows_of s records)) \<in> set (map (\<lambda>p. snd (?one p)) records)"
      using rows_of_mem [OF that(2)] unfolding set_map by (rule imageI)
    ultimately show ?thesis unfolding eq(2) set_concat by blast
  qed
  show "errors_in not_identity i2"
    unfolding eq(2) by (auto simp: f_def intro!: correlate_row_errors_in)
qed

lemma no_identities:
  assumes "correlate_identity records issues = (matched, i2)" "identity_rows records issues = []"
  shows "list_ex (\<lambda>i. qi_code i = ''IDENTITY_MAP_MISSING'') i2"
  using assms by (auto simp: correlate_identity_def batch_issue_def)

lemma semantic_errors_in: "errors_in not_identity (semantic_value_checks records)"
  by (auto simp: semantic_value_checks_def Let_def telemetry_issues_def caddi_issues_def jtrack_issues_def
      install_issues_def errors_in_Cons split: option.splits sum.splits)

lemma sequence_errors_in: "errors_in not_identity (sequence_issues mr k rows)"
  by (induction mr k rows rule: sequence_issues.induct) (auto simp: Let_def errors_in_Cons split: option.splits)

lemma mark_eligible_simps [simp]:
  "row_key (fst (mark_eligible as_of installs source row)) = row_key row"
  "k \<noteq> ''eligible_as_of'' \<Longrightarrow> cell k (fst (mark_eligible as_of installs source row)) = cell k row"
  "k \<noteq> ''eligible_as_of'' \<Longrightarrow> cell_strip k (fst (mark_eligible as_of installs source row)) = cell_strip k row"
  "errors_in S (snd (mark_eligible as_of installs source row))"
  by (auto simp: mark_eligible_def Let_def errors_in_Cons split: option.splits)

lemma citation_errors_in: "errors_in S (citation_issues ids row)"
  by (auto simp: citation_issues_def Let_def errors_in_Cons)

lemma cross_source_rows:
  assumes "cross_source_checks as_of records issues = Inr (marked, i5)"
  shows "\<exists>installs. \<forall>s. rows_of s marked = map (\<lambda>row. fst (mark_eligible as_of installs s row)) (rows_of s records)"
    and "map fst marked = map fst records" and "errors_in not_identity i5"
proof -
  obtain installs where m: "marked = map (\<lambda>(source, rows). (source, map (\<lambda>row. fst (mark_eligible as_of installs source row)) rows)) records"
    and i5: "i5 = concat (map (\<lambda>(source, rows). concat (map (\<lambda>row. snd (mark_eligible as_of installs source row)) rows)) records) @
            concat (map (citation_issues (index_by (cell ''record_id'')
              (filter (\<lambda>row. \<not> row_has_error issues row) (all_rows records)))) (rows_of ''dvsum_caddi_insights'' marked)) @
            jtrack_sequence_checks (rows_of ''jtrack_events'' marked)"
    using assms by (auto simp: cross_source_checks_def Let_def bindR_eq_Inr)
  show "\<exists>installs. \<forall>s. rows_of s marked = map (\<lambda>row. fst (mark_eligible as_of installs s row)) (rows_of s records)"
    unfolding m by (auto simp: rows_of_map [where g = "\<lambda>source. map (\<lambda>row. fst (mark_eligible as_of installs source row))"])
  show "map fst marked = map fst records" unfolding m by (auto simp: o_def)
  show "errors_in not_identity i5"
    unfolding i5 by (auto simp: citation_errors_in jtrack_sequence_checks_def intro: sequence_errors_in)
qed

text \<open>The checks end with the rows in their sources, and errors against identities come first.\<close>

lemma check_records_Inr:
  assumes "check_records as_of records issues0 = Inr (marked, issues)"
  obtains matched i2 installs i5 where
    "correlate_identity records (issues0 @ duplicate_checks records) = (matched, i2)"
    "\<forall>s. rows_of s marked = map (\<lambda>row. fst (mark_eligible as_of installs s row)) (rows_of s matched)"
    "map fst marked = map fst matched" "errors_in not_identity i5"
    "issues = (issues0 @ duplicate_checks records) @ i2 @ i5"
proof -
  obtain matched i2 where c: "correlate_identity records (issues0 @ duplicate_checks records) = (matched, i2)"
    by (metis surj_pair)
  let ?i4 = "(issues0 @ duplicate_checks records) @ i2 @ semantic_value_checks matched"
  obtain i5 where x: "cross_source_checks as_of matched ?i4 = Inr (marked, i5)" "issues = ?i4 @ i5"
    using assms by (auto simp: check_records_def Let_def c bindR_eq_Inr)
  obtain installs where "\<forall>s. rows_of s marked = map (\<lambda>row. fst (mark_eligible as_of installs s row)) (rows_of s matched)"
    using cross_source_rows(1) [OF x(1)] by blast
  then show ?thesis
    using that [OF c, of installs "semantic_value_checks matched @ i5"] cross_source_rows(2,3) [OF x(1)] x(2) semantic_errors_in
    by simp
qed

subsection \<open>One disposition for every row\<close>

lemma validate_files_Inr:
  assumes "validate_files D batch as_of_text files = Inr v"
  obtains records issues0 as_of rows issues where
    "typed_records records" "map fst records = map fst files" "check_records as_of records issues0 = Inr (rows, issues)"
    "vd_rows v = rows" "vd_issues v = issues" "vd_normalized v = write_normalized rows issues"
    "vd_report v = quality_report_of rows issues (write_normalized rows issues)"
proof -
  obtain records "is" as_of rows issues where "read_files D batch 0 files = Inr (records, is)"
    "check_records as_of records (is @ (if files = [] then [batch_issue ''NO_FILES_UPLOADED'' ''Upload at least one CSV file.''] else [])) =
       Inr (rows, issues)"
    "v = \<lparr>vd_rows = rows, vd_issues = issues, vd_normalized = write_normalized rows issues,
       vd_report = quality_report_of rows issues (write_normalized rows issues),
       vd_correlation = build_correlation_report rows issues, vd_timeline = build_timeline as_of rows issues\<rparr>"
    using assms by (auto simp: validate_files_def bindR_eq_Inr Let_def simp del: read_files.simps)
  then show ?thesis using that [of records as_of _ rows issues] read_files_typed by auto
qed

lemma check_records_keys:
  "check_records as_of records issues0 = Inr (rows, issues) \<Longrightarrow> map fst rows = map fst records"
proof (erule check_records_Inr)
  fix matched i2
  assume c: "correlate_identity records (issues0 @ duplicate_checks records) = (matched, i2)" "map fst rows = map fst matched"
  show "map fst rows = map fst records"
  proof (cases "identity_rows records (issues0 @ duplicate_checks records) = []")
    case True
    then have "matched = records" using c(1) by (simp add: correlate_identity_def)
    with c(2) show ?thesis by simp
  next
    case False
    with correlate_identity_rows(2) [OF c(1)] c(2) show ?thesis by simp
  qed
qed

lemma sum_rows_of:
  assumes "distinct ks" "distinct (map fst records)" "fst ` set records \<subseteq> set ks"
  shows "sum_list (map (\<lambda>k. length (rows_of k records)) ks) = sum_list (map (\<lambda>p. length (snd p)) records)"
  using assms(2,3)
proof (induction records)
  case (Cons p records)
  obtain s rows where p: "p = (s, rows)" by (cases p)
  have fresh: "rows_of s records = []" using Cons.prems(1)
    by (simp add: p rows_of_def map_of_eq_None_iff [THEN iffD2])
  have "sum_list (map (\<lambda>k. length (rows_of k (p # records))) ks) =
      sum_list (map (\<lambda>k. (if k = s then length rows else 0) + length (rows_of k records)) ks)"
    by (rule arg_cong [where f = sum_list], rule map_cong) (auto simp: p fresh)
  also have "\<dots> = sum_list (map (\<lambda>k. if k = s then length rows else 0) ks) + sum_list (map (\<lambda>k. length (rows_of k records)) ks)"
    by (rule sum_list_addf)
  also have "sum_list (map (\<lambda>k. if k = s then length rows else 0) ks) = length rows"
    using Cons.prems(2) assms(1) by (simp add: p sum_list_distinct_conv_sum_set)
  finally show ?case using Cons by (simp add: p)
qed simp

lemma distinct_sources: "distinct (map fst source_definitions)"
  by (simp add: source_definitions_def)

lemma count_dispositions:
  "disposition_count (write_normalized rows issues) d =
     sum_list (map (\<lambda>p. length (filter (\<lambda>row. disposition_of issues row = d) (rows_of (fst p) rows))) source_definitions)"
proof -
  have "length (filter (\<lambda>r. rd_disposition r = d) (concat (map (\<lambda>p. map (row_disposition_of issues (fst p)) (rows_of (fst p) rows)) ps))) =
      sum_list (map (\<lambda>p. length (filter (\<lambda>row. disposition_of issues row = d) (rows_of (fst p) rows))) ps)" for ps :: "(string \<times> source_spec) list"
    by (induction ps) (simp_all add: filter_map o_def row_disposition_of_def)
  then show ?thesis by (simp add: disposition_count_def write_normalized_def)
qed

lemma split_dispositions:
  "length xs = length (filter (\<lambda>x. f x = ACCEPTED) xs) + length (filter (\<lambda>x. f x = ACCEPTED_WITH_WARNING) xs) +
     length (filter (\<lambda>x. f x = QUARANTINED) xs)"
  "length (filter (\<lambda>x. f x \<noteq> QUARANTINED) xs) =
     length (filter (\<lambda>x. f x = ACCEPTED) xs) + length (filter (\<lambda>x. f x = ACCEPTED_WITH_WARNING) xs)"
  by (induction xs) (simp_all, (metis disposition.exhaust disposition.distinct)+)

text \<open>
  C38. Every row of a validated batch has exactly one disposition: the accepted rows and the
  quarantined rows add up to all rows, and no accepted row has an error recorded against it.
\<close>

theorem quarantine_is_exact:
  assumes "validate_files D batch as_of files = Inr v"
    and "distinct (map fst files)" "fst ` set files \<subseteq> fst ` set source_definitions"
  shows "(let q = vd_report v; n = (\<lambda>d. the (map_of (qr_dispositions q) d)) in
       qr_total q = n ACCEPTED + n ACCEPTED_WITH_WARNING + n QUARANTINED \<and>
       qr_accepted q = n ACCEPTED + n ACCEPTED_WITH_WARNING \<and> qr_quarantined q = int (n QUARANTINED)) \<and>
     (\<forall>row \<in> set (all_rows (nf_rows (vd_normalized v))). \<forall>i \<in> set (vd_issues v).
        qi_severity i = ISS_ERROR \<longrightarrow> issue_key i \<noteq> Some (row_key row))"
proof -
  obtain records issues0 as_of' rows issues where r: "map fst records = map fst files"
    "check_records as_of' records issues0 = Inr (rows, issues)"
    and v: "vd_issues v = issues" "vd_normalized v = write_normalized rows issues"
      "vd_report v = quality_report_of rows issues (write_normalized rows issues)"
    using assms(1) by (rule validate_files_Inr)
  let ?n = "write_normalized rows issues"
  let ?sum = "\<lambda>P. sum_list (map (\<lambda>p. length (filter P (rows_of (fst p) rows))) source_definitions)"
  have keys: "map fst rows = map fst files" using check_records_keys [OF r(2)] r(1) by simp
  then have "fst ` set rows = fst ` set files" by (metis list.set_map)
  with keys have "sum_list (map (\<lambda>k. length (rows_of k rows)) (map fst source_definitions)) = sum_list (map (\<lambda>p. length (snd p)) rows)"
    using assms(2,3) by (intro sum_rows_of distinct_sources) auto
  then have "qr_total (vd_report v) = sum_list (map (\<lambda>p. length (rows_of (fst p) rows)) source_definitions)"
    by (simp add: v quality_report_of_def Let_def o_def)
  also have "\<dots> = disposition_count ?n ACCEPTED + disposition_count ?n ACCEPTED_WITH_WARNING + disposition_count ?n QUARANTINED"
    unfolding count_dispositions sum_list_addf [symmetric]
    by (intro arg_cong [where f = sum_list] map_cong refl split_dispositions(1))
  finally have total: "qr_total (vd_report v) =
      disposition_count ?n ACCEPTED + disposition_count ?n ACCEPTED_WITH_WARNING + disposition_count ?n QUARANTINED" .
  have "qr_accepted (vd_report v) = ?sum (\<lambda>row. disposition_of issues row \<noteq> QUARANTINED)"
    by (simp add: v quality_report_of_def write_normalized_def Let_def o_def)
  also have "\<dots> = disposition_count ?n ACCEPTED + disposition_count ?n ACCEPTED_WITH_WARNING"
    unfolding count_dispositions sum_list_addf [symmetric]
    by (intro arg_cong [where f = sum_list] map_cong refl split_dispositions(2))
  finally have accepted: "qr_accepted (vd_report v) = disposition_count ?n ACCEPTED + disposition_count ?n ACCEPTED_WITH_WARNING" .
  have "qr_quarantined (vd_report v) = int (qr_total (vd_report v)) - int (qr_accepted (vd_report v))"
    "qr_dispositions (vd_report v) = map (\<lambda>d. (d, disposition_count ?n d)) [ACCEPTED, ACCEPTED_WITH_WARNING, QUARANTINED]"
    by (simp_all add: v quality_report_of_def Let_def)
  moreover have "\<not> row_has_error issues row" if "row \<in> set (all_rows (nf_rows ?n))" for row
    using that by (auto simp: all_rows_def write_normalized_def disposition_of_def split: if_splits)
  ultimately show ?thesis
    using total accepted by (auto simp: Let_def v(1,2) row_has_error_iff)
qed

subsection \<open>Accepted records are correlated\<close>

text \<open>
  C37. When a batch is not rejected, every accepted record of another source belongs to an
  accepted row of the identity map: it names the same service, and its device, technology and
  delimiter type are the ones the identity gives.
\<close>

theorem accepted_rows_correlated:
  assumes "validate_files D batch as_of files = Inr v" "qr_status (vd_report v) \<noteq> ''REJECTED''"
    and "row \<in> set (rows_of source (nf_rows (vd_normalized v)))" "source \<noteq> ''identity_map''"
  shows "\<exists>idrow \<in> set (rows_of ''identity_map'' (nf_rows (vd_normalized v))).
     cell ''service_id'' row = cell ''service_id'' idrow \<and>
     (\<forall>f \<in> {''device_id'', ''technology'', ''delimiter_type''}. cell_strip f idrow \<noteq> [] \<longrightarrow> cell_strip f row = cell_strip f idrow)"
proof -
  obtain records issues0 as_of' rows issues where typed: "typed_records records"
    and chk: "check_records as_of' records issues0 = Inr (rows, issues)"
    and v: "vd_normalized v = write_normalized rows issues"
      "vd_report v = quality_report_of rows issues (write_normalized rows issues)"
    using assms(1) by (rule validate_files_Inr)
  let ?i1 = "issues0 @ duplicate_checks records"
  obtain matched i2 installs i5 where c: "correlate_identity records ?i1 = (matched, i2)"
    and marked': "\<forall>s. rows_of s rows = map (\<lambda>row. fst (mark_eligible as_of' installs s row)) (rows_of s matched)"
    and "map fst rows = map fst matched" and later: "errors_in not_identity i5" "issues = ?i1 @ i2 @ i5"
    using chk by (rule check_records_Inr)
  note marked = marked' [rule_format]
  have normal: "rows_of s (nf_rows (write_normalized rows issues)) =
      (if s \<in> fst ` set source_definitions then filter (\<lambda>row. \<not> row_has_error issues row) (rows_of s rows) else [])" for s
  proof -
    have "rows_of s (map (\<lambda>p. (fst p, filter (\<lambda>row. disposition_of issues row \<noteq> QUARANTINED) (rows_of (fst p) rows))) ps) =
        (if s \<in> fst ` set ps then filter (\<lambda>row. \<not> row_has_error issues row) (rows_of s rows) else [])"
      for ps :: "(string \<times> source_spec) list"
      by (induction ps) (auto simp: disposition_of_def intro: filter_cong)
    then show ?thesis by (simp add: write_normalized_def)
  qed
  have "\<not> list_ex (\<lambda>i. qi_code i = ''IDENTITY_MAP_MISSING'') issues"
    using assms(2) by (auto simp: v quality_report_of_def validation_status_def Let_def)
  then have ids: "identity_rows records ?i1 \<noteq> []" using no_identities [OF c] by (auto simp: later(2))
  note cor = correlate_identity_rows [OF c ids]
  let ?bs = "by_service_index (identity_rows records ?i1)" and ?bd = "by_device_index (identity_rows records ?i1)"
  have "row \<in> set (rows_of source rows)" and ok: "\<not> row_has_error issues row"
    using assms(3) by (auto simp: v normal split: if_splits)
  then obtain row0 where row0: "row0 \<in> set (rows_of source records)"
    and row: "row = fst (mark_eligible as_of' installs source (fst (correlate_row ?bs ?bd source row0)))"
    using assms(4) by (auto simp: marked cor(1))
  have "\<not> row_has_error (snd (correlate_row ?bs ?bd source row0)) row0"
  proof
    assume "row_has_error (snd (correlate_row ?bs ?bd source row0)) row0"
    then have "row_has_error i2 row" using cor(3) [OF assms(4) row0] by (auto simp: row row_has_error_iff)
    with ok show False by (simp add: later(2))
  qed
  from correlate_row_accepted [OF this typed_rows_of [OF typed row0]] obtain idrow where
    idrow: "identity_of ?bs ?bd row0 = Some idrow"
    and same: "cell ''service_id'' (fst (correlate_row ?bs ?bd source row0)) = cell ''service_id'' idrow"
      "\<forall>f \<in> {''device_id'', ''technology'', ''delimiter_type''}. cell_strip f idrow \<noteq> [] \<longrightarrow>
         cell_strip f (fst (correlate_row ?bs ?bd source row0)) = cell_strip f idrow"
    by blast
  have mem: "idrow \<in> set (rows_of ''identity_map'' records)" and fine: "\<not> row_has_error ?i1 idrow"
    using identity_of_mem [OF idrow] by (auto simp: identity_rows_def)
  let ?id = "fst (mark_eligible as_of' installs ''identity_map'' idrow)"
  have "cell ''source_type'' idrow = ''identity_map''" by (rule typed_rows_of [OF typed mem])
  then have "\<not> row_has_error i2 idrow" "\<not> row_has_error i5 idrow"
    using errors_in_no_error [OF cor(4)] errors_in_no_error [OF later(1)] by simp_all
  with fine have "\<not> row_has_error issues idrow" by (simp add: later(2))
  then have "\<not> row_has_error issues ?id" by (simp add: row_has_error_iff)
  moreover have "?id \<in> set (rows_of ''identity_map'' rows)" using mem by (simp add: marked cor(1))
  moreover have "''identity_map'' \<in> fst ` set source_definitions" by (simp add: source_definitions_def)
  ultimately have "?id \<in> set (rows_of ''identity_map'' (nf_rows (vd_normalized v)))" by (simp add: v normal)
  then show ?thesis using same by (intro bexI [of _ ?id]) (auto simp: row)
qed

subsection \<open>Malformed values that end the validation\<close>

text \<open>
  A malformed number or time is a finding on its row, but two of them raise instead and end the
  validation of the whole batch: text under a column named \<open>confidence\<close>, and a malformed
  installation time of a row with a service.
\<close>

lemma text_confidence_raises:
  assumes "passes (column_passes source fn n raw) [] = (row, is)"
    and "dget ''confidence'' row = JStr s" "read_float s = None"
  shows "\<not> is_ok (normalise_row D batch source fn n raw)"
  using assms by (simp add: normalise_row_def confidence_issues_def Let_def float_of_def)

lemma mapR_fails: "x \<in> set xs \<Longrightarrow> f x = Inl e \<Longrightarrow> \<exists>e'. mapR f xs = Inl e'"
proof (induction xs)
  case (Cons y ys)
  then show ?case by (cases "f y") auto
qed simp

lemma bad_install_time_raises:
  assumes "row \<in> set (rows_of ''install_cohort'' records)" "truthy (dget ''service_id'' row)"
    and "dget ''installed_at'' row = JStr t" "parse_datetime t = Inl e" "t \<noteq> []"
  shows "\<not> is_ok (cross_source_checks as_of records issues)"
proof -
  have "\<exists>e'. mapR (\<lambda>row. bindR (parse_datetime (py_str (dget ''installed_at'' row))) (\<lambda>t. Inr (py_str (dget ''service_id'' row), t)))
      (filter (\<lambda>row. truthy (dget ''service_id'' row) \<and> truthy (dget ''installed_at'' row)) (rows_of ''install_cohort'' records)) = Inl e'"
    using assms by (intro mapR_fails [of row]) simp_all
  then show ?thesis by (auto simp: cross_source_checks_def install_times_def Let_def)
qed

text \<open>A second validity period of a service is a duplicate: its record identifier is the service.\<close>

lemma second_period_is_duplicate:
  assumes "cell ''record_id'' r1 = s" "cell ''record_id'' r2 = s" "cell ''source_type'' r2 = ''identity_map''"
  shows "row_has_error (duplicate_checks [(''identity_map'', [r1, r2])]) r2"
  using assms by (simp add: duplicate_checks_def Let_def row_has_error_iff row_key_def)

subsection \<open>An example\<close>

definition demo_identity :: "string list list" where
  "demo_identity = [[''service_id'', ''device_id'', ''technology''], [''S1'', ''D1'', ''HFC'']]"

definition demo_alarms :: "string list list" where
  "demo_alarms = [[''alarm_event_id'', ''event_at'', ''alarm_code'', ''device_id''],
     [''A1'', ''2026-01-02T03:04:05Z'', ''T3'', ''D1''], [''A2'', ''2026-01-02T03:04:05Z'', ''T3'', ''D9'']]"

definition demo_files :: "string \<Rightarrow> string \<Rightarrow> raw_file list" where
  "demo_files f g = [(''identity_map'', f, concat (map plain_line demo_identity)),
     (''nxt_alarms'', g, concat (map plain_line demo_alarms))]"

lemma demo_plain: "list_all plain_row demo_identity" "list_all plain_row demo_alarms"
  by (simp_all add: demo_identity_def demo_alarms_def plain_row_def plain_cell_def csv_consts csv_field_limit_def)

lemma demo_validated:
  "(case validate_files id batch None (demo_files f g) of Inl e \<Rightarrow> False
    | Inr v \<Rightarrow> qr_status (vd_report v) \<noteq> ''REJECTED'' \<and> rows_of ''nxt_alarms'' (nf_rows (vd_normalized v)) \<noteq> [])"
  unfolding validate_files_def demo_files_def read_files.simps parse_source_file_def
    csv_items_plain [OF demo_plain(1)] csv_items_plain [OF demo_plain(2)]
  by code_simp

theorem quarantine_is_exact_witness:
  "\<exists>v. validate_files id ''B'' None (demo_files ''i.csv'' ''a.csv'') = Inr v \<and>
     qr_total (vd_report v) = qr_accepted (vd_report v) + nat (qr_quarantined (vd_report v))"
proof -
  obtain v where v: "validate_files id ''B'' None (demo_files ''i.csv'' ''a.csv'') = Inr v"
    using demo_validated [of "''B''" "''i.csv''" "''a.csv''"] by (auto split: sum.splits)
  have "distinct (map fst (demo_files ''i.csv'' ''a.csv''))" "fst ` set (demo_files ''i.csv'' ''a.csv'') \<subseteq> fst ` set source_definitions"
    by (simp_all add: demo_files_def source_definitions_def)
  from quarantine_is_exact [OF v this] v show ?thesis by (auto simp: Let_def)
qed

theorem accepted_rows_correlated_witness:
  "\<exists>v row. validate_files id ''B'' None (demo_files ''i.csv'' ''a.csv'') = Inr v \<and> row \<in> set (rows_of ''nxt_alarms'' (nf_rows (vd_normalized v))) \<and>
     cell ''service_id'' row \<in> cell ''service_id'' ` set (rows_of ''identity_map'' (nf_rows (vd_normalized v)))"
proof -
  obtain v where v: "validate_files id ''B'' None (demo_files ''i.csv'' ''a.csv'') = Inr v" "qr_status (vd_report v) \<noteq> ''REJECTED''"
    and "rows_of ''nxt_alarms'' (nf_rows (vd_normalized v)) \<noteq> []"
    using demo_validated [of "''B''" "''i.csv''" "''a.csv''"] by (auto split: sum.splits)
  then obtain row where row: "row \<in> set (rows_of ''nxt_alarms'' (nf_rows (vd_normalized v)))"
    by (metis list.set_intros(1) neq_Nil_conv)
  have "''nxt_alarms'' \<noteq> ''identity_map''" by simp
  from accepted_rows_correlated [OF v row this] v(1) row show ?thesis by blast
qed

end
