(* ===== verification/EvidenceBatchLaws.thy ===== *)
theory EvidenceBatchLaws
  imports EvidenceBatch EvidenceLaws
begin

text \<open>
  What a batch of external evidence guarantees over its life: the agent can only confirm the
  rules, the reports always belong to the current files, a materialised batch is final, and an
  untouched template is an empty, faultless file.
\<close>

subsection \<open>The agent\<close>

lemma set_unknown_refs [simp]: "set (unknown_refs known refs) = set refs - set known"
  by (auto simp: unknown_refs_def)

lemma known_only_subset: "set (known_only known refs) \<subseteq> set known"
proof (cases "unknown_refs known refs = []")
  case True
  then have "set refs - set known = {}" using set_unknown_refs [of known refs] by simp
  with True show ?thesis by (auto simp: known_only_def)
qed (auto simp: known_only_def)

definition known_ids :: "batch_rows \<Rightarrow> string set" where
  "known_ids records = cell ''record_id'' ` set (all_rows records)"

lemma validate_agent_result_sound:
  assumes "validate_agent_result result records = (checked, findings)"
  shows "r \<in> set (ta_recommendations checked) \<Longrightarrow>
      tr_domain r \<in> set allowed_domains \<and> tr_action r \<in> set allowed_actions \<and> set (tr_refs r) \<subseteq> known_ids records"
    and "i \<in> set (ta_inconsistencies checked) \<Longrightarrow> set (ti_refs i) \<subseteq> known_ids records"
proof -
  let ?known = "map (cell ''record_id'') (all_rows records)"
  have known: "set (known_only ?known refs) \<subseteq> known_ids records" for refs
    using known_only_subset [of ?known refs] by (simp add: known_ids_def)
  have fixed: "tr_domain (fst (check_advice svs x)) \<in> set allowed_domains" "tr_action (fst (check_advice svs x)) \<in> set allowed_actions"
    "tr_refs (fst (check_advice svs x)) = tr_refs x" for svs x
    by (simp_all add: check_advice_def Let_def) (simp_all add: allowed_domains_def allowed_actions_def)
  show "tr_domain r \<in> set allowed_domains \<and> tr_action r \<in> set allowed_actions \<and> set (tr_refs r) \<subseteq> known_ids records"
    if "r \<in> set (ta_recommendations checked)"
    using assms that fixed known by (auto simp: validate_agent_result_def Let_def simp del: List.member_iff) blast
  show "set (ti_refs i) \<subseteq> known_ids records" if "i \<in> set (ta_inconsistencies checked)"
    using assms that known by (auto simp: validate_agent_result_def Let_def) blast
qed

lemma reconcile_simps:
  "r \<in> set (reconcile_recommendations det result findings) \<longleftrightarrow>
     (\<exists>d \<in> set det. r = reconcile_one (index_by tr_service (ta_recommendations result)) (findings \<noteq> [] \<or> ta_human_review result) d)"
  by (auto simp: reconcile_recommendations_def)

lemma reconcile_one_unattended:
  assumes "\<not> rr_human_review (reconcile_one (index_by tr_service recs) doubt d)"
  shows "\<not> ad_human_review d" "\<not> doubt"
    "\<exists>g \<in> set recs. rr_agent (reconcile_one (index_by tr_service recs) doubt d) = Some g \<and> tr_service g = ad_service d \<and>
       tr_domain g = ad_domain d \<and> tr_action g = ad_action d"
  using assms by (auto simp: reconcile_one_def Let_def dest: map_of_index_byD split: option.splits)

lemma unattended_advice: "d \<in> set (deterministic_recommendations records issues) \<Longrightarrow> \<not> ad_human_review d \<Longrightarrow>
    ad_action d = ''collect_more_evidence''"
  by (auto simp: deterministic_recommendations_def recommend_service_def Let_def)

text \<open>
  C36. Whatever the language model answers, the recommendation on record is the one of the rules and
  permits no execution. The answer kept cites known evidence and names allowed domains and actions
  only. A service goes without a person only when the agent agrees, nothing was found wrong with
  its answer, and all that is recommended is to collect more evidence.
\<close>

theorem agent_cannot_override:
  assumes "a = analysis_of W now hex enable provider model k inputs v"
    and "records = eligible_records (nf_rows (vd_normalized v))"
  shows "an_deterministic a = deterministic_recommendations records (qr_issues (vd_report v)) \<and>
     map rr_deterministic (an_reconciled a) = an_deterministic a \<and>
     (\<forall>g \<in> set (ta_recommendations (an_triangulation a)).
        tr_domain g \<in> set allowed_domains \<and> tr_action g \<in> set allowed_actions \<and> set (tr_refs g) \<subseteq> known_ids records) \<and>
     (\<forall>i \<in> set (ta_inconsistencies (an_triangulation a)). set (ti_refs i) \<subseteq> known_ids records) \<and>
     (\<forall>r \<in> set (an_reconciled a). rr_domain r = ad_domain (rr_deterministic r) \<and> rr_action r = ad_action (rr_deterministic r) \<and>
        \<not> rr_execution_permitted r \<and> \<not> rr_production_write r \<and>
        (rr_human_review r \<or> rr_action r = ''collect_more_evidence'' \<and> an_findings a = [] \<and>
           (\<exists>g \<in> set (ta_recommendations (an_triangulation a)). rr_agent r = Some g \<and> tr_service g = rr_service r \<and>
              tr_domain g = rr_domain r \<and> tr_action g = rr_action r)))"
proof -
  let ?det = "deterministic_recommendations records (qr_issues (vd_report v))"
  obtain answer inv where "invoke_triangulation_agent (aw_env W) (aw_ask W) (aw_describe W)
      (sanitised_agent_payload (aw_size W) records (qr_issues (vd_report v)) ?det k) provider model enable = (answer, inv)"
    by fastforce
  moreover obtain checked findings where v: "validate_agent_result answer records = (checked, findings)"
    by fastforce
  ultimately have a: "an_deterministic a = ?det" "an_triangulation a = checked" "an_findings a = findings"
    "an_reconciled a = reconcile_recommendations ?det checked findings"
    by (simp_all add: assms analysis_of_def Let_def)
  have "map rr_deterministic (an_reconciled a) = ?det"
    unfolding a(4) reconcile_recommendations_def by (simp add: o_def reconcile_one_def Let_def)
  moreover have "rr_domain r = ad_domain (rr_deterministic r) \<and> rr_action r = ad_action (rr_deterministic r) \<and>
      \<not> rr_execution_permitted r \<and> \<not> rr_production_write r \<and>
      (rr_human_review r \<or> rr_action r = ''collect_more_evidence'' \<and> findings = [] \<and>
         (\<exists>g \<in> set (ta_recommendations checked). rr_agent r = Some g \<and> tr_service g = rr_service r \<and>
            tr_domain g = rr_domain r \<and> tr_action g = rr_action r))"
    if mem: "r \<in> set (an_reconciled a)" for r
  proof -
    let ?doubt = "findings \<noteq> [] \<or> ta_human_review checked"
    obtain d where d: "d \<in> set ?det" "r = reconcile_one (index_by tr_service (ta_recommendations checked)) ?doubt d"
      using mem unfolding a(4) reconcile_simps by blast
    have r: "rr_deterministic r = d" "rr_domain r = ad_domain d" "rr_action r = ad_action d" "rr_service r = ad_service d"
      "\<not> rr_execution_permitted r" "\<not> rr_production_write r"
      by (simp_all add: d(2) reconcile_one_def Let_def)
    show ?thesis
    proof (cases "rr_human_review r")
      case False
      note alone = reconcile_one_unattended [OF False [unfolded d(2)]]
      from unattended_advice [OF d(1) alone(1)] alone(2,3) r show ?thesis by (simp add: d(2))
    qed (use r in simp)
  qed
  ultimately show ?thesis
    using validate_agent_result_sound [OF v] unfolding a(1-3) by blast
qed

subsection \<open>Reports belong to the current files\<close>

lemma takeWhile_pad: "takeWhile is_digit_char (nat_str_pad 3 n @ ''__'' @ s) = nat_str_pad 3 n"
proof -
  have "\<forall>c \<in> set (nat_str_pad 3 n). is_digit_char c"
    using nat_str_digits [of _ n] by (auto simp: nat_str_pad_def Let_def is_digit_char_def)
  then show ?thesis by (simp add: is_digit_char_def)
qed

definition no_dunder :: "string \<Rightarrow> bool" where
  "no_dunder s \<longleftrightarrow> \<not> contains ''__'' s \<and> (s = [] \<or> last s \<noteq> CHR ''_'')"

lemma no_dunder_Cons: "no_dunder (c # s) \<Longrightarrow> no_dunder s \<and> (c = CHR ''_'' \<longrightarrow> s \<noteq> [] \<and> hd s \<noteq> CHR ''_'')"
  by (cases s) (auto simp: no_dunder_def starts_with_def split: if_splits)

lemma dunder_prefix:
  "no_dunder s \<Longrightarrow> no_dunder s' \<Longrightarrow> s @ ''__'' @ a = s' @ ''__'' @ b \<Longrightarrow> s = s'"
proof (induction s arbitrary: s')
  case Nil
  then show ?case
    by (cases s') (auto dest!: no_dunder_Cons simp: hd_append split: if_splits, (metis append_Cons list.sel(1) neq_Nil_conv)?)
next
  case (Cons c s)
  show ?case
  proof (cases s')
    case Nil
    with Cons.prems show ?thesis
      using no_dunder_Cons [OF Cons.prems(1)] by (cases s) auto
  next
    case (Cons d w)
    with Cons.prems Cons.IH [of w] no_dunder_Cons show ?thesis by auto
  qed
qed

lemma sources_no_dunder: "list_all (\<lambda>p. no_dunder (fst p)) source_definitions"
  by (simp add: source_definitions_def no_dunder_def starts_with_def)

lemma stored_name_unique:
  assumes "s \<in> fst ` set source_definitions" "s' \<in> fst ` set source_definitions"
    and "stored_name s n x = stored_name s' n' x'"
  shows "s = s' \<and> n = n'"
proof -
  have "no_dunder s" "no_dunder s'" using assms(1,2) sources_no_dunder by (auto simp: list_all_iff)
  then have "s = s'"
    using assms(3) dunder_prefix [of s s' "CHR ''v'' # nat_str_pad 3 n @ ''__'' @ x" "CHR ''v'' # nat_str_pad 3 n' @ ''__'' @ x'"]
    by (simp add: stored_name_def)
  with assms(3) have "nat_str_pad 3 n @ ''__'' @ x = nat_str_pad 3 n' @ ''__'' @ x'"
    by (simp add: stored_name_def)
  then have "nat_str_pad 3 n = nat_str_pad 3 n'" by (metis takeWhile_pad)
  with \<open>s = s'\<close> show ?thesis by simp
qed

definition uploads_ok :: "evidence_batch \<Rightarrow> bool" where
  "uploads_ok b \<longleftrightarrow> (\<forall>s f. map_of (eb_files b) s = Some f \<longrightarrow>
     (\<exists>fs. map_of (eb_history b) s = Some (fs @ [f]) \<and> map xf_revision (fs @ [f]) = [1..<length fs + 2])) \<and>
     (\<forall>s. map_of (eb_files b) s = None \<longrightarrow> map_of (eb_history b) s = None)"

definition reports_ok :: "(string \<Rightarrow> string) \<Rightarrow> string \<Rightarrow> evidence_batch \<Rightarrow> bool" where
  "reports_ok D bid b \<longleftrightarrow>
     (\<forall>v. eb_validation b = Some v \<longrightarrow> validate_files D bid (eb_as_of b) (raw_files b) = Inr v) \<and>
     (\<forall>a. eb_analysis b = Some a \<longrightarrow> a \<in> set (eb_analyses b) \<and> an_inputs a = input_files b \<and>
        (\<exists>v. eb_validation b = Some v \<and> qr_status (vd_report v) \<noteq> ''REJECTED'' \<and>
           an_deterministic a = deterministic_recommendations (eligible_records (nf_rows (vd_normalized v))) (qr_issues (vd_report v))))"

definition life_ok :: "evidence_batch \<Rightarrow> bool" where
  "life_ok b \<longleftrightarrow> (frozen b \<longleftrightarrow> eb_scenario b \<noteq> None) \<and> (eb_scenario b \<noteq> None \<longrightarrow> eb_analysis b \<noteq> None) \<and> length (eb_analyses b) \<le> 20"

definition batch_ok :: "(string \<Rightarrow> string) \<Rightarrow> string \<Rightarrow> evidence_batch \<Rightarrow> bool" where
  "batch_ok D bid b \<longleftrightarrow> uploads_ok b \<and> reports_ok D bid b \<and> life_ok b"

definition store_ok :: "(string \<Rightarrow> string) \<Rightarrow> evidence_store \<Rightarrow> bool" where
  "store_ok D st \<longleftrightarrow> (\<forall>bid b. map_of st bid = Some b \<longrightarrow> batch_ok D bid b)"

lemma store_ok_dset: "store_ok D st \<Longrightarrow> batch_ok D bid b \<Longrightarrow> store_ok D (dset bid b st)"
  by (simp add: store_ok_def)

lemma find_batch_Inr: "find_batch bid st = Inr b \<longleftrightarrow> valid_batch_id bid \<and> map_of st bid = Some b"
  by (auto simp: find_batch_def split: option.splits)

lemma store_ok_find: "store_ok D st \<Longrightarrow> find_batch bid st = Inr b \<Longrightarrow> batch_ok D bid b"
  by (simp add: store_ok_def find_batch_Inr)

lemma validation_status_cases:
  "validation_status n issues \<in> {''REJECTED'', ''VALIDATED_WITH_QUARANTINE'', ''VALIDATED_WITH_WARNINGS'', ''VALIDATED''}"
  by (simp add: validation_status_def)

lemma report_not_materialised: "qr_status (quality_report_of rows issues n) \<noteq> ''MATERIALIZED''"
  using validation_status_cases [of "sum_list (map (\<lambda>p. length (snd p)) (nf_rows n))" issues]
  by (auto simp: quality_report_of_def Let_def)

lemma validated_not_materialised:
  assumes "validate_files D bid as_of files = Inr v"
  shows "qr_status (vd_report v) \<noteq> ''MATERIALIZED''"
proof -
  obtain records issues0 as_of' rows issues where
    "vd_report v = quality_report_of rows issues (write_normalized rows issues)"
    using assms by (rule validate_files_Inr)
  then show ?thesis by (simp add: report_not_materialised)
qed

lemma create_ok:
  assumes "store_ok D st"
  shows "store_ok D (snd (create_import_batch now hex mode name as_of st))"
  using assms
  by (auto simp: create_import_batch_def Let_def frozen_def batch_ok_def uploads_ok_def reports_ok_def life_ok_def
      split: sum.splits intro!: store_ok_dset)

lemma with_file_ok:
  assumes "batch_ok D bid b"
  shows "batch_ok D bid (with_file now (new_file D now source filename content (map_of (eb_files b) source)) b)"
proof -
  let ?f = "new_file D now source filename content (map_of (eb_files b) source)"
  let ?old = "case map_of (eb_history b) source of None \<Rightarrow> [] | Some fs \<Rightarrow> fs"
  have f: "xf_source ?f = source" by (simp add: new_file_def Let_def)
  have up: "uploads_ok b" using assms by (simp add: batch_ok_def)
  have "map xf_revision (?old @ [?f]) = [1..<length ?old + 2]"
  proof (cases "map_of (eb_files b) source")
    case None
    with up have "map_of (eb_history b) source = None" by (simp add: uploads_ok_def)
    with None show ?thesis by (simp add: new_file_def Let_def)
  next
    case (Some g)
    with up obtain fs where fs: "map_of (eb_history b) source = Some (fs @ [g])" "map xf_revision (fs @ [g]) = [1..<length fs + 2]"
      unfolding uploads_ok_def by blast
    have "last (map xf_revision (fs @ [g])) = last [1..<length fs + 2]" using fs(2) by simp
    then have "xf_revision g = length fs + 1" by simp
    then show ?thesis using Some fs by (simp add: new_file_def Let_def)
  qed
  then have "uploads_ok (with_file now ?f b)"
    using up by (auto simp: uploads_ok_def with_file_def f)
  then show ?thesis
    using assms by (simp add: batch_ok_def reports_ok_def life_ok_def with_file_def frozen_def)
qed

lemma add_ok:
  assumes "store_ok D st"
  shows "store_ok D (snd (add_csv_content D now bid source filename content rep st))"
proof -
  have step: "batch_ok D bid (with_file now (new_file D now source' filename content old) b)"
    if "find_batch bid st = Inr b" "map_of (eb_files b) source' = old" for b source' old
    using with_file_ok [OF store_ok_find [OF assms that(1)]] that(2) by blast
  show ?thesis
    using assms by (auto simp: add_csv_content_def Let_def split: sum.splits intro!: store_ok_dset step)
qed

lemma batch_validate_ok:
  assumes "store_ok D st"
  shows "store_ok D (snd (validate_import_batch D now bid st))"
proof (cases "find_batch bid st")
  case (Inr b0)
  let ?b = "b0\<lparr>eb_analysis := None, eb_projection := None, eb_scenario := None\<rparr>"
  have b0: "batch_ok D bid b0" using assms Inr by (rule store_ok_find)
  show ?thesis
  proof (cases "frozen b0")
    case False
    have raw: "raw_files ?b = raw_files b0" by (simp add: raw_files_def)
    have ok: "batch_ok D bid ?b"
      using b0 False by (simp add: batch_ok_def uploads_ok_def reports_ok_def life_ok_def frozen_def raw_files_def)
    show ?thesis
    proof (cases "validate_files D bid (eb_as_of b0) (raw_files b0)")
      case (Inl e)
      then show ?thesis using Inr False ok assms by (simp add: validate_import_batch_def Let_def raw store_ok_dset)
    next
      case v: (Inr v)
      let ?c = "?b\<lparr>eb_validation := Some v, eb_status := qr_status (vd_report v), eb_updated := now\<rparr>"
      have "raw_files ?c = raw_files b0" by (simp add: raw_files_def)
      then have "batch_ok D bid ?c"
        using b0 v validated_not_materialised [OF v]
        by (simp add: batch_ok_def uploads_ok_def reports_ok_def life_ok_def frozen_def)
      then show ?thesis using Inr v False assms by (simp add: validate_import_batch_def Let_def raw store_ok_dset)
    qed
  qed (use Inr assms in \<open>simp add: validate_import_batch_def\<close>)
qed (use assms in \<open>simp add: validate_import_batch_def\<close>)

lemma analysis_deterministic: "an_inputs (analysis_of W now hex enable provider model k inputs v) = inputs"
  "an_deterministic (analysis_of W now hex enable provider model k inputs v) =
    deterministic_recommendations (eligible_records (nf_rows (vd_normalized v))) (qr_issues (vd_report v))"
  by (simp_all add: analysis_of_def Let_def)

lemma analyze_ok:
  assumes "store_ok D st"
  shows "store_ok D (snd (analyze_import_batch W now hex enable provider model k bid st))"
proof -
  have step: "batch_ok D bid (b\<lparr>eb_analysis := Some a, eb_analyses := eb_analyses b @ [a], eb_status := ''ANALYZED'', eb_updated := now\<rparr>)"
    if "batch_ok D bid b" "eb_validation b = Some v" "\<not> frozen b" "\<not> 20 \<le> length (eb_analyses b)"
      "qr_status (vd_report v) \<noteq> ''REJECTED''" "a = analysis_of W now hex enable provider model n (input_files b) v" for b v a n
    using that by (auto simp: batch_ok_def uploads_ok_def reports_ok_def life_ok_def frozen_def raw_files_def input_files_def analysis_deterministic)
  show ?thesis
    using assms
    by (auto simp: analyze_import_batch_def Let_def split: sum.splits option.splits dest: store_ok_find
        intro!: store_ok_dset step)
qed

lemma materialize_ok:
  assumes "store_ok D st"
  shows "store_ok D (snd (materialize_import_batch D now run_exists run bid st))"
proof -
  have step: "batch_ok D bid (b\<lparr>eb_projection := p, eb_scenario := Some s, eb_status := ''MATERIALIZED'', eb_updated := now\<rparr>)"
    if "batch_ok D bid b" "eb_analysis b = Some a" for b a p s
    using that by (auto simp: batch_ok_def uploads_ok_def reports_ok_def life_ok_def frozen_def raw_files_def input_files_def)
  show ?thesis
    using assms
    by (auto simp: materialize_import_batch_def Let_def split: sum.splits option.splits dest: store_ok_find
        intro!: store_ok_dset step)
qed

lemma evidence_run_ok: "store_ok D st \<Longrightarrow> store_ok D (evidence_run D W run_exists xs st)"
proof (induction xs arbitrary: st)
  case (Cons x xs)
  have "store_ok D (evidence_step D W run_exists x st)"
    using Cons.prems by (cases x) (simp_all add: evidence_step_def create_ok add_ok batch_validate_ok analyze_ok materialize_ok)
  with Cons.IH show ?case by (simp add: evidence_run_def)
qed (simp add: evidence_run_def)

text \<open>
  C39. After any history of uploads, validations, analyses and materialisations, the reports of a
  batch belong to its current files: a validation on record is what validating the files gives, an
  analysis on record rests on that validation and was not rejected, and only an analysed batch is
  materialised. The uploads of every source are numbered from one without a gap.
\<close>

theorem evidence_reports_current:
  assumes "map_of (evidence_run D W run_exists xs []) bid = Some b"
  shows "(\<forall>v. eb_validation b = Some v \<longrightarrow> validate_files D bid (eb_as_of b) (raw_files b) = Inr v) \<and>
     (\<forall>a. eb_analysis b = Some a \<longrightarrow> an_inputs a = input_files b \<and> (\<exists>v. eb_validation b = Some v \<and> qr_status (vd_report v) \<noteq> ''REJECTED'' \<and>
        an_deterministic a = deterministic_recommendations (eligible_records (nf_rows (vd_normalized v))) (qr_issues (vd_report v)))) \<and>
     (eb_status b = ''MATERIALIZED'' \<longrightarrow> eb_analysis b \<noteq> None \<and> eb_scenario b \<noteq> None) \<and>
     (\<forall>s f. map_of (eb_files b) s = Some f \<longrightarrow>
        (\<exists>fs. map_of (eb_history b) s = Some (fs @ [f]) \<and> map xf_revision (fs @ [f]) = [1..<length fs + 2]))"
proof -
  have "store_ok D (evidence_run D W run_exists xs [])" by (rule evidence_run_ok) (simp add: store_ok_def)
  with assms have "batch_ok D bid b" by (simp add: store_ok_def)
  then show ?thesis by (auto simp: batch_ok_def uploads_ok_def reports_ok_def life_ok_def frozen_def)
qed

subsection \<open>Materialised batches are final\<close>

definition same_evidence :: "evidence_batch \<Rightarrow> evidence_batch \<Rightarrow> bool" where
  "same_evidence b c \<longleftrightarrow> frozen c \<and> eb_files c = eb_files b \<and> eb_history c = eb_history b \<and> eb_validation c = eb_validation b \<and>
     eb_analysis c = eb_analysis b \<and> eb_analyses c = eb_analyses b"

lemma frozen_step:
  assumes "map_of st bid = Some b" "frozen b"
  shows "\<exists>c. map_of (evidence_step D W run_exists x st) bid = Some c \<and> same_evidence b c"
proof -
  have same: "same_evidence b b" using assms(2) by (simp add: same_evidence_def)
  show ?thesis
  proof (cases x)
    case (OpCreate now hex mode name as_of)
    then show ?thesis using assms same
      by (auto simp: evidence_step_def create_import_batch_def Let_def split: sum.splits)
  next
    case (OpAdd now bid' source filename content rep)
    then show ?thesis using assms same
      by (auto simp: evidence_step_def add_csv_content_def Let_def find_batch_Inr split: sum.splits)
  next
    case (OpValidate now bid')
    then show ?thesis using assms same
      by (auto simp: evidence_step_def validate_import_batch_def Let_def find_batch_Inr split: sum.splits)
  next
    case (OpAnalyze now hex enable provider model n bid')
    then show ?thesis using assms same
      by (auto simp: evidence_step_def analyze_import_batch_def Let_def find_batch_Inr split: sum.splits option.splits)
  next
    case (OpMaterialize now run bid')
    then show ?thesis using assms same
      by (auto simp: evidence_step_def materialize_import_batch_def Let_def find_batch_Inr same_evidence_def frozen_def
          split: sum.splits option.splits)
  qed
qed

text \<open>Nothing changes the files, the validation or the analyses of a materialised batch again.\<close>

lemma materialised_is_final:
  "map_of st bid = Some b \<Longrightarrow> frozen b \<Longrightarrow>
     \<exists>c. map_of (evidence_run D W run_exists xs st) bid = Some c \<and> same_evidence b c"
proof (induction xs arbitrary: st b)
  case Nil
  then show ?case by (simp add: evidence_run_def same_evidence_def)
next
  case (Cons x xs)
  obtain c where c: "map_of (evidence_step D W run_exists x st) bid = Some c" "same_evidence b c"
    using frozen_step [OF Cons.prems] by blast
  then obtain d where "map_of (evidence_run D W run_exists xs (evidence_step D W run_exists x st)) bid = Some d" "same_evidence c d"
    using Cons.IH [OF c(1)] by (auto simp: same_evidence_def)
  with c(2) show ?case by (auto simp: evidence_run_def same_evidence_def)
qed

subsection \<open>Templates\<close>

lemma templates_plain: "list_all (\<lambda>p. plain_row (snd p)) csv_templates"
  by (simp add: csv_templates_def plain_row_def plain_cell_def csv_consts csv_field_limit_def)

definition clean_header :: "string \<Rightarrow> bool" where
  "clean_header h \<longleftrightarrow> list_all (\<lambda>c. header_char c \<or> c = CHR ''_'') h \<and> \<not> contains ''__'' h \<and>
     h \<noteq> [] \<and> hd h \<noteq> CHR ''_'' \<and> last h \<noteq> CHR ''_''"

lemma sub_runs_clean:
  assumes "\<forall>c \<in> set h. P c \<longrightarrow> c = CHR ''_''" "\<not> contains ''__'' h"
  shows "sub_runs P h = h"
  using assms
proof (induction P h rule: sub_runs.induct)
  case (2 P c s)
  show ?case
  proof (cases "P c")
    case True
    then have c: "c = CHR ''_''" using 2(3) by simp
    have "s = [] \<or> hd s \<noteq> CHR ''_''"
      using 2(4) c by (cases s) (auto simp: starts_with_def)
    then have dw: "dropWhile P s = s" using 2(3) by (cases s) auto
    have "sub_runs P s = s" using 2(1) [OF True, unfolded dw] 2(3,4) by simp
    then show ?thesis using True c dw by simp
  next
    case False
    then show ?thesis using 2(2) [OF False] 2(3,4) by simp
  qed
qed simp

lemma dropWhile_none: "h = [] \<or> \<not> P (hd h) \<Longrightarrow> dropWhile P h = h"
  by (cases h) auto

lemma normalise_header_clean:
  assumes "clean_header h"
  shows "normalise_header h = h"
proof -
  have chars: "header_char c \<or> c = CHR ''_''" if "c \<in> set h" for c
    using assms that by (simp add: clean_header_def list_all_iff)
  have plain: "\<not> is_space c \<and> lower_char c = c" if "header_char c \<or> c = CHR ''_''" for c
    using that by (auto simp: header_char_def is_digit_char_def is_space_def lower_char_def Let_def)
  have ne: "h \<noteq> []" "hd h \<in> set h" "last h \<in> set h" using assms by (auto simp: clean_header_def)
  have "dropWhile is_space h = h" "dropWhile is_space (rev h) = rev h"
    using dropWhile_none [of h is_space] dropWhile_none [of "rev h" is_space] plain [OF chars [OF ne(2)]]
      plain [OF chars [OF ne(3)]] by (simp_all add: hd_rev)
  then have "strip h = h" by (simp add: strip_def)
  moreover have "lower h = h" unfolding lower_def by (rule map_idI) (use plain chars in blast)
  moreover have "sub_runs (\<lambda>c. \<not> header_char c) h = h" "sub_runs (\<lambda>c. c = CHR ''_'') h = h"
    by (rule sub_runs_clean; use assms chars in \<open>simp add: clean_header_def; blast\<close>)+
  moreover have "strip_char (CHR ''_'') h = h"
    using assms ne by (simp add: strip_char_def clean_header_def hd_rev dropWhile_none)
  ultimately show ?thesis by (simp add: normalise_header_def)
qed

lemma template_headers: "list_all (\<lambda>p. list_all clean_header (fst p # snd p)) csv_templates"
  by (simp add: csv_templates_def clean_header_def header_char_def is_digit_char_def starts_with_def)
definition template_fits :: "string \<Rightarrow> string list \<Rightarrow> bool" where
  "template_fits source columns \<longleftrightarrow> map_of source_aliases source = Some source \<and>
     list_all (\<lambda>c. map_of (ss_aliases (spec_of source)) c = None) columns \<and> distinct columns \<and>
     list_all (List.member columns) (ss_required (spec_of source)) \<and>
     list_all (list_ex (List.member columns)) (ss_required_any (spec_of source))"

lemma templates_fit: "list_all (\<lambda>p. template_fits (fst p) (snd p)) csv_templates"
  by code_simp

lemma templates_complete: "map fst csv_templates = map fst source_definitions"
  by (simp add: csv_templates_def source_definitions_def)

lemma no_duplicate_headers: "distinct hs \<Longrightarrow> duplicate_headers hs = []"
proof -
  assume d: "distinct hs"
  have "filter (\<lambda>h. 1 < length (filter (\<lambda>k. k = h) hs)) hs = []"
  proof (rule filter_False, rule ballI)
    fix h assume "h \<in> set hs"
    have "length (filter (\<lambda>k. k = h) hs) = card (set (filter (\<lambda>k. k = h) hs))"
      using d by (intro distinct_card [symmetric]) simp
    also have "\<dots> \<le> card {h}" by (rule card_mono) auto
    finally show "\<not> 1 < length (filter (\<lambda>k. k = h) hs)" by simp
  qed
  then show ?thesis by (simp add: duplicate_headers_def sort_key_def)
qed

text \<open>
  C40. The template written for a source is read back as exactly its columns: no column is renamed
  or doubled, all the required ones are there, and the untouched template is a file without rows
  and without a finding.
\<close>

theorem template_reads_back:
  assumes "source \<in> fst ` set source_definitions"
  shows "\<exists>columns content. map_of csv_templates source = Some columns \<and> csv_template source = Inr content \<and>
     csv_items content = [CsvRow columns 1] \<and> map (canonical_column source) columns = columns \<and>
     set (ss_required (spec_of source)) \<subseteq> set columns \<and>
     (\<forall>names \<in> set (ss_required_any (spec_of source)). set names \<inter> set columns \<noteq> {}) \<and>
     parse_source_file D batch source file content limit = Inr ([], [])"
proof -
  have "source \<in> fst ` set csv_templates" using assms templates_complete by (metis list.set_map)
  then obtain columns where cols: "map_of csv_templates source = Some columns"
    by (metis map_of_eq_None_iff not_None_eq)
  then have mem: "(source, columns) \<in> set csv_templates" by (rule map_of_SomeD)
  have fits: "template_fits source columns" and plain: "plain_row columns"
    using mem templates_fit templates_plain by (auto simp: list_all_iff)
  have clean: "normalise_header source = source" "c \<in> set columns \<Longrightarrow> normalise_header c = c" for c
    using mem template_headers by (auto simp: list_all_iff intro!: normalise_header_clean)
  have same: "map (canonical_column source) columns = columns"
    using clean(2) fits by (intro map_idI) (auto simp: canonical_column_def template_fits_def list_all_iff)
  have content: "csv_template source = Inr (plain_line columns)"
    using fits cols clean(1) by (simp add: csv_template_def canonical_source_type_def template_fits_def plain_line_def)
  have items: "csv_items (plain_line columns) = [CsvRow columns 1]"
    using csv_items_plain [of "[columns]"] plain by simp
  moreover have "parse_source_file D batch source file (plain_line columns) limit = Inr ([], [])"
    using fits plain unfolding parse_source_file_def items
    by (simp add: same template_fits_def no_duplicate_headers plain_row_def)
  moreover have "set names \<inter> set columns \<noteq> {}" if "names \<in> set (ss_required_any (spec_of source))" for names
    using that fits unfolding template_fits_def list_all_iff list_ex_iff by auto
  ultimately show ?thesis
    using cols content fits same by (auto simp: template_fits_def list_all_iff)
qed

theorem template_reads_back_witness:
  "\<exists>columns content. map_of csv_templates ''nxt_alarms'' = Some columns \<and> csv_template ''nxt_alarms'' = Inr content \<and>
     csv_items content = [CsvRow columns 1]"
  using template_reads_back [of "''nxt_alarms''"] by (force simp: source_definitions_def)

subsection \<open>An example\<close>

definition demo_world :: agent_world where
  "demo_world = \<lparr>aw_env = (\<lambda>_. Some ''key''), aw_ask = (\<lambda>p. Inl (RuntimeError ''offline'')),
     aw_describe = exn_text, aw_size = (\<lambda>p. 0)\<rparr>"

theorem agent_cannot_override_witness:
  "\<exists>v. validate_files id ''B'' None (demo_files ''i.csv'' ''a.csv'') = Inr v \<and>
     (\<forall>r \<in> set (an_reconciled (analysis_of demo_world 0 ''0'' True ''openai'' ''m'' 25 [] v)). \<not> rr_execution_permitted r)"
proof -
  obtain v where "validate_files id ''B'' None (demo_files ''i.csv'' ''a.csv'') = Inr v"
    using demo_validated [of "''B''" "''i.csv''" "''a.csv''"] by (auto split: sum.splits)
  then show ?thesis
    using agent_cannot_override [OF refl refl, of demo_world 0 "''0''" True "''openai''" "''m''" 25 "[]" v] by blast
qed

definition demo_batch_id :: string where
  "demo_batch_id = ''IMPORT-20260103T000000Z-0123456789AB''"

definition demo_ops :: "evidence_op list" where
  "demo_ops =
     [OpCreate 1767398400000000 ''0123456789abcdef'' ''shadow'' ''demo'' None,
      OpAdd 1767398400000000 demo_batch_id ''identity'' ''i.csv'' (concat (map plain_line demo_identity)) False,
      OpAdd 1767398400000000 demo_batch_id ''alarms'' ''a.csv'' (concat (map plain_line demo_alarms)) False,
      OpValidate 1767398400000000 demo_batch_id,
      OpAnalyze 1767398400000000 ''0123456789abcdef'' True ''fake'' [] 25 demo_batch_id]"

lemma demo_created: "create_import_batch 1767398400000000 ''0123456789abcdef'' ''shadow'' ''demo'' None [] =
    (let b = \<lparr>eb_name = ''demo'', eb_mode = ''shadow'', eb_as_of = None, eb_created = 1767398400000000,
       eb_updated = 1767398400000000, eb_status = ''CREATED'', eb_files = [], eb_history = [], eb_validation = None,
       eb_analysis = None, eb_analyses = [], eb_projection = None, eb_scenario = None\<rparr>
     in (Inr (demo_batch_id, b), [(demo_batch_id, b)]))"
  by code_simp

lemma add_csv_first:
  assumes "canonical_source_type given = Inr source" "int (length (utf8 content)) \<le> max_file_bytes" "CHR 0x00 \<notin> set content"
    and "valid_batch_id bid" "map_of st bid = Some b" "\<not> frozen b" "map_of (eb_files b) source = None"
  shows "snd (add_csv_content D now bid given filename content rep st) =
     dset bid (with_file now (new_file D now source filename content None) b) st"
  using assms by (simp add: add_csv_content_def find_batch_Inr [THEN iffD2] Let_def)

lemma demo_names: "canonical_source_type ''identity'' = Inr ''identity_map''" "canonical_source_type ''alarms'' = Inr ''nxt_alarms''"
  "valid_batch_id demo_batch_id"
  by code_simp+

lemma demo_sizes:
  "int (length (utf8 (concat (map plain_line demo_identity)))) \<le> max_file_bytes" "CHR 0x00 \<notin> set (concat (map plain_line demo_identity))"
  "int (length (utf8 (concat (map plain_line demo_alarms)))) \<le> max_file_bytes" "CHR 0x00 \<notin> set (concat (map plain_line demo_alarms))"
  by code_simp+

lemma demo_analysed:
  "\<exists>b. map_of (evidence_run id demo_world (\<lambda>_. False) demo_ops []) demo_batch_id = Some b \<and> eb_analysis b \<noteq> None"
proof -
  let ?now = "1767398400000000" and ?c1 = "concat (map plain_line demo_identity)" and ?c2 = "concat (map plain_line demo_alarms)"
  let ?step = "evidence_step id demo_world (\<lambda>_. False)"
  obtain b0 where b0: "snd (create_import_batch ?now ''0123456789abcdef'' ''shadow'' ''demo'' None []) = [(demo_batch_id, b0)]"
    "eb_files b0 = []" "eb_as_of b0 = None" "\<not> frozen b0" "eb_analyses b0 = []"
    by (simp add: demo_created Let_def frozen_def)
  let ?f1 = "new_file id ?now ''identity_map'' ''i.csv'' ?c1 None" and ?f2 = "new_file id ?now ''nxt_alarms'' ''a.csv'' ?c2 None"
  let ?b1 = "with_file ?now ?f1 b0"
  let ?b2 = "with_file ?now ?f2 ?b1"
  have f: "xf_source ?f1 = ''identity_map''" "xf_content ?f1 = ?c1" "xf_source ?f2 = ''nxt_alarms''" "xf_content ?f2 = ?c2"
    by (simp_all add: new_file_def Let_def)
  have b1: "\<not> frozen ?b1" "eb_files ?b1 = [(''identity_map'', ?f1)]" "eb_as_of ?b1 = None" "eb_analyses ?b1 = []"
    using b0 by (simp_all add: with_file_def frozen_def f)
  have b2: "\<not> frozen ?b2" "eb_files ?b2 = [(''identity_map'', ?f1), (''nxt_alarms'', ?f2)]" "eb_as_of ?b2 = None" "eb_analyses ?b2 = []"
    using b1 by (simp_all add: with_file_def frozen_def f)
  have s1: "snd (add_csv_content id ?now demo_batch_id ''identity'' ''i.csv'' ?c1 False [(demo_batch_id, b0)]) = [(demo_batch_id, ?b1)]"
    by (subst add_csv_first [OF demo_names(1) demo_sizes(1,2) demo_names(3)]) (simp_all add: b0)
  have s2: "snd (add_csv_content id ?now demo_batch_id ''alarms'' ''a.csv'' ?c2 False [(demo_batch_id, ?b1)]) = [(demo_batch_id, ?b2)]"
    by (subst add_csv_first [OF demo_names(2) demo_sizes(3,4) demo_names(3)]) (simp_all add: b1)
  let ?b = "?b2\<lparr>eb_analysis := None, eb_projection := None, eb_scenario := None\<rparr>"
  have raw: "raw_files ?b = demo_files (xf_stored ?f1) (xf_stored ?f2)"
    by (simp add: raw_files_def b2 f demo_files_def)
  obtain v where v: "validate_files id demo_batch_id None (raw_files ?b) = Inr v" "qr_status (vd_report v) \<noteq> ''REJECTED''"
    using demo_validated [of demo_batch_id "xf_stored ?f1" "xf_stored ?f2"] unfolding raw by (auto split: sum.splits)
  let ?b3 = "?b\<lparr>eb_validation := Some v, eb_status := qr_status (vd_report v), eb_updated := ?now\<rparr>"
  have found: "find_batch demo_batch_id [(demo_batch_id, x)] = Inr x" for x
    using demo_names(3) by (simp add: find_batch_Inr)
  have s3: "snd (validate_import_batch id ?now demo_batch_id [(demo_batch_id, ?b2)]) = [(demo_batch_id, ?b3)]"
    using b2 v(1) by (simp add: validate_import_batch_def found)
  have "\<not> frozen ?b3" using validated_not_materialised [OF v(1)] by (simp add: frozen_def)
  moreover have "eb_validation ?b3 = Some v" "eb_analyses ?b3 = []" using b2(4) by simp_all
  ultimately have "\<exists>b4. snd (analyze_import_batch demo_world ?now ''0123456789abcdef'' True ''fake'' [] 25 demo_batch_id [(demo_batch_id, ?b3)]) =
      [(demo_batch_id, b4)] \<and> eb_analysis b4 \<noteq> None"
    using v(2) by (simp add: analyze_import_batch_def found Let_def)
  then show ?thesis
    by (auto simp: evidence_run_def demo_ops_def evidence_step_def b0(1) s1 s2 s3)
qed

theorem evidence_reports_current_witness:
  "\<exists>b v. map_of (evidence_run id demo_world (\<lambda>_. False) demo_ops []) demo_batch_id = Some b \<and> eb_validation b = Some v \<and>
     validate_files id demo_batch_id (eb_as_of b) (raw_files b) = Inr v \<and> qr_status (vd_report v) \<noteq> ''REJECTED''"
proof -
  obtain b a where b: "map_of (evidence_run id demo_world (\<lambda>_. False) demo_ops []) demo_batch_id = Some b" "eb_analysis b = Some a"
    using demo_analysed by auto
  from evidence_reports_current [OF b(1)] b show ?thesis by blast
qed

end
