(* ===== verification/Draws.thy ===== *)
theory Draws
  imports Prelude
begin

text \<open>
  The parts of \<open>random.Random\<close> the generators of synthetic data use, as functions of the
  draw: the weighted choice on a uniform draw in [0, 1).
\<close>

text \<open>
  \<open>rng.choices(pool, weights=w, k=1)[0]\<close> on a draw \<open>u\<close>: the first element whose
  cumulative weight exceeds \<open>u\<close> times the total, the last one at most.
\<close>

fun running_sums :: "rat \<Rightarrow> rat list \<Rightarrow> rat list" where
  "running_sums a [] = []"
| "running_sums a (w # ws) = (a + w) # running_sums (a + w) ws"

definition weighted_choice :: "rat \<Rightarrow> ('a \<times> rat) list \<Rightarrow> 'a res" where
  "weighted_choice u pool =
     (if pool = [] then Inl IndexError
      else (let cum = running_sums 0 (map snd pool); total = last cum
            in if total \<le> 0 then Inl (ValueError ''Total of weights must be greater than zero'')
               else Inr (fst (pool ! min (length (takeWhile (\<lambda>c. c \<le> u * total) cum)) (length pool - 1)))))"

lemma weighted_choice_member: "weighted_choice u pool = Inr x \<Longrightarrow> x \<in> fst ` set pool"
proof -
  assume a: "weighted_choice u pool = Inr x"
  then have "pool \<noteq> []" by (auto simp: weighted_choice_def split: if_splits)
  then have "min k (length pool - 1) < length pool" for k
    by (cases pool) (auto simp: min_def)
  with a show ?thesis
    by (auto simp: weighted_choice_def Let_def split: if_splits)
qed

lemma last_running_sums: "ws \<noteq> [] \<Longrightarrow> last (running_sums a ws) = a + sum_list ws"
proof (induction a ws rule: running_sums.induct)
  case (2 a w ws)
  then show ?case by (cases ws) auto
qed simp

lemma weighted_choice_total:
  assumes "pool \<noteq> []" and "\<And>x w. (x, w) \<in> set pool \<Longrightarrow> 0 < w"
  shows "\<exists>x. weighted_choice u pool = Inr x"
proof -
  obtain x w rest where pool: "pool = (x, w) # rest" using assms(1) by (cases pool) auto
  have "0 \<le> sum_list (map snd rest)"
    using assms(2) pool by (intro sum_list_nonneg) force
  moreover have "0 < w" using assms(2) [of x w] pool by simp
  ultimately have "0 < sum_list (map snd pool)" by (simp add: pool)
  then have "0 < last (running_sums 0 (map snd pool))"
    using assms(1) by (simp add: last_running_sums)
  then show ?thesis
    using assms(1) by (simp add: weighted_choice_def Let_def)
qed

end
