(* ===== verification/Estate.thy ===== *)
theory Estate
  imports Plant Domain Handoff Tables Draws
begin

text \<open>
  The simulated modem estate and its scan (\<open>predictive/params.py\<close>, \<open>predictive/estate.py\<close>,
  \<open>predictive/scan.py\<close>): the sampled modems with their hidden causes, one day's telemetry,
  the least-squares fit, the thresholds, the forecast with its refusals and the
  classification of a modem. The random draws come from the platform's generator and are
  arguments: uniform draws in [0, 1), integer draws and standard normal deviates.
\<close>

section \<open>Parameters\<close>

definition run_hour_utc :: int where "run_hour_utc = 6"
definition estate_sample :: int where "estate_sample = 25000"
definition trend_window_days :: int where "trend_window_days = 14"
definition forecast_horizon_days :: rat where "forecast_horizon_days = 14"
definition min_trend_r2 :: rat where "min_trend_r2 = 55/100"
definition min_daily_drift :: rat where "min_daily_drift = 2/100"

text \<open>\<open>SCAN_PARAMS["hfc"]\<close> and \<open>SCAN_PARAMS["pon"]\<close>, in the order of their keys.\<close>

fun threshold_params :: "technology \<Rightarrow> (string \<times> rat) list" where
  "threshold_params HFC =
     [(''rx_dbmv_min'', -12), (''rx_dbmv_max'', 12), (''tx_dbmv_max'', 51), (''snr_db_min'', 33),
      (''uncorrectable_ratio_max'', 1/10000), (''t3_timeouts_max'', 25), (''flaps_max'', 4)]"
| "threshold_params PON =
     [(''rx_dbm_min'', -27), (''rx_dbm_max'', -8), (''tx_dbm_min'', 1/2), (''tx_dbm_max'', 5),
      (''ber_max'', 1/1000000), (''los_events_max'', 0), (''dying_gasp_max'', 1)]"

definition sla_hours_for :: "string \<Rightarrow> int" where
  "sla_hours_for urgency =
     (if urgency = ''P2'' then 24 else if urgency = ''P3'' then 72 else if urgency = ''P4'' then 168 else 168)"

section \<open>The estate\<close>

datatype true_cause = Healthy | CpeSoft | CpeHard | PlantFault

fun cause_mix :: "true_cause \<Rightarrow> rat" where
  "cause_mix Healthy = 958/1000"
| "cause_mix CpeSoft = 20/1000"
| "cause_mix CpeHard = 12/1000"
| "cause_mix PlantFault = 10/1000"

definition all_causes :: "true_cause list" where
  "all_causes = [Healthy, CpeSoft, CpeHard, PlantFault]"

fun daily_drift :: "true_cause \<Rightarrow> rat" where
  "daily_drift Healthy = 0"
| "daily_drift CpeSoft = 22/100"
| "daily_drift CpeHard = 30/100"
| "daily_drift PlantFault = 38/100"

record modem =
  m_id :: string
  m_site :: string
  m_municipio :: string
  m_archetype :: archetype
  m_tech :: technology
  m_cause :: true_cause
  m_onset :: int
  m_noise :: rat

record reading =
  r_modem :: string
  r_day :: int
  r_tech :: technology
  r_metrics :: "(string \<times> rat) list"
  r_contacted :: bool

text \<open>The draws behind one modem.\<close>

record modem_draws =
  md_site :: rat
  md_tech :: rat
  md_cause :: rat
  md_onset :: int
  md_noise :: rat

definition site_short :: "string \<Rightarrow> string res" where
  "site_short i = (case split_on (CHR ''-'') i of _ # b # _ \<Rightarrow> Inr b | _ \<Rightarrow> Inl IndexError)"

definition modem_at :: "site list \<Rightarrow> (nat \<Rightarrow> modem_draws) \<Rightarrow> nat \<Rightarrow> modem res" where
  "modem_at pool D i =
     bindR (weighted_choice (md_site (D i)) (map (\<lambda>s. (s, of_int (max 1 (households s)))) pool)) (\<lambda>s.
     bindR (weighted_choice (md_cause (D i)) (map (\<lambda>c. (c, cause_mix c)) all_causes)) (\<lambda>cause.
     bindR (site_short (s_id s)) (\<lambda>short.
       Inr \<lparr>m_id = ''CM-'' @ short @ ''-'' @ nat_str_pad 6 i, m_site = s_id s,
            m_municipio = s_municipio s, m_archetype = s_archetype s,
            m_tech = (if md_tech (D i) < pon_share (s_archetype s) then PON else HFC),
            m_cause = cause, m_onset = (if cause = Healthy then 0 else md_onset (D i)),
            m_noise = round_dec 3 (35/100 + (115/100 - 35/100) * md_noise (D i))\<rparr>)))"

definition build_estate :: "int option \<Rightarrow> site list option \<Rightarrow> (nat \<Rightarrow> modem_draws) \<Rightarrow> modem list res" where
  "build_estate how_many pool D =
     (let n = (case how_many of None \<Rightarrow> estate_sample | Some c \<Rightarrow> if c = 0 then estate_sample else c);
          ss = (case pool of None \<Rightarrow> sites_in_cpe_footprint | Some ss \<Rightarrow> ss)
      in mapR (modem_at ss D) [0..<nat n])"

section \<open>Readings\<close>

definition severity :: "modem \<Rightarrow> int \<Rightarrow> rat" where
  "severity m day =
     (if m_cause m = Healthy then 0
      else if day - m_onset m \<le> 0 then 0
      else daily_drift (m_cause m) * of_int (day - m_onset m))"

text \<open>What a remote action on day \<open>r\<close> leaves of it.\<close>

definition remediated :: "modem \<Rightarrow> int option \<Rightarrow> int \<Rightarrow> rat \<Rightarrow> rat" where
  "remediated m on day sev =
     (case on of
        None \<Rightarrow> sev
      | Some r \<Rightarrow>
          if day < r then sev
          else if m_cause m = CpeSoft then 0
          else if m_cause m = CpeHard then (if day - r < 2 then 0 else sev * (75/100))
          else sev)"

record read_draws =
  rd_gauss :: "nat \<Rightarrow> rat"
  rd_uniform :: rat

definition jitter :: "read_draws \<Rightarrow> modem \<Rightarrow> nat \<Rightarrow> rat \<Rightarrow> rat" where
  "jitter g m i scale = 0 + rd_gauss g i * (m_noise m * scale)"

definition counter :: "rat \<Rightarrow> rat" where
  "counter x = of_int (max 0 (trunc_rat x))"

definition hfc_metrics :: "modem \<Rightarrow> rat \<Rightarrow> read_draws \<Rightarrow> (string \<times> rat) list" where
  "hfc_metrics m sev g =
     [(''rx_dbmv'', round_dec 2 (3/2 - sev * (11/10) + jitter g m 0 (7/10))),
      (''tx_dbmv'', round_dec 2 (44 + sev * (9/10) + jitter g m 1 (5/10))),
      (''snr_db'', round_dec 2 (40 - sev * (85/100) + jitter g m 2 (45/100))),
      (''uncorrectable_ratio'', round_dec 9
         (max 0 (1/10^6 + sev * (22/10^6) + \<bar>jitter g m 3 (2/10)\<bar> * (4/10^6)))),
      (''t3_timeouts'', counter (sev * (34/10) + \<bar>jitter g m 4 (14/10)\<bar>)),
      (''flaps'', counter (sev * (7/10) + \<bar>jitter g m 5 (5/10)\<bar>))]"

definition pon_metrics :: "modem \<Rightarrow> rat \<Rightarrow> read_draws \<Rightarrow> (string \<times> rat) list" where
  "pon_metrics m sev g =
     [(''rx_dbm'', round_dec 2 (-19 - sev * (95/100) + jitter g m 0 (5/10))),
      (''tx_dbm'', round_dec 2 (24/10 + sev * (12/100) + jitter g m 1 (15/100))),
      (''ber'', round_dec 12
         (max 0 (1/10^9 + sev * (24/10^8) + \<bar>jitter g m 2 (2/10)\<bar> * (3/10^8)))),
      (''los_events'', counter (sev * (35/100) + \<bar>jitter g m 3 (3/10)\<bar> - 4/10)),
      (''dying_gasp'', counter (sev * (22/100) + \<bar>jitter g m 4 (25/100)\<bar> - 5/10))]"

definition read_modem :: "(string \<Rightarrow> int \<Rightarrow> read_draws) \<Rightarrow> modem \<Rightarrow> int option \<Rightarrow> int \<Rightarrow> reading" where
  "read_modem G m on day =
     (let g = G (m_id m) day; sev = remediated m on day (severity m day)
      in \<lparr>r_modem = m_id m, r_day = day, r_tech = m_tech m,
          r_metrics = (case m_tech m of HFC \<Rightarrow> hfc_metrics m sev g | PON \<Rightarrow> pon_metrics m sev g),
          r_contacted = (6 < sev \<and> rd_uniform g < 30/100)\<rparr>)"

definition modem_history ::
  "(string \<Rightarrow> int \<Rightarrow> read_draws) \<Rightarrow> modem \<Rightarrow> int option \<Rightarrow> int \<Rightarrow> int option \<Rightarrow> reading list" where
  "modem_history G m on end_day days =
     (let n = (case days of None \<Rightarrow> trend_window_days | Some d \<Rightarrow> if d = 0 then trend_window_days else d)
      in map (read_modem G m on) [end_day - n + 1..end_day])"

section \<open>The fit\<close>

text \<open>\<open>linear_fit\<close>: slope, intercept and r squared of evenly spaced points.\<close>

definition mean :: "rat list \<Rightarrow> rat" where
  "mean xs = sum_list xs / of_nat (length xs)"

definition linear_fit :: "rat list \<Rightarrow> rat \<times> rat \<times> rat" where
  "linear_fit vs =
     (if length vs < 3 then (0, if vs = [] then 0 else last vs, 0)
      else (let xs = map of_nat [0..<length vs]; mx = mean xs; my = mean vs;
                sxx = sum_list (map (\<lambda>x. (x - mx)^2) xs)
            in if sxx = 0 then (0, my, 0)
               else (let sxy = sum_list (map (\<lambda>(x, y). (x - mx) * (y - my)) (zip xs vs));
                         slope = sxy / sxx; intercept = my - slope * mx;
                         tot = sum_list (map (\<lambda>y. (y - my)^2) vs)
                     in if tot = 0 then (slope, intercept, 1)
                        else (slope, intercept,
                              max 0 (1 - sum_list (map (\<lambda>(x, y). (y - (slope * x + intercept))^2) (zip xs vs)) / tot)))))"

section \<open>Thresholds, forecast and classification\<close>

datatype side = Below | Above

fun side_text :: "side \<Rightarrow> string" where
  "side_text Below = ''below''"
| "side_text Above = ''above''"

record breach =
  br_metric :: string
  br_value :: rat
  br_limit :: rat
  br_side :: side

definition describe_breach :: "breach \<Rightarrow> string" where
  "describe_breach b = br_metric b @ '' '' @ fmt_g (br_value b) @ '' is '' @ side_text (br_side b) @
     '' the '' @ fmt_g (br_limit b) @ '' limit''"

record scan_finding =
  sf_modem :: string
  sf_site :: string
  sf_municipio :: string
  sf_archetype :: archetype
  sf_tech :: technology
  sf_forecast :: bool
  sf_urgency :: string
  sf_breaches :: "breach list"
  sf_days :: "rat option"
  sf_slope :: "rat option"
  sf_r2 :: "rat option"
  sf_hard :: bool
  sf_evidence :: "string list"

definition chop4 :: "string \<Rightarrow> string" where
  "chop4 s = take (length s - 4) s"

text \<open>\<open>_limits\<close>\<close>

definition metric_limits :: "technology \<Rightarrow> (string \<times> rat \<times> side) list" where
  "metric_limits t = concat (map (\<lambda>(k, l).
     if ends_with ''_min'' k then [(chop4 k, l, Below)]
     else if ends_with ''_max'' k then [(chop4 k, l, Above)] else []) (threshold_params t))"

definition breaches_for :: "reading \<Rightarrow> breach list" where
  "breaches_for r = concat (map (\<lambda>(k, l, s).
     case map_of (r_metrics r) k of
       None \<Rightarrow> []
     | Some v \<Rightarrow>
         if s = Below \<and> v < l \<or> s = Above \<and> l < v
         then [\<lparr>br_metric = k, br_value = v, br_limit = l, br_side = s\<rparr>] else [])
     (metric_limits (r_tech r)))"

text \<open>\<open>FAILURE_METRIC\<close>\<close>

record failure_spec =
  fs_metric :: string
  fs_threshold :: rat
  fs_upward :: bool
  fs_hard_at :: rat

fun failure_metric :: "technology \<Rightarrow> failure_spec" where
  "failure_metric HFC = \<lparr>fs_metric = ''snr_db'', fs_threshold = 33, fs_upward = False, fs_hard_at = 26\<rparr>"
| "failure_metric PON = \<lparr>fs_metric = ''rx_dbm'', fs_threshold = -27, fs_upward = False, fs_hard_at = -30\<rparr>"

definition metric_values :: "string \<Rightarrow> reading list \<Rightarrow> rat list" where
  "metric_values k rs = concat (map (\<lambda>r. case map_of (r_metrics r) k of None \<Rightarrow> [] | Some v \<Rightarrow> [v]) rs)"

definition project :: "failure_spec \<Rightarrow> rat list \<Rightarrow> (rat \<times> rat \<times> rat) option" where
  "project spec vs =
     (if length vs < 4 then None
      else (case linear_fit vs of (slope, _, r2) \<Rightarrow>
        if r2 < min_trend_r2 then None
        else if \<bar>slope\<bar> < min_daily_drift then None
        else if fs_upward spec \<and> slope \<le> 0 then None
        else if \<not> fs_upward spec \<and> 0 \<le> slope then None
        else (let remaining = (fs_threshold spec - last vs) / slope
              in if remaining \<le> 0 then None
                 else if forecast_horizon_days < remaining then None
                 else Some (remaining, slope, r2))))"

definition forecast_crossing :: "modem \<Rightarrow> reading list \<Rightarrow> (rat \<times> rat \<times> rat) option" where
  "forecast_crossing m rs =
     (let spec = failure_metric (m_tech m) in project spec (metric_values (fs_metric spec) rs))"

definition urgency_for_days :: "rat \<Rightarrow> string" where
  "urgency_for_days d = (if d \<le> 3 then ''P2'' else if d \<le> 7 then ''P3'' else ''P4'')"

definition signed_fixed :: "nat \<Rightarrow> rat \<Rightarrow> string" where
  "signed_fixed k r = (if r < 0 then ''-'' else ''+'') @ fixed k \<bar>r\<bar>"

definition proactive_finding :: "modem \<Rightarrow> breach list \<Rightarrow> scan_finding" where
  "proactive_finding m bs =
     \<lparr>sf_modem = m_id m, sf_site = m_site m, sf_municipio = m_municipio m, sf_archetype = m_archetype m,
      sf_tech = m_tech m, sf_forecast = False, sf_urgency = ''P2'', sf_breaches = bs,
      sf_days = None, sf_slope = None, sf_r2 = None, sf_hard = False,
      sf_evidence = map describe_breach bs\<rparr>"

definition hard_within :: "failure_spec \<Rightarrow> rat \<Rightarrow> rat \<Rightarrow> bool" where
  "hard_within spec current slope \<longleftrightarrow>
     slope \<noteq> 0 \<and> 0 < (fs_hard_at spec - current) / slope \<and>
     (fs_hard_at spec - current) / slope \<le> forecast_horizon_days"

definition forecast_finding :: "modem \<Rightarrow> failure_spec \<Rightarrow> bool \<Rightarrow> rat \<Rightarrow> rat \<Rightarrow> rat \<Rightarrow> scan_finding" where
  "forecast_finding m spec hard days slope r2 =
     \<lparr>sf_modem = m_id m, sf_site = m_site m, sf_municipio = m_municipio m, sf_archetype = m_archetype m,
      sf_tech = m_tech m, sf_forecast = True, sf_urgency = urgency_for_days days, sf_breaches = [],
      sf_days = Some (round_dec 1 days), sf_slope = Some (round_dec 4 slope),
      sf_r2 = Some (round_dec 3 r2), sf_hard = hard,
      sf_evidence =
        [fs_metric spec @ '' trending '' @ signed_fixed 3 slope @ '' per day, fit r2 '' @ fixed 2 r2,
         ''projected to cross '' @ float_repr (fs_threshold spec) @ '' in '' @ fixed 1 days @ '' days'',
         ''hard failure at '' @ fmt_g (fs_hard_at spec) @ '' '' @
           (if hard then ''inside'' else ''outside'') @ '' the horizon'']\<rparr>"

definition classify_modem :: "modem \<Rightarrow> reading list \<Rightarrow> scan_finding option res" where
  "classify_modem m rs =
     (if rs = [] then Inr None
      else (let latest = last rs; bs = breaches_for latest in
        if bs \<noteq> [] then Inr (if r_contacted latest then None else Some (proactive_finding m bs))
        else (case forecast_crossing m rs of
                None \<Rightarrow> Inr None
              | Some (days, slope, r2) \<Rightarrow>
                  (let spec = failure_metric (m_tech m) in
                   case map_of (r_metrics latest) (fs_metric spec) of
                     None \<Rightarrow> Inl (KeyError (fs_metric spec))
                   | Some current \<Rightarrow>
                       Inr (Some (forecast_finding m spec (hard_within spec current slope) days slope r2))))))"

end
