(* ===== verification/EstateLaws.thy ===== *)
theory EstateLaws
  imports Estate
begin

text \<open>
  What the estate scan promises: the fit is the least-squares line with a coefficient of
  determination in [0, 1]; a forecast is issued only for a trend that is steep, well fitted
  and crosses inside the horizon; a breach is reported unless the customer has called.
\<close>

section \<open>The fit is the least-squares line\<close>

definition sq_error :: "rat list \<Rightarrow> rat \<Rightarrow> rat \<Rightarrow> rat" where
  "sq_error vs a b = (\<Sum>i<length vs. (vs ! i - (a * of_nat i + b))\<^sup>2)"

lemma sum_list_index: "sum_list (map f [0..<n]) = (\<Sum>i<n. f i)"
  by (simp add: interv_sum_list_conv_sum_set_nat atLeast0LessThan)

lemma sum_list_zip_index:
  "sum_list (map (\<lambda>(x, y). f x y) (zip (map g [0..<length vs]) vs)) = (\<Sum>i<length vs. f (g i) (vs ! i))"
  by (subst sum_list_sum_nth) (simp add: atLeast0LessThan)

lemma sum_list_nth_index: "sum_list (map f vs) = (\<Sum>i<length vs. f (vs ! i))"
  by (subst sum_list_sum_nth) (simp add: atLeast0LessThan)

text \<open>Residuals that are orthogonal to the constant and to the deviations leave least squares.\<close>

lemma orthogonal_residuals_least:
  fixes e d :: "nat \<Rightarrow> rat"
  assumes "(\<Sum>i<n. e i) = 0" "(\<Sum>i<n. d i * e i) = 0"
  shows "(\<Sum>i<n. (e i)\<^sup>2) \<le> (\<Sum>i<n. (e i + (p * d i + q))\<^sup>2)"
proof -
  have "(\<Sum>i<n. (e i + (p * d i + q))\<^sup>2) =
      (\<Sum>i<n. (e i)\<^sup>2) + (\<Sum>i<n. (p * d i + q)\<^sup>2) + (2 * p * (\<Sum>i<n. d i * e i) + 2 * q * (\<Sum>i<n. e i))"
    by (simp add: sum_distrib_left sum.distrib [symmetric] power2_eq_square algebra_simps)
  with assms show ?thesis by (simp add: sum_nonneg)
qed

lemma sum_deviations:
  fixes f :: "nat \<Rightarrow> rat"
  shows "0 < n \<Longrightarrow> (\<Sum>i<n. f i - (\<Sum>i<n. f i) / of_nat n) = 0"
  by (simp add: sum_subtractf)

text \<open>The values of the fit in terms of sums over the indices.\<close>

definition mean_x :: "rat list \<Rightarrow> rat" where
  "mean_x vs = (\<Sum>i<length vs. of_nat i) / of_nat (length vs)"

definition mean_y :: "rat list \<Rightarrow> rat" where
  "mean_y vs = (\<Sum>i<length vs. vs ! i) / of_nat (length vs)"

definition spread_x :: "rat list \<Rightarrow> rat" where
  "spread_x vs = (\<Sum>i<length vs. (of_nat i - mean_x vs)\<^sup>2)"

definition cross_xy :: "rat list \<Rightarrow> rat" where
  "cross_xy vs = (\<Sum>i<length vs. (of_nat i - mean_x vs) * (vs ! i - mean_y vs))"

definition spread_y :: "rat list \<Rightarrow> rat" where
  "spread_y vs = (\<Sum>i<length vs. (vs ! i - mean_y vs)\<^sup>2)"

lemma spread_x_pos: "2 \<le> length vs \<Longrightarrow> 0 < spread_x vs"
proof -
  assume n: "2 \<le> length vs"
  have "0 < (of_nat i - mean_x vs)\<^sup>2" if "of_nat i \<noteq> mean_x vs" for i
    using that by simp
  moreover have "of_nat 0 \<noteq> mean_x vs \<or> of_nat 1 \<noteq> mean_x vs" by auto
  ultimately obtain i where "i < length vs" "0 < (of_nat i - mean_x vs)\<^sup>2"
    using n by (metis One_nat_def Suc_1 Suc_le_lessD less_le_trans zero_less_numeral)
  then show ?thesis
    unfolding spread_x_def by (intro sum_pos2 [of _ i]) auto
qed

lemma linear_fit_sums:
  assumes "3 \<le> length vs"
  shows "linear_fit vs =
    (let slope = cross_xy vs / spread_x vs; c = mean_y vs - slope * mean_x vs
     in (slope, c, if spread_y vs = 0 then 1 else max 0 (1 - sq_error vs slope c / spread_y vs)))"
proof -
  have mx: "mean (map of_nat [0..<length vs]) = mean_x vs"
    by (simp add: mean_def mean_x_def sum_list_index)
  have my: "mean vs = mean_y vs"
    using sum_list_nth_index [of "\<lambda>x. x" vs] by (simp add: mean_def mean_y_def)
  have sx: "sum_list (map (\<lambda>x. (x - mean_x vs)\<^sup>2) (map of_nat [0..<length vs])) = spread_x vs"
    by (simp only: map_map sum_list_index spread_x_def o_def)
  have "vs \<noteq> []" "\<not> length vs < 3" "spread_x vs \<noteq> 0"
    using assms spread_x_pos [of vs] by auto
  then show ?thesis
    unfolding linear_fit_def Let_def mx my sx
    by (simp add: sum_list_zip_index sum_list_nth_index [of "\<lambda>y. (y - mean_y vs)\<^sup>2"]
        cross_xy_def [symmetric] spread_y_def [symmetric] sq_error_def)
qed

lemma fit_residuals:
  assumes "3 \<le> length vs" and "linear_fit vs = (a, b, r)"
  shows "(\<Sum>i<length vs. vs ! i - (a * of_nat i + b)) = 0"
    and "(\<Sum>i<length vs. (of_nat i - mean_x vs) * (vs ! i - (a * of_nat i + b))) = 0"
proof -
  let ?n = "length vs"
  have a: "a = cross_xy vs / spread_x vs" and b: "b = mean_y vs - a * mean_x vs"
    using assms(2) linear_fit_sums [OF assms(1)] by (auto simp: Let_def)
  have res: "vs ! i - (a * of_nat i + b) = (vs ! i - mean_y vs) - a * (of_nat i - mean_x vs)" for i
    by (simp add: b algebra_simps)
  have dx: "(\<Sum>i<?n. of_nat i - mean_x vs) = 0" and dy: "(\<Sum>i<?n. vs ! i - mean_y vs) = 0"
    unfolding mean_x_def mean_y_def by (rule sum_deviations; use assms(1) in linarith)+
  show "(\<Sum>i<?n. vs ! i - (a * of_nat i + b)) = 0"
    unfolding res sum_subtractf [of "\<lambda>i. vs ! i - mean_y vs"] sum_distrib_left [symmetric] dx dy by simp
  have "(\<Sum>i<?n. (of_nat i - mean_x vs) * (vs ! i - (a * of_nat i + b))) = cross_xy vs - a * spread_x vs"
    unfolding res cross_xy_def spread_x_def sum_distrib_left sum_subtractf [symmetric]
    by (rule sum.cong) (simp_all add: power2_eq_square algebra_simps)
  moreover have "spread_x vs \<noteq> 0" using spread_x_pos [of vs] assms(1) by simp
  ultimately show "(\<Sum>i<?n. (of_nat i - mean_x vs) * (vs ! i - (a * of_nat i + b))) = 0"
    by (simp add: a)
qed

lemma fit_is_least_squares:
  assumes "3 \<le> length vs" and "linear_fit vs = (a, b, r)"
  shows "sq_error vs a b \<le> sq_error vs a' b'"
proof -
  let ?e = "\<lambda>i. vs ! i - (a * of_nat i + b)" and ?d = "\<lambda>i. of_nat i - mean_x vs"
  have "(\<Sum>i<length vs. (?e i)\<^sup>2) \<le> (\<Sum>i<length vs. (?e i + ((a - a') * ?d i + ((a - a') * mean_x vs + b - b')))\<^sup>2)"
    by (rule orthogonal_residuals_least [OF fit_residuals [OF assms]])
  moreover have "?e i + ((a - a') * ?d i + ((a - a') * mean_x vs + b - b')) = vs ! i - (a' * of_nat i + b')" for i
    by (simp add: algebra_simps)
  ultimately show ?thesis by (simp add: sq_error_def)
qed

lemma fit_quality:
  assumes "linear_fit vs = (a, b, r)"
  shows "0 \<le> r \<and> r \<le> 1"
proof (cases "length vs < 3")
  case True
  with assms show ?thesis by (auto simp: linear_fit_def)
next
  case False
  have "0 \<le> sq_error vs p q" "0 \<le> spread_y vs" for p q
    by (auto simp: sq_error_def spread_y_def intro: sum_nonneg)
  then have "1 - sq_error vs p q / spread_y vs \<le> 1" for p q by simp
  with False assms show ?thesis
    by (auto simp: linear_fit_sums Let_def)
qed

text \<open>
  The clamp at zero never acts: the fit is at least as good as the constant mean, so the
  quality is the explained share of the variation.
\<close>

lemma fit_quality_exact:
  assumes "3 \<le> length vs" "spread_y vs \<noteq> 0" and "linear_fit vs = (a, b, r)"
  shows "r = 1 - sq_error vs a b / spread_y vs"
proof -
  have "sq_error vs a b \<le> sq_error vs 0 (mean_y vs)"
    by (rule fit_is_least_squares [OF assms(1,3)])
  then have "sq_error vs a b \<le> spread_y vs"
    by (simp add: sq_error_def spread_y_def)
  moreover have "0 < spread_y vs"
    using assms(2) by (simp add: spread_y_def sum_nonneg less_le)
  ultimately have "0 \<le> 1 - sq_error vs a b / spread_y vs" by simp
  then show ?thesis
    using assms by (auto simp: linear_fit_sums Let_def)
qed

text \<open>Points on a line are fitted by that line, with quality one.\<close>

theorem line_is_recovered:
  assumes n: "3 \<le> n" and p: "p \<noteq> 0"
  shows "linear_fit (map (\<lambda>i. p * of_nat i + q) [0..<n]) = (p, q, 1)"
proof -
  let ?vs = "map (\<lambda>i. p * of_nat i + q) [0..<n]"
  obtain a b r where f: "linear_fit ?vs = (a, b, r)" by (cases "linear_fit ?vs") auto
  have len: "3 \<le> length ?vs" using n by simp
  have "sq_error ?vs a b \<le> sq_error ?vs p q"
    by (rule fit_is_least_squares [OF len f])
  then have "sq_error ?vs a b \<le> 0" by (simp add: sq_error_def)
  then have zero: "sq_error ?vs a b = 0"
    by (rule antisym) (simp add: sq_error_def sum_nonneg)
  then have on_line: "p * of_nat i + q = a * of_nat i + b" if "i < n" for i
    using that by (simp add: sq_error_def sum_nonneg_eq_0_iff)
  from on_line [of 0] on_line [of 1] n have ab: "b = q" "a = p" by auto
  have "spread_y ?vs \<noteq> 0"
  proof
    assume "spread_y ?vs = 0"
    then have "?vs ! i = mean_y ?vs" if "i < n" for i
      using that by (simp add: spread_y_def sum_nonneg_eq_0_iff)
    from this [of 0] this [of 1] n p show False by auto
  qed
  from fit_quality_exact [OF len this f] zero have "r = 1" by simp
  with f ab show ?thesis by simp
qed

section \<open>Forecasts\<close>

theorem forecast_is_justified:
  assumes "forecast_crossing m rs = Some (days, slope, r2)"
  defines "vs \<equiv> metric_values (fs_metric (failure_metric (m_tech m))) rs"
  shows "0 < days" and "days \<le> forecast_horizon_days" and "slope \<le> - min_daily_drift"
    and "min_trend_r2 \<le> r2" and "r2 \<le> 1" and "4 \<le> length vs"
    and "last vs + slope * days = fs_threshold (failure_metric (m_tech m))"
proof -
  obtain b where f: "linear_fit vs = (slope, b, r2)"
    and c: "4 \<le> length vs" "min_trend_r2 \<le> r2" "min_daily_drift \<le> \<bar>slope\<bar>" "slope < 0"
      "days = (fs_threshold (failure_metric (m_tech m)) - last vs) / slope"
      "0 < days" "days \<le> forecast_horizon_days"
    using assms by (cases "m_tech m")
      (auto simp: forecast_crossing_def project_def Let_def split: if_splits prod.splits)
  show "0 < days" "days \<le> forecast_horizon_days" "min_trend_r2 \<le> r2" "4 \<le> length vs"
    by (fact c)+
  show "slope \<le> - min_daily_drift" using c(3,4) by simp
  show "r2 \<le> 1" using fit_quality [OF f] by simp
  show "last vs + slope * days = fs_threshold (failure_metric (m_tech m))"
    using c(4,5) by simp
qed

text \<open>Which modem gets which ticket.\<close>

theorem classify_breach:
  assumes "rs \<noteq> []" and "breaches_for (last rs) \<noteq> []"
  shows "classify_modem m rs =
    Inr (if r_contacted (last rs) then None else Some (proactive_finding m (breaches_for (last rs))))"
  using assms by (simp add: classify_modem_def Let_def)

theorem classify_forecast:
  assumes "classify_modem m rs = Inr (Some f)" and "sf_forecast f"
  shows "breaches_for (last rs) = [] \<and>
    (\<exists>days slope r2. forecast_crossing m rs = Some (days, slope, r2) \<and>
       sf_days f = Some (round_dec 1 days) \<and> sf_urgency f = urgency_for_days days)"
  using assms
  by (auto simp: classify_modem_def Let_def proactive_finding_def forecast_finding_def
      split: if_splits option.splits prod.splits)

lemma fit_with_slope:
  assumes "3 \<le> length vs" "linear_fit vs = (a, b, r)" "a \<noteq> 0"
  shows "r = 1 - sq_error vs a b / spread_y vs"
proof (rule fit_quality_exact [OF assms(1) _ assms(2)])
  show "spread_y vs \<noteq> 0"
  proof
    assume zero: "spread_y vs = 0"
    then have flat: "vs ! i = mean_y vs" if "i < length vs" for i
      using that by (simp add: spread_y_def sum_nonneg_eq_0_iff)
    have "sq_error vs a b \<le> sq_error vs 0 (mean_y vs)" by (rule fit_is_least_squares [OF assms(1,2)])
    also have "\<dots> = 0" using zero by (simp add: sq_error_def spread_y_def)
    finally have "sq_error vs a b = 0" by (intro antisym) (simp_all add: sq_error_def sum_nonneg)
    then have "vs ! i = a * of_nat i + b" if "i < length vs" for i
      using that by (simp add: sq_error_def sum_nonneg_eq_0_iff)
    from flat [of 0] flat [of 1] this [of 0] this [of 1] assms(1,3) show False by fastforce
  qed
qed

text \<open>
  C13. A forecast is earned: when a modem gets a forecast ticket, its last reading breaches no
  limit, and the line the ticket quotes is the best straight line through at least four daily
  values of the metric that fails last: no other line has a smaller squared error. The line falls
  at least as fast as the minimum drift, explains at least the minimum share of the variation,
  and from the last value on it reaches the threshold within the horizon, after the number of
  days that the ticket rounds and that sets its urgency.
\<close>

theorem forecast_finding_is_earned:
  assumes "classify_modem m rs = Inr (Some f)" "sf_forecast f"
  defines "vs \<equiv> metric_values (fs_metric (failure_metric (m_tech m))) rs"
  shows "breaches_for (last rs) = [] \<and> 4 \<le> length vs \<and>
    (\<exists>slope level days r2.
       (\<forall>a b. sq_error vs slope level \<le> sq_error vs a b) \<and>
       slope \<le> - min_daily_drift \<and> r2 = 1 - sq_error vs slope level / spread_y vs \<and> min_trend_r2 \<le> r2 \<and>
       last vs + slope * days = fs_threshold (failure_metric (m_tech m)) \<and>
       0 < days \<and> days \<le> forecast_horizon_days \<and>
       sf_days f = Some (round_dec 1 days) \<and> sf_urgency f = urgency_for_days days \<and>
       sf_slope f = Some (round_dec 4 slope) \<and> sf_r2 f = Some (round_dec 3 r2))"
proof -
  obtain days slope r2 where cross: "forecast_crossing m rs = Some (days, slope, r2)"
    and clear: "breaches_for (last rs) = []"
    and f: "sf_days f = Some (round_dec 1 days)" "sf_urgency f = urgency_for_days days"
      "sf_slope f = Some (round_dec 4 slope)" "sf_r2 f = Some (round_dec 3 r2)"
    using assms(1,2)
    by (auto simp: classify_modem_def Let_def proactive_finding_def forecast_finding_def
        split: if_splits option.splits prod.splits)
  obtain level where fit: "linear_fit vs = (slope, level, r2)"
    using cross by (cases "m_tech m")
      (auto simp: forecast_crossing_def project_def Let_def vs_def split: if_splits prod.splits)
  note j = forecast_is_justified [OF cross, folded vs_def]
  have "slope \<noteq> 0" using j(3) by (simp add: min_daily_drift_def)
  then have "r2 = 1 - sq_error vs slope level / spread_y vs"
    using fit_with_slope [OF _ fit] j(6) by simp
  moreover have "sq_error vs slope level \<le> sq_error vs a b" for a b
    using fit_is_least_squares [OF _ fit] j(6) by simp
  ultimately show ?thesis using clear f j by blast
qed

text \<open>
  A modem that stands exactly on its threshold falls between the two classes: the breach
  test is strict, and the forecast treats the crossing as already past.
\<close>

definition on_the_line :: "int \<Rightarrow> reading" where
  "on_the_line d = \<lparr>r_modem = ''CM-SJU-000001'', r_day = d, r_tech = HFC,
     r_metrics = [(''snr_db'', 33 + of_int (13 - d))], r_contacted = False\<rparr>"

definition falling_modem :: modem where
  "falling_modem = \<lparr>m_id = ''CM-SJU-000001'', m_site = ''PR-SJU'', m_municipio = ''San Juan'',
     m_archetype = METRO, m_tech = HFC, m_cause = CpeHard, m_onset = 0, m_noise = 1/2\<rparr>"

lemma on_threshold_is_missed:
  "breaches_for (on_the_line 13) = []"
  "r_metrics (on_the_line 13) = [(''snr_db'', fs_threshold (failure_metric HFC))]"
  "classify_modem falling_modem (map on_the_line [0..13]) = Inr None"
proof -
  have range: "[0..13] = map int [0..<14]" by code_simp
  have line: "metric_values ''snr_db'' (map on_the_line [0..13]) = map (\<lambda>i. - 1 * of_nat i + 46) [0..<14]"
  proof -
    have "metric_values ''snr_db'' (map on_the_line xs) = map (\<lambda>d. 33 + of_int (13 - d)) xs" for xs
      by (induction xs) (simp_all add: metric_values_def on_the_line_def)
    then have "metric_values ''snr_db'' (map on_the_line [0..13]) = map (\<lambda>d. 33 + of_int (13 - d)) (map int [0..<14])"
      by (simp only: range)
    then show ?thesis by (simp add: o_def)
  qed
  have fit: "linear_fit (map (\<lambda>i. - 1 * of_nat i + 46) [0..<14]) = (- 1, 46, 1)"
    by (rule line_is_recovered) simp_all
  have last_value: "last (map (\<lambda>i. - 1 * of_nat i + 46) [0..<14]) = (33 :: rat)"
    by (simp add: last_map)
  show b: "breaches_for (on_the_line 13) = []"
    by (simp add: breaches_for_def on_the_line_def metric_limits_def ends_with_def chop4_def)
  show "r_metrics (on_the_line 13) = [(''snr_db'', fs_threshold (failure_metric HFC))]"
    by (simp add: on_the_line_def)
  have last_reading: "last (map on_the_line [0..13]) = on_the_line 13"
    by (simp add: range last_map)
  have "project (failure_metric HFC) (map (\<lambda>i. - 1 * of_nat i + 46) [0..<14]) = None"
    unfolding project_def fit last_value by (simp add: Let_def)
  then have "forecast_crossing falling_modem (map on_the_line [0..13]) = None"
    using line by (simp add: forecast_crossing_def falling_modem_def Let_def)
  then show "classify_modem falling_modem (map on_the_line [0..13]) = Inr None"
    unfolding classify_modem_def last_reading b Let_def by simp
qed

text \<open>A modem that loses a decibel a day and will cross its threshold in three days.\<close>

definition losing_line :: "int \<Rightarrow> reading" where
  "losing_line d = (on_the_line d)\<lparr>r_metrics := [(''snr_db'', 36 + of_int (13 - d))]\<rparr>"

lemma losing_forecast:
  "\<exists>f. classify_modem falling_modem (map losing_line [0..13]) = Inr (Some f) \<and> sf_forecast f \<and>
     sf_days f = Some (round_dec 1 3)"
proof -
  have range: "[0..13] = map int [0..<14]" by code_simp
  have "metric_values ''snr_db'' (map losing_line xs) = map (\<lambda>d. 36 + of_int (13 - d)) xs" for xs
    by (induction xs) (simp_all add: metric_values_def losing_line_def)
  then have "metric_values ''snr_db'' (map losing_line [0..13]) = map (\<lambda>d. 36 + of_int (13 - d)) (map int [0..<14])"
    by (simp only: range)
  then have line: "metric_values ''snr_db'' (map losing_line [0..13]) = map (\<lambda>i. - 1 * of_nat i + 49) [0..<14]"
    by (simp add: o_def)
  have fit: "linear_fit (map (\<lambda>i. - 1 * of_nat i + 49) [0..<14]) = (- 1, 49, 1)"
    by (rule line_is_recovered) simp_all
  have last_value: "last (map (\<lambda>i. - 1 * of_nat i + 49) [0..<14]) = (36 :: rat)"
    by (simp add: last_map)
  have clear: "breaches_for (losing_line 13) = []"
    by (simp add: breaches_for_def losing_line_def on_the_line_def metric_limits_def ends_with_def chop4_def)
  have last_reading: "last (map losing_line [0..13]) = losing_line 13"
    by (simp add: range last_map)
  have "project (failure_metric HFC) (map (\<lambda>i. - 1 * of_nat i + 49) [0..<14]) = Some (3, - 1, 1)"
    unfolding project_def fit last_value
    by (simp add: Let_def min_trend_r2_def min_daily_drift_def forecast_horizon_days_def)
  then have "forecast_crossing falling_modem (map losing_line [0..13]) = Some (3, - 1, 1)"
    using line by (simp add: forecast_crossing_def falling_modem_def Let_def)
  moreover have "map_of (r_metrics (losing_line 13)) (fs_metric (failure_metric (m_tech falling_modem))) = Some 36"
    by (simp add: losing_line_def falling_modem_def)
  moreover have "map losing_line [0..13] \<noteq> []" by (simp add: range)
  ultimately show ?thesis
    unfolding classify_modem_def last_reading clear Let_def by (simp add: forecast_finding_def)
qed

theorem forecast_finding_is_earned_witness:
  "\<exists>f slope level. classify_modem falling_modem (map losing_line [0..13]) = Inr (Some f) \<and> sf_days f = Some (round_dec 1 3) \<and>
     (\<forall>a b. sq_error (metric_values ''snr_db'' (map losing_line [0..13])) slope level \<le>
        sq_error (metric_values ''snr_db'' (map losing_line [0..13])) a b)"
proof -
  obtain f where f: "classify_modem falling_modem (map losing_line [0..13]) = Inr (Some f)" "sf_forecast f"
    "sf_days f = Some (round_dec 1 3)"
    using losing_forecast by blast
  have "fs_metric (failure_metric (m_tech falling_modem)) = ''snr_db''" by (simp add: falling_modem_def)
  with forecast_finding_is_earned [OF f(1,2)] f show ?thesis by (metis (no_types, lifting))
qed

section \<open>Remediation\<close>

lemma remediation_by_cause:
  assumes "r \<le> day"
  shows "m_cause m = CpeSoft \<Longrightarrow> remediated m (Some r) day s = 0"
    and "m_cause m = CpeHard \<Longrightarrow> day < r + 2 \<Longrightarrow> remediated m (Some r) day s = 0"
    and "m_cause m = CpeHard \<Longrightarrow> r + 2 \<le> day \<Longrightarrow> remediated m (Some r) day s = 3/4 * s"
    and "m_cause m = PlantFault \<Longrightarrow> remediated m (Some r) day s = s"
  using assms by (auto simp: remediated_def)

lemma severity_grows: "d \<le> e \<Longrightarrow> severity m d \<le> severity m e"
proof -
  assume le: "d \<le> e"
  have drift: "0 \<le> daily_drift (m_cause m)" by (cases "m_cause m") auto
  have "of_int (max 0 (d - m_onset m)) * daily_drift (m_cause m) \<le>
        of_int (max 0 (e - m_onset m)) * daily_drift (m_cause m)"
    using le by (intro mult_right_mono drift) simp
  moreover have "severity m k = of_int (max 0 (k - m_onset m)) * daily_drift (m_cause m)" for k
    by (auto simp: severity_def)
  ultimately show ?thesis by simp
qed

section \<open>The estate\<close>

theorem estate_modems:
  assumes "build_estate c pool D = Inr ms"
  shows "length ms = nat (case c of None \<Rightarrow> estate_sample | Some k \<Rightarrow> if k = 0 then estate_sample else k)"
    and "\<forall>m \<in> set ms. m_site m \<in> s_id ` set (case pool of None \<Rightarrow> sites_in_cpe_footprint | Some ss \<Rightarrow> ss)"
    and "\<forall>m \<in> set ms. m_cause m = Healthy \<longrightarrow> m_onset m = 0"
proof -
  let ?ss = "case pool of None \<Rightarrow> sites_in_cpe_footprint | Some ss \<Rightarrow> ss"
  have one: "m_site m \<in> s_id ` set ?ss \<and> (m_cause m = Healthy \<longrightarrow> m_onset m = 0)"
    if r: "modem_at ?ss D i = Inr m" for i m
  proof -
    from r obtain s where s: "weighted_choice (md_site (D i)) (map (\<lambda>s. (s, of_int (max 1 (households s)))) ?ss) = Inr s"
      "m_site m = s_id s" "m_cause m = Healthy \<longrightarrow> m_onset m = 0"
      by (auto simp: modem_at_def bindR_eq_Inr)
    from weighted_choice_member [OF s(1)] have "s \<in> set ?ss" by auto
    with s(2,3) show ?thesis by simp
  qed
  have all: "mapR f xs = Inr ys \<Longrightarrow> y \<in> set ys \<Longrightarrow> \<exists>x. f x = Inr y" for f :: "nat \<Rightarrow> modem res" and xs ys y
    by (induction xs arbitrary: ys) (auto simp: res_simps)
  let ?n = "nat (case c of None \<Rightarrow> estate_sample | Some k \<Rightarrow> if k = 0 then estate_sample else k)"
  have ms: "mapR (modem_at ?ss D) [0..<?n] = Inr ms"
    using assms by (simp only: build_estate_def Let_def)
  from mapR_length [OF ms] show "length ms = ?n" by simp
  have "m_site m \<in> s_id ` set ?ss \<and> (m_cause m = Healthy \<longrightarrow> m_onset m = 0)" if "m \<in> set ms" for m
    using all [OF ms that] one by blast
  then show "\<forall>m \<in> set ms. m_site m \<in> s_id ` set ?ss" "\<forall>m \<in> set ms. m_cause m = Healthy \<longrightarrow> m_onset m = 0"
    by blast+
qed

end
