(* ===== verification/FaultGen.thy ===== *)
theory FaultGen
  imports Effort Commercial Draws Digest
begin

text \<open>
  Synthetic faults (\<open>fault_generator.py\<close>): a site by household weight, a technology, a
  responsibility domain, the place of the premise, its delimiter and the intervention point,
  the crew and base that go there and what the resolution and a missed error cost. The draws
  of the random generator, the digest, the trigonometry and the number pi are arguments.
\<close>

section \<open>The mix of domains\<close>

fun domain_mix :: "archetype \<Rightarrow> (string \<times> rat) list" where
  "domain_mix METRO = [(''provisioning'', 18/100), (''cpe'', 22/100), (''wifi_or_home'', 20/100),
     (''premise_wiring'', 5/100), (''drop'', 13/100), (''delimiter'', 12/100), (''plant'', 10/100)]"
| "domain_mix COASTAL = [(''provisioning'', 15/100), (''cpe'', 19/100), (''wifi_or_home'', 15/100),
     (''premise_wiring'', 5/100), (''drop'', 16/100), (''delimiter'', 16/100), (''plant'', 14/100)]"
| "domain_mix MOUNTAIN = [(''provisioning'', 11/100), (''cpe'', 15/100), (''wifi_or_home'', 10/100),
     (''premise_wiring'', 5/100), (''drop'', 20/100), (''delimiter'', 22/100), (''plant'', 17/100)]"
| "domain_mix REMOTE_ISLAND = [(''provisioning'', 10/100), (''cpe'', 14/100), (''wifi_or_home'', 9/100),
     (''premise_wiring'', 5/100), (''drop'', 20/100), (''delimiter'', 24/100), (''plant'', 18/100)]"

fun jitter_km :: "archetype \<Rightarrow> rat" where
  "jitter_km METRO = 3"
| "jitter_km COASTAL = 55/10"
| "jitter_km MOUNTAIN = 7"
| "jitter_km REMOTE_ISLAND = 4"

fun delimiter_offset_km :: "archetype \<Rightarrow> rat" where
  "delimiter_offset_km METRO = 25/100"
| "delimiter_offset_km COASTAL = 5/10"
| "delimiter_offset_km MOUNTAIN = 12/10"
| "delimiter_offset_km REMOTE_ISLAND = 7/10"

definition priority_weights :: "(string \<times> rat) list" where
  "priority_weights = [(''P1'', 15/100), (''P2'', 35/100), (''P3'', 5/10)]"

text \<open>What the generator is given: the digest, the mathematics and pi.\<close>

record gen_env =
  ge_digest :: "string \<Rightarrow> string"
  ge_math :: mathlib
  ge_pi :: rat

text \<open>\<open>_stable_offset\<close>: the offset of an element follows from its identifier alone.\<close>

definition byte_at :: "string \<Rightarrow> nat \<Rightarrow> rat" where
  "byte_at s i = of_nat (of_char (s ! i))"

definition stable_offset :: "gen_env \<Rightarrow> string \<Rightarrow> rat \<Rightarrow> rat \<times> rat" where
  "stable_offset E key radius_km =
     (let digest = ge_digest E (utf8 key); M = ge_math E;
          angle = byte_at digest 0 / 255 * 2 * ge_pi E;
          distance = radius_km * ml_sqrt M (byte_at digest 1 / 255);
          dlat = distance / (11132/100) * ml_cos M angle;
          dlon = distance / (11132/100 * ml_cos M (ml_radians M (182/10))) * ml_sin M angle
      in (round_dec 6 dlat, round_dec 6 dlon))"

section \<open>The draws behind one fault\<close>

record fault_draws =
  fd_site :: rat
  fd_tech :: rat
  fd_domain :: rat
  fd_shared :: bool
  fd_element :: "int \<Rightarrow> int"
  fd_priority :: rat

fun first_reached :: "rat \<Rightarrow> rat \<Rightarrow> (string \<times> rat) list \<Rightarrow> string option" where
  "first_reached roll a [] = None"
| "first_reached roll a ((d, w) # ds) = (if roll \<le> a + w then Some d else first_reached roll (a + w) ds)"

definition pick_domain :: "fault_draws \<Rightarrow> archetype \<Rightarrow> string \<Rightarrow> string" where
  "pick_domain D a tech =
     (let chosen = (case first_reached (fd_domain D) 0 (domain_mix a) of None \<Rightarrow> ''cpe'' | Some d \<Rightarrow> d)
      in if chosen = ''delimiter'' then (if tech = ''HFC'' then ''hfc_tap'' else ''pon_odp'')
         else if chosen = ''plant''
         then (if tech = ''PON'' then ''plant'' else if fd_shared D then ''shared_network'' else ''plant'')
         else chosen)"

definition pick_technology :: "fault_draws \<Rightarrow> site \<Rightarrow> string" where
  "pick_technology D s = (if fd_tech D < pon_share (s_archetype s) then ''PON'' else ''HFC'')"

section \<open>A fault\<close>

record generated_fault =
  gf_id :: string
  gf_site :: string
  gf_municipio :: string
  gf_archetype :: archetype
  gf_tech :: string
  gf_domain :: string
  gf_priority :: string
  gf_household :: string
  gf_household_at :: "rat \<times> rat"
  gf_delim_kind :: element_kind
  gf_delim :: string
  gf_delim_at :: "rat \<times> rat"
  gf_kind :: element_kind
  gf_point :: string
  gf_at :: "rat \<times> rat"
  gf_homes :: int
  gf_crew :: string
  gf_base :: string
  gf_base_name :: string
  gf_travel :: int
  gf_ferry :: bool
  gf_same_day :: bool
  gf_minutes :: int
  gf_cost :: rat
  gf_rolls :: nat
  gf_misdispatch :: rat
  gf_per_dispatch :: rat
  gf_per_completed :: rat
  gf_wasted :: rat
  gf_in_scope :: bool
  gf_rows :: "ledger_line list"

definition at_premise :: "generated_fault \<Rightarrow> bool" where
  "at_premise f \<longleftrightarrow> gf_kind f \<in> {Household, Drop}"

definition misdispatch_premium :: "generated_fault \<Rightarrow> rat" where
  "misdispatch_premium f = round_dec 2 (gf_misdispatch f - gf_cost f)"

definition chain_elem :: "element_kind \<Rightarrow> plant_element list \<Rightarrow> plant_element res" where
  "chain_elem k chain =
     (case find (\<lambda>e. pe_kind e = k) (rev chain) of None \<Rightarrow> Inl (KeyError ''element kind'') | Some e \<Rightarrow> Inr e)"

definition shift :: "rat \<times> rat \<Rightarrow> rat \<times> rat \<Rightarrow> rat \<times> rat" where
  "shift p d = (fst p + fst d, snd p + snd d)"

definition round5 :: "rat \<times> rat \<Rightarrow> rat \<times> rat" where
  "round5 p = (round_dec 5 (fst p), round_dec 5 (snd p))"

text \<open>The kind, identifier and place of the intervention.\<close>

definition intervention ::
  "gen_env \<Rightarrow> site \<Rightarrow> string \<Rightarrow> element_kind \<Rightarrow> plant_element list \<Rightarrow> plant_element \<Rightarrow> plant_element \<Rightarrow>
   rat \<times> rat \<Rightarrow> rat \<times> rat \<Rightarrow> (element_kind \<times> string \<times> rat \<times> rat) res" where
  "intervention E s tech kind chain home delim home_at delim_at =
     (if kind = Household then Inr (kind, pe_id home, home_at)
      else if kind = Drop then bindR (chain_elem Drop chain) (\<lambda>d. Inr (kind, pe_id d, home_at))
      else if kind \<in> {Tap, Odp} then Inr (kind, pe_id delim, delim_at)
      else bindR (chain_elem (if tech = ''HFC'' then HfcNode else PonPort) chain) (\<lambda>up.
        Inr (pe_kind up, pe_id up,
             shift (s_lat s, s_lon s) (stable_offset E (pe_id up) (jitter_km (s_archetype s) * (6/10))))))"

definition fault_id_at :: "nat \<Rightarrow> string" where
  "fault_id_at i = ''SIM-'' @ nat_str_pad 4 (i + 1)"

definition fault_at :: "gen_env \<Rightarrow> site list \<Rightarrow> (nat \<Rightarrow> fault_draws) \<Rightarrow> nat \<Rightarrow> generated_fault res" where
  "fault_at E pool D i =
     (let d = D i; M = ge_math E; H = ge_digest E in
      bindR (weighted_choice (fd_site d) (map (\<lambda>s. (s, of_int (max 1 (households s)))) pool)) (\<lambda>s.
      let a = s_archetype s; tech = pick_technology d s; dom_name = pick_domain d a tech;
          element = fd_element d (max 1 (pc_taps (site_plant s))) in
      bindR (chain_for H (s_id s) tech element) (\<lambda>chain.
      bindR (chain_elem Household chain) (\<lambda>home.
      bindR (chain_elem (if tech = ''HFC'' then Tap else Odp) chain) (\<lambda>delim.
      let home_at = shift (s_lat s, s_lon s) (stable_offset E (pe_id home) (jitter_km a));
          delim_at = shift home_at (stable_offset E (pe_id delim) (delimiter_offset_km a));
          kind = kind_of_domain dom_name in
      bindR (intervention E s tech kind chain home delim home_at delim_at) (\<lambda>(ikind, iid, where_at).
      let crew = (if kind \<in> {Household, Drop} then ''clean'' else ''dirty'') in
      bindR (select_base M s crew [] [] None (Some where_at)) (\<lambda>sel.
      bindR (simulate_resolution H M (fault_id_at i) (s_id s) tech dom_name 0 False False (Some where_at)) (\<lambda>ledger.
      bindR (false_negative_cost M (s_id s) dom_name (Some where_at)) (\<lambda>missed.
      bindR (roll_cost_of a tech MidBand (s_island s)) (\<lambda>rc.
      bindR (weighted_choice (fd_priority d) priority_weights) (\<lambda>prio.
      bindR (blast_radius H dom_name (s_id s) tech) (\<lambda>homes.
      bindR (wasted_visit_cost a tech MidBand (s_island s)) (\<lambda>wasted.
        Inr \<lparr>gf_id = fault_id_at i, gf_site = s_id s, gf_municipio = s_municipio s, gf_archetype = a,
             gf_tech = tech, gf_domain = dom_name, gf_priority = prio,
             gf_household = pe_id home, gf_household_at = round5 home_at,
             gf_delim_kind = pe_kind delim, gf_delim = pe_id delim, gf_delim_at = round5 delim_at,
             gf_kind = ikind, gf_point = iid, gf_at = round5 where_at, gf_homes = homes,
             gf_crew = crew, gf_base = b_id (bs_base sel), gf_base_name = b_name (bs_base sel),
             gf_travel = tp_total (bs_plan sel), gf_ferry = tp_ferry (bs_plan sel),
             gf_same_day = tp_same_day (bs_plan sel),
             gf_minutes = total_minutes ledger, gf_cost = total_cost ledger, gf_rolls = truck_rolls ledger,
             gf_misdispatch = round_dec 2 (total_cost ledger + ec_cost missed),
             gf_per_dispatch = rl_per_dispatch rc, gf_per_completed = rl_per_completed rc,
             gf_wasted = wasted, gf_in_scope = within_benchmark_scope rc, gf_rows = el_lines ledger\<rparr>)))))))))))))"

definition generate_faults ::
  "gen_env \<Rightarrow> int \<Rightarrow> site list option \<Rightarrow> (nat \<Rightarrow> fault_draws) \<Rightarrow> generated_fault list res" where
  "generate_faults E n pool D =
     (if n < 1 then Inl (ValueError ''count must be >= 1'')
      else mapR (fault_at E (case pool of None \<Rightarrow> sites_in_cpe_footprint | Some ss \<Rightarrow> ss) D) [0..<nat n])"

section \<open>The summary\<close>

record fault_summary =
  fs_faults :: nat
  fs_minutes :: int
  fs_cost :: rat
  fs_mean_cost :: rat
  fs_rolls :: nat
  fs_dirty_share :: rat
  fs_ferry_jobs :: nat
  fs_overnight :: nat
  fs_homes :: int
  fs_exposure :: rat
  fs_wasted_exposure :: rat
  fs_outside_scope :: nat
  fs_off_premise :: nat

text \<open>An empty list of faults has a summary of its own, \<open>{"faults": 0}\<close>.\<close>

definition summarise_faults :: "generated_fault list \<Rightarrow> fault_summary option" where
  "summarise_faults fs =
     (if fs = [] then None
      else (let n = length fs; total = sum_list (map gf_cost fs) in
        Some \<lparr>fs_faults = n, fs_minutes = sum_list (map gf_minutes fs), fs_cost = round_dec 2 total,
              fs_mean_cost = round_dec 2 (total / of_nat n), fs_rolls = sum_list (map gf_rolls fs),
              fs_dirty_share = round_dec 3 (of_nat (how_many (\<lambda>f. gf_crew f = ''dirty'') fs) / of_nat n),
              fs_ferry_jobs = how_many gf_ferry fs, fs_overnight = how_many (\<lambda>f. \<not> gf_same_day f) fs,
              fs_homes = sum_list (map gf_homes fs),
              fs_exposure = round_dec 2 (sum_list (map misdispatch_premium fs)),
              fs_wasted_exposure = round_dec 2 (sum_list (map gf_wasted (filter (\<lambda>f. gf_rolls f \<noteq> 0) fs))),
              fs_outside_scope = how_many (\<lambda>f. \<not> gf_in_scope f) fs,
              fs_off_premise = how_many (\<lambda>f. \<not> at_premise f) fs\<rparr>))"

end
