(* ===== verification/FaultLaws.thy ===== *)
theory FaultLaws
  imports FaultGen EffortLaws
begin

text \<open>
  What the generator of synthetic faults promises: the crew, the place and the number of
  households agree with the responsibility domain, the domain agrees with the technology,
  every request over the known sites is served, and the summary's counts add up.
\<close>

section \<open>Domains and kinds\<close>

lemma first_reached_member: "first_reached roll a ds = Some d \<Longrightarrow> d \<in> fst ` set ds"
  by (induction roll a ds rule: first_reached.induct) (auto split: if_splits)

lemma mix_names: "fst ` set (domain_mix a) =
    {''provisioning'', ''cpe'', ''wifi_or_home'', ''premise_wiring'', ''drop'', ''delimiter'', ''plant''}"
  by (cases a) auto

definition domains_of :: "string \<Rightarrow> string set" where
  "domains_of tech = {''provisioning'', ''cpe'', ''wifi_or_home'', ''premise_wiring'', ''drop'', ''plant''} \<union>
     (if tech = ''HFC'' then {''hfc_tap'', ''shared_network''} else {''pon_odp''})"

lemma pick_domain_fits:
  assumes "tech = ''HFC'' \<or> tech = ''PON''"
  shows "pick_domain D a tech \<in> domains_of tech"
proof -
  have "(case first_reached (fd_domain D) 0 (domain_mix a) of None \<Rightarrow> ''cpe'' | Some d \<Rightarrow> d) \<in> fst ` set (domain_mix a)"
  proof (cases "first_reached (fd_domain D) 0 (domain_mix a)")
    case (Some d)
    from first_reached_member [OF this] Some show ?thesis by simp
  qed (simp add: mix_names)
  then show ?thesis
    using assms by (auto simp: pick_domain_def domains_of_def mix_names Let_def)
qed

lemma pick_technology_cases: "pick_technology D s = ''HFC'' \<or> pick_technology D s = ''PON''"
  by (simp add: pick_technology_def)

lemma kind_of_fitting:
  "d \<in> domains_of tech \<Longrightarrow> kind_of_domain d = Tap \<Longrightarrow> tech = ''HFC''"
  "d \<in> domains_of tech \<Longrightarrow> kind_of_domain d = Odp \<Longrightarrow> tech \<noteq> ''HFC''"
  "d \<in> domains_of tech \<Longrightarrow> kind_of_domain d \<noteq> PonPort"
  by (auto simp: domains_of_def kind_of_domain_def domain_to_kind_def split: if_splits)

lemma chain_elem_kind: "chain_elem k chain = Inr e \<Longrightarrow> pe_kind e = k"
  by (auto simp: chain_elem_def find_Some_iff split: option.splits)

section \<open>What a generated fault says\<close>

lemma fault_at_Inr:
  assumes "fault_at E pool D i = Inr f"
  obtains s chain home delim w sel ledger missed where
    "s \<in> set pool" "gf_site f = s_id s" "gf_id f = fault_id_at i"
    "gf_tech f = pick_technology (D i) s" "gf_domain f = pick_domain (D i) (s_archetype s) (gf_tech f)"
    "intervention E s (gf_tech f) (kind_of_domain (gf_domain f)) chain home delim
       (shift (s_lat s, s_lon s) (stable_offset E (pe_id home) (jitter_km (s_archetype s))))
       (shift (shift (s_lat s, s_lon s) (stable_offset E (pe_id home) (jitter_km (s_archetype s))))
          (stable_offset E (pe_id delim) (delimiter_offset_km (s_archetype s)))) = Inr (gf_kind f, gf_point f, w)"
    "gf_at f = round5 w"
    "gf_household_at f = round5 (shift (s_lat s, s_lon s) (stable_offset E (pe_id home) (jitter_km (s_archetype s))))"
    "gf_delim_at f = round5 (shift (shift (s_lat s, s_lon s) (stable_offset E (pe_id home) (jitter_km (s_archetype s))))
       (stable_offset E (pe_id delim) (delimiter_offset_km (s_archetype s))))"
    "gf_delim f = pe_id delim" "gf_household f = pe_id home"
    "gf_crew f = (if kind_of_domain (gf_domain f) \<in> {Household, Drop} then ''clean'' else ''dirty'')"
    "select_base (ge_math E) s (gf_crew f) [] [] None (Some w) = Inr sel" "gf_base f = b_id (bs_base sel)"
    "simulate_resolution (ge_digest E) (ge_math E) (fault_id_at i) (s_id s) (gf_tech f) (gf_domain f) 0 False False
       (Some w) = Inr ledger" "gf_minutes f = total_minutes ledger" "gf_cost f = total_cost ledger"
    "gf_rolls f = truck_rolls ledger"
    "false_negative_cost (ge_math E) (s_id s) (gf_domain f) (Some w) = Inr missed"
    "gf_misdispatch f = round_dec 2 (total_cost ledger + ec_cost missed)"
    "blast_radius (ge_digest E) (gf_domain f) (s_id s) (gf_tech f) = Inr (gf_homes f)"
proof -
  obtain s where s: "weighted_choice (fd_site (D i)) (map (\<lambda>s. (s, of_int (max 1 (households s)))) pool) = Inr s"
    using assms by (auto simp: fault_at_def Let_def bindR_eq_Inr)
  from weighted_choice_member [OF s] have "s \<in> set pool" by auto
  with assms s that show thesis
    by (auto simp: fault_at_def Let_def bindR_eq_Inr split: prod.splits)
qed

lemma intervention_cases:
  assumes "intervention E s tech kind chain home delim ha da = Inr (k, p, w)"
    and "kind = Tap \<longrightarrow> tech = ''HFC''"
  shows "(k \<in> {Household, Drop} \<longleftrightarrow> kind \<in> {Household, Drop}) \<and> (k \<in> {Household, Drop} \<longrightarrow> w = ha) \<and>
    (k \<in> {Tap, Odp} \<longrightarrow> p = pe_id delim \<and> w = da) \<and> (k = Household \<longrightarrow> p = pe_id home)"
  using assms
  by (auto simp: intervention_def bindR_eq_Inr dest!: chain_elem_kind split: if_splits)

theorem fault_is_coherent:
  assumes "fault_at E pool D i = Inr f"
  shows "gf_domain f \<in> domains_of (gf_tech f)"
    and "gf_crew f = (if at_premise f then ''clean'' else ''dirty'')"
    and "at_premise f \<Longrightarrow> gf_at f = gf_household_at f"
    and "gf_kind f \<in> {Tap, Odp} \<Longrightarrow> gf_at f = gf_delim_at f \<and> gf_point f = gf_delim f"
    and "gf_site f \<in> s_id ` set pool"
proof -
  obtain s chain home delim w where f:
    "s \<in> set pool" "gf_site f = s_id s" "gf_tech f = pick_technology (D i) s"
    "gf_domain f = pick_domain (D i) (s_archetype s) (gf_tech f)"
    "intervention E s (gf_tech f) (kind_of_domain (gf_domain f)) chain home delim
       (shift (s_lat s, s_lon s) (stable_offset E (pe_id home) (jitter_km (s_archetype s))))
       (shift (shift (s_lat s, s_lon s) (stable_offset E (pe_id home) (jitter_km (s_archetype s))))
          (stable_offset E (pe_id delim) (delimiter_offset_km (s_archetype s)))) = Inr (gf_kind f, gf_point f, w)"
    "gf_at f = round5 w"
    "gf_household_at f = round5 (shift (s_lat s, s_lon s) (stable_offset E (pe_id home) (jitter_km (s_archetype s))))"
    "gf_delim_at f = round5 (shift (shift (s_lat s, s_lon s) (stable_offset E (pe_id home) (jitter_km (s_archetype s))))
       (stable_offset E (pe_id delim) (delimiter_offset_km (s_archetype s))))"
    "gf_delim f = pe_id delim"
    "gf_crew f = (if kind_of_domain (gf_domain f) \<in> {Household, Drop} then ''clean'' else ''dirty'')"
    by (rule fault_at_Inr [OF assms])
  show dom_fits: "gf_domain f \<in> domains_of (gf_tech f)"
    using pick_domain_fits [of "gf_tech f" "D i" "s_archetype s"] pick_technology_cases [of "D i" s] f(3,4) by simp
  have "kind_of_domain (gf_domain f) = Tap \<longrightarrow> gf_tech f = ''HFC''"
    using kind_of_fitting(1) [OF dom_fits] by simp
  note cases = intervention_cases [OF f(5) this]
  show "gf_crew f = (if at_premise f then ''clean'' else ''dirty'')"
    using cases by (simp add: f(10) at_premise_def)
  show "at_premise f \<Longrightarrow> gf_at f = gf_household_at f"
    using cases by (simp add: at_premise_def f(6,7))
  show "gf_kind f \<in> {Tap, Odp} \<Longrightarrow> gf_at f = gf_delim_at f \<and> gf_point f = gf_delim f"
    using cases by (simp add: f(6,8,9))
  show "gf_site f \<in> s_id ` set pool" using f(1,2) by simp
qed

text \<open>A fault at the premise affects one household; one in the plant affects more.\<close>

theorem fault_households:
  assumes "fault_at E pool D i = Inr f" and "\<forall>s \<in> set pool. site_by_id (s_id s) = Inr s"
  shows "gf_homes f = 1 \<longleftrightarrow> at_premise f"
proof -
  obtain s where s: "s \<in> set pool" "gf_site f = s_id s"
    "gf_crew f = (if kind_of_domain (gf_domain f) \<in> {Household, Drop} then ''clean'' else ''dirty'')"
    "blast_radius (ge_digest E) (gf_domain f) (s_id s) (gf_tech f) = Inr (gf_homes f)"
    by (rule fault_at_Inr [OF assms(1)])
  note fits = fault_is_coherent(1) [OF assms(1)]
  have "at_premise f \<longleftrightarrow> kind_of_domain (gf_domain f) \<in> {Household, Drop}"
    using fault_is_coherent(2) [OF assms(1)] s(3) by (simp split: if_splits)
  moreover have "site_by_id (s_id s) = Inr s" using assms(2) s(1) by blast
  note br = blast_radius_eq [OF this, of "ge_digest E" "gf_domain f" "gf_tech f"]
  ultimately show ?thesis
    using s(4) br kind_of_fitting [OF fits] homes_per_bounds [of "s_archetype s"]
    by (cases "kind_of_domain (gf_domain f)")
      (auto simp: homes_per_hfc_node_def homes_per_pon_port_def split: if_splits)
qed

section \<open>Every request is served\<close>

definition draws_ok :: "fault_draws \<Rightarrow> bool" where
  "draws_ok d \<longleftrightarrow> (\<forall>n \<ge> 1. 0 \<le> fd_element d n \<and> fd_element d n < n)"

lemma priority_drawn: "\<exists>p. weighted_choice u priority_weights = Inr p"
  by (rule weighted_choice_total) (auto simp: priority_weights_def)

lemma roll_cost_total: "tech = ''HFC'' \<or> tech = ''PON'' \<Longrightarrow> \<exists>c. roll_cost_of a tech b i = Inr c"
  by (auto simp: roll_cost_of_def first_visit_completion_def Let_def)

lemma fault_at_total:
  assumes pool: "pool \<noteq> []" "\<forall>s \<in> set pool. site_by_id (s_id s) = Inr s" and draws: "draws_ok (D i)"
  shows "\<exists>f. fault_at E pool D i = Inr f"
proof -
  obtain s where ws: "weighted_choice (fd_site (D i)) (map (\<lambda>s. (s, of_int (max 1 (households s)))) pool) = Inr s"
    using weighted_choice_total [of "map (\<lambda>s. (s, of_int (max 1 (households s)))) pool"] pool(1) by fastforce
  from weighted_choice_member [OF ws] have "s \<in> set pool" by auto
  with pool(2) have s: "site_by_id (s_id s) = Inr s" by blast
  then have ok: "is_ok (site_by_id (s_id s))" by simp
  let ?t = "pick_technology (D i) s"
  let ?d = "pick_domain (D i) (s_archetype s) ?t"
  let ?k = "kind_of_domain ?d"
  have "0 \<le> fd_element (D i) (max 1 (pc_taps (site_plant s)))"
    using draws by (simp add: draws_ok_def)
  then obtain h d l u where c: "chain_for (ge_digest E) (s_id s) ?t (fd_element (D i) (max 1 (pc_taps (site_plant s)))) = Inr [h, d, l, u]"
    "pe_kind h = Household" "pe_kind d = Drop" "pe_kind l = (if ?t = ''HFC'' then Tap else Odp)"
    "pe_kind u = (if ?t = ''HFC'' then HfcNode else PonPort)"
    by (rule chain_for_ok [OF s, where D = "ge_digest E" and t = ?t]) blast
  have el: "chain_elem Household [h, d, l, u] = Inr h" "chain_elem Drop [h, d, l, u] = Inr d"
    "chain_elem (if ?t = ''HFC'' then Tap else Odp) [h, d, l, u] = Inr l"
    "chain_elem (if ?t = ''HFC'' then HfcNode else PonPort) [h, d, l, u] = Inr u"
    using c(2-5) by (auto simp: chain_elem_def)
  have iv: "\<exists>x. intervention E s ?t ?k [h, d, l, u] h l ha da = Inr x" for ha da
    using el(2,4) by (auto simp: intervention_def)
  have sel: "\<exists>sel. select_base (ge_math E) s (if ?k \<in> {Household, Drop} then ''clean'' else ''dirty'') [] [] None w = Inr sel" for w
    by (rule select_base_total [OF s first_base_serves(1) first_base]) simp
  have sim: "\<exists>l. simulate_resolution (ge_digest E) (ge_math E) (fault_id_at i) (s_id s) ?t ?d 0 False False w = Inr l" for w
    using simulate_total [OF ok] by (simp add: is_ok_iff)
  have fn: "\<exists>e. false_negative_cost (ge_math E) (s_id s) ?d w = Inr e" for w
    using false_negative_total [OF ok] by (simp add: is_ok_iff)
  obtain rc where rc: "roll_cost_of (s_archetype s) ?t MidBand (s_island s) = Inr rc"
    using roll_cost_total [OF pick_technology_cases] by blast
  obtain prio where prio: "weighted_choice (fd_priority (D i)) priority_weights = Inr prio"
    using priority_drawn by blast
  obtain ha da where "ha = shift (s_lat s, s_lon s) (stable_offset E (pe_id h) (jitter_km (s_archetype s)))"
    "da = shift ha (stable_offset E (pe_id l) (delimiter_offset_km (s_archetype s)))" by blast
  note places = this
  obtain k p w where x: "intervention E s ?t ?k [h, d, l, u] h l ha da = Inr (k, p, w)"
    using iv [of ha da] by auto
  obtain sl where sl: "select_base (ge_math E) s (if ?k \<in> {Household, Drop} then ''clean'' else ''dirty'') [] [] None (Some w) = Inr sl"
    using sel by blast
  obtain le where le: "simulate_resolution (ge_digest E) (ge_math E) (fault_id_at i) (s_id s) ?t ?d 0 False False (Some w) = Inr le"
    using sim by blast
  obtain e where e: "false_negative_cost (ge_math E) (s_id s) ?d (Some w) = Inr e"
    using fn by blast
  show ?thesis
    unfolding fault_at_def Let_def ws bindR_Inr c(1) el(1,3) places [symmetric] x prod.case sl le e rc prio
      blast_radius_eq [OF s] wasted_visit_cost_def
    by simp
qed

theorem faults_are_generated:
  assumes "1 \<le> n" and "\<forall>i. draws_ok (D i)"
  shows "\<exists>fs. generate_faults E n None D = Inr fs \<and> length fs = nat n \<and> map gf_id fs = map fault_id_at [0..<nat n]"
proof -
  have "list_all (\<lambda>s. site_by_id (s_id s) = Inr s) sites_in_cpe_footprint"
    by code_simp
  then have pool: "sites_in_cpe_footprint \<noteq> []" "\<forall>s \<in> set sites_in_cpe_footprint. site_by_id (s_id s) = Inr s"
    by (auto simp: list_all_iff sites_in_cpe_footprint_def sites_def mk_site_def)
  have ids: "map gf_id fs = map fault_id_at js" if "mapR (fault_at E pool D) js = Inr fs" for pool js fs
    using that by (induction js arbitrary: fs) (auto simp: bindR_eq_Inr elim: fault_at_Inr)
  obtain fs where fs: "mapR (fault_at E sites_in_cpe_footprint D) [0..<nat n] = Inr fs"
    using mapR_total [of "[0..<nat n]" "fault_at E sites_in_cpe_footprint D"] fault_at_total [OF pool] assms(2) by blast
  with ids [OF fs] mapR_length [OF fs] assms(1) show ?thesis
    by (simp add: generate_faults_def)
qed

lemma no_faults_refused: "n < 1 \<Longrightarrow> generate_faults E n pool D = Inl (ValueError ''count must be >= 1'')"
  by (simp add: generate_faults_def)

section \<open>The summary\<close>

lemma how_many_split: "how_many P xs + how_many (\<lambda>x. \<not> P x) xs = length xs"
  by (simp add: how_many_def sum_length_filter_compl)

theorem summary_adds_up:
  assumes "summarise_faults fs = Some s"
  shows "fs_faults s = length fs" and "fs_off_premise s + how_many at_premise fs = length fs"
    and "fs_overnight s + how_many gf_same_day fs = length fs"
    and "0 \<le> fs_dirty_share s \<and> fs_dirty_share s \<le> 1"
proof -
  have ne: "fs \<noteq> []" using assms by (auto simp: summarise_faults_def)
  have dirty: "fs_dirty_share s = round_dec 3 (of_nat (how_many (\<lambda>f. gf_crew f = ''dirty'') fs) / of_nat (length fs))"
    using assms ne by (auto simp: summarise_faults_def Let_def)
  have "how_many (\<lambda>f. gf_crew f = ''dirty'') fs \<le> length fs" by (simp add: how_many_def)
  then have "0 \<le> (of_nat (how_many (\<lambda>f. gf_crew f = ''dirty'') fs) / of_nat (length fs) :: rat)"
    "(of_nat (how_many (\<lambda>f. gf_crew f = ''dirty'') fs) / of_nat (length fs) :: rat) \<le> 1"
    using ne by (simp_all add: divide_le_eq)
  from round_dec_mono [OF this(1), of 3] round_dec_mono [OF this(2), of 3]
  show "0 \<le> fs_dirty_share s \<and> fs_dirty_share s \<le> 1"
    unfolding dirty by (simp add: round_dec_def round_he_def)
  show "fs_faults s = length fs" "fs_off_premise s + how_many at_premise fs = length fs"
    "fs_overnight s + how_many gf_same_day fs = length fs"
    using assms ne how_many_split [of at_premise fs] how_many_split [of gf_same_day fs]
    by (auto simp: summarise_faults_def Let_def)
qed

end
