(* ===== verification/Routing.thy ===== *)
theory Routing
  imports JsonParse
begin

text \<open>
  Road routing for dispatch legs (\<open>routing.py\<close>): the straight-line router, the OSRM client
  with its in-process and on-disk caches, the fallback and the selection from the
  environment. The service answers through an argument that may raise; the disk is part of
  the state and may refuse a write. Coordinates are pairs of longitude and latitude.
\<close>

section \<open>Routes\<close>

type_synonym coord = "rat \<times> rat"

record route =
  rt_coordinates :: "coord list"
  rt_distance_m :: rat
  rt_duration_s :: rat
  rt_source :: string
  rt_on_roads :: bool

definition route_path :: "route \<Rightarrow> rat list list" where
  "route_path r = map (\<lambda>(lon, lat). [lon, lat]) (rt_coordinates r)"

definition duration_min :: "route \<Rightarrow> int" where
  "duration_min r = round_he (rt_duration_s r / 60)"

definition distance_km :: "route \<Rightarrow> rat" where
  "distance_km r = round_dec 1 (rt_distance_m r / 1000)"

definition two_waypoints :: exn where
  "two_waypoints = ValueError ''a route needs at least two waypoints''"

text \<open>\<open>StraightLineRouter.route\<close>\<close>

definition straight_route :: "coord list \<Rightarrow> route res" where
  "straight_route points =
     (if length points < 2 then Inl two_waypoints
      else Inr \<lparr>rt_coordinates = points, rt_distance_m = 0, rt_duration_s = 0,
                rt_source = ''straight'', rt_on_roads = False\<rparr>)"

section \<open>The OSRM client\<close>

record osrm =
  os_base_url :: string
  os_profile :: string
  os_timeout :: rat
  os_cache_dir :: "string option"
  os_memo :: "(string \<times> route) list"

text \<open>\<open>f"{x:.6f}"\<close>: the sign is kept when the digits are all zero.\<close>

definition coord_text :: "nat \<Rightarrow> rat \<Rightarrow> string" where
  "coord_text k x = (if x < 0 then ''-'' else []) @ fixed k \<bar>x\<bar>"

definition pair_text :: "nat \<Rightarrow> coord \<Rightarrow> string" where
  "pair_text k p = coord_text k (fst p) @ '','' @ coord_text k (snd p)"

definition rstrip_char :: "char \<Rightarrow> string \<Rightarrow> string" where
  "rstrip_char c s = rev (dropWhile (\<lambda>x. x = c) (rev s))"

definition url_for :: "osrm \<Rightarrow> coord list \<Rightarrow> string" where
  "url_for R points =
     rstrip_char (CHR ''/'') (os_base_url R) @ ''/route/v1/'' @ os_profile R @ ''/'' @
     join '';'' (map (pair_text 6) points) @ ''?overview=full&geometries=geojson&steps=false''"

definition cache_key :: "coord list \<Rightarrow> string" where
  "cache_key points = join ''|'' (map (pair_text 5) points)"

text \<open>\<open>c[0]\<close> and \<open>c[1]\<close> on a value of the payload.\<close>

fun item_at :: "nat \<Rightarrow> json \<Rightarrow> json res" where
  "item_at i (JArr xs) = (if i < length xs then Inr (xs ! i) else Inl IndexError)"
| "item_at i (JStr s) = (if i < length s then Inr (JStr [s ! i]) else Inl IndexError)"
| "item_at i (JObj d) = Inl (KeyError (nat_str i))"
| "item_at i v = Inl (TypeError ''object is not subscriptable'')"

definition coord_of :: "json \<Rightarrow> coord res" where
  "coord_of c = bindR (bindR (item_at 0 c) py_float) (\<lambda>x. bindR (bindR (item_at 1 c) py_float) (\<lambda>y. Inr (x, y)))"

text \<open>\<open>len(x)\<close>\<close>

fun py_len :: "json \<Rightarrow> nat res" where
  "py_len (JArr xs) = Inr (length xs)"
| "py_len (JObj d) = Inr (length d)"
| "py_len (JStr s) = Inr (length s)"
| "py_len v = Inl (TypeError ''object has no len()'')"

definition parse_route :: "string \<Rightarrow> json \<Rightarrow> route res" where
  "parse_route source payload =
     bindR (as_dict payload) (\<lambda>p.
     if dget ''code'' p \<noteq> JStr ''Ok''
     then Inl (ValueError (''OSRM returned code '' @ py_repr (dget ''code'' p)))
     else let routes = py_or (dget ''routes'' p) (JArr []) in
     if \<not> truthy routes then Inl (ValueError ''OSRM returned no routes'')
     else bindR (bindR (item_at 0 routes) as_dict) (\<lambda>best.
     bindR (as_dict (dget_or ''geometry'' (JObj []) best)) (\<lambda>g.
     let coords = py_or (dget ''coordinates'' g) (JArr []) in
     bindR (py_len coords) (\<lambda>n.
     if n < 2 then Inl (ValueError ''OSRM route geometry has fewer than two points'')
     else bindR (bindR (py_list coords) (mapR coord_of)) (\<lambda>cs.
     bindR (py_float (dget_or ''distance'' (JFloat 0) best)) (\<lambda>dist.
     bindR (py_float (dget_or ''duration'' (JFloat 0) best)) (\<lambda>dur.
       Inr \<lparr>rt_coordinates = cs, rt_distance_m = dist, rt_duration_s = dur,
            rt_source = source, rt_on_roads = True\<rparr>)))))))"

section \<open>The disk cache and the service\<close>

text \<open>\<open>json.dumps\<close> with its default separators, keys in insertion order.\<close>

fun json_text :: "json \<Rightarrow> string" where
  "json_text JNull = ''null''"
| "json_text (JBool b) = (if b then ''true'' else ''false'')"
| "json_text (JInt i) = int_str i"
| "json_text (JFloat r) = float_repr r"
| "json_text (JStr s) = json_string s"
| "json_text (JArr xs) = ''['' @ join '', '' (map json_text xs) @ '']''"
| "json_text (JObj d) =
     ''{'' @ join '', '' (map (\<lambda>p. json_string (fst p) @ '': '' @ json_text (snd p)) d) @ ''}''"

text \<open>What the router shares with its surroundings: the files and the requests made so far.\<close>

record route_world =
  rw_disk :: "string \<rightharpoonup> string"
  rw_requests :: "string list"

text \<open>
  The surroundings: whether a file may be written, and the service, which is told how many
  requests came before and returns the body of its answer or raises.
\<close>

record route_env =
  re_writable :: "string \<Rightarrow> bool"
  re_opener :: "nat \<Rightarrow> string \<Rightarrow> rat \<Rightarrow> string res"

definition safe_key_char :: "char \<Rightarrow> char" where
  "safe_key_char c = (if c = CHR ''|'' then CHR ''_'' else if c = CHR '','' then CHR ''-''
     else if c = CHR ''.'' then CHR ''p'' else c)"

definition disk_path :: "osrm \<Rightarrow> string \<Rightarrow> string option" where
  "disk_path R key = (case os_cache_dir R of
       None \<Rightarrow> None
     | Some d \<Rightarrow> Some (d @ ''/'' @ os_profile R @ ''-'' @ map safe_key_char key @ ''.json''))"

definition read_disk :: "osrm \<Rightarrow> string \<Rightarrow> route_world \<Rightarrow> route option" where
  "read_disk R key w = (case disk_path R key of
       None \<Rightarrow> None
     | Some p \<Rightarrow> (case rw_disk w p of
         None \<Rightarrow> None
       | Some text \<Rightarrow> (case json_loads text of
           None \<Rightarrow> None
         | Some v \<Rightarrow> (case parse_route ''osrm-cache'' v of Inl _ \<Rightarrow> None | Inr r \<Rightarrow> Some r))))"

definition write_disk :: "route_env \<Rightarrow> osrm \<Rightarrow> string \<Rightarrow> json \<Rightarrow> route_world \<Rightarrow> route_world" where
  "write_disk E R key payload w = (case disk_path R key of
       None \<Rightarrow> w
     | Some p \<Rightarrow> if re_writable E p then w\<lparr>rw_disk := (rw_disk w)(p \<mapsto> json_text payload)\<rparr> else w)"

definition fetch :: "route_env \<Rightarrow> osrm \<Rightarrow> string \<Rightarrow> route_world \<Rightarrow> json res \<times> route_world" where
  "fetch E R url w =
     (bindR (re_opener E (length (rw_requests w)) url (os_timeout R)) (\<lambda>body.
        case json_loads body of None \<Rightarrow> Inl (ValueError ''invalid JSON'') | Some v \<Rightarrow> Inr v),
      w\<lparr>rw_requests := rw_requests w @ [url]\<rparr>)"

definition memoise :: "string \<Rightarrow> route \<Rightarrow> osrm \<Rightarrow> osrm" where
  "memoise key r R = R\<lparr>os_memo := dset key r (os_memo R)\<rparr>"

text \<open>\<open>OSRMRouter.route\<close>: the memo, then the disk, then the service.\<close>

definition osrm_route ::
  "route_env \<Rightarrow> osrm \<Rightarrow> coord list \<Rightarrow> route_world \<Rightarrow> route res \<times> osrm \<times> route_world" where
  "osrm_route E R points w =
     (if length points < 2 then (Inl two_waypoints, R, w)
      else let key = cache_key points in
      case map_of (os_memo R) key of
        Some r \<Rightarrow> (Inr r, R, w)
      | None \<Rightarrow> (case read_disk R key w of
          Some r \<Rightarrow> (Inr r, memoise key r R, w)
        | None \<Rightarrow> (case fetch E R (url_for R points) w of
            (Inl e, w1) \<Rightarrow> (Inl e, R, w1)
          | (Inr payload, w1) \<Rightarrow> (case parse_route ''osrm'' payload of
              Inl e \<Rightarrow> (Inl e, R, w1)
            | Inr r \<Rightarrow> (Inr r, memoise key r R, write_disk E R key payload w1)))))"

section \<open>Routers\<close>

datatype router =
    Straight
  | Osrm osrm
  | Fallback router router nat

text \<open>
  The classes \<open>FallbackRouter\<close> catches. \<open>URLError\<close>, \<open>TimeoutError\<close> and the exceptions of
  a missing or existing file are subclasses of \<open>OSError\<close>.
\<close>

fun caught :: "exn \<Rightarrow> bool" where
  "caught (ValueError _) = True"
| "caught (ValidationError _) = True"
| "caught (OSError _) = True"
| "caught (FileNotFoundError _) = True"
| "caught (FileExistsError _) = True"
| "caught _ = False"

fun route_via :: "route_env \<Rightarrow> router \<Rightarrow> coord list \<Rightarrow> route_world \<Rightarrow> route res \<times> router \<times> route_world" where
  "route_via E Straight points w = (straight_route points, Straight, w)"
| "route_via E (Osrm R) points w =
     (case osrm_route E R points w of (r, R', w') \<Rightarrow> (r, Osrm R', w'))"
| "route_via E (Fallback p s n) points w =
     (case route_via E p points w of
        (Inr r, p', w') \<Rightarrow> (Inr r, Fallback p' s n, w')
      | (Inl e, p', w') \<Rightarrow>
          if caught e
          then (case route_via E s points w' of (r, s', w'') \<Rightarrow> (r, Fallback p' s' (n + 1), w''))
          else (Inl e, Fallback p' s n, w'))"

fun router_failures :: "router \<Rightarrow> nat" where
  "router_failures (Fallback _ _ n) = n"
| "router_failures _ = 0"

definition osrm_public :: string where
  "osrm_public = ''https://router.project-osrm.org''"

definition env_get :: "string \<Rightarrow> string \<Rightarrow> (string \<times> string) list \<Rightarrow> string" where
  "env_get k d env = (case map_of env k of None \<Rightarrow> d | Some v \<Rightarrow> v)"

definition router_from_env :: "(string \<times> string) list \<Rightarrow> router res" where
  "router_from_env env =
     (if lower (strip (env_get ''ROUTING_PROVIDER'' ''straight'' env)) \<noteq> ''osrm'' then Inr Straight
      else let cache = strip (env_get ''OSRM_CACHE_DIR'' [] env) in
      bindR (case map_of env ''OSRM_TIMEOUT'' of None \<Rightarrow> Inr 8 | Some t \<Rightarrow> py_float (JStr t)) (\<lambda>timeout.
      Inr (Fallback (Osrm \<lparr>os_base_url = env_get ''OSRM_URL'' osrm_public env,
                           os_profile = env_get ''OSRM_PROFILE'' ''driving'' env,
                           os_timeout = timeout, os_cache_dir = (if cache = [] then None else Some cache),
                           os_memo = []\<rparr>) Straight 0)))"

section \<open>Laws\<close>

lemma parse_route_shape:
  assumes "parse_route src payload = Inr r"
  shows "rt_on_roads r \<and> rt_source r = src \<and> 2 \<le> length (rt_coordinates r)"
proof -
  have len: "py_len c = Inr n \<Longrightarrow> py_list c = Inr xs \<Longrightarrow> length xs = n" for c n xs
    by (cases c) auto
  from assms show ?thesis
    by (auto simp: parse_route_def bindR_eq_Inr Let_def dest!: len mapR_length split: if_splits)
qed

text \<open>The memo holds only routes on roads with at least two points.\<close>

definition memo_ok :: "osrm \<Rightarrow> bool" where
  "memo_ok R \<longleftrightarrow> (\<forall>(k, r) \<in> set (os_memo R). rt_on_roads r \<and> 2 \<le> length (rt_coordinates r))"

lemma set_dset_sub: "set (dset k v d) \<subseteq> insert (k, v) (set d)"
  by (induction k v d rule: dset.induct) auto

lemma memoise_ok:
  "memo_ok R \<Longrightarrow> rt_on_roads r \<Longrightarrow> 2 \<le> length (rt_coordinates r) \<Longrightarrow> memo_ok (memoise k r R)"
  using set_dset_sub [of k r "os_memo R"] by (fastforce simp: memo_ok_def memoise_def)

lemma read_disk_shape: "read_disk R k w = Some r \<Longrightarrow> rt_on_roads r \<and> 2 \<le> length (rt_coordinates r)"
  by (auto simp: read_disk_def split: option.splits sum.splits dest: parse_route_shape)

lemma osrm_route_cases:
  assumes "osrm_route E R points w = (res, R', w')"
  obtains e where "res = Inl e" "R' = R"
  | r where "res = Inr r" "R' = R" "w' = w" "map_of (os_memo R) (cache_key points) = Some r"
  | r where "res = Inr r" "R' = memoise (cache_key points) r R" "rt_on_roads r" "2 \<le> length (rt_coordinates r)"
proof (cases "length points < 2 \<or> map_of (os_memo R) (cache_key points) \<noteq> None")
  case True
  with assms that(1,2) show thesis
    by (auto simp: osrm_route_def Let_def split: if_splits)
next
  case False
  show thesis
  proof (cases "read_disk R (cache_key points) w")
    case (Some r)
    with False assms that(3) read_disk_shape [OF Some] show thesis
      by (auto simp: osrm_route_def Let_def)
  next
    case None
    obtain f w1 where f: "fetch E R (url_for R points) w = (f, w1)" by force
    show thesis
    proof (cases f)
      case (Inl e)
      then have "osrm_route E R points w = (Inl e, R, w1)"
        using f None False by (simp add: osrm_route_def Let_def)
      with assms have "res = Inl e" "R' = R" by simp_all
      then show thesis by (rule that(1))
    next
      case (Inr payload)
      show thesis
      proof (cases "parse_route ''osrm'' payload")
        case (Inl e)
        then have "osrm_route E R points w = (Inl e, R, w1)"
          using f \<open>f = Inr payload\<close> None False by (simp add: osrm_route_def Let_def)
        with assms have "res = Inl e" "R' = R" by simp_all
      then show thesis by (rule that(1))
      next
        case (Inr r)
        then have "osrm_route E R points w =
            (Inr r, memoise (cache_key points) r R, write_disk E R (cache_key points) payload w1)"
          using f \<open>f = Inr payload\<close> None False by (simp add: osrm_route_def Let_def)
        with assms have "res = Inr r" "R' = memoise (cache_key points) r R" by simp_all
        then show thesis
          using parse_route_shape [OF Inr] by (elim that(3)) (simp_all only:)
      qed
    qed
  qed
qed

theorem osrm_route_ok:
  assumes "memo_ok R" and "osrm_route E R points w = (res, R', w')"
  shows "memo_ok R' \<and> (\<forall>r. res = Inr r \<longrightarrow>
           rt_on_roads r \<and> 2 \<le> length (rt_coordinates r) \<and> map_of (os_memo R') (cache_key points) = Some r)"
proof -
  have memo: "rt_on_roads r \<and> 2 \<le> length (rt_coordinates r)" if "map_of (os_memo R) k = Some r" for k r
    using assms(1) map_of_SomeD [OF that] by (auto simp: memo_ok_def)
  from assms(2) show ?thesis
    by (rule osrm_route_cases) (use assms(1) memo memoise_ok in \<open>auto simp: memoise_def\<close>)
qed

text \<open>A leg routed once is not asked for again: the second call makes no request.\<close>

theorem second_call_is_free:
  assumes "osrm_route E R points w = (Inr r, R', w')"
  shows "osrm_route E' R' points w'' = (Inr r, R', w'')"
proof -
  have "\<not> length points < 2" "map_of (os_memo R') (cache_key points) = Some r"
    using assms
    by (auto simp: osrm_route_def Let_def memoise_def split: if_splits option.splits prod.splits sum.splits)
  then show ?thesis by (simp add: osrm_route_def)
qed

text \<open>
  The default router needs no network and changes nothing; the fallback turns every failure
  it catches into the straight line, and counts it.
\<close>

theorem fallback_straight:
  assumes "2 \<le> length points" and "route_via E (Fallback (Osrm R) Straight n) points w = (res, F, w')"
  shows "(\<exists>r R'. res = Inr r \<and> F = Fallback (Osrm R') Straight n \<and> osrm_route E R points w = (Inr r, R', w')) \<or>
    (\<exists>e R'. osrm_route E R points w = (Inl e, R', w') \<and>
       (if caught e
        then (\<exists>r. res = Inr r \<and> rt_coordinates r = points \<and> \<not> rt_on_roads r) \<and> F = Fallback (Osrm R') Straight (n + 1)
        else res = Inl e \<and> F = Fallback (Osrm R') Straight n))"
  using assms
  by (auto simp: straight_route_def split: prod.splits sum.splits if_splits)

text \<open>
  Not every malformed answer is caught: a vertex with one coordinate raises \<open>IndexError\<close>,
  which passes through the fallback.
\<close>

definition short_vertex_payload :: json where
  "short_vertex_payload = JObj [(''code'', JStr ''Ok''), (''routes'', JArr [JObj
     [(''geometry'', JObj [(''coordinates'', JArr [JArr [JInt (- 66)], JArr [JInt (- 66), JInt 18]])])]])]"

lemma short_vertex_escapes:
  "parse_route ''osrm'' short_vertex_payload = Inl IndexError" "\<not> caught IndexError"
  by (code_simp, simp)

lemma env_default: "map_of env ''ROUTING_PROVIDER'' = None \<Longrightarrow> router_from_env env = Inr Straight"
  by (simp add: router_from_env_def env_get_def strip_def is_space_def lower_def lower_char_def)

end
