(* ===== verification/MapLayers.thy ===== *)
theory MapLayers
  imports FaultGen Routing Agents
begin

text \<open>
  The map layers (\<open>geo_layers.py\<close>): the records behind the site, hub, fault and leg layers.
  Road legs are land legs only; each is sent to the router, which threads its caches and the
  outside world, and keeps its straight line when the router raises.
\<close>

section \<open>Sites, hubs and markers\<close>

type_synonym rgba = "int list"

fun archetype_rgba :: "archetype \<Rightarrow> rgba" where
  "archetype_rgba METRO = [12, 84, 87, 220]"
| "archetype_rgba COASTAL = [24, 168, 175, 220]"
| "archetype_rgba MOUNTAIN = [143, 125, 98, 220]"
| "archetype_rgba REMOTE_ISLAND = [138, 124, 106, 230]"

definition position :: "rat \<Rightarrow> rat \<Rightarrow> rat list" where
  "position lat lon = [lon, lat]"

record site_record =
  si_id :: string
  si_name :: string
  si_region :: string
  si_archetype :: string
  si_techs :: string
  si_island :: bool
  si_position :: "rat list"
  si_colour :: rgba
  si_radius :: int

definition site_records :: "site_record list" where
  "site_records = map (\<lambda>s. \<lparr>si_id = s_id s, si_name = s_municipio s, si_region = s_region s,
     si_archetype = archetype_value (s_archetype s), si_techs = join '', '' (s_techs s), si_island = s_island s,
     si_position = position (s_lat s) (s_lon s), si_colour = archetype_rgba (s_archetype s),
     si_radius = (if s_island s then 2600 else 2000)\<rparr>) sites_in_cpe_footprint"

text \<open>\<open>base_id.replace("BASE-", "")\<close>\<close>

fun drop_all :: "nat \<Rightarrow> string \<Rightarrow> string \<Rightarrow> string" where
  "drop_all 0 p s = s"
| "drop_all (Suc f) p [] = []"
| "drop_all (Suc f) p (c # s) =
     (if starts_with p (c # s) then drop_all f p (drop (length p) (c # s)) else c # drop_all f p s)"

definition short_base :: "string \<Rightarrow> string" where
  "short_base b = drop_all (length b) ''BASE-'' b"

record hub_record =
  hu_id :: string
  hu_short :: string
  hu_name :: string
  hu_likelihood :: string
  hu_rationale :: string
  hu_crews :: string
  hu_splice_kit :: string
  hu_position :: "rat list"
  hu_radius :: int

definition hub_records :: "hub_record list" where
  "hub_records = map (\<lambda>b. \<lparr>hu_id = b_id b, hu_short = short_base (b_id b), hu_name = b_name b,
     hu_likelihood = b_likelihood b, hu_rationale = b_rationale b, hu_crews = join '', '' (b_crews b),
     hu_splice_kit = (if ''splice_kit'' \<in> set (b_stock b) then ''yes'' else ''no''),
     hu_position = position (b_lat b) (b_lon b),
     hu_radius = (if b_likelihood b = ''very_high'' then 5200 else 3800)\<rparr>) dispatch_bases"

record ferry_arc =
  fa_from :: coord
  fa_to :: coord
  fa_label :: string

definition ferry_arcs :: "ferry_arc list res" where
  "ferry_arcs = bindR ferry_terminals (\<lambda>ts. Inr (concat (map (\<lambda>t.
     map (\<lambda>s. \<lparr>fa_from = (s_lon t, s_lat t), fa_to = (s_lon s, s_lat s),
               fa_label = ''Ferry '' @ s_municipio t @ '' to '' @ s_municipio s\<rparr>)
       (filter (\<lambda>s. s_island s \<and> s_ferry_from s = Some (s_id t)) sites_in_cpe_footprint)) ts)))"

record route_record =
  ro_selection :: base_selection
  ro_path :: "rat list list"
  ro_label :: string

definition dispatch_route :: "mathlib \<Rightarrow> site \<Rightarrow> string \<Rightarrow> string list \<Rightarrow> string list \<Rightarrow> route_record res" where
  "dispatch_route M s crew skills parts =
     bindR (select_base M s crew skills parts None None) (\<lambda>sel.
     let b = bs_base sel; p = bs_plan sel in
     bindR (case s_ferry_from s of
              Some t \<Rightarrow> if tp_ferry p \<and> t \<noteq> [] then bindR (site_by_id t) (\<lambda>t. Inr [position (s_lat t) (s_lon t)]) else Inr []
            | None \<Rightarrow> Inr []) (\<lambda>via.
       Inr \<lparr>ro_selection = sel,
            ro_path = [position (b_lat b) (b_lon b)] @ via @ [position (s_lat s) (s_lon s)],
            ro_label = b_name b @ '' to '' @ s_municipio s @ '', '' @ int_str (tp_total p) @ '' min one way''\<rparr>))"

section \<open>Fault pins\<close>

text \<open>\<open>COST_BANDS\<close>: the ceilings and colours; the last band has no ceiling.\<close>

definition cost_bands :: "(rat option \<times> rgba) list" where
  "cost_bands = [(Some 100, [24, 168, 175, 220]), (Some 400, [143, 125, 98, 230]),
     (Some 900, [180, 110, 60, 235]), (None, [168, 60, 50, 245])]"

definition cost_colour :: "rat \<Rightarrow> rgba" where
  "cost_colour cost =
     (case find (\<lambda>(c, _). case c of None \<Rightarrow> True | Some r \<Rightarrow> cost < r) cost_bands of
        Some (_, col) \<Rightarrow> col | None \<Rightarrow> snd (last cost_bands))"

definition cost_radius :: "mathlib \<Rightarrow> rat \<Rightarrow> int" where
  "cost_radius M cost = trunc_rat (900 + 90 * ml_sqrt M (max cost 40))"

record fault_pin =
  fp_id :: string
  fp_domain :: string
  fp_priority :: string
  fp_kind :: element_kind
  fp_point :: string
  fp_where :: string
  fp_homes :: int
  fp_crew :: string
  fp_base :: string
  fp_minutes :: int
  fp_cost :: rat
  fp_cost_label :: string
  fp_if_missed :: rat
  fp_position :: "rat list"
  fp_colour :: rgba
  fp_radius :: int

definition fault_records :: "mathlib \<Rightarrow> generated_fault list \<Rightarrow> fault_pin list" where
  "fault_records M fs = map (\<lambda>f. \<lparr>fp_id = gf_id f, fp_domain = gf_domain f, fp_priority = gf_priority f,
     fp_kind = gf_kind f, fp_point = gf_point f, fp_where = (if at_premise f then ''premise'' else ''plant''),
     fp_homes = gf_homes f, fp_crew = gf_crew f, fp_base = short_base (gf_base f), fp_minutes = gf_minutes f,
     fp_cost = gf_cost f, fp_cost_label = ''$'' @ thousands (gf_cost f), fp_if_missed = gf_misdispatch f,
     fp_position = position (fst (gf_at f)) (snd (gf_at f)), fp_colour = cost_colour (gf_cost f),
     fp_radius = cost_radius M (gf_cost f)\<rparr>) fs"

record link_record =
  lk_path :: "rat list list"
  lk_label :: string

definition premise_link_records :: "generated_fault list \<Rightarrow> link_record list" where
  "premise_link_records fs = map (\<lambda>f.
     \<lparr>lk_path = [position (fst (gf_household_at f)) (snd (gf_household_at f)), position (fst (gf_at f)) (snd (gf_at f))],
      lk_label = gf_household f @ '' reported it; work happens at '' @ gf_point f @ '' serving '' @
        int_str (gf_homes f) @ '' households''\<rparr>) (filter (\<lambda>f. \<not> at_premise f) fs)"

section \<open>Road and ferry legs\<close>

record road_leg =
  lg_path :: "rat list list"
  lg_label :: string
  lg_on_roads :: bool
  lg_error :: "string option"

text \<open>Where the land leg of a fault starts and ends: at the ferry terminal when the job crosses.\<close>

definition land_leg :: "generated_fault \<Rightarrow> dispatch_base \<Rightarrow> (coord \<times> coord \<times> string) res" where
  "land_leg f b =
     bindR (site_by_id (gf_site f)) (\<lambda>s.
     case s_ferry_from s of
       Some t \<Rightarrow>
         if gf_ferry f \<and> t \<noteq> []
         then bindR (site_by_id t) (\<lambda>t. Inr ((b_lon b, b_lat b), (s_lon t, s_lat t),
                ''the '' @ s_municipio t @ '' ferry terminal''))
         else Inr ((b_lon b, b_lat b), (snd (gf_at f), fst (gf_at f)), gf_point f)
     | None \<Rightarrow> Inr ((b_lon b, b_lat b), (snd (gf_at f), fst (gf_at f)), gf_point f))"

text \<open>One leg: its line, the router after the call and the errors seen so far.\<close>

definition draw_leg ::
  "route_env \<Rightarrow> router option \<Rightarrow> route_world \<Rightarrow> string list \<Rightarrow> generated_fault \<Rightarrow> coord \<Rightarrow> coord \<Rightarrow>
   (rat list list \<times> bool \<times> string) \<times> router option \<times> route_world \<times> string list" where
  "draw_leg E rt w errors f a b =
     (let straight = [[fst a, snd a], [fst b, snd b]];
          modelled = int_str (gf_travel f) @ '' min each way, modelled''
      in case rt of
           None \<Rightarrow> ((straight, False, modelled), None, w, errors)
         | Some r \<Rightarrow> (case route_via E r [a, b] w of
             (Inl e, r', w') \<Rightarrow> ((straight, False, modelled), Some r', w', errors @ [exn_name e @ '': '' @ exn_text e])
           | (Inr x, r', w') \<Rightarrow>
               ((route_path x, rt_on_roads x,
                 if rt_on_roads x
                 then float_repr (distance_km x) @ '' km on roads, '' @ int_str (duration_min x) @ '' min routed''
                 else modelled), Some r', w', errors)))"

definition first_error :: "string list \<Rightarrow> string option" where
  "first_error errors = (case errors of [] \<Rightarrow> None | e # _ \<Rightarrow> Some e)"

fun road_legs ::
  "route_env \<Rightarrow> generated_fault list \<Rightarrow> router option \<Rightarrow> route_world \<Rightarrow> string list \<Rightarrow>
   road_leg list res \<times> router option \<times> route_world" where
  "road_legs E [] rt w errors = (Inr [], rt, w)"
| "road_legs E (f # fs) rt w errors =
     (if gf_rolls f = 0 then road_legs E fs rt w errors
      else (case find (\<lambda>b. b_id b = gf_base f) dispatch_bases of
          None \<Rightarrow> road_legs E fs rt w errors
        | Some base \<Rightarrow> (case land_leg f base of
            Inl e \<Rightarrow> (Inl e, rt, w)
          | Inr (a, b, where_to) \<Rightarrow> (case draw_leg E rt w errors f a b of
              ((path, on_roads, detail), rt', w', errors') \<Rightarrow>
                (case road_legs E fs rt' w' errors' of
                   (Inl e, rt'', w'') \<Rightarrow> (Inl e, rt'', w'')
                 | (Inr ls, rt'', w'') \<Rightarrow>
                     (Inr (\<lparr>lg_path = path,
                            lg_label = gf_id f @ '' road leg: '' @ b_name base @ '' to '' @ where_to @ '', '' @ detail,
                            lg_on_roads = on_roads, lg_error = first_error errors'\<rparr> # ls), rt'', w''))))))"

definition road_leg_records ::
  "route_env \<Rightarrow> generated_fault list \<Rightarrow> router option \<Rightarrow> route_world \<Rightarrow>
   road_leg list res \<times> router option \<times> route_world" where
  "road_leg_records E fs rt w = road_legs E fs rt w []"

record leg_summary =
  ls_legs :: nat
  ls_on_roads :: nat
  ls_straight :: nat
  ls_all_routed :: bool
  ls_error :: "string option"
  ls_failed :: nat

definition leg_errors :: "road_leg list \<Rightarrow> string list" where
  "leg_errors ls = concat (map (\<lambda>r. case lg_error r of Some e \<Rightarrow> if e = [] then [] else [e] | None \<Rightarrow> []) ls)"

definition routing_summary :: "road_leg list \<Rightarrow> leg_summary" where
  "routing_summary ls =
     (let total = length ls; routed = how_many lg_on_roads ls; errors = leg_errors ls
      in \<lparr>ls_legs = total, ls_on_roads = routed, ls_straight = total - routed,
          ls_all_routed = (0 < total \<and> routed = total), ls_error = first_error errors,
          ls_failed = length errors\<rparr>)"

record ferry_leg =
  fl_source :: coord
  fl_target :: coord
  fl_label :: string

definition ferry_leg_of :: "generated_fault \<Rightarrow> ferry_leg list res" where
  "ferry_leg_of f = bindR (site_by_id (gf_site f)) (\<lambda>s.
     case s_ferry_from s of
       None \<Rightarrow> Inr []
     | Some t \<Rightarrow>
         if gf_rolls f \<noteq> 0 \<and> gf_ferry f \<and> t \<noteq> []
         then bindR (site_by_id t) (\<lambda>t. Inr [\<lparr>fl_source = (s_lon t, s_lat t),
                fl_target = (snd (gf_at f), fst (gf_at f)),
                fl_label = gf_id f @ '' ferry leg: '' @ s_municipio t @ '' to '' @ gf_municipio f @ '', '' @
                  int_str (gf_travel f) @ '' min total each way including the mean wait for a sailing''\<rparr>])
         else Inr [])"

definition ferry_leg_records :: "generated_fault list \<Rightarrow> ferry_leg list res" where
  "ferry_leg_records fs = bindR (mapR ferry_leg_of fs) (\<lambda>xs. Inr (concat xs))"

section \<open>Laws\<close>

text \<open>The land leg of a crossing ends at the terminal, wherever the fault lies.\<close>

theorem crossing_stays_on_land:
  assumes "land_leg f b = Inr (a, z, where_to)" and "site_by_id (gf_site f) = Inr s"
    and "s_ferry_from s = Some t" "t \<noteq> []" "gf_ferry f"
  shows "\<exists>ts. site_by_id t = Inr ts \<and> z = (s_lon ts, s_lat ts)"
  using assms by (auto simp: land_leg_def bindR_eq_Inr)

text \<open>The legs of the summary are split into routed and straight ones.\<close>

theorem summary_counts:
  "ls_on_roads (routing_summary ls) + ls_straight (routing_summary ls) = ls_legs (routing_summary ls)"
  "ls_all_routed (routing_summary ls) \<longleftrightarrow> ls \<noteq> [] \<and> (\<forall>l \<in> set ls. lg_on_roads l)"
proof -
  have le: "how_many lg_on_roads ls \<le> length ls" by (simp add: how_many_def)
  then show "ls_on_roads (routing_summary ls) + ls_straight (routing_summary ls) = ls_legs (routing_summary ls)"
    by (simp add: routing_summary_def Let_def)
  have "length (filter lg_on_roads ls) = length ls \<longleftrightarrow> (\<forall>l \<in> set ls. lg_on_roads l)"
    by (metis filter_True length_filter_less nat_neq_iff)
  then show "ls_all_routed (routing_summary ls) \<longleftrightarrow> ls \<noteq> [] \<and> (\<forall>l \<in> set ls. lg_on_roads l)"
    by (auto simp: routing_summary_def Let_def how_many_def)
qed

text \<open>
  The first error stays with every later leg, so that after a failure of the first leg all
  legs count as failed, the ones drawn on roads included.
\<close>

lemma draw_leg_errors: "draw_leg E rt w errors f a b = (x, rt', w', errors') \<Longrightarrow> \<exists>es. errors' = errors @ es"
  by (auto simp: draw_leg_def Let_def split: option.splits prod.splits sum.splits)

lemma error_sticks:
  "road_legs E fs rt w (e # es) = (Inr ls, rt', w') \<Longrightarrow> l \<in> set ls \<Longrightarrow> lg_error l = Some e"
proof (induction fs arbitrary: rt w es ls l rt' w')
  case (Cons f fs)
  show ?case
  proof (cases "gf_rolls f = 0 \<or> find (\<lambda>b. b_id b = gf_base f) dispatch_bases = None")
    case True
    then have "road_legs E (f # fs) rt w (e # es) = road_legs E fs rt w (e # es)" by auto
    with Cons show ?thesis by metis
  next
    case False
    then obtain base where base: "gf_rolls f \<noteq> 0" "find (\<lambda>b. b_id b = gf_base f) dispatch_bases = Some base" by auto
    with Cons.prems(1) obtain a b where_to where leg: "land_leg f base = Inr (a, b, where_to)"
      by (cases "land_leg f base") auto
    obtain path on_roads detail rt1 w1 es1 where d: "draw_leg E rt w (e # es) f a b = ((path, on_roads, detail), rt1, w1, es1)"
      by (metis prod_cases3 prod_cases4)
    obtain es2 where es1: "es1 = e # es2" using draw_leg_errors [OF d] by auto
    obtain ls1 rt2 w2 where rest: "road_legs E fs rt1 w1 es1 = (Inr ls1, rt2, w2)"
      using Cons.prems(1) base leg d by (auto split: prod.splits sum.splits)
    with Cons.prems base leg d consider "lg_error l = first_error es1" | "l \<in> set ls1" by auto
    then show ?thesis
      using Cons.IH [OF rest [unfolded es1]] by cases (auto simp: first_error_def es1)
  qed
qed simp

lemma errors_counted: "(\<And>l. l \<in> set ls \<Longrightarrow> lg_error l = Some e) \<Longrightarrow> e \<noteq> [] \<Longrightarrow> length (leg_errors ls) = length ls"
  by (induction ls) (auto simp: leg_errors_def)

theorem one_failure_counts_for_all:
  assumes "road_legs E fs rt w (e # es) = (Inr ls, rt', w')" and "e \<noteq> []"
  shows "ls_failed (routing_summary ls) = length ls"
  using errors_counted [of ls e] error_sticks [OF assms(1)] assms(2)
  by (simp add: routing_summary_def Let_def)

text \<open>
  Behind the fallback the error never reaches the leg: an unreachable service looks like a
  router that was not configured.
\<close>

theorem fallback_hides_errors:
  assumes "osrm_route E R [a, b] w = (Inl exc, R', w')" and "caught exc"
  shows "draw_leg E (Some (Fallback (Osrm R) Straight n)) w errors f a b =
    (([[fst a, snd a], [fst b, snd b]], False, int_str (gf_travel f) @ '' min each way, modelled''),
     Some (Fallback (Osrm R') Straight (n + 1)), w', errors)"
  using assms by (simp add: draw_leg_def straight_route_def route_path_def split: prod.splits)

end
