(* ===== verification/Retrieval.thy ===== *)
theory Retrieval
  imports PyJson "HOL-Library.Product_Lexorder"
begin

text \<open>
  Retrieval over the prior-case knowledge base (\<open>retrieval.py\<close>): the tokens of a text,
  the BM25 index with its document frequencies, the ranked search and the score-weighted
  vote for a fault domain. The natural logarithm comes from the platform's mathematics
  library and is an argument; scores are rationals.
\<close>

section \<open>Tokens\<close>

text \<open>\<open>_STOPWORDS\<close>\<close>

definition stopwords :: "string list" where
  "stopwords = filter (\<lambda>w. w \<noteq> []) (split_on (CHR '' '')
     (''a an the and or of to in on at for with from is was were be been being this that '' @
      ''these those it its as by not no than then so if but out up down over under after '' @
      ''before during customer service issue problem fault case ticket incident report '' @
      ''reported observed noted seen found shows showed indicates indicated''))"

definition token_char :: "char \<Rightarrow> bool" where
  "token_char c \<longleftrightarrow> is_digit_char c \<or> (97 \<le> (of_char c :: nat) \<and> (of_char c :: nat) \<le> 122)"

text \<open>\<open>_TOKEN.findall(s)\<close>: the maximal runs of token characters, in order.\<close>

fun token_runs :: "string \<Rightarrow> string list" where
  "token_runs [] = []"
| "token_runs (c # s) =
     (if token_char c
      then (case token_runs s of
              [] \<Rightarrow> [[c]]
            | w # ws \<Rightarrow> (case s of d # _ \<Rightarrow> if token_char d then (c # w) # ws else [c] # w # ws | [] \<Rightarrow> [[c]]))
      else token_runs s)"

definition tokenize :: "string \<Rightarrow> string list" where
  "tokenize text = filter (\<lambda>t. t \<notin> set stopwords \<and> 1 < length t) (token_runs (lower text))"

section \<open>The index\<close>

record document =
  doc_id :: string
  doc_kind :: string
  doc_technology :: string
  doc_signature :: string
  doc_domain :: string
  doc_resolution :: string
  doc_delimiter :: string

record hit =
  h_doc :: string
  h_score :: rat
  h_domain :: string
  h_technology :: string
  h_kind :: string
  h_resolution :: string

record bm25 =
  bm_k1 :: rat
  bm_b :: rat
  bm_docs :: "document list"
  bm_tokens :: "string list list"
  bm_df :: "(string \<times> int) list"
  bm_avgdl :: rat

definition empty_index :: bm25 where
  "empty_index = \<lparr>bm_k1 = 3/2, bm_b = 3/4, bm_docs = [], bm_tokens = [], bm_df = [], bm_avgdl = 0\<rparr>"

definition df_of :: "(string \<times> int) list \<Rightarrow> string \<Rightarrow> int" where
  "df_of df t = (case map_of df t of None \<Rightarrow> 0 | Some n \<Rightarrow> n)"

text \<open>One document of the loop of \<open>add\<close>.\<close>

definition doc_tokens :: "document \<Rightarrow> string list" where
  "doc_tokens d = tokenize (doc_signature d @ '' '' @ doc_resolution d)"

definition add_document :: "bm25 \<Rightarrow> document \<Rightarrow> bm25" where
  "add_document ix d =
     (let toks = doc_tokens d in
      ix\<lparr>bm_docs := bm_docs ix @ [d], bm_tokens := bm_tokens ix @ [toks],
         bm_df := foldl (\<lambda>df t. dset t (df_of df t + 1) df) (bm_df ix) (dedup toks)\<rparr>)"

definition mean_length :: "string list list \<Rightarrow> rat" where
  "mean_length ts = (if ts = [] then 0 else of_nat (sum_list (map length ts)) / of_nat (length ts))"

definition add_documents :: "bm25 \<Rightarrow> document list \<Rightarrow> bm25" where
  "add_documents ix ds =
     (let ix' = foldl add_document ix ds in ix'\<lparr>bm_avgdl := mean_length (bm_tokens ix')\<rparr>)"

definition idf :: "(rat \<Rightarrow> rat) \<Rightarrow> bm25 \<Rightarrow> string \<Rightarrow> rat" where
  "idf lg ix t =
     (let n = of_nat (length (bm_docs ix)); df = of_int (df_of (bm_df ix) t)
      in max (lg (1 + (n - df + 1/2) / (df + 1/2))) 0)"

text \<open>What a query term adds to the score of a document with these tokens.\<close>

definition term_score :: "(rat \<Rightarrow> rat) \<Rightarrow> bm25 \<Rightarrow> string list \<Rightarrow> string \<Rightarrow> rat" where
  "term_score lg ix toks t =
     (let tf = of_nat (count_list toks t);
          avg = (if bm_avgdl ix = 0 then 1 else bm_avgdl ix)
      in if tf = 0 then 0
         else idf lg ix t * (tf * (bm_k1 ix + 1)) /
              (tf + bm_k1 ix * (1 - bm_b ix + bm_b ix * of_nat (length toks) / avg)))"

definition doc_score :: "(rat \<Rightarrow> rat) \<Rightarrow> bm25 \<Rightarrow> string list \<Rightarrow> string list \<Rightarrow> rat" where
  "doc_score lg ix q toks = foldl (\<lambda>s t. s + term_score lg ix toks t) 0 q"

definition technology_fits :: "string option \<Rightarrow> document \<Rightarrow> bool" where
  "technology_fits tech d \<longleftrightarrow>
     (case tech of None \<Rightarrow> True | Some t \<Rightarrow> t = [] \<or> doc_technology d \<in> {t, ''ANY''})"

definition hit_of :: "document \<Rightarrow> rat \<Rightarrow> hit" where
  "hit_of d s = \<lparr>h_doc = doc_id d, h_score = round_dec 4 s, h_domain = doc_domain d,
     h_technology = doc_technology d, h_kind = doc_kind d, h_resolution = doc_resolution d\<rparr>"

definition scored_hits :: "(rat \<Rightarrow> rat) \<Rightarrow> bm25 \<Rightarrow> string list \<Rightarrow> string option \<Rightarrow> hit list" where
  "scored_hits lg ix q tech =
     map (\<lambda>(d, toks). hit_of d (doc_score lg ix q toks))
       (filter (\<lambda>(d, toks). technology_fits tech d \<and> toks \<noteq> [] \<and> 0 < doc_score lg ix q toks)
          (zip (bm_docs ix) (bm_tokens ix)))"

text \<open>\<open>xs[:k]\<close>: a negative bound counts from the end.\<close>

definition slice_to :: "int \<Rightarrow> 'a list \<Rightarrow> 'a list" where
  "slice_to k xs = take (nat (if k < 0 then int (length xs) + k else k)) xs"

text \<open>The stable sort by the key \<open>(-h.score, h.doc_id)\<close>.\<close>

definition rank_hits :: "hit list \<Rightarrow> hit list" where
  "rank_hits hs = sort_key (\<lambda>h. (- h_score h, h_doc h)) hs"

definition search :: "(rat \<Rightarrow> rat) \<Rightarrow> bm25 \<Rightarrow> string \<Rightarrow> int \<Rightarrow> string option \<Rightarrow> hit list" where
  "search lg ix query k tech = slice_to k (rank_hits (scored_hits lg ix (tokenize query) tech))"

section \<open>The vote\<close>

record domain_vote =
  v_domain :: "string option"
  v_confidence :: rat
  v_margin :: rat
  v_supporting :: "string list"

definition votes_of :: "rat \<Rightarrow> hit list \<Rightarrow> hit list" where
  "votes_of min_score hs =
     filter (\<lambda>h. h_kind h = ''prior_case'' \<and> min_score \<le> h_score h \<and> h_domain h \<noteq> []) hs"

definition weight_of :: "(string \<times> rat) list \<Rightarrow> string \<Rightarrow> rat" where
  "weight_of ws d = (case map_of ws d of None \<Rightarrow> 0 | Some w \<Rightarrow> w)"

definition support_of :: "(string \<times> string list) list \<Rightarrow> string \<Rightarrow> string list" where
  "support_of spt d = (case map_of spt d of None \<Rightarrow> [] | Some xs \<Rightarrow> xs)"

definition count_vote ::
  "(string \<times> rat) list \<times> (string \<times> string list) list \<Rightarrow> hit \<Rightarrow> (string \<times> rat) list \<times> (string \<times> string list) list" where
  "count_vote acc h = (case acc of (ws, spt) \<Rightarrow>
     (dset (h_domain h) (weight_of ws (h_domain h) + h_score h) ws,
      dset (h_domain h) (support_of spt (h_domain h) @ [h_doc h]) spt))"

definition tally :: "rat \<Rightarrow> hit list \<Rightarrow> (string \<times> rat) list \<times> (string \<times> string list) list" where
  "tally min_score hs = foldl count_vote ([], []) (votes_of min_score hs)"

definition vote_confidence :: "rat \<Rightarrow> rat" where
  "vote_confidence share = round_dec 3 (min (92/100) (max (40/100) (40/100 + 52/100 * share)))"

definition vote_domain :: "rat \<Rightarrow> hit list \<Rightarrow> domain_vote res" where
  "vote_domain min_score hs = (case tally min_score hs of (ws, spt) \<Rightarrow>
     (case sort_key (\<lambda>kv. - snd kv) ws of
        [] \<Rightarrow> Inr \<lparr>v_domain = None, v_confidence = 0, v_margin = 0, v_supporting = []\<rparr>
      | (d, w) # rest \<Rightarrow>
          (let total = sum_list (map snd ws);
               runner = (case rest of [] \<Rightarrow> 0 | (_, r) # _ \<Rightarrow> r)
           in if total = 0 then Inl (ZeroDivisionError ''division by zero'')
              else Inr \<lparr>v_domain = Some d, v_confidence = vote_confidence (w / total),
                        v_margin = round_dec 3 ((w - runner) / total),
                        v_supporting = support_of spt d\<rparr>)))"

definition default_min_score :: rat where "default_min_score = 1/2"

section \<open>The index as a whole\<close>

text \<open>
  What \<open>add\<close> keeps: the token lists belong to the documents, a term's document frequency
  is the number of documents that hold it, and the average length is that of the documents.
\<close>

definition docs_with :: "string list list \<Rightarrow> string \<Rightarrow> int" where
  "docs_with ts t = int (length (filter (\<lambda>toks. t \<in> set toks) ts))"

definition counts_ok :: "bm25 \<Rightarrow> bool" where
  "counts_ok ix \<longleftrightarrow> bm_tokens ix = map doc_tokens (bm_docs ix) \<and>
     df_of (bm_df ix) = docs_with (bm_tokens ix)"

definition index_ok :: "bm25 \<Rightarrow> bool" where
  "index_ok ix \<longleftrightarrow> counts_ok ix \<and> bm_avgdl ix = mean_length (bm_tokens ix)"

lemma df_of_dset [simp]: "df_of (dset t n df) u = (if u = t then n else df_of df u)"
  by (simp add: df_of_def)

lemma df_of_bump:
  "distinct ts \<Longrightarrow> df_of (foldl (\<lambda>df t. dset t (df_of df t + 1) df) df ts) u =
     df_of df u + (if u \<in> set ts then 1 else 0)"
  by (induction ts arbitrary: df) auto

lemma empty_index_ok: "index_ok empty_index"
  by (simp add: index_ok_def counts_ok_def empty_index_def fun_eq_iff df_of_def docs_with_def
      mean_length_def)

lemma add_document_counts: "counts_ok ix \<Longrightarrow> counts_ok (add_document ix d)"
  by (simp add: counts_ok_def add_document_def Let_def fun_eq_iff df_of_bump docs_with_def)

lemma add_documents_counts: "counts_ok ix \<Longrightarrow> counts_ok (foldl add_document ix ds)"
  by (induction ds arbitrary: ix) (simp_all add: add_document_counts)

lemma add_documents_ok: "index_ok ix \<Longrightarrow> index_ok (add_documents ix ds)"
  using add_documents_counts [of ix ds]
  by (simp add: index_ok_def add_documents_def Let_def counts_ok_def)

lemma add_documents_docs: "bm_docs (add_documents ix ds) = bm_docs ix @ ds"
proof -
  have "bm_docs (foldl add_document ix ds) = bm_docs ix @ ds"
    by (induction ds arbitrary: ix) (simp_all add: add_document_def Let_def)
  then show ?thesis by (simp add: add_documents_def Let_def)
qed

text \<open>The argument of the logarithm is positive: the frequencies are between zero and the corpus size.\<close>

lemma df_bounds: "counts_ok ix \<Longrightarrow> 0 \<le> df_of (bm_df ix) t \<and> df_of (bm_df ix) t \<le> int (length (bm_docs ix))"
  by (auto simp: counts_ok_def docs_with_def intro: order_trans [OF length_filter_le])

lemma idf_nonneg: "0 \<le> idf lg ix t"
  by (simp add: idf_def Let_def)

section \<open>The search\<close>

lemma set_slice_to: "set (slice_to k xs) \<subseteq> set xs"
  by (simp add: slice_to_def set_take_subset)

lemma search_found:
  assumes "index_ok ix" and "h \<in> set (search lg ix query k tech)"
  shows "\<exists>d \<in> set (bm_docs ix). technology_fits tech d \<and>
           0 < doc_score lg ix (tokenize query) (doc_tokens d) \<and>
           h = hit_of d (doc_score lg ix (tokenize query) (doc_tokens d))"
proof -
  have "h \<in> set (scored_hits lg ix (tokenize query) tech)"
    using assms(2) set_slice_to by (fastforce simp: search_def rank_hits_def)
  then obtain d toks where "(d, toks) \<in> set (zip (bm_docs ix) (bm_tokens ix))"
    "technology_fits tech d" "0 < doc_score lg ix (tokenize query) toks"
    "h = hit_of d (doc_score lg ix (tokenize query) toks)"
    by (auto simp: scored_hits_def)
  moreover from this(1) assms(1) have "d \<in> set (bm_docs ix)" "toks = doc_tokens d"
    by (auto simp: index_ok_def counts_ok_def zip_map2 zip_same_conv_map)
  ultimately show ?thesis by blast
qed

lemma search_ranked:
  "sorted_wrt (\<lambda>a b. h_score b < h_score a \<or> h_score a = h_score b \<and> h_doc a \<le> h_doc b)
     (search lg ix query k tech)"
proof -
  let ?hs = "rank_hits (scored_hits lg ix (tokenize query) tech)"
  have "sorted (map (\<lambda>h. (- h_score h, h_doc h)) ?hs)"
    by (simp add: rank_hits_def)
  then have "sorted_wrt (\<lambda>a b. h_score b < h_score a \<or> h_score a = h_score b \<and> h_doc a \<le> h_doc b) ?hs"
    by (auto simp: sorted_wrt_map less_eq_prod_def elim!: sorted_wrt_mono_rel [rotated])
  then show ?thesis
    unfolding search_def slice_to_def by (rule sorted_wrt_take)
qed

section \<open>The vote over the hits\<close>

definition domain_weight :: "hit list \<Rightarrow> string \<Rightarrow> rat" where
  "domain_weight hs d = sum_list (map h_score (filter (\<lambda>h. h_domain h = d) hs))"

lemma weight_of_dset [simp]: "weight_of (dset d w ws) e = (if e = d then w else weight_of ws e)"
  by (simp add: weight_of_def)

lemma support_of_dset [simp]: "support_of (dset d w ws) e = (if e = d then w else support_of ws e)"
  by (simp add: support_of_def)

lemma count_votes_weight:
  "weight_of (fst (foldl count_vote acc hs)) d = weight_of (fst acc) d + domain_weight hs d"
  by (induction hs arbitrary: acc) (auto simp: count_vote_def domain_weight_def split: prod.splits)

lemma count_votes_support:
  "support_of (snd (foldl count_vote acc hs)) d =
     support_of (snd acc) d @ map h_doc (filter (\<lambda>h. h_domain h = d) hs)"
  by (induction hs arbitrary: acc) (auto simp: count_vote_def split: prod.splits)

lemma count_votes_keys:
  "fst ` set (fst (foldl count_vote acc hs)) = fst ` set (fst acc) \<union> h_domain ` set hs"
  by (induction hs arbitrary: acc) (auto simp: count_vote_def split: prod.splits)

lemma count_votes_distinct:
  "distinct (map fst (fst acc)) \<Longrightarrow> distinct (map fst (fst (foldl count_vote acc hs)))"
  by (induction hs arbitrary: acc) (auto simp: count_vote_def distinct_dset split: prod.splits)

lemma tally_weights:
  "tally m hs = (ws, spt) \<Longrightarrow> (d, w) \<in> set ws \<Longrightarrow>
   w = domain_weight (votes_of m hs) d \<and> d \<in> h_domain ` set (votes_of m hs)"
proof -
  assume t: "tally m hs = (ws, spt)" and dw: "(d, w) \<in> set ws"
  have "distinct (map fst ws)"
    using count_votes_distinct [of "([], [])" "votes_of m hs"] t by (simp add: tally_def)
  then have "weight_of ws d = w"
    using dw by (simp add: weight_of_def)
  moreover have "weight_of ws d = domain_weight (votes_of m hs) d"
    using count_votes_weight [of "([], [])" "votes_of m hs" d] t by (simp add: tally_def weight_of_def)
  moreover have "d \<in> h_domain ` set (votes_of m hs)"
    using count_votes_keys [of "([], [])" "votes_of m hs"] t dw by (force simp: tally_def)
  ultimately show ?thesis by simp
qed

lemma tally_support:
  "tally m hs = (ws, spt) \<Longrightarrow>
   support_of spt d = map h_doc (filter (\<lambda>h. h_domain h = d) (votes_of m hs))"
  using count_votes_support [of "([], [])" "votes_of m hs" d] by (simp add: tally_def support_of_def)

lemma tally_empty: "tally m hs = (ws, spt) \<Longrightarrow> ws = [] \<longleftrightarrow> votes_of m hs = []"
  using count_votes_keys [of "([], [])" "votes_of m hs"] by (auto simp: tally_def)

lemma domain_weight_pos:
  "0 < m \<Longrightarrow> d \<in> h_domain ` set (votes_of m hs) \<Longrightarrow> 0 < domain_weight (votes_of m hs) d"
proof -
  assume m: "0 < m" and "d \<in> h_domain ` set (votes_of m hs)"
  then obtain h where h: "h \<in> set (votes_of m hs)" "h_domain h = d" by auto
  let ?xs = "map h_score (filter (\<lambda>h. h_domain h = d) (votes_of m hs))"
  have pos: "x \<in> set ?xs \<Longrightarrow> 0 < x" for x
    using m by (auto simp: votes_of_def)
  have "0 < h_score h" using h m by (auto simp: votes_of_def)
  also have "h_score h \<le> sum_list ?xs"
  proof (rule member_le_sum_list)
    show "h_score h \<in> set ?xs" using h by simp
  qed (rule less_imp_le, rule pos)
  finally show ?thesis by (simp add: domain_weight_def)
qed

lemma weights_pos: "0 < m \<Longrightarrow> tally m hs = (ws, spt) \<Longrightarrow> (d, w) \<in> set ws \<Longrightarrow> 0 < w"
  using tally_weights [of m hs ws spt d w] domain_weight_pos [of m d hs] by simp

lemma domain_weight_absent: "d \<notin> h_domain ` set hs \<Longrightarrow> domain_weight hs d = 0"
proof -
  assume "d \<notin> h_domain ` set hs"
  then have "filter (\<lambda>h. h_domain h = d) hs = []" by (auto simp: filter_empty_conv)
  then show ?thesis by (simp add: domain_weight_def)
qed

text \<open>The confidence stays in its band and grows with the winner's share.\<close>

lemma vote_confidence_band: "2/5 \<le> vote_confidence s \<and> vote_confidence s \<le> 92/100"
proof -
  let ?x = "min (92/100) (max (40/100) (40/100 + 52/100 * s))"
  have "round_dec 3 (2/5) \<le> round_dec 3 ?x" "round_dec 3 ?x \<le> round_dec 3 (92/100)"
    by (rule round_dec_mono, simp) (rule round_dec_mono, rule min.cobounded1)
  moreover have "round_dec 3 (2/5) = 2/5" "round_dec 3 (92/100) = 92/100"
    by (simp_all add: round_dec_def round_he_def)
  ultimately show ?thesis by (simp add: vote_confidence_def)
qed

lemma vote_confidence_mono: "s \<le> t \<Longrightarrow> vote_confidence s \<le> vote_confidence t"
  unfolding vote_confidence_def by (rule round_dec_mono) (auto simp: min_def max_def)

lemma round_margin: "0 \<le> r \<Longrightarrow> r \<le> 1 \<Longrightarrow> 0 \<le> round_dec 3 r \<and> round_dec 3 r \<le> 1"
  using round_dec_mono [of 0 r 3] round_dec_mono [of r 1 3]
  by (simp add: round_dec_def round_he_def)

text \<open>The heaviest entry leads the sorted weights, and its share of the total is at most one.\<close>

lemma head_of_weights:
  assumes "sort_key (\<lambda>kv. - snd kv) ws = (d, w) # rest" and pos: "\<And>e u. (e, u) \<in> set ws \<Longrightarrow> 0 < (u :: rat)"
  shows "(d, w) \<in> set ws" and "\<And>e u. (e, u) \<in> set ws \<Longrightarrow> u \<le> w" and "w \<le> sum_list (map snd ws)"
    and "set rest \<subseteq> set ws"
proof -
  have s: "set ((d, w) # rest) = set ws"
    by (metis assms(1) set_sort)
  then show in_ws: "(d, w) \<in> set ws" and "set rest \<subseteq> set ws" by auto
  have "sorted (map (\<lambda>kv. - snd kv) ((d, w) # rest))"
    by (metis assms(1) sorted_sort_key)
  then show "u \<le> w" if "(e, u) \<in> set ws" for e u
    using that s by fastforce
  show "w \<le> sum_list (map snd ws)"
  proof (rule member_le_sum_list)
    show "w \<in> set (map snd ws)" using in_ws by force
  qed (use pos in \<open>fastforce intro: less_imp_le\<close>)
qed

theorem vote_is_founded:
  assumes m: "0 < m"
  shows "\<exists>v. vote_domain m hs = Inr v \<and> (v_domain v = None \<longleftrightarrow> votes_of m hs = []) \<and>
    (\<forall>d. v_domain v = Some d \<longrightarrow>
       2/5 \<le> v_confidence v \<and> v_confidence v \<le> 92/100 \<and> 0 \<le> v_margin v \<and> v_margin v \<le> 1 \<and>
       v_supporting v = map h_doc (filter (\<lambda>h. h_domain h = d) (votes_of m hs)) \<and>
       v_supporting v \<noteq> [] \<and>
       (\<forall>e. domain_weight (votes_of m hs) e \<le> domain_weight (votes_of m hs) d))"
proof -
  obtain ws spt where t: "tally m hs = (ws, spt)" by (cases "tally m hs") auto
  have pos: "0 < u" if "(e, u) \<in> set ws" for e u
    using that by (rule weights_pos [OF m t])
  show ?thesis
  proof (cases "sort_key (\<lambda>kv. - snd kv) ws")
    case Nil
    then have "ws = []" by (metis length_0_conv length_sort)
    with Nil show ?thesis
      using tally_empty [OF t] by (simp add: vote_domain_def t)
  next
    case (Cons a rest)
    obtain d w where a: "a = (d, w)" by (cases a)
    let ?total = "sum_list (map snd ws)"
    let ?runner = "case rest of [] \<Rightarrow> 0 | (_, r) # _ \<Rightarrow> r"
    have top: "(d, w) \<in> set ws" "\<And>e u. (e, u) \<in> set ws \<Longrightarrow> u \<le> w" "w \<le> ?total" "set rest \<subseteq> set ws"
      using head_of_weights [of ws d w rest] Cons a pos by blast+
    have w: "0 < w" "w \<le> ?total" "w = domain_weight (votes_of m hs) d" "d \<in> h_domain ` set (votes_of m hs)"
      using pos [OF top(1)] top(3) tally_weights [OF t top(1)] by auto
    have runner: "0 \<le> ?runner" "?runner \<le> w"
    proof -
      have "0 \<le> r \<and> r \<le> w" if "(e, r) \<in> set rest" for e r
        using that top(2,4) pos by (meson less_imp_le subsetD)
      then show "0 \<le> ?runner" "?runner \<le> w"
        using w(1) by (fastforce split: list.split)+
    qed
    have margin: "0 \<le> (w - ?runner) / ?total" "(w - ?runner) / ?total \<le> 1"
      using runner w(1,2) by (auto simp: field_simps)
    have most: "domain_weight (votes_of m hs) e \<le> w" for e
    proof (cases "e \<in> h_domain ` set (votes_of m hs)")
      case True
      then have "e \<in> fst ` set ws"
        using count_votes_keys [of "([], [])" "votes_of m hs"] t by (simp add: tally_def)
      then obtain u where u: "(e, u) \<in> set ws" by force
      from top(2) [OF u] tally_weights [OF t u] show ?thesis by simp
    next
      case False
      with w(1) show ?thesis by (simp add: domain_weight_absent)
    qed
    define v where "v = \<lparr>v_domain = Some d, v_confidence = vote_confidence (w / ?total),
      v_margin = round_dec 3 ((w - ?runner) / ?total), v_supporting = support_of spt d\<rparr>"
    have eq: "vote_domain m hs = Inr v"
      using w(1,2) by (simp add: vote_domain_def t Cons a v_def Let_def)
    have some: "votes_of m hs \<noteq> []" "filter (\<lambda>h. h_domain h = d) (votes_of m hs) \<noteq> []"
      using w(4) by (auto simp: filter_empty_conv)
    have vparts: "v_domain v = Some d" "v_confidence v = vote_confidence (w / ?total)"
      "v_margin v = round_dec 3 ((w - ?runner) / ?total)" "v_supporting v = support_of spt d"
      by (simp_all add: v_def)
    show ?thesis
      using eq some w(3) most vote_confidence_band [of "w / ?total"] round_margin [OF margin]
      by (intro exI [of _ v]) (simp only: vparts tally_support [OF t], simp)
  qed
qed

text \<open>
  The confidence reads the winner's share alone: two domains in a dead heat, with no margin
  between them, still give 0.66.
\<close>

definition vote_example :: "string \<Rightarrow> string \<Rightarrow> rat \<Rightarrow> hit" where
  "vote_example i d s = \<lparr>h_doc = i, h_score = s, h_domain = d, h_technology = ''ANY'',
     h_kind = ''prior_case'', h_resolution = []\<rparr>"

lemma dead_heat_confidence:
  "vote_domain default_min_score [vote_example ''A'' ''drop'' 2, vote_example ''B'' ''hfc_tap'' 2]
   = Inr \<lparr>v_domain = Some ''drop'', v_confidence = 66/100, v_margin = 0, v_supporting = [''A'']\<rparr>"
  by code_simp

end
