(* ===== verification/Spec2Isabelle.thy ===== *)
theory Spec2Isabelle
  imports Sha256 WorkflowLaws DecisionLaws ToolLaws EngineLaws AgentLaws CommercialLaws PipelineLaws TwinLiveLaws TwinMirrorDemo EffortLaws MeasurementLaws InstallLaws EvidenceBatchLaws EstateLaws FaultLaws MapLayers Retrieval
begin

text \<open>
  Verification library of the LPR CPE service-assurance program (\<open>src/src/lpr_cpe_demo\<close>).

  The program takes a customer-premises fault from its first signal to a closed ticket. A
  workflow engine drives one case through its stages and stops where a person has to decide;
  every effect it has goes through a tool server that demands a signed approval and replays
  what it has already done; an agent layer asks a language model and falls back to rules; a
  commercial ranking orders the work; and a predictive branch scans the network every day,
  remedies what it may remedy alone and hands the rest over as incidents. All paths named
  below are relative to \<open>src/src/lpr_cpe_demo\<close>.

  Foundations.
  \<^item> \<open>Prelude\<close>: exceptions, results (\<open>res\<close>, \<open>Inl\<close> an exception), fallible calls on a state
    (\<open>eff\<close>), printing of numbers, joining of strings. \<open>PyJson\<close>: dynamically typed values,
    ordered dictionaries, \<open>json.dumps\<close>. \<open>JsonParse\<close>: \<open>json.loads\<close>. \<open>Digest\<close>, \<open>Sha256\<close>,
    \<open>Base64\<close>, \<open>Datetime\<close>: the standard library's hashing, encodings and timestamps as the
    program uses them. A digest is an argument everywhere; the locale \<open>digest_fun\<close> names what
    is used of it and \<open>Sha256\<close> discharges it on 32-bit words.

  The case workflow.
  \<^item> \<open>Domain\<close> (\<open>domain.py\<close>): the enumerations and records, events, approvals, the stage order.
  \<^item> \<open>Controls\<close> (\<open>controls.py\<close>): idempotency keys, the SLA rule, and the gate of the diagnosis.
  \<^item> \<open>Security\<close> (\<open>mcp_server/security.py\<close>): the approval token, issued and validated.
  \<^item> \<open>EffectStore\<close>, \<open>Tools\<close> (\<open>mcp_server/store.py\<close>, \<open>mcp_server/tools.py\<close>,
    \<open>mcp_client/client.py\<close>): the store of executed effects and the tool registry. The locale
    \<open>effect_provider\<close> is what the registry needs of the store, \<open>action_server\<close> what the engine
    needs of the server; both are interpreted on the code's model.
  \<^item> \<open>Repository\<close> (\<open>persistence/repository.py\<close>): the three tables behind the workflow.
  \<^item> \<open>Engine\<close> (\<open>workflow/engine.py\<close>): a handler per stage, the dispatching step and the loop;
    \<open>Service\<close> (\<open>workflow/service.py\<close>): starting a case and deciding an approval;
    \<open>Assistant\<close> (\<open>llm/service.py\<close>): the deterministic assistant; \<open>AssistantChoice\<close>
    (\<open>llm/service.py\<close>, \<open>config.py\<close>): which assistant a deployment gets, the external one as a
    function of what its client's constructor does and its structured calls answer.
  \<^item> \<open>EngineFacts\<close> collects what each handler leaves alone, \<open>EngineProps\<close> the step's refinement
    of the stage machine, the invariant and the reachable histories (\<open>reach\<close>, an inductive
    relation of starts, runs and decisions). \<open>Demo\<close>, \<open>DemoRun\<close> follow one case to its closure.
    \<open>WorkflowLaws\<close>: no effect without approval, closed means verified, the budgets, the end of
    the loop. \<open>DecisionLaws\<close>: who may decide, and that a decision is final. \<open>ToolLaws\<close>: what has
    been executed is replayed after any further calls, an approval is used once, tokens are
    scoped and signed. \<open>EngineLaws\<close>: acceptance without a person, and that a failing assistant
    gives way to a copy of the deterministic diagnosis whatever the settings are.

  The agent layer.
  \<^item> \<open>Geography\<close>, \<open>Plant\<close> (\<open>geography.py\<close>, \<open>plant.py\<close>): sites, bases, travel plans, counts of
    households and elements, network identifiers and blast radius.
  \<^item> \<open>Guards\<close> (\<open>agents/guards.py\<close>): the policy check of an action. \<open>Provider\<close>
    (\<open>agents/provider.py\<close>, \<open>agents/status.py\<close>): the model providers, the retry loop, the
    status record. \<open>Agents\<close> (\<open>agents/base.py\<close>, \<open>agents/decisions.py\<close>): reading and checking an
    answer, with the rule-based decision as fallback; the locale \<open>decision_parser\<close> states what
    a checked answer is and each of the four agents' parsers is an interpretation.
    \<open>AgentLaws\<close> states the properties.

  Commercial prioritisation.
  \<^item> \<open>Commercial\<close>, \<open>Schedule\<close> (\<open>commercial.py\<close>, \<open>benchmarks.py\<close>): value at risk, impact,
    ranking, who is pushed down, crew slots and the day schedule; \<open>CommercialLaws\<close>.

  The predictive branch.
  \<^item> \<open>Scanner\<close> (\<open>predictive/config.py\<close>, \<open>signals.py\<close>, \<open>scanner.py\<close>): telemetry, trends,
    findings, the scan. \<open>Pipeline\<close> (\<open>pipeline.py\<close>): remediation, the policy check, the gate.
    \<open>Handoff\<close> (\<open>handoff.py\<close>, \<open>service.py\<close>): incidents, merging, flag history, the daily run.
    \<open>PredictiveLaws\<close>: a scan accounts for every modem and caps away only the least urgent.
    \<open>PipelineLaws\<close>: the limits of remediation, closure without a person, open tickets.

  The digital twin (files under \<open>digital_twin\<close>).
  \<^item> \<open>TwinDecision\<close> (\<open>models.py\<close>, \<open>decision.py\<close>, \<open>_agent_decision\<close> of \<open>orchestrator.py\<close>): the
    scenario table, the rule-based decision, the agent's answer and their reconciliation.
  \<^item> \<open>TwinCase\<close> (\<open>workflow.py\<close>): the case store with its revisions, and the step relations
    \<open>twin_step\<close> and \<open>case_step\<close> of concurrent requests that read a case and write it later.
    \<open>TwinLaws\<close> states its properties.
  \<^item> \<open>TwinRecords\<close> (\<open>orchestrator.py\<close>): the rows of every exported table, the footprint of
    subscribers, its sample, the first records of a case and what an executed action adds.
    \<open>TwinQuality\<close>, \<open>TwinGate\<close>: the twenty groups of checks of \<open>quality_check\<close>.
    \<open>TwinGateLaws\<close>: what an accepted run guarantees.
  \<^item> \<open>TwinRun\<close> (\<open>care.py\<close>): care tickets and their correlation. \<open>TwinLive\<close> (\<open>orchestrator.py\<close>,
    \<open>api.py\<close>): the generator's loop, its volume checks, the rows a live decision adds and who may
    decide. \<open>TwinLiveLaws\<close>: the subscriber master and its sample.
  \<^item> \<open>TwinMirror\<close> (\<open>orchestrator.py\<close>, \<open>api.py\<close>): a run on disk, that is its dataset files and its
    catalog, and the mirror of a stored decision: load, plan, judge by the gate, then write the
    changed dataset files one after another and the catalog last. Whether each load and write
    succeeds is an argument, so a mirror may stop after any file. The decision route stores the
    decision first and answers a refusal with the error, the issues and the advice of the code.
    \<open>TwinMirrorLaws\<close>: decisions keep an accepted run accepted while the files can be written; a
    refused mirror strands its case; an interrupted mirror leaves tables the gate rejects and
    no decision can repair; of two mirrors that overlap, one is lost. Requests are otherwise
    taken one at a time. \<open>TwinDemo\<close>, \<open>TwinMirrorDemo\<close> follow a small run and decisions on it.
  \<^item> Instants are microseconds since the epoch, a row is a record of its typed columns, a table a
    list of rows; the predictive snapshot a run takes from the scan is an argument. The search
    for the sample's step is a \<open>partial_function\<close>, and that it ends is proved.

  Installation watch and measurement.
  \<^item> \<open>Tables\<close> holds the indexing and grouping of rows that several components share.
  \<^item> \<open>Install\<close>, \<open>InstallWatch\<close> (\<open>digital_twin/install_assurance.py\<close>, projection of
    \<open>caddi.py\<close>): the cohort, the plan of a scenario, observations, actions, incidents, episodes,
    the summary and the creation of a watch. \<open>InstallLaws\<close>: the cohort is complete, the
    observations leave no gap, a passed episode is stable and mature, the summary reconciles,
    no row of any kind writes to production, creation is idempotent. Hours are rationals, instants microseconds, the digest is an argument.
  \<^item> \<open>Effort\<close> (\<open>effort.py\<close>, \<open>ab_metrics.py\<close>): labour rates, the ledger of an incident, the walk
    through its resolution, the cost of errors and the metrics of an arm. \<open>EffortLaws\<close>: what a
    misdispatch adds, and that the account of an arm counts what its report counts.
  \<^item> \<open>Measurement\<close> (\<open>measurement.py\<close>): the metric table, the root grouping, the partition of
    states and the projection of the repository. \<open>MeasurementLaws\<close>: reconciliation, totality, and
    agreement with the dashboard of the service over the most recently updated cases.

  External evidence (\<open>digital_twin/external_evidence.py\<close>).
  \<^item> \<open>CsvText\<close>: the state machine of \<open>csv.reader\<close> and the rows of \<open>DictReader\<close>; what a reader yields
    is a list that may end in a failure.
  \<^item> \<open>Evidence\<close>: sources, findings, the passes that normalise a row, the loop over a file.
    \<open>EvidenceChecks\<close>: duplicates, correlation with the identity map, plausibility, order.
    \<open>EvidenceReport\<close>: dispositions, reports, the validation as a whole. \<open>EvidenceLaws\<close>: dispositions
    are a partition, accepted records are correlated, and which malformed values raise.
  \<^item> \<open>EvidenceAdvice\<close>: the recommendations of the rules, the payload, the agent's answer and its
    checks, the reconciliation. \<open>EvidenceBatch\<close>: the life of a batch and its projection.
    \<open>EvidenceBatchLaws\<close>: the agent cannot override the rules, reports belong to the current files, a
    materialised batch is final, templates read back.
  \<^item> The language model is a function from the payload to a result or an exception; the size of a
    payload, the clock, fresh identifiers and the digest are arguments.

  Synthetic data, maps, routing and retrieval.
  \<^item> \<open>Draws\<close>: the weighted choice of the random generator as a function of its draw.
  \<^item> \<open>Estate\<close> (\<open>predictive/params.py\<close>, \<open>predictive/estate.py\<close>, \<open>predictive/scan.py\<close>): the simulated
    modems, a day's telemetry, the fit, thresholds, forecast and classification. \<open>EstateLaws\<close>: the
    fit is the least-squares line; a forecast ticket rests on such a line that is steep, well
    fitted and reaches its threshold inside the horizon.
  \<^item> \<open>FaultGen\<close> (\<open>fault_generator.py\<close>): a synthetic fault with its places, crew and costs.
    \<open>FaultLaws\<close>: crew, place, households and technology agree with the domain; every request over
    the known sites is served.
  \<^item> \<open>Routing\<close> (\<open>routing.py\<close>): routers over an abstract service, the memo and the files are state.
    \<open>MapLayers\<close> (\<open>geo_layers.py\<close>): the layer records; the road legs thread the router through.
  \<^item> \<open>Retrieval\<close> (\<open>retrieval.py\<close>): tokens, the BM25 index, the ranked search and the vote, with
    the logarithm as an argument: the index counts its documents, hits come ranked from documents
    that fit, the winner of a vote has the greatest weight.

  How the code is read.
  \<^item> A record has the fields of the class, an enumeration the members, a handler or method is a
    definition of the same name. Exceptions and early returns are branches of the result.
  \<^item> Shared state is passed explicitly: the engine's world is the database, the tool server
    and the count of failed telemetry; the clock is read once per step.
  \<^item> Floats are rationals: the theorems are about the arithmetic that is meant, not about
    rounding. Where the code rounds (\<open>round\<close>, format \<open>g\<close>) the rounding is modelled. Texts are
    lists of characters below code point 256, so a byte order mark before a table, which the
    code strips, is not among them. The literals \<open>inf\<close> and \<open>nan\<close> have no rational value and are
    not read as numbers. Trigonometry, square roots and powers of one half
    are arguments of the definitions that use them.
  \<^item> What is stored and read back as a document (\<open>model_dump_json\<close> and \<open>model_validate_json\<close> of the
    repository) comes back as the record that was stored.
  \<^item> The random generators of the synthetic telemetry, the network, the language model and the
    clock are arguments: a theorem holds for whatever they return.

  Bounds and fuel.
  \<^item> \<open>run_until_pause\<close> iterates a step as the code does, at most \<open>st_max_steps\<close> times and then
    escalates; that it ends is a property of the workflow.
  \<^item> The JSON parser takes the length of its text as fuel; each recursive call consumes a
    character. \<open>group_digits\<close> and \<open>small_exponent\<close> take the number of digits and the range of
    exponents their argument can have.
  \<^item> The provider's retry loop runs over the configured number of attempts.

  Not modelled.
  \<^item> Pages, charts, maps, HTTP routes and the command line (\<open>ui\<close>, \<open>api\<close>, \<open>dashboard.py\<close>,
    \<open>html_charts.py\<close>, \<open>geo_layers.py\<close>, \<open>digital_twin\<close>'s \<open>api.py\<close>, \<open>cli.py\<close>,
    \<open>streamlit_app.py\<close> and \<open>executive_style.py\<close>): they render or pass requests on.
  \<^item> The northbound adapters, the LangGraph wrapper and the process configuration: they call
    third-party services and libraries.
  \<^item> Not yet modelled: the telemetry export, the predictive bridge and the projections of the
    digital twin for reports, the northbound contracts.
\<close>

end
